(* ===== verification/Snag_Prelude.thy ===== *)
theory Snag_Prelude
  imports Main "HOL-Library.Char_ord" "HOL-Library.List_Lexorder" "HOL-Library.Word"
begin

text \<open>
  Shared vocabulary of the development.  A Go \<^verbatim>\<open>string\<close> and a Go \<^verbatim>\<open>[]byte\<close> are both
  byte sequences, so both are HOL \<^typ>\<open>string\<close> values (a \<^typ>\<open>char\<close> is one byte).  Instants are
  nanoseconds since the Unix epoch.  A 64-bit signed integer is an \<^typ>\<open>int\<close>; the places where the
  source adds to one go through \<open>wrap64\<close>, and PostgreSQL's own range errors are explicit branches.

  The theory holds the pieces of the Go standard library that the components use (UTF-8 decoding,
  \<^verbatim>\<open>strings.TrimSpace\<close>, decimal formatting, hexadecimal encoding), generic facts on lists and
  tables, and the contract \<open>write_once\<close> that every immutable record store of the program promises.
\<close>

section \<open>Types and collections\<close>

type_synonym bytes = string
type_synonym time = int

named_theorems go_defs \<open>definitions of the standard-library helpers\<close>
named_theorems table_simps \<open>facts about tables kept as lists of rows\<close>

section \<open>Machine integers\<close>

definition max_int64 :: int where
  "max_int64 = 9223372036854775807"

text \<open>Two's complement wrap-around of Go's \<^verbatim>\<open>int64\<close> addition.\<close>

definition wrap64 :: "int \<Rightarrow> int" where
  "wrap64 n = (n + 9223372036854775808) mod 18446744073709551616 - 9223372036854775808"

text \<open>The conversion \<^verbatim>\<open>uint64(x)\<close> of an \<^verbatim>\<open>int64\<close>.\<close>

definition uint64 :: "int \<Rightarrow> nat" where
  "uint64 x = nat (x mod 2 ^ 64)"

section \<open>UTF-8 and white space\<close>

text \<open>\<^verbatim>\<open>utf8.DecodeRune\<close>: the rune and its width; an invalid sequence is U+FFFD of width one.\<close>

definition byte_at :: "bytes \<Rightarrow> nat \<Rightarrow> nat" where
  "byte_at s i = (if i < length s then of_char (s ! i) else 0)"

definition cont_byte :: "nat \<Rightarrow> bool" where
  "cont_byte b = (128 \<le> b \<and> b \<le> 191)"

definition decode_rune :: "bytes \<Rightarrow> nat \<times> nat" where
  "decode_rune s =
    (let b0 = byte_at s 0; b1 = byte_at s 1; b2 = byte_at s 2; b3 = byte_at s 3 in
     if b0 < 128 then (b0, 1)
     else if 194 \<le> b0 \<and> b0 \<le> 223 \<and> cont_byte b1
       then ((b0 - 192) * 64 + (b1 - 128), 2)
     else if 224 \<le> b0 \<and> b0 \<le> 239 \<and> cont_byte b1 \<and> cont_byte b2
          \<and> (b0 = 224 \<longrightarrow> 160 \<le> b1) \<and> (b0 = 237 \<longrightarrow> b1 \<le> 159)
       then ((b0 - 224) * 4096 + (b1 - 128) * 64 + (b2 - 128), 3)
     else if 240 \<le> b0 \<and> b0 \<le> 244 \<and> cont_byte b1 \<and> cont_byte b2 \<and> cont_byte b3
          \<and> (b0 = 240 \<longrightarrow> 144 \<le> b1) \<and> (b0 = 244 \<longrightarrow> b1 \<le> 143)
       then ((b0 - 240) * 262144 + (b1 - 128) * 4096 + (b2 - 128) * 64 + (b3 - 128), 4)
     else (65533, 1))"

lemma decode_rune_width_pos: "0 < snd (decode_rune s)"
  by (simp add: decode_rune_def Let_def)

text \<open>\<^verbatim>\<open>for _, r := range s\<close> as the list of runes it visits.\<close>

function runes :: "bytes \<Rightarrow> nat list" where
  "runes s = (if s = [] then [] else fst (decode_rune s) # runes (drop (snd (decode_rune s)) s))"
  by pat_completeness auto
termination
  by (relation "measure length") (auto simp: decode_rune_width_pos)

declare runes.simps [simp del]

text \<open>\<^verbatim>\<open>unicode.IsSpace\<close>.\<close>

definition unicode_space :: "nat \<Rightarrow> bool" where
  "unicode_space r =
    (9 \<le> r \<and> r \<le> 13 \<or> r = 32 \<or> r = 133 \<or> r = 160 \<or> r = 5760 \<or> 8192 \<le> r \<and> r \<le> 8202
     \<or> r = 8232 \<or> r = 8233 \<or> r = 8239 \<or> r = 8287 \<or> r = 12288)"

text \<open>\<^verbatim>\<open>strings.TrimSpace(s) == ""\<close>: every rune of \<open>s\<close> is white space.\<close>

definition blank :: "string \<Rightarrow> bool" where
  "blank s = list_all unicode_space (runes s)"

lemma blank_Nil [simp]: "blank []"
  by (simp add: blank_def runes.simps)

lemma not_blank_nonempty: "\<not> blank s \<Longrightarrow> s \<noteq> []"
  by auto

text \<open>A string whose first byte is a visible ASCII character is not blank.\<close>

lemma not_blank_ascii [simp]:
  assumes "32 < (of_char c :: nat)" and "(of_char c :: nat) < 127"
  shows "\<not> blank (c # cs)"
  using assms
  by (simp add: blank_def runes.simps [of "c # cs"] decode_rune_def byte_at_def unicode_space_def)

section \<open>Decimal and hexadecimal text\<close>

text \<open>\<^verbatim>\<open>fmt.Sprint\<close> and \<^verbatim>\<open>"%d"\<close> of an integer.\<close>

definition digit_char :: "nat \<Rightarrow> char" where
  "digit_char d = char_of (48 + d)"

fun digits10 :: "nat \<Rightarrow> string" where
  "digits10 n = (if n < 10 then [digit_char n] else digits10 (n div 10) @ [digit_char (n mod 10)])"

declare digits10.simps [simp del]

definition itoa :: "int \<Rightarrow> string" where
  "itoa n = (if n < 0 then CHR ''-'' # digits10 (nat (- n)) else digits10 (nat n))"

definition digit_value :: "char \<Rightarrow> nat" where
  "digit_value c = of_char c - 48"

definition digits_value :: "string \<Rightarrow> nat" where
  "digits_value s = foldl (\<lambda>n c. 10 * n + digit_value c) 0 s"

definition is_digit :: "char \<Rightarrow> bool" where
  "is_digit c = (48 \<le> (of_char c :: nat) \<and> (of_char c :: nat) \<le> 57)"

lemma of_char_digit_char [simp]: "d < 10 \<Longrightarrow> (of_char (digit_char d) :: nat) = 48 + d"
  by (simp add: digit_char_def)

lemma digit_value_digit_char [simp]: "d < 10 \<Longrightarrow> digit_value (digit_char d) = d"
  by (simp add: digit_value_def)

lemma digits_value_digits10 [simp]: "digits_value (digits10 n) = n"
proof (induction n rule: digits10.induct)
  case (1 n)
  show ?case
  proof (cases "n < 10")
    case True
    then show ?thesis by (simp add: digits10.simps [of n] digits_value_def)
  next
    case False
    then show ?thesis
      using 1 by (simp add: digits10.simps [of n] digits_value_def)
  qed
qed

lemma digits10_digits: "c \<in> set (digits10 n) \<Longrightarrow> is_digit c"
proof (induction n rule: digits10.induct)
  case (1 n)
  then show ?case
    by (subst (asm) digits10.simps) (auto simp: is_digit_def split: if_splits)
qed

lemma digits10_nonempty [simp]: "digits10 n \<noteq> []"
  by (subst digits10.simps) simp

lemma digits10_inj [simp]: "digits10 m = digits10 n \<longleftrightarrow> m = n"
  by (metis digits_value_digits10)

lemma minus_not_digit: "\<not> is_digit CHR ''-''"
  by (simp add: is_digit_def)

lemma itoa_inj [simp]: "itoa m = itoa n \<longleftrightarrow> m = n"
proof -
  have no: "digits10 k \<noteq> CHR ''-'' # w" for k w
    using digits10_digits [of "CHR ''-''" k] minus_not_digit by auto
  show ?thesis
    using no no [symmetric] by (auto simp: itoa_def)
qed

lemma itoa_nonempty [simp]: "itoa n \<noteq> []"
  by (simp add: itoa_def)

text \<open>\<^verbatim>\<open>hex.EncodeToString\<close>.\<close>

definition hex_digit :: "nat \<Rightarrow> char" where
  "hex_digit d = (if d < 10 then char_of (48 + d) else char_of (87 + d))"

fun hex_encode :: "bytes \<Rightarrow> string" where
  "hex_encode [] = []"
| "hex_encode (b # bs) =
    hex_digit (of_char b div 16) # hex_digit (of_char b mod 16) # hex_encode bs"

definition is_lower_hex :: "char \<Rightarrow> bool" where
  "is_lower_hex c =
    (48 \<le> (of_char c :: nat) \<and> (of_char c :: nat) \<le> 57
     \<or> 97 \<le> (of_char c :: nat) \<and> (of_char c :: nat) \<le> 102)"

lemma length_hex_encode [simp]: "length (hex_encode bs) = 2 * length bs"
  by (induction bs) auto

lemma hex_digit_inj: "a < 16 \<Longrightarrow> b < 16 \<Longrightarrow> hex_digit a = hex_digit b \<Longrightarrow> a = b"
proof -
  assume "a < 16" "b < 16" "hex_digit a = hex_digit b"
  moreover from this have "(of_char (hex_digit a) :: nat) = of_char (hex_digit b)" by simp
  ultimately show "a = b" by (auto simp: hex_digit_def split: if_splits)
qed

lemma of_char_less_256 [simp]: "(of_char c :: nat) < 256"
  using of_char_mod_256 [of c, where 'a = nat] by (metis mod_less_divisor zero_less_numeral)

lemma hex_encode_inj: "hex_encode as = hex_encode bs \<Longrightarrow> as = bs"
proof (induction as arbitrary: bs)
  case Nil
  then show ?case by (cases bs) auto
next
  case (Cons a as)
  then obtain b bs' where bs: "bs = b # bs'" by (cases bs) auto
  with Cons.prems have hi: "hex_digit (of_char a div 16) = hex_digit (of_char b div 16)"
    and lo: "hex_digit (of_char a mod 16) = hex_digit (of_char b mod 16)"
    and rest: "hex_encode as = hex_encode bs'" by auto
  have lt: "(of_char c :: nat) div 16 < 16" for c
    using of_char_less_256 [of c] by linarith
  have "(of_char a :: nat) div 16 = of_char b div 16" "(of_char a :: nat) mod 16 = of_char b mod 16"
    using hex_digit_inj [OF lt lt hi] hex_digit_inj [OF _ _ lo] by auto
  then have "(of_char a :: nat) = of_char b" by (metis div_mult_mod_eq)
  then have "a = b" by (metis char_of_char)
  with Cons.IH [OF rest] bs show ?case by simp
qed

lemma hex_encode_lower: "list_all is_lower_hex (hex_encode bs)"
proof (induction bs)
  case (Cons b bs)
  have "d < 16 \<Longrightarrow> is_lower_hex (hex_digit d)" for d
    by (auto simp: is_lower_hex_def hex_digit_def)
  moreover have "(of_char b :: nat) div 16 < 16"
    using of_char_less_256 [of b] by linarith
  ultimately show ?case using Cons by simp
qed simp

section \<open>Rows\<close>

lemma find_append [table_simps]:
  "find p (xs @ ys) = (case find p xs of None \<Rightarrow> find p ys | Some x \<Rightarrow> Some x)"
  by (induction xs) auto

lemma find_distinct_eq:
  assumes "distinct (map key rows)" "r \<in> set rows"
  shows "find (\<lambda>x. key x = key r) rows = Some r"
  using assms by (induction rows) (auto simp: rev_image_eqI)

text \<open>\<^verbatim>\<open>UPDATE ... SET ... WHERE\<close>, and the number of rows it affects.\<close>

definition update_rows :: "('r \<Rightarrow> bool) \<Rightarrow> ('r \<Rightarrow> 'r) \<Rightarrow> 'r list \<Rightarrow> 'r list" where
  "update_rows p f rows = map (\<lambda>r. if p r then f r else r) rows"

definition rows_affected :: "('r \<Rightarrow> bool) \<Rightarrow> 'r list \<Rightarrow> nat" where
  "rows_affected p rows = length (filter p rows)"

lemma map_update_rows:
  "(\<And>r. p r \<Longrightarrow> key (f r) = key r) \<Longrightarrow> map key (update_rows p f rows) = map key rows"
  by (induction rows) (auto simp: update_rows_def)

lemma list_all_update_rows:
  "list_all q rows \<Longrightarrow> (\<And>r. q r \<Longrightarrow> p r \<Longrightarrow> q (f r)) \<Longrightarrow> list_all q (update_rows p f rows)"
  by (induction rows) (auto simp: update_rows_def)

lemma set_update_rows_D:
  "r' \<in> set (update_rows p f rows) \<Longrightarrow> \<exists>r \<in> set rows. r' = (if p r then f r else r)"
  by (auto simp: update_rows_def)

section \<open>Write-once records\<close>

text \<open>
  The contract of every immutable record store of the program.  \<open>slot\<close> reads the record under a key,
  \<open>put\<close> submits a request and answers with a receipt or refuses.  A stored record is never changed, a
  request that agrees with it is answered with its receipt and changes nothing, and a request that
  disagrees is refused.
\<close>

locale write_once =
  fixes inv :: "'s \<Rightarrow> bool"
    and slot :: "'s \<Rightarrow> 'k \<Rightarrow> 'v option"
    and put :: "'q \<Rightarrow> 's \<Rightarrow> 'r option \<times> 's"
    and valid :: "'q \<Rightarrow> bool"
    and key :: "'q \<Rightarrow> 'k"
    and agrees :: "'q \<Rightarrow> 'v \<Rightarrow> bool"
    and answer :: "'v \<Rightarrow> 'r"
  assumes put_inv: "inv s \<Longrightarrow> inv (snd (put q s))"
    and put_keeps: "inv s \<Longrightarrow> slot s k = Some v \<Longrightarrow> slot (snd (put q s)) k = Some v"
    and put_stores: "inv s \<Longrightarrow> valid q \<Longrightarrow> fst (put q s) = Some r \<Longrightarrow>
      \<exists>v. slot (snd (put q s)) (key q) = Some v \<and> agrees q v \<and> r = answer v"
    and put_replay: "inv s \<Longrightarrow> valid q \<Longrightarrow> slot s (key q) = Some v \<Longrightarrow> agrees q v \<Longrightarrow>
      put q s = (Some (answer v), s)"
    and put_conflict: "inv s \<Longrightarrow> slot s (key q) = Some v \<Longrightarrow> \<not> agrees q v \<Longrightarrow> fst (put q s) = None"
begin

text \<open>A run of requests, whatever their outcomes.\<close>

definition puts :: "'q list \<Rightarrow> 's \<Rightarrow> 's" where
  "puts qs s = fold (\<lambda>q s. snd (put q s)) qs s"

lemma puts_inv: "inv s \<Longrightarrow> inv (puts qs s)"
  by (induction qs arbitrary: s) (auto simp: puts_def put_inv)

lemma puts_keeps: "inv s \<Longrightarrow> slot s k = Some v \<Longrightarrow> slot (puts qs s) k = Some v"
  by (induction qs arbitrary: s) (auto simp: puts_def put_inv put_keeps)

text \<open>A request that was answered once is answered the same way ever after, without effect.\<close>

lemma answered_forever:
  assumes "inv s" "valid q" "fst (put q s) = Some r"
  shows "put q (puts qs (snd (put q s))) = (Some r, puts qs (snd (put q s)))"
proof -
  obtain v where v: "slot (snd (put q s)) (key q) = Some v" "agrees q v" "r = answer v"
    using put_stores [OF assms] by blast
  have inv: "inv (puts qs (snd (put q s)))" using assms(1) by (intro puts_inv put_inv)
  have "slot (puts qs (snd (put q s))) (key q) = Some v"
    using v(1) assms(1) by (intro puts_keeps put_inv)
  with put_replay [OF inv assms(2)] v show ?thesis by simp
qed

text \<open>All requests answered for one key agree with one and the same record.\<close>

lemma one_record_per_key:
  assumes "inv s" "valid q" "fst (put q s) = Some r"
    and "valid q'" "key q' = key q" "fst (put q' (puts qs (snd (put q s)))) = Some r'"
  shows "r' = r \<and> (\<exists>v. agrees q v \<and> agrees q' v)"
proof -
  let ?s = "puts qs (snd (put q s))"
  obtain v where v: "slot (snd (put q s)) (key q) = Some v" "agrees q v" "r = answer v"
    using put_stores [OF assms(1-3)] by blast
  have inv: "inv ?s" using assms(1) by (intro puts_inv put_inv)
  have at: "slot ?s (key q') = Some v"
    using v(1) assms(1,5) by (simp add: puts_keeps put_inv)
  have ag: "agrees q' v" using put_conflict [OF inv at] assms(6) by auto
  with put_replay [OF inv assms(4) at] assms(6) v show ?thesis by auto
qed

text \<open>Once a record is stored, a disagreeing request is refused at any later time.\<close>

lemma conflict_forever:
  assumes "inv s" "slot s (key q) = Some v" "\<not> agrees q v"
  shows "fst (put q (puts qs s)) = None"
  using assms by (intro put_conflict [OF puts_inv]) (auto intro: puts_keeps)

end

end
