(* ===== verification/Authority.thy ===== *)
theory Authority
  imports Snag_Prelude
begin

text \<open>
  \<^verbatim>\<open>internal/authority/authority.go\<close>: the errors, the request and record types of the semantic
  authority, and the validation every request passes before it reaches the database.  Struct fields
  keep the source's names behind a prefix that names the struct.
\<close>

section \<open>Errors\<close>

text \<open>
  The sentinel errors of the package, then the errors the PostgreSQL store adds: its private retry
  marker, a wrapped server error carrying its SQLSTATE, and plain \<^verbatim>\<open>errors.New\<close> texts.  Wrapping
  with \<^verbatim>\<open>%w\<close> keeps the sentinel, which is all \<^verbatim>\<open>errors.Is\<close> sees.
\<close>

datatype store_error =
    ErrInvalidRequest
  | ErrConflictingCase
  | ErrCaseNotFound
  | ErrCaseBinding
  | ErrFinalAdviceAlreadySet
  | ErrConflictingRegistry
  | ErrRegistryRevisionSequence
  | ErrRegistryEquivocation
  | ErrRegistryRollback
  | ErrRegistryHalted
  | ErrRegistryBinding
  | ErrEdgeGenerationRollback
  | ErrEdgeNotActive
  | ErrRegistryNotFound
  | ErrRegistryHeadNotFound
  | ErrRetryTransaction
  | ErrStaleOutboxLease
  | ErrPg string
  | ErrText string

section \<open>Requests and records\<close>

record CommitReceipt =
  rcpt_AuthorityID :: string
  rcpt_Revision :: int
  rcpt_EnvelopeID :: string
  rcpt_Commitment :: string

record CommitCaseRequest =
  ccr_TenantID :: string
  ccr_CaseID :: string
  ccr_EnvelopeID :: string
  ccr_Commitment :: string
  ccr_Raw :: bytes
  ccr_Domain :: string
  ccr_IssuerEdgeID :: string
  ccr_IssuerEdgeGeneration :: int
  ccr_RoutingEpoch :: int
  ccr_RegistryRevision :: int
  ccr_RegistryHash :: string
  ccr_ExpiresAt :: time
  ccr_AuthenticatedPrincipalID :: string
  ccr_AuthenticatedEdgeID :: string
  ccr_Decision :: string

record CommitAdviceRequest =
  car_TenantID :: string
  car_CaseID :: string
  car_EnvelopeID :: string
  car_CaseCommitment :: string
  car_Commitment :: string
  car_Raw :: bytes
  car_RoutingEpoch :: int
  car_RegistryRevision :: int
  car_RegistryHash :: string
  car_AuthenticatedPrincipalID :: string
  car_AuthenticatedEdgeID :: string
  car_Decision :: string

record RegistryEdge =
  re_PrincipalID :: string
  re_Generation :: int

text \<open>\<^verbatim>\<open>Edges\<close> is a Go map: the nil map is \<^term>\<open>None\<close>, any other the list of its entries.\<close>

record CommitRegistryRequest =
  crr_TenantID :: string
  crr_Revision :: int
  crr_EnvelopeID :: string
  crr_Commitment :: string
  crr_Raw :: bytes
  crr_RoutingEpoch :: int
  crr_PreviousCommitment :: string
  crr_Edges :: "(string \<times> RegistryEdge) list option"
  crr_AuthenticatedPrincipalID :: string
  crr_AuthenticatedEdgeID :: string
  crr_Decision :: string

record EdgeDeliveryQuery =
  edq_TenantID :: string
  edq_EdgeID :: string
  edq_PrincipalID :: string
  edq_EdgeGeneration :: int
  edq_AfterSequence :: int
  edq_Limit :: int

record EdgeDelivery =
  ed_Sequence :: int
  ed_Kind :: string
  ed_CaseID :: string
  ed_EnvelopeID :: string
  ed_Commitment :: string
  ed_Raw :: bytes
  ed_AuthorityRevision :: int

record EdgeDeliveryPage =
  edp_Deliveries :: "EdgeDelivery list"
  edp_HighWatermark :: int
  edp_CompleteThrough :: int

record ProjectionFactQuery =
  pfq_TenantID :: string
  pfq_AfterAuthoritySequence :: int
  pfq_Limit :: int

record ProjectionFact =
  pf_AuthorityRevision :: int
  pf_Kind :: string
  pf_CaseID :: string
  pf_EnvelopeID :: string
  pf_Commitment :: string
  pf_Raw :: bytes

record ProjectionFactPage =
  pfp_Facts :: "ProjectionFact list"
  pfp_HighWatermark :: int

record CaseRecord =
  cr_TenantID :: string
  cr_CaseID :: string
  cr_EnvelopeID :: string
  cr_Commitment :: string
  cr_Raw :: bytes
  cr_Domain :: string
  cr_IssuerEdgeID :: string
  cr_IssuerEdgeGeneration :: int
  cr_RoutingEpoch :: int
  cr_RegistryRevision :: int
  cr_RegistryHash :: string
  cr_ExpiresAt :: time
  cr_AuthorityRevision :: int

record RegistryRecord =
  rr_TenantID :: string
  rr_Revision :: int
  rr_EnvelopeID :: string
  rr_Commitment :: string
  rr_Raw :: bytes
  rr_RoutingEpoch :: int
  rr_PreviousCommitment :: string
  rr_AuthorityRevision :: int

record RegistryHead =
  rh_TenantID :: string
  rh_Revision :: int
  rh_Commitment :: string
  rh_RoutingEpoch :: int
  rh_Halted :: bool
  rh_HaltReason :: string

text \<open>The zero \<^verbatim>\<open>CommitReceipt{}\<close> that accompanies every error.\<close>

definition zero_receipt :: CommitReceipt where
  "zero_receipt = \<lparr>rcpt_AuthorityID = [], rcpt_Revision = 0, rcpt_EnvelopeID = [], rcpt_Commitment = []\<rparr>"

section \<open>Validation\<close>

text \<open>\<^verbatim>\<open>time.Time{}\<close> is midnight, January 1 of year 1.\<close>

definition zero_time :: time where
  "zero_time = - 62135596800000000000"

definition validText :: "string \<Rightarrow> bool" where
  "validText value = (\<not> blank value)"

text \<open>The scan ranges over runes; a non-ASCII rune is outside both ranges.\<close>

definition hex_rune :: "nat \<Rightarrow> bool" where
  "hex_rune r = (\<not> ((r < 48 \<or> r > 57) \<and> (r < 97 \<or> r > 102)))"

definition validCommitment :: "string \<Rightarrow> bool" where
  "validCommitment value =
    (length value = length ''sha256:'' + 64 \<and> take (length ''sha256:'') value = ''sha256:''
     \<and> list_all hex_rune (runes (drop (length ''sha256:'') value)))"

definition CommitCaseRequest_Validate :: "CommitCaseRequest \<Rightarrow> store_error option" where
  "CommitCaseRequest_Validate r =
    (if \<not> validText (ccr_TenantID r) \<or> \<not> validText (ccr_CaseID r) \<or> \<not> validText (ccr_EnvelopeID r)
        \<or> \<not> validCommitment (ccr_Commitment r) \<or> length (ccr_Raw r) = 0 \<or> \<not> validText (ccr_Domain r)
        \<or> \<not> validText (ccr_IssuerEdgeID r) \<or> ccr_IssuerEdgeGeneration r \<le> 0 \<or> ccr_RoutingEpoch r < 0
        \<or> ccr_RegistryRevision r < 0 \<or> \<not> validCommitment (ccr_RegistryHash r)
        \<or> ccr_ExpiresAt r = zero_time
     then Some ErrInvalidRequest else None)"

definition CommitAdviceRequest_Validate :: "CommitAdviceRequest \<Rightarrow> store_error option" where
  "CommitAdviceRequest_Validate r =
    (if \<not> validText (car_TenantID r) \<or> \<not> validText (car_CaseID r) \<or> \<not> validText (car_EnvelopeID r)
        \<or> \<not> validCommitment (car_CaseCommitment r) \<or> \<not> validCommitment (car_Commitment r)
        \<or> length (car_Raw r) = 0 \<or> car_RoutingEpoch r < 0 \<or> car_RegistryRevision r < 0
        \<or> \<not> validCommitment (car_RegistryHash r)
     then Some ErrInvalidRequest else None)"

definition valid_registry_edge :: "string \<times> RegistryEdge \<Rightarrow> bool" where
  "valid_registry_edge e =
    (validText (fst e) \<and> validText (re_PrincipalID (snd e)) \<and> \<not> re_Generation (snd e) \<le> 0)"

definition CommitRegistryRequest_Validate :: "CommitRegistryRequest \<Rightarrow> store_error option" where
  "CommitRegistryRequest_Validate r =
    (if \<not> validText (crr_TenantID r) \<or> crr_Revision r \<le> 0 \<or> \<not> validText (crr_EnvelopeID r)
        \<or> \<not> validCommitment (crr_Commitment r) \<or> length (crr_Raw r) = 0 \<or> crr_RoutingEpoch r < 0
        \<or> (crr_PreviousCommitment r \<noteq> [] \<and> \<not> validCommitment (crr_PreviousCommitment r))
        \<or> crr_Edges r = None
     then Some ErrInvalidRequest
     else if \<not> list_all valid_registry_edge (the (crr_Edges r)) then Some ErrInvalidRequest
     else None)"

definition EdgeDeliveryQuery_Validate :: "EdgeDeliveryQuery \<Rightarrow> store_error option" where
  "EdgeDeliveryQuery_Validate q =
    (if \<not> validText (edq_TenantID q) \<or> \<not> validText (edq_EdgeID q) \<or> \<not> validText (edq_PrincipalID q)
        \<or> edq_EdgeGeneration q \<le> 0 \<or> edq_AfterSequence q < 0 \<or> edq_Limit q \<le> 0 \<or> edq_Limit q > 1000
     then Some ErrInvalidRequest else None)"

definition ProjectionFactQuery_Validate :: "ProjectionFactQuery \<Rightarrow> store_error option" where
  "ProjectionFactQuery_Validate q =
    (if \<not> validText (pfq_TenantID q) \<or> pfq_AfterAuthoritySequence q < 0 \<or> pfq_Limit q \<le> 0
        \<or> pfq_Limit q > 1000
     then Some ErrInvalidRequest else None)"

definition cloneRegistryEdges :: "(string \<times> RegistryEdge) list option \<Rightarrow> (string \<times> RegistryEdge) list option" where
  "cloneRegistryEdges source =
    (case source of None \<Rightarrow> None | Some entries \<Rightarrow> Some (map (\<lambda>(edgeID, edge). (edgeID, edge)) entries))"

section \<open>Facts\<close>

lemma cloneRegistryEdges_id [simp]: "cloneRegistryEdges es = es"
  by (auto simp: cloneRegistryEdges_def split: option.splits)

text \<open>On a text of ASCII bytes the rune scan is a byte scan.\<close>

lemma runes_ascii: "list_all (\<lambda>c. (of_char c :: nat) < 128) s \<Longrightarrow> runes s = map of_char s"
proof (induction s)
  case Nil
  then show ?case by (simp add: runes.simps)
next
  case (Cons c s)
  then have "decode_rune (c # s) = (of_char c, 1)"
    by (simp add: decode_rune_def byte_at_def Let_def)
  with Cons show ?case by (simp add: runes.simps [of "c # s"])
qed

lemma hex_rune_iff: "hex_rune (of_char c) = is_lower_hex c"
  by (auto simp: hex_rune_def is_lower_hex_def)

lemma validCommitment_hex:
  assumes "length h = 64" and "list_all is_lower_hex h"
  shows "validCommitment (''sha256:'' @ h)"
proof -
  have "list_all (\<lambda>c. (of_char c :: nat) < 128) h"
    using assms(2) by (rule list.pred_mono_strong) (auto simp: is_lower_hex_def)
  then show ?thesis
    using assms by (simp add: validCommitment_def runes_ascii list.pred_map comp_def hex_rune_iff)
qed

end
