(* ===== verification/Sha256.thy ===== *)
theory Sha256
  imports Snag_Prelude
begin

text \<open>
  \<^verbatim>\<open>crypto/sha256\<close> as FIPS 180-4 defines it.  Commitments, outbox identifiers,
  message identifiers and routing tokens are digests of explicitly framed byte strings; the theories
  that use this one prove the framing injective, so two identifiers can only coincide on equal
  inputs or on a SHA-256 collision, which is exhibited as such.
\<close>

unbundle bit_operations_syntax

section \<open>Big-endian integers\<close>

definition be_bytes :: "nat \<Rightarrow> nat \<Rightarrow> bytes" where
  "be_bytes k n = map (\<lambda>i. char_of (n div 256 ^ (k - 1 - i))) [0..<k]"

fun be_value :: "bytes \<Rightarrow> nat" where
  "be_value [] = 0"
| "be_value (b # bs) = of_char b * 256 ^ length bs + be_value bs"

lemma length_be_bytes [simp]: "length (be_bytes k n) = k"
  by (simp add: be_bytes_def)

lemma be_bytes_Suc: "be_bytes (Suc k) n = char_of (n div 256 ^ k) # be_bytes k n"
  unfolding be_bytes_def
  by (subst upt_conv_Cons) (auto simp: map_Suc_upt [symmetric] simp del: upt_Suc intro!: map_cong)

lemma be_value_be_bytes: "be_value (be_bytes k n) = n mod 256 ^ k"
proof (induction k)
  case 0
  then show ?case by (simp add: be_bytes_def)
next
  case (Suc k)
  have "n mod (256 ^ k * 256) = 256 ^ k * (n div 256 ^ k mod 256) + n mod 256 ^ k"
    by (rule mod_mult2_eq)
  with Suc show ?case
    by (simp add: be_bytes_Suc mult.commute)
qed

section \<open>The compression function\<close>

text \<open>
  A 32-bit word is a natural number below \<open>2\<^sup>32\<close>; additions and complements wrap explicitly, and a
  rotation moves the low bits to the top.
\<close>

type_synonym sha_state = "nat \<times> nat \<times> nat \<times> nat \<times> nat \<times> nat \<times> nat \<times> nat"

definition add32 :: "nat \<Rightarrow> nat \<Rightarrow> nat" where
  "add32 x y = (x + y) mod 4294967296"

definition not32 :: "nat \<Rightarrow> nat" where
  "not32 x = 4294967295 - x"

definition rotr32 :: "nat \<Rightarrow> nat \<Rightarrow> nat" where
  "rotr32 n x = x div 2 ^ n + (x mod 2 ^ n) * 2 ^ (32 - n)"

definition shr32 :: "nat \<Rightarrow> nat \<Rightarrow> nat" where
  "shr32 n x = x div 2 ^ n"

definition sha_k :: "nat list" where
  "sha_k =
    [1116352408, 1899447441, 3049323471, 3921009573, 961987163, 1508970993, 2453635748, 2870763221,
     3624381080, 310598401, 607225278, 1426881987, 1925078388, 2162078206, 2614888103, 3248222580,
     3835390401, 4022224774, 264347078, 604807628, 770255983, 1249150122, 1555081692, 1996064986,
     2554220882, 2821834349, 2952996808, 3210313671, 3336571891, 3584528711, 113926993, 338241895,
     666307205, 773529912, 1294757372, 1396182291, 1695183700, 1986661051, 2177026350, 2456956037,
     2730485921, 2820302411, 3259730800, 3345764771, 3516065817, 3600352804, 4094571909, 275423344,
     430227734, 506948616, 659060556, 883997877, 958139571, 1322822218, 1537002063, 1747873779,
     1955562222, 2024104815, 2227730452, 2361852424, 2428436474, 2756734187, 3204031479, 3329325298]"

definition sha_init :: sha_state where
  "sha_init = (0x6a09e667, 0xbb67ae85, 0x3c6ef372, 0xa54ff53a,
               0x510e527f, 0x9b05688c, 0x1f83d9ab, 0x5be0cd19)"

definition small_sigma0 :: "nat \<Rightarrow> nat" where
  "small_sigma0 x = rotr32 7 x XOR rotr32 18 x XOR shr32 3 x"

definition small_sigma1 :: "nat \<Rightarrow> nat" where
  "small_sigma1 x = rotr32 17 x XOR rotr32 19 x XOR shr32 10 x"

definition big_sigma0 :: "nat \<Rightarrow> nat" where
  "big_sigma0 x = rotr32 2 x XOR rotr32 13 x XOR rotr32 22 x"

definition big_sigma1 :: "nat \<Rightarrow> nat" where
  "big_sigma1 x = rotr32 6 x XOR rotr32 11 x XOR rotr32 25 x"

definition sha_ch :: "nat \<Rightarrow> nat \<Rightarrow> nat \<Rightarrow> nat" where
  "sha_ch x y z = (x AND y) XOR (not32 x AND z)"

definition sha_maj :: "nat \<Rightarrow> nat \<Rightarrow> nat \<Rightarrow> nat" where
  "sha_maj x y z = (x AND y) XOR (x AND z) XOR (y AND z)"

text \<open>The message schedule, newest word first.\<close>

definition sha_next :: "nat list \<Rightarrow> nat" where
  "sha_next ws = add32 (add32 (small_sigma1 (ws ! 1)) (ws ! 6)) (add32 (small_sigma0 (ws ! 14)) (ws ! 15))"

primrec sha_extend :: "nat \<Rightarrow> nat list \<Rightarrow> nat list" where
  "sha_extend 0 ws = ws"
| "sha_extend (Suc n) ws = sha_extend n (sha_next ws # ws)"

fun sha_shift :: "sha_state \<Rightarrow> nat \<Rightarrow> nat \<Rightarrow> sha_state" where
  "sha_shift (a, b, c, d, e, f, g, h) t1 t2 = (add32 t1 t2, a, b, c, add32 d t1, e, f, g)"

fun sha_round :: "sha_state \<Rightarrow> nat \<times> nat \<Rightarrow> sha_state" where
  "sha_round (a, b, c, d, e, f, g, h) (k, w) =
    sha_shift (a, b, c, d, e, f, g, h)
      (add32 (add32 h (big_sigma1 e)) (add32 (sha_ch e f g) (add32 k w)))
      (add32 (big_sigma0 a) (sha_maj a b c))"

fun word32s :: "bytes \<Rightarrow> nat list" where
  "word32s (b0 # b1 # b2 # b3 # bs) = be_value [b0, b1, b2, b3] # word32s bs"
| "word32s _ = []"

fun sha_add :: "sha_state \<Rightarrow> sha_state \<Rightarrow> sha_state" where
  "sha_add (a, b, c, d, e, f, g, h) (a', b', c', d', e', f', g', h') =
    (add32 a a', add32 b b', add32 c c', add32 d d', add32 e e', add32 f f', add32 g g', add32 h h')"

definition sha_block :: "sha_state \<Rightarrow> bytes \<Rightarrow> sha_state" where
  "sha_block st block =
    sha_add st (foldl sha_round st (zip sha_k (rev (sha_extend 48 (rev (word32s block))))))"

section \<open>Padding and digest\<close>

definition sha_pad :: "bytes \<Rightarrow> bytes" where
  "sha_pad m = m @ [char_of (128 :: nat)] @ replicate ((119 - length m mod 64) mod 64) (char_of (0 :: nat))
                 @ be_bytes 8 (8 * length m)"

function sha_blocks :: "bytes \<Rightarrow> bytes list" where
  "sha_blocks m = (if m = [] then [] else take 64 m # sha_blocks (drop 64 m))"
  by pat_completeness auto
termination by (relation "measure length") auto

declare sha_blocks.simps [simp del]

fun sha_output :: "sha_state \<Rightarrow> bytes" where
  "sha_output (a, b, c, d, e, f, g, h) =
    concat (map (\<lambda>w. be_bytes 4 w) [a, b, c, d, e, f, g, h])"

definition sha256 :: "bytes \<Rightarrow> bytes" where
  "sha256 m = sha_output (foldl sha_block sha_init (sha_blocks (sha_pad m)))"

lemma length_sha_output [simp]: "length (sha_output st) = 32"
  by (cases st rule: sha_output.cases) simp

lemma length_sha256 [simp]: "length (sha256 m) = 32"
  by (simp add: sha256_def)

lemma length_sha_pad_mod: "length (sha_pad m) mod 64 = 0"
proof -
  define r where "r = length m mod 64"
  have r: "r < 64" by (simp add: r_def)
  have "(length m + (9 + (119 - r) mod 64)) mod 64 = (r + (9 + (119 - r) mod 64)) mod 64"
    by (simp add: r_def mod_simps)
  also have "\<dots> = 0"
    using r by (cases "r < 56") (auto simp: mod_if)
  finally show ?thesis by (simp add: sha_pad_def r_def)
qed

text \<open>The digest as the program prints it: \<^verbatim>\<open>"sha256:" + hex.EncodeToString(sum)\<close>.\<close>

definition sha256_text :: "bytes \<Rightarrow> string" where
  "sha256_text m = ''sha256:'' @ hex_encode (sha256 m)"

lemma length_sha256_text [simp]: "length (sha256_text m) = 71"
  by (simp add: sha256_text_def)

lemma sha256_text_eqD: "sha256_text a = sha256_text b \<Longrightarrow> sha256 a = sha256 b"
  by (simp add: sha256_text_def hex_encode_inj)

text \<open>Two different messages with the same digest.\<close>

definition sha256_collision :: "bytes \<Rightarrow> bytes \<Rightarrow> bool" where
  "sha256_collision a b = (a \<noteq> b \<and> sha256 a = sha256 b)"

end
