(* ===== verification/Authority_Db.thy ===== *)
theory Authority_Db
  imports Authority Sha256
begin

text \<open>
  The tables of \<^verbatim>\<open>internal/authority/postgres/migrations/0001_authority.up.sql\<close> and the SQL statements
  of \<^verbatim>\<open>store.go\<close> as functions on one database state.  A table that is only ever appended to is the
  list of its rows in insertion order; a table that is upserted by key is a map.  An \<^verbatim>\<open>INSERT\<close>
  evaluates the table's \<^verbatim>\<open>CHECK\<close> constraints (SQLSTATE 23514) and then its unique indexes (23505);
  columns that default to \<^verbatim>\<open>clock_timestamp()\<close> and are never read by the program are left out.
  The identity column of \<^verbatim>\<open>authority_revisions\<close> keeps its counter outside the rows, because
  PostgreSQL does not give a value back when the transaction that drew it rolls back.
\<close>

section \<open>Rows\<close>

record advice_row =
  adv_tenant_id :: string
  adv_case_id :: string
  adv_envelope_id :: string
  adv_case_commitment :: string
  adv_commitment :: string
  adv_raw :: bytes
  adv_routing_epoch :: int
  adv_registry_revision :: int
  adv_registry_hash :: string
  adv_target_edge_id :: string
  adv_target_edge_generation :: int
  adv_delivery_sequence :: int
  adv_commit_revision :: int

record delivery_row =
  dr_tenant_id :: string
  dr_edge_id :: string
  dr_edge_generation :: int
  dr_delivery :: EdgeDelivery

record high_water_row =
  hw_principal_id :: string
  hw_highest_generation :: int
  hw_last_seen_registry_revision :: int

record registry_row =
  rg_tenant_id :: string
  rg_registry_revision :: int
  rg_envelope_id :: string
  rg_commitment :: string
  rg_raw :: bytes
  rg_routing_epoch :: int
  rg_previous_commitment :: "string option"
  rg_commit_revision :: int

record audit_row =
  au_tenant_id :: string
  au_entity_kind :: string
  au_entity_id :: string
  au_commitment :: string
  au_authenticated_principal_id :: "string option"
  au_authenticated_edge_id :: "string option"
  au_decision :: "string option"
  au_authority_revision :: int

record outbox_row =
  ob_outbox_id :: string
  ob_tenant_id :: string
  ob_event_kind :: string
  ob_entity_id :: string
  ob_destination_kind :: string
  ob_destination_key :: string
  ob_raw :: bytes
  ob_authority_revision :: int
  ob_created_at :: time
  ob_attempts :: int
  ob_next_attempt_at :: time
  ob_lease_owner :: "string option"
  ob_lease_token :: "string option"
  ob_lease_until :: "time option"
  ob_last_error :: string
  ob_poisoned_at :: "time option"
  ob_published_at :: "time option"

record authority_db =
  revision_identity :: int
  authority_revisions :: "int list"
  authority_cases :: "CaseRecord list"
  authority_advice :: "advice_row list"
  authority_edge_delivery_sequences :: "string \<times> string \<times> int \<Rightarrow> int option"
  authority_edge_deliveries :: "delivery_row list"
  authority_registry_heads :: "string \<Rightarrow> RegistryHead option"
  authority_edge_generation_high_water :: "string \<times> string \<Rightarrow> high_water_row option"
  authority_registries :: "registry_row list"
  authority_audit :: "audit_row list"
  authority_outbox :: "outbox_row list"

definition empty_db :: authority_db where
  "empty_db = \<lparr>revision_identity = 0, authority_revisions = [], authority_cases = [],
    authority_advice = [], authority_edge_delivery_sequences = (\<lambda>_. None),
    authority_edge_deliveries = [], authority_registry_heads = (\<lambda>_. None),
    authority_edge_generation_high_water = (\<lambda>_. None), authority_registries = [],
    authority_audit = [], authority_outbox = []\<rparr>"

section \<open>SQL errors\<close>

definition unique_violation :: store_error where
  "unique_violation = ErrPg ''23505''"

definition check_violation :: store_error where
  "check_violation = ErrPg ''23514''"

definition out_of_range :: store_error where
  "out_of_range = ErrPg ''22003''"

definition sequence_limit :: store_error where
  "sequence_limit = ErrPg ''2200H''"

definition isUniqueViolation :: "store_error \<Rightarrow> bool" where
  "isUniqueViolation e = (e = ErrPg ''23505'')"

definition retryable :: "store_error \<Rightarrow> bool" where
  "retryable e = (e = ErrRetryTransaction \<or> e = ErrPg ''40001'')"

definition nullableText :: "string \<Rightarrow> string option" where
  "nullableText value = (if value = [] then None else Some value)"

text \<open>\<^verbatim>\<open>COALESCE(column, '')\<close>.\<close>

definition coalesce_text :: "string option \<Rightarrow> string" where
  "coalesce_text v = (case v of None \<Rightarrow> [] | Some s \<Rightarrow> s)"

lemma coalesce_nullableText [simp]: "coalesce_text (nullableText v) = v"
  by (simp add: coalesce_text_def nullableText_def)

section \<open>Constraints\<close>

definition case_row_check :: "CaseRecord \<Rightarrow> bool" where
  "case_row_check c =
    (cr_IssuerEdgeGeneration c > 0 \<and> cr_RoutingEpoch c \<ge> 0 \<and> cr_RegistryRevision c \<ge> 0
     \<and> length (cr_Raw c) > 0 \<and> validCommitment (cr_Commitment c) \<and> validCommitment (cr_RegistryHash c))"

definition advice_row_check :: "advice_row \<Rightarrow> bool" where
  "advice_row_check a =
    (adv_routing_epoch a \<ge> 0 \<and> adv_registry_revision a \<ge> 0 \<and> adv_target_edge_generation a > 0
     \<and> adv_delivery_sequence a > 0 \<and> length (adv_raw a) > 0 \<and> validCommitment (adv_case_commitment a)
     \<and> validCommitment (adv_commitment a) \<and> validCommitment (adv_registry_hash a))"

definition delivery_row_check :: "delivery_row \<Rightarrow> bool" where
  "delivery_row_check d =
    (dr_edge_generation d > 0 \<and> ed_Sequence (dr_delivery d) > 0
     \<and> (ed_Kind (dr_delivery d) = ''case'' \<or> ed_Kind (dr_delivery d) = ''advice'')
     \<and> length (ed_Raw (dr_delivery d)) > 0 \<and> validCommitment (ed_Commitment (dr_delivery d)))"

definition registry_row_check :: "registry_row \<Rightarrow> bool" where
  "registry_row_check r =
    (rg_registry_revision r > 0 \<and> rg_routing_epoch r \<ge> 0 \<and> length (rg_raw r) > 0
     \<and> validCommitment (rg_commitment r)
     \<and> (case rg_previous_commitment r of None \<Rightarrow> True | Some p \<Rightarrow> validCommitment p))"

definition registry_head_check :: "RegistryHead \<Rightarrow> bool" where
  "registry_head_check h =
    (rh_Revision h > 0 \<and> validCommitment (rh_Commitment h) \<and> rh_RoutingEpoch h \<ge> 0)"

definition high_water_check :: "high_water_row \<Rightarrow> bool" where
  "high_water_check w =
    (hw_principal_id w \<noteq> [] \<and> hw_highest_generation w > 0 \<and> hw_last_seen_registry_revision w > 0)"

definition audit_row_check :: "audit_row \<Rightarrow> bool" where
  "audit_row_check a =
    ((au_entity_kind a = ''case'' \<or> au_entity_kind a = ''advice'' \<or> au_entity_kind a = ''registry'')
     \<and> validCommitment (au_commitment a))"

definition lease_columns_check :: "outbox_row \<Rightarrow> bool" where
  "lease_columns_check o' =
    ((ob_lease_owner o' = None \<and> ob_lease_token o' = None \<and> ob_lease_until o' = None)
     \<or> (ob_lease_owner o' \<noteq> None \<and> ob_lease_token o' \<noteq> None \<and> ob_lease_until o' \<noteq> None))"

definition outbox_row_check :: "outbox_row \<Rightarrow> bool" where
  "outbox_row_check o' =
    ((ob_event_kind o' = ''case'' \<or> ob_event_kind o' = ''advice'')
     \<and> (ob_destination_kind o' = ''domain_dispatch'' \<or> ob_destination_kind o' = ''edge_delivery'')
     \<and> ob_attempts o' \<ge> 0 \<and> length (ob_raw o') > 0 \<and> lease_columns_check o')"

text \<open>The columns of each unique index.\<close>

definition case_keys :: "(CaseRecord \<Rightarrow> string \<times> string) list" where
  "case_keys = [\<lambda>c. (cr_TenantID c, cr_CaseID c), \<lambda>c. (cr_TenantID c, cr_EnvelopeID c),
                \<lambda>c. (cr_TenantID c, cr_Commitment c)]"

definition advice_keys :: "(advice_row \<Rightarrow> string \<times> string) list" where
  "advice_keys = [\<lambda>a. (adv_tenant_id a, adv_case_id a), \<lambda>a. (adv_tenant_id a, adv_envelope_id a),
                  \<lambda>a. (adv_tenant_id a, adv_commitment a)]"

definition delivery_envelope_key :: "delivery_row \<Rightarrow> string \<times> string" where
  "delivery_envelope_key d = (dr_tenant_id d, ed_EnvelopeID (dr_delivery d))"

definition delivery_key :: "delivery_row \<Rightarrow> string \<times> string \<times> int \<times> int" where
  "delivery_key d = (dr_tenant_id d, dr_edge_id d, dr_edge_generation d, ed_Sequence (dr_delivery d))"

definition registry_keys :: "(registry_row \<Rightarrow> string \<times> string) list" where
  "registry_keys = [\<lambda>r. (rg_tenant_id r, rg_envelope_id r), \<lambda>r. (rg_tenant_id r, rg_commitment r)]"

definition registry_primary_key :: "registry_row \<Rightarrow> string \<times> int" where
  "registry_primary_key r = (rg_tenant_id r, rg_registry_revision r)"

definition outbox_destination_key :: "outbox_row \<Rightarrow> string \<times> int \<times> string \<times> string" where
  "outbox_destination_key o' =
    (ob_tenant_id o', ob_authority_revision o', ob_destination_kind o', ob_destination_key o')"

text \<open>A row violates a unique index when an existing row has the same key.\<close>

definition key_taken :: "('r \<Rightarrow> 'k) \<Rightarrow> 'r \<Rightarrow> 'r list \<Rightarrow> bool" where
  "key_taken key row rows = list_ex (\<lambda>r. key r = key row) rows"

lemma key_taken_iff [table_simps]: "key_taken key row rows \<longleftrightarrow> key row \<in> key ` set rows"
  by (auto simp: key_taken_def list_ex_iff intro: rev_image_eqI)

definition keys_taken :: "('r \<Rightarrow> 'k) list \<Rightarrow> 'r \<Rightarrow> 'r list \<Rightarrow> bool" where
  "keys_taken keys row rows = list_ex (\<lambda>key. key_taken key row rows) keys"

section \<open>Statements\<close>

definition insert_authority_case :: "CaseRecord \<Rightarrow> authority_db \<Rightarrow> store_error + authority_db" where
  "insert_authority_case c db =
    (if \<not> case_row_check c then Inl check_violation
     else if keys_taken case_keys c (authority_cases db) then Inl unique_violation
     else Inr (db\<lparr>authority_cases := authority_cases db @ [c]\<rparr>))"

definition insert_authority_advice :: "advice_row \<Rightarrow> authority_db \<Rightarrow> store_error + authority_db" where
  "insert_authority_advice a db =
    (if \<not> advice_row_check a then Inl check_violation
     else if keys_taken advice_keys a (authority_advice db) then Inl unique_violation
     else Inr (db\<lparr>authority_advice := authority_advice db @ [a]\<rparr>))"

definition insert_authority_registry :: "registry_row \<Rightarrow> authority_db \<Rightarrow> store_error + authority_db" where
  "insert_authority_registry r db =
    (if \<not> registry_row_check r then Inl check_violation
     else if key_taken registry_primary_key r (authority_registries db)
          \<or> keys_taken registry_keys r (authority_registries db) then Inl unique_violation
     else Inr (db\<lparr>authority_registries := authority_registries db @ [r]\<rparr>))"

definition insert_registry_head :: "RegistryHead \<Rightarrow> authority_db \<Rightarrow> store_error + authority_db" where
  "insert_registry_head h db =
    (if \<not> registry_head_check h then Inl check_violation
     else if authority_registry_heads db (rh_TenantID h) \<noteq> None then Inl unique_violation
     else Inr (db\<lparr>authority_registry_heads := (authority_registry_heads db)(rh_TenantID h \<mapsto> h)\<rparr>))"

text \<open>\<^verbatim>\<open>UPDATE ... SET latest_revision, latest_commitment, routing_epoch WHERE tenant_id = $1\<close>.\<close>

definition update_registry_head ::
    "string \<Rightarrow> int \<Rightarrow> string \<Rightarrow> int \<Rightarrow> authority_db \<Rightarrow> store_error + authority_db" where
  "update_registry_head tenant revision commitment epoch db =
    (case authority_registry_heads db tenant of
       None \<Rightarrow> Inr db
     | Some h \<Rightarrow>
         (let h' = h\<lparr>rh_Revision := revision, rh_Commitment := commitment, rh_RoutingEpoch := epoch\<rparr> in
          if \<not> registry_head_check h' then Inl check_violation
          else Inr (db\<lparr>authority_registry_heads := (authority_registry_heads db)(tenant \<mapsto> h')\<rparr>)))"

text \<open>\<^verbatim>\<open>INSERT ... ON CONFLICT (tenant_id, edge_id) DO UPDATE\<close>.\<close>

definition upsert_high_water ::
    "string \<Rightarrow> string \<Rightarrow> high_water_row \<Rightarrow> authority_db \<Rightarrow> store_error + authority_db" where
  "upsert_high_water tenant edge w db =
    (if \<not> high_water_check w then Inl check_violation
     else Inr (db\<lparr>authority_edge_generation_high_water :=
                 (authority_edge_generation_high_water db)((tenant, edge) \<mapsto> w)\<rparr>))"

end
