(* ===== verification/Authority_Store.thy ===== *)
theory Authority_Store
  imports Authority_Db
begin

text \<open>
  \<^verbatim>\<open>internal/authority/postgres/store.go\<close>: the three commit transactions, the retry loop around
  them and the reads.  Every commit is a function \<open>work\<close> on the database state a serializable
  transaction sees; it returns the Go triple (receipt, commit flag, error) with the changed state,
  and \<open>transaction\<close> decides whether that state survives.  What the environment may do to one attempt
  (other transactions committing before it, a failing statement, a failing rollback, a commit that
  fails before or after the server applied it) is an explicit argument.
\<close>

section \<open>Framed identifiers\<close>

text \<open>\<^verbatim>\<open>fmt.Fprintf(h, "%d:", len(value))\<close> followed by the value.\<close>

definition frame_part :: "string \<Rightarrow> bytes" where
  "frame_part value = itoa (int (length value)) @ '':'' @ value"

definition outbox_preimage :: "string list \<Rightarrow> bytes" where
  "outbox_preimage parts = concat (map frame_part parts)"

definition deterministicOutboxID :: "string list \<Rightarrow> string" where
  "deterministicOutboxID parts = sha256_text (outbox_preimage parts)"

definition edgeKey :: "string \<Rightarrow> int \<Rightarrow> string" where
  "edgeKey edgeID generation = edgeID @ ''@'' @ itoa generation"

section \<open>Store and transaction handles\<close>

text \<open>
  The pool is a third-party client.  What the model needs of it is how it stores an instant in a
  \<^verbatim>\<open>TIMESTAMPTZ\<close> column, whose documented resolution is one microsecond.
\<close>

record pg_pool =
  pool_timestamptz :: "time \<Rightarrow> time"

record Store =
  store_pool :: "pg_pool option"
  store_authorityID :: string

record pg_tx =
  tx_timestamptz :: "time \<Rightarrow> time"
  tx_clock :: time

definition New :: "pg_pool option \<Rightarrow> string \<Rightarrow> store_error + Store" where
  "New pool authorityID =
    (if pool = None \<or> blank authorityID
     then Inl (ErrText ''authority/postgres: pool and authority ID are required'')
     else Inr \<lparr>store_pool = pool, store_authorityID = authorityID\<rparr>)"

definition receipt :: "Store \<Rightarrow> int \<Rightarrow> string \<Rightarrow> string \<Rightarrow> CommitReceipt" where
  "receipt s revision envelopeID commitment =
    \<lparr>rcpt_AuthorityID = store_authorityID s, rcpt_Revision = revision,
     rcpt_EnvelopeID = envelopeID, rcpt_Commitment = commitment\<rparr>"

definition withAuthority :: "Store \<Rightarrow> CommitReceipt \<Rightarrow> CommitReceipt" where
  "withAuthority s r =
    (if rcpt_Revision r > 0 then r\<lparr>rcpt_AuthorityID := store_authorityID s\<rparr> else r)"

section \<open>Reads inside a transaction\<close>

definition stored_receipt :: "int \<Rightarrow> string \<Rightarrow> string \<Rightarrow> CommitReceipt" where
  "stored_receipt revision envelopeID commitment =
    \<lparr>rcpt_AuthorityID = [], rcpt_Revision = revision,
     rcpt_EnvelopeID = envelopeID, rcpt_Commitment = commitment\<rparr>"

definition find_case :: "string \<Rightarrow> string \<Rightarrow> authority_db \<Rightarrow> CaseRecord option" where
  "find_case tenant caseID db =
    find (\<lambda>c. cr_TenantID c = tenant \<and> cr_CaseID c = caseID) (authority_cases db)"

definition case_exact :: "CaseRecord \<Rightarrow> CommitCaseRequest \<Rightarrow> bool" where
  "case_exact c r =
    (cr_EnvelopeID c = ccr_EnvelopeID r \<and> cr_Commitment c = ccr_Commitment r \<and> cr_Raw c = ccr_Raw r
     \<and> cr_Domain c = ccr_Domain r \<and> cr_IssuerEdgeID c = ccr_IssuerEdgeID r
     \<and> cr_IssuerEdgeGeneration c = ccr_IssuerEdgeGeneration r \<and> cr_RoutingEpoch c = ccr_RoutingEpoch r
     \<and> cr_RegistryRevision c = ccr_RegistryRevision r \<and> cr_RegistryHash c = ccr_RegistryHash r
     \<and> cr_ExpiresAt c = ccr_ExpiresAt r)"

definition existingCase :: "CommitCaseRequest \<Rightarrow> authority_db \<Rightarrow> store_error + CommitReceipt option" where
  "existingCase r db =
    (case find_case (ccr_TenantID r) (ccr_CaseID r) db of
       None \<Rightarrow> Inr None
     | Some c \<Rightarrow>
         if \<not> case_exact c r then Inl ErrConflictingCase
         else Inr (Some (stored_receipt (cr_AuthorityRevision c) (cr_EnvelopeID c) (cr_Commitment c))))"

definition find_advice :: "string \<Rightarrow> string \<Rightarrow> authority_db \<Rightarrow> advice_row option" where
  "find_advice tenant caseID db =
    find (\<lambda>a. adv_tenant_id a = tenant \<and> adv_case_id a = caseID) (authority_advice db)"

definition advice_exact :: "advice_row \<Rightarrow> CommitAdviceRequest \<Rightarrow> bool" where
  "advice_exact a r =
    (adv_envelope_id a = car_EnvelopeID r \<and> adv_case_commitment a = car_CaseCommitment r
     \<and> adv_commitment a = car_Commitment r \<and> adv_raw a = car_Raw r
     \<and> adv_routing_epoch a = car_RoutingEpoch r \<and> adv_registry_revision a = car_RegistryRevision r
     \<and> adv_registry_hash a = car_RegistryHash r)"

definition existingAdvice :: "CommitAdviceRequest \<Rightarrow> authority_db \<Rightarrow> store_error + CommitReceipt option" where
  "existingAdvice r db =
    (case find_advice (car_TenantID r) (car_CaseID r) db of
       None \<Rightarrow> Inr None
     | Some a \<Rightarrow>
         if \<not> advice_exact a r then Inl ErrFinalAdviceAlreadySet
         else Inr (Some (stored_receipt (adv_commit_revision a) (adv_envelope_id a) (adv_commitment a))))"

definition find_registry :: "string \<Rightarrow> int \<Rightarrow> authority_db \<Rightarrow> registry_row option" where
  "find_registry tenant revision db =
    find (\<lambda>g. rg_tenant_id g = tenant \<and> rg_registry_revision g = revision) (authority_registries db)"

definition registry_exact :: "registry_row \<Rightarrow> CommitRegistryRequest \<Rightarrow> bool" where
  "registry_exact g r =
    (rg_envelope_id g = crr_EnvelopeID r \<and> rg_commitment g = crr_Commitment r \<and> rg_raw g = crr_Raw r
     \<and> rg_routing_epoch g = crr_RoutingEpoch r
     \<and> coalesce_text (rg_previous_commitment g) = crr_PreviousCommitment r)"

definition existingRegistry ::
    "CommitRegistryRequest \<Rightarrow> authority_db \<Rightarrow> store_error + CommitReceipt option" where
  "existingRegistry r db =
    (case find_registry (crr_TenantID r) (crr_Revision r) db of
       None \<Rightarrow> Inl (ErrText ''authority/postgres: current registry head has no immutable registry row'')
     | Some g \<Rightarrow>
         if \<not> registry_exact g r then Inr None
         else Inr (Some (stored_receipt (rg_commit_revision g) (rg_envelope_id g) (rg_commitment g))))"

definition caseCollision :: "CommitCaseRequest \<Rightarrow> authority_db \<Rightarrow> bool" where
  "caseCollision r db =
    list_ex (\<lambda>c. cr_TenantID c = ccr_TenantID r
      \<and> (cr_EnvelopeID c = ccr_EnvelopeID r \<or> cr_Commitment c = ccr_Commitment r)) (authority_cases db)"

definition adviceCollision :: "CommitAdviceRequest \<Rightarrow> authority_db \<Rightarrow> bool" where
  "adviceCollision r db =
    list_ex (\<lambda>a. adv_tenant_id a = car_TenantID r
      \<and> (adv_envelope_id a = car_EnvelopeID r \<or> adv_commitment a = car_Commitment r)) (authority_advice db)"

definition registryCollision :: "CommitRegistryRequest \<Rightarrow> authority_db \<Rightarrow> bool" where
  "registryCollision r db =
    list_ex (\<lambda>g. rg_tenant_id g = crr_TenantID r
      \<and> (rg_envelope_id g = crr_EnvelopeID r \<or> rg_commitment g = crr_Commitment r)) (authority_registries db)"

definition registryHeadForUpdate :: "string \<Rightarrow> authority_db \<Rightarrow> RegistryHead option" where
  "registryHeadForUpdate tenantID db = authority_registry_heads db tenantID"

section \<open>Writes inside a transaction\<close>

text \<open>
  \<^verbatim>\<open>INSERT INTO authority_revisions DEFAULT VALUES RETURNING revision\<close>: the identity column hands out
  the next integer.
\<close>

definition allocateRevision :: "authority_db \<Rightarrow> store_error + int \<times> authority_db" where
  "allocateRevision db =
    (if revision_identity db \<ge> max_int64 then Inl sequence_limit
     else let revision = revision_identity db + 1 in
       Inr (revision, db\<lparr>revision_identity := revision,
                         authority_revisions := authority_revisions db @ [revision]\<rparr>))"

text \<open>The upsert starts a new edge at \<^verbatim>\<open>next_sequence = 2\<close> and returns \<^verbatim>\<open>next_sequence - 1\<close>.\<close>

definition allocateDeliverySequence ::
    "string \<Rightarrow> string \<Rightarrow> int \<Rightarrow> authority_db \<Rightarrow> store_error + int \<times> authority_db" where
  "allocateDeliverySequence tenantID edgeID generation db =
    (let k = (tenantID, edgeID, generation);
         next = (case authority_edge_delivery_sequences db k of None \<Rightarrow> 2 | Some n \<Rightarrow> n + 1) in
     if generation \<le> 0 then Inl check_violation
     else if next > max_int64 then Inl out_of_range
     else Inr (next - 1, db\<lparr>authority_edge_delivery_sequences :=
                            (authority_edge_delivery_sequences db)(k \<mapsto> next)\<rparr>))"

definition insertEdgeDelivery :: "delivery_row \<Rightarrow> authority_db \<Rightarrow> store_error + authority_db" where
  "insertEdgeDelivery d db =
    (if \<not> delivery_row_check d then Inl check_violation
     else if key_taken delivery_key d (authority_edge_deliveries db)
          \<or> key_taken delivery_envelope_key d (authority_edge_deliveries db) then Inl unique_violation
     else Inr (db\<lparr>authority_edge_deliveries := authority_edge_deliveries db @ [d]\<rparr>))"

definition recordAudit ::
    "string \<Rightarrow> string \<Rightarrow> string \<Rightarrow> string \<Rightarrow> string \<Rightarrow> string \<Rightarrow> string \<Rightarrow> int \<Rightarrow> authority_db
       \<Rightarrow> store_error + authority_db" where
  "recordAudit tenantID kind entityID commitment principalID edgeID decision revision db =
    (let a = \<lparr>au_tenant_id = tenantID, au_entity_kind = kind, au_entity_id = entityID,
              au_commitment = commitment, au_authenticated_principal_id = nullableText principalID,
              au_authenticated_edge_id = nullableText edgeID, au_decision = nullableText decision,
              au_authority_revision = revision\<rparr> in
     if \<not> audit_row_check a then Inl check_violation
     else if key_taken au_authority_revision a (authority_audit db) then Inl unique_violation
     else Inr (db\<lparr>authority_audit := authority_audit db @ [a]\<rparr>))"

record outboxDestination =
  dest_kind :: string
  dest_key :: string

definition fresh_outbox_row ::
    "pg_tx \<Rightarrow> string \<Rightarrow> string \<Rightarrow> string \<Rightarrow> bytes \<Rightarrow> int \<Rightarrow> outboxDestination \<Rightarrow> outbox_row" where
  "fresh_outbox_row tx tenantID eventKind entityID raw revision destination =
    \<lparr>ob_outbox_id = deterministicOutboxID [tenantID, eventKind, entityID, itoa revision,
                                          dest_kind destination, dest_key destination],
     ob_tenant_id = tenantID, ob_event_kind = eventKind, ob_entity_id = entityID,
     ob_destination_kind = dest_kind destination, ob_destination_key = dest_key destination,
     ob_raw = raw, ob_authority_revision = revision, ob_created_at = tx_clock tx, ob_attempts = 0,
     ob_next_attempt_at = tx_clock tx, ob_lease_owner = None, ob_lease_token = None,
     ob_lease_until = None, ob_last_error = [], ob_poisoned_at = None, ob_published_at = None\<rparr>"

fun insertOutbox ::
    "pg_tx \<Rightarrow> string \<Rightarrow> string \<Rightarrow> string \<Rightarrow> bytes \<Rightarrow> int \<Rightarrow> outboxDestination list \<Rightarrow> authority_db
       \<Rightarrow> store_error + authority_db" where
  "insertOutbox tx tenantID eventKind entityID raw revision [] db = Inr db"
| "insertOutbox tx tenantID eventKind entityID raw revision (destination # rest) db =
    (let row = fresh_outbox_row tx tenantID eventKind entityID raw revision destination in
     if \<not> outbox_row_check row then Inl check_violation
     else if key_taken ob_outbox_id row (authority_outbox db)
          \<or> key_taken outbox_destination_key row (authority_outbox db) then Inl unique_violation
     else insertOutbox tx tenantID eventKind entityID raw revision rest
            (db\<lparr>authority_outbox := authority_outbox db @ [row]\<rparr>))"

definition haltRegistryHead :: "string \<Rightarrow> string \<Rightarrow> authority_db \<Rightarrow> store_error + authority_db" where
  "haltRegistryHead tenantID reason db =
    (case authority_registry_heads db tenantID of
       None \<Rightarrow> Inl (ErrText ''authority/postgres: registry head disappeared while halting'')
     | Some h \<Rightarrow> Inr (db\<lparr>authority_registry_heads :=
         (authority_registry_heads db)(tenantID \<mapsto> h\<lparr>rh_Halted := True, rh_HaltReason := reason\<rparr>)\<rparr>))"

text \<open>
  The loop over the sorted edge identifiers.  A missing row is accepted; a lower generation is a
  rollback; an equal one must have been present in the current head under the same principal.
\<close>

fun enforce_edges ::
    "CommitRegistryRequest \<Rightarrow> RegistryHead option \<Rightarrow> string list \<Rightarrow> authority_db
       \<Rightarrow> store_error + authority_db" where
  "enforce_edges r head [] db = Inr db"
| "enforce_edges r head (edgeID # rest) db =
    (let edge = the (map_of (the (crr_Edges r)) edgeID);
         step = (\<lambda>_ :: unit.
           case upsert_high_water (crr_TenantID r) edgeID
                  \<lparr>hw_principal_id = re_PrincipalID edge, hw_highest_generation = re_Generation edge,
                   hw_last_seen_registry_revision = crr_Revision r\<rparr> db of
             Inl e \<Rightarrow> Inl e
           | Inr db' \<Rightarrow> enforce_edges r head rest db') in
     case authority_edge_generation_high_water db (crr_TenantID r, edgeID) of
       None \<Rightarrow> step ()
     | Some w \<Rightarrow>
         if re_Generation edge < hw_highest_generation w then Inl ErrEdgeGenerationRollback
         else if re_Generation edge = hw_highest_generation w
              \<and> (case head of None \<Rightarrow> True
                 | Some h \<Rightarrow> hw_last_seen_registry_revision w \<noteq> rh_Revision h
                              \<or> hw_principal_id w \<noteq> re_PrincipalID edge)
           then Inl ErrEdgeGenerationRollback
         else step ())"

definition enforceEdgeGenerationHighWater ::
    "CommitRegistryRequest \<Rightarrow> RegistryHead option \<Rightarrow> authority_db \<Rightarrow> store_error + authority_db" where
  "enforceEdgeGenerationHighWater r head db =
    enforce_edges r head (sort (map fst (the (crr_Edges r)))) db"

section \<open>The commit transactions\<close>

type_synonym work_result = "(CommitReceipt \<times> bool \<times> store_error option) \<times> authority_db"

definition work_fail :: "store_error \<Rightarrow> authority_db \<Rightarrow> work_result" where
  "work_fail e db = ((zero_receipt, False, Some e), db)"

definition case_row :: "pg_tx \<Rightarrow> CommitCaseRequest \<Rightarrow> int \<Rightarrow> CaseRecord" where
  "case_row tx r revision =
    \<lparr>cr_TenantID = ccr_TenantID r, cr_CaseID = ccr_CaseID r, cr_EnvelopeID = ccr_EnvelopeID r,
     cr_Commitment = ccr_Commitment r, cr_Raw = ccr_Raw r, cr_Domain = ccr_Domain r,
     cr_IssuerEdgeID = ccr_IssuerEdgeID r, cr_IssuerEdgeGeneration = ccr_IssuerEdgeGeneration r,
     cr_RoutingEpoch = ccr_RoutingEpoch r, cr_RegistryRevision = ccr_RegistryRevision r,
     cr_RegistryHash = ccr_RegistryHash r, cr_ExpiresAt = tx_timestamptz tx (ccr_ExpiresAt r),
     cr_AuthorityRevision = revision\<rparr>"

definition case_delivery_row :: "CommitCaseRequest \<Rightarrow> int \<Rightarrow> int \<Rightarrow> delivery_row" where
  "case_delivery_row r sequence revision =
    \<lparr>dr_tenant_id = ccr_TenantID r, dr_edge_id = ccr_IssuerEdgeID r,
     dr_edge_generation = ccr_IssuerEdgeGeneration r,
     dr_delivery = \<lparr>ed_Sequence = sequence, ed_Kind = ''case'', ed_CaseID = ccr_CaseID r,
       ed_EnvelopeID = ccr_EnvelopeID r, ed_Commitment = ccr_Commitment r, ed_Raw = ccr_Raw r,
       ed_AuthorityRevision = revision\<rparr>\<rparr>"

definition case_destinations :: "CommitCaseRequest \<Rightarrow> outboxDestination list" where
  "case_destinations r =
    [\<lparr>dest_kind = ''domain_dispatch'', dest_key = ccr_Domain r\<rparr>,
     \<lparr>dest_kind = ''edge_delivery'', dest_key = edgeKey (ccr_IssuerEdgeID r) (ccr_IssuerEdgeGeneration r)\<rparr>]"

definition CommitCase_work :: "Store \<Rightarrow> CommitCaseRequest \<Rightarrow> pg_tx \<Rightarrow> authority_db \<Rightarrow> work_result" where
  "CommitCase_work s r tx db =
    (case existingCase r db of
       Inl e \<Rightarrow> work_fail e db
     | Inr (Some stored) \<Rightarrow> ((withAuthority s stored, False, None), db)
     | Inr None \<Rightarrow>
    (case registryHeadForUpdate (ccr_TenantID r) db of
       None \<Rightarrow> work_fail ErrRegistryNotFound db
     | Some head \<Rightarrow>
    if rh_Halted head then work_fail ErrRegistryHalted db
    else if rh_Revision head \<noteq> ccr_RegistryRevision r \<or> rh_Commitment head \<noteq> ccr_RegistryHash r
            \<or> rh_RoutingEpoch head \<noteq> ccr_RoutingEpoch r then work_fail ErrRegistryBinding db
    else if caseCollision r db then work_fail ErrConflictingCase db
    else
    (case allocateRevision db of
       Inl e \<Rightarrow> work_fail e db
     | Inr (revision, db1) \<Rightarrow>
    (case insert_authority_case (case_row tx r revision) db1 of
       Inl e \<Rightarrow> work_fail (if isUniqueViolation e then ErrRetryTransaction else e) db1
     | Inr db2 \<Rightarrow>
    (case allocateDeliverySequence (ccr_TenantID r) (ccr_IssuerEdgeID r) (ccr_IssuerEdgeGeneration r) db2 of
       Inl e \<Rightarrow> work_fail e db2
     | Inr (sequence, db3) \<Rightarrow>
    (case insertEdgeDelivery (case_delivery_row r sequence revision) db3 of
       Inl e \<Rightarrow> work_fail e db3
     | Inr db4 \<Rightarrow>
    (case recordAudit (ccr_TenantID r) ''case'' (ccr_CaseID r) (ccr_Commitment r)
            (ccr_AuthenticatedPrincipalID r) (ccr_AuthenticatedEdgeID r) (ccr_Decision r) revision db4 of
       Inl e \<Rightarrow> work_fail e db4
     | Inr db5 \<Rightarrow>
    (case insertOutbox tx (ccr_TenantID r) ''case'' (ccr_CaseID r) (ccr_Raw r) revision
            (case_destinations r) db5 of
       Inl e \<Rightarrow> work_fail e db5
     | Inr db6 \<Rightarrow>
    ((receipt s revision (ccr_EnvelopeID r) (ccr_Commitment r), True, None), db6)))))))))"

definition advice_row_of :: "CommitAdviceRequest \<Rightarrow> CaseRecord \<Rightarrow> int \<Rightarrow> int \<Rightarrow> advice_row" where
  "advice_row_of r c sequence revision =
    \<lparr>adv_tenant_id = car_TenantID r, adv_case_id = car_CaseID r, adv_envelope_id = car_EnvelopeID r,
     adv_case_commitment = car_CaseCommitment r, adv_commitment = car_Commitment r,
     adv_raw = car_Raw r, adv_routing_epoch = car_RoutingEpoch r,
     adv_registry_revision = car_RegistryRevision r, adv_registry_hash = car_RegistryHash r,
     adv_target_edge_id = cr_IssuerEdgeID c, adv_target_edge_generation = cr_IssuerEdgeGeneration c,
     adv_delivery_sequence = sequence, adv_commit_revision = revision\<rparr>"

definition advice_delivery_row :: "CommitAdviceRequest \<Rightarrow> CaseRecord \<Rightarrow> int \<Rightarrow> int \<Rightarrow> delivery_row" where
  "advice_delivery_row r c sequence revision =
    \<lparr>dr_tenant_id = car_TenantID r, dr_edge_id = cr_IssuerEdgeID c,
     dr_edge_generation = cr_IssuerEdgeGeneration c,
     dr_delivery = \<lparr>ed_Sequence = sequence, ed_Kind = ''advice'', ed_CaseID = car_CaseID r,
       ed_EnvelopeID = car_EnvelopeID r, ed_Commitment = car_Commitment r, ed_Raw = car_Raw r,
       ed_AuthorityRevision = revision\<rparr>\<rparr>"

definition advice_destinations :: "CaseRecord \<Rightarrow> outboxDestination list" where
  "advice_destinations c =
    [\<lparr>dest_kind = ''edge_delivery'', dest_key = edgeKey (cr_IssuerEdgeID c) (cr_IssuerEdgeGeneration c)\<rparr>]"

text \<open>
  The final-advice conflict found by \<open>existingAdvice\<close> is only reported after the registry head has
  been found and is not halted; an exact replay is answered before the head is read.
\<close>

definition CommitAdvice_work :: "Store \<Rightarrow> CommitAdviceRequest \<Rightarrow> pg_tx \<Rightarrow> authority_db \<Rightarrow> work_result" where
  "CommitAdvice_work s r tx db =
    (let existing = existingAdvice r db in
     case existing of
       Inr (Some stored) \<Rightarrow> ((withAuthority s stored, False, None), db)
     | _ \<Rightarrow>
    if (case existing of Inl e \<Rightarrow> e \<noteq> ErrFinalAdviceAlreadySet | Inr _ \<Rightarrow> False)
    then work_fail (projl existing) db
    else
    (case registryHeadForUpdate (car_TenantID r) db of
       None \<Rightarrow> work_fail ErrRegistryNotFound db
     | Some head \<Rightarrow>
    if rh_Halted head then work_fail ErrRegistryHalted db
    else if existing = Inl ErrFinalAdviceAlreadySet then work_fail ErrFinalAdviceAlreadySet db
    else
    (case find_case (car_TenantID r) (car_CaseID r) db of
       None \<Rightarrow> work_fail ErrCaseNotFound db
     | Some c \<Rightarrow>
    if car_CaseCommitment r \<noteq> cr_Commitment c \<or> car_RoutingEpoch r \<noteq> cr_RoutingEpoch c
       \<or> car_RegistryRevision r \<noteq> cr_RegistryRevision c \<or> car_RegistryHash r \<noteq> cr_RegistryHash c
    then work_fail ErrCaseBinding db
    else if adviceCollision r db then work_fail ErrFinalAdviceAlreadySet db
    else
    (case allocateDeliverySequence (car_TenantID r) (cr_IssuerEdgeID c) (cr_IssuerEdgeGeneration c) db of
       Inl e \<Rightarrow> work_fail e db
     | Inr (sequence, db1) \<Rightarrow>
    (case allocateRevision db1 of
       Inl e \<Rightarrow> work_fail e db1
     | Inr (revision, db2) \<Rightarrow>
    (case insert_authority_advice (advice_row_of r c sequence revision) db2 of
       Inl e \<Rightarrow> work_fail (if isUniqueViolation e then ErrRetryTransaction else e) db2
     | Inr db3 \<Rightarrow>
    (case insertEdgeDelivery (advice_delivery_row r c sequence revision) db3 of
       Inl e \<Rightarrow> work_fail e db3
     | Inr db4 \<Rightarrow>
    (case recordAudit (car_TenantID r) ''advice'' (car_CaseID r) (car_Commitment r)
            (car_AuthenticatedPrincipalID r) (car_AuthenticatedEdgeID r) (car_Decision r) revision db4 of
       Inl e \<Rightarrow> work_fail e db4
     | Inr db5 \<Rightarrow>
    (case insertOutbox tx (car_TenantID r) ''advice'' (car_CaseID r) (car_Raw r) revision
            (advice_destinations c) db5 of
       Inl e \<Rightarrow> work_fail e db5
     | Inr db6 \<Rightarrow>
    ((receipt s revision (car_EnvelopeID r) (car_Commitment r), True, None), db6))))))))))"

definition registryHaltPredecessorMismatch :: string where
  "registryHaltPredecessorMismatch = ''predecessor commitment mismatch''"

definition registryHaltSameRevisionConflict :: string where
  "registryHaltSameRevisionConflict = ''same-revision conflicting evidence''"

definition registryHaltRevisionRollback :: string where
  "registryHaltRevisionRollback = ''registry revision rollback''"

text \<open>Latch the halt and report \<open>e\<close>: the commit flag is set although an error is returned.\<close>

definition halt_with :: "string \<Rightarrow> string \<Rightarrow> store_error \<Rightarrow> authority_db \<Rightarrow> work_result" where
  "halt_with tenantID reason e db =
    (case haltRegistryHead tenantID reason db of
       Inl e' \<Rightarrow> work_fail e' db
     | Inr db' \<Rightarrow> ((zero_receipt, True, Some e), db'))"

definition registry_row_of :: "CommitRegistryRequest \<Rightarrow> int \<Rightarrow> registry_row" where
  "registry_row_of r revision =
    \<lparr>rg_tenant_id = crr_TenantID r, rg_registry_revision = crr_Revision r,
     rg_envelope_id = crr_EnvelopeID r, rg_commitment = crr_Commitment r, rg_raw = crr_Raw r,
     rg_routing_epoch = crr_RoutingEpoch r,
     rg_previous_commitment = nullableText (crr_PreviousCommitment r), rg_commit_revision = revision\<rparr>"

definition new_registry_head :: "CommitRegistryRequest \<Rightarrow> RegistryHead" where
  "new_registry_head r =
    \<lparr>rh_TenantID = crr_TenantID r, rh_Revision = crr_Revision r, rh_Commitment = crr_Commitment r,
     rh_RoutingEpoch = crr_RoutingEpoch r, rh_Halted = False, rh_HaltReason = []\<rparr>"

text \<open>The part of \<^verbatim>\<open>CommitRegistry\<close> after the head checks: collision, generations, rows, head, audit.\<close>

definition commit_registry_rows ::
    "Store \<Rightarrow> CommitRegistryRequest \<Rightarrow> RegistryHead option \<Rightarrow> authority_db \<Rightarrow> work_result" where
  "commit_registry_rows s r head db =
    (if registryCollision r db then work_fail ErrConflictingRegistry db
     else
    (case enforceEdgeGenerationHighWater r head db of
       Inl e \<Rightarrow> work_fail e db
     | Inr db1 \<Rightarrow>
    (case allocateRevision db1 of
       Inl e \<Rightarrow> work_fail e db1
     | Inr (revision, db2) \<Rightarrow>
    (case insert_authority_registry (registry_row_of r revision) db2 of
       Inl e \<Rightarrow> work_fail (if isUniqueViolation e then ErrRetryTransaction else e) db2
     | Inr db3 \<Rightarrow>
    (case (if head \<noteq> None
           then update_registry_head (crr_TenantID r) (crr_Revision r) (crr_Commitment r) (crr_RoutingEpoch r) db3
           else insert_registry_head (new_registry_head r) db3) of
       Inl e \<Rightarrow> work_fail (if isUniqueViolation e then ErrRetryTransaction else e) db3
     | Inr db4 \<Rightarrow>
    (case recordAudit (crr_TenantID r) ''registry'' (crr_EnvelopeID r) (crr_Commitment r)
            (crr_AuthenticatedPrincipalID r) (crr_AuthenticatedEdgeID r) (crr_Decision r) revision db4 of
       Inl e \<Rightarrow> work_fail e db4
     | Inr db5 \<Rightarrow>
    ((receipt s revision (crr_EnvelopeID r) (crr_Commitment r), True, None), db5)))))))"

definition CommitRegistry_work ::
    "Store \<Rightarrow> CommitRegistryRequest \<Rightarrow> pg_tx \<Rightarrow> authority_db \<Rightarrow> work_result" where
  "CommitRegistry_work s r tx db =
    (case registryHeadForUpdate (crr_TenantID r) db of
       Some head \<Rightarrow>
         if rh_Halted head then work_fail ErrRegistryHalted db
         else if crr_Revision r < rh_Revision head
           then halt_with (crr_TenantID r) registryHaltRevisionRollback ErrRegistryRollback db
         else if crr_Revision r = rh_Revision head then
           (case existingRegistry r db of
              Inl e \<Rightarrow> work_fail e db
            | Inr None \<Rightarrow>
                halt_with (crr_TenantID r) registryHaltSameRevisionConflict ErrRegistryEquivocation db
            | Inr (Some stored) \<Rightarrow> ((withAuthority s stored, False, None), db))
         else if crr_Revision r \<noteq> wrap64 (rh_Revision head + 1) then work_fail ErrRegistryRevisionSequence db
         else if crr_PreviousCommitment r \<noteq> rh_Commitment head
           then halt_with (crr_TenantID r) registryHaltPredecessorMismatch ErrRegistryEquivocation db
         else commit_registry_rows s r (Some head) db
     | None \<Rightarrow>
         if crr_PreviousCommitment r \<noteq> [] then work_fail ErrRegistryEquivocation db
         else commit_registry_rows s r None db)"

section \<open>The retry loop\<close>

text \<open>
  One attempt's environment: what other transactions committed before its snapshot, the server
  errors (by SQLSTATE) of \<^verbatim>\<open>BeginTx\<close>, \<^verbatim>\<open>Rollback\<close> and \<^verbatim>\<open>Commit\<close> (with whether the server had applied
  it), the failure of a statement inside \<^verbatim>\<open>work\<close> (with whether a revision had been drawn by then), and
  the server's clock.  A statement fails with a server error, or the semantic insert loses a race
  against a row that is invisible to the snapshot, which the store turns into its retry marker.
\<close>

datatype statement_failure = ServerError string | LostInsertRace

fun failure_error :: "statement_failure \<Rightarrow> store_error" where
  "failure_error (ServerError code) = ErrPg code"
| "failure_error LostInsertRace = ErrRetryTransaction"

record tx_attempt =
  at_others :: "authority_db \<Rightarrow> authority_db"
  at_begin :: "string option"
  at_work :: "(statement_failure \<times> bool) option"
  at_rollback :: "string option"
  at_commit :: "(string \<times> bool) option"
  at_clock :: time

definition rolled_back :: "authority_db \<Rightarrow> authority_db \<Rightarrow> authority_db" where
  "rolled_back before after = before\<lparr>revision_identity := revision_identity after\<rparr>"

definition run_work :: "tx_attempt \<Rightarrow> (authority_db \<Rightarrow> work_result) \<Rightarrow> authority_db \<Rightarrow> work_result" where
  "run_work env work db =
    (case at_work env of
       None \<Rightarrow> work db
     | Some (f, drew) \<Rightarrow> work_fail (failure_error f) (if drew then rolled_back db (snd (work db)) else db))"

definition transactionAttempts :: nat where
  "transactionAttempts = 3"

text \<open>One pass of the loop body: it either continues or returns.\<close>

datatype attempt_outcome = Retry | Return CommitReceipt "store_error option"

definition transaction_attempt ::
    "(pg_tx \<Rightarrow> authority_db \<Rightarrow> work_result) \<Rightarrow> pg_pool \<Rightarrow> tx_attempt \<Rightarrow> authority_db
       \<Rightarrow> attempt_outcome \<times> authority_db" where
  "transaction_attempt work pool env db =
    (case at_begin env of
       Some code \<Rightarrow> (Return zero_receipt (Some (ErrPg code)), db)
     | None \<Rightarrow>
    (let ((rcpt, commit, workErr), db1) =
           run_work env (work \<lparr>tx_timestamptz = pool_timestamptz pool, tx_clock = at_clock env\<rparr>) db in
     case (if commit then None else workErr) of
       Some e \<Rightarrow>
         (if retryable e \<or> (case at_rollback env of None \<Rightarrow> False | Some code \<Rightarrow> retryable (ErrPg code))
          then Retry else Return zero_receipt (Some e), rolled_back db db1)
     | None \<Rightarrow>
         (case at_commit env of
            Some (code, applied) \<Rightarrow>
              if retryable (ErrPg code) then (Retry, rolled_back db db1)
              else (Return zero_receipt (Some (ErrPg code)), if applied then db1 else rolled_back db db1)
          | None \<Rightarrow> (Return rcpt workErr, db1))))"

primrec transaction_loop ::
    "nat \<Rightarrow> nat \<Rightarrow> string \<Rightarrow> (pg_tx \<Rightarrow> authority_db \<Rightarrow> work_result) \<Rightarrow> pg_pool
       \<Rightarrow> (nat \<Rightarrow> tx_attempt) \<Rightarrow> authority_db \<Rightarrow> (CommitReceipt \<times> store_error option) \<times> authority_db" where
  "transaction_loop 0 attempt label work pool envs db =
    ((zero_receipt, Some (ErrText (''authority/postgres: '' @ label
        @ '' transaction exhausted serializable retries''))), db)"
| "transaction_loop (Suc n) attempt label work pool envs db =
    (case transaction_attempt work pool (envs attempt) (at_others (envs attempt) db) of
       (Retry, db') \<Rightarrow> transaction_loop n (Suc attempt) label work pool envs db'
     | (Return rcpt err, db') \<Rightarrow> ((rcpt, err), db'))"

definition nil_store :: store_error where
  "nil_store = ErrText ''authority/postgres: nil store''"

definition transaction ::
    "Store \<Rightarrow> string \<Rightarrow> (pg_tx \<Rightarrow> authority_db \<Rightarrow> work_result) \<Rightarrow> (nat \<Rightarrow> tx_attempt) \<Rightarrow> authority_db
       \<Rightarrow> (CommitReceipt \<times> store_error option) \<times> authority_db" where
  "transaction s label work envs db =
    (case store_pool s of
       None \<Rightarrow> ((zero_receipt, Some nil_store), db)
     | Some pool \<Rightarrow> transaction_loop transactionAttempts 0 label work pool envs db)"

definition CommitCase ::
    "Store \<Rightarrow> (nat \<Rightarrow> tx_attempt) \<Rightarrow> CommitCaseRequest \<Rightarrow> authority_db
       \<Rightarrow> (CommitReceipt \<times> store_error option) \<times> authority_db" where
  "CommitCase s envs r db =
    (case CommitCaseRequest_Validate r of
       Some e \<Rightarrow> ((zero_receipt, Some e), db)
     | None \<Rightarrow> transaction s ''case'' (CommitCase_work s r) envs db)"

definition CommitAdvice ::
    "Store \<Rightarrow> (nat \<Rightarrow> tx_attempt) \<Rightarrow> CommitAdviceRequest \<Rightarrow> authority_db
       \<Rightarrow> (CommitReceipt \<times> store_error option) \<times> authority_db" where
  "CommitAdvice s envs r db =
    (case CommitAdviceRequest_Validate r of
       Some e \<Rightarrow> ((zero_receipt, Some e), db)
     | None \<Rightarrow> transaction s ''advice'' (CommitAdvice_work s r) envs db)"

definition CommitRegistry ::
    "Store \<Rightarrow> (nat \<Rightarrow> tx_attempt) \<Rightarrow> CommitRegistryRequest \<Rightarrow> authority_db
       \<Rightarrow> (CommitReceipt \<times> store_error option) \<times> authority_db" where
  "CommitRegistry s envs r db =
    (case CommitRegistryRequest_Validate r of
       Some e \<Rightarrow> ((zero_receipt, Some e), db)
     | None \<Rightarrow>
         transaction s ''registry''
           (CommitRegistry_work s (r\<lparr>crr_Edges := cloneRegistryEdges (crr_Edges r)\<rparr>)) envs db)"

section \<open>Reads\<close>

text \<open>
  A read takes the server error that may end it at any of its statements as \<open>fault\<close>; all its
  statements see one snapshot.
\<close>

definition edge_rows :: "string \<Rightarrow> string \<Rightarrow> int \<Rightarrow> authority_db \<Rightarrow> EdgeDelivery list" where
  "edge_rows tenant edge generation db =
    map dr_delivery (filter (\<lambda>d. dr_tenant_id d = tenant \<and> dr_edge_id d = edge
                                  \<and> dr_edge_generation d = generation) (authority_edge_deliveries db))"

text \<open>\<^verbatim>\<open>COALESCE(MAX(column), 0)\<close>.\<close>

definition max_or_zero :: "int list \<Rightarrow> int" where
  "max_or_zero xs = (if xs = [] then 0 else foldl max (hd xs) (tl xs))"

text \<open>The watermark, the ordered limited page and the completeness bound of one edge's rows.\<close>

definition edge_page :: "EdgeDelivery list \<Rightarrow> int \<Rightarrow> int \<Rightarrow> EdgeDeliveryPage" where
  "edge_page rows after limit =
    (let high = max_or_zero (map ed_Sequence rows);
         deliveries = take (nat limit) (sort_key ed_Sequence (filter (\<lambda>d. ed_Sequence d > after) rows));
         through = (if length deliveries > 0 then ed_Sequence (last deliveries) else after) in
     \<lparr>edp_Deliveries = deliveries, edp_HighWatermark = high,
      edp_CompleteThrough =
        (if int (length deliveries) < limit \<and> high > through then high else through)\<rparr>)"

definition ListEdgeDeliveries ::
    "Store \<Rightarrow> store_error option \<Rightarrow> EdgeDeliveryQuery \<Rightarrow> authority_db \<Rightarrow> store_error + EdgeDeliveryPage" where
  "ListEdgeDeliveries s fault q db =
    (if store_pool s = None then Inl nil_store
     else case EdgeDeliveryQuery_Validate q of Some e \<Rightarrow> Inl e | None \<Rightarrow>
    (case fault of Some e \<Rightarrow> Inl e | None \<Rightarrow>
    (case (authority_registry_heads db (edq_TenantID q),
           authority_edge_generation_high_water db (edq_TenantID q, edq_EdgeID q)) of
       (Some h, Some w) \<Rightarrow>
         if rh_Halted h then Inl ErrRegistryHalted
         else if hw_principal_id w \<noteq> edq_PrincipalID q \<or> hw_highest_generation w \<noteq> edq_EdgeGeneration q
                 \<or> hw_last_seen_registry_revision w \<noteq> rh_Revision h then Inl ErrEdgeNotActive
         else Inr (edge_page (edge_rows (edq_TenantID q) (edq_EdgeID q) (edq_EdgeGeneration q) db)
                     (edq_AfterSequence q) (edq_Limit q))
     | _ \<Rightarrow> Inl ErrEdgeNotActive)))"

definition case_fact :: "CaseRecord \<Rightarrow> ProjectionFact" where
  "case_fact c = \<lparr>pf_AuthorityRevision = cr_AuthorityRevision c, pf_Kind = ''case'',
     pf_CaseID = cr_CaseID c, pf_EnvelopeID = cr_EnvelopeID c, pf_Commitment = cr_Commitment c,
     pf_Raw = cr_Raw c\<rparr>"

definition advice_fact :: "advice_row \<Rightarrow> ProjectionFact" where
  "advice_fact a = \<lparr>pf_AuthorityRevision = adv_commit_revision a, pf_Kind = ''advice'',
     pf_CaseID = adv_case_id a, pf_EnvelopeID = adv_envelope_id a, pf_Commitment = adv_commitment a,
     pf_Raw = adv_raw a\<rparr>"

definition tenant_facts :: "string \<Rightarrow> authority_db \<Rightarrow> ProjectionFact list" where
  "tenant_facts tenant db =
    map case_fact (filter (\<lambda>c. cr_TenantID c = tenant) (authority_cases db))
    @ map advice_fact (filter (\<lambda>a. adv_tenant_id a = tenant) (authority_advice db))"

definition ListProjectionFacts ::
    "Store \<Rightarrow> store_error option \<Rightarrow> ProjectionFactQuery \<Rightarrow> authority_db
       \<Rightarrow> store_error + ProjectionFactPage" where
  "ListProjectionFacts s fault q db =
    (if store_pool s = None then Inl nil_store
     else case ProjectionFactQuery_Validate q of Some e \<Rightarrow> Inl e | None \<Rightarrow>
    (case fault of Some e \<Rightarrow> Inl e | None \<Rightarrow>
    (let facts = tenant_facts (pfq_TenantID q) db in
     Inr \<lparr>pfp_Facts = take (nat (pfq_Limit q)) (sort_key pf_AuthorityRevision
             (filter (\<lambda>f. pf_AuthorityRevision f > pfq_AfterAuthoritySequence q) facts)),
          pfp_HighWatermark = max_or_zero (map pf_AuthorityRevision facts)\<rparr>)))"

definition ResolveCase ::
    "Store \<Rightarrow> store_error option \<Rightarrow> string \<Rightarrow> string \<Rightarrow> string \<Rightarrow> authority_db \<Rightarrow> store_error + CaseRecord" where
  "ResolveCase s fault tenantID caseID commitment db =
    (if store_pool s = None then Inl nil_store
     else if blank tenantID \<or> blank caseID \<or> \<not> validCommitment commitment then Inl ErrInvalidRequest
     else case fault of Some e \<Rightarrow> Inl e | None \<Rightarrow>
    (case find (\<lambda>c. cr_TenantID c = tenantID \<and> cr_CaseID c = caseID \<and> cr_Commitment c = commitment)
            (authority_cases db) of
       None \<Rightarrow> Inl ErrCaseNotFound
     | Some c \<Rightarrow> Inr c))"

definition registry_record :: "registry_row \<Rightarrow> RegistryRecord" where
  "registry_record g =
    \<lparr>rr_TenantID = rg_tenant_id g, rr_Revision = rg_registry_revision g,
     rr_EnvelopeID = rg_envelope_id g, rr_Commitment = rg_commitment g, rr_Raw = rg_raw g,
     rr_RoutingEpoch = rg_routing_epoch g,
     rr_PreviousCommitment = coalesce_text (rg_previous_commitment g),
     rr_AuthorityRevision = rg_commit_revision g\<rparr>"

definition ResolveRegistry ::
    "Store \<Rightarrow> store_error option \<Rightarrow> string \<Rightarrow> int \<Rightarrow> string \<Rightarrow> authority_db \<Rightarrow> store_error + RegistryRecord" where
  "ResolveRegistry s fault tenantID registryRevision commitment db =
    (if store_pool s = None then Inl nil_store
     else if blank tenantID \<or> registryRevision \<le> 0 \<or> \<not> validCommitment commitment then Inl ErrInvalidRequest
     else case fault of Some e \<Rightarrow> Inl e | None \<Rightarrow>
    (case find (\<lambda>g. rg_tenant_id g = tenantID \<and> rg_registry_revision g = registryRevision
                     \<and> rg_commitment g = commitment) (authority_registries db) of
       None \<Rightarrow> Inl ErrRegistryNotFound
     | Some g \<Rightarrow> Inr (registry_record g)))"

definition CurrentRegistryHead ::
    "Store \<Rightarrow> store_error option \<Rightarrow> string \<Rightarrow> authority_db \<Rightarrow> store_error + RegistryHead" where
  "CurrentRegistryHead s fault tenantID db =
    (if store_pool s = None then Inl nil_store
     else if blank tenantID then Inl ErrInvalidRequest
     else case fault of Some e \<Rightarrow> Inl e | None \<Rightarrow>
    (case authority_registry_heads db tenantID of
       None \<Rightarrow> Inl ErrRegistryHeadNotFound
     | Some h \<Rightarrow> Inr h))"

end
