(* ===== verification/Authority_Outcomes.thy ===== *)
theory Authority_Outcomes
  imports Authority_Store
begin

text \<open>
  What the commit transactions do to the tables.  Each transaction is characterised by its possible
  outcomes: it fails and at most draws a revision, or it answers an exact replay without a write, or
  every guard held and the new state is one explicit update.  A registry commit can also latch a halt.
  The invariant and the refinement in the theories that follow rest on these facts only.
\<close>

section \<open>Statement facts\<close>

definition next_sequence :: "authority_db \<Rightarrow> string \<times> string \<times> int \<Rightarrow> int" where
  "next_sequence db k = (case authority_edge_delivery_sequences db k of None \<Rightarrow> 1 | Some n \<Rightarrow> n)"

lemma next_sequence_frame [simp]:
  "next_sequence (db\<lparr>revision_identity := a\<rparr>) k = next_sequence db k"
  "next_sequence (db\<lparr>authority_revisions := b\<rparr>) k = next_sequence db k"
  "next_sequence (db\<lparr>authority_cases := c\<rparr>) k = next_sequence db k"
  "next_sequence (db\<lparr>authority_advice := d\<rparr>) k = next_sequence db k"
  "next_sequence (db\<lparr>authority_edge_deliveries := e\<rparr>) k = next_sequence db k"
  "next_sequence (db\<lparr>authority_registry_heads := f\<rparr>) k = next_sequence db k"
  "next_sequence (db\<lparr>authority_edge_generation_high_water := g\<rparr>) k = next_sequence db k"
  "next_sequence (db\<lparr>authority_registries := h\<rparr>) k = next_sequence db k"
  "next_sequence (db\<lparr>authority_audit := i\<rparr>) k = next_sequence db k"
  "next_sequence (db\<lparr>authority_outbox := j\<rparr>) k = next_sequence db k"
  by (simp_all add: next_sequence_def)

lemma next_sequence_update [simp]:
  "next_sequence (db\<lparr>authority_edge_delivery_sequences := m(k \<mapsto> n)\<rparr>) k' =
    (if k' = k then n else next_sequence (db\<lparr>authority_edge_delivery_sequences := m\<rparr>) k')"
  by (simp add: next_sequence_def)

lemma next_sequence_same [simp]:
  "next_sequence (db\<lparr>authority_edge_delivery_sequences := authority_edge_delivery_sequences db\<rparr>) k =
    next_sequence db k"
  by (simp add: next_sequence_def)

lemma allocateRevision_Inr:
  "allocateRevision db = Inr (revision, db') \<longleftrightarrow>
    revision_identity db < max_int64 \<and> revision = revision_identity db + 1
    \<and> db' = db\<lparr>revision_identity := revision, authority_revisions := authority_revisions db @ [revision]\<rparr>"
  by (auto simp: allocateRevision_def Let_def)

lemma allocateDeliverySequence_Inr:
  "allocateDeliverySequence t e g db = Inr (q, db') \<longleftrightarrow>
    0 < g \<and> next_sequence db (t, e, g) < max_int64 \<and> q = next_sequence db (t, e, g)
    \<and> db' = db\<lparr>authority_edge_delivery_sequences :=
                (authority_edge_delivery_sequences db)((t, e, g) \<mapsto> q + 1)\<rparr>"
  by (auto simp: allocateDeliverySequence_def next_sequence_def Let_def max_int64_def
      split: option.splits)

lemma insert_authority_case_Inr:
  "insert_authority_case c db = Inr db' \<longleftrightarrow>
    case_row_check c \<and> \<not> keys_taken case_keys c (authority_cases db)
    \<and> db' = db\<lparr>authority_cases := authority_cases db @ [c]\<rparr>"
  by (auto simp: insert_authority_case_def)

lemma insert_authority_advice_Inr:
  "insert_authority_advice a db = Inr db' \<longleftrightarrow>
    advice_row_check a \<and> \<not> keys_taken advice_keys a (authority_advice db)
    \<and> db' = db\<lparr>authority_advice := authority_advice db @ [a]\<rparr>"
  by (auto simp: insert_authority_advice_def)

lemma insertEdgeDelivery_Inr:
  "insertEdgeDelivery d db = Inr db' \<longleftrightarrow>
    delivery_row_check d \<and> \<not> key_taken delivery_key d (authority_edge_deliveries db)
    \<and> \<not> key_taken delivery_envelope_key d (authority_edge_deliveries db)
    \<and> db' = db\<lparr>authority_edge_deliveries := authority_edge_deliveries db @ [d]\<rparr>"
  by (auto simp: insertEdgeDelivery_def)

definition audit_row_of ::
    "string \<Rightarrow> string \<Rightarrow> string \<Rightarrow> string \<Rightarrow> string \<Rightarrow> string \<Rightarrow> string \<Rightarrow> int \<Rightarrow> audit_row" where
  "audit_row_of tenantID kind entityID commitment principalID edgeID decision revision =
    \<lparr>au_tenant_id = tenantID, au_entity_kind = kind, au_entity_id = entityID,
     au_commitment = commitment, au_authenticated_principal_id = nullableText principalID,
     au_authenticated_edge_id = nullableText edgeID, au_decision = nullableText decision,
     au_authority_revision = revision\<rparr>"

lemma recordAudit_Inr:
  "recordAudit t k i c p e d n db = Inr db' \<longleftrightarrow>
    audit_row_check (audit_row_of t k i c p e d n)
    \<and> n \<notin> au_authority_revision ` set (authority_audit db)
    \<and> db' = db\<lparr>authority_audit := authority_audit db @ [audit_row_of t k i c p e d n]\<rparr>"
  by (auto simp: recordAudit_def audit_row_of_def Let_def table_simps)

lemma insertOutbox_Cons_Inr:
  "insertOutbox tx t k i raw n (d # ds) db = Inr db' \<longleftrightarrow>
    (let row = fresh_outbox_row tx t k i raw n d in
     outbox_row_check row \<and> ob_outbox_id row \<notin> ob_outbox_id ` set (authority_outbox db)
     \<and> outbox_destination_key row \<notin> outbox_destination_key ` set (authority_outbox db)
     \<and> insertOutbox tx t k i raw n ds (db\<lparr>authority_outbox := authority_outbox db @ [row]\<rparr>) = Inr db')"
  by (auto simp: Let_def table_simps)

lemma insertOutbox_rows:
  "insertOutbox tx t k i raw n ds db = Inr db' \<Longrightarrow>
    db' = db\<lparr>authority_outbox := authority_outbox db @ map (fresh_outbox_row tx t k i raw n) ds\<rparr>"
  by (induction ds arbitrary: db)
    (fastforce simp: insertOutbox_Cons_Inr Let_def simp del: insertOutbox.simps(2))+

lemma insertOutbox_distinct:
  "insertOutbox tx t k i raw n ds db = Inr db' \<Longrightarrow>
    (distinct (map ob_outbox_id (authority_outbox db)) \<longrightarrow>
      distinct (map ob_outbox_id (authority_outbox db')))
    \<and> (distinct (map outbox_destination_key (authority_outbox db)) \<longrightarrow>
      distinct (map outbox_destination_key (authority_outbox db')))"
  by (induction ds arbitrary: db)
    (fastforce simp: insertOutbox_Cons_Inr Let_def simp del: insertOutbox.simps(2))+

section \<open>CommitCase\<close>

definition case_commit_db :: "pg_tx \<Rightarrow> CommitCaseRequest \<Rightarrow> authority_db \<Rightarrow> authority_db" where
  "case_commit_db tx r db =
    (let revision = revision_identity db + 1;
         k = (ccr_TenantID r, ccr_IssuerEdgeID r, ccr_IssuerEdgeGeneration r);
         sequence = next_sequence db k in
     db\<lparr>revision_identity := revision,
        authority_revisions := authority_revisions db @ [revision],
        authority_cases := authority_cases db @ [case_row tx r revision],
        authority_edge_delivery_sequences := (authority_edge_delivery_sequences db)(k \<mapsto> sequence + 1),
        authority_edge_deliveries := authority_edge_deliveries db @ [case_delivery_row r sequence revision],
        authority_audit := authority_audit db @
          [audit_row_of (ccr_TenantID r) ''case'' (ccr_CaseID r) (ccr_Commitment r)
             (ccr_AuthenticatedPrincipalID r) (ccr_AuthenticatedEdgeID r) (ccr_Decision r) revision],
        authority_outbox := authority_outbox db @
          map (fresh_outbox_row tx (ccr_TenantID r) ''case'' (ccr_CaseID r) (ccr_Raw r) revision)
            (case_destinations r)\<rparr>)"

text \<open>The guards of a fresh case commit.\<close>

definition case_admitted :: "CommitCaseRequest \<Rightarrow> authority_db \<Rightarrow> bool" where
  "case_admitted r db \<longleftrightarrow>
    find_case (ccr_TenantID r) (ccr_CaseID r) db = None
    \<and> (\<exists>h. authority_registry_heads db (ccr_TenantID r) = Some h \<and> \<not> rh_Halted h
         \<and> rh_Revision h = ccr_RegistryRevision r \<and> rh_Commitment h = ccr_RegistryHash r
         \<and> rh_RoutingEpoch h = ccr_RoutingEpoch r)
    \<and> \<not> caseCollision r db"

lemmas statement_Inr =
  allocateRevision_Inr allocateDeliverySequence_Inr insert_authority_case_Inr
  insert_authority_advice_Inr insertEdgeDelivery_Inr recordAudit_Inr

lemma CommitCase_work_ok:
  assumes "CommitCase_work s r tx db = ((rc, cm, None), db')" and "existingCase r db = Inr None"
  shows "rc = receipt s (revision_identity db + 1) (ccr_EnvelopeID r) (ccr_Commitment r) \<and> cm
    \<and> db' = case_commit_db tx r db \<and> case_admitted r db
    \<and> case_row_check (case_row tx r (revision_identity db + 1))
    \<and> \<not> keys_taken case_keys (case_row tx r (revision_identity db + 1)) (authority_cases db)
    \<and> \<not> key_taken delivery_envelope_key (case_delivery_row r 1 1) (authority_edge_deliveries db)
    \<and> (distinct (map ob_outbox_id (authority_outbox db)) \<longrightarrow>
         distinct (map ob_outbox_id (authority_outbox db')))
    \<and> (distinct (map outbox_destination_key (authority_outbox db)) \<longrightarrow>
         distinct (map outbox_destination_key (authority_outbox db')))"
  using assms
  apply (clarsimp simp: CommitCase_work_def work_fail_def statement_Inr registryHeadForUpdate_def
      split: option.splits sum.splits prod.splits if_splits)
  apply (frule insertOutbox_distinct, drule insertOutbox_rows)
  apply (clarsimp simp: case_admitted_def case_commit_db_def Let_def delivery_envelope_key_def
      case_delivery_row_def existingCase_def key_taken_iff
      split: option.splits if_splits)
  done

lemma CommitCase_work_err:
  assumes "CommitCase_work s r tx db = ((rc, cm, Some e), db')"
  shows "rc = zero_receipt \<and> \<not> cm \<and> revision_identity db \<le> revision_identity db'"
  using assms
  by (auto simp: CommitCase_work_def work_fail_def statement_Inr
      split: option.splits sum.splits prod.splits if_splits)

lemma CommitCase_work_replay:
  assumes "CommitCase_work s r tx db = ((rc, cm, None), db')" and "existingCase r db = Inr (Some stored)"
  shows "rc = withAuthority s stored \<and> \<not> cm \<and> db' = db"
  using assms by (auto simp: CommitCase_work_def)

lemma existingCase_Some:
  "existingCase r db = Inr (Some stored) \<longleftrightarrow>
    (\<exists>c. find_case (ccr_TenantID r) (ccr_CaseID r) db = Some c \<and> case_exact c r
       \<and> stored = stored_receipt (cr_AuthorityRevision c) (cr_EnvelopeID c) (cr_Commitment c))"
  by (auto simp: existingCase_def split: option.splits)

lemma existingCase_None:
  "existingCase r db = Inr None \<longleftrightarrow> find_case (ccr_TenantID r) (ccr_CaseID r) db = None"
  by (auto simp: existingCase_def split: option.splits)

section \<open>CommitAdvice\<close>

definition advice_commit_db :: "pg_tx \<Rightarrow> CommitAdviceRequest \<Rightarrow> CaseRecord \<Rightarrow> authority_db \<Rightarrow> authority_db" where
  "advice_commit_db tx r c db =
    (let revision = revision_identity db + 1;
         k = (car_TenantID r, cr_IssuerEdgeID c, cr_IssuerEdgeGeneration c);
         sequence = next_sequence db k in
     db\<lparr>revision_identity := revision,
        authority_revisions := authority_revisions db @ [revision],
        authority_advice := authority_advice db @ [advice_row_of r c sequence revision],
        authority_edge_delivery_sequences := (authority_edge_delivery_sequences db)(k \<mapsto> sequence + 1),
        authority_edge_deliveries := authority_edge_deliveries db @ [advice_delivery_row r c sequence revision],
        authority_audit := authority_audit db @
          [audit_row_of (car_TenantID r) ''advice'' (car_CaseID r) (car_Commitment r)
             (car_AuthenticatedPrincipalID r) (car_AuthenticatedEdgeID r) (car_Decision r) revision],
        authority_outbox := authority_outbox db @
          map (fresh_outbox_row tx (car_TenantID r) ''advice'' (car_CaseID r) (car_Raw r) revision)
            (advice_destinations c)\<rparr>)"

text \<open>The guards of a fresh advice commit for the committed case \<open>c\<close>.\<close>

definition advice_admitted :: "CommitAdviceRequest \<Rightarrow> CaseRecord \<Rightarrow> authority_db \<Rightarrow> bool" where
  "advice_admitted r c db \<longleftrightarrow>
    find_advice (car_TenantID r) (car_CaseID r) db = None
    \<and> (\<exists>h. authority_registry_heads db (car_TenantID r) = Some h \<and> \<not> rh_Halted h)
    \<and> find_case (car_TenantID r) (car_CaseID r) db = Some c
    \<and> car_CaseCommitment r = cr_Commitment c \<and> car_RoutingEpoch r = cr_RoutingEpoch c
    \<and> car_RegistryRevision r = cr_RegistryRevision c \<and> car_RegistryHash r = cr_RegistryHash c
    \<and> \<not> adviceCollision r db"

lemma existingAdvice_Some:
  "existingAdvice r db = Inr (Some stored) \<longleftrightarrow>
    (\<exists>a. find_advice (car_TenantID r) (car_CaseID r) db = Some a \<and> advice_exact a r
       \<and> stored = stored_receipt (adv_commit_revision a) (adv_envelope_id a) (adv_commitment a))"
  by (auto simp: existingAdvice_def split: option.splits)

lemma existingAdvice_None:
  "existingAdvice r db = Inr None \<longleftrightarrow> find_advice (car_TenantID r) (car_CaseID r) db = None"
  by (auto simp: existingAdvice_def split: option.splits)

lemma CommitAdvice_work_err:
  assumes "CommitAdvice_work s r tx db = ((rc, cm, Some e), db')"
  shows "rc = zero_receipt \<and> \<not> cm \<and> revision_identity db \<le> revision_identity db'"
  using assms
  by (auto simp: CommitAdvice_work_def Let_def work_fail_def statement_Inr
      split: option.splits sum.splits prod.splits if_splits)

lemma CommitAdvice_work_replay:
  assumes "CommitAdvice_work s r tx db = ((rc, cm, None), db')"
    and "existingAdvice r db = Inr (Some stored)"
  shows "rc = withAuthority s stored \<and> \<not> cm \<and> db' = db"
  using assms by (auto simp: CommitAdvice_work_def)

lemma CommitAdvice_work_ok:
  assumes "CommitAdvice_work s r tx db = ((rc, cm, None), db')"
    and "\<And>stored. existingAdvice r db \<noteq> Inr (Some stored)"
  obtains c where
    "rc = receipt s (revision_identity db + 1) (car_EnvelopeID r) (car_Commitment r)" "cm"
    "db' = advice_commit_db tx r c db" "advice_admitted r c db"
    "advice_row_check (advice_row_of r c (next_sequence db
       (car_TenantID r, cr_IssuerEdgeID c, cr_IssuerEdgeGeneration c)) (revision_identity db + 1))"
    "\<not> keys_taken advice_keys (advice_row_of r c 1 1) (authority_advice db)"
    "\<not> key_taken delivery_envelope_key (advice_delivery_row r c 1 1) (authority_edge_deliveries db)"
    "distinct (map ob_outbox_id (authority_outbox db)) \<longrightarrow>
         distinct (map ob_outbox_id (authority_outbox db'))"
    "distinct (map outbox_destination_key (authority_outbox db)) \<longrightarrow>
         distinct (map outbox_destination_key (authority_outbox db'))"
proof -
  have none: "existingAdvice r db = Inr None"
    using assms by (cases "existingAdvice r db")
      (auto simp: CommitAdvice_work_def Let_def work_fail_def split: option.splits if_splits)
  from assms(1) none have "\<exists>c.
    rc = receipt s (revision_identity db + 1) (car_EnvelopeID r) (car_Commitment r) \<and> cm
    \<and> db' = advice_commit_db tx r c db \<and> advice_admitted r c db
    \<and> advice_row_check (advice_row_of r c (next_sequence db
       (car_TenantID r, cr_IssuerEdgeID c, cr_IssuerEdgeGeneration c)) (revision_identity db + 1))
    \<and> \<not> keys_taken advice_keys (advice_row_of r c 1 1) (authority_advice db)
    \<and> \<not> key_taken delivery_envelope_key (advice_delivery_row r c 1 1) (authority_edge_deliveries db)
    \<and> (distinct (map ob_outbox_id (authority_outbox db)) \<longrightarrow>
         distinct (map ob_outbox_id (authority_outbox db')))
    \<and> (distinct (map outbox_destination_key (authority_outbox db)) \<longrightarrow>
         distinct (map outbox_destination_key (authority_outbox db')))"
    apply (clarsimp simp: CommitAdvice_work_def work_fail_def statement_Inr registryHeadForUpdate_def
        split: option.splits sum.splits prod.splits if_splits)
    apply (frule insertOutbox_distinct, drule insertOutbox_rows)
    apply (clarsimp simp: advice_admitted_def advice_commit_db_def Let_def delivery_envelope_key_def
        advice_delivery_row_def existingAdvice_None key_taken_iff keys_taken_def advice_keys_def
        advice_row_of_def)
    done
  then show ?thesis using that by blast
qed

section \<open>CommitRegistry\<close>

text \<open>What the accepted generations must satisfy against the previous high-water rows.\<close>

definition generation_advances ::
    "RegistryHead option \<Rightarrow> RegistryEdge \<Rightarrow> high_water_row \<Rightarrow> bool" where
  "generation_advances head edge w \<longleftrightarrow>
    hw_highest_generation w < re_Generation edge
    \<or> hw_highest_generation w = re_Generation edge
      \<and> (\<exists>h. head = Some h \<and> hw_last_seen_registry_revision w = rh_Revision h
              \<and> hw_principal_id w = re_PrincipalID edge)"

definition high_water_of :: "CommitRegistryRequest \<Rightarrow> string \<Rightarrow> high_water_row" where
  "high_water_of r edgeID =
    (let edge = the (map_of (the (crr_Edges r)) edgeID) in
     \<lparr>hw_principal_id = re_PrincipalID edge, hw_highest_generation = re_Generation edge,
      hw_last_seen_registry_revision = crr_Revision r\<rparr>)"

definition high_water_update ::
    "CommitRegistryRequest \<Rightarrow> string list \<Rightarrow> (string \<times> string \<Rightarrow> high_water_row option)
       \<Rightarrow> string \<times> string \<Rightarrow> high_water_row option" where
  "high_water_update r ids hw k =
    (if fst k = crr_TenantID r \<and> snd k \<in> set ids then Some (high_water_of r (snd k)) else hw k)"

lemma enforce_edges_Cons_Inr:
  "enforce_edges r head (e # ids) db = Inr db' \<longleftrightarrow>
    high_water_check (high_water_of r e)
    \<and> (\<forall>w. authority_edge_generation_high_water db (crr_TenantID r, e) = Some w \<longrightarrow>
         generation_advances head (the (map_of (the (crr_Edges r)) e)) w)
    \<and> enforce_edges r head ids (db\<lparr>authority_edge_generation_high_water :=
         (authority_edge_generation_high_water db)((crr_TenantID r, e) \<mapsto> high_water_of r e)\<rparr>) = Inr db'"
  by (auto simp: Let_def high_water_of_def upsert_high_water_def generation_advances_def
      split: option.splits)

lemma enforce_edges_Inr:
  "enforce_edges r head ids db = Inr db' \<Longrightarrow>
    db' = db\<lparr>authority_edge_generation_high_water :=
              high_water_update r ids (authority_edge_generation_high_water db)\<rparr>
    \<and> (\<forall>e \<in> set ids. high_water_check (high_water_of r e)
        \<and> (\<forall>w. authority_edge_generation_high_water db (crr_TenantID r, e) = Some w \<longrightarrow>
             generation_advances head (the (map_of (the (crr_Edges r)) e)) w))"
proof (induction ids arbitrary: db)
  case Nil
  then show ?case by (simp add: high_water_update_def cong: authority_db.unfold_congs)
next
  case (Cons e ids)
  let ?hw = "authority_edge_generation_high_water db"
  from Cons.prems have step: "high_water_check (high_water_of r e)"
      "\<forall>w. ?hw (crr_TenantID r, e) = Some w \<longrightarrow>
         generation_advances head (the (map_of (the (crr_Edges r)) e)) w"
    and rest: "enforce_edges r head ids (db\<lparr>authority_edge_generation_high_water :=
         ?hw((crr_TenantID r, e) \<mapsto> high_water_of r e)\<rparr>) = Inr db'"
    by (auto simp: enforce_edges_Cons_Inr simp del: enforce_edges.simps)
  have "high_water_update r ids (?hw((crr_TenantID r, e) \<mapsto> high_water_of r e)) =
      high_water_update r (e # ids) ?hw"
    by (auto simp: high_water_update_def fun_eq_iff)
  with Cons.IH [OF rest] have "db' = db\<lparr>authority_edge_generation_high_water :=
      high_water_update r (e # ids) ?hw\<rparr>" by (simp add: fun_upd_def)
  moreover have "\<forall>e' \<in> set (e # ids). high_water_check (high_water_of r e')
      \<and> (\<forall>w. ?hw (crr_TenantID r, e') = Some w \<longrightarrow>
           generation_advances head (the (map_of (the (crr_Edges r)) e')) w)"
    using Cons.IH [OF rest] step by (auto split: if_splits)
  ultimately show ?case by blast
qed

definition registry_commit_db :: "CommitRegistryRequest \<Rightarrow> authority_db \<Rightarrow> authority_db" where
  "registry_commit_db r db =
    (let revision = revision_identity db + 1 in
     db\<lparr>revision_identity := revision,
        authority_revisions := authority_revisions db @ [revision],
        authority_registry_heads := (authority_registry_heads db)(crr_TenantID r \<mapsto>
          (case authority_registry_heads db (crr_TenantID r) of
             None \<Rightarrow> new_registry_head r
           | Some h \<Rightarrow> h\<lparr>rh_Revision := crr_Revision r, rh_Commitment := crr_Commitment r,
                           rh_RoutingEpoch := crr_RoutingEpoch r\<rparr>)),
        authority_edge_generation_high_water :=
          high_water_update r (map fst (the (crr_Edges r))) (authority_edge_generation_high_water db),
        authority_registries := authority_registries db @ [registry_row_of r revision],
        authority_audit := authority_audit db @
          [audit_row_of (crr_TenantID r) ''registry'' (crr_EnvelopeID r) (crr_Commitment r)
             (crr_AuthenticatedPrincipalID r) (crr_AuthenticatedEdgeID r) (crr_Decision r) revision]\<rparr>)"

definition registry_commit_facts :: "CommitRegistryRequest \<Rightarrow> authority_db \<Rightarrow> bool" where
  "registry_commit_facts r db \<longleftrightarrow>
    \<not> registryCollision r db
    \<and> registry_row_check (registry_row_of r (revision_identity db + 1))
    \<and> \<not> key_taken registry_primary_key (registry_row_of r 1) (authority_registries db)
    \<and> \<not> keys_taken registry_keys (registry_row_of r 1) (authority_registries db)
    \<and> (\<forall>e \<in> fst ` set (the (crr_Edges r)). high_water_check (high_water_of r e)
        \<and> (\<forall>w. authority_edge_generation_high_water db (crr_TenantID r, e) = Some w \<longrightarrow>
             generation_advances (authority_registry_heads db (crr_TenantID r))
               (the (map_of (the (crr_Edges r)) e)) w))"

lemma enforceEdgeGenerationHighWater_Inr:
  "enforceEdgeGenerationHighWater r head db = Inr db' \<Longrightarrow>
    db' = db\<lparr>authority_edge_generation_high_water :=
      high_water_update r (map fst (the (crr_Edges r))) (authority_edge_generation_high_water db)\<rparr>
    \<and> (\<forall>e \<in> fst ` set (the (crr_Edges r)). high_water_check (high_water_of r e)
        \<and> (\<forall>w. authority_edge_generation_high_water db (crr_TenantID r, e) = Some w \<longrightarrow>
             generation_advances head (the (map_of (the (crr_Edges r)) e)) w))"
proof -
  assume ok: "enforceEdgeGenerationHighWater r head db = Inr db'"
  have "high_water_update r (sort ids) = high_water_update r ids" for ids
    by (simp add: high_water_update_def fun_eq_iff)
  with enforce_edges_Inr [OF ok [unfolded enforceEdgeGenerationHighWater_def]]
  show ?thesis by simp
qed

lemma insert_authority_registry_Inr:
  "insert_authority_registry g db = Inr db' \<longleftrightarrow>
    registry_row_check g \<and> \<not> key_taken registry_primary_key g (authority_registries db)
    \<and> \<not> keys_taken registry_keys g (authority_registries db)
    \<and> db' = db\<lparr>authority_registries := authority_registries db @ [g]\<rparr>"
  by (auto simp: insert_authority_registry_def)

lemma insert_registry_head_Inr:
  "insert_registry_head h db = Inr db' \<longleftrightarrow>
    registry_head_check h \<and> authority_registry_heads db (rh_TenantID h) = None
    \<and> db' = db\<lparr>authority_registry_heads := (authority_registry_heads db)(rh_TenantID h \<mapsto> h)\<rparr>"
  by (auto simp: insert_registry_head_def)

lemma update_registry_head_Inr:
  "update_registry_head t n c ep db = Inr db' \<longleftrightarrow>
    (case authority_registry_heads db t of
       None \<Rightarrow> db' = db
     | Some h \<Rightarrow> registry_head_check (h\<lparr>rh_Revision := n, rh_Commitment := c, rh_RoutingEpoch := ep\<rparr>)
         \<and> db' = db\<lparr>authority_registry_heads := (authority_registry_heads db)(t \<mapsto>
              h\<lparr>rh_Revision := n, rh_Commitment := c, rh_RoutingEpoch := ep\<rparr>)\<rparr>)"
  by (auto simp: update_registry_head_def Let_def split: option.splits)

lemmas registry_statement_Inr =
  insert_authority_registry_Inr insert_registry_head_Inr update_registry_head_Inr

lemma commit_registry_rows_ok:
  assumes "commit_registry_rows s r head db = ((rc, cm, None), db')"
    and head: "head = authority_registry_heads db (crr_TenantID r)"
  shows "rc = receipt s (revision_identity db + 1) (crr_EnvelopeID r) (crr_Commitment r) \<and> cm
    \<and> db' = registry_commit_db r db \<and> registry_commit_facts r db"
proof -
  from assms(1) obtain db1 where db1: "enforceEdgeGenerationHighWater r head db = Inr db1"
    by (auto simp: commit_registry_rows_def work_fail_def split: sum.splits if_splits)
  note shape = enforceEdgeGenerationHighWater_Inr [OF db1]
  show ?thesis
  proof (cases head)
    case None
    with assms db1 shape show ?thesis
      by (clarsimp simp: commit_registry_rows_def work_fail_def statement_Inr registry_statement_Inr
          registry_commit_db_def registry_commit_facts_def Let_def new_registry_head_def
          registry_row_of_def key_taken_iff keys_taken_def registry_keys_def registry_primary_key_def
          split: sum.splits prod.splits if_splits)
  next
    case (Some h)
    with assms db1 shape show ?thesis
      by (clarsimp simp: commit_registry_rows_def work_fail_def statement_Inr registry_statement_Inr
          registry_commit_db_def registry_commit_facts_def Let_def
          registry_row_of_def key_taken_iff keys_taken_def registry_keys_def registry_primary_key_def
          split: sum.splits prod.splits if_splits)
  qed
qed

lemma commit_registry_rows_err:
  assumes "commit_registry_rows s r head db = ((rc, cm, Some e), db')"
  shows "rc = zero_receipt \<and> \<not> cm \<and> revision_identity db \<le> revision_identity db'"
proof (cases "enforceEdgeGenerationHighWater r head db")
  case (Inl e')
  with assms show ?thesis
    by (auto simp: commit_registry_rows_def work_fail_def split: if_splits)
next
  case (Inr db1)
  with assms enforceEdgeGenerationHighWater_Inr [OF Inr] show ?thesis
    by (auto simp: commit_registry_rows_def work_fail_def statement_Inr registry_statement_Inr
        split: option.splits sum.splits prod.splits if_splits)
qed

text \<open>The guards of a fresh registry commit against the tenant's head.\<close>

definition registry_follows :: "CommitRegistryRequest \<Rightarrow> authority_db \<Rightarrow> bool" where
  "registry_follows r db \<longleftrightarrow>
    (case authority_registry_heads db (crr_TenantID r) of
       None \<Rightarrow> crr_PreviousCommitment r = []
     | Some h \<Rightarrow> \<not> rh_Halted h \<and> rh_Revision h < crr_Revision r
         \<and> crr_Revision r = wrap64 (rh_Revision h + 1)
         \<and> crr_PreviousCommitment r = rh_Commitment h)"

definition halted_db :: "string \<Rightarrow> string \<Rightarrow> RegistryHead \<Rightarrow> authority_db \<Rightarrow> authority_db" where
  "halted_db tenantID reason h db =
    db\<lparr>authority_registry_heads :=
      (authority_registry_heads db)(tenantID \<mapsto> h\<lparr>rh_Halted := True, rh_HaltReason := reason\<rparr>)\<rparr>"

lemma CommitRegistry_work_cases:
  assumes "CommitRegistry_work s r tx db = ((rc, cm, err), db')"
  obtains (failed) e where "err = Some e" "rc = zero_receipt" "\<not> cm"
      "revision_identity db \<le> revision_identity db'"
  | (halted) h e reason where "err = Some e" "rc = zero_receipt" "cm"
      "authority_registry_heads db (crr_TenantID r) = Some h" "\<not> rh_Halted h"
      "db' = halted_db (crr_TenantID r) reason h db"
      "e = ErrRegistryRollback \<and> reason = registryHaltRevisionRollback \<and> crr_Revision r < rh_Revision h
       \<or> e = ErrRegistryEquivocation \<and> reason = registryHaltSameRevisionConflict
          \<and> crr_Revision r = rh_Revision h
       \<or> e = ErrRegistryEquivocation \<and> reason = registryHaltPredecessorMismatch
          \<and> rh_Revision h < crr_Revision r \<and> crr_PreviousCommitment r \<noteq> rh_Commitment h"
  | (replay) h stored where "err = None" "\<not> cm" "db' = db" "rc = withAuthority s stored"
      "authority_registry_heads db (crr_TenantID r) = Some h" "\<not> rh_Halted h"
      "crr_Revision r = rh_Revision h" "existingRegistry r db = Inr (Some stored)"
  | (fresh) "err = None" "cm" "db' = registry_commit_db r db"
      "rc = receipt s (revision_identity db + 1) (crr_EnvelopeID r) (crr_Commitment r)"
      "registry_follows r db" "registry_commit_facts r db"
proof (cases "authority_registry_heads db (crr_TenantID r)")
  case None
  show ?thesis
  proof (cases err)
    case err: None
    with assms None have rows: "commit_registry_rows s r None db = ((rc, cm, None), db')"
      and prev: "crr_PreviousCommitment r = []"
      by (auto simp: CommitRegistry_work_def registryHeadForUpdate_def work_fail_def split: if_splits)
    from commit_registry_rows_ok [OF rows] None prev err show ?thesis
      by (intro fresh) (auto simp: registry_follows_def)
  next
    case (Some e)
    have "rc = zero_receipt \<and> \<not> cm \<and> revision_identity db \<le> revision_identity db'"
    proof (cases "crr_PreviousCommitment r = []")
      case True
      with assms None Some have "commit_registry_rows s r None db = ((rc, cm, Some e), db')"
        by (simp add: CommitRegistry_work_def registryHeadForUpdate_def)
      then show ?thesis by (rule commit_registry_rows_err)
    next
      case False
      with assms None show ?thesis
        by (auto simp: CommitRegistry_work_def registryHeadForUpdate_def work_fail_def)
    qed
    with Some show ?thesis by (intro failed) auto
  qed
next
  case (Some h)
  consider (h) "rh_Halted h" | (lt) "\<not> rh_Halted h" "crr_Revision r < rh_Revision h"
    | (eq) "\<not> rh_Halted h" "crr_Revision r = rh_Revision h"
    | (seq) "\<not> rh_Halted h" "rh_Revision h < crr_Revision r" "crr_Revision r \<noteq> wrap64 (rh_Revision h + 1)"
    | (pred) "\<not> rh_Halted h" "rh_Revision h < crr_Revision r" "crr_Revision r = wrap64 (rh_Revision h + 1)"
        "crr_PreviousCommitment r \<noteq> rh_Commitment h"
    | (ok) "\<not> rh_Halted h" "rh_Revision h < crr_Revision r" "crr_Revision r = wrap64 (rh_Revision h + 1)"
        "crr_PreviousCommitment r = rh_Commitment h"
    using linorder_less_linear [of "crr_Revision r" "rh_Revision h"] by blast
  then show ?thesis
  proof cases
    case eq
    show ?thesis
    proof (cases "existingRegistry r db")
      case (Inl e)
      with eq Some assms failed show ?thesis
        by (auto simp: CommitRegistry_work_def registryHeadForUpdate_def work_fail_def)
    next
      case (Inr st)
      show ?thesis
      proof (cases st)
        case None
        with Inr eq Some assms have "err = Some ErrRegistryEquivocation \<and> rc = zero_receipt \<and> cm
            \<and> db' = halted_db (crr_TenantID r) registryHaltSameRevisionConflict h db"
          by (simp add: CommitRegistry_work_def registryHeadForUpdate_def
              halt_with_def haltRegistryHead_def halted_db_def)
        with eq Some show ?thesis by (intro halted) auto
      next
        case st: (Some stored)
        with Inr eq Some assms have "err = None \<and> \<not> cm \<and> db' = db \<and> rc = withAuthority s stored"
          by (simp add: CommitRegistry_work_def registryHeadForUpdate_def)
        with eq Some Inr st show ?thesis by (intro replay) auto
      qed
    qed
  next
    case ok
    then have rows: "commit_registry_rows s r (Some h) db = ((rc, cm, err), db')"
      using Some assms by (auto simp: CommitRegistry_work_def registryHeadForUpdate_def)
    show ?thesis
    proof (cases err)
      case None
      with rows have "commit_registry_rows s r (Some h) db = ((rc, cm, None), db')" by simp
      from commit_registry_rows_ok [OF this] None ok Some show ?thesis
        by (intro fresh) (auto simp: registry_follows_def)
    next
      case err: (Some e)
      with rows have "commit_registry_rows s r (Some h) db = ((rc, cm, Some e), db')" by simp
      from commit_registry_rows_err [OF this] err show ?thesis by (intro failed) auto
    qed
  next
    case h
    with Some assms have "((rc, cm, err), db') = work_fail ErrRegistryHalted db"
      by (simp add: CommitRegistry_work_def registryHeadForUpdate_def)
    then show ?thesis by (intro failed) (auto simp: work_fail_def)
  next
    case lt
    with Some assms have "err = Some ErrRegistryRollback \<and> rc = zero_receipt \<and> cm
        \<and> db' = halted_db (crr_TenantID r) registryHaltRevisionRollback h db"
      by (simp add: CommitRegistry_work_def registryHeadForUpdate_def
          halt_with_def haltRegistryHead_def halted_db_def)
    with lt Some show ?thesis by (intro halted) auto
  next
    case seq
    with Some assms have "((rc, cm, err), db') = work_fail ErrRegistryRevisionSequence db"
      by (simp add: CommitRegistry_work_def registryHeadForUpdate_def)
    then show ?thesis by (intro failed) (auto simp: work_fail_def)
  next
    case pred
    then have "\<not> crr_Revision r < rh_Revision h" "crr_Revision r \<noteq> rh_Revision h" by simp_all
    with pred Some assms have "err = Some ErrRegistryEquivocation \<and> rc = zero_receipt \<and> cm
        \<and> db' = halted_db (crr_TenantID r) registryHaltPredecessorMismatch h db"
      by (simp add: CommitRegistry_work_def registryHeadForUpdate_def
          halt_with_def haltRegistryHead_def halted_db_def)
    with pred Some show ?thesis by (intro halted) auto
  qed
qed

lemma registry_follows_next:
  assumes "registry_follows r db" and "authority_registry_heads db (crr_TenantID r) = Some h"
    and "0 \<le> rh_Revision h"
  shows "crr_Revision r = rh_Revision h + 1"
proof -
  have lt: "rh_Revision h < crr_Revision r" and eq: "crr_Revision r = wrap64 (rh_Revision h + 1)"
    using assms by (auto simp: registry_follows_def)
  have "wrap64 (rh_Revision h + 1) \<le> 9223372036854775807"
    unfolding wrap64_def by (smt (verit, best) pos_mod_bound)
  with lt eq have "rh_Revision h < 9223372036854775807" by simp
  then have "wrap64 (rh_Revision h + 1) = rh_Revision h + 1"
    using assms(3) by (simp add: wrap64_def)
  with eq show ?thesis by simp
qed

end
