(* ===== verification/Authority_Invariant.thy ===== *)
theory Authority_Invariant
  imports Authority_Outcomes
begin

text \<open>
  The invariant of the authority database: unique keys, a contiguous delivery log per edge
  generation, one revision per committed fact, every case and advice row accompanied by its delivery,
  audit and outbox rows, every advice bound to its case, and a linear registry history that ends in
  the head.  It is kept by every outcome of the three commit transactions.
\<close>

section \<open>The invariant\<close>

definition keys_unique :: "authority_db \<Rightarrow> bool" where
  "keys_unique db \<longleftrightarrow>
    (\<forall>key \<in> set case_keys. distinct (map key (authority_cases db)))
    \<and> (\<forall>key \<in> set advice_keys. distinct (map key (authority_advice db)))
    \<and> distinct (map registry_primary_key (authority_registries db))
    \<and> (\<forall>key \<in> set registry_keys. distinct (map key (authority_registries db)))
    \<and> distinct (map delivery_envelope_key (authority_edge_deliveries db))
    \<and> distinct (map ob_outbox_id (authority_outbox db))
    \<and> distinct (map outbox_destination_key (authority_outbox db))"

definition log_contiguous :: "authority_db \<Rightarrow> bool" where
  "log_contiguous db \<longleftrightarrow>
    (\<forall>t e g. 1 \<le> next_sequence db (t, e, g)
       \<and> map ed_Sequence (edge_rows t e g db) = [1 .. next_sequence db (t, e, g) - 1])"

definition fact_revisions :: "authority_db \<Rightarrow> int list" where
  "fact_revisions db =
    map cr_AuthorityRevision (authority_cases db) @ map adv_commit_revision (authority_advice db)
    @ map rg_commit_revision (authority_registries db)"

definition revisions_ordered :: "authority_db \<Rightarrow> bool" where
  "revisions_ordered db \<longleftrightarrow>
    0 \<le> revision_identity db
    \<and> sorted_wrt (<) (authority_revisions db)
    \<and> (\<forall>n \<in> set (authority_revisions db). 0 < n \<and> n \<le> revision_identity db)
    \<and> map au_authority_revision (authority_audit db) = authority_revisions db
    \<and> distinct (fact_revisions db) \<and> set (fact_revisions db) = set (authority_revisions db)
    \<and> sorted_wrt (<) (map cr_AuthorityRevision (authority_cases db))
    \<and> sorted_wrt (<) (map adv_commit_revision (authority_advice db))
    \<and> sorted_wrt (<) (map rg_commit_revision (authority_registries db))"

definition rows_checked :: "authority_db \<Rightarrow> bool" where
  "rows_checked db \<longleftrightarrow>
    list_all case_row_check (authority_cases db) \<and> list_all advice_row_check (authority_advice db)
    \<and> list_all registry_row_check (authority_registries db)
    \<and> list_all outbox_row_check (authority_outbox db)"

text \<open>The delivery row that carries a case or an advice.\<close>

definition case_delivers :: "CaseRecord \<Rightarrow> delivery_row \<Rightarrow> bool" where
  "case_delivers c d \<longleftrightarrow>
    dr_tenant_id d = cr_TenantID c \<and> dr_edge_id d = cr_IssuerEdgeID c
    \<and> dr_edge_generation d = cr_IssuerEdgeGeneration c
    \<and> ed_Kind (dr_delivery d) = ''case'' \<and> ed_CaseID (dr_delivery d) = cr_CaseID c
    \<and> ed_EnvelopeID (dr_delivery d) = cr_EnvelopeID c \<and> ed_Commitment (dr_delivery d) = cr_Commitment c
    \<and> ed_Raw (dr_delivery d) = cr_Raw c \<and> ed_AuthorityRevision (dr_delivery d) = cr_AuthorityRevision c"

definition advice_delivers :: "advice_row \<Rightarrow> delivery_row \<Rightarrow> bool" where
  "advice_delivers a d \<longleftrightarrow>
    dr_tenant_id d = adv_tenant_id a \<and> dr_edge_id d = adv_target_edge_id a
    \<and> dr_edge_generation d = adv_target_edge_generation a
    \<and> ed_Sequence (dr_delivery d) = adv_delivery_sequence a
    \<and> ed_Kind (dr_delivery d) = ''advice'' \<and> ed_CaseID (dr_delivery d) = adv_case_id a
    \<and> ed_EnvelopeID (dr_delivery d) = adv_envelope_id a \<and> ed_Commitment (dr_delivery d) = adv_commitment a
    \<and> ed_Raw (dr_delivery d) = adv_raw a \<and> ed_AuthorityRevision (dr_delivery d) = adv_commit_revision a"

text \<open>An outbox row's identity columns; lease and retry columns change, these never do.\<close>

definition outbox_identity ::
    "outbox_row \<Rightarrow> string \<times> string \<times> string \<times> string \<times> string \<times> string \<times> bytes \<times> int" where
  "outbox_identity o' =
    (ob_outbox_id o', ob_tenant_id o', ob_event_kind o', ob_entity_id o', ob_destination_kind o',
     ob_destination_key o', ob_raw o', ob_authority_revision o')"

definition outbox_entry ::
    "string \<Rightarrow> string \<Rightarrow> string \<Rightarrow> bytes \<Rightarrow> int \<Rightarrow> string \<Rightarrow> string
       \<Rightarrow> string \<times> string \<times> string \<times> string \<times> string \<times> string \<times> bytes \<times> int" where
  "outbox_entry t kind entity raw n dk key =
    (deterministicOutboxID [t, kind, entity, itoa n, dk, key], t, kind, entity, dk, key, raw, n)"

definition case_outbox_entries :: "CaseRecord \<Rightarrow>
    (string \<times> string \<times> string \<times> string \<times> string \<times> string \<times> bytes \<times> int) list" where
  "case_outbox_entries c =
    [outbox_entry (cr_TenantID c) ''case'' (cr_CaseID c) (cr_Raw c) (cr_AuthorityRevision c)
       ''domain_dispatch'' (cr_Domain c),
     outbox_entry (cr_TenantID c) ''case'' (cr_CaseID c) (cr_Raw c) (cr_AuthorityRevision c)
       ''edge_delivery'' (edgeKey (cr_IssuerEdgeID c) (cr_IssuerEdgeGeneration c))]"

definition advice_outbox_entries :: "advice_row \<Rightarrow>
    (string \<times> string \<times> string \<times> string \<times> string \<times> string \<times> bytes \<times> int) list" where
  "advice_outbox_entries a =
    [outbox_entry (adv_tenant_id a) ''advice'' (adv_case_id a) (adv_raw a) (adv_commit_revision a)
       ''edge_delivery'' (edgeKey (adv_target_edge_id a) (adv_target_edge_generation a))]"

definition facts_atomic :: "authority_db \<Rightarrow> bool" where
  "facts_atomic db \<longleftrightarrow>
    (\<forall>c \<in> set (authority_cases db). \<exists>d \<in> set (authority_edge_deliveries db). case_delivers c d)
    \<and> (\<forall>a \<in> set (authority_advice db). \<exists>d \<in> set (authority_edge_deliveries db). advice_delivers a d)
    \<and> (\<forall>d \<in> set (authority_edge_deliveries db).
         (\<exists>c \<in> set (authority_cases db). case_delivers c d)
         \<or> (\<exists>a \<in> set (authority_advice db). advice_delivers a d))
    \<and> outbox_identity ` set (authority_outbox db) =
        (\<Union>c \<in> set (authority_cases db). set (case_outbox_entries c))
        \<union> (\<Union>a \<in> set (authority_advice db). set (advice_outbox_entries a))"

definition advice_answers :: "advice_row \<Rightarrow> CaseRecord \<Rightarrow> bool" where
  "advice_answers a c \<longleftrightarrow>
    adv_tenant_id a = cr_TenantID c \<and> adv_case_id a = cr_CaseID c
    \<and> adv_case_commitment a = cr_Commitment c \<and> adv_routing_epoch a = cr_RoutingEpoch c
    \<and> adv_registry_revision a = cr_RegistryRevision c \<and> adv_registry_hash a = cr_RegistryHash c
    \<and> adv_target_edge_id a = cr_IssuerEdgeID c
    \<and> adv_target_edge_generation a = cr_IssuerEdgeGeneration c
    \<and> cr_AuthorityRevision c < adv_commit_revision a"

definition advice_bound :: "authority_db \<Rightarrow> bool" where
  "advice_bound db \<longleftrightarrow>
    (\<forall>a \<in> set (authority_advice db). \<exists>c \<in> set (authority_cases db). advice_answers a c)"

definition tenant_registries :: "string \<Rightarrow> authority_db \<Rightarrow> registry_row list" where
  "tenant_registries t db = filter (\<lambda>g. rg_tenant_id g = t) (authority_registries db)"

definition registry_link :: "registry_row \<Rightarrow> registry_row \<Rightarrow> bool" where
  "registry_link g g' \<longleftrightarrow>
    rg_registry_revision g' = rg_registry_revision g + 1
    \<and> rg_previous_commitment g' = Some (rg_commitment g)"

definition head_matches :: "RegistryHead \<Rightarrow> registry_row \<Rightarrow> bool" where
  "head_matches h g \<longleftrightarrow>
    rh_Revision h = rg_registry_revision g \<and> rh_Commitment h = rg_commitment g
    \<and> rh_RoutingEpoch h = rg_routing_epoch g"

definition registry_history :: "authority_db \<Rightarrow> bool" where
  "registry_history db \<longleftrightarrow>
    (\<forall>t. authority_registry_heads db t = None \<longrightarrow> tenant_registries t db = [])
    \<and> (\<forall>t h. authority_registry_heads db t = Some h \<longrightarrow>
         rh_TenantID h = t \<and> 0 < rh_Revision h
         \<and> tenant_registries t db \<noteq> []
         \<and> head_matches h (last (tenant_registries t db))
         \<and> rg_previous_commitment (hd (tenant_registries t db)) = None
         \<and> successively registry_link (tenant_registries t db))"

definition case_registered :: "CaseRecord \<Rightarrow> registry_row \<Rightarrow> bool" where
  "case_registered c g \<longleftrightarrow>
    rg_tenant_id g = cr_TenantID c \<and> rg_registry_revision g = cr_RegistryRevision c
    \<and> rg_commitment g = cr_RegistryHash c \<and> rg_routing_epoch g = cr_RoutingEpoch c
    \<and> rg_commit_revision g < cr_AuthorityRevision c"

definition cases_registered :: "authority_db \<Rightarrow> bool" where
  "cases_registered db \<longleftrightarrow>
    (\<forall>c \<in> set (authority_cases db). \<exists>g \<in> set (authority_registries db). case_registered c g)"

definition high_water_sound :: "authority_db \<Rightarrow> bool" where
  "high_water_sound db \<longleftrightarrow>
    (\<forall>t e w. authority_edge_generation_high_water db (t, e) = Some w \<longrightarrow>
       high_water_check w
       \<and> (\<exists>h. authority_registry_heads db t = Some h \<and> hw_last_seen_registry_revision w \<le> rh_Revision h))"

definition authority_inv :: "authority_db \<Rightarrow> bool" where
  "authority_inv db \<longleftrightarrow>
    keys_unique db \<and> log_contiguous db \<and> revisions_ordered db \<and> rows_checked db \<and> facts_atomic db
    \<and> advice_bound db \<and> registry_history db \<and> cases_registered db \<and> high_water_sound db"

lemmas invariant_parts =
  keys_unique_def log_contiguous_def revisions_ordered_def rows_checked_def facts_atomic_def
  advice_bound_def registry_history_def cases_registered_def high_water_sound_def

lemma authority_inv_empty: "authority_inv empty_db"
  by (simp add: authority_inv_def invariant_parts empty_db_def next_sequence_def edge_rows_def
      fact_revisions_def tenant_registries_def)

text \<open>A rolled-back transaction leaves at most a gap in the identity counter.\<close>

lemma authority_inv_identity:
  assumes inv: "authority_inv db" and le: "revision_identity db \<le> n"
  shows "authority_inv (db\<lparr>revision_identity := n\<rparr>)"
proof -
  let ?db = "db\<lparr>revision_identity := n\<rparr>"
  have "edge_rows t e g ?db = edge_rows t e g db" for t e g by (simp add: edge_rows_def)
  moreover have "tenant_registries t ?db = tenant_registries t db" for t
    by (simp add: tenant_registries_def)
  moreover have "fact_revisions ?db = fact_revisions db" by (simp add: fact_revisions_def)
  moreover have "revisions_ordered ?db"
    using inv le by (auto simp: authority_inv_def revisions_ordered_def fact_revisions_def)
  ultimately show ?thesis
    using inv unfolding authority_inv_def
    by (simp add: keys_unique_def log_contiguous_def rows_checked_def facts_atomic_def
        advice_bound_def registry_history_def cases_registered_def high_water_sound_def)
qed

lemma find_case_None:
  "find_case t i db = None \<longleftrightarrow> (t, i) \<notin> (\<lambda>c. (cr_TenantID c, cr_CaseID c)) ` set (authority_cases db)"
  by (auto simp: find_case_def find_None_iff)

lemma find_advice_None:
  "find_advice t i db = None \<longleftrightarrow>
    (t, i) \<notin> (\<lambda>a. (adv_tenant_id a, adv_case_id a)) ` set (authority_advice db)"
  by (auto simp: find_advice_def find_None_iff)

lemma find_case_SomeD:
  "find_case t i db = Some c \<Longrightarrow> c \<in> set (authority_cases db) \<and> cr_TenantID c = t \<and> cr_CaseID c = i"
  by (auto simp: find_case_def find_Some_iff)

lemma find_advice_SomeD:
  "find_advice t i db = Some a \<Longrightarrow>
    a \<in> set (authority_advice db) \<and> adv_tenant_id a = t \<and> adv_case_id a = i"
  by (auto simp: find_advice_def find_Some_iff)

lemma upto_snoc: "1 \<le> n \<Longrightarrow> [1 .. n - 1] @ [n] = [1 .. (n :: int)]"
  by (metis add_diff_cancel_right' diff_add_cancel upto_rec2)

text \<open>Appending one delivery at the next sequence keeps every edge's log contiguous.\<close>

lemma log_contiguous_append:
  assumes inv: "log_contiguous db"
    and rows: "authority_edge_deliveries db' = authority_edge_deliveries db @ [d]"
    and key: "k = (dr_tenant_id d, dr_edge_id d, dr_edge_generation d)"
    and seq: "ed_Sequence (dr_delivery d) = next_sequence db k"
    and nxt: "\<And>k'. next_sequence db' k' = (if k' = k then next_sequence db k + 1 else next_sequence db k')"
  shows "log_contiguous db'"
  unfolding log_contiguous_def
proof (intro allI)
  fix t e g
  have old: "1 \<le> next_sequence db (t, e, g)"
    "map ed_Sequence (edge_rows t e g db) = [1 .. next_sequence db (t, e, g) - 1]"
    using inv by (auto simp: log_contiguous_def)
  show "1 \<le> next_sequence db' (t, e, g)
      \<and> map ed_Sequence (edge_rows t e g db') = [1 .. next_sequence db' (t, e, g) - 1]"
  proof (cases "k = (t, e, g)")
    case True
    then have "edge_rows t e g db' = edge_rows t e g db @ [dr_delivery d]"
      using key by (auto simp: edge_rows_def rows)
    with True old seq nxt [of "(t, e, g)"] show ?thesis by (simp add: upto_snoc)
  next
    case False
    then have "edge_rows t e g db' = edge_rows t e g db"
      using key by (auto simp: edge_rows_def rows)
    with False old nxt [of "(t, e, g)"] show ?thesis by auto
  qed
qed

section \<open>Preservation by a case commit\<close>

lemma outbox_row_check_fresh:
  assumes "raw \<noteq> []" "k = ''case'' \<or> k = ''advice''"
    "dest_kind d = ''domain_dispatch'' \<or> dest_kind d = ''edge_delivery''"
  shows "outbox_row_check (fresh_outbox_row tx t k i raw n d)"
  using assms by (auto simp: outbox_row_check_def fresh_outbox_row_def lease_columns_check_def)

lemma keys_taken_append:
  assumes "\<not> keys_taken keys row rows" and "\<forall>key \<in> set keys. distinct (map key rows)"
  shows "\<forall>key \<in> set keys. distinct (map key (rows @ [row]))"
  using assms by (auto simp: keys_taken_def key_taken_iff list_ex_iff)

lemma revision_above:
  assumes "revisions_ordered db" and "n \<in> set (fact_revisions db)"
  shows "n < revision_identity db + 1"
  using assms by (force simp: revisions_ordered_def)

lemma outbox_identity_fresh:
  "outbox_identity (fresh_outbox_row tx t k i raw n d) =
    outbox_entry t k i raw n (dest_kind d) (dest_key d)"
  by (simp add: outbox_identity_def outbox_entry_def fresh_outbox_row_def)

lemma one_more_distinct:
  assumes "distinct (A @ B @ C)" "n \<notin> set (A @ B @ C)" "cs @ as @ gs = [n]"
  shows "distinct ((A @ cs) @ (B @ as) @ C @ gs)
    \<and> set ((A @ cs) @ (B @ as) @ C @ gs) = insert n (set (A @ B @ C))"
proof -
  consider "cs = [n]" "as = []" "gs = []" | "cs = []" "as = [n]" "gs = []" | "cs = []" "as = []" "gs = [n]"
    using assms(3) by (auto simp: append_eq_Cons_conv)
  then show ?thesis using assms(1,2) by cases auto
qed

lemma one_more_sorted:
  assumes "sorted_wrt (<) xs" "ys = [] \<or> ys = [n]" "\<forall>m \<in> set xs. m < (n :: int)"
  shows "sorted_wrt (<) (xs @ ys)"
  using assms by (auto simp: sorted_wrt_append)

text \<open>One more fact at a revision above every committed one.\<close>

lemma revisions_ordered_append:
  assumes inv: "revisions_ordered db"
    and n: "n = revision_identity db + 1"
    and db': "revision_identity db' = n" "authority_revisions db' = authority_revisions db @ [n]"
      "map au_authority_revision (authority_audit db') = map au_authority_revision (authority_audit db) @ [n]"
    and one: "map cr_AuthorityRevision (authority_cases db') = map cr_AuthorityRevision (authority_cases db) @ cs"
      "map adv_commit_revision (authority_advice db') = map adv_commit_revision (authority_advice db) @ as"
      "map rg_commit_revision (authority_registries db') = map rg_commit_revision (authority_registries db) @ gs"
      "cs @ as @ gs = [n]"
  shows "revisions_ordered db'"
proof -
  have above: "\<forall>m \<in> set (fact_revisions db). m < n"
    using revision_above [OF inv] n by blast
  have fresh: "\<forall>m \<in> set (authority_revisions db). m < n"
    using inv n by (force simp: revisions_ordered_def)
  have parts: "distinct (fact_revisions db)" "set (fact_revisions db) = set (authority_revisions db)"
    "sorted_wrt (<) (map cr_AuthorityRevision (authority_cases db))"
    "sorted_wrt (<) (map adv_commit_revision (authority_advice db))"
    "sorted_wrt (<) (map rg_commit_revision (authority_registries db))"
    using inv by (simp_all add: revisions_ordered_def)
  have "distinct (fact_revisions db') \<and> set (fact_revisions db') = insert n (set (fact_revisions db))"
  proof -
    have "n \<notin> set (fact_revisions db)" using above by blast
    from one_more_distinct [OF parts(1) [unfolded fact_revisions_def] this [unfolded fact_revisions_def] one(4)]
    show ?thesis unfolding fact_revisions_def one(1-3) by simp
  qed
  moreover have "sorted_wrt (<) (map cr_AuthorityRevision (authority_cases db'))"
    unfolding one(1) using one(4) parts(3) above
    by (intro one_more_sorted) (auto simp: fact_revisions_def append_eq_Cons_conv)
  moreover have "sorted_wrt (<) (map adv_commit_revision (authority_advice db'))"
    unfolding one(2) using one(4) parts(4) above
    by (intro one_more_sorted) (auto simp: fact_revisions_def append_eq_Cons_conv)
  moreover have "sorted_wrt (<) (map rg_commit_revision (authority_registries db'))"
    unfolding one(3) using one(4) parts(5) above
    by (intro one_more_sorted) (auto simp: fact_revisions_def append_eq_Cons_conv)
  moreover have "sorted_wrt (<) (authority_revisions db')"
    using inv fresh unfolding db' revisions_ordered_def by (simp add: sorted_wrt_append)
  ultimately show ?thesis
    using inv db' n fresh parts(2) unfolding revisions_ordered_def by auto
qed

lemma case_commit_revisions:
  assumes "revisions_ordered db"
  shows "revisions_ordered (case_commit_db tx r db)"
  by (rule revisions_ordered_append [OF assms refl, where cs = "[revision_identity db + 1]" and as = "[]" and gs = "[]"])
    (simp_all add: case_commit_db_def Let_def case_row_def audit_row_of_def)

lemma case_commit_contiguous:
  assumes "log_contiguous db"
  shows "log_contiguous (case_commit_db tx r db)"
  by (rule log_contiguous_append [OF assms, where d = "case_delivery_row r (next_sequence db
        (ccr_TenantID r, ccr_IssuerEdgeID r, ccr_IssuerEdgeGeneration r)) (revision_identity db + 1)"])
    (auto simp: case_commit_db_def Let_def case_delivery_row_def)

lemma case_commit_atomic:
  assumes "facts_atomic db"
  shows "facts_atomic (case_commit_db tx r db)"
proof -
  let ?n = "revision_identity db + 1"
  let ?d = "case_delivery_row r (next_sequence db
        (ccr_TenantID r, ccr_IssuerEdgeID r, ccr_IssuerEdgeGeneration r)) ?n"
  have "case_delivers (case_row tx r ?n) ?d"
    by (simp add: case_delivers_def case_row_def case_delivery_row_def)
  moreover have "outbox_identity ` set (map (fresh_outbox_row tx (ccr_TenantID r) ''case'' (ccr_CaseID r)
      (ccr_Raw r) ?n) (case_destinations r)) = set (case_outbox_entries (case_row tx r ?n))"
    by (simp add: case_destinations_def case_outbox_entries_def outbox_identity_fresh case_row_def)
  ultimately show ?thesis
    using assms unfolding facts_atomic_def case_commit_db_def Let_def
    by (auto simp: image_Un)
qed

lemma case_commit_history:
  assumes "registry_history db"
  shows "registry_history (case_commit_db tx r db)"
proof -
  have "tenant_registries t (case_commit_db tx r db) = tenant_registries t db" for t
    by (simp add: tenant_registries_def case_commit_db_def Let_def)
  moreover have "authority_registry_heads (case_commit_db tx r db) = authority_registry_heads db"
    by (simp add: case_commit_db_def Let_def)
  ultimately show ?thesis using assms by (simp add: registry_history_def)
qed

lemma last_tenant_registry:
  assumes "registry_history db" and "authority_registry_heads db t = Some h"
  obtains g where "g \<in> set (authority_registries db)" "rg_tenant_id g = t" "head_matches h g"
proof -
  have "last (tenant_registries t db) \<in> set (tenant_registries t db)"
    "head_matches h (last (tenant_registries t db))"
    using assms by (auto simp: registry_history_def)
  then show ?thesis using that by (auto simp: tenant_registries_def)
qed

lemma case_commit_registered:
  assumes "cases_registered db" "registry_history db" "revisions_ordered db" "case_admitted r db"
  shows "cases_registered (case_commit_db tx r db)"
proof -
  obtain h where h: "authority_registry_heads db (ccr_TenantID r) = Some h"
      "rh_Revision h = ccr_RegistryRevision r" "rh_Commitment h = ccr_RegistryHash r"
      "rh_RoutingEpoch h = ccr_RoutingEpoch r"
    using assms(4) by (auto simp: case_admitted_def)
  obtain g where g: "g \<in> set (authority_registries db)" "rg_tenant_id g = ccr_TenantID r" "head_matches h g"
    using last_tenant_registry [OF assms(2) h(1)] .
  have "rg_commit_revision g < revision_identity db + 1"
    using g(1) by (intro revision_above [OF assms(3)]) (simp add: fact_revisions_def)
  then have "case_registered (case_row tx r (revision_identity db + 1)) g"
    using g h by (simp add: case_registered_def case_row_def head_matches_def)
  then show ?thesis
    using assms(1) g(1) by (auto simp: cases_registered_def case_commit_db_def Let_def)
qed

lemma case_commit_inv:
  assumes inv: "authority_inv db" and adm: "case_admitted r db"
    and chk: "case_row_check (case_row tx r (revision_identity db + 1))"
    and keys: "\<not> keys_taken case_keys (case_row tx r (revision_identity db + 1)) (authority_cases db)"
    and env: "\<not> key_taken delivery_envelope_key (case_delivery_row r 1 1) (authority_edge_deliveries db)"
    and ids: "distinct (map ob_outbox_id (authority_outbox db)) \<longrightarrow>
         distinct (map ob_outbox_id (authority_outbox (case_commit_db tx r db)))"
    and dest: "distinct (map outbox_destination_key (authority_outbox db)) \<longrightarrow>
         distinct (map outbox_destination_key (authority_outbox (case_commit_db tx r db)))"
  shows "authority_inv (case_commit_db tx r db)"
proof -
  note parts = inv [unfolded authority_inv_def]
  have "keys_unique (case_commit_db tx r db)"
  proof -
    have "\<forall>key \<in> set case_keys. distinct (map key (authority_cases (case_commit_db tx r db)))"
      using keys_taken_append [OF keys] parts by (simp add: keys_unique_def case_commit_db_def Let_def)
    moreover have "distinct (map delivery_envelope_key (authority_edge_deliveries (case_commit_db tx r db)))"
      using env parts
      by (auto simp: keys_unique_def case_commit_db_def Let_def key_taken_iff delivery_envelope_key_def
          case_delivery_row_def)
    ultimately show ?thesis
      using parts ids dest by (simp add: keys_unique_def case_commit_db_def Let_def)
  qed
  moreover have "rows_checked (case_commit_db tx r db)"
    using parts chk
    by (auto simp: rows_checked_def case_commit_db_def Let_def case_destinations_def
        case_row_check_def case_row_def intro!: outbox_row_check_fresh)
  moreover have "advice_bound (case_commit_db tx r db)"
    using parts by (auto simp: advice_bound_def case_commit_db_def Let_def)
  moreover have "high_water_sound (case_commit_db tx r db)"
    using parts by (simp add: high_water_sound_def case_commit_db_def Let_def)
  ultimately show ?thesis
    using parts adm unfolding authority_inv_def
    by (simp add: case_commit_contiguous case_commit_revisions case_commit_atomic case_commit_history
        case_commit_registered)
qed

section \<open>Preservation by an advice commit\<close>

lemma advice_commit_revisions:
  assumes "revisions_ordered db"
  shows "revisions_ordered (advice_commit_db tx r c db)"
  by (rule revisions_ordered_append [OF assms refl, where cs = "[]" and as = "[revision_identity db + 1]" and gs = "[]"])
    (simp_all add: advice_commit_db_def Let_def advice_row_of_def audit_row_of_def)

lemma advice_commit_contiguous:
  assumes "log_contiguous db"
  shows "log_contiguous (advice_commit_db tx r c db)"
  by (rule log_contiguous_append [OF assms, where d = "advice_delivery_row r c (next_sequence db
        (car_TenantID r, cr_IssuerEdgeID c, cr_IssuerEdgeGeneration c)) (revision_identity db + 1)"])
    (auto simp: advice_commit_db_def Let_def advice_delivery_row_def)

lemma advice_commit_atomic:
  assumes "facts_atomic db"
  shows "facts_atomic (advice_commit_db tx r c db)"
proof -
  let ?n = "revision_identity db + 1"
  let ?q = "next_sequence db (car_TenantID r, cr_IssuerEdgeID c, cr_IssuerEdgeGeneration c)"
  have "advice_delivers (advice_row_of r c ?q ?n) (advice_delivery_row r c ?q ?n)"
    by (simp add: advice_delivers_def advice_row_of_def advice_delivery_row_def)
  moreover have "outbox_identity ` set (map (fresh_outbox_row tx (car_TenantID r) ''advice'' (car_CaseID r)
      (car_Raw r) ?n) (advice_destinations c)) = set (advice_outbox_entries (advice_row_of r c ?q ?n))"
    by (simp add: advice_destinations_def advice_outbox_entries_def outbox_identity_fresh advice_row_of_def)
  ultimately show ?thesis
    using assms unfolding facts_atomic_def advice_commit_db_def Let_def
    by (auto simp: image_Un)
qed

lemma advice_commit_bound:
  assumes "advice_bound db" "revisions_ordered db" "advice_admitted r c db"
  shows "advice_bound (advice_commit_db tx r c db)"
proof -
  have c: "c \<in> set (authority_cases db)" "cr_TenantID c = car_TenantID r" "cr_CaseID c = car_CaseID r"
    using assms(3) find_case_SomeD by (auto simp: advice_admitted_def)
  have "cr_AuthorityRevision c < revision_identity db + 1"
    using c(1) by (intro revision_above [OF assms(2)]) (simp add: fact_revisions_def)
  then have "advice_answers (advice_row_of r c q (revision_identity db + 1)) c" for q
    using c assms(3) by (simp add: advice_answers_def advice_row_of_def advice_admitted_def)
  with assms(1) c(1) show ?thesis
    by (auto simp: advice_bound_def advice_commit_db_def Let_def)
qed

lemma advice_commit_history:
  assumes "registry_history db"
  shows "registry_history (advice_commit_db tx r c db)"
proof -
  have "tenant_registries t (advice_commit_db tx r c db) = tenant_registries t db" for t
    by (simp add: tenant_registries_def advice_commit_db_def Let_def)
  moreover have "authority_registry_heads (advice_commit_db tx r c db) = authority_registry_heads db"
    by (simp add: advice_commit_db_def Let_def)
  ultimately show ?thesis using assms by (simp add: registry_history_def)
qed

lemma advice_commit_inv:
  assumes inv: "authority_inv db" and adm: "advice_admitted r c db"
    and chk: "advice_row_check (advice_row_of r c (next_sequence db
       (car_TenantID r, cr_IssuerEdgeID c, cr_IssuerEdgeGeneration c)) (revision_identity db + 1))"
    and keys: "\<not> keys_taken advice_keys (advice_row_of r c 1 1) (authority_advice db)"
    and env: "\<not> key_taken delivery_envelope_key (advice_delivery_row r c 1 1) (authority_edge_deliveries db)"
    and ids: "distinct (map ob_outbox_id (authority_outbox db)) \<longrightarrow>
         distinct (map ob_outbox_id (authority_outbox (advice_commit_db tx r c db)))"
    and dest: "distinct (map outbox_destination_key (authority_outbox db)) \<longrightarrow>
         distinct (map outbox_destination_key (authority_outbox (advice_commit_db tx r c db)))"
  shows "authority_inv (advice_commit_db tx r c db)"
proof -
  note parts = inv [unfolded authority_inv_def]
  let ?row = "advice_row_of r c (next_sequence db
       (car_TenantID r, cr_IssuerEdgeID c, cr_IssuerEdgeGeneration c)) (revision_identity db + 1)"
  have "keys_unique (advice_commit_db tx r c db)"
  proof -
    have "\<not> keys_taken advice_keys ?row (authority_advice db)"
      using keys by (simp add: keys_taken_def key_taken_def advice_keys_def advice_row_of_def)
    then have "\<forall>key \<in> set advice_keys. distinct (map key (authority_advice (advice_commit_db tx r c db)))"
      using keys_taken_append [of advice_keys ?row] parts
      by (simp add: keys_unique_def advice_commit_db_def Let_def)
    moreover have "distinct (map delivery_envelope_key (authority_edge_deliveries (advice_commit_db tx r c db)))"
      using env parts
      by (auto simp: keys_unique_def advice_commit_db_def Let_def key_taken_iff delivery_envelope_key_def
          advice_delivery_row_def)
    ultimately show ?thesis
      using parts ids dest by (simp add: keys_unique_def advice_commit_db_def Let_def)
  qed
  moreover have "rows_checked (advice_commit_db tx r c db)"
    using parts chk
    by (auto simp: rows_checked_def advice_commit_db_def Let_def advice_destinations_def
        advice_row_check_def advice_row_of_def intro!: outbox_row_check_fresh)
  moreover have "cases_registered (advice_commit_db tx r c db)"
    using parts by (simp add: cases_registered_def advice_commit_db_def Let_def)
  moreover have "high_water_sound (advice_commit_db tx r c db)"
    using parts by (simp add: high_water_sound_def advice_commit_db_def Let_def)
  ultimately show ?thesis
    using parts adm unfolding authority_inv_def
    by (simp add: advice_commit_contiguous advice_commit_revisions advice_commit_atomic
        advice_commit_history advice_commit_bound)
qed

section \<open>Preservation by a registry commit or a halt\<close>

lemma registry_commit_revisions:
  assumes "revisions_ordered db"
  shows "revisions_ordered (registry_commit_db r db)"
  by (rule revisions_ordered_append [OF assms refl, where cs = "[]" and as = "[]" and gs = "[revision_identity db + 1]"])
    (simp_all add: registry_commit_db_def Let_def registry_row_of_def audit_row_of_def)

lemma tenant_registries_commit:
  "tenant_registries t (registry_commit_db r db) =
    (if t = crr_TenantID r
     then tenant_registries t db @ [registry_row_of r (revision_identity db + 1)]
     else tenant_registries t db)"
  by (simp add: tenant_registries_def registry_commit_db_def Let_def registry_row_of_def)

lemma registry_commit_history:
  assumes hist: "registry_history db" and fol: "registry_follows r db"
    and pos: "0 < crr_Revision r" and comm: "\<forall>h. authority_registry_heads db (crr_TenantID r) = Some h \<longrightarrow> rh_Commitment h \<noteq> []"
  shows "registry_history (registry_commit_db r db)"
proof -
  let ?t = "crr_TenantID r"
  let ?row = "registry_row_of r (revision_identity db + 1)"
  have other: "authority_registry_heads (registry_commit_db r db) t = authority_registry_heads db t"
    if "t \<noteq> ?t" for t
    using that by (simp add: registry_commit_db_def Let_def)
  obtain h' where h': "authority_registry_heads (registry_commit_db r db) ?t = Some h'"
    "rh_TenantID h' = ?t" "0 < rh_Revision h'" "head_matches h' ?row"
    using pos hist
    by (cases "authority_registry_heads db ?t")
      (auto simp: registry_commit_db_def Let_def new_registry_head_def head_matches_def
        registry_row_of_def registry_history_def)
  have chain: "successively registry_link (tenant_registries ?t db @ [?row])
      \<and> rg_previous_commitment (hd (tenant_registries ?t db @ [?row])) = None"
  proof (cases "authority_registry_heads db ?t")
    case None
    with hist fol show ?thesis
      by (auto simp: registry_history_def registry_follows_def registry_row_of_def nullableText_def)
  next
    case (Some h)
    with hist have old: "tenant_registries ?t db \<noteq> []" "head_matches h (last (tenant_registries ?t db))"
      "rg_previous_commitment (hd (tenant_registries ?t db)) = None"
      "successively registry_link (tenant_registries ?t db)" "0 < rh_Revision h"
      by (auto simp: registry_history_def)
    have "crr_Revision r = rh_Revision h + 1" "crr_PreviousCommitment r = rh_Commitment h"
      using registry_follows_next [OF fol Some] old(5) fol Some by (auto simp: registry_follows_def)
    then have "registry_link (last (tenant_registries ?t db)) ?row"
      using old(2) comm Some
      by (auto simp: registry_link_def head_matches_def registry_row_of_def nullableText_def)
    with old show ?thesis by (simp add: successively_append_iff)
  qed
  show ?thesis
    unfolding registry_history_def
    using hist other h' chain by (auto simp: tenant_registries_commit registry_history_def)
qed

lemma registry_commit_high_water:
  assumes hw: "high_water_sound db" and hist: "registry_history db" and fol: "registry_follows r db"
    and facts: "registry_commit_facts r db"
  shows "high_water_sound (registry_commit_db r db)"
  unfolding high_water_sound_def
proof (intro allI impI)
  fix t e w
  assume w: "authority_edge_generation_high_water (registry_commit_db r db) (t, e) = Some w"
  show "high_water_check w \<and> (\<exists>h. authority_registry_heads (registry_commit_db r db) t = Some h
      \<and> hw_last_seen_registry_revision w \<le> rh_Revision h)"
  proof (cases "t = crr_TenantID r \<and> e \<in> fst ` set (the (crr_Edges r))")
    case True
    then have "w = high_water_of r e"
      using w by (auto simp: registry_commit_db_def Let_def high_water_update_def)
    with True facts show ?thesis
      by (auto simp: registry_commit_facts_def registry_commit_db_def Let_def high_water_of_def
          new_registry_head_def split: option.splits)
  next
    case False
    then have old: "authority_edge_generation_high_water db (t, e) = Some w"
      using w by (auto simp: registry_commit_db_def Let_def high_water_update_def split: if_splits)
    with hw obtain h where h: "high_water_check w" "authority_registry_heads db t = Some h"
      "hw_last_seen_registry_revision w \<le> rh_Revision h"
      unfolding high_water_sound_def by blast
    have "rh_Revision h \<le> crr_Revision r" if "t = crr_TenantID r"
      using fol h(2) that by (simp add: registry_follows_def)
    with h show ?thesis
      by (auto simp: registry_commit_db_def Let_def)
  qed
qed

lemma registry_commit_inv:
  assumes inv: "authority_inv db" and fol: "registry_follows r db" and facts: "registry_commit_facts r db"
  shows "authority_inv (registry_commit_db r db)"
proof -
  note parts = inv [unfolded authority_inv_def]
  let ?row = "registry_row_of r (revision_identity db + 1)"
  have chk: "registry_row_check ?row" using facts by (simp add: registry_commit_facts_def)
  then have pos: "0 < crr_Revision r" by (simp add: registry_row_check_def registry_row_of_def)
  have comm: "rh_Commitment h \<noteq> []" if h: "authority_registry_heads db (crr_TenantID r) = Some h" for h
  proof -
    obtain g where "g \<in> set (authority_registries db)" "head_matches h g"
      using last_tenant_registry [OF _ h] parts by blast
    with parts have "validCommitment (rh_Commitment h)"
      by (auto simp: rows_checked_def list_all_iff registry_row_check_def head_matches_def)
    then show ?thesis by (auto simp: validCommitment_def)
  qed
  have "keys_unique (registry_commit_db r db)"
  proof -
    have "\<not> keys_taken registry_keys ?row (authority_registries db)"
      using facts by (simp add: registry_commit_facts_def keys_taken_def key_taken_def registry_keys_def
          registry_row_of_def)
    then have "\<forall>key \<in> set registry_keys. distinct (map key (authority_registries (registry_commit_db r db)))"
      using keys_taken_append [of registry_keys ?row] parts
      by (simp add: keys_unique_def registry_commit_db_def Let_def)
    moreover have "distinct (map registry_primary_key (authority_registries (registry_commit_db r db)))"
      using facts parts
      by (auto simp: keys_unique_def registry_commit_facts_def registry_commit_db_def Let_def key_taken_iff
          registry_primary_key_def registry_row_of_def)
    ultimately show ?thesis
      using parts by (simp add: keys_unique_def registry_commit_db_def Let_def)
  qed
  moreover have "log_contiguous (registry_commit_db r db)"
    using parts by (simp add: log_contiguous_def edge_rows_def registry_commit_db_def Let_def)
  moreover have "rows_checked (registry_commit_db r db)"
    using parts chk by (simp add: rows_checked_def registry_commit_db_def Let_def)
  moreover have "facts_atomic (registry_commit_db r db)" "advice_bound (registry_commit_db r db)"
    using parts by (simp_all add: facts_atomic_def advice_bound_def registry_commit_db_def Let_def)
  moreover have "cases_registered (registry_commit_db r db)"
    using parts by (auto simp: cases_registered_def registry_commit_db_def Let_def)
  moreover have "registry_history (registry_commit_db r db)"
    using parts fol pos comm by (intro registry_commit_history) auto
  moreover have "high_water_sound (registry_commit_db r db)"
    using parts fol facts by (intro registry_commit_high_water) auto
  moreover have "revisions_ordered (registry_commit_db r db)"
    using parts by (simp add: registry_commit_revisions)
  ultimately show ?thesis unfolding authority_inv_def by blast
qed

lemma head_matches_halt [simp]:
  "head_matches (h\<lparr>rh_Halted := a, rh_HaltReason := b\<rparr>) g = head_matches h g"
  by (simp add: head_matches_def)

lemma halted_inv:
  assumes inv: "authority_inv db" and h: "authority_registry_heads db t = Some h"
  shows "authority_inv (halted_db t reason h db)"
proof -
  note parts = inv [unfolded authority_inv_def]
  have rows: "edge_rows t' e g (halted_db t reason h db) = edge_rows t' e g db"
    "next_sequence (halted_db t reason h db) k = next_sequence db k"
    "tenant_registries t' (halted_db t reason h db) = tenant_registries t' db" for t' e g k
    by (simp_all add: edge_rows_def halted_db_def tenant_registries_def)
  have "registry_history (halted_db t reason h db)"
    unfolding registry_history_def rows
    using parts h by (auto simp: halted_db_def registry_history_def split: if_splits)
  moreover have "high_water_sound (halted_db t reason h db)"
    unfolding high_water_sound_def
  proof (intro allI impI)
    fix t' e w
    assume "authority_edge_generation_high_water (halted_db t reason h db) (t', e) = Some w"
    then have "authority_edge_generation_high_water db (t', e) = Some w" by (simp add: halted_db_def)
    with parts obtain h' where "high_water_check w" "authority_registry_heads db t' = Some h'"
      "hw_last_seen_registry_revision w \<le> rh_Revision h'"
      unfolding high_water_sound_def by blast
    with h show "high_water_check w \<and> (\<exists>h'. authority_registry_heads (halted_db t reason h db) t' = Some h'
        \<and> hw_last_seen_registry_revision w \<le> rh_Revision h')"
      by (auto simp: halted_db_def)
  qed
  moreover have "keys_unique (halted_db t reason h db)" "log_contiguous (halted_db t reason h db)"
    "revisions_ordered (halted_db t reason h db)" "rows_checked (halted_db t reason h db)"
    "facts_atomic (halted_db t reason h db)" "advice_bound (halted_db t reason h db)"
    "cases_registered (halted_db t reason h db)"
    using parts
    by (simp_all add: keys_unique_def log_contiguous_def rows revisions_ordered_def rows_checked_def
        facts_atomic_def advice_bound_def cases_registered_def fact_revisions_def)
      (simp_all add: halted_db_def)
  ultimately show ?thesis unfolding authority_inv_def by blast
qed

section \<open>Preservation by the transactions\<close>

text \<open>
  What one run of a transaction's body may do: the state it would commit satisfies the invariant, and
  a state it discards has drawn revisions only upwards.
\<close>

definition work_sound :: "(authority_db \<Rightarrow> work_result) \<Rightarrow> bool" where
  "work_sound work \<longleftrightarrow>
    (\<forall>db rc cm err db'. authority_inv db \<longrightarrow> work db = ((rc, cm, err), db') \<longrightarrow>
       revision_identity db \<le> revision_identity db' \<and> (err = None \<or> cm \<longrightarrow> authority_inv db'))"

lemma CommitCase_work_sound: "work_sound (CommitCase_work s r tx)"
  unfolding work_sound_def
proof (intro allI impI)
  fix db rc cm err db'
  assume inv: "authority_inv db" and w: "CommitCase_work s r tx db = ((rc, cm, err), db')"
  show "revision_identity db \<le> revision_identity db' \<and> (err = None \<or> cm \<longrightarrow> authority_inv db')"
  proof (cases err)
    case (Some e)
    with CommitCase_work_err w show ?thesis by blast
  next
    case None
    show ?thesis
    proof (cases "existingCase r db")
      case (Inl e)
      with w None show ?thesis by (auto simp: CommitCase_work_def work_fail_def)
    next
      case (Inr found)
      show ?thesis
      proof (cases found)
        case st: (Some stored)
        with CommitCase_work_replay w None Inr inv show ?thesis by blast
      next
        case nf: None
        with CommitCase_work_ok w None Inr have ok: "db' = case_commit_db tx r db" "case_admitted r db"
          "case_row_check (case_row tx r (revision_identity db + 1))"
          "\<not> keys_taken case_keys (case_row tx r (revision_identity db + 1)) (authority_cases db)"
          "\<not> key_taken delivery_envelope_key (case_delivery_row r 1 1) (authority_edge_deliveries db)"
          "distinct (map ob_outbox_id (authority_outbox db)) \<longrightarrow>
             distinct (map ob_outbox_id (authority_outbox db'))"
          "distinct (map outbox_destination_key (authority_outbox db)) \<longrightarrow>
             distinct (map outbox_destination_key (authority_outbox db'))"
          by blast+
        with case_commit_inv [OF inv] show ?thesis by (simp add: case_commit_db_def Let_def)
      qed
    qed
  qed
qed

lemma CommitAdvice_work_sound: "work_sound (CommitAdvice_work s r tx)"
  unfolding work_sound_def
proof (intro allI impI)
  fix db rc cm err db'
  assume inv: "authority_inv db" and w: "CommitAdvice_work s r tx db = ((rc, cm, err), db')"
  show "revision_identity db \<le> revision_identity db' \<and> (err = None \<or> cm \<longrightarrow> authority_inv db')"
  proof (cases err)
    case (Some e)
    with CommitAdvice_work_err w show ?thesis by blast
  next
    case None
    show ?thesis
    proof (cases "\<exists>stored. existingAdvice r db = Inr (Some stored)")
      case True
      with CommitAdvice_work_replay w None inv show ?thesis by blast
    next
      case False
      then have nf: "existingAdvice r db \<noteq> Inr (Some stored)" for stored by blast
      from w None have "CommitAdvice_work s r tx db = ((rc, cm, None), db')" by simp
      from CommitAdvice_work_ok [OF this nf] obtain c where
        ok: "db' = advice_commit_db tx r c db" "advice_admitted r c db"
        "advice_row_check (advice_row_of r c (next_sequence db
           (car_TenantID r, cr_IssuerEdgeID c, cr_IssuerEdgeGeneration c)) (revision_identity db + 1))"
        "\<not> keys_taken advice_keys (advice_row_of r c 1 1) (authority_advice db)"
        "\<not> key_taken delivery_envelope_key (advice_delivery_row r c 1 1) (authority_edge_deliveries db)"
        "distinct (map ob_outbox_id (authority_outbox db)) \<longrightarrow>
           distinct (map ob_outbox_id (authority_outbox db'))"
        "distinct (map outbox_destination_key (authority_outbox db)) \<longrightarrow>
           distinct (map outbox_destination_key (authority_outbox db'))"
        by this
      with advice_commit_inv [OF inv] show ?thesis by (simp add: advice_commit_db_def Let_def)
    qed
  qed
qed

lemma CommitRegistry_work_sound: "work_sound (CommitRegistry_work s r tx)"
  unfolding work_sound_def
proof (intro allI impI)
  fix db rc cm err db'
  assume inv: "authority_inv db" and w: "CommitRegistry_work s r tx db = ((rc, cm, err), db')"
  from w show "revision_identity db \<le> revision_identity db' \<and> (err = None \<or> cm \<longrightarrow> authority_inv db')"
  proof (cases rule: CommitRegistry_work_cases)
    case (halted h e reason)
    with halted_inv [OF inv halted(4)] show ?thesis by (simp add: halted_db_def)
  next
    case fresh
    with registry_commit_inv [OF inv] show ?thesis by (simp add: registry_commit_db_def Let_def)
  qed (use inv in auto)
qed

lemma rolled_back_inv:
  assumes "authority_inv db" "revision_identity db \<le> revision_identity db'"
  shows "authority_inv (rolled_back db db')"
  using authority_inv_identity [OF assms] by (simp add: rolled_back_def)

lemma run_work_sound:
  assumes "work_sound work"
  shows "work_sound (run_work env work)"
  unfolding work_sound_def
proof (intro allI impI)
  fix db rc cm err db'
  assume inv: "authority_inv db" and w: "run_work env work db = ((rc, cm, err), db')"
  show "revision_identity db \<le> revision_identity db' \<and> (err = None \<or> cm \<longrightarrow> authority_inv db')"
  proof (cases "at_work env")
    case None
    with w have "work db = ((rc, cm, err), db')" by (simp add: run_work_def)
    with assms inv show ?thesis unfolding work_sound_def by blast
  next
    case (Some f)
    obtain rc1 cm1 err1 db1 where "work db = ((rc1, cm1, err1), db1)" by (metis prod.exhaust)
    moreover from this assms inv have "revision_identity db \<le> revision_identity db1"
      unfolding work_sound_def by blast
    ultimately show ?thesis
      using Some w by (cases f) (auto simp: run_work_def work_fail_def rolled_back_def)
  qed
qed

lemma transaction_attempt_inv:
  assumes inv: "authority_inv db" and sound: "\<And>tx. work_sound (work tx)"
  shows "authority_inv (snd (transaction_attempt work pool env db))"
proof -
  let ?w = "run_work env (work \<lparr>tx_timestamptz = pool_timestamptz pool, tx_clock = at_clock env\<rparr>) db"
  obtain rc cm err db1 where w: "?w = ((rc, cm, err), db1)" by (metis prod.exhaust)
  have le: "revision_identity db \<le> revision_identity db1" and ok: "err = None \<or> cm \<Longrightarrow> authority_inv db1"
    using run_work_sound [OF sound] w inv unfolding work_sound_def by blast+
  show ?thesis
    using inv ok rolled_back_inv [OF inv le]
    by (auto simp: transaction_attempt_def w split: option.splits)
qed

lemma transaction_loop_inv:
  assumes "authority_inv db" "\<And>tx. work_sound (work tx)"
    and "\<And>i db. authority_inv db \<Longrightarrow> authority_inv (at_others (envs i) db)"
  shows "authority_inv (snd (transaction_loop n i label work pool envs db))"
  using assms(1)
proof (induction n arbitrary: i db)
  case (Suc n)
  obtain out db' where a: "transaction_attempt work pool (envs i) (at_others (envs i) db) = (out, db')"
    by fastforce
  have "authority_inv db'"
    using transaction_attempt_inv [of "at_others (envs i) db" work pool "envs i"] Suc.prems assms(2,3) a
    by simp
  with a Suc.IH show ?case by (simp split: attempt_outcome.split)
qed simp

lemmas transaction_work_sound =
  CommitCase_work_sound CommitAdvice_work_sound CommitRegistry_work_sound

end
