(* ===== verification/Outbox.thy ===== *)
theory Outbox
  imports Authority_Invariant "HOL-Library.Product_Lexorder"
begin

text \<open>
  \<^verbatim>\<open>internal/authority/postgres/outbox.go\<close>: leasing committed outbox rows to delivery workers, closing
  them as published and releasing them for another attempt.  A call takes the server's clock at the
  statements that read it, the identifiers \<^verbatim>\<open>uuid.NewString\<close> hands out, the rows other transactions
  hold locked (\<^verbatim>\<open>FOR UPDATE SKIP LOCKED\<close> passes over them) and the error that may end it; an error
  reported for a commit or an autocommitted statement comes with whether the server had applied it.
\<close>

section \<open>Items and limits\<close>

record Item =
  it_ID :: string
  it_LeaseToken :: string
  it_TenantID :: string
  it_EventKind :: string
  it_EntityID :: string
  it_DestinationKind :: string
  it_DestinationKey :: string
  it_Raw :: bytes
  it_AuthorityRevision :: int
  it_DomainID :: string
  it_EdgeID :: string
  it_EdgeGeneration :: int
  it_DeliverySequence :: int

definition MaxBatchSize :: int where
  "MaxBatchSize = 1000"

definition MaxLease :: int where
  "MaxLease = 3600000000000"

definition MaxRetryDelay :: int where
  "MaxRetryDelay = 24 * 3600000000000"

definition ReasonPublishFailed :: string where
  "ReasonPublishFailed = ''publish_failed''"

definition ReasonMalformedItem :: string where
  "ReasonMalformedItem = ''malformed_item''"

definition maxOutboxAttempts :: int where
  "maxOutboxAttempts = 20"

section \<open>Claim\<close>

definition open_row :: "outbox_row \<Rightarrow> bool" where
  "open_row o' = (ob_published_at o' = None \<and> ob_poisoned_at o' = None)"

definition claimable :: "time \<Rightarrow> (string \<Rightarrow> bool) \<Rightarrow> outbox_row \<Rightarrow> bool" where
  "claimable now locked o' =
    (open_row o' \<and> ob_next_attempt_at o' \<le> now
     \<and> (case ob_lease_until o' of None \<Rightarrow> True | Some until \<Rightarrow> until \<le> now)
     \<and> \<not> locked (ob_outbox_id o'))"

definition select_claims :: "time \<Rightarrow> (string \<Rightarrow> bool) \<Rightarrow> int \<Rightarrow> authority_db \<Rightarrow> string list" where
  "select_claims now locked limit db =
    map ob_outbox_id (take (nat limit)
      (sort_key (\<lambda>o'. (ob_next_attempt_at o', ob_created_at o', ob_outbox_id o'))
        (filter (claimable now locked) (authority_outbox db))))"

definition leased_row :: "string \<Rightarrow> string \<Rightarrow> time \<Rightarrow> outbox_row \<Rightarrow> outbox_row" where
  "leased_row workerID token until o' =
    o'\<lparr>ob_lease_owner := Some workerID, ob_lease_token := Some token, ob_lease_until := Some until\<rparr>"

definition outbox_item :: "string \<Rightarrow> outbox_row \<Rightarrow> authority_db \<Rightarrow> Item" where
  "outbox_item token o' db =
    (let c = find (\<lambda>c. ob_destination_kind o' = ''domain_dispatch'' \<and> cr_TenantID c = ob_tenant_id o'
                       \<and> cr_AuthorityRevision c = ob_authority_revision o') (authority_cases db);
         d = find (\<lambda>d. ob_destination_kind o' = ''edge_delivery'' \<and> dr_tenant_id d = ob_tenant_id o'
                       \<and> ed_AuthorityRevision (dr_delivery d) = ob_authority_revision o')
               (authority_edge_deliveries db) in
     \<lparr>it_ID = ob_outbox_id o', it_LeaseToken = token, it_TenantID = ob_tenant_id o',
      it_EventKind = ob_event_kind o', it_EntityID = ob_entity_id o',
      it_DestinationKind = ob_destination_kind o', it_DestinationKey = ob_destination_key o',
      it_Raw = ob_raw o', it_AuthorityRevision = ob_authority_revision o',
      it_DomainID = (case c of None \<Rightarrow> [] | Some c \<Rightarrow> cr_Domain c),
      it_EdgeID = (case d of None \<Rightarrow> [] | Some d \<Rightarrow> dr_edge_id d),
      it_EdgeGeneration = (case d of None \<Rightarrow> 0 | Some d \<Rightarrow> dr_edge_generation d),
      it_DeliverySequence = (case d of None \<Rightarrow> 0 | Some d \<Rightarrow> ed_Sequence (dr_delivery d))\<rparr>)"

definition readClaimedOutboxItem :: "string \<Rightarrow> string \<Rightarrow> authority_db \<Rightarrow> store_error + Item" where
  "readClaimedOutboxItem i token db =
    (case find (\<lambda>o'. ob_outbox_id o' = i \<and> ob_lease_token o' = Some token) (authority_outbox db) of
       None \<Rightarrow> Inl ErrStaleOutboxLease
     | Some o' \<Rightarrow> Inr (outbox_item token o' db))"

record claim_env =
  ce_locked :: "string \<Rightarrow> bool"
  ce_select_clock :: time
  ce_uuid :: "nat \<Rightarrow> string"
  ce_clock :: "nat \<Rightarrow> time"
  ce_fault :: "string option"
  ce_commit :: "(string \<times> bool) option"

fun claim_loop ::
    "claim_env \<Rightarrow> string \<Rightarrow> int \<Rightarrow> string list \<Rightarrow> nat \<Rightarrow> authority_db \<Rightarrow> store_error + Item list \<times> authority_db" where
  "claim_loop env workerID lease [] n db = Inr ([], db)"
| "claim_loop env workerID lease (i # rest) n db =
    (let token = ce_uuid env n;
         matches = (\<lambda>o'. ob_outbox_id o' = i \<and> open_row o');
         until = ce_clock env n + (lease div 1000) * 1000;
         db' = db\<lparr>authority_outbox := update_rows matches (leased_row workerID token until) (authority_outbox db)\<rparr> in
     if rows_affected matches (authority_outbox db) \<noteq> 1 then Inl ErrStaleOutboxLease
     else case readClaimedOutboxItem i token db' of
       Inl e \<Rightarrow> Inl e
     | Inr item \<Rightarrow>
         (case claim_loop env workerID lease rest (Suc n) db' of
            Inl e \<Rightarrow> Inl e
          | Inr (items, db'') \<Rightarrow> Inr (item # items, db'')))"

definition Claim ::
    "Store \<Rightarrow> claim_env \<Rightarrow> string \<Rightarrow> int \<Rightarrow> int \<Rightarrow> authority_db \<Rightarrow> (store_error + Item list) \<times> authority_db" where
  "Claim s env workerID limit lease db =
    (if store_pool s = None then (Inl nil_store, db)
     else if blank workerID \<or> limit \<le> 0 \<or> limit > MaxBatchSize \<or> lease \<le> 0 \<or> lease > MaxLease
       then (Inl (ErrText ''authority/postgres: invalid outbox claim''), db)
     else case ce_fault env of
       Some code \<Rightarrow> (Inl (ErrPg code), db)
     | None \<Rightarrow>
         (case claim_loop env workerID lease
                 (select_claims (ce_select_clock env) (ce_locked env) limit db) 0 db of
            Inl e \<Rightarrow> (Inl e, db)
          | Inr (items, db') \<Rightarrow>
              (case ce_commit env of
                 Some (code, applied) \<Rightarrow> (Inl (ErrPg code), if applied then db' else db)
               | None \<Rightarrow> (Inr items, db'))))"

section \<open>Closing a lease\<close>

definition holds_lease :: "string \<Rightarrow> string \<Rightarrow> time \<Rightarrow> outbox_row \<Rightarrow> bool" where
  "holds_lease itemID token now o' =
    (ob_outbox_id o' = itemID \<and> ob_lease_token o' = Some token
     \<and> (case ob_lease_until o' of None \<Rightarrow> False | Some until \<Rightarrow> until > now) \<and> open_row o')"

definition published_row :: "time \<Rightarrow> outbox_row \<Rightarrow> outbox_row" where
  "published_row now o' =
    o'\<lparr>ob_published_at := Some now, ob_lease_owner := None, ob_lease_token := None,
       ob_lease_until := None, ob_last_error := []\<rparr>"

definition MarkPublished ::
    "Store \<Rightarrow> (string \<times> bool) option \<Rightarrow> time \<Rightarrow> string \<Rightarrow> string \<Rightarrow> authority_db \<Rightarrow> store_error option \<times> authority_db" where
  "MarkPublished s fault now itemID leaseToken db =
    (if store_pool s = None \<or> blank itemID \<or> blank leaseToken
       then (Some (ErrText ''authority/postgres: invalid outbox publish closure''), db)
     else
    let matches = holds_lease itemID leaseToken now;
        db' = db\<lparr>authority_outbox := update_rows matches (published_row now) (authority_outbox db)\<rparr> in
    case fault of
      Some (code, applied) \<Rightarrow> (Some (ErrPg code), if applied then db' else db)
    | None \<Rightarrow> (if rows_affected matches (authority_outbox db) \<noteq> 1 then Some ErrStaleOutboxLease else None, db'))"

definition released_row :: "time \<Rightarrow> time \<Rightarrow> string \<Rightarrow> outbox_row \<Rightarrow> outbox_row" where
  "released_row now retryAt reason o' =
    o'\<lparr>ob_attempts := ob_attempts o' + 1, ob_next_attempt_at := retryAt, ob_last_error := reason,
       ob_poisoned_at := (if ob_attempts o' + 1 \<ge> maxOutboxAttempts then Some now else None),
       ob_lease_owner := None, ob_lease_token := None, ob_lease_until := None\<rparr>"

definition Release ::
    "Store \<Rightarrow> (string \<times> bool) option \<Rightarrow> time \<Rightarrow> string \<Rightarrow> string \<Rightarrow> time \<Rightarrow> string \<Rightarrow> authority_db
       \<Rightarrow> store_error option \<times> authority_db" where
  "Release s fault now itemID leaseToken retryAt redactedReason db =
    (case store_pool s of
       None \<Rightarrow> (Some (ErrText ''authority/postgres: invalid outbox release''), db)
     | Some pool \<Rightarrow>
    if blank itemID \<or> blank leaseToken \<or> retryAt = zero_time
       \<or> (redactedReason \<noteq> ReasonPublishFailed \<and> redactedReason \<noteq> ReasonMalformedItem)
    then (Some (ErrText ''authority/postgres: invalid outbox release''), db)
    else
    let matches = holds_lease itemID leaseToken now;
        db' = db\<lparr>authority_outbox := update_rows matches
                   (released_row now (pool_timestamptz pool retryAt) redactedReason) (authority_outbox db)\<rparr> in
    case fault of
      Some (code, applied) \<Rightarrow> (Some (ErrPg code), if applied then db' else db)
    | None \<Rightarrow> (if rows_affected matches (authority_outbox db) \<noteq> 1 then Some ErrStaleOutboxLease else None, db'))"

section \<open>Updates keep the authority invariant\<close>

lemma outbox_identity_eqD:
  "outbox_identity a = outbox_identity b \<Longrightarrow>
    ob_outbox_id a = ob_outbox_id b \<and> outbox_destination_key a = outbox_destination_key b"
  by (simp add: outbox_identity_def outbox_destination_key_def)

lemma outbox_update_inv:
  assumes inv: "authority_inv db"
    and same: "\<And>o'. p o' \<Longrightarrow> outbox_identity (f o') = outbox_identity o'"
    and chk: "\<And>o'. p o' \<Longrightarrow> outbox_row_check o' \<Longrightarrow> outbox_row_check (f o')"
  shows "authority_inv (db\<lparr>authority_outbox := update_rows p f (authority_outbox db)\<rparr>)"
proof -
  note parts = inv [unfolded authority_inv_def]
  let ?db = "db\<lparr>authority_outbox := update_rows p f (authority_outbox db)\<rparr>"
  have keys: "map outbox_identity (authority_outbox ?db) = map outbox_identity (authority_outbox db)"
    "map ob_outbox_id (authority_outbox ?db) = map ob_outbox_id (authority_outbox db)"
    "map outbox_destination_key (authority_outbox ?db) = map outbox_destination_key (authority_outbox db)"
    using same outbox_identity_eqD by (auto intro!: map_update_rows)
  then have ident: "outbox_identity ` set (authority_outbox ?db) = outbox_identity ` set (authority_outbox db)"
    by (metis set_map)
  have rows: "edge_rows t e g ?db = edge_rows t e g db"
    "tenant_registries t ?db = tenant_registries t db" "fact_revisions ?db = fact_revisions db" for t e g
    by (simp_all add: edge_rows_def tenant_registries_def fact_revisions_def)
  have "keys_unique ?db" unfolding keys_unique_def keys using parts by (simp add: keys_unique_def)
  moreover have "rows_checked ?db"
    using parts chk by (auto simp: rows_checked_def intro!: list_all_update_rows)
  moreover have "facts_atomic ?db"
    unfolding facts_atomic_def ident using parts by (simp add: facts_atomic_def)
  moreover have "log_contiguous ?db" "revisions_ordered ?db" "advice_bound ?db" "registry_history ?db"
    "cases_registered ?db" "high_water_sound ?db"
    using parts
    by (simp_all add: log_contiguous_def rows revisions_ordered_def advice_bound_def
        registry_history_def cases_registered_def high_water_sound_def)
  ultimately show ?thesis unfolding authority_inv_def by blast
qed

lemma leased_row_keeps:
  "outbox_identity (leased_row w k u o') = outbox_identity o'"
  "outbox_row_check o' \<Longrightarrow> outbox_row_check (leased_row w k u o')"
  by (simp_all add: leased_row_def outbox_identity_def outbox_row_check_def lease_columns_check_def)

lemma published_row_keeps:
  "outbox_identity (published_row now o') = outbox_identity o'"
  "outbox_row_check o' \<Longrightarrow> outbox_row_check (published_row now o')"
  by (simp_all add: published_row_def outbox_identity_def outbox_row_check_def lease_columns_check_def)

lemma released_row_keeps:
  "outbox_identity (released_row now t r o') = outbox_identity o'"
  "outbox_row_check o' \<Longrightarrow> outbox_row_check (released_row now t r o')"
  by (simp_all add: released_row_def outbox_identity_def outbox_row_check_def lease_columns_check_def)

text \<open>
  The one-step rule of the claim loop, and the rule by which any property of the database that each
  lease update keeps is kept by a whole claim.
\<close>

lemma claim_loop_Cons_Inr:
  "claim_loop env w lease (i # rest) n db = Inr (items, db') \<longleftrightarrow>
    (\<exists>item items' db1. items = item # items'
      \<and> db1 = db\<lparr>authority_outbox := update_rows (\<lambda>o'. ob_outbox_id o' = i \<and> open_row o')
           (leased_row w (ce_uuid env n) (ce_clock env n + (lease div 1000) * 1000)) (authority_outbox db)\<rparr>
      \<and> rows_affected (\<lambda>o'. ob_outbox_id o' = i \<and> open_row o') (authority_outbox db) = 1
      \<and> readClaimedOutboxItem i (ce_uuid env n) db1 = Inr item
      \<and> claim_loop env w lease rest (Suc n) db1 = Inr (items', db'))"
  by (auto simp: Let_def split: sum.splits)

declare claim_loop.simps(2) [simp del]

lemma claim_loop_induct:
  assumes "claim_loop env w lease ids n db = Inr (items, db')" and "P db"
    and "\<And>i n db. i \<in> set ids \<Longrightarrow> P db \<Longrightarrow>
      P (db\<lparr>authority_outbox := update_rows (\<lambda>o'. ob_outbox_id o' = i \<and> open_row o')
           (leased_row w (ce_uuid env n) (ce_clock env n + (lease div 1000) * 1000)) (authority_outbox db)\<rparr>)"
  shows "P db'"
  using assms
proof (induction ids arbitrary: n db items)
  case (Cons i ids)
  from Cons.prems(1) obtain items' where
    rest: "claim_loop env w lease ids (Suc n)
      (db\<lparr>authority_outbox := update_rows (\<lambda>o'. ob_outbox_id o' = i \<and> open_row o')
           (leased_row w (ce_uuid env n) (ce_clock env n + (lease div 1000) * 1000)) (authority_outbox db)\<rparr>)
      = Inr (items', db')"
    by (auto simp: claim_loop_Cons_Inr)
  show ?case
    by (rule Cons.IH [OF rest]) (use Cons.prems in auto)
qed simp

lemma Claim_induct:
  assumes "P db"
    and "\<And>i n db. P db \<Longrightarrow>
      P (db\<lparr>authority_outbox := update_rows (\<lambda>o'. ob_outbox_id o' = i \<and> open_row o')
           (leased_row w (ce_uuid env n) (ce_clock env n + (lease div 1000) * 1000)) (authority_outbox db)\<rparr>)"
  shows "P (snd (Claim s env w limit lease db))"
proof (cases "claim_loop env w lease (select_claims (ce_select_clock env) (ce_locked env) limit db) 0 db")
  case (Inl e)
  then show ?thesis using assms(1) by (simp add: Claim_def split: option.split)
next
  case (Inr res)
  obtain items db' where res: "res = (items, db')" by fastforce
  have "P db'" using claim_loop_induct [OF Inr [unfolded res], of P] assms by blast
  with Inr res assms(1) show ?thesis by (simp add: Claim_def split: option.split)
qed

lemma Claim_inv: "authority_inv db \<Longrightarrow> authority_inv (snd (Claim s env w limit lease db))"
  by (rule Claim_induct [where P = authority_inv]) (auto intro: outbox_update_inv leased_row_keeps)

lemma MarkPublished_inv: "authority_inv db \<Longrightarrow> authority_inv (snd (MarkPublished s fault now i k db))"
  by (auto simp: MarkPublished_def Let_def intro: outbox_update_inv published_row_keeps split: option.split)

lemma Release_inv: "authority_inv db \<Longrightarrow> authority_inv (snd (Release s fault now i k t r db))"
  by (auto simp: Release_def Let_def intro: outbox_update_inv released_row_keeps split: option.split)

end
