(* ===== verification/Authority_System.thy ===== *)
theory Authority_System
  imports Outbox "HOL-Library.Sublist"
begin

text \<open>
  The authority as a running system: a step is one attempt of a commit transaction (with any failure
  its environment may cause) or one outbox operation.  The invariant holds in every reachable state,
  and every step evolves the state monotonically: committed rows are never changed or removed,
  registry heads and edge generations only advance, and what is committed for a halted tenant stays as it is.
\<close>

section \<open>Steps\<close>

inductive authority_step :: "Store \<Rightarrow> authority_db \<Rightarrow> authority_db \<Rightarrow> bool" for s where
  case_attempt: "store_pool s = Some pool \<Longrightarrow> CommitCaseRequest_Validate r = None \<Longrightarrow>
    authority_step s db (snd (transaction_attempt (CommitCase_work s r) pool env db))"
| advice_attempt: "store_pool s = Some pool \<Longrightarrow> CommitAdviceRequest_Validate r = None \<Longrightarrow>
    authority_step s db (snd (transaction_attempt (CommitAdvice_work s r) pool env db))"
| registry_attempt: "store_pool s = Some pool \<Longrightarrow> CommitRegistryRequest_Validate r = None \<Longrightarrow>
    authority_step s db (snd (transaction_attempt (CommitRegistry_work s r) pool env db))"
| claim: "authority_step s db (snd (Claim s cenv worker limit lease db))"
| mark_published: "authority_step s db (snd (MarkPublished s fault now item token db))"
| release: "authority_step s db (snd (Release s fault now item token retry reason db))"

inductive_cases authority_stepE: "authority_step s db db'"

definition authority_reachable :: "Store \<Rightarrow> authority_db \<Rightarrow> bool" where
  "authority_reachable s db \<longleftrightarrow> (authority_step s)\<^sup>*\<^sup>* empty_db db"

lemma authority_reachable_empty: "authority_reachable s empty_db"
  by (simp add: authority_reachable_def)

lemma authority_reachable_step:
  "authority_reachable s db \<Longrightarrow> authority_step s db db' \<Longrightarrow> authority_reachable s db'"
  by (simp add: authority_reachable_def)

lemma authority_reachable_induct [consumes 1, case_names empty step]:
  assumes "authority_reachable s db" and "P empty_db"
    and "\<And>db db'. authority_reachable s db \<Longrightarrow> P db \<Longrightarrow> authority_step s db db' \<Longrightarrow> P db'"
  shows "P db"
  using assms(1) [unfolded authority_reachable_def]
proof (induction rule: rtranclp_induct)
  case base
  show ?case by (rule assms(2))
next
  case (step db db')
  then show ?case using assms(3) [of db db'] by (simp add: authority_reachable_def)
qed

lemma authority_step_inv:
  assumes "authority_step s db db'" and inv: "authority_inv db"
  shows "authority_inv db'"
  using assms(1)
proof cases
  case (case_attempt pool r env)
  with transaction_attempt_inv [of db "CommitCase_work s r" pool env, OF inv CommitCase_work_sound]
  show ?thesis by simp
next
  case (advice_attempt pool r env)
  with transaction_attempt_inv [of db "CommitAdvice_work s r" pool env, OF inv CommitAdvice_work_sound]
  show ?thesis by simp
next
  case (registry_attempt pool r env)
  with transaction_attempt_inv [of db "CommitRegistry_work s r" pool env, OF inv CommitRegistry_work_sound]
  show ?thesis by simp
qed (use inv Claim_inv MarkPublished_inv Release_inv in auto)

lemma authority_reachable_inv: "authority_reachable s db \<Longrightarrow> authority_inv db"
  by (induction rule: authority_reachable_induct) (auto intro: authority_inv_empty authority_step_inv)

section \<open>Evolution\<close>

definition history_extends :: "authority_db \<Rightarrow> authority_db \<Rightarrow> bool" where
  "history_extends db db' \<longleftrightarrow>
    prefix (authority_cases db) (authority_cases db')
    \<and> prefix (authority_advice db) (authority_advice db')
    \<and> prefix (authority_registries db) (authority_registries db')
    \<and> prefix (authority_edge_deliveries db) (authority_edge_deliveries db')
    \<and> prefix (authority_audit db) (authority_audit db')
    \<and> prefix (map outbox_identity (authority_outbox db)) (map outbox_identity (authority_outbox db'))"

definition heads_advance :: "authority_db \<Rightarrow> authority_db \<Rightarrow> bool" where
  "heads_advance db db' \<longleftrightarrow>
    (\<forall>t h. authority_registry_heads db t = Some h \<longrightarrow>
       (\<exists>h'. authority_registry_heads db' t = Some h' \<and> rh_Revision h \<le> rh_Revision h'
          \<and> (rh_Revision h' = rh_Revision h \<longrightarrow>
               rh_Commitment h' = rh_Commitment h \<and> rh_RoutingEpoch h' = rh_RoutingEpoch h)))"

definition generations_advance :: "authority_db \<Rightarrow> authority_db \<Rightarrow> bool" where
  "generations_advance db db' \<longleftrightarrow>
    (\<forall>t e w. authority_edge_generation_high_water db (t, e) = Some w \<longrightarrow>
       (\<exists>w'. authority_edge_generation_high_water db' (t, e) = Some w'
          \<and> hw_highest_generation w \<le> hw_highest_generation w'))"

text \<open>
  The rows the authority holds for one tenant, of every table.  Of an outbox row it is what was committed
  with the fact: the state of its delivery (lease, attempts, publication) is left out.
\<close>

record tenant_rows =
  tv_cases :: "CaseRecord list"
  tv_advice :: "advice_row list"
  tv_registries :: "registry_row list"
  tv_deliveries :: "delivery_row list"
  tv_audit :: "audit_row list"
  tv_outbox :: "(string \<times> string \<times> string \<times> string \<times> string \<times> string \<times> bytes \<times> int) list"
  tv_head :: "RegistryHead option"
  tv_generations :: "string \<Rightarrow> high_water_row option"
  tv_sequences :: "string \<times> int \<Rightarrow> int option"

definition tenant_view :: "string \<Rightarrow> authority_db \<Rightarrow> tenant_rows" where
  "tenant_view t db =
    \<lparr>tv_cases = filter (\<lambda>c. cr_TenantID c = t) (authority_cases db),
     tv_advice = filter (\<lambda>a. adv_tenant_id a = t) (authority_advice db), tv_registries = tenant_registries t db,
     tv_deliveries = filter (\<lambda>d. dr_tenant_id d = t) (authority_edge_deliveries db),
     tv_audit = filter (\<lambda>a. au_tenant_id a = t) (authority_audit db),
     tv_outbox = filter (\<lambda>x. fst (snd x) = t) (map outbox_identity (authority_outbox db)),
     tv_head = authority_registry_heads db t,
     tv_generations = (\<lambda>e. authority_edge_generation_high_water db (t, e)),
     tv_sequences = (\<lambda>(e, g). authority_edge_delivery_sequences db (t, e, g))\<rparr>"

definition halts_latched :: "authority_db \<Rightarrow> authority_db \<Rightarrow> bool" where
  "halts_latched db db' \<longleftrightarrow>
    (\<forall>t h. authority_registry_heads db t = Some h \<and> rh_Halted h \<longrightarrow> tenant_view t db' = tenant_view t db)"

definition evolves :: "authority_db \<Rightarrow> authority_db \<Rightarrow> bool" where
  "evolves db db' \<longleftrightarrow>
    history_extends db db' \<and> heads_advance db db' \<and> generations_advance db db' \<and> halts_latched db db'"

lemmas evolves_parts = history_extends_def heads_advance_def generations_advance_def halts_latched_def

lemma evolves_refl: "evolves db db"
  by (simp add: evolves_def evolves_parts)

lemma evolves_trans: "evolves a b \<Longrightarrow> evolves b c \<Longrightarrow> evolves a c"
proof -
  assume ab: "evolves a b" and bc: "evolves b c"
  have "history_extends a c"
    using ab bc unfolding evolves_def history_extends_def by (meson prefix_order.order_trans)
  moreover have "heads_advance a c"
    unfolding heads_advance_def
  proof (intro allI impI)
    fix t h
    assume "authority_registry_heads a t = Some h"
    then obtain h' where h': "authority_registry_heads b t = Some h'" "rh_Revision h \<le> rh_Revision h'"
      "rh_Revision h' = rh_Revision h \<longrightarrow>
         rh_Commitment h' = rh_Commitment h \<and> rh_RoutingEpoch h' = rh_RoutingEpoch h"
      using ab unfolding evolves_def heads_advance_def by blast
    then obtain h'' where "authority_registry_heads c t = Some h''" "rh_Revision h' \<le> rh_Revision h''"
      "rh_Revision h'' = rh_Revision h' \<longrightarrow>
         rh_Commitment h'' = rh_Commitment h' \<and> rh_RoutingEpoch h'' = rh_RoutingEpoch h'"
      using bc unfolding evolves_def heads_advance_def by blast
    with h' show "\<exists>h''. authority_registry_heads c t = Some h'' \<and> rh_Revision h \<le> rh_Revision h''
        \<and> (rh_Revision h'' = rh_Revision h \<longrightarrow>
             rh_Commitment h'' = rh_Commitment h \<and> rh_RoutingEpoch h'' = rh_RoutingEpoch h)"
      by auto
  qed
  moreover have "generations_advance a c"
    using ab bc unfolding evolves_def generations_advance_def by (meson order_trans)
  moreover have "halts_latched a c"
    unfolding halts_latched_def
  proof (intro allI impI)
    fix t h
    assume h: "authority_registry_heads a t = Some h \<and> rh_Halted h"
    with ab have view: "tenant_view t b = tenant_view t a" unfolding evolves_def halts_latched_def by blast
    then have "authority_registry_heads b t = authority_registry_heads a t" by (simp add: tenant_view_def)
    with h bc view show "tenant_view t c = tenant_view t a"
      unfolding evolves_def halts_latched_def by simp
  qed
  ultimately show ?thesis by (simp add: evolves_def)
qed

lemma evolves_identity: "evolves db (db\<lparr>revision_identity := n\<rparr>)"
  by (simp add: evolves_def evolves_parts tenant_view_def tenant_registries_def)

lemma evolves_outbox:
  assumes "\<And>o'. p o' \<Longrightarrow> outbox_identity (f o') = outbox_identity o'"
  shows "evolves db (db\<lparr>authority_outbox := update_rows p f (authority_outbox db)\<rparr>)"
proof -
  have "map outbox_identity (update_rows p f (authority_outbox db)) = map outbox_identity (authority_outbox db)"
    using assms by (rule map_update_rows)
  then show ?thesis
    by (simp add: evolves_def evolves_parts tenant_view_def tenant_registries_def)
qed

lemma evolves_case:
  assumes "case_admitted r db"
  shows "evolves db (case_commit_db tx r db)"
proof -
  have "halts_latched db (case_commit_db tx r db)"
    using assms
    by (auto simp: halts_latched_def tenant_view_def case_admitted_def case_commit_db_def Let_def
        tenant_registries_def case_row_def case_delivery_row_def audit_row_of_def outbox_identity_def
        fresh_outbox_row_def filter_empty_conv fun_eq_iff)
  then show ?thesis
    by (simp add: evolves_def history_extends_def heads_advance_def generations_advance_def
        case_commit_db_def Let_def)
qed

lemma evolves_advice:
  assumes "advice_admitted r c db"
  shows "evolves db (advice_commit_db tx r c db)"
proof -
  have "halts_latched db (advice_commit_db tx r c db)"
    using assms
    by (auto simp: halts_latched_def tenant_view_def advice_admitted_def advice_commit_db_def Let_def
        tenant_registries_def advice_row_of_def advice_delivery_row_def audit_row_of_def outbox_identity_def
        fresh_outbox_row_def filter_empty_conv fun_eq_iff)
  then show ?thesis
    by (simp add: evolves_def history_extends_def heads_advance_def generations_advance_def
        advice_commit_db_def Let_def)
qed

lemma evolves_registry:
  assumes fol: "registry_follows r db" and facts: "registry_commit_facts r db"
  shows "evolves db (registry_commit_db r db)"
proof -
  have "halts_latched db (registry_commit_db r db)"
    using fol
    by (auto simp: halts_latched_def tenant_view_def registry_follows_def registry_commit_db_def Let_def
        tenant_registries_def registry_row_of_def high_water_update_def audit_row_of_def fun_eq_iff)
  moreover have "heads_advance db (registry_commit_db r db)"
    using fol by (auto simp: heads_advance_def registry_follows_def registry_commit_db_def Let_def)
  moreover have "generations_advance db (registry_commit_db r db)"
    unfolding generations_advance_def
  proof (intro allI impI)
    fix t e w
    assume w: "authority_edge_generation_high_water db (t, e) = Some w"
    show "\<exists>w'. authority_edge_generation_high_water (registry_commit_db r db) (t, e) = Some w'
        \<and> hw_highest_generation w \<le> hw_highest_generation w'"
    proof (cases "t = crr_TenantID r \<and> e \<in> fst ` set (the (crr_Edges r))")
      case True
      with facts w have "generation_advances (authority_registry_heads db t)
          (the (map_of (the (crr_Edges r)) e)) w"
        unfolding registry_commit_facts_def by blast
      with True show ?thesis
        by (auto simp: registry_commit_db_def Let_def high_water_update_def high_water_of_def
            generation_advances_def)
    next
      case False
      with w show ?thesis by (auto simp: registry_commit_db_def Let_def high_water_update_def)
    qed
  qed
  ultimately show ?thesis
    by (simp add: evolves_def history_extends_def registry_commit_db_def Let_def)
qed

lemma evolves_halted:
  assumes "authority_registry_heads db t = Some h" and "\<not> rh_Halted h"
  shows "evolves db (halted_db t reason h db)"
proof -
  have "halts_latched db (halted_db t reason h db)"
    using assms by (auto simp: halts_latched_def tenant_view_def tenant_registries_def halted_db_def)
  moreover have "heads_advance db (halted_db t reason h db)"
    using assms by (auto simp: heads_advance_def halted_db_def)
  ultimately show ?thesis
    by (simp add: evolves_def history_extends_def generations_advance_def halted_db_def)
qed

section \<open>Every step evolves the state\<close>

definition work_evolves :: "(authority_db \<Rightarrow> work_result) \<Rightarrow> bool" where
  "work_evolves work \<longleftrightarrow>
    (\<forall>db rc cm err db'. work db = ((rc, cm, err), db') \<longrightarrow> err = None \<or> cm \<longrightarrow> evolves db db')"

lemma CommitCase_work_evolves: "work_evolves (CommitCase_work s r tx)"
  unfolding work_evolves_def
proof (intro allI impI)
  fix db rc cm err db'
  assume w: "CommitCase_work s r tx db = ((rc, cm, err), db')" and ok: "err = None \<or> cm"
  then have err: "err = None" using CommitCase_work_err by (cases err) blast+
  show "evolves db db'"
  proof (cases "existingCase r db = Inr None")
    case True
    with CommitCase_work_ok w err have "db' = case_commit_db tx r db" "case_admitted r db" by blast+
    then show ?thesis by (simp add: evolves_case)
  next
    case False
    with w err have "db' = db"
      by (auto simp: CommitCase_work_def work_fail_def split: sum.splits option.splits)
    then show ?thesis by (simp add: evolves_refl)
  qed
qed

lemma CommitAdvice_work_evolves: "work_evolves (CommitAdvice_work s r tx)"
  unfolding work_evolves_def
proof (intro allI impI)
  fix db rc cm err db'
  assume w: "CommitAdvice_work s r tx db = ((rc, cm, err), db')" and ok: "err = None \<or> cm"
  then have err: "err = None" using CommitAdvice_work_err by (cases err) blast+
  show "evolves db db'"
  proof (cases "\<exists>stored. existingAdvice r db = Inr (Some stored)")
    case True
    with CommitAdvice_work_replay w err have "db' = db" by blast
    then show ?thesis by (simp add: evolves_refl)
  next
    case False
    then have nf: "existingAdvice r db \<noteq> Inr (Some stored)" for stored by blast
    from w err have "CommitAdvice_work s r tx db = ((rc, cm, None), db')" by simp
    from CommitAdvice_work_ok [OF this nf] obtain c where
      "db' = advice_commit_db tx r c db" "advice_admitted r c db" by metis
    then show ?thesis by (simp add: evolves_advice)
  qed
qed

lemma CommitRegistry_work_evolves: "work_evolves (CommitRegistry_work s r tx)"
  unfolding work_evolves_def
proof (intro allI impI)
  fix db rc cm err db'
  assume w: "CommitRegistry_work s r tx db = ((rc, cm, err), db')" and ok: "err = None \<or> cm"
  from w show "evolves db db'"
  proof (cases rule: CommitRegistry_work_cases)
    case (halted h e reason)
    then show ?thesis by (simp add: evolves_halted)
  next
    case fresh
    then show ?thesis by (simp add: evolves_registry)
  qed (use ok in \<open>auto simp: evolves_refl\<close>)
qed

lemma transaction_attempt_evolves:
  assumes "\<And>tx. work_evolves (work tx)"
  shows "evolves db (snd (transaction_attempt work pool env db))"
proof -
  let ?w = "run_work env (work \<lparr>tx_timestamptz = pool_timestamptz pool, tx_clock = at_clock env\<rparr>) db"
  obtain rc cm err db1 where w: "?w = ((rc, cm, err), db1)" by (metis prod.exhaust)
  have ok: "evolves db db1" if c: "err = None \<or> cm"
  proof (cases "at_work env")
    case None
    with w have "work \<lparr>tx_timestamptz = pool_timestamptz pool, tx_clock = at_clock env\<rparr> db =
        ((rc, cm, err), db1)"
      by (simp add: run_work_def)
    with assms c show ?thesis unfolding work_evolves_def by blast
  next
    case (Some f)
    with w c show ?thesis by (cases f) (auto simp: run_work_def work_fail_def)
  qed
  show ?thesis
    using ok evolves_identity evolves_refl
    by (auto simp: transaction_attempt_def w rolled_back_def split: option.splits)
qed

lemma Claim_evolves: "evolves db (snd (Claim s env w limit lease db))"
proof (rule Claim_induct [where P = "evolves db"])
  fix i n db1
  assume "evolves db db1"
  then show "evolves db (db1\<lparr>authority_outbox := update_rows (\<lambda>o'. ob_outbox_id o' = i \<and> open_row o')
      (leased_row w (ce_uuid env n) (ce_clock env n + (lease div 1000) * 1000)) (authority_outbox db1)\<rparr>)"
    by (rule evolves_trans) (intro evolves_outbox leased_row_keeps)
qed (rule evolves_refl)

lemma MarkPublished_evolves: "evolves db (snd (MarkPublished s fault now i k db))"
  by (auto simp: MarkPublished_def Let_def intro: evolves_refl evolves_outbox published_row_keeps
      split: option.split)

lemma Release_evolves: "evolves db (snd (Release s fault now i k t r db))"
  by (auto simp: Release_def Let_def intro: evolves_refl evolves_outbox released_row_keeps
      split: option.split)

lemma authority_step_evolves:
  assumes "authority_step s db db'"
  shows "evolves db db'"
  using assms
proof cases
  case (case_attempt pool r env)
  with transaction_attempt_evolves [of "CommitCase_work s r" db pool env, OF CommitCase_work_evolves]
  show ?thesis by simp
next
  case (advice_attempt pool r env)
  with transaction_attempt_evolves [of "CommitAdvice_work s r" db pool env, OF CommitAdvice_work_evolves]
  show ?thesis by simp
next
  case (registry_attempt pool r env)
  with transaction_attempt_evolves [of "CommitRegistry_work s r" db pool env, OF CommitRegistry_work_evolves]
  show ?thesis by simp
qed (auto simp: Claim_evolves MarkPublished_evolves Release_evolves)

lemma authority_steps_evolve: "(authority_step s)\<^sup>*\<^sup>* db db' \<Longrightarrow> evolves db db'"
  by (induction rule: rtranclp_induct) (auto intro: evolves_refl evolves_trans authority_step_evolves)

lemma authority_steps_inv: "(authority_step s)\<^sup>*\<^sup>* db db' \<Longrightarrow> authority_inv db \<Longrightarrow> authority_inv db'"
  by (induction rule: rtranclp_induct) (auto intro: authority_step_inv)

section \<open>A call is a sequence of steps\<close>

text \<open>
  The environment of a call interleaves with it: before each attempt other clients may have moved the
  database by any number of steps.
\<close>

definition interleaves :: "Store \<Rightarrow> (nat \<Rightarrow> tx_attempt) \<Rightarrow> bool" where
  "interleaves s envs \<longleftrightarrow> (\<forall>i db. (authority_step s)\<^sup>*\<^sup>* db (at_others (envs i) db))"

lemma transaction_loop_steps:
  assumes "interleaves s envs"
    and "\<And>env db. authority_step s db (snd (transaction_attempt work pool env db))"
  shows "(authority_step s)\<^sup>*\<^sup>* db (snd (transaction_loop n i label work pool envs db))"
proof (induction n arbitrary: i db)
  case (Suc n)
  obtain out db' where a: "transaction_attempt work pool (envs i) (at_others (envs i) db) = (out, db')"
    by fastforce
  have "(authority_step s)\<^sup>*\<^sup>* db (at_others (envs i) db)"
    using assms(1) by (simp add: interleaves_def)
  also have "authority_step s (at_others (envs i) db) db'"
    using assms(2) [of "at_others (envs i) db" "envs i"] a by simp
  finally have to_db': "(authority_step s)\<^sup>*\<^sup>* db db'" .
  show ?case
  proof (cases out)
    case Retry
    with a Suc.IH [of db' "Suc i"] to_db' show ?thesis by simp
  next
    case (Return rc e)
    with a to_db' show ?thesis by simp
  qed
qed simp

lemma CommitCase_steps:
  "interleaves s envs \<Longrightarrow> (authority_step s)\<^sup>*\<^sup>* db (snd (CommitCase s envs r db))"
  by (auto simp: CommitCase_def transaction_def split: option.split
      intro!: transaction_loop_steps authority_step.case_attempt)

lemma CommitAdvice_steps:
  "interleaves s envs \<Longrightarrow> (authority_step s)\<^sup>*\<^sup>* db (snd (CommitAdvice s envs r db))"
  by (auto simp: CommitAdvice_def transaction_def split: option.split
      intro!: transaction_loop_steps authority_step.advice_attempt)

lemma CommitRegistry_steps:
  "interleaves s envs \<Longrightarrow> (authority_step s)\<^sup>*\<^sup>* db (snd (CommitRegistry s envs r db))"
  by (auto simp: CommitRegistry_def transaction_def split: option.split
      intro!: transaction_loop_steps authority_step.registry_attempt)

section \<open>Quiet environments\<close>

text \<open>An attempt that nothing disturbs.\<close>

definition quiet :: "time \<Rightarrow> tx_attempt" where
  "quiet clock = \<lparr>at_others = id, at_begin = None, at_work = None, at_rollback = None,
     at_commit = None, at_clock = clock\<rparr>"

lemma transaction_quiet:
  assumes "store_pool s = Some pool"
    and "work \<lparr>tx_timestamptz = pool_timestamptz pool, tx_clock = clock 0\<rparr> db = ((rc, cm, err), db')"
    and "err = None \<or> cm \<or> \<not> retryable (the err)"
  shows "transaction s label work (\<lambda>i. quiet (clock i)) db =
    (if err = None \<or> cm then ((rc, err), db') else ((zero_receipt, err), rolled_back db db'))"
  using assms
  by (auto simp: transaction_def transactionAttempts_def numeral_3_eq_3 transaction_attempt_def quiet_def
      run_work_def split: option.splits)

lemma find_case_unique:
  assumes "authority_inv db" "c \<in> set (authority_cases db)"
  shows "find_case (cr_TenantID c) (cr_CaseID c) db = Some c"
proof -
  have "distinct (map (\<lambda>c. (cr_TenantID c, cr_CaseID c)) (authority_cases db))"
    using assms(1) by (simp add: authority_inv_def keys_unique_def case_keys_def)
  from find_distinct_eq [OF this assms(2)] show ?thesis by (simp add: find_case_def)
qed

lemma find_advice_unique:
  assumes "authority_inv db" "a \<in> set (authority_advice db)"
  shows "find_advice (adv_tenant_id a) (adv_case_id a) db = Some a"
proof -
  have "distinct (map (\<lambda>a. (adv_tenant_id a, adv_case_id a)) (authority_advice db))"
    using assms(1) by (simp add: authority_inv_def keys_unique_def advice_keys_def)
  from find_distinct_eq [OF this assms(2)] show ?thesis by (simp add: find_advice_def)
qed

lemma find_case_extends:
  assumes "history_extends db db'" "find_case t i db = Some c"
  shows "find_case t i db' = Some c"
proof -
  obtain xs where "authority_cases db' = authority_cases db @ xs"
    using assms(1) by (auto simp: history_extends_def prefix_def)
  with assms(2) show ?thesis by (simp add: find_case_def find_append)
qed

lemma find_advice_extends:
  assumes "history_extends db db'" "find_advice t i db = Some a"
  shows "find_advice t i db' = Some a"
proof -
  obtain xs where "authority_advice db' = authority_advice db @ xs"
    using assms(1) by (auto simp: history_extends_def prefix_def)
  with assms(2) show ?thesis by (simp add: find_advice_def find_append)
qed

lemma revision_positive:
  assumes "authority_inv db" "n \<in> set (fact_revisions db)"
  shows "0 < n"
  using assms by (auto simp: authority_inv_def revisions_ordered_def)

end
