(* ===== verification/Sha256_Vectors.thy ===== *)
theory Sha256_Vectors
  imports Sha256
begin

text \<open>
  Digests of three one-block messages, computed by rewriting the definition of SHA-256.  They are the
  preimages of the outbox identifiers in the concrete run of \<^verbatim>\<open>Authority_Example\<close>, which therefore
  succeeds with the real hash function.
\<close>

lemma sha_extend_numeral:
  "sha_extend (numeral k) ws = sha_extend (pred_numeral k) (sha_next ws # ws)"
  by (simp add: numeral_eq_Suc)

lemma replicate_numeral: "replicate (numeral k) x = x # replicate (pred_numeral k) x"
  by (simp add: numeral_eq_Suc)

lemma upt_zero_numeral: "[0..<numeral k] = 0 # map Suc [0..<pred_numeral k]"
  by (simp add: numeral_eq_Suc upt_conv_Cons map_Suc_upt del: upt_Suc)

lemmas sha_eval =
  sha_pad_def be_bytes_def sha_blocks.simps sha_block_def sha_k_def sha_init_def add32_def not32_def
  rotr32_def shr32_def small_sigma0_def small_sigma1_def big_sigma0_def big_sigma1_def sha_ch_def
  sha_maj_def sha_next_def sha_extend_numeral replicate_numeral upt_zero_numeral

lemma digest_domain:
  "foldl sha_block sha_init (sha_blocks (sha_pad ''1:t4:case1:c1:215:domain_dispatch1:d'')) =
    (2938407688, 2067678380, 3890849260, 2881710024, 2885035116, 3932750846, 3245246871, 483799013)"
  by (simp add: sha_eval)

lemma digest_edge:
  "foldl sha_block sha_init (sha_blocks (sha_pad ''1:t4:case1:c1:213:edge_delivery3:e@1'')) =
    (977152938, 1622574206, 753688238, 2986354721, 1515838335, 3729830745, 3018617815, 1475697607)"
  by (simp add: sha_eval)

lemma digest_advice:
  "foldl sha_block sha_init (sha_blocks (sha_pad ''1:t6:advice1:c1:313:edge_delivery3:e@1'')) =
    (3710543957, 1854968853, 748337103, 2505386410, 1738870068, 2025915412, 1632251648, 3183160910)"
  by (simp add: sha_eval)

lemma sha_output_first:
  "sha_output (a, b, c, d, e, f, g, h) = sha_output (a', b', c', d', e', f', g', h') \<Longrightarrow>
    a mod 4294967296 = a' mod 4294967296"
proof -
  assume "sha_output (a, b, c, d, e, f, g, h) = sha_output (a', b', c', d', e', f', g', h')"
  then have "be_bytes 4 a = be_bytes 4 a'" by simp
  then have "be_value (be_bytes 4 a) = be_value (be_bytes 4 a')" by simp
  then show ?thesis by (simp add: be_value_be_bytes)
qed

lemma digests_differ:
  "sha256_text ''1:t4:case1:c1:215:domain_dispatch1:d'' \<noteq> sha256_text ''1:t4:case1:c1:213:edge_delivery3:e@1''"
  "sha256_text ''1:t4:case1:c1:215:domain_dispatch1:d'' \<noteq> sha256_text ''1:t6:advice1:c1:313:edge_delivery3:e@1''"
  "sha256_text ''1:t4:case1:c1:213:edge_delivery3:e@1'' \<noteq> sha256_text ''1:t6:advice1:c1:313:edge_delivery3:e@1''"
  by (auto dest!: sha256_text_eqD sha_output_first
      simp only: sha256_def digest_domain digest_edge digest_advice) simp_all

end
