(* ===== verification/Authority_Example.thy ===== *)
theory Authority_Example
  imports Authority_System Sha256_Vectors
begin

text \<open>
  One complete run on concrete data: an empty authority accepts a registry, a case under it and the
  final advice for that case.  The theories that state properties apply them to this run.
\<close>

section \<open>Data\<close>

definition ex_hash :: "char \<Rightarrow> string" where
  "ex_hash c = ''sha256:'' @ replicate 64 c"

definition ex_pool :: pg_pool where
  "ex_pool = \<lparr>pool_timestamptz = (\<lambda>t. t div 1000 * 1000)\<rparr>"

definition ex_store :: Store where
  "ex_store = \<lparr>store_pool = Some ex_pool, store_authorityID = ''authority''\<rparr>"

definition ex_registry :: CommitRegistryRequest where
  "ex_registry = \<lparr>crr_TenantID = ''t'', crr_Revision = 1, crr_EnvelopeID = ''r'',
     crr_Commitment = ex_hash CHR ''a'', crr_Raw = ''registry'', crr_RoutingEpoch = 1,
     crr_PreviousCommitment = [],
     crr_Edges = Some [(''e'', \<lparr>re_PrincipalID = ''p'', re_Generation = 1\<rparr>)],
     crr_AuthenticatedPrincipalID = ''root'', crr_AuthenticatedEdgeID = [], crr_Decision = ''accept''\<rparr>"

definition ex_case :: CommitCaseRequest where
  "ex_case = \<lparr>ccr_TenantID = ''t'', ccr_CaseID = ''c'', ccr_EnvelopeID = ''x'',
     ccr_Commitment = ex_hash CHR ''b'', ccr_Raw = ''case'', ccr_Domain = ''d'',
     ccr_IssuerEdgeID = ''e'', ccr_IssuerEdgeGeneration = 1, ccr_RoutingEpoch = 1,
     ccr_RegistryRevision = 1, ccr_RegistryHash = ex_hash CHR ''a'', ccr_ExpiresAt = 5000,
     ccr_AuthenticatedPrincipalID = ''p'', ccr_AuthenticatedEdgeID = ''e'', ccr_Decision = ''accept''\<rparr>"

definition ex_advice :: CommitAdviceRequest where
  "ex_advice = \<lparr>car_TenantID = ''t'', car_CaseID = ''c'', car_EnvelopeID = ''y'',
     car_CaseCommitment = ex_hash CHR ''b'', car_Commitment = ex_hash CHR ''c'', car_Raw = ''advice'',
     car_RoutingEpoch = 1, car_RegistryRevision = 1, car_RegistryHash = ex_hash CHR ''a'',
     car_AuthenticatedPrincipalID = ''q'', car_AuthenticatedEdgeID = [], car_Decision = ''accept''\<rparr>"

abbreviation ex_envs :: "nat \<Rightarrow> tx_attempt" where
  "ex_envs \<equiv> \<lambda>i. quiet 7000"

definition ex_db1 :: authority_db where
  "ex_db1 = registry_commit_db ex_registry empty_db"

definition ex_db2 :: authority_db where
  "ex_db2 = case_commit_db \<lparr>tx_timestamptz = pool_timestamptz ex_pool, tx_clock = 7000\<rparr> ex_case ex_db1"

definition ex_case_row :: CaseRecord where
  "ex_case_row = case_row \<lparr>tx_timestamptz = pool_timestamptz ex_pool, tx_clock = 7000\<rparr> ex_case 2"

definition ex_db3 :: authority_db where
  "ex_db3 = advice_commit_db \<lparr>tx_timestamptz = pool_timestamptz ex_pool, tx_clock = 7000\<rparr> ex_advice
     ex_case_row ex_db2"

lemmas ex_data = ex_pool_def ex_store_def ex_registry_def ex_case_def ex_advice_def ex_case_row_def

section \<open>The run\<close>

lemma ex_hash_valid [simp]: "is_lower_hex c \<Longrightarrow> validCommitment (ex_hash c)"
  unfolding ex_hash_def by (rule validCommitment_hex) (simp_all add: list_all_iff)

lemma ex_hash_inj [simp]: "ex_hash c = ex_hash d \<longleftrightarrow> c = d"
  by (simp add: ex_hash_def replicate_eq_replicate)

lemma ex_hash_nonempty [simp]: "ex_hash c \<noteq> []"
  by (simp add: ex_hash_def)

lemma ex_lower_hex [simp]:
  "is_lower_hex CHR ''a''" "is_lower_hex CHR ''b''" "is_lower_hex CHR ''c''"
  by (simp_all add: is_lower_hex_def)

lemma ex_valid [simp]:
  "CommitRegistryRequest_Validate ex_registry = None"
  "CommitCaseRequest_Validate ex_case = None"
  "CommitAdviceRequest_Validate ex_advice = None"
  by (simp_all add: CommitRegistryRequest_Validate_def CommitCaseRequest_Validate_def
      CommitAdviceRequest_Validate_def validText_def valid_registry_edge_def ex_data zero_time_def)

lemma ex_registry_run:
  "CommitRegistry ex_store ex_envs ex_registry empty_db =
    ((\<lparr>rcpt_AuthorityID = ''authority'', rcpt_Revision = 1, rcpt_EnvelopeID = ''r'',
       rcpt_Commitment = ex_hash CHR ''a''\<rparr>, None), ex_db1)"
proof -
  have work: "CommitRegistry_work ex_store ex_registry tx empty_db =
      ((\<lparr>rcpt_AuthorityID = ''authority'', rcpt_Revision = 1, rcpt_EnvelopeID = ''r'',
        rcpt_Commitment = ex_hash CHR ''a''\<rparr>, True, None), ex_db1)" for tx
    by (simp add: CommitRegistry_work_def commit_registry_rows_def registryHeadForUpdate_def
        registryCollision_def enforceEdgeGenerationHighWater_def upsert_high_water_def
        allocateRevision_def max_int64_def insert_authority_registry_def insert_registry_head_def
        recordAudit_def registry_commit_db_def high_water_update_def high_water_of_def ex_db1_def
        registry_row_check_def registry_row_of_def new_registry_head_def registry_head_check_def
        high_water_check_def audit_row_check_def audit_row_of_def key_taken_def keys_taken_def registry_keys_def
        empty_db_def receipt_def nullableText_def ex_data fun_eq_iff)
  show ?thesis
    using transaction_quiet [of ex_store ex_pool "CommitRegistry_work ex_store ex_registry"
        "\<lambda>_. 7000" empty_db, OF _ work]
    by (simp add: CommitRegistry_def ex_store_def)
qed

lemma itoa_small [simp]:
  "itoa 1 = ''1''" "itoa 2 = ''2''" "itoa 3 = ''3''" "itoa 4 = ''4''" "itoa 6 = ''6''"
  "itoa 13 = ''13''" "itoa 15 = ''15''"
  by (simp_all add: itoa_def digits10.simps digit_char_def char_of_def bit_0)

lemma ex_outbox_ids [simp]:
  "deterministicOutboxID [''t'', ''case'', ''c'', ''2'', ''domain_dispatch'', ''d''] =
    sha256_text ''1:t4:case1:c1:215:domain_dispatch1:d''"
  "deterministicOutboxID [''t'', ''case'', ''c'', ''2'', ''edge_delivery'', ''e@1''] =
    sha256_text ''1:t4:case1:c1:213:edge_delivery3:e@1''"
  "deterministicOutboxID [''t'', ''advice'', ''c'', ''3'', ''edge_delivery'', ''e@1''] =
    sha256_text ''1:t6:advice1:c1:313:edge_delivery3:e@1''"
  by (simp_all add: deterministicOutboxID_def outbox_preimage_def frame_part_def)

lemmas ex_defs =
  ex_db1_def registry_commit_db_def registry_row_of_def new_registry_head_def audit_row_of_def
  ex_data empty_db_def case_commit_db_def advice_commit_db_def case_row_def case_delivery_row_def
  advice_row_of_def advice_delivery_row_def next_sequence_def

lemmas ex_checks =
  max_int64_def case_row_check_def advice_row_check_def delivery_row_check_def audit_row_check_def
  outbox_row_check_def lease_columns_check_def keys_taken_def key_taken_def case_keys_def advice_keys_def
  delivery_key_def delivery_envelope_key_def outbox_destination_key_def

lemma ex_case_run:
  "CommitCase ex_store ex_envs ex_case ex_db1 =
    ((\<lparr>rcpt_AuthorityID = ''authority'', rcpt_Revision = 2, rcpt_EnvelopeID = ''x'',
       rcpt_Commitment = ex_hash CHR ''b''\<rparr>, None), ex_db2)"
proof -
  have work: "CommitCase_work ex_store ex_case \<lparr>tx_timestamptz = pool_timestamptz ex_pool, tx_clock = 7000\<rparr> ex_db1 =
      ((\<lparr>rcpt_AuthorityID = ''authority'', rcpt_Revision = 2, rcpt_EnvelopeID = ''x'',
        rcpt_Commitment = ex_hash CHR ''b''\<rparr>, True, None), ex_db2)"
    by (simp add: CommitCase_work_def existingCase_def find_case_def registryHeadForUpdate_def
        caseCollision_def allocateRevision_def insert_authority_case_def allocateDeliverySequence_def
        insertEdgeDelivery_def recordAudit_def case_destinations_def edgeKey_def fresh_outbox_row_def
        receipt_def ex_db2_def ex_defs ex_checks digests_differ digests_differ [symmetric])
  show ?thesis
    using transaction_quiet [of ex_store ex_pool "CommitCase_work ex_store ex_case" "\<lambda>_. 7000" ex_db1, OF _ work]
    by (simp add: CommitCase_def ex_store_def)
qed

lemma ex_advice_run:
  "CommitAdvice ex_store ex_envs ex_advice ex_db2 =
    ((\<lparr>rcpt_AuthorityID = ''authority'', rcpt_Revision = 3, rcpt_EnvelopeID = ''y'',
       rcpt_Commitment = ex_hash CHR ''c''\<rparr>, None), ex_db3)"
proof -
  have work: "CommitAdvice_work ex_store ex_advice \<lparr>tx_timestamptz = pool_timestamptz ex_pool, tx_clock = 7000\<rparr> ex_db2 =
      ((\<lparr>rcpt_AuthorityID = ''authority'', rcpt_Revision = 3, rcpt_EnvelopeID = ''y'',
        rcpt_Commitment = ex_hash CHR ''c''\<rparr>, True, None), ex_db3)"
    by (simp add: CommitAdvice_work_def existingAdvice_def find_advice_def find_case_def
        registryHeadForUpdate_def adviceCollision_def allocateRevision_def insert_authority_advice_def
        allocateDeliverySequence_def insertEdgeDelivery_def recordAudit_def advice_destinations_def
        case_destinations_def edgeKey_def fresh_outbox_row_def receipt_def ex_db2_def ex_db3_def ex_defs
        ex_checks digests_differ digests_differ [symmetric])
  show ?thesis
    using transaction_quiet [of ex_store ex_pool "CommitAdvice_work ex_store ex_advice" "\<lambda>_. 7000" ex_db2, OF _ work]
    by (simp add: CommitAdvice_def ex_store_def)
qed

lemma ex_interleaves [simp]: "interleaves ex_store ex_envs"
  by (simp add: interleaves_def quiet_def)

lemma ex_reachable:
  "authority_reachable ex_store ex_db1" "authority_reachable ex_store ex_db2" "authority_reachable ex_store ex_db3"
proof -
  have steps: "(authority_step ex_store)\<^sup>*\<^sup>* empty_db ex_db1" "(authority_step ex_store)\<^sup>*\<^sup>* ex_db1 ex_db2"
    "(authority_step ex_store)\<^sup>*\<^sup>* ex_db2 ex_db3"
    using CommitRegistry_steps [of ex_store ex_envs empty_db ex_registry]
      CommitCase_steps [of ex_store ex_envs ex_db1 ex_case]
      CommitAdvice_steps [of ex_store ex_envs ex_db2 ex_advice]
    by (simp_all add: ex_registry_run ex_case_run ex_advice_run)
  then show "authority_reachable ex_store ex_db1" "authority_reachable ex_store ex_db2"
    "authority_reachable ex_store ex_db3"
    unfolding authority_reachable_def by (meson rtranclp_trans)+
qed

end
