(* ===== verification/Authority_Records.thy ===== *)
theory Authority_Records
  imports Authority_Example
begin

text \<open>
  Cases and final advice as write-once records: \<^verbatim>\<open>CommitCase\<close> and \<^verbatim>\<open>CommitAdvice\<close> in an undisturbed
  environment provide the contract \<open>write_once\<close> for a store with any pool and authority identifier.
\<close>

section \<open>Undisturbed calls\<close>

definition pg_store :: "pg_pool \<Rightarrow> string \<Rightarrow> Store" where
  "pg_store pool aid = \<lparr>store_pool = Some pool, store_authorityID = aid\<rparr>"

definition quiet_tx :: "pg_pool \<Rightarrow> time \<Rightarrow> pg_tx" where
  "quiet_tx pool clock = \<lparr>tx_timestamptz = pool_timestamptz pool, tx_clock = clock\<rparr>"

lemma insertOutbox_Inl:
  "insertOutbox tx t k i raw n ds db = Inl e \<Longrightarrow> e = ErrPg ''23514'' \<or> e = ErrPg ''23505''"
  by (induction ds arbitrary: db)
    (auto simp: Let_def check_violation_def unique_violation_def split: if_splits)

lemmas statement_errors =
  retryable_def allocateRevision_def sequence_limit_def insert_authority_case_def
  insert_authority_advice_def check_violation_def unique_violation_def out_of_range_def
  isUniqueViolation_def allocateDeliverySequence_def insertEdgeDelivery_def recordAudit_def Let_def

lemma CommitCase_work_not_retryable:
  assumes "CommitCase_work s r tx db = ((rc, cm, Some e), db')"
  shows "\<not> retryable e"
proof -
  have keys: "\<not> keys_taken case_keys (case_row tx r n) (authority_cases db)"
    if "find_case (ccr_TenantID r) (ccr_CaseID r) db = None" "\<not> caseCollision r db" for n
    using that
    by (auto simp: keys_taken_def key_taken_iff case_keys_def case_row_def find_case_None
        caseCollision_def list_ex_iff)
  show ?thesis
    using assms keys
    by (auto simp: CommitCase_work_def work_fail_def existingCase_def statement_errors
        dest!: insertOutbox_Inl split: option.splits sum.splits prod.splits if_splits)
qed

lemma CommitAdvice_work_not_retryable:
  assumes "CommitAdvice_work s r tx db = ((rc, cm, Some e), db')"
  shows "\<not> retryable e"
proof -
  have keys: "\<not> keys_taken advice_keys (advice_row_of r c q n) (authority_advice db)"
    if "find_advice (car_TenantID r) (car_CaseID r) db = None" "\<not> adviceCollision r db" for c q n
    using that
    by (auto simp: keys_taken_def key_taken_iff advice_keys_def advice_row_of_def find_advice_None
        adviceCollision_def list_ex_iff)
  show ?thesis
    using assms keys
    by (auto simp: CommitAdvice_work_def work_fail_def existingAdvice_def statement_errors
        dest!: insertOutbox_Inl split: option.splits sum.splits prod.splits if_splits)
qed

lemma interleaves_quiet [simp]: "interleaves s (\<lambda>i. quiet (clock i))"
  by (simp add: interleaves_def quiet_def)

lemma quiet_CommitCase:
  assumes "CommitCaseRequest_Validate r = None"
    and "CommitCase_work (pg_store pool aid) r (quiet_tx pool (clock 0)) db = ((rc, cm, err), db')"
  shows "CommitCase (pg_store pool aid) (\<lambda>i. quiet (clock i)) r db =
    (if err = None then ((rc, None), db') else ((zero_receipt, err), rolled_back db db'))"
proof -
  have "err = None \<or> cm \<or> \<not> retryable (the err)"
    using CommitCase_work_not_retryable [of "pg_store pool aid" r] assms(2) by (cases err) auto
  moreover have "\<not> cm" if "err \<noteq> None"
    using that assms(2) by (cases err) (auto dest: CommitCase_work_err)
  ultimately show ?thesis
    using assms transaction_quiet [of "pg_store pool aid" pool "CommitCase_work (pg_store pool aid) r" clock db]
    by (auto simp: CommitCase_def pg_store_def quiet_tx_def)
qed

lemma quiet_CommitAdvice:
  assumes "CommitAdviceRequest_Validate r = None"
    and "CommitAdvice_work (pg_store pool aid) r (quiet_tx pool (clock 0)) db = ((rc, cm, err), db')"
  shows "CommitAdvice (pg_store pool aid) (\<lambda>i. quiet (clock i)) r db =
    (if err = None then ((rc, None), db') else ((zero_receipt, err), rolled_back db db'))"
proof -
  have "err = None \<or> cm \<or> \<not> retryable (the err)"
    using CommitAdvice_work_not_retryable [of "pg_store pool aid" r] assms(2) by (cases err) auto
  moreover have "\<not> cm" if "err \<noteq> None"
    using that assms(2) by (cases err) (auto dest: CommitAdvice_work_err)
  ultimately show ?thesis
    using assms transaction_quiet [of "pg_store pool aid" pool "CommitAdvice_work (pg_store pool aid) r" clock db]
    by (auto simp: CommitAdvice_def pg_store_def quiet_tx_def)
qed

section \<open>Cases\<close>

definition case_put :: "pg_pool \<Rightarrow> string \<Rightarrow> time \<times> CommitCaseRequest \<Rightarrow> authority_db
    \<Rightarrow> CommitReceipt option \<times> authority_db" where
  "case_put pool aid q db =
    (let ((rc, err), db') = CommitCase (pg_store pool aid) (\<lambda>_. quiet (fst q)) (snd q) db in
     (if err = None then Some rc else None, db'))"

definition case_slot :: "authority_db \<Rightarrow> string \<times> string \<Rightarrow> CaseRecord option" where
  "case_slot db k = find_case (fst k) (snd k) db"

text \<open>A request is storable when its expiry survives the round trip through \<^verbatim>\<open>TIMESTAMPTZ\<close>.\<close>

definition case_storable :: "pg_pool \<Rightarrow> time \<times> CommitCaseRequest \<Rightarrow> bool" where
  "case_storable pool q \<longleftrightarrow>
    CommitCaseRequest_Validate (snd q) = None
    \<and> pool_timestamptz pool (ccr_ExpiresAt (snd q)) = ccr_ExpiresAt (snd q)"

definition case_answer :: "string \<Rightarrow> CaseRecord \<Rightarrow> CommitReceipt" where
  "case_answer aid c =
    \<lparr>rcpt_AuthorityID = aid, rcpt_Revision = cr_AuthorityRevision c,
     rcpt_EnvelopeID = cr_EnvelopeID c, rcpt_Commitment = cr_Commitment c\<rparr>"

lemma case_put_steps: "(authority_step (pg_store pool aid))\<^sup>*\<^sup>* db (snd (case_put pool aid q db))"
  using CommitCase_steps [of "pg_store pool aid" "\<lambda>_. quiet (fst q)" db "snd q"]
  by (simp add: case_put_def case_prod_beta)

lemma withAuthority_stored:
  "0 < n \<Longrightarrow> withAuthority (pg_store pool aid) (stored_receipt n e c) =
    \<lparr>rcpt_AuthorityID = aid, rcpt_Revision = n, rcpt_EnvelopeID = e, rcpt_Commitment = c\<rparr>"
  by (simp add: withAuthority_def stored_receipt_def pg_store_def)

lemma case_put_replay:
  assumes "authority_inv db" "case_storable pool q"
    "case_slot db (ccr_TenantID (snd q), ccr_CaseID (snd q)) = Some c" "case_exact c (snd q)"
  shows "case_put pool aid q db = (Some (case_answer aid c), db)"
proof -
  have found: "find_case (ccr_TenantID (snd q)) (ccr_CaseID (snd q)) db = Some c"
    using assms(3) by (simp add: case_slot_def)
  have "0 < cr_AuthorityRevision c"
    using find_case_SomeD [OF found] by (intro revision_positive [OF assms(1)]) (simp add: fact_revisions_def)
  then have w: "CommitCase_work (pg_store pool aid) (snd q) (quiet_tx pool (fst q)) db =
      ((case_answer aid c, False, None), db)"
    using found assms(4)
    by (simp add: CommitCase_work_def existingCase_def withAuthority_stored case_answer_def)
  have val: "CommitCaseRequest_Validate (snd q) = None" using assms(2) by (simp add: case_storable_def)
  show ?thesis
    using quiet_CommitCase [OF val, of pool aid "\<lambda>_. fst q" db, OF w] by (simp add: case_put_def)
qed

lemma case_put_conflict:
  assumes "case_slot db (ccr_TenantID (snd q), ccr_CaseID (snd q)) = Some c" "\<not> case_exact c (snd q)"
  shows "fst (case_put pool aid q db) = None"
proof (cases "CommitCaseRequest_Validate (snd q)")
  case None
  have w: "CommitCase_work (pg_store pool aid) (snd q) (quiet_tx pool (fst q)) db =
      ((zero_receipt, False, Some ErrConflictingCase), db)"
    using assms by (simp add: CommitCase_work_def existingCase_def case_slot_def work_fail_def)
  from quiet_CommitCase [OF None, of pool aid "\<lambda>_. fst q" db, OF w] show ?thesis by (simp add: case_put_def)
next
  case (Some e)
  then show ?thesis by (simp add: case_put_def CommitCase_def)
qed

lemma case_put_stores:
  assumes inv: "authority_inv db" and ok: "case_storable pool q"
    and put: "fst (case_put pool aid q db) = Some rc"
  shows "\<exists>c. case_slot (snd (case_put pool aid q db)) (ccr_TenantID (snd q), ccr_CaseID (snd q)) = Some c
    \<and> case_exact c (snd q) \<and> rc = case_answer aid c"
proof -
  have val: "CommitCaseRequest_Validate (snd q) = None" using ok by (simp add: case_storable_def)
  obtain rc1 cm err db1 where w:
      "CommitCase_work (pg_store pool aid) (snd q) (quiet_tx pool (fst q)) db = ((rc1, cm, err), db1)"
    by (metis prod.exhaust)
  note call = quiet_CommitCase [OF val, of pool aid "\<lambda>_. fst q" db, OF w]
  have err: "err = None" and rc: "rc = rc1" and snd: "snd (case_put pool aid q db) = db1"
    using put call by (auto simp: case_put_def split: if_splits)
  show ?thesis
  proof (cases "find_case (ccr_TenantID (snd q)) (ccr_CaseID (snd q)) db")
    case None
    then have "existingCase (snd q) db = Inr None" by (simp add: existingCase_None)
    with CommitCase_work_ok w err have
      rc1: "rc1 = receipt (pg_store pool aid) (revision_identity db + 1) (ccr_EnvelopeID (snd q)) (ccr_Commitment (snd q))"
      and db1: "db1 = case_commit_db (quiet_tx pool (fst q)) (snd q) db" by blast+
    have "case_slot db1 (ccr_TenantID (snd q), ccr_CaseID (snd q)) =
        Some (case_row (quiet_tx pool (fst q)) (snd q) (revision_identity db + 1))"
      using None by (simp add: db1 case_slot_def find_case_def case_commit_db_def Let_def find_append
          case_row_def)
    with ok rc rc1 snd show ?thesis
      by (simp add: case_exact_def case_row_def case_answer_def receipt_def pg_store_def quiet_tx_def
          case_storable_def)
  next
    case (Some c)
    then have slot: "case_slot db (ccr_TenantID (snd q), ccr_CaseID (snd q)) = Some c"
      by (simp add: case_slot_def)
    have ex: "case_exact c (snd q)" using case_put_conflict [OF slot, of pool aid] put by auto
    show ?thesis using case_put_replay [OF inv ok slot ex, of aid] put slot ex by auto
  qed
qed

interpretation committed_case: write_once authority_inv case_slot "case_put pool aid" "case_storable pool"
  "\<lambda>q. (ccr_TenantID (snd q), ccr_CaseID (snd q))" "\<lambda>q c. case_exact c (snd q)" "case_answer aid"
  for pool :: pg_pool and aid :: string
proof (unfold_locales, goal_cases)
  case (1 s q)
  then show ?case using case_put_steps authority_steps_inv by blast
next
  case (2 s k v q)
  have "history_extends s (snd (case_put pool aid q s))"
    using authority_steps_evolve [OF case_put_steps] by (simp add: evolves_def)
  with 2 show ?case using find_case_extends by (simp add: case_slot_def)
next
  case (3 s q r)
  then show ?case by (rule case_put_stores)
next
  case (4 s q v)
  then show ?case by (rule case_put_replay)
next
  case (5 s q v)
  then show ?case by (blast intro: case_put_conflict)
qed

section \<open>Final advice\<close>

definition advice_put :: "pg_pool \<Rightarrow> string \<Rightarrow> time \<times> CommitAdviceRequest \<Rightarrow> authority_db
    \<Rightarrow> CommitReceipt option \<times> authority_db" where
  "advice_put pool aid q db =
    (let ((rc, err), db') = CommitAdvice (pg_store pool aid) (\<lambda>_. quiet (fst q)) (snd q) db in
     (if err = None then Some rc else None, db'))"

definition advice_slot :: "authority_db \<Rightarrow> string \<times> string \<Rightarrow> advice_row option" where
  "advice_slot db k = find_advice (fst k) (snd k) db"

definition advice_answer :: "string \<Rightarrow> advice_row \<Rightarrow> CommitReceipt" where
  "advice_answer aid a =
    \<lparr>rcpt_AuthorityID = aid, rcpt_Revision = adv_commit_revision a,
     rcpt_EnvelopeID = adv_envelope_id a, rcpt_Commitment = adv_commitment a\<rparr>"

lemma advice_put_steps: "(authority_step (pg_store pool aid))\<^sup>*\<^sup>* db (snd (advice_put pool aid q db))"
  using CommitAdvice_steps [of "pg_store pool aid" "\<lambda>_. quiet (fst q)" db "snd q"]
  by (simp add: advice_put_def case_prod_beta)

lemma advice_put_replay:
  assumes "authority_inv db" "CommitAdviceRequest_Validate (snd q) = None"
    "advice_slot db (car_TenantID (snd q), car_CaseID (snd q)) = Some a" "advice_exact a (snd q)"
  shows "advice_put pool aid q db = (Some (advice_answer aid a), db)"
proof -
  have found: "find_advice (car_TenantID (snd q)) (car_CaseID (snd q)) db = Some a"
    using assms(3) by (simp add: advice_slot_def)
  have "0 < adv_commit_revision a"
    using find_advice_SomeD [OF found] by (intro revision_positive [OF assms(1)]) (simp add: fact_revisions_def)
  then have w: "CommitAdvice_work (pg_store pool aid) (snd q) (quiet_tx pool (fst q)) db =
      ((advice_answer aid a, False, None), db)"
    using found assms(4)
    by (simp add: CommitAdvice_work_def existingAdvice_def withAuthority_stored advice_answer_def)
  show ?thesis
    using quiet_CommitAdvice [OF assms(2), of pool aid "\<lambda>_. fst q" db, OF w] by (simp add: advice_put_def)
qed

lemma advice_put_conflict:
  assumes "advice_slot db (car_TenantID (snd q), car_CaseID (snd q)) = Some a" "\<not> advice_exact a (snd q)"
  shows "fst (advice_put pool aid q db) = None"
proof (cases "CommitAdviceRequest_Validate (snd q)")
  case None
  have ex: "existingAdvice (snd q) db = Inl ErrFinalAdviceAlreadySet"
    using assms by (simp add: existingAdvice_def advice_slot_def)
  have "\<exists>e. CommitAdvice_work (pg_store pool aid) (snd q) (quiet_tx pool (fst q)) db = work_fail e db"
    by (cases "registryHeadForUpdate (car_TenantID (snd q)) db") (auto simp: CommitAdvice_work_def ex Let_def)
  then obtain e where w: "CommitAdvice_work (pg_store pool aid) (snd q) (quiet_tx pool (fst q)) db =
      ((zero_receipt, False, Some e), db)"
    by (auto simp: work_fail_def)
  from quiet_CommitAdvice [OF None, of pool aid "\<lambda>_. fst q" db, OF w] show ?thesis
    by (simp add: advice_put_def)
next
  case (Some e)
  then show ?thesis by (simp add: advice_put_def CommitAdvice_def)
qed

lemma advice_put_stores:
  assumes inv: "authority_inv db" and val: "CommitAdviceRequest_Validate (snd q) = None"
    and put: "fst (advice_put pool aid q db) = Some rc"
  shows "\<exists>a. advice_slot (snd (advice_put pool aid q db)) (car_TenantID (snd q), car_CaseID (snd q)) = Some a
    \<and> advice_exact a (snd q) \<and> rc = advice_answer aid a"
proof (cases "find_advice (car_TenantID (snd q)) (car_CaseID (snd q)) db")
  case None
  obtain rc1 cm err db1 where w:
      "CommitAdvice_work (pg_store pool aid) (snd q) (quiet_tx pool (fst q)) db = ((rc1, cm, err), db1)"
    by (metis prod.exhaust)
  note call = quiet_CommitAdvice [OF val, of pool aid "\<lambda>_. fst q" db, OF w]
  have err: "err = None" and rc: "rc = rc1" and snd: "snd (advice_put pool aid q db) = db1"
    using put call by (auto simp: advice_put_def split: if_splits)
  have nf: "existingAdvice (snd q) db \<noteq> Inr (Some stored)" for stored
    using None by (simp add: existingAdvice_def)
  obtain c where
    rc1: "rc1 = receipt (pg_store pool aid) (revision_identity db + 1) (car_EnvelopeID (snd q)) (car_Commitment (snd q))"
    and db1: "db1 = advice_commit_db (quiet_tx pool (fst q)) (snd q) c db"
    using CommitAdvice_work_ok [OF w [unfolded err] nf] by metis
  have "advice_slot db1 (car_TenantID (snd q), car_CaseID (snd q)) =
      Some (advice_row_of (snd q) c (next_sequence db
        (car_TenantID (snd q), cr_IssuerEdgeID c, cr_IssuerEdgeGeneration c)) (revision_identity db + 1))"
    using None by (simp add: db1 advice_slot_def find_advice_def advice_commit_db_def Let_def find_append
        advice_row_of_def)
  with rc rc1 snd show ?thesis
    by (simp add: advice_exact_def advice_row_of_def advice_answer_def receipt_def pg_store_def)
next
  case (Some a)
  then have slot: "advice_slot db (car_TenantID (snd q), car_CaseID (snd q)) = Some a"
    by (simp add: advice_slot_def)
  have ex: "advice_exact a (snd q)" using advice_put_conflict [OF slot, of pool aid] put by auto
  show ?thesis using advice_put_replay [OF inv val slot ex, of pool aid] put slot ex by auto
qed

interpretation committed_advice: write_once authority_inv advice_slot "advice_put pool aid"
  "\<lambda>q. CommitAdviceRequest_Validate (snd q) = None" "\<lambda>q. (car_TenantID (snd q), car_CaseID (snd q))"
  "\<lambda>q a. advice_exact a (snd q)" "advice_answer aid"
  for pool :: pg_pool and aid :: string
proof (unfold_locales, goal_cases)
  case (1 s q)
  then show ?case using advice_put_steps authority_steps_inv by blast
next
  case (2 s k v q)
  have "history_extends s (snd (advice_put pool aid q s))"
    using authority_steps_evolve [OF advice_put_steps] by (simp add: evolves_def)
  with 2 show ?case using find_advice_extends by (simp add: advice_slot_def)
next
  case (3 s q r)
  then show ?case by (rule advice_put_stores)
next
  case (4 s q v)
  then show ?case by (rule advice_put_replay)
next
  case (5 s q v)
  then show ?case by (blast intro: advice_put_conflict)
qed

end
