(* ===== verification/Authority_Properties.thy ===== *)
theory Authority_Properties
  imports Authority_Records
begin

text \<open>
  The properties of the semantic authority, each applied to the concrete run of
  \<^verbatim>\<open>Authority_Example\<close>.
\<close>

lemma ex_db2_case: "ex_case_row \<in> set (authority_cases ex_db2)" "ex_case_row \<in> set (authority_cases ex_db3)"
  by (simp_all add: ex_db2_def ex_db3_def case_commit_db_def advice_commit_db_def Let_def ex_case_row_def
      ex_db1_def registry_commit_db_def empty_db_def)

lemma ex_db3_log: "map ed_Sequence (edge_rows ''t'' ''e'' 1 ex_db3) = [1, 2]"
  by (simp add: edge_rows_def ex_db2_def ex_db3_def ex_defs)

section \<open>Reachable states\<close>

text \<open>
  C7. In every reachable state of the authority, whatever failures, retries and interleavings led to
  it, the deliveries of an edge generation carry exactly the sequence numbers 1, 2, ..., n in commit
  order: the delivery log an edge replays has no gap and no duplicate.
\<close>

theorem delivery_log_contiguous:
  assumes "authority_reachable s db"
  shows "map ed_Sequence (edge_rows t e g db) = [1 .. int (length (edge_rows t e g db))]"
proof -
  have log: "map ed_Sequence (edge_rows t e g db) = [1 .. next_sequence db (t, e, g) - 1]"
    and pos: "1 \<le> next_sequence db (t, e, g)"
    using authority_reachable_inv [OF assms] by (auto simp: authority_inv_def log_contiguous_def)
  have "length (edge_rows t e g db) = nat (next_sequence db (t, e, g) - 1)"
    using arg_cong [OF log, of length] by simp
  with log pos show ?thesis by simp
qed

theorem delivery_log_contiguous_witness:
  "map ed_Sequence (edge_rows ''t'' ''e'' 1 ex_db3) = [1 .. int (length (edge_rows ''t'' ''e'' 1 ex_db3))]
    \<and> map ed_Sequence (edge_rows ''t'' ''e'' 1 ex_db3) = [1, 2]"
  using delivery_log_contiguous [OF ex_reachable(3), of "''t''" "''e''" 1] ex_db3_log by (rule conjI)

text \<open>
  C8. In every reachable state a final advice answers a committed case: it binds that case's
  commitment and registry coordinates, is addressed to the edge and generation that issued the case,
  and was committed after it.  No other advice of the tenant answers the same case.
\<close>

theorem one_final_advice_per_case:
  assumes "authority_reachable s db" and "a \<in> set (authority_advice db)"
  shows "(\<exists>c \<in> set (authority_cases db). advice_answers a c)
    \<and> (\<forall>a' \<in> set (authority_advice db).
         adv_tenant_id a' = adv_tenant_id a \<and> adv_case_id a' = adv_case_id a \<longrightarrow> a' = a)"
proof -
  have inv: "authority_inv db" using authority_reachable_inv [OF assms(1)] .
  have "\<exists>c \<in> set (authority_cases db). advice_answers a c"
    using inv assms(2) by (simp add: authority_inv_def advice_bound_def)
  moreover have "a' = a"
    if "a' \<in> set (authority_advice db)" "adv_tenant_id a' = adv_tenant_id a" "adv_case_id a' = adv_case_id a" for a'
  proof -
    have "Some a' = Some a"
      using find_advice_unique [OF inv that(1)] find_advice_unique [OF inv assms(2)]
      unfolding that(2,3) by (rule subst)
    then show ?thesis by simp
  qed
  ultimately show ?thesis by blast
qed

theorem one_final_advice_per_case_witness:
  "\<exists>a. a \<in> set (authority_advice ex_db3) \<and> (\<exists>c \<in> set (authority_cases ex_db3). advice_answers a c)"
proof -
  have "authority_advice ex_db3 = [advice_row_of ex_advice ex_case_row 2 3]"
    by (simp add: ex_db2_def ex_db3_def ex_defs)
  then show ?thesis
    using one_final_advice_per_case [OF ex_reachable(3), of "advice_row_of ex_advice ex_case_row 2 3"] by auto
qed

text \<open>
  C9. Semantic rows, delivery rows, audit rows and outbox rows are committed together or not at all.
  In every reachable state the delivery log carries every committed case and advice and nothing else,
  the outbox holds exactly the two entries of each case and the one entry of each advice, and the audit
  trail has exactly one row per committed fact, in commit order.
\<close>

theorem facts_committed_atomically:
  assumes "authority_reachable s db"
  shows "(\<forall>c \<in> set (authority_cases db). \<exists>d \<in> set (authority_edge_deliveries db). case_delivers c d)
    \<and> (\<forall>a \<in> set (authority_advice db). \<exists>d \<in> set (authority_edge_deliveries db). advice_delivers a d)
    \<and> (\<forall>d \<in> set (authority_edge_deliveries db).
         (\<exists>c \<in> set (authority_cases db). case_delivers c d) \<or> (\<exists>a \<in> set (authority_advice db). advice_delivers a d))
    \<and> outbox_identity ` set (authority_outbox db) =
        (\<Union>c \<in> set (authority_cases db). set (case_outbox_entries c))
        \<union> (\<Union>a \<in> set (authority_advice db). set (advice_outbox_entries a))
    \<and> map au_authority_revision (authority_audit db) = sort (fact_revisions db)"
proof -
  have inv: "authority_inv db" using authority_reachable_inv [OF assms] .
  have rev: "map au_authority_revision (authority_audit db) = authority_revisions db"
    "sorted_wrt (<) (authority_revisions db)" "distinct (fact_revisions db)"
    "set (fact_revisions db) = set (authority_revisions db)"
    using inv by (auto simp: authority_inv_def revisions_ordered_def)
  have "sorted (authority_revisions db)" "distinct (authority_revisions db)"
    using rev(2) by (auto simp: strict_sorted_iff)
  then have "sort (fact_revisions db) = authority_revisions db"
    using rev(3,4) by (intro sorted_distinct_set_unique) auto
  with rev(1) inv show ?thesis by (simp add: authority_inv_def facts_atomic_def)
qed

theorem facts_committed_atomically_witness:
  "outbox_identity ` set (authority_outbox ex_db3) =
      (\<Union>c \<in> set (authority_cases ex_db3). set (case_outbox_entries c))
      \<union> (\<Union>a \<in> set (authority_advice ex_db3). set (advice_outbox_entries a))
    \<and> length (authority_outbox ex_db3) = 3
    \<and> map au_authority_revision (authority_audit ex_db3) = [1, 2, 3]"
proof -
  have "length (authority_outbox ex_db3) = 3" "map au_authority_revision (authority_audit ex_db3) = [1, 2, 3]"
    by (simp_all add: ex_db2_def ex_db3_def ex_defs case_destinations_def advice_destinations_def)
  with facts_committed_atomically [OF ex_reachable(3)] show ?thesis by (intro conjI) simp_all
qed

section \<open>Evolution\<close>

text \<open>
  C2. Committed history is immutable.  Along any sequence of steps the case, advice, registry,
  delivery and audit tables and the outbox identities only grow at the end; the registry head of a
  tenant never moves back, keeps its commitment and epoch while its revision stays, and the highest
  generation of an edge never decreases.
\<close>

theorem history_immutable:
  assumes "(authority_step s)\<^sup>*\<^sup>* db db'"
  shows "history_extends db db' \<and> heads_advance db db' \<and> generations_advance db db'"
  using authority_steps_evolve [OF assms] by (simp add: evolves_def)

theorem history_immutable_witness:
  "history_extends ex_db1 ex_db2 \<and> authority_cases ex_db1 = [] \<and> authority_cases ex_db2 = [ex_case_row]"
proof -
  have "(authority_step ex_store)\<^sup>*\<^sup>* ex_db1 ex_db2"
    using CommitCase_steps [of ex_store ex_envs ex_db1 ex_case] by (simp add: ex_case_run)
  from history_immutable [OF this] show ?thesis
    by (simp add: ex_db2_def ex_defs)
qed

text \<open>
  C22. A registry halt is latched and freezes what is committed for its tenant.  Once the head of a tenant
  is halted, no later sequence of steps adds, changes or removes a case, advice, registry, delivery or audit
  row of it, its registry head, its edge generations or its delivery counters, and its outbox keeps exactly
  the entries it had; only the delivery of these entries (lease, attempts, publication) still proceeds.
\<close>

theorem halted_tenant_frozen:
  assumes "(authority_step s)\<^sup>*\<^sup>* db db'"
    and "authority_registry_heads db t = Some h" and "rh_Halted h"
  shows "tenant_view t db' = tenant_view t db"
  using authority_steps_evolve [OF assms(1)] assms(2,3) by (auto simp: evolves_def halts_latched_def)

definition ex_fork :: CommitRegistryRequest where
  "ex_fork = ex_registry\<lparr>crr_Raw := ''fork''\<rparr>"

definition ex_head :: RegistryHead where
  "ex_head = new_registry_head ex_registry"

definition ex_halted :: authority_db where
  "ex_halted = halted_db ''t'' registryHaltSameRevisionConflict ex_head ex_db1"

lemma ex_fork_valid: "CommitRegistryRequest_Validate ex_fork = None"
  by (simp add: ex_fork_def CommitRegistryRequest_Validate_def validText_def valid_registry_edge_def ex_data)

lemma ex_fork_work:
  "CommitRegistry_work ex_store ex_fork tx ex_db1 = ((zero_receipt, True, Some ErrRegistryEquivocation), ex_halted)"
  by (simp add: CommitRegistry_work_def registryHeadForUpdate_def existingRegistry_def find_registry_def
      registry_exact_def halt_with_def haltRegistryHead_def ex_halted_def halted_db_def ex_fork_def ex_head_def
      coalesce_text_def nullableText_def ex_defs)

lemma ex_fork_run:
  "CommitRegistry ex_store ex_envs ex_fork ex_db1 = ((zero_receipt, Some ErrRegistryEquivocation), ex_halted)"
  using transaction_quiet [of ex_store ex_pool "CommitRegistry_work ex_store ex_fork" "\<lambda>_. 7000" ex_db1,
      OF _ ex_fork_work] ex_fork_valid
  by (simp add: CommitRegistry_def ex_store_def)

lemma ex_head_at: "authority_registry_heads ex_db1 ''t'' = Some ex_head"
  by (simp add: ex_head_def ex_defs)

theorem halted_tenant_frozen_witness:
  "tenant_view ''t'' (snd (CommitCase ex_store ex_envs ex_case ex_halted)) = tenant_view ''t'' ex_halted"
proof (rule halted_tenant_frozen)
  show "(authority_step ex_store)\<^sup>*\<^sup>* ex_halted (snd (CommitCase ex_store ex_envs ex_case ex_halted))"
    by (rule CommitCase_steps) simp
  show "authority_registry_heads ex_halted ''t'' =
      Some (ex_head\<lparr>rh_Halted := True, rh_HaltReason := registryHaltSameRevisionConflict\<rparr>)"
    by (simp add: ex_halted_def halted_db_def)
qed simp

text \<open>
  C18. Conflicting registry evidence halts the tenant durably.  A validated registry that goes back
  behind the committed head, that repeats the head's revision with different content, or that follows
  the head with a different predecessor is refused, and although an error is returned the halt itself
  is committed: the head is latched with the reason and nothing else changes.
\<close>

theorem registry_fork_halts:
  assumes "store_pool s = Some pool" "CommitRegistryRequest_Validate r = None"
    and head: "authority_registry_heads db (crr_TenantID r) = Some h" "\<not> rh_Halted h" "0 < rh_Revision h"
    and fork: "crr_Revision r < rh_Revision h
      \<or> crr_Revision r = rh_Revision h \<and> (\<exists>g. find_registry (crr_TenantID r) (crr_Revision r) db = Some g
           \<and> \<not> registry_exact g r)
      \<or> crr_Revision r = rh_Revision h + 1 \<and> rh_Revision h < max_int64 \<and> crr_PreviousCommitment r \<noteq> rh_Commitment h"
  shows "\<exists>e reason. CommitRegistry s (\<lambda>i. quiet (clock i)) r db =
      ((zero_receipt, Some e), halted_db (crr_TenantID r) reason h db)
    \<and> (e = ErrRegistryRollback \<or> e = ErrRegistryEquivocation)"
proof -
  have wrap: "wrap64 (rh_Revision h + 1) = rh_Revision h + 1" if "rh_Revision h < max_int64"
    using that head(3) by (simp add: wrap64_def max_int64_def)
  have "\<exists>e reason. (\<forall>tx. CommitRegistry_work s r tx db =
      ((zero_receipt, True, Some e), halted_db (crr_TenantID r) reason h db))
      \<and> (e = ErrRegistryRollback \<or> e = ErrRegistryEquivocation)"
    using fork
  proof (elim disjE conjE exE)
    assume "crr_Revision r < rh_Revision h"
    with head show ?thesis
      by (auto simp: CommitRegistry_work_def registryHeadForUpdate_def halt_with_def haltRegistryHead_def
          halted_db_def)
  next
    fix g
    assume "crr_Revision r = rh_Revision h" "find_registry (crr_TenantID r) (crr_Revision r) db = Some g"
      "\<not> registry_exact g r"
    with head show ?thesis
      by (auto simp: CommitRegistry_work_def registryHeadForUpdate_def halt_with_def haltRegistryHead_def
          halted_db_def existingRegistry_def)
  next
    assume "crr_Revision r = rh_Revision h + 1" "rh_Revision h < max_int64"
      "crr_PreviousCommitment r \<noteq> rh_Commitment h"
    with head wrap show ?thesis
      by (auto simp: CommitRegistry_work_def registryHeadForUpdate_def halt_with_def haltRegistryHead_def
          halted_db_def)
  qed
  then obtain e reason where work: "\<And>tx. CommitRegistry_work s r tx db =
      ((zero_receipt, True, Some e), halted_db (crr_TenantID r) reason h db)"
    and e: "e = ErrRegistryRollback \<or> e = ErrRegistryEquivocation" by blast
  have "CommitRegistry s (\<lambda>i. quiet (clock i)) r db = ((zero_receipt, Some e), halted_db (crr_TenantID r) reason h db)"
    using transaction_quiet [of s pool "CommitRegistry_work s r" clock db, OF assms(1) work] assms(2)
    by (simp add: CommitRegistry_def)
  with e show ?thesis by blast
qed

theorem registry_fork_halts_witness:
  "\<exists>e reason. CommitRegistry ex_store ex_envs ex_fork ex_db1 =
      ((zero_receipt, Some e), halted_db ''t'' reason ex_head ex_db1)"
proof -
  have fork: "crr_Revision ex_fork = rh_Revision ex_head"
    "\<exists>g. find_registry (crr_TenantID ex_fork) (crr_Revision ex_fork) ex_db1 = Some g \<and> \<not> registry_exact g ex_fork"
    by (simp_all add: ex_fork_def ex_head_def find_registry_def registry_exact_def ex_defs)
  have "authority_registry_heads ex_db1 (crr_TenantID ex_fork) = Some ex_head" "\<not> rh_Halted ex_head"
    "0 < rh_Revision ex_head" "crr_TenantID ex_fork = ''t''"
    using ex_head_at by (simp_all add: ex_fork_def ex_head_def ex_registry_def new_registry_head_def)
  with registry_fork_halts [of ex_store ex_pool ex_fork ex_db1 ex_head "\<lambda>_. 7000"] fork ex_fork_valid
  show ?thesis by (auto simp: ex_store_def)
qed

section \<open>Receipts\<close>

text \<open>A call that answers without an error ran its body once more and committed what it did.\<close>

lemma transaction_attempt_ok:
  assumes "transaction_attempt work pool env db = (Return rc None, db')"
  shows "\<exists>cm. work \<lparr>tx_timestamptz = pool_timestamptz pool, tx_clock = at_clock env\<rparr> db = ((rc, cm, None), db')"
proof -
  let ?tx = "\<lparr>tx_timestamptz = pool_timestamptz pool, tx_clock = at_clock env\<rparr>"
  obtain rc1 cm1 err1 db1 where w: "run_work env (work ?tx) db = ((rc1, cm1, err1), db1)"
    by (metis prod.exhaust)
  have "rc1 = rc \<and> err1 = None \<and> db1 = db'"
    using assms by (auto simp: transaction_attempt_def w split: option.splits if_splits prod.splits)
  with w show ?thesis
    by (cases "at_work env") (auto simp: run_work_def work_fail_def)
qed

lemma transaction_loop_ok:
  assumes "interleaves s envs"
    and "\<And>env db. authority_step s db (snd (transaction_attempt work pool env db))"
    and "transaction_loop n i label work pool envs db = ((rc, None), db')"
  shows "\<exists>db0 tx cm. (authority_step s)\<^sup>*\<^sup>* db db0 \<and> tx_timestamptz tx = pool_timestamptz pool
    \<and> work tx db0 = ((rc, cm, None), db')"
  using assms(3)
proof (induction n arbitrary: i db)
  case (Suc n)
  let ?db0 = "at_others (envs i) db"
  have to0: "(authority_step s)\<^sup>*\<^sup>* db ?db0" using assms(1) by (simp add: interleaves_def)
  obtain out db1 where a: "transaction_attempt work pool (envs i) ?db0 = (out, db1)" by fastforce
  have to1: "(authority_step s)\<^sup>*\<^sup>* db db1" using assms(2) [of ?db0 "envs i"] a to0 by auto
  show ?case
  proof (cases out)
    case Retry
    with Suc.prems a have "transaction_loop n (Suc i) label work pool envs db1 = ((rc, None), db')" by simp
    from Suc.IH [OF this] to1 show ?thesis by (meson rtranclp_trans)
  next
    case (Return rc' e)
    with Suc.prems a have "transaction_attempt work pool (envs i) ?db0 = (Return rc None, db')" by simp
    from transaction_attempt_ok [OF this] obtain cm where
      "work \<lparr>tx_timestamptz = pool_timestamptz pool, tx_clock = at_clock (envs i)\<rparr> ?db0 = ((rc, cm, None), db')"
      by blast
    with to0 show ?thesis by (intro exI conjI) auto
  qed
qed simp

text \<open>A successful \<^verbatim>\<open>CommitCase\<close> leaves the row it answers for, however it was disturbed.\<close>

lemma CommitCase_ok_row:
  assumes inv: "authority_inv db" and env: "interleaves (pg_store pool aid) envs"
    and ok: "case_storable pool (clock, r)"
    and call: "CommitCase (pg_store pool aid) envs r db = ((rc, None), db')"
  shows "\<exists>c. find_case (ccr_TenantID r) (ccr_CaseID r) db' = Some c \<and> case_exact c r \<and> rc = case_answer aid c"
proof -
  let ?s = "pg_store pool aid"
  have val: "CommitCaseRequest_Validate r = None" using ok by (simp add: case_storable_def)
  have step: "authority_step ?s db1 (snd (transaction_attempt (CommitCase_work ?s r) pool env db1))" for env db1
    using val by (intro authority_step.case_attempt) (auto simp: pg_store_def)
  have "transaction_loop transactionAttempts 0 ''case'' (CommitCase_work ?s r) pool envs db = ((rc, None), db')"
    using call val by (simp add: CommitCase_def transaction_def pg_store_def)
  from transaction_loop_ok [OF env step this] obtain db0 tx cm where
    to0: "(authority_step ?s)\<^sup>*\<^sup>* db db0" and tz: "tx_timestamptz tx = pool_timestamptz pool"
    and w: "CommitCase_work ?s r tx db0 = ((rc, cm, None), db')" by blast
  have inv0: "authority_inv db0" using authority_steps_inv [OF to0 inv] .
  show ?thesis
  proof (cases "existingCase r db0 = Inr None")
    case True
    with CommitCase_work_ok [OF w] have rc: "rc = receipt ?s (revision_identity db0 + 1) (ccr_EnvelopeID r) (ccr_Commitment r)"
      and db': "db' = case_commit_db tx r db0" by blast+
    have "find_case (ccr_TenantID r) (ccr_CaseID r) db' = Some (case_row tx r (revision_identity db0 + 1))"
      using True by (simp add: existingCase_None db' find_case_def case_commit_db_def Let_def find_append case_row_def)
    with rc tz ok show ?thesis
      by (simp add: case_exact_def case_row_def case_answer_def receipt_def pg_store_def case_storable_def)
  next
    case False
    with w obtain stored where st: "existingCase r db0 = Inr (Some stored)"
      by (auto simp: CommitCase_work_def work_fail_def split: sum.splits option.splits)
    with CommitCase_work_replay [OF w st] have rc: "rc = withAuthority ?s stored" and db': "db' = db0" by simp_all
    from st obtain c where c: "find_case (ccr_TenantID r) (ccr_CaseID r) db0 = Some c" "case_exact c r"
      "stored = stored_receipt (cr_AuthorityRevision c) (cr_EnvelopeID c) (cr_Commitment c)"
      by (auto simp: existingCase_Some)
    have "0 < cr_AuthorityRevision c"
      using find_case_SomeD [OF c(1)] by (intro revision_positive [OF inv0]) (simp add: fact_revisions_def)
    with c rc db' show ?thesis by (simp add: withAuthority_stored case_answer_def)
  qed
qed

text \<open>
  C33. A receipt is durable and a retry is idempotent.  Suppose \<^verbatim>\<open>CommitCase\<close> answered with a receipt,
  however its attempts were disturbed and interleaved with other transactions.  Then its row is in the
  resulting state, and after any further steps of the system (including a registry halt) the same
  request is answered with the same receipt and changes nothing.
\<close>

theorem case_receipt_stable:
  assumes "authority_reachable (pg_store pool aid) db" "interleaves (pg_store pool aid) envs"
    and "case_storable pool (clock, r)"
    and "CommitCase (pg_store pool aid) envs r db = ((rc, None), db')"
    and "(authority_step (pg_store pool aid))\<^sup>*\<^sup>* db' db''"
  shows "(\<exists>c \<in> set (authority_cases db'). case_exact c r \<and> rc = case_answer aid c)
    \<and> CommitCase (pg_store pool aid) (\<lambda>_. quiet clock) r db'' = ((rc, None), db'')"
proof -
  have inv: "authority_inv db" using authority_reachable_inv [OF assms(1)] .
  obtain c where c: "find_case (ccr_TenantID r) (ccr_CaseID r) db' = Some c" "case_exact c r" "rc = case_answer aid c"
    using CommitCase_ok_row [OF inv assms(2-4)] by blast
  have "(authority_step (pg_store pool aid))\<^sup>*\<^sup>* db db'"
    using CommitCase_steps [OF assms(2), of db r] assms(4) by simp
  then have inv'': "authority_inv db''" using inv assms(5) authority_steps_inv by blast
  have "case_slot db'' (ccr_TenantID r, ccr_CaseID r) = Some c"
    using find_case_extends [OF _ c(1)] authority_steps_evolve [OF assms(5)] by (simp add: case_slot_def evolves_def)
  with case_put_replay [OF inv'' assms(3)] c have "case_put pool aid (clock, r) db'' = (Some rc, db'')" by simp
  then have "CommitCase (pg_store pool aid) (\<lambda>_. quiet clock) r db'' = ((rc, None), db'')"
    by (auto simp: case_put_def split: prod.splits if_splits)
  with c find_case_SomeD [OF c(1)] show ?thesis by auto
qed

lemma ex_store_pg: "ex_store = pg_store ex_pool ''authority''"
  by (simp add: ex_store_def pg_store_def)

theorem case_receipt_stable_witness:
  "CommitCase ex_store ex_envs ex_case ex_db3 =
    ((\<lparr>rcpt_AuthorityID = ''authority'', rcpt_Revision = 2, rcpt_EnvelopeID = ''x'',
       rcpt_Commitment = ex_hash CHR ''b''\<rparr>, None), ex_db3)"
proof -
  have storable: "case_storable ex_pool (7000, ex_case)"
    using ex_valid(2) by (simp add: case_storable_def) (simp add: ex_pool_def ex_case_def)
  have "(authority_step ex_store)\<^sup>*\<^sup>* ex_db2 ex_db3"
    using CommitAdvice_steps [of ex_store ex_envs ex_db2 ex_advice] by (simp add: ex_advice_run)
  then show ?thesis
    using case_receipt_stable [OF ex_reachable(1) [unfolded ex_store_pg] ex_interleaves [unfolded ex_store_pg]
        storable ex_case_run [unfolded ex_store_pg]] by (simp add: ex_store_pg)
qed

section \<open>Refusals\<close>

lemma CommitCase_work_mono:
  assumes "CommitCase_work s r tx db = ((rc, cm, err), db')"
  shows "revision_identity db \<le> revision_identity db'"
proof (cases err)
  case None
  show ?thesis
  proof (cases "existingCase r db = Inr None")
    case True
    with CommitCase_work_ok assms None have "db' = case_commit_db tx r db" by blast
    then show ?thesis by (simp add: case_commit_db_def Let_def)
  next
    case False
    with assms None show ?thesis
      by (auto simp: CommitCase_work_def work_fail_def split: sum.splits option.splits)
  qed
qed (use assms CommitCase_work_err in blast)

lemma CommitAdvice_work_mono:
  assumes "CommitAdvice_work s r tx db = ((rc, cm, err), db')"
  shows "revision_identity db \<le> revision_identity db'"
proof (cases err)
  case None
  show ?thesis
  proof (cases "\<exists>stored. existingAdvice r db = Inr (Some stored)")
    case True
    with assms None CommitAdvice_work_replay show ?thesis by blast
  next
    case False
    then have nf: "existingAdvice r db \<noteq> Inr (Some stored)" for stored by blast
    obtain c where "db' = advice_commit_db tx r c db"
      using CommitAdvice_work_ok [OF assms [unfolded None] nf] by metis
    then show ?thesis by (simp add: advice_commit_db_def Let_def)
  qed
qed (use assms CommitAdvice_work_err in blast)

definition case_content ::
    "CommitCaseRequest \<Rightarrow> string \<times> string \<times> bytes \<times> string \<times> string \<times> int \<times> int \<times> int \<times> string \<times> time" where
  "case_content r =
    (ccr_EnvelopeID r, ccr_Commitment r, ccr_Raw r, ccr_Domain r, ccr_IssuerEdgeID r, ccr_IssuerEdgeGeneration r,
     ccr_RoutingEpoch r, ccr_RegistryRevision r, ccr_RegistryHash r, ccr_ExpiresAt r)"

lemma case_exact_content: "case_exact c r \<Longrightarrow> case_exact c r' \<Longrightarrow> case_content r' = case_content r"
  by (simp add: case_exact_def case_content_def)

lemma conflicting_work:
  assumes "find_case (ccr_TenantID r) (ccr_CaseID r) db = Some c" and "\<not> case_exact c r"
  shows "CommitCase_work s r tx db = ((zero_receipt, False, Some ErrConflictingCase), db)"
  using assms by (simp add: CommitCase_work_def existingCase_def work_fail_def)

text \<open>
  C37. A case identity is bound to its first content for good.  Once a case was committed, however its call
  was disturbed, every later request for that case identity with another envelope identifier, commitment,
  wire, domain, issuer, epoch, registry or expiry fails in any later state of the authority, whatever happens
  during the call; and an undisturbed call is answered as a conflict and changes nothing.
\<close>

theorem conflicting_case_refused:
  assumes "authority_reachable (pg_store pool aid) db" "interleaves (pg_store pool aid) envs"
    and "case_storable pool (clock, r)"
    and "CommitCase (pg_store pool aid) envs r db = ((rc, None), db')"
    and "(authority_step (pg_store pool aid))\<^sup>*\<^sup>* db' db''"
    and "CommitCaseRequest_Validate r' = None" "ccr_TenantID r' = ccr_TenantID r" "ccr_CaseID r' = ccr_CaseID r"
    and "case_content r' \<noteq> case_content r" and "interleaves (pg_store pool aid) envs'"
  shows "(\<exists>rc' e db3. CommitCase (pg_store pool aid) envs' r' db'' = ((rc', Some e), db3))
    \<and> CommitCase (pg_store pool aid) (\<lambda>i. quiet (clock' i)) r' db'' = ((zero_receipt, Some ErrConflictingCase), db'')"
proof -
  let ?s = "pg_store pool aid"
  obtain c where c: "find_case (ccr_TenantID r') (ccr_CaseID r') db' = Some c" and "case_exact c r"
    using CommitCase_ok_row [OF authority_reachable_inv [OF assms(1)] assms(2-4)] assms(7,8) by auto
  then have other: "\<not> case_exact c r'" using case_exact_content assms(9) by blast
  have kept: "find_case (ccr_TenantID r') (ccr_CaseID r') x = Some c" if "(authority_step ?s)\<^sup>*\<^sup>* db' x" for x
    using find_case_extends [OF _ c] authority_steps_evolve [OF that] by (simp add: evolves_def)
  have step: "authority_step ?s x (snd (transaction_attempt (CommitCase_work ?s r') pool env x))" for env x
    using assms(6) by (intro authority_step.case_attempt) (auto simp: pg_store_def)
  have "snd (fst (CommitCase ?s envs' r' db'')) \<noteq> None"
  proof
    assume "snd (fst (CommitCase ?s envs' r' db'')) = None"
    then obtain rc' db3 where "CommitCase ?s envs' r' db'' = ((rc', None), db3)" by (metis prod.collapse)
    then have "transaction_loop transactionAttempts 0 ''case'' (CommitCase_work ?s r') pool envs' db'' = ((rc', None), db3)"
      using assms(6) by (simp add: CommitCase_def transaction_def pg_store_def)
    from transaction_loop_ok [OF assms(10) step this] obtain x tx cm where
      "(authority_step ?s)\<^sup>*\<^sup>* db'' x" "CommitCase_work ?s r' tx x = ((rc', cm, None), db3)" by blast
    then show False using conflicting_work [OF kept [OF rtranclp_trans [OF assms(5)]] other] by simp
  qed
  then have "\<exists>rc' e db3. CommitCase ?s envs' r' db'' = ((rc', Some e), db3)" by (metis not_None_eq prod.collapse)
  moreover have "CommitCase ?s (\<lambda>i. quiet (clock' i)) r' db'' = ((zero_receipt, Some ErrConflictingCase), db'')"
    using quiet_CommitCase [OF assms(6), where clock = clock', OF conflicting_work [OF kept [OF assms(5)] other]]
    by (simp add: rolled_back_def)
  ultimately show ?thesis by blast
qed

theorem conflicting_case_refused_witness:
  "CommitCase ex_store ex_envs (ex_case\<lparr>ccr_Raw := ''other''\<rparr>) ex_db3 =
    ((zero_receipt, Some ErrConflictingCase), ex_db3)"
proof -
  let ?r = "ex_case\<lparr>ccr_Raw := ''other''\<rparr>"
  have storable: "case_storable ex_pool (7000, ex_case)"
    using ex_valid(2) by (simp add: case_storable_def) (simp add: ex_pool_def ex_case_def)
  have "(authority_step ex_store)\<^sup>*\<^sup>* ex_db2 ex_db3"
    using CommitAdvice_steps [of ex_store ex_envs ex_db2 ex_advice] by (simp add: ex_advice_run)
  moreover have "CommitCaseRequest_Validate ?r = None" "case_content ?r \<noteq> case_content ex_case"
    by (simp_all add: CommitCaseRequest_Validate_def validText_def ex_case_def zero_time_def case_content_def)
  ultimately show ?thesis
    using conflicting_case_refused [OF ex_reachable(1) [unfolded ex_store_pg] ex_interleaves [unfolded ex_store_pg]
        storable ex_case_run [unfolded ex_store_pg], where r' = ?r and envs' = ex_envs and clock' = "\<lambda>_. 7000"]
      ex_interleaves by (simp add: ex_store_pg)
qed

text \<open>
  C38. A commit that fails leaves no trace.  If one attempt of \<^verbatim>\<open>CommitCase\<close> or \<^verbatim>\<open>CommitAdvice\<close> ends
  in a retry or an error, at whatever statement, and the failure is not that of a commit the server had
  already applied, then every table is exactly as before; at most a revision number was drawn and lost.
\<close>

theorem failed_commit_leaves_no_trace:
  assumes "transaction_attempt work pool env db = (out, db')"
    and "work = CommitCase_work s r \<or> work = CommitAdvice_work s r'"
    and "out = Retry \<or> (\<exists>rc e. out = Return rc (Some e))"
    and "\<not> (\<exists>code. at_commit env = Some (code, True) \<and> \<not> retryable (ErrPg code))"
  shows "db' = db\<lparr>revision_identity := revision_identity db'\<rparr> \<and> revision_identity db \<le> revision_identity db'"
proof -
  let ?tx = "\<lparr>tx_timestamptz = pool_timestamptz pool, tx_clock = at_clock env\<rparr>"
  have mono: "revision_identity db \<le> revision_identity db1" if "work ?tx db = ((rc1, cm1, err1), db1)" for rc1 cm1 err1 db1
    using assms(2) that CommitCase_work_mono CommitAdvice_work_mono by blast
  have commit: "\<not> cm1" if "work ?tx db = ((rc1, cm1, Some e1), db1)" for rc1 cm1 e1 db1
    using assms(2) that CommitCase_work_err CommitAdvice_work_err by blast
  obtain rc1 cm1 err1 db1 where w: "run_work env (work ?tx) db = ((rc1, cm1, err1), db1)"
    by (metis prod.exhaust)
  have le: "revision_identity db \<le> revision_identity db1"
  proof -
    obtain rc2 cm2 err2 db2 where w2: "work ?tx db = ((rc2, cm2, err2), db2)" by (metis prod.exhaust)
    with mono w show ?thesis
      by (cases "at_work env") (auto simp: run_work_def work_fail_def rolled_back_def split: if_splits)
  qed
  have cm: "\<not> cm1" if "err1 = Some e1" for e1
    using commit w that by (cases "at_work env") (auto simp: run_work_def work_fail_def)
  show ?thesis
    using assms(1,3,4) le cm
    by (auto simp: transaction_attempt_def w rolled_back_def split: option.splits if_splits prod.splits)
qed

theorem failed_commit_leaves_no_trace_witness:
  "snd (transaction_attempt (CommitCase_work ex_store ex_case) ex_pool
      ((quiet 7000)\<lparr>at_work := Some (ServerError ''08006'', False)\<rparr>) ex_db1) =
    ex_db1\<lparr>revision_identity := 1\<rparr>"
proof -
  let ?env = "(quiet 7000)\<lparr>at_work := Some (ServerError ''08006'', False)\<rparr>"
  have run: "transaction_attempt (CommitCase_work ex_store ex_case) ex_pool ?env ex_db1 =
      (Return zero_receipt (Some (ErrPg ''08006'')), rolled_back ex_db1 ex_db1)"
    by (simp add: transaction_attempt_def run_work_def quiet_def work_fail_def retryable_def)
  have "revision_identity ex_db1 = 1" by (simp add: ex_defs)
  with failed_commit_leaves_no_trace [OF run, of ex_store ex_case ex_advice] run show ?thesis
    by (simp add: quiet_def rolled_back_def)
qed

end
