(* ===== verification/Authority_Reads.thy ===== *)
theory Authority_Reads
  imports Authority_Properties
begin

text \<open>
  What the authority's reads return in a state that satisfies the invariant: a page of an edge's
  delivery log is the contiguous slice after the cursor, a page of projection facts is the next facts
  in revision order, and a resolved case, registry or head is the committed one.
\<close>

section \<open>Delivery pages\<close>

lemma foldl_max: "foldl max a xs = Max (insert a (set (xs :: int list)))"
proof (induction xs arbitrary: a)
  case (Cons x xs)
  have "Max (insert (max a x) (set xs)) = Max (insert a (insert x (set xs)))"
  proof (cases "xs = []")
    case False
    then have "set xs \<noteq> {}" by simp
    then show ?thesis by (simp add: max.assoc)
  qed simp
  with Cons [of "max a x"] show ?case by simp
qed simp

lemma max_or_zero_upto: "max_or_zero [1 .. int n] = int n"
proof (cases n)
  case (Suc m)
  then have ne: "[1 .. int n] \<noteq> []" by simp
  have "max_or_zero [1 .. int n] = Max (set [1 .. int n])"
    unfolding max_or_zero_def using ne by (simp add: foldl_max flip: list.set(2))
  also have "\<dots> = int n" using Suc by (intro Max_eqI) auto
  finally show ?thesis .
qed (simp add: max_or_zero_def)

lemma sequence_nth:
  assumes "map ed_Sequence rows = [1 .. int (length rows)]" and "i < length rows"
  shows "ed_Sequence (rows ! i) = int i + 1"
  using arg_cong [OF assms(1), of "\<lambda>xs. xs ! i"] assms(2) by (simp add: nth_upto)

text \<open>On a contiguous log the filter, the sort and the limit take a slice.\<close>

lemma contiguous_filter:
  assumes "map ed_Sequence rows = [1 .. int (length rows)]"
  shows "filter (\<lambda>d. ed_Sequence d > int k) rows = drop k rows"
proof -
  have early: "filter (\<lambda>d. ed_Sequence d > int k) (take k rows) = []"
    using sequence_nth [OF assms] by (auto simp: filter_empty_conv in_set_conv_nth)
  have late: "filter (\<lambda>d. ed_Sequence d > int k) (drop k rows) = drop k rows"
  proof (rule filter_True, intro ballI)
    fix d
    assume "d \<in> set (drop k rows)"
    then obtain j where "j < length rows - k" "d = rows ! (k + j)" by (auto simp: in_set_conv_nth)
    then show "ed_Sequence d > int k" using sequence_nth [OF assms, of "k + j"] by simp
  qed
  show ?thesis
    using filter_append [of "\<lambda>d. ed_Sequence d > int k" "take k rows" "drop k rows"] early late by simp
qed

lemma contiguous_sorted:
  assumes "map ed_Sequence rows = [1 .. int (length rows)]"
  shows "sort_key ed_Sequence (drop k rows) = drop k rows"
proof -
  have "sorted (map ed_Sequence rows)" using assms by (simp add: sorted_upto)
  then have "sorted (map ed_Sequence (drop k rows))" by (simp add: drop_map [symmetric] sorted_wrt_drop)
  then show ?thesis by (simp add: sort_key_id_if_sorted)
qed

lemma contiguous_last:
  assumes "map ed_Sequence rows = [1 .. int (length rows)]" and "take l (drop k rows) \<noteq> []"
  shows "ed_Sequence (last (take l (drop k rows))) = int k + int (length (take l (drop k rows)))"
proof -
  let ?p = "take l (drop k rows)"
  have len: "length ?p \<le> length rows - k" "0 < length ?p" using assms(2) by auto
  have "last ?p = rows ! (k + (length ?p - 1))"
  proof -
    have "length ?p - 1 < l" "length ?p - 1 < length rows - k" using len by auto
    then show ?thesis using assms(2) len by (subst last_conv_nth) (auto simp: nth_append)
  qed
  moreover have "k + (length ?p - 1) < length rows" using len by linarith
  ultimately show ?thesis using sequence_nth [OF assms(1), of "k + (length ?p - 1)"] len by simp
qed

definition log_page :: "EdgeDelivery list \<Rightarrow> int \<Rightarrow> int \<Rightarrow> EdgeDeliveryPage" where
  "log_page log after limit =
    \<lparr>edp_Deliveries = take (nat limit) (drop (nat after) log), edp_HighWatermark = int (length log),
     edp_CompleteThrough = max after (min (after + limit) (int (length log)))\<rparr>"

lemma edge_page_contiguous:
  assumes log: "map ed_Sequence rows = [1 .. int (length rows)]" and q: "0 \<le> after" "0 < limit"
  shows "edge_page rows after limit = log_page rows after limit"
proof -
  let ?k = "nat after"
  let ?p = "take (nat limit) (drop ?k rows)"
  have slice: "take (nat limit) (sort_key ed_Sequence (filter (\<lambda>d. ed_Sequence d > after) rows)) = ?p"
    using contiguous_filter [OF log, of ?k] contiguous_sorted [OF log, of ?k] q(1) by simp
  have high: "max_or_zero (map ed_Sequence rows) = int (length rows)"
    unfolding log by (rule max_or_zero_upto)
  show ?thesis
  proof (cases "?p = []")
    case True
    then have "int (length rows) \<le> after" using q by auto
    then show ?thesis
      unfolding edge_page_def Let_def slice high True log_page_def using q by simp
  next
    case False
    have len: "int (length ?p) = min (int (length rows) - after) limit"
      using q False by (auto simp: min_def)
    have last: "ed_Sequence (last ?p) = after + int (length ?p)"
      using contiguous_last [OF log False] q by simp
    have "0 < int (length ?p)" using False by (metis length_greater_0_conv of_nat_0_less_iff)
    then show ?thesis
      unfolding edge_page_def Let_def slice high log_page_def last len using q by auto
  qed
qed

lemma ListEdgeDeliveries_Inr:
  assumes "ListEdgeDeliveries s fault q db = Inr page"
  shows "page = edge_page (edge_rows (edq_TenantID q) (edq_EdgeID q) (edq_EdgeGeneration q) db)
      (edq_AfterSequence q) (edq_Limit q)"
    and "0 \<le> edq_AfterSequence q" and "0 < edq_Limit q"
proof -
  have "EdgeDeliveryQuery_Validate q = None"
    using assms by (auto simp: ListEdgeDeliveries_def split: if_splits option.splits)
  then show "0 \<le> edq_AfterSequence q" "0 < edq_Limit q"
    by (auto simp: EdgeDeliveryQuery_Validate_def split: if_splits)
  show "page = edge_page (edge_rows (edq_TenantID q) (edq_EdgeID q) (edq_EdgeGeneration q) db)
      (edq_AfterSequence q) (edq_Limit q)"
    using assms by (auto simp: ListEdgeDeliveries_def split: if_splits option.splits)
qed

lemma edge_log_contiguous:
  assumes "authority_inv db"
  shows "map ed_Sequence (edge_rows t e g db) = [1 .. int (length (edge_rows t e g db))]"
proof -
  have log: "map ed_Sequence (edge_rows t e g db) = [1 .. next_sequence db (t, e, g) - 1]"
    and pos: "1 \<le> next_sequence db (t, e, g)"
    using assms by (auto simp: authority_inv_def log_contiguous_def)
  have "length (edge_rows t e g db) = nat (next_sequence db (t, e, g) - 1)"
    using arg_cong [OF log, of length] by simp
  with log pos show ?thesis by simp
qed

text \<open>
  C40. A page of an edge's delivery log is exact.  In any reachable state a successful read returns the
  next slice of the log after the cursor, at most the limit long and without a hole; the high watermark
  is the length of the whole log; and the log is complete through the last returned delivery, or through
  the cursor when nothing follows it.
\<close>

theorem edge_page_exact:
  assumes "authority_reachable s db" and "ListEdgeDeliveries s fault q db = Inr page"
  shows "page = log_page (edge_rows (edq_TenantID q) (edq_EdgeID q) (edq_EdgeGeneration q) db)
      (edq_AfterSequence q) (edq_Limit q)"
  using ListEdgeDeliveries_Inr [OF assms(2)]
    edge_page_contiguous [OF edge_log_contiguous [OF authority_reachable_inv [OF assms(1)]]]
  by simp

definition ex_query :: EdgeDeliveryQuery where
  "ex_query = \<lparr>edq_TenantID = ''t'', edq_EdgeID = ''e'', edq_PrincipalID = ''p'',
     edq_EdgeGeneration = 1, edq_AfterSequence = 1, edq_Limit = 10\<rparr>"

theorem edge_page_exact_witness:
  "\<exists>page. ListEdgeDeliveries ex_store None ex_query ex_db3 = Inr page
    \<and> page = log_page (edge_rows ''t'' ''e'' 1 ex_db3) 1 10
    \<and> map ed_Kind (edp_Deliveries page) = [''advice'']"
proof -
  have "\<exists>page. ListEdgeDeliveries ex_store None ex_query ex_db3 = Inr page
      \<and> map ed_Kind (edp_Deliveries page) = [''advice'']"
    by (simp add: ListEdgeDeliveries_def EdgeDeliveryQuery_Validate_def validText_def ex_query_def
        edge_rows_def ex_db3_def ex_db2_def ex_defs high_water_update_def high_water_of_def edge_page_def Let_def)
  then obtain page where page: "ListEdgeDeliveries ex_store None ex_query ex_db3 = Inr page"
    "map ed_Kind (edp_Deliveries page) = [''advice'']" by (elim exE conjE)
  have q: "edq_TenantID ex_query = ''t''" "edq_EdgeID ex_query = ''e''" "edq_EdgeGeneration ex_query = 1"
    "edq_AfterSequence ex_query = 1" "edq_Limit ex_query = 10"
    by (simp_all add: ex_query_def)
  show ?thesis
    using edge_page_exact [OF ex_reachable(3) page(1)] page unfolding q by (intro exI conjI)
qed

section \<open>Projection facts\<close>

lemma tenant_facts_distinct:
  assumes "authority_inv db"
  shows "distinct (map pf_AuthorityRevision (tenant_facts t db))"
proof -
  have d: "distinct (fact_revisions db)"
    using assms by (simp add: authority_inv_def revisions_ordered_def)
  have "map pf_AuthorityRevision (tenant_facts t db) =
      map cr_AuthorityRevision (filter (\<lambda>c. cr_TenantID c = t) (authority_cases db))
      @ map adv_commit_revision (filter (\<lambda>a. adv_tenant_id a = t) (authority_advice db))"
    by (simp add: tenant_facts_def case_fact_def advice_fact_def comp_def)
  moreover have "distinct (map cr_AuthorityRevision (filter (\<lambda>c. cr_TenantID c = t) (authority_cases db)))"
    "distinct (map adv_commit_revision (filter (\<lambda>a. adv_tenant_id a = t) (authority_advice db)))"
    using d by (auto simp: fact_revisions_def intro: distinct_map_filter)
  moreover have "cr_AuthorityRevision ` set (authority_cases db) \<inter> adv_commit_revision ` set (authority_advice db) = {}"
    using d by (auto simp: fact_revisions_def)
  ultimately show ?thesis by auto
qed

lemma take_sorted_prefix:
  assumes "sorted_wrt (<) (map f xs)" "x \<in> set xs"
  shows "x \<in> set (take n xs) \<or> length (take n xs) = n \<and> (\<forall>y \<in> set (take n xs). f y < (f x :: int))"
proof (cases "x \<in> set (take n xs)")
  case False
  then have late: "x \<in> set (drop n xs)" using assms(2) by (metis append_take_drop_id Un_iff set_append)
  have "sorted_wrt (<) (map f (take n xs) @ map f (drop n xs))"
    using assms(1) by (metis append_take_drop_id map_append)
  with late show ?thesis by (auto simp: sorted_wrt_append)
qed simp

text \<open>
  Paging through the committed facts never skips one.  In any reachable state a page of projection
  facts lists facts of the tenant after the cursor in strictly increasing revision order, and every
  committed case or advice of the tenant after the cursor is either on the page or lies beyond a full
  page, behind everything the page lists.
\<close>

theorem projection_page_exact:
  assumes "authority_reachable s db" and "ListProjectionFacts s fault q db = Inr page"
  shows "sorted_wrt (<) (map pf_AuthorityRevision (pfp_Facts page))
    \<and> set (pfp_Facts page) \<subseteq> {f \<in> set (tenant_facts (pfq_TenantID q) db).
          pfq_AfterAuthoritySequence q < pf_AuthorityRevision f}
    \<and> (\<forall>f \<in> set (tenant_facts (pfq_TenantID q) db). pfq_AfterAuthoritySequence q < pf_AuthorityRevision f \<longrightarrow>
         f \<in> set (pfp_Facts page)
         \<or> int (length (pfp_Facts page)) = pfq_Limit q
           \<and> (\<forall>g \<in> set (pfp_Facts page). pf_AuthorityRevision g < pf_AuthorityRevision f))"
proof -
  let ?facts = "tenant_facts (pfq_TenantID q) db"
  let ?sorted = "sort_key pf_AuthorityRevision (filter (\<lambda>f. pf_AuthorityRevision f > pfq_AfterAuthoritySequence q) ?facts)"
  have page: "pfp_Facts page = take (nat (pfq_Limit q)) ?sorted" and lim: "0 < pfq_Limit q"
    using assms(2)
    by (auto simp: ListProjectionFacts_def ProjectionFactQuery_Validate_def Let_def split: if_splits option.splits)
  have "distinct (map pf_AuthorityRevision ?facts)"
    using tenant_facts_distinct authority_reachable_inv [OF assms(1)] by blast
  then have "distinct (map pf_AuthorityRevision ?sorted)"
    by (simp add: distinct_map_filter distinct_map inj_on_def)
  then have strict: "sorted_wrt (<) (map pf_AuthorityRevision ?sorted)"
    by (simp add: strict_sorted_iff)
  have "sorted_wrt (<) (map pf_AuthorityRevision (pfp_Facts page))"
    unfolding page using strict by (simp add: take_map [symmetric] sorted_wrt_take)
  moreover have "set (pfp_Facts page) \<subseteq> set ?sorted" unfolding page by (rule set_take_subset)
  moreover have "f \<in> set (pfp_Facts page) \<or> int (length (pfp_Facts page)) = pfq_Limit q
      \<and> (\<forall>g \<in> set (pfp_Facts page). pf_AuthorityRevision g < pf_AuthorityRevision f)" if "f \<in> set ?sorted" for f
    using take_sorted_prefix [OF strict that, of "nat (pfq_Limit q)"] lim unfolding page by auto
  ultimately show ?thesis by auto
qed

theorem projection_page_exact_witness:
  "\<exists>page. ListProjectionFacts ex_store None \<lparr>pfq_TenantID = ''t'', pfq_AfterAuthoritySequence = 1, pfq_Limit = 1\<rparr> ex_db3 = Inr page
    \<and> sorted_wrt (<) (map pf_AuthorityRevision (pfp_Facts page)) \<and> map pf_AuthorityRevision (pfp_Facts page) = [2]"
proof -
  let ?q = "\<lparr>pfq_TenantID = ''t'', pfq_AfterAuthoritySequence = 1, pfq_Limit = 1\<rparr>"
  have "\<exists>page. ListProjectionFacts ex_store None ?q ex_db3 = Inr page
      \<and> map pf_AuthorityRevision (pfp_Facts page) = [2]"
    by (simp add: ListProjectionFacts_def ProjectionFactQuery_Validate_def validText_def
        tenant_facts_def case_fact_def advice_fact_def ex_db3_def ex_db2_def ex_defs Let_def)
  then obtain page where page: "ListProjectionFacts ex_store None ?q ex_db3 = Inr page"
    "map pf_AuthorityRevision (pfp_Facts page) = [2]" by (elim exE conjE)
  from projection_page_exact [OF ex_reachable(3) page(1)] page show ?thesis by (intro exI conjI) auto
qed

end
