(* ===== verification/Outbox_Properties.thy ===== *)
theory Outbox_Properties
  imports Authority_Example
begin

text \<open>
  The life of an outbox row over arbitrary runs of the authority: which step may change a row, that a
  live lease is fenced by its token, that a closed row stays closed, the bound on attempts, and that a
  claim always leases exactly the rows its query selects.
\<close>

section \<open>What a commit does to the outbox\<close>

definition fresh_row :: "outbox_row \<Rightarrow> bool" where
  "fresh_row o' \<longleftrightarrow> open_row o' \<and> ob_attempts o' = 0 \<and> ob_lease_token o' = None \<and> ob_lease_until o' = None"

definition outbox_grows :: "authority_db \<Rightarrow> authority_db \<Rightarrow> bool" where
  "outbox_grows db db' \<longleftrightarrow>
    (\<exists>new. authority_outbox db' = authority_outbox db @ new \<and> list_all fresh_row new)"

lemma fresh_row_new: "fresh_row (fresh_outbox_row tx t k e raw n d)"
  by (simp add: fresh_row_def open_row_def fresh_outbox_row_def)

lemma outbox_grows_refl: "authority_outbox db' = authority_outbox db \<Longrightarrow> outbox_grows db db'"
  by (simp add: outbox_grows_def)

lemma outbox_grows_commit:
  "outbox_grows db (case_commit_db tx r db)" "outbox_grows db (advice_commit_db tx r2 c db)"
  "outbox_grows db (registry_commit_db r3 db)" "outbox_grows db (halted_db t reason h db)"
  by (simp_all add: outbox_grows_def case_commit_db_def advice_commit_db_def registry_commit_db_def
      halted_db_def Let_def list_all_iff fresh_row_new)

lemma CommitCase_work_grows:
  assumes w: "CommitCase_work s r tx db = ((rc, cm, err), db')" and ok: "err = None \<or> cm"
  shows "outbox_grows db db'"
proof -
  from w ok have err: "err = None" using CommitCase_work_err by (cases err) blast+
  show ?thesis
  proof (cases "existingCase r db = Inr None")
    case True
    with CommitCase_work_ok w err have "db' = case_commit_db tx r db" by blast
    then show ?thesis by (simp add: outbox_grows_commit)
  next
    case False
    with w err have "db' = db"
      by (auto simp: CommitCase_work_def work_fail_def split: sum.splits option.splits)
    then show ?thesis by (simp add: outbox_grows_refl)
  qed
qed

lemma CommitAdvice_work_grows:
  assumes w: "CommitAdvice_work s r tx db = ((rc, cm, err), db')" and ok: "err = None \<or> cm"
  shows "outbox_grows db db'"
proof -
  from w ok have err: "err = None" using CommitAdvice_work_err by (cases err) blast+
  show ?thesis
  proof (cases "\<exists>stored. existingAdvice r db = Inr (Some stored)")
    case True
    with CommitAdvice_work_replay w err have "db' = db" by blast
    then show ?thesis by (simp add: outbox_grows_refl)
  next
    case False
    then have nf: "existingAdvice r db \<noteq> Inr (Some stored)" for stored by blast
    from w err have "CommitAdvice_work s r tx db = ((rc, cm, None), db')" by simp
    from CommitAdvice_work_ok [OF this nf] obtain c where "db' = advice_commit_db tx r c db" by metis
    then show ?thesis by (simp add: outbox_grows_commit)
  qed
qed

lemma CommitRegistry_work_grows:
  assumes "CommitRegistry_work s r tx db = ((rc, cm, err), db')" and "err = None \<or> cm"
  shows "outbox_grows db db'"
  using assms(1)
  by (cases rule: CommitRegistry_work_cases) (use assms(2) in \<open>auto simp: outbox_grows_commit outbox_grows_refl\<close>)

lemma transaction_attempt_grows:
  assumes "\<And>tx rc cm err db'. work tx db = ((rc, cm, err), db') \<Longrightarrow> err = None \<or> cm \<Longrightarrow> outbox_grows db db'"
  shows "outbox_grows db (snd (transaction_attempt work pool env db))"
proof -
  let ?tx = "\<lparr>tx_timestamptz = pool_timestamptz pool, tx_clock = at_clock env\<rparr>"
  obtain rc cm err db1 where w: "run_work env (work ?tx) db = ((rc, cm, err), db1)" by (metis prod.exhaust)
  have ok: "outbox_grows db db1" if c: "err = None \<or> cm"
  proof (cases "at_work env")
    case None
    with w have "work ?tx db = ((rc, cm, err), db1)" by (simp add: run_work_def)
    from assms [OF this c] show ?thesis .
  next
    case (Some f)
    with w c show ?thesis by (cases f) (auto simp: run_work_def work_fail_def)
  qed
  show ?thesis
    using ok
    by (auto simp: transaction_attempt_def w rolled_back_def intro: outbox_grows_refl split: option.splits)
qed

text \<open>Every step of the authority appends fresh rows to the outbox or is one of the outbox operations.\<close>

lemma authority_step_outbox:
  assumes "authority_step s db db'"
  obtains (commit) "outbox_grows db db'"
  | (claim) env w limit lease where "db' = snd (Claim s env w limit lease db)"
  | (publish) fault now i k where "db' = snd (MarkPublished s fault now i k db)"
  | (release) fault now i k t r where "db' = snd (Release s fault now i k t r db)"
  using assms
proof cases
  case (case_attempt pool r env)
  with transaction_attempt_grows [of "CommitCase_work s r" db pool env, OF CommitCase_work_grows] commit
  show thesis by simp
next
  case (advice_attempt pool r env)
  with transaction_attempt_grows [of "CommitAdvice_work s r" db pool env, OF CommitAdvice_work_grows] commit
  show thesis by simp
next
  case (registry_attempt pool r env)
  with transaction_attempt_grows [of "CommitRegistry_work s r" db pool env, OF CommitRegistry_work_grows] commit
  show thesis by simp
next
  case claim': (claim cenv worker limit lease)
  then show thesis by (rule claim)
next
  case (mark_published fault now item token)
  then show thesis by (rule publish)
next
  case release': (release fault now item token retry reason)
  then show thesis by (rule release)
qed

section \<open>What an outbox operation does to a row\<close>

lemma update_rows_keep: "r \<in> set rows \<Longrightarrow> \<not> p r \<Longrightarrow> r \<in> set (update_rows p f rows)"
  by (force simp: update_rows_def)

lemma outbox_grows_keep: "outbox_grows db db' \<Longrightarrow> o' \<in> set (authority_outbox db) \<Longrightarrow> o' \<in> set (authority_outbox db')"
  by (auto simp: outbox_grows_def)

lemma MarkPublished_keep:
  "o' \<in> set (authority_outbox db) \<Longrightarrow> \<not> holds_lease i k now o' \<Longrightarrow>
    o' \<in> set (authority_outbox (snd (MarkPublished s fault now i k db)))"
  by (auto simp: MarkPublished_def Let_def update_rows_keep split: option.split)

lemma Release_keep:
  "o' \<in> set (authority_outbox db) \<Longrightarrow> \<not> holds_lease i k now o' \<Longrightarrow>
    o' \<in> set (authority_outbox (snd (Release s fault now i k t r db)))"
  by (auto simp: Release_def Let_def update_rows_keep split: option.split)

lemma select_claims_D:
  "i \<in> set (select_claims now locked limit db) \<Longrightarrow>
    \<exists>o' \<in> set (authority_outbox db). ob_outbox_id o' = i \<and> claimable now locked o'"
  by (auto simp: select_claims_def dest!: in_set_takeD)

lemma distinct_key_eq:
  "distinct (map f xs) \<Longrightarrow> x \<in> set xs \<Longrightarrow> y \<in> set xs \<Longrightarrow> f x = f y \<Longrightarrow> x = y"
  by (auto simp: distinct_map inj_on_def)

lemma Claim_keep:
  assumes "authority_inv db" and row: "o' \<in> set (authority_outbox db)"
    and "\<not> claimable (ce_select_clock env) (ce_locked env) o'"
  shows "o' \<in> set (authority_outbox (snd (Claim s env w limit lease db)))"
proof -
  let ?ids = "select_claims (ce_select_clock env) (ce_locked env) limit db"
  have dist: "distinct (map ob_outbox_id (authority_outbox db))"
    using assms(1) by (simp add: authority_inv_def keys_unique_def)
  have out: "ob_outbox_id o' \<notin> set ?ids"
  proof
    assume "ob_outbox_id o' \<in> set ?ids"
    from select_claims_D [OF this] obtain o1 where
      "o1 \<in> set (authority_outbox db)" "ob_outbox_id o1 = ob_outbox_id o'"
      "claimable (ce_select_clock env) (ce_locked env) o1" by blast
    with distinct_key_eq [OF dist, of o1 o'] row assms(3) show False by simp
  qed
  have kept: "o' \<in> set (authority_outbox db')" if "claim_loop env w lease ?ids 0 db = Inr (items, db')" for items db'
  proof (rule claim_loop_induct [OF that, of "\<lambda>db. o' \<in> set (authority_outbox db)"])
    fix i n and db1 :: authority_db
    assume i: "i \<in> set ?ids" and "o' \<in> set (authority_outbox db1)"
    moreover from i out have "ob_outbox_id o' \<noteq> i" by blast
    ultimately show "o' \<in> set (authority_outbox (db1\<lparr>authority_outbox := update_rows (\<lambda>o'. ob_outbox_id o' = i \<and> open_row o')
        (leased_row w (ce_uuid env n) (ce_clock env n + lease div 1000 * 1000)) (authority_outbox db1)\<rparr>))"
      by (simp add: update_rows_keep)
  qed (rule row)
  show ?thesis
  proof (cases "claim_loop env w lease ?ids 0 db")
    case (Inr res)
    obtain items db' where res: "res = (items, db')" by fastforce
    from kept [OF Inr [unfolded res]] row show ?thesis
      by (simp add: Claim_def Inr res split: option.split)
  qed (simp add: Claim_def row split: option.split)
qed

lemma closed_not_leasable:
  "\<not> open_row o' \<Longrightarrow> \<not> claimable now locked o' \<and> \<not> holds_lease i k now' o'"
  by (simp add: claimable_def holds_lease_def)

lemma closed_row_step:
  assumes "authority_step s db db'" and inv: "authority_inv db"
    and row: "o' \<in> set (authority_outbox db)" "\<not> open_row o'"
  shows "o' \<in> set (authority_outbox db')"
  using assms(1)
proof (cases rule: authority_step_outbox)
  case commit
  then show ?thesis by (rule outbox_grows_keep) (rule row)
next
  case (claim env w limit lease)
  with Claim_keep [OF inv row(1)] closed_not_leasable [OF row(2)] show ?thesis by blast
next
  case (publish fault now i k)
  with MarkPublished_keep [OF row(1)] closed_not_leasable [OF row(2)] show ?thesis by blast
next
  case (release fault now i k t r)
  with Release_keep [OF row(1)] closed_not_leasable [OF row(2)] show ?thesis by blast
qed

section \<open>Closed rows\<close>

text \<open>
  C13. A row that has been published or poisoned is never touched again: whatever the authority does
  afterwards (new commits, claims, publish and release calls with any token and clock), the row stays in
  the outbox exactly as it was closed.
\<close>

theorem closed_outbox_row_final:
  assumes "authority_reachable s db" and "(authority_step s)\<^sup>*\<^sup>* db db'"
    and "o' \<in> set (authority_outbox db)" and "\<not> open_row o'"
  shows "o' \<in> set (authority_outbox db')"
  using assms(2)
proof (induction rule: rtranclp_induct)
  case (step db1 db2)
  then have "authority_inv db1" using authority_reachable_inv [OF assms(1)] authority_steps_inv by blast
  from closed_row_step [OF step(2) this step(3) assms(4)] show ?case .
qed (rule assms(3))

section \<open>Live leases\<close>

text \<open>
  C16. A live lease is exclusive and fenced by its token.  While the lease of a row runs until
  \<^term>\<open>u\<close>, a claim whose query reads an earlier clock does not touch the row, and closing it as
  published or releasing it with another token, or at or after \<^term>\<open>u\<close>, leaves it as it is and answers
  \<^const>\<open>ErrStaleOutboxLease\<close>.
\<close>

theorem live_lease_fenced:
  assumes "authority_reachable s db" and row: "o' \<in> set (authority_outbox db)"
    and lease: "ob_lease_token o' = Some k" "ob_lease_until o' = Some u"
  shows "(ce_select_clock env < u \<longrightarrow> o' \<in> set (authority_outbox (snd (Claim s env w limit len db))))
    \<and> (k' \<noteq> k \<or> u \<le> now \<longrightarrow>
        o' \<in> set (authority_outbox (snd (MarkPublished s fault now (ob_outbox_id o') k' db)))
        \<and> o' \<in> set (authority_outbox (snd (Release s fault now (ob_outbox_id o') k' t r db)))
        \<and> (store_pool s \<noteq> None \<and> \<not> blank (ob_outbox_id o') \<and> \<not> blank k' \<longrightarrow>
             fst (MarkPublished s None now (ob_outbox_id o') k' db) = Some ErrStaleOutboxLease))"
proof (intro conjI impI)
  have inv: "authority_inv db" by (rule authority_reachable_inv [OF assms(1)])
  assume "ce_select_clock env < u"
  then have "\<not> claimable (ce_select_clock env) (ce_locked env) o'" using lease by (simp add: claimable_def)
  from Claim_keep [OF inv row this] show "o' \<in> set (authority_outbox (snd (Claim s env w limit len db)))" .
next
  assume other: "k' \<noteq> k \<or> u \<le> now"
  then have not_held: "\<not> holds_lease (ob_outbox_id o') k' now o'" using lease by (auto simp: holds_lease_def)
  from MarkPublished_keep [OF row this]
  show "o' \<in> set (authority_outbox (snd (MarkPublished s fault now (ob_outbox_id o') k' db)))" .
  from Release_keep [OF row not_held]
  show "o' \<in> set (authority_outbox (snd (Release s fault now (ob_outbox_id o') k' t r db)))" .
  assume "store_pool s \<noteq> None \<and> \<not> blank (ob_outbox_id o') \<and> \<not> blank k'"
  moreover have "distinct (map ob_outbox_id (authority_outbox db))"
    using authority_reachable_inv [OF assms(1)] by (simp add: authority_inv_def keys_unique_def)
  then have "\<not> holds_lease (ob_outbox_id o') k' now o1" if "o1 \<in> set (authority_outbox db)" for o1
    using distinct_key_eq [OF _ that row] not_held by (auto simp: holds_lease_def)
  then have "filter (holds_lease (ob_outbox_id o') k' now) (authority_outbox db) = []"
    by (simp add: filter_empty_conv)
  ultimately show "fst (MarkPublished s None now (ob_outbox_id o') k' db) = Some ErrStaleOutboxLease"
    by (simp add: MarkPublished_def rows_affected_def)
qed

section \<open>Attempts\<close>

definition attempts_bounded :: "outbox_row \<Rightarrow> bool" where
  "attempts_bounded o' \<longleftrightarrow> 0 \<le> ob_attempts o' \<and> ob_attempts o' \<le> maxOutboxAttempts
    \<and> (ob_poisoned_at o' \<noteq> None \<longleftrightarrow> ob_attempts o' = maxOutboxAttempts)
    \<and> (ob_poisoned_at o' = None \<or> ob_published_at o' = None)"

lemma attempts_bounded_updates:
  "fresh_row o' \<Longrightarrow> attempts_bounded o'"
  "attempts_bounded o' \<Longrightarrow> attempts_bounded (leased_row w k u o')"
  "attempts_bounded o' \<Longrightarrow> holds_lease i k now o' \<Longrightarrow> attempts_bounded (published_row now' o')"
  "attempts_bounded o' \<Longrightarrow> holds_lease i k now o' \<Longrightarrow> attempts_bounded (released_row now' t r o')"
  by (auto simp: attempts_bounded_def fresh_row_def open_row_def leased_row_def published_row_def
      released_row_def holds_lease_def maxOutboxAttempts_def)

abbreviation all_bounded :: "authority_db \<Rightarrow> bool" where
  "all_bounded db \<equiv> list_all attempts_bounded (authority_outbox db)"

lemma attempts_bounded_step:
  assumes "authority_step s db db'" and bounded: "all_bounded db"
  shows "all_bounded db'"
  using assms(1)
proof (cases rule: authority_step_outbox)
  case commit
  then show ?thesis
    using bounded attempts_bounded_updates(1) by (auto simp: outbox_grows_def list_all_iff)
next
  case (claim env w limit lease)
  have "all_bounded (snd (Claim s env w limit lease db))"
    by (rule Claim_induct [where P = all_bounded])
      (auto intro!: bounded list_all_update_rows attempts_bounded_updates(2))
  with claim show ?thesis by simp
next
  case (publish fault now i k)
  with bounded show ?thesis
    by (auto simp: MarkPublished_def Let_def intro!: list_all_update_rows intro: attempts_bounded_updates(3)
        split: option.split)
next
  case (release fault now i k t r)
  with bounded show ?thesis
    by (auto simp: Release_def Let_def intro!: list_all_update_rows intro: attempts_bounded_updates(4)
        split: option.split)
qed

text \<open>
  In every reachable state each outbox row has been released between 0 and
  \<^const>\<open>maxOutboxAttempts\<close> times, it is poisoned exactly when that limit was reached, and no row is both
  published and poisoned.
\<close>

theorem outbox_attempts_bounded:
  assumes "authority_reachable s db" and "o' \<in> set (authority_outbox db)"
  shows "0 \<le> ob_attempts o' \<and> ob_attempts o' \<le> 20 \<and> (ob_poisoned_at o' \<noteq> None \<longleftrightarrow> ob_attempts o' = 20)
    \<and> (ob_poisoned_at o' = None \<or> ob_published_at o' = None)"
proof -
  have "all_bounded db"
    using assms(1) by (induction rule: authority_reachable_induct)
      (auto simp: empty_db_def intro: attempts_bounded_step)
  with assms(2) show ?thesis by (auto simp: list_all_iff attempts_bounded_def maxOutboxAttempts_def)
qed

section \<open>A claim leases exactly what it selects\<close>

lemma filter_distinct_key:
  assumes "distinct (map f xs)" and "x \<in> set xs" and "p x"
  shows "filter (\<lambda>y. f y = f x \<and> p y) xs = [x]"
  using assms
proof (induction xs)
  case (Cons a xs)
  show ?case
  proof (cases "x = a")
    case True
    with Cons.prems have "filter (\<lambda>y. f y = f x \<and> p y) xs = []" by (force simp: filter_empty_conv image_iff)
    with True Cons.prems show ?thesis by simp
  next
    case False
    with Cons.prems have "x \<in> set xs" "f a \<noteq> f x" by auto
    with Cons show ?thesis by simp
  qed
qed simp

lemma leased_row_lease [simp]:
  "ob_outbox_id (leased_row w k u o') = ob_outbox_id o'" "ob_lease_token (leased_row w k u o') = Some k"
  "ob_lease_until (leased_row w k u o') = Some u" "open_row (leased_row w k u o') = open_row o'"
  by (simp_all add: leased_row_def open_row_def)

lemma claim_loop_total:
  assumes "distinct (map ob_outbox_id (authority_outbox db))" and "distinct ids"
    and "\<forall>i \<in> set ids. \<exists>o' \<in> set (authority_outbox db). ob_outbox_id o' = i \<and> open_row o'"
  shows "\<exists>items db'. claim_loop env w lease ids n db = Inr (items, db') \<and> map it_ID items = ids
    \<and> map it_LeaseToken items = map (ce_uuid env) [n..<n + length ids]"
  using assms
proof (induction ids arbitrary: n db)
  case (Cons i ids)
  let ?p = "\<lambda>o'. ob_outbox_id o' = i \<and> open_row o'"
  let ?f = "leased_row w (ce_uuid env n) (ce_clock env n + (lease div 1000) * 1000)"
  let ?db = "db\<lparr>authority_outbox := update_rows ?p ?f (authority_outbox db)\<rparr>"
  obtain o' where o': "o' \<in> set (authority_outbox db)" "ob_outbox_id o' = i" "open_row o'"
    using Cons.prems(3) by auto
  have one: "rows_affected ?p (authority_outbox db) = 1"
    using filter_distinct_key [where p = open_row, OF Cons.prems(1) o'(1) o'(3)] o'(2) by (simp add: rows_affected_def)
  have keys: "map ob_outbox_id (authority_outbox ?db) = map ob_outbox_id (authority_outbox db)"
    by (simp add: map_update_rows leased_row_def)
  have "?f o' \<in> set (authority_outbox ?db)" using o' by (force simp: update_rows_def)
  then have "find (\<lambda>o'. ob_outbox_id o' = i \<and> ob_lease_token o' = Some (ce_uuid env n)) (authority_outbox ?db) \<noteq> None"
    unfolding find_None_iff using o'(2)
    by (metis (mono_tags, lifting) leased_row_lease)
  then obtain o1 where o1: "find (\<lambda>o'. ob_outbox_id o' = i \<and> ob_lease_token o' = Some (ce_uuid env n)) (authority_outbox ?db) = Some o1"
    by blast
  then have "ob_outbox_id o1 = i" by (auto simp: find_Some_iff)
  with o1 have item: "readClaimedOutboxItem i (ce_uuid env n) ?db = Inr (outbox_item (ce_uuid env n) o1 ?db)"
    "it_ID (outbox_item (ce_uuid env n) o1 ?db) = i"
    "it_LeaseToken (outbox_item (ce_uuid env n) o1 ?db) = ce_uuid env n"
    by (simp_all add: readClaimedOutboxItem_def outbox_item_def Let_def)
  have "\<exists>o' \<in> set (authority_outbox ?db). ob_outbox_id o' = j \<and> open_row o'" if j: "j \<in> set ids" for j
  proof -
    obtain oj where "oj \<in> set (authority_outbox db)" "ob_outbox_id oj = j" "open_row oj"
      using Cons.prems(3) j by auto
    moreover have "j \<noteq> i" using Cons.prems(2) j by auto
    ultimately show ?thesis by (force simp: update_rows_keep)
  qed
  then obtain items db' where rest: "claim_loop env w lease ids (Suc n) ?db = Inr (items, db')"
    "map it_ID items = ids" "map it_LeaseToken items = map (ce_uuid env) [Suc n..<Suc n + length ids]"
    using Cons.IH [of ?db "Suc n"] Cons.prems keys by auto
  have step: "claim_loop env w lease (i # ids) n db = Inr (outbox_item (ce_uuid env n) o1 ?db # items, db')"
    unfolding claim_loop_Cons_Inr using one item(1) rest(1) by blast
  have "[n..<n + length (i # ids)] = n # [Suc n..<Suc n + length ids]"
    by (simp add: upt_conv_Cons del: upt_Suc)
  with step item rest(2,3) show ?case by (intro exI conjI) auto
qed simp

text \<open>The lease a claim of \<open>ids\<close> writes on a row: that of the round of its identifier, if it is selected.\<close>

fun lease_selected :: "claim_env \<Rightarrow> string \<Rightarrow> int \<Rightarrow> string list \<Rightarrow> nat \<Rightarrow> outbox_row \<Rightarrow> outbox_row" where
  "lease_selected env w lease [] n o' = o'"
| "lease_selected env w lease (i # ids) n o' =
    (if ob_outbox_id o' = i then leased_row w (ce_uuid env n) (ce_clock env n + (lease div 1000) * 1000) o'
     else lease_selected env w lease ids (Suc n) o')"

lemma lease_selected_other [simp]: "ob_outbox_id o' \<notin> set ids \<Longrightarrow> lease_selected env w lease ids n o' = o'"
  by (induction ids arbitrary: n) auto

lemma claim_loop_effect:
  assumes "claim_loop env w lease ids n db = Inr (items, db')" and "distinct ids"
    and "distinct (map ob_outbox_id (authority_outbox db))"
  shows "db' = db\<lparr>authority_outbox := map (lease_selected env w lease ids n) (authority_outbox db)\<rparr>"
  using assms
proof (induction ids arbitrary: n db items)
  case Nil
  have "map (lease_selected env w lease [] n) rows = rows" for rows by (simp add: map_idI)
  with Nil show ?case by simp
next
  case (Cons i ids)
  let ?p = "\<lambda>o'. ob_outbox_id o' = i \<and> open_row o'"
  let ?f = "leased_row w (ce_uuid env n) (ce_clock env n + (lease div 1000) * 1000)"
  let ?db = "db\<lparr>authority_outbox := update_rows ?p ?f (authority_outbox db)\<rparr>"
  obtain items' where one: "rows_affected ?p (authority_outbox db) = 1"
    and rest: "claim_loop env w lease ids (Suc n) ?db = Inr (items', db')"
    using Cons.prems(1) unfolding claim_loop_Cons_Inr by blast
  from one have "filter ?p (authority_outbox db) \<noteq> []" by (auto simp: rows_affected_def)
  then obtain o1 where o1: "o1 \<in> set (authority_outbox db)" "?p o1" by (auto simp: filter_empty_conv)
  have "open_row o'" if "o' \<in> set (authority_outbox db)" "ob_outbox_id o' = i" for o'
    using that o1 Cons.prems(3) by (auto simp: distinct_map dest: inj_onD)
  then have "lease_selected env w lease ids (Suc n) (if ?p o' then ?f o' else o') = lease_selected env w lease (i # ids) n o'"
    if "o' \<in> set (authority_outbox db)" for o' using that Cons.prems(2) by auto
  then have "map (lease_selected env w lease ids (Suc n)) (authority_outbox ?db)
      = map (lease_selected env w lease (i # ids) n) (authority_outbox db)"
    by (simp add: update_rows_def)
  moreover have "distinct (map ob_outbox_id (authority_outbox ?db))"
    using Cons.prems(3) by (simp add: map_update_rows)
  ultimately show ?case using Cons.IH [OF rest] Cons.prems(2) by simp
qed

lemma select_claims_distinct:
  assumes "distinct (map ob_outbox_id (authority_outbox db))"
  shows "distinct (select_claims now locked limit db)"
proof -
  let ?rows = "sort_key (\<lambda>o'. (ob_next_attempt_at o', ob_created_at o', ob_outbox_id o'))
        (filter (claimable now locked) (authority_outbox db))"
  have "distinct (map ob_outbox_id ?rows)"
    using assms by (auto simp: distinct_map inj_on_def)
  then show ?thesis unfolding select_claims_def by (simp add: take_map [symmetric])
qed

text \<open>
  C21. A claim always makes progress: in any reachable state a well-formed claim that no error ends leases
  exactly the rows its query selects, in the order of the query and with the tokens drawn for it, never
  fails with a stale lease, returns no item twice, and takes every claimable row when there is room for
  them all.  In the database a selected row gets the worker as lease owner, the token drawn for it and the
  end of its lease, in whole microseconds from the clock of its update; no other row and no other column,
  the attempt counter included, changes.
\<close>

theorem claim_leases_selection:
  assumes reach: "authority_reachable s db" and pool: "store_pool s \<noteq> None"
    and args: "\<not> blank w" "0 < limit" "limit \<le> MaxBatchSize" "0 < len" "len \<le> MaxLease"
    and quiet: "ce_fault env = None" "ce_commit env = None"
  shows "\<exists>items db'. Claim s env w limit len db = (Inr items, db')
    \<and> map it_ID items = select_claims (ce_select_clock env) (ce_locked env) limit db
    \<and> map it_LeaseToken items = map (ce_uuid env) [0..<length items]
    \<and> distinct (map it_ID items) \<and> int (length items) \<le> limit
    \<and> (int (length (filter (claimable (ce_select_clock env) (ce_locked env)) (authority_outbox db))) \<le> limit \<longrightarrow>
         set (map it_ID items) = ob_outbox_id ` {o' \<in> set (authority_outbox db).
            claimable (ce_select_clock env) (ce_locked env) o'})
    \<and> db' = db\<lparr>authority_outbox := map (lease_selected env w len (map it_ID items) 0) (authority_outbox db)\<rparr>"
proof -
  let ?ids = "select_claims (ce_select_clock env) (ce_locked env) limit db"
  have dist: "distinct (map ob_outbox_id (authority_outbox db))"
    using authority_reachable_inv [OF reach] by (simp add: authority_inv_def keys_unique_def)
  have "\<forall>i \<in> set ?ids. \<exists>o' \<in> set (authority_outbox db). ob_outbox_id o' = i \<and> open_row o'"
  proof
    fix i
    assume "i \<in> set ?ids"
    from select_claims_D [OF this] show "\<exists>o' \<in> set (authority_outbox db). ob_outbox_id o' = i \<and> open_row o'"
      by (auto simp: claimable_def)
  qed
  from claim_loop_total [OF dist select_claims_distinct [OF dist] this, of env w len 0]
  obtain items db' where loop: "claim_loop env w len ?ids 0 db = Inr (items, db')"
    and ids: "map it_ID items = ?ids" and toks: "map it_LeaseToken items = map (ce_uuid env) [0..<0 + length ?ids]"
    by blast
  have len: "length items = length ?ids" by (simp flip: ids)
  have "int (length ?ids) \<le> limit" using args(2) by (simp add: select_claims_def)
  moreover have "set ?ids = ob_outbox_id ` {o' \<in> set (authority_outbox db).
      claimable (ce_select_clock env) (ce_locked env) o'}"
    if "int (length (filter (claimable (ce_select_clock env) (ce_locked env)) (authority_outbox db))) \<le> limit"
    using that args(2) by (simp add: select_claims_def)
  moreover have "Claim s env w limit len db = (Inr items, db')"
    using pool args quiet by (simp add: Claim_def loop)
  moreover have "map it_LeaseToken items = map (ce_uuid env) [0..<length items]" using toks len by simp
  moreover have "distinct (map it_ID items)" unfolding ids by (rule select_claims_distinct [OF dist])
  moreover have "db' = db\<lparr>authority_outbox := map (lease_selected env w len ?ids 0) (authority_outbox db)\<rparr>"
    by (rule claim_loop_effect [OF loop select_claims_distinct [OF dist] dist])
  ultimately show ?thesis unfolding len [symmetric] ids [symmetric]
    by (intro exI conjI impI) (assumption | rule refl | simp only: length_map)+
qed

section \<open>The properties on a concrete run\<close>

definition ex_id :: string where
  "ex_id = deterministicOutboxID [''t'', ''case'', ''c'', ''2'', ''domain_dispatch'', ''d'']"

definition ex_claim :: claim_env where
  "ex_claim = \<lparr>ce_locked = (\<lambda>i. i \<noteq> ex_id), ce_select_clock = 8000, ce_uuid = (\<lambda>_. ''token''),
     ce_clock = (\<lambda>_. 8000), ce_fault = None, ce_commit = None\<rparr>"

definition ex_row :: outbox_row where
  "ex_row = fresh_outbox_row \<lparr>tx_timestamptz = pool_timestamptz ex_pool, tx_clock = 7000\<rparr>
     ''t'' ''case'' ''c'' ''case'' 2 \<lparr>dest_kind = ''domain_dispatch'', dest_key = ''d''\<rparr>"

definition ex_db4 :: authority_db where
  "ex_db4 = snd (Claim ex_store ex_claim ''w'' 10 1000000000 ex_db3)"

definition ex_db5 :: authority_db where
  "ex_db5 = snd (MarkPublished ex_store None 9000 ex_id ''token'' ex_db4)"

lemma ex_reachable_outbox: "authority_reachable ex_store ex_db4" "authority_reachable ex_store ex_db5"
proof -
  show *: "authority_reachable ex_store ex_db4"
    unfolding ex_db4_def using ex_reachable(3) authority_step.claim by (rule authority_reachable_step)
  show "authority_reachable ex_store ex_db5"
    unfolding ex_db5_def using * authority_step.mark_published by (rule authority_reachable_step)
qed

lemma ex_not_blank [simp]: "\<not> blank ''w''" "\<not> blank ''token''" "\<not> blank ''other''" "\<not> blank ex_id"
  by (simp_all add: ex_id_def deterministicOutboxID_def sha256_text_def)

lemma ex_outbox3: "\<exists>o2 o3. authority_outbox ex_db3 = [ex_row, o2, o3]
    \<and> ob_outbox_id o2 \<noteq> ex_id \<and> ob_outbox_id o3 \<noteq> ex_id"
  by (simp add: ex_db3_def ex_db2_def ex_defs case_destinations_def advice_destinations_def ex_row_def
      fresh_outbox_row_def ex_id_def edgeKey_def digests_differ digests_differ [symmetric])

lemma ex_row_id: "ob_outbox_id ex_row = ex_id"
  by (simp add: ex_row_def fresh_outbox_row_def ex_id_def)

lemma ex_claim_open: "claimable 8000 (\<lambda>i. i \<noteq> ex_id) ex_row" "open_row ex_row"
  by (simp_all add: claimable_def open_row_def ex_row_id) (simp_all add: ex_row_def fresh_outbox_row_def)

lemma ex_select: "select_claims 8000 (\<lambda>i. i \<noteq> ex_id) 10 ex_db3 = [ex_id]"
proof -
  from ex_outbox3 obtain o2 o3 where rows: "authority_outbox ex_db3 = [ex_row, o2, o3]"
    "ob_outbox_id o2 \<noteq> ex_id" "ob_outbox_id o3 \<noteq> ex_id" by blast
  have "\<not> claimable 8000 (\<lambda>i. i \<noteq> ex_id) o2" "\<not> claimable 8000 (\<lambda>i. i \<noteq> ex_id) o3"
    using rows by (simp_all add: claimable_def)
  with rows ex_claim_open show ?thesis by (simp add: select_claims_def ex_row_id)
qed

definition ex_leased :: outbox_row where
  "ex_leased = leased_row ''w'' ''token'' 1000008000 ex_row"

lemma ex_leased_simps [simp]:
  "ob_outbox_id ex_leased = ex_id" "ob_lease_token ex_leased = Some ''token''"
  "ob_lease_until ex_leased = Some 1000008000" "open_row ex_leased"
  using ex_claim_open by (simp_all add: ex_leased_def ex_row_id)

lemma ex_db4_outbox: "\<exists>o2 o3. authority_outbox ex_db4 = [ex_leased, o2, o3]
    \<and> ob_outbox_id o2 \<noteq> ex_id \<and> ob_outbox_id o3 \<noteq> ex_id"
proof -
  from ex_outbox3 obtain o2 o3 where rows: "authority_outbox ex_db3 = [ex_row, o2, o3]"
    "ob_outbox_id o2 \<noteq> ex_id" "ob_outbox_id o3 \<noteq> ex_id" by blast
  let ?rows = "update_rows (\<lambda>o'. ob_outbox_id o' = ex_id \<and> open_row o') (leased_row ''w'' ''token'' 1000008000)
      (authority_outbox ex_db3)"
  have upd: "?rows = [ex_leased, o2, o3]"
    using rows ex_claim_open by (simp add: update_rows_def ex_row_id ex_leased_def)
  have "\<exists>items. claim_loop ex_claim ''w'' 1000000000 [ex_id] 0 ex_db3 = Inr (items, ex_db3\<lparr>authority_outbox := ?rows\<rparr>)"
    using rows ex_claim_open
    by (simp add: claim_loop.simps Let_def ex_claim_def upd [unfolded rows(1)] rows_affected_def ex_row_id readClaimedOutboxItem_def)
  then have "authority_outbox ex_db4 = ?rows"
    using ex_select
    by (auto simp: ex_db4_def Claim_def ex_claim_def ex_store_def MaxBatchSize_def MaxLease_def)
  with upd rows show ?thesis by simp
qed

lemma ex_db5_row: "published_row 9000 ex_leased \<in> set (authority_outbox ex_db5)"
  "\<not> open_row (published_row 9000 ex_leased)"
proof -
  from ex_db4_outbox have "published_row 9000 ex_leased \<in>
      set (update_rows (holds_lease ex_id ''token'' 9000) (published_row 9000) (authority_outbox ex_db4))"
    by (auto simp: update_rows_def holds_lease_def)
  then show "published_row 9000 ex_leased \<in> set (authority_outbox ex_db5)"
    by (simp add: ex_db5_def MarkPublished_def Let_def ex_store_def)
  show "\<not> open_row (published_row 9000 ex_leased)" by (simp add: open_row_def published_row_def)
qed

theorem closed_outbox_row_final_witness:
  "published_row 9000 ex_leased \<in> set (authority_outbox (snd (CommitCase ex_store ex_envs ex_case ex_db5)))"
  by (rule closed_outbox_row_final [OF ex_reachable_outbox(2) CommitCase_steps [OF ex_interleaves] ex_db5_row])

theorem live_lease_fenced_witness:
  "ex_leased \<in> set (authority_outbox (snd (Claim ex_store ex_claim ''x'' 5 1000 ex_db4)))
    \<and> fst (MarkPublished ex_store None 9000 ex_id ''other'' ex_db4) = Some ErrStaleOutboxLease"
proof -
  have "ex_leased \<in> set (authority_outbox ex_db4)" using ex_db4_outbox by auto
  from live_lease_fenced [OF ex_reachable_outbox(1) this ex_leased_simps(2,3),
      of ex_claim "''x''" 5 1000 "''other''" 9000 None 0 "[]"]
  show ?thesis by (simp add: ex_claim_def ex_store_def)
qed

theorem outbox_attempts_bounded_witness: "0 \<le> ob_attempts ex_leased \<and> ob_attempts ex_leased \<le> 20"
proof -
  have "ex_leased \<in> set (authority_outbox ex_db4)" using ex_db4_outbox by auto
  from outbox_attempts_bounded [OF ex_reachable_outbox(1) this] show ?thesis by blast
qed

theorem claim_leases_selection_witness:
  "\<exists>items db'. Claim ex_store ex_claim ''w'' 10 1000000000 ex_db3 = (Inr items, db')
    \<and> map it_ID items = [ex_id] \<and> map it_LeaseToken items = [''token'']
    \<and> ex_leased \<in> set (authority_outbox db')"
proof -
  from claim_leases_selection [OF ex_reachable(3), of "''w''" 10 1000000000 ex_claim]
  obtain items db' where "Claim ex_store ex_claim ''w'' 10 1000000000 ex_db3 = (Inr items, db')"
    and ids: "map it_ID items = select_claims (ce_select_clock ex_claim) (ce_locked ex_claim) 10 ex_db3"
    and toks: "map it_LeaseToken items = map (ce_uuid ex_claim) [0..<length items]"
    and rows: "db' = ex_db3\<lparr>authority_outbox :=
      map (lease_selected ex_claim ''w'' 1000000000 (map it_ID items) 0) (authority_outbox ex_db3)\<rparr>"
    by (force simp: ex_claim_def ex_store_def MaxBatchSize_def MaxLease_def)
  moreover from ids have ids': "map it_ID items = [ex_id]" using ex_select by (simp add: ex_claim_def)
  then have "length items = 1" by (metis length_map One_nat_def list.size(3,4) add.right_neutral add_Suc_right)
  with toks have "map it_LeaseToken items = [''token'']" by (simp add: ex_claim_def)
  moreover have "ex_leased \<in> set (authority_outbox db')"
    using ex_outbox3 ids' by (auto simp: rows ex_claim_def ex_row_id ex_leased_def)
  ultimately show ?thesis using ids' by (intro exI conjI)
qed

end
