(* ===== verification/Delivery_Stream.thy ===== *)
theory Delivery_Stream
  imports Sha256
begin

text \<open>
  \<^verbatim>\<open>internal/deliverystream/stream.go\<close>: the bounded JetStream delivery stream, the subjects and message
  identifiers derived from opaque identifiers, and the message a publish hands to the broker.  The
  broker itself is a parameter: a function from the call's arguments to the acknowledgement or the
  error the call returns.  A \<^verbatim>\<open>uint64\<close> is a \<^typ>\<open>nat\<close>.
\<close>

section \<open>Constants and errors\<close>

definition StreamName :: string where
  "StreamName = ''SNAGLINE_SSP_DELIVERY''"

definition SubjectPrefix :: string where
  "SubjectPrefix = ''snagline.ssp.delivery.v1''"

definition ProductionReplicas :: nat where
  "ProductionReplicas = 3"

definition DefaultMaxAge :: int where
  "DefaultMaxAge = 7 * 24 * 3600000000000"

definition DefaultMaxBytes :: int where
  "DefaultMaxBytes = 2 ^ 30"

definition DefaultAckWait :: int where
  "DefaultAckWait = 30 * 1000000000"

definition DefaultMaxDeliver :: int where
  "DefaultMaxDeliver = 20"

definition MaxEnvelopeBytes :: nat where
  "MaxEnvelopeBytes = 65536"

datatype stream_error =
    StreamText string
  | ErrUnsupportedDestination string
  | ErrInvalidDurable string
  | ErrBroker string

abbreviation DestinationDomain :: string where
  "DestinationDomain \<equiv> ''domain''"

abbreviation DestinationEdge :: string where
  "DestinationEdge \<equiv> ''edge''"

section \<open>The stream\<close>

datatype retention_policy = LimitsPolicy
datatype discard_policy = DiscardOld
datatype storage_type = FileStorage

record jetstream_StreamConfig =
  sc_Name :: string
  sc_Subjects :: "string list"
  sc_Retention :: retention_policy
  sc_Discard :: discard_policy
  sc_MaxAge :: int
  sc_MaxBytes :: int
  sc_MaxMsgSize :: nat
  sc_Storage :: storage_type
  sc_Replicas :: nat
  sc_Duplicates :: int

definition StreamConfig :: "string \<Rightarrow> stream_error + jetstream_StreamConfig" where
  "StreamConfig mode =
    (if mode = ''production'' \<or> mode = ''single-node-test'' then
       Inr \<lparr>sc_Name = StreamName, sc_Subjects = [SubjectPrefix @ ''.>''], sc_Retention = LimitsPolicy,
            sc_Discard = DiscardOld, sc_MaxAge = DefaultMaxAge, sc_MaxBytes = DefaultMaxBytes,
            sc_MaxMsgSize = MaxEnvelopeBytes, sc_Storage = FileStorage,
            sc_Replicas = (if mode = ''single-node-test'' then 1 else ProductionReplicas),
            sc_Duplicates = DefaultMaxAge\<rparr>
     else Inl (StreamText ''unsupported SSP delivery stream mode''))"

definition js_required :: stream_error where
  "js_required = StreamText ''SSP delivery JetStream is required''"

text \<open>\<open>create\<close> is the broker's \<^verbatim>\<open>CreateOrUpdateStream\<close>, \<^const>\<open>None\<close> a nil client.\<close>

definition EnsureStream ::
    "(jetstream_StreamConfig \<Rightarrow> string option) option \<Rightarrow> string \<Rightarrow> stream_error option" where
  "EnsureStream js mode =
    (case js of
       None \<Rightarrow> Some js_required
     | Some create \<Rightarrow>
         (case StreamConfig mode of
            Inl e \<Rightarrow> Some e
          | Inr config \<Rightarrow> map_option ErrBroker (create config)))"

section \<open>Tokens and subjects\<close>

definition frame_value :: "bytes \<Rightarrow> bytes" where
  "frame_value value = be_bytes 8 (length value) @ value"

definition hashLengthPrefixed :: "bytes list \<Rightarrow> string" where
  "hashLengthPrefixed values = hex_encode (sha256 (concat (map frame_value values)))"

definition RoutingToken :: "string \<Rightarrow> string" where
  "RoutingToken opaque = hashLengthPrefixed [opaque]"

definition EdgeToken :: "string \<Rightarrow> nat \<Rightarrow> string" where
  "EdgeToken edgeID generation = hashLengthPrefixed [edgeID, be_bytes 8 generation]"

definition MessageID :: "string \<Rightarrow> string" where
  "MessageID outboxID = ''outbox:'' @ RoutingToken outboxID"

fun join_dot :: "string list \<Rightarrow> string" where
  "join_dot [] = []"
| "join_dot [x] = x"
| "join_dot (x # y # rest) = x @ ''.'' @ join_dot (y # rest)"

definition destinationSubject ::
    "string \<Rightarrow> string \<Rightarrow> string \<Rightarrow> string \<Rightarrow> nat \<Rightarrow> stream_error + string" where
  "destinationSubject destination tenantID domainID edgeID edgeGeneration =
    (if tenantID = [] then Inl (StreamText ''SSP delivery tenant ID is required'')
     else let tenantToken = RoutingToken tenantID in
     if destination = DestinationDomain then
       (if domainID = [] then Inl (StreamText ''SSP domain delivery requires a domain ID'')
        else Inr (join_dot [SubjectPrefix, tenantToken, DestinationDomain, RoutingToken domainID]))
     else if destination = DestinationEdge then
       (if edgeID = [] \<or> edgeGeneration = 0
        then Inl (StreamText ''SSP edge delivery requires an edge ID and positive generation'')
        else Inr (join_dot [SubjectPrefix, tenantToken, DestinationEdge, EdgeToken edgeID edgeGeneration]))
     else Inl (ErrUnsupportedDestination destination))"

section \<open>Publishing\<close>

record PublishRequest =
  pr_OutboxID :: string
  pr_Destination :: string
  pr_TenantID :: string
  pr_DomainID :: string
  pr_EdgeID :: string
  pr_EdgeGeneration :: nat
  pr_RawSSP :: bytes
  pr_FactSequence :: nat
  pr_DeliverySequence :: nat

definition validatePublishRequest :: "PublishRequest \<Rightarrow> stream_error option" where
  "validatePublishRequest r =
    (if pr_OutboxID r = [] then Some (StreamText ''SSP delivery outbox ID is required'')
     else if pr_FactSequence r = 0 then Some (StreamText ''SSP delivery fact sequence must be positive'')
     else if pr_Destination r = DestinationEdge \<and> pr_DeliverySequence r = 0
       then Some (StreamText ''SSP edge delivery sequence must be positive'')
     else if pr_Destination r = DestinationDomain \<and> pr_DeliverySequence r \<noteq> 0
       then Some (StreamText ''SSP domain wake must not carry an edge delivery sequence'')
     else if length (pr_RawSSP r) = 0 \<or> length (pr_RawSSP r) > MaxEnvelopeBytes
       then Some (StreamText ''SSP delivery raw bytes must be between 1 and 65536 bytes'')
     else case destinationSubject (pr_Destination r) (pr_TenantID r) (pr_DomainID r) (pr_EdgeID r)
                 (pr_EdgeGeneration r) of
       Inl e \<Rightarrow> Some e
     | Inr _ \<Rightarrow> None)"

definition SubjectFor :: "PublishRequest \<Rightarrow> stream_error + string" where
  "SubjectFor r =
    (case validatePublishRequest r of
       Some e \<Rightarrow> Inl e
     | None \<Rightarrow> destinationSubject (pr_Destination r) (pr_TenantID r) (pr_DomainID r) (pr_EdgeID r)
                 (pr_EdgeGeneration r))"

record nats_Msg =
  msg_Subject :: string
  msg_Header :: "(string \<times> string) list"
  msg_Data :: bytes

definition FormatUint :: "nat \<Rightarrow> string" where
  "FormatUint n = itoa (int n)"

definition publish_message :: "string \<Rightarrow> PublishRequest \<Rightarrow> nats_Msg" where
  "publish_message subject r =
    \<lparr>msg_Subject = subject,
     msg_Header =
       [(''Snagline-Outbox-ID'', pr_OutboxID r), (''Snagline-Fact-Sequence'', FormatUint (pr_FactSequence r))]
       @ (if pr_Destination r = DestinationEdge
          then [(''Snagline-Delivery-Sequence'', FormatUint (pr_DeliverySequence r)),
                (''Snagline-Edge-Generation'', FormatUint (pr_EdgeGeneration r))]
          else []),
     msg_Data = pr_RawSSP r\<rparr>"

text \<open>
  \<open>js\<close> is the broker's \<^verbatim>\<open>PublishMsg\<close> with the message identifier and the expected stream; it acts on
  the state \<open>'b\<close> of the broker and returns the duplicate flag of its acknowledgement.
\<close>

definition Publish ::
    "(nats_Msg \<Rightarrow> string \<Rightarrow> string \<Rightarrow> 'b \<Rightarrow> (string + bool) \<times> 'b) option \<Rightarrow> PublishRequest \<Rightarrow> 'b
       \<Rightarrow> (stream_error + bool) \<times> 'b" where
  "Publish js r b =
    (case js of
       None \<Rightarrow> (Inl js_required, b)
     | Some publishMsg \<Rightarrow>
         (case SubjectFor r of
            Inl e \<Rightarrow> (Inl e, b)
          | Inr subject \<Rightarrow>
              (case publishMsg (publish_message subject r) (MessageID (pr_OutboxID r)) StreamName b of
                 (Inl e, b') \<Rightarrow> (Inl (ErrBroker e), b')
               | (Inr duplicate, b') \<Rightarrow> (Inr duplicate, b'))))"

section \<open>Consumers\<close>

record ConsumerRequest =
  cq_Durable :: string
  cq_Destination :: string
  cq_TenantID :: string
  cq_DomainID :: string
  cq_EdgeID :: string
  cq_EdgeGeneration :: nat
  cq_AckWait :: int
  cq_MaxDeliver :: int

record ConsumerSpec =
  cs_Stream :: string
  cs_Durable :: string
  cs_FilterSubject :: string

datatype deliver_policy = DeliverNewPolicy
datatype ack_policy = AckExplicitPolicy
datatype replay_policy = ReplayInstantPolicy

record jetstream_ConsumerConfig =
  cc_Name :: string
  cc_Durable :: string
  cc_DeliverPolicy :: deliver_policy
  cc_AckPolicy :: ack_policy
  cc_AckWait :: int
  cc_MaxDeliver :: int
  cc_ReplayPolicy :: replay_policy
  cc_FilterSubject :: string

definition durable_rune :: "nat \<Rightarrow> bool" where
  "durable_rune c =
    (97 \<le> c \<and> c \<le> 122 \<or> 65 \<le> c \<and> c \<le> 90 \<or> 48 \<le> c \<and> c \<le> 57 \<or> c = 95 \<or> c = 45)"

definition validDurable :: "string \<Rightarrow> bool" where
  "validDurable durable = (durable \<noteq> [] \<and> length durable \<le> 64 \<and> list_all durable_rune (runes durable))"

definition EnsureConsumer ::
    "(string \<Rightarrow> jetstream_ConsumerConfig \<Rightarrow> string option) option \<Rightarrow> ConsumerRequest
       \<Rightarrow> stream_error + ConsumerSpec" where
  "EnsureConsumer js r =
    (case js of
       None \<Rightarrow> Inl js_required
     | Some create \<Rightarrow>
    if \<not> validDurable (cq_Durable r) then Inl (ErrInvalidDurable (cq_Durable r))
    else case destinationSubject (cq_Destination r) (cq_TenantID r) (cq_DomainID r) (cq_EdgeID r)
                (cq_EdgeGeneration r) of
       Inl e \<Rightarrow> Inl e
     | Inr subject \<Rightarrow>
    (let ackWait = (if cq_AckWait r \<le> 0 then DefaultAckWait else cq_AckWait r);
         maxDeliver = (if cq_MaxDeliver r \<le> 0 then DefaultMaxDeliver else cq_MaxDeliver r) in
     case create StreamName
            \<lparr>cc_Name = cq_Durable r, cc_Durable = cq_Durable r, cc_DeliverPolicy = DeliverNewPolicy,
             cc_AckPolicy = AckExplicitPolicy, cc_AckWait = ackWait, cc_MaxDeliver = maxDeliver,
             cc_ReplayPolicy = ReplayInstantPolicy, cc_FilterSubject = subject\<rparr> of
       Some e \<Rightarrow> Inl (ErrBroker e)
     | None \<Rightarrow> Inr \<lparr>cs_Stream = StreamName, cs_Durable = cq_Durable r, cs_FilterSubject = subject\<rparr>))"

section \<open>Framing\<close>

lemma frame_value_inj:
  assumes "frame_value a @ xs = frame_value b @ ys" "length a < 2 ^ 64" "length b < 2 ^ 64"
  shows "a = b \<and> xs = ys"
proof -
  have "be_bytes 8 (length a) @ (a @ xs) = be_bytes 8 (length b) @ (b @ ys)"
    using assms(1) by (simp add: frame_value_def)
  then have "be_bytes 8 (length a) = be_bytes 8 (length b)" and rest: "a @ xs = b @ ys"
    by (simp_all add: append_eq_append_conv)
  then have "length a mod 256 ^ 8 = length b mod 256 ^ 8" by (metis be_value_be_bytes)
  with assms(2,3) have "length a = length b" by simp
  with rest show ?thesis by simp
qed

lemma frame_value_nonempty [simp]: "frame_value v \<noteq> []"
  by (simp add: frame_value_def flip: length_0_conv)

lemma frame_values_inj:
  "concat (map frame_value as) = concat (map frame_value bs) \<Longrightarrow>
    \<forall>v \<in> set as \<union> set bs. length v < 2 ^ 64 \<Longrightarrow> as = bs"
proof (induction as arbitrary: bs)
  case Nil
  then show ?case by (cases bs) auto
next
  case (Cons a as)
  then obtain b bs' where bs: "bs = b # bs'" by (cases bs) auto
  with Cons.prems have "a = b" "concat (map frame_value as) = concat (map frame_value bs')"
    using frame_value_inj [of a "concat (map frame_value as)" b "concat (map frame_value bs')"] by auto
  with Cons.IH [of bs'] Cons.prems bs show ?case by simp
qed

text \<open>Equal tokens come from equal identifiers, or exhibit a SHA-256 collision.\<close>

lemma hashLengthPrefixed_inj:
  assumes "hashLengthPrefixed as = hashLengthPrefixed bs" "\<forall>v \<in> set as \<union> set bs. length v < 2 ^ 64"
  shows "as = bs \<or> sha256_collision (concat (map frame_value as)) (concat (map frame_value bs))"
proof (cases "concat (map frame_value as) = concat (map frame_value bs)")
  case True
  from frame_values_inj [OF this assms(2)] show ?thesis ..
next
  case False
  moreover have "sha256 (concat (map frame_value as)) = sha256 (concat (map frame_value bs))"
    using assms(1) by (simp add: hashLengthPrefixed_def hex_encode_inj)
  ultimately show ?thesis by (simp add: sha256_collision_def)
qed

lemma length_hashLengthPrefixed [simp]: "length (hashLengthPrefixed vs) = 64"
  by (simp add: hashLengthPrefixed_def)

lemma length_tokens [simp]: "length (RoutingToken x) = 64" "length (EdgeToken e g) = 64"
  by (simp_all add: RoutingToken_def EdgeToken_def)

lemma hashLengthPrefixed_lower: "list_all is_lower_hex (hashLengthPrefixed vs)"
  by (simp add: hashLengthPrefixed_def hex_encode_lower)

lemma SubjectFor_Inr:
  "SubjectFor r = Inr subject \<longleftrightarrow> validatePublishRequest r = None
    \<and> destinationSubject (pr_Destination r) (pr_TenantID r) (pr_DomainID r) (pr_EdgeID r) (pr_EdgeGeneration r)
        = Inr subject"
  by (auto simp: SubjectFor_def split: option.splits)

lemma destinationSubject_Inr:
  "destinationSubject d t dm e g = Inr subject \<longleftrightarrow> t \<noteq> [] \<and>
    (d = ''domain'' \<and> dm \<noteq> [] \<and> subject = join_dot [SubjectPrefix, RoutingToken t, ''domain'', RoutingToken dm]
     \<or> d = ''edge'' \<and> e \<noteq> [] \<and> 0 < g \<and> subject = join_dot [SubjectPrefix, RoutingToken t, ''edge'', EdgeToken e g])"
  by (auto simp: destinationSubject_def Let_def)

section \<open>Routes\<close>

text \<open>The hashed part of a subject that follows its destination kind.\<close>

definition route_values :: "PublishRequest \<Rightarrow> bytes list" where
  "route_values r = (if pr_Destination r = DestinationDomain then [pr_DomainID r]
     else [pr_EdgeID r, be_bytes 8 (pr_EdgeGeneration r)])"

definition same_route :: "PublishRequest \<Rightarrow> PublishRequest \<Rightarrow> bool" where
  "same_route a b \<longleftrightarrow> pr_TenantID a = pr_TenantID b \<and> pr_Destination a = pr_Destination b
    \<and> (if pr_Destination a = DestinationDomain then pr_DomainID a = pr_DomainID b
       else pr_EdgeID a = pr_EdgeID b \<and> pr_EdgeGeneration a = pr_EdgeGeneration b)"

definition hash_collision :: "bytes list \<Rightarrow> bytes list \<Rightarrow> bool" where
  "hash_collision as bs = sha256_collision (concat (map frame_value as)) (concat (map frame_value bs))"

lemma SubjectFor_shape:
  assumes "SubjectFor r = Inr subject"
  shows "subject = SubjectPrefix @ ''.'' @ hashLengthPrefixed [pr_TenantID r] @ ''.'' @ pr_Destination r @ ''.''
      @ hashLengthPrefixed (route_values r)
    \<and> (pr_Destination r = DestinationDomain \<or> pr_Destination r = DestinationEdge)"
  using assms
  by (auto simp: SubjectFor_Inr destinationSubject_Inr route_values_def RoutingToken_def EdgeToken_def)

lemma be_bytes_inj: "be_bytes k m = be_bytes k n \<Longrightarrow> m < 256 ^ k \<Longrightarrow> n < 256 ^ k \<Longrightarrow> m = n"
  by (metis be_value_be_bytes mod_less)

text \<open>
  C20. Two valid publish requests get the same subject only when they have the same tenant and the same
  destination (the same domain, or the same edge identifier and generation), or when their identifiers
  are a SHA-256 collision: an edge never receives the wake-ups of another edge, tenant or generation by
  accident of framing.
\<close>

theorem subject_injective:
  assumes "SubjectFor a = Inr subject" and "SubjectFor b = Inr subject"
    and "\<forall>v \<in> {pr_TenantID a, pr_TenantID b, pr_DomainID a, pr_DomainID b, pr_EdgeID a, pr_EdgeID b}.
           length v < 2 ^ 64"
    and "pr_EdgeGeneration a < 2 ^ 64" and "pr_EdgeGeneration b < 2 ^ 64"
  shows "same_route a b \<or> hash_collision [pr_TenantID a] [pr_TenantID b]
    \<or> hash_collision (route_values a) (route_values b)"
proof -
  note a = SubjectFor_shape [OF assms(1)] and b = SubjectFor_shape [OF assms(2)]
  let ?ha = "hashLengthPrefixed (route_values a)" and ?hb = "hashLengthPrefixed (route_values b)"
  from a b have "hashLengthPrefixed [pr_TenantID a] @ (''.'' @ pr_Destination a @ ''.'' @ ?ha)
      = hashLengthPrefixed [pr_TenantID b] @ (''.'' @ pr_Destination b @ ''.'' @ ?hb)"
    by (metis append_assoc same_append_eq)
  then have tenant: "hashLengthPrefixed [pr_TenantID a] = hashLengthPrefixed [pr_TenantID b]"
    and rest: "pr_Destination a @ ''.'' @ ?ha = pr_Destination b @ ''.'' @ ?hb"
    by (simp_all add: append_eq_append_conv)
  from rest a b have dest: "pr_Destination a = pr_Destination b" and route: "?ha = ?hb"
    by auto
  from hashLengthPrefixed_inj [OF tenant] assms(3)
  have "pr_TenantID a = pr_TenantID b \<or> hash_collision [pr_TenantID a] [pr_TenantID b]"
    by (auto simp: hash_collision_def)
  moreover have "\<forall>v \<in> set (route_values a) \<union> set (route_values b). length v < 2 ^ 64"
    using assms(3) by (auto simp: route_values_def)
  then have "route_values a = route_values b \<or> hash_collision (route_values a) (route_values b)"
    using hashLengthPrefixed_inj [OF route] by (simp add: hash_collision_def)
  moreover have "route_values a = route_values b \<Longrightarrow> pr_TenantID a = pr_TenantID b \<Longrightarrow> same_route a b"
    using dest be_bytes_inj [of 8 "pr_EdgeGeneration a" "pr_EdgeGeneration b"] assms(4,5)
    by (auto simp: route_values_def same_route_def split: if_splits)
  ultimately show ?thesis by blast
qed

theorem subject_injective_witness:
  "same_route \<lparr>pr_OutboxID = ''a'', pr_Destination = DestinationDomain, pr_TenantID = ''t'', pr_DomainID = ''d'', pr_EdgeID = [],
      pr_EdgeGeneration = 0, pr_RawSSP = ''x'', pr_FactSequence = 1, pr_DeliverySequence = 0\<rparr>
     \<lparr>pr_OutboxID = ''b'', pr_Destination = DestinationDomain, pr_TenantID = ''t'', pr_DomainID = ''d'', pr_EdgeID = [],
      pr_EdgeGeneration = 0, pr_RawSSP = ''y'', pr_FactSequence = 2, pr_DeliverySequence = 0\<rparr>"
proof -
  let ?a = "\<lparr>pr_OutboxID = ''a'', pr_Destination = DestinationDomain, pr_TenantID = ''t'', pr_DomainID = ''d'', pr_EdgeID = [],
      pr_EdgeGeneration = 0, pr_RawSSP = ''x'', pr_FactSequence = 1, pr_DeliverySequence = 0\<rparr>"
  let ?b = "\<lparr>pr_OutboxID = ''b'', pr_Destination = DestinationDomain, pr_TenantID = ''t'', pr_DomainID = ''d'', pr_EdgeID = [],
      pr_EdgeGeneration = 0, pr_RawSSP = ''y'', pr_FactSequence = 2, pr_DeliverySequence = 0\<rparr>"
  have "\<exists>subject. SubjectFor ?a = Inr subject \<and> SubjectFor ?b = Inr subject"
    by (simp add: SubjectFor_def validatePublishRequest_def destinationSubject_def Let_def MaxEnvelopeBytes_def)
  then obtain subject where "SubjectFor ?a = Inr subject" "SubjectFor ?b = Inr subject" by blast
  from subject_injective [OF this] show ?thesis
    by (simp add: hash_collision_def sha256_collision_def route_values_def)
qed

end
