(* ===== verification/Delivery_Worker.thy ===== *)
theory Delivery_Worker
  imports Outbox_Properties Delivery_Stream
begin

text \<open>
  \<^verbatim>\<open>internal/delivery/outbox/worker.go\<close>: one bounded claim, publish and close pass over the outbox.  The
  source, the publisher, the context and the clock act on a world of type \<open>'w\<close>.  The errors a pass
  joins are returned as a list, empty for \<^verbatim>\<open>nil\<close>.
\<close>

section \<open>Interfaces and errors\<close>

datatype item_error =
    ItemText string
  | UnsupportedDestinationKind string
  | UnsupportedEventKind string
  | InvalidPublishRequest stream_error

datatype 'e work_error =
    WorkText string
  | WorkContext string
  | ClaimFailed 'e
  | TooManyItems nat int
  | MalformedItem string item_error
  | PublishFailed string 'e
  | MarkFailed string 'e
  | ReleaseFailed string 'e

record ('w, 'e) Source =
  src_Claim :: "string \<Rightarrow> int \<Rightarrow> int \<Rightarrow> 'w \<Rightarrow> ('e + Item list) \<times> 'w"
  src_MarkPublished :: "string \<Rightarrow> string \<Rightarrow> 'w \<Rightarrow> 'e option \<times> 'w"
  src_Release :: "string \<Rightarrow> string \<Rightarrow> time \<Rightarrow> string \<Rightarrow> 'w \<Rightarrow> 'e option \<times> 'w"

record ('w, 'e) Worker =
  wk_Source :: "('w, 'e) Source option"
  wk_Publisher :: "(PublishRequest \<Rightarrow> 'w \<Rightarrow> 'e option \<times> 'w) option"
  wk_WorkerID :: string
  wk_Limit :: int
  wk_Lease :: int
  wk_RetryDelay :: int
  wk_Now :: "('w \<Rightarrow> time) option"

section \<open>Items\<close>

definition validateCommonItem :: "Item \<Rightarrow> item_error option" where
  "validateCommonItem i =
    (if it_ID i = [] then Some (ItemText ''outbox ID is required'')
     else if it_LeaseToken i = [] then Some (ItemText ''lease token is required'')
     else if it_TenantID i = [] then Some (ItemText ''tenant ID is required'')
     else if it_EntityID i = [] then Some (ItemText ''entity ID is required'')
     else if it_DestinationKey i = [] then Some (ItemText ''destination key is required'')
     else if length (it_Raw i) = 0 then Some (ItemText ''raw SSP bytes are required'')
     else if it_AuthorityRevision i \<le> 0 then Some (ItemText ''authority revision must be positive'')
     else if it_EventKind i = ''case'' \<or> it_EventKind i = ''advice'' then None
     else Some (UnsupportedEventKind (it_EventKind i)))"

definition base_request :: "Item \<Rightarrow> PublishRequest" where
  "base_request i =
    \<lparr>pr_OutboxID = it_ID i, pr_Destination = [], pr_TenantID = it_TenantID i, pr_DomainID = [], pr_EdgeID = [],
     pr_EdgeGeneration = 0, pr_RawSSP = it_Raw i, pr_FactSequence = uint64 (it_AuthorityRevision i),
     pr_DeliverySequence = 0\<rparr>"

definition route_request :: "Item \<Rightarrow> item_error + PublishRequest" where
  "route_request i =
    (if it_DestinationKind i = ''domain_dispatch'' then
       if it_EventKind i \<noteq> ''case'' then Inl (ItemText ''domain dispatch requires a case event'')
       else if it_DomainID i = [] \<or> it_DestinationKey i \<noteq> it_DomainID i
         then Inl (ItemText ''domain dispatch requires a matching domain route'')
       else if it_EdgeID i \<noteq> [] \<or> it_EdgeGeneration i \<noteq> 0 \<or> it_DeliverySequence i \<noteq> 0
         then Inl (ItemText ''domain dispatch contains edge delivery metadata'')
       else Inr ((base_request i)\<lparr>pr_Destination := DestinationDomain, pr_DomainID := it_DomainID i\<rparr>)
     else if it_DestinationKind i = ''edge_delivery'' then
       if it_EventKind i \<noteq> ''case'' \<and> it_EventKind i \<noteq> ''advice''
         then Inl (ItemText ''edge delivery requires a case or advice event'')
       else if it_EdgeID i = [] \<or> it_EdgeGeneration i \<le> 0 \<or> it_DeliverySequence i \<le> 0
         then Inl (ItemText ''edge delivery requires edge ID, positive generation, and positive sequence'')
       else if it_DestinationKey i \<noteq> it_EdgeID i @ ''@'' @ itoa (it_EdgeGeneration i)
         then Inl (ItemText ''edge delivery destination key does not match edge tuple'')
       else if it_DomainID i \<noteq> [] then Inl (ItemText ''edge delivery contains domain metadata'')
       else Inr ((base_request i)\<lparr>pr_Destination := DestinationEdge, pr_EdgeID := it_EdgeID i,
                   pr_EdgeGeneration := uint64 (it_EdgeGeneration i),
                   pr_DeliverySequence := uint64 (it_DeliverySequence i)\<rparr>)
     else Inl (UnsupportedDestinationKind (it_DestinationKind i)))"

definition publishRequest :: "Item \<Rightarrow> item_error + PublishRequest" where
  "publishRequest i =
    (case validateCommonItem i of
       Some e \<Rightarrow> Inl e
     | None \<Rightarrow>
    (case route_request i of
       Inl e \<Rightarrow> Inl e
     | Inr request \<Rightarrow>
         (case SubjectFor request of
            Inl e \<Rightarrow> Inl (InvalidPublishRequest e)
          | Inr _ \<Rightarrow> Inr request)))"

section \<open>One pass\<close>

definition Worker_validate :: "('w, 'e) Worker \<Rightarrow> 'e work_error option" where
  "Worker_validate worker =
    (if wk_Source worker = None then Some (WorkText ''outbox source is required'')
     else if wk_Publisher worker = None then Some (WorkText ''outbox publisher is required'')
     else if blank (wk_WorkerID worker) then Some (WorkText ''outbox worker ID is required'')
     else if wk_Limit worker \<le> 0 \<or> wk_Limit worker > MaxBatchSize
       then Some (WorkText ''outbox limit must be between 1 and 1000'')
     else if wk_Lease worker \<le> 0 \<or> wk_Lease worker > MaxLease
       then Some (WorkText ''outbox lease must be between 1ns and 1h0m0s'')
     else if wk_RetryDelay worker \<le> 0 \<or> wk_RetryDelay worker > MaxRetryDelay
       then Some (WorkText ''outbox retry delay must be between 1ns and 24h0m0s'')
     else None)"

text \<open>\<open>clock\<close> is \<^verbatim>\<open>time.Now\<close>, used when the worker has no clock of its own.\<close>

definition Worker_release ::
    "('w \<Rightarrow> time) \<Rightarrow> ('w, 'e) Worker \<Rightarrow> ('w, 'e) Source \<Rightarrow> Item \<Rightarrow> string \<Rightarrow> 'w \<Rightarrow> 'e work_error list \<times> 'w" where
  "Worker_release clock worker src item reason w =
    (let now = (case wk_Now worker of None \<Rightarrow> clock | Some now \<Rightarrow> now);
         retryAt = now w + wk_RetryDelay worker in
     case src_Release src (it_ID item) (it_LeaseToken item) retryAt reason w of
       (Some e, w') \<Rightarrow> ([ReleaseFailed (it_ID item) e], w')
     | (None, w') \<Rightarrow> ([], w'))"

text \<open>\<open>ctx\<close> is \<^verbatim>\<open>ctx.Err()\<close>.  The last argument but one collects \<^verbatim>\<open>runErrors\<close>.\<close>

fun run_items ::
    "('w \<Rightarrow> string option) \<Rightarrow> ('w \<Rightarrow> time) \<Rightarrow> ('w, 'e) Worker \<Rightarrow> ('w, 'e) Source
       \<Rightarrow> (PublishRequest \<Rightarrow> 'w \<Rightarrow> 'e option \<times> 'w) \<Rightarrow> Item list \<Rightarrow> 'e work_error list \<Rightarrow> 'w
       \<Rightarrow> 'e work_error list \<times> 'w" where
  "run_items ctx clock worker src publish [] runErrors w =
    (case ctx w of Some e \<Rightarrow> (runErrors @ [WorkContext e], w) | None \<Rightarrow> (runErrors, w))"
| "run_items ctx clock worker src publish (item # items) runErrors w =
    (case ctx w of
       Some e \<Rightarrow> (runErrors @ [WorkContext e], w)
     | None \<Rightarrow>
    (case publishRequest item of
       Inl e \<Rightarrow>
         (let (released, w1) = Worker_release clock worker src item ReasonMalformedItem w in
          run_items ctx clock worker src publish items (runErrors @ MalformedItem (it_ID item) e # released) w1)
     | Inr request \<Rightarrow>
         (case publish request w of
            (Some e, w1) \<Rightarrow>
              (case ctx w1 of
                 Some ctxErr \<Rightarrow> (runErrors @ [PublishFailed (it_ID item) e, WorkContext ctxErr], w1)
               | None \<Rightarrow>
                   (let (released, w2) = Worker_release clock worker src item ReasonPublishFailed w1 in
                    run_items ctx clock worker src publish items
                      (runErrors @ PublishFailed (it_ID item) e # released) w2))
          | (None, w1) \<Rightarrow>
              (case src_MarkPublished src (it_ID item) (it_LeaseToken item) w1 of
                 (Some e, w2) \<Rightarrow>
                   (case ctx w2 of
                      Some ctxErr \<Rightarrow> (runErrors @ [MarkFailed (it_ID item) e, WorkContext ctxErr], w2)
                    | None \<Rightarrow>
                        run_items ctx clock worker src publish items (runErrors @ [MarkFailed (it_ID item) e]) w2)
               | (None, w2) \<Rightarrow> run_items ctx clock worker src publish items runErrors w2))))"

definition RunOnce ::
    "('w \<Rightarrow> string option) \<Rightarrow> ('w \<Rightarrow> time) \<Rightarrow> ('w, 'e) Worker \<Rightarrow> 'w \<Rightarrow> 'e work_error list \<times> 'w" where
  "RunOnce ctx clock worker w =
    (case (wk_Source worker, wk_Publisher worker) of
       (Some src, Some publish) \<Rightarrow>
    (case Worker_validate worker of
       Some e \<Rightarrow> ([e], w)
     | None \<Rightarrow>
    (case ctx w of
       Some e \<Rightarrow> ([WorkContext e], w)
     | None \<Rightarrow>
    (case src_Claim src (wk_WorkerID worker) (wk_Limit worker) (wk_Lease worker) w of
       (Inl e, w1) \<Rightarrow> ([ClaimFailed e], w1)
     | (Inr items, w1) \<Rightarrow>
         if int (length items) > wk_Limit worker
         then ([TooManyItems (length items) (wk_Limit worker)], w1)
         else case ctx w1 of
           Some e \<Rightarrow> ([WorkContext e], w1)
         | None \<Rightarrow> run_items ctx clock worker src publish items [] w1)))
     | _ \<Rightarrow> (case Worker_validate worker of Some e \<Rightarrow> ([e], w) | None \<Rightarrow> ([], w)))"

section \<open>The contract of a pass\<close>

text \<open>
  What a pass relies on.  \<open>inv\<close> is the invariant of the world, \<open>held w item\<close> says that \<open>item\<close> was claimed
  from the source, \<open>acked w item\<close> that the broker acknowledged its publication.  The laws: claiming hands
  out held items; publishing an item's request and getting no error means it is acknowledged; an
  acknowledged held item may be marked published; nothing that was held or acknowledged stops being so.
\<close>

locale delivery_pass =
  fixes src :: "('w, 'e) Source"
    and publish :: "PublishRequest \<Rightarrow> 'w \<Rightarrow> 'e option \<times> 'w"
    and inv :: "'w \<Rightarrow> bool"
    and held :: "'w \<Rightarrow> Item \<Rightarrow> bool"
    and acked :: "'w \<Rightarrow> Item \<Rightarrow> bool"
  assumes claim_inv: "inv w \<Longrightarrow> src_Claim src worker limit lease w = (r, w') \<Longrightarrow>
      inv w' \<and> (\<forall>items. r = Inr items \<longrightarrow> (\<forall>item \<in> set items. held w' item))"
    and publish_inv: "inv w \<Longrightarrow> publish request w = (err, w') \<Longrightarrow>
      inv w' \<and> (\<forall>item. held w item \<longrightarrow> held w' item)"
    and publish_acked: "inv w \<Longrightarrow> held w item \<Longrightarrow> publishRequest item = Inr request \<Longrightarrow>
      publish request w = (None, w') \<Longrightarrow> acked w' item"
    and mark_inv: "inv w \<Longrightarrow> held w item \<Longrightarrow> acked w item \<Longrightarrow>
      src_MarkPublished src (it_ID item) (it_LeaseToken item) w = (err, w') \<Longrightarrow>
      inv w' \<and> (\<forall>item. held w item \<longrightarrow> held w' item)"
    and release_inv: "inv w \<Longrightarrow> src_Release src i k t reason w = (err, w') \<Longrightarrow>
      inv w' \<and> (\<forall>item. held w item \<longrightarrow> held w' item)"
begin

lemma Worker_release_inv:
  "inv w \<Longrightarrow> Worker_release clock worker src item reason w = (errs, w') \<Longrightarrow>
    inv w' \<and> (\<forall>item. held w item \<longrightarrow> held w' item)"
  using release_inv by (force simp: Worker_release_def Let_def split: prod.splits option.splits)

lemma run_items_inv:
  "inv w \<Longrightarrow> \<forall>item \<in> set items. held w item \<Longrightarrow>
    inv (snd (run_items ctx clock worker src publish items errs w))"
proof (induction items arbitrary: errs w)
  case Nil
  then show ?case by (simp split: option.split)
next
  case (Cons item items)
  show ?case
  proof (cases "ctx w")
    case None
    show ?thesis
    proof (cases "publishRequest item")
      case (Inl e)
      obtain rel w1 where rel: "Worker_release clock worker src item ReasonMalformedItem w = (rel, w1)" by fastforce
      with Worker_release_inv [OF Cons.prems(1) rel] Cons.prems(2)
      show ?thesis by (simp add: None Inl Cons.IH)
    next
      case (Inr request)
      obtain err w1 where pub: "publish request w = (err, w1)" by fastforce
      note w1 = publish_inv [OF Cons.prems(1) pub]
      show ?thesis
      proof (cases err)
        case (Some e)
        obtain rel w2 where rel: "Worker_release clock worker src item ReasonPublishFailed w1 = (rel, w2)" by fastforce
        have "inv w2 \<and> (\<forall>item. held w1 item \<longrightarrow> held w2 item)" using Worker_release_inv [OF _ rel] w1 by blast
        with w1 Cons.prems(2) show ?thesis
          by (cases "ctx w1") (simp_all add: None Inr pub Some rel Cons.IH)
      next
        case ok: None
        obtain err2 w2 where mark: "src_MarkPublished src (it_ID item) (it_LeaseToken item) w1 = (err2, w2)" by fastforce
        have "acked w1 item" using publish_acked [OF Cons.prems(1) _ Inr] Cons.prems(2) pub ok by simp
        then have w2: "inv w2 \<and> (\<forall>item. held w1 item \<longrightarrow> held w2 item)"
          using mark_inv [OF _ _ _ mark] w1 Cons.prems(2) by simp
        with w1 Cons.prems(2) show ?thesis
          by (cases err2; cases "ctx w2") (simp_all add: None Inr pub ok mark Cons.IH)
      qed
    qed
  qed (simp add: Cons.prems)
qed

lemma RunOnce_inv:
  assumes "inv w" "wk_Source worker = Some src" "wk_Publisher worker = Some publish"
  shows "inv (snd (RunOnce ctx clock worker w))"
proof -
  obtain r w1 where claim: "src_Claim src (wk_WorkerID worker) (wk_Limit worker) (wk_Lease worker) w = (r, w1)"
    by fastforce
  from claim_inv [OF assms(1) claim] run_items_inv [of w1] assms claim show ?thesis
    by (auto simp: RunOnce_def split: option.splits sum.splits)
qed

end

end
