(* ===== verification/Delivery_Run.thy ===== *)
theory Delivery_Run
  imports Delivery_Worker
begin

text \<open>
  The delivery worker on the authority's outbox: every item a claim hands out is publishable, a row is
  closed as published only after the broker acknowledged its bytes, and a pass that nothing disturbs
  publishes everything it claimed.
\<close>

section \<open>Identifiers of committed rows are never empty\<close>

definition texts_present :: "authority_db \<Rightarrow> bool" where
  "texts_present db \<longleftrightarrow>
    (\<forall>c \<in> set (authority_cases db). cr_TenantID c \<noteq> [] \<and> cr_CaseID c \<noteq> [] \<and> cr_Domain c \<noteq> [] \<and> cr_IssuerEdgeID c \<noteq> [])"

lemma transaction_attempt_cases_row:
  assumes "\<And>tx rc cm err db'. work tx db = ((rc, cm, err), db') \<Longrightarrow> err = None \<or> cm \<Longrightarrow>
    authority_cases db' = authority_cases db \<or> (\<exists>c. P c \<and> authority_cases db' = authority_cases db @ [c])"
  shows "authority_cases (snd (transaction_attempt work pool env db)) = authority_cases db
    \<or> (\<exists>c. P c \<and> authority_cases (snd (transaction_attempt work pool env db)) = authority_cases db @ [c])"
proof -
  let ?tx = "\<lparr>tx_timestamptz = pool_timestamptz pool, tx_clock = at_clock env\<rparr>"
  obtain rc cm err db1 where w: "run_work env (work ?tx) db = ((rc, cm, err), db1)" by (metis prod.exhaust)
  have ok: "authority_cases db1 = authority_cases db \<or> (\<exists>c. P c \<and> authority_cases db1 = authority_cases db @ [c])"
    if c: "err = None \<or> cm"
  proof (cases "at_work env")
    case None
    with w have "work ?tx db = ((rc, cm, err), db1)" by (simp add: run_work_def)
    from assms [OF this c] show ?thesis .
  next
    case (Some f)
    with w c show ?thesis by (cases f) (auto simp: run_work_def work_fail_def)
  qed
  show ?thesis
    using ok by (simp add: transaction_attempt_def w rolled_back_def split: option.split)
qed

abbreviation case_texts :: "CaseRecord \<Rightarrow> bool" where
  "case_texts c \<equiv> cr_TenantID c \<noteq> [] \<and> cr_CaseID c \<noteq> [] \<and> cr_Domain c \<noteq> [] \<and> cr_IssuerEdgeID c \<noteq> []"

lemma CommitCase_work_cases_row:
  assumes valid: "CommitCaseRequest_Validate r = None"
    and w: "CommitCase_work s r tx db = ((rc, cm, err), db')" and ok: "err = None \<or> cm"
  shows "authority_cases db' = authority_cases db \<or> (\<exists>c. case_texts c \<and> authority_cases db' = authority_cases db @ [c])"
proof -
  from w ok have err: "err = None" using CommitCase_work_err by (cases err) blast+
  show ?thesis
  proof (cases "existingCase r db = Inr None")
    case True
    with CommitCase_work_ok w err have "db' = case_commit_db tx r db" by blast
    moreover have "case_texts (case_row tx r n)" for n
      using valid not_blank_nonempty
      by (auto simp: CommitCaseRequest_Validate_def validText_def case_row_def split: if_splits)
    ultimately show ?thesis by (auto simp: case_commit_db_def Let_def)
  next
    case False
    with w err have "db' = db"
      by (auto simp: CommitCase_work_def work_fail_def split: sum.splits option.splits)
    then show ?thesis by simp
  qed
qed

lemma CommitAdvice_work_cases_row:
  assumes w: "CommitAdvice_work s r tx db = ((rc, cm, err), db')" and ok: "err = None \<or> cm"
  shows "authority_cases db' = authority_cases db"
proof -
  from w ok have err: "err = None" using CommitAdvice_work_err by (cases err) blast+
  show ?thesis
  proof (cases "\<exists>stored. existingAdvice r db = Inr (Some stored)")
    case True
    with CommitAdvice_work_replay w err have "db' = db" by blast
    then show ?thesis by simp
  next
    case False
    then have nf: "existingAdvice r db \<noteq> Inr (Some stored)" for stored by blast
    from w err have "CommitAdvice_work s r tx db = ((rc, cm, None), db')" by simp
    from CommitAdvice_work_ok [OF this nf] obtain c where "db' = advice_commit_db tx r c db" by metis
    then show ?thesis by (simp add: advice_commit_db_def Let_def)
  qed
qed

lemma CommitRegistry_work_cases_row:
  assumes "CommitRegistry_work s r tx db = ((rc, cm, err), db')" and "err = None \<or> cm"
  shows "authority_cases db' = authority_cases db"
  using assms(1)
  by (cases rule: CommitRegistry_work_cases)
    (use assms(2) in \<open>auto simp: registry_commit_db_def halted_db_def Let_def\<close>)

lemma outbox_ops_cases [simp]:
  "authority_cases (snd (Claim s env w limit len db)) = authority_cases db"
  "authority_cases (snd (MarkPublished s f now i k db)) = authority_cases db"
  "authority_cases (snd (Release s f now i k t r db)) = authority_cases db"
  by (rule Claim_induct [where P = "\<lambda>x. authority_cases x = authority_cases db"])
    (auto simp: MarkPublished_def Release_def Let_def split: option.splits)

lemma texts_present_step:
  assumes "authority_step s db db'" and "texts_present db"
  shows "texts_present db'"
proof -
  have "authority_cases db' = authority_cases db \<or> (\<exists>c. case_texts c \<and> authority_cases db' = authority_cases db @ [c])"
    using assms(1)
  proof cases
    case (case_attempt pool r env)
    with transaction_attempt_cases_row [of "CommitCase_work s r" db case_texts pool env,
        OF CommitCase_work_cases_row [OF case_attempt(3)]]
    show ?thesis by simp
  next
    case (advice_attempt pool r env)
    with transaction_attempt_cases_row [of "CommitAdvice_work s r" db case_texts pool env]
      CommitAdvice_work_cases_row [of s r _ db]
    show ?thesis by blast
  next
    case (registry_attempt pool r env)
    with transaction_attempt_cases_row [of "CommitRegistry_work s r" db case_texts pool env]
      CommitRegistry_work_cases_row [of s r _ db]
    show ?thesis by blast
  qed simp_all
  with assms(2) show ?thesis by (auto simp: texts_present_def)
qed

lemma texts_present_reachable: "authority_reachable s db \<Longrightarrow> texts_present db"
proof (induction rule: authority_reachable_induct)
  case empty
  show ?case by (simp add: texts_present_def empty_db_def)
qed (rule texts_present_step)

section \<open>What a claimed item carries\<close>

lemma outbox_item_cong:
  "outbox_identity o1 = outbox_identity o2 \<Longrightarrow> authority_cases db1 = authority_cases db2 \<Longrightarrow>
    authority_edge_deliveries db1 = authority_edge_deliveries db2 \<Longrightarrow>
    outbox_item k o1 db1 = outbox_item k o2 db2"
  by (simp add: outbox_item_def outbox_identity_def Let_def)

lemma find_Some_in: "find p xs = Some y \<Longrightarrow> y \<in> set xs \<and> p y"
  by (induction xs) (auto split: if_splits)

lemma claim_loop_items:
  assumes "claim_loop env w len ids n db = Inr (items, db')" and "item \<in> set items"
  shows "\<exists>m. \<exists>o' \<in> set (authority_outbox db). item = outbox_item (ce_uuid env m) o' db"
  using assms
proof (induction ids arbitrary: n db items)
  case (Cons i ids)
  let ?p = "\<lambda>o'. ob_outbox_id o' = i \<and> open_row o'"
  let ?f = "leased_row w (ce_uuid env n) (ce_clock env n + (len div 1000) * 1000)"
  let ?db = "db\<lparr>authority_outbox := update_rows ?p ?f (authority_outbox db)\<rparr>"
  from Cons.prems(1) obtain first items' where items: "items = first # items'"
    and read: "readClaimedOutboxItem i (ce_uuid env n) ?db = Inr first"
    and rest: "claim_loop env w len ids (Suc n) ?db = Inr (items', db')"
    by (auto simp: claim_loop_Cons_Inr)
  have origin: "\<exists>o' \<in> set (authority_outbox db). outbox_item k o1 ?db = outbox_item k o' db"
    if o1: "o1 \<in> set (authority_outbox ?db)" for o1 k
  proof -
    from o1 obtain o' where o': "o' \<in> set (authority_outbox db)" "o1 = (if ?p o' then ?f o' else o')"
      using set_update_rows_D [of o1 ?p ?f] by auto
    then have "outbox_identity o1 = outbox_identity o'" by (simp add: leased_row_keeps)
    then have "outbox_item k o1 ?db = outbox_item k o' db" by (rule outbox_item_cong) simp_all
    with o' show ?thesis by blast
  qed
  show ?case
  proof (cases "item = first")
    case True
    from read obtain o1 where "find (\<lambda>o'. ob_outbox_id o' = i \<and> ob_lease_token o' = Some (ce_uuid env n))
        (authority_outbox ?db) = Some o1" "first = outbox_item (ce_uuid env n) o1 ?db"
      by (auto simp: readClaimedOutboxItem_def split: option.splits)
    then have "o1 \<in> set (authority_outbox ?db)" "item = outbox_item (ce_uuid env n) o1 ?db"
      using find_Some_in True by fast+
    with origin [of o1 "ce_uuid env n"] show ?thesis by auto
  next
    case False
    with Cons.prems(2) items have "item \<in> set items'" by simp
    from Cons.IH [OF rest this] obtain m o1 where
      "o1 \<in> set (authority_outbox ?db)" "item = outbox_item (ce_uuid env m) o1 ?db" by blast
    with origin [of o1 "ce_uuid env m"] show ?thesis by auto
  qed
qed simp

lemma Claim_items:
  assumes "Claim s env w limit len db = (Inr items, db')" and "item \<in> set items"
  shows "\<exists>m. \<exists>o' \<in> set (authority_outbox db). item = outbox_item (ce_uuid env m) o' db"
proof -
  have "claim_loop env w len (select_claims (ce_select_clock env) (ce_locked env) limit db) 0 db = Inr (items, db')"
    using assms(1) by (auto simp: Claim_def split: if_splits option.splits sum.splits)
  from claim_loop_items [OF this assms(2)] show ?thesis .
qed

section \<open>Every claimed item is publishable\<close>

lemma find_never [simp]: "find (\<lambda>_. False) xs = None"
  by (simp add: find_None_iff)

lemma find_SomeI:
  assumes "x \<in> set xs" "p x" and "\<And>y. y \<in> set xs \<Longrightarrow> p y \<Longrightarrow> y = x \<or> q y" and "q x"
  shows "\<exists>y. find p xs = Some y \<and> y \<in> set xs \<and> p y \<and> q y"
proof -
  have "find p xs \<noteq> None" using assms(1,2) by (auto simp: find_None_iff)
  then obtain y where "find p xs = Some y" by blast
  moreover from this have "y \<in> set xs" "p y" using find_Some_in [of p xs y] by simp_all
  ultimately show ?thesis using assms(3,4) by blast
qed

text \<open>A committed outbox row: what its identity columns say and which rows its joins find.\<close>

lemma outbox_row_facts:
  assumes inv: "authority_inv db" and pres: "texts_present db" and o': "o' \<in> set (authority_outbox db)"
  obtains (domain) c where "c \<in> set (authority_cases db)"
      "outbox_identity o' = outbox_entry (cr_TenantID c) ''case'' (cr_CaseID c) (cr_Raw c) (cr_AuthorityRevision c)
         ''domain_dispatch'' (cr_Domain c)"
  | (edge) d kind entity raw where "d \<in> set (authority_edge_deliveries db)"
      "kind = ''case'' \<or> kind = ''advice''" "entity \<noteq> []" "raw \<noteq> []" "dr_tenant_id d \<noteq> []" "dr_edge_id d \<noteq> []"
      "0 < ed_AuthorityRevision (dr_delivery d)"
      "outbox_identity o' = outbox_entry (dr_tenant_id d) kind entity raw (ed_AuthorityRevision (dr_delivery d))
         ''edge_delivery'' (edgeKey (dr_edge_id d) (dr_edge_generation d))"
      "ed_Kind (dr_delivery d) = kind" "ed_CaseID (dr_delivery d) = entity" "ed_Raw (dr_delivery d) = raw"
proof -
  have at: "facts_atomic db" and chk: "rows_checked db" and bound: "advice_bound db"
    using inv by (simp_all add: authority_inv_def)
  have pos: "0 < n" if "n \<in> set (fact_revisions db)" for n using revision_positive [OF inv that] .
  note parts = at [unfolded facts_atomic_def]
  note carried = parts [THEN conjunct1] parts [THEN conjunct2, THEN conjunct1]
    and all = parts [THEN conjunct2, THEN conjunct2, THEN conjunct2]
  have "outbox_identity o' \<in> (\<Union>c \<in> set (authority_cases db). set (case_outbox_entries c))
      \<union> (\<Union>a \<in> set (authority_advice db). set (advice_outbox_entries a))"
    unfolding all [symmetric] using o' by (rule imageI)
  then show thesis
  proof (elim UnE UN_E)
    fix c
    assume c: "c \<in> set (authority_cases db)" "outbox_identity o' \<in> set (case_outbox_entries c)"
    obtain d where d: "d \<in> set (authority_edge_deliveries db)" "case_delivers c d"
      using carried(1) c(1) by blast
    have raw: "cr_Raw c \<noteq> []" using chk c(1) by (auto simp: rows_checked_def list_all_iff case_row_check_def)
    have rev: "0 < cr_AuthorityRevision c" using pos c(1) by (simp add: fact_revisions_def)
    have texts: "case_texts c" using pres c(1) by (simp add: texts_present_def)
    show thesis
      using c(2) domain [OF c(1)] edge [OF d(1), of "''case''" "cr_CaseID c" "cr_Raw c"] d(2) raw rev texts
      by (auto simp: case_outbox_entries_def case_delivers_def)
  next
    fix a
    assume a: "a \<in> set (authority_advice db)" "outbox_identity o' \<in> set (advice_outbox_entries a)"
    obtain d where d: "d \<in> set (authority_edge_deliveries db)" "advice_delivers a d"
      using carried(2) a(1) by blast
    obtain c where c: "c \<in> set (authority_cases db)" "advice_answers a c"
      using bound a(1) unfolding advice_bound_def by blast
    have raw: "adv_raw a \<noteq> []" using chk a(1) by (auto simp: rows_checked_def list_all_iff advice_row_check_def)
    have rev: "0 < adv_commit_revision a" using pos a(1) by (simp add: fact_revisions_def)
    have texts: "case_texts c" using pres c(1) by (simp add: texts_present_def)
    show thesis
      using a(2) edge [OF d(1), of "''advice''" "adv_case_id a" "adv_raw a"] d(2) c(2) raw rev texts
      by (auto simp: advice_outbox_entries_def advice_delivers_def advice_answers_def)
  qed
qed

lemma case_revision_unique:
  assumes "authority_inv db" "c \<in> set (authority_cases db)" "c' \<in> set (authority_cases db)"
    "cr_AuthorityRevision c = cr_AuthorityRevision c'"
  shows "c = c'"
proof -
  have "distinct (map cr_AuthorityRevision (authority_cases db))"
    using assms(1) by (simp add: authority_inv_def revisions_ordered_def fact_revisions_def)
  from distinct_key_eq [OF this assms(2,3,4)] show ?thesis .
qed

lemma delivery_revision_unique:
  assumes inv: "authority_inv db" and rows: "d \<in> set (authority_edge_deliveries db)" "d' \<in> set (authority_edge_deliveries db)"
    and same: "ed_AuthorityRevision (dr_delivery d) = ed_AuthorityRevision (dr_delivery d')"
  shows "dr_edge_id d = dr_edge_id d' \<and> dr_edge_generation d = dr_edge_generation d'
    \<and> ed_Kind (dr_delivery d) = ed_Kind (dr_delivery d') \<and> ed_CaseID (dr_delivery d) = ed_CaseID (dr_delivery d')
    \<and> ed_Raw (dr_delivery d) = ed_Raw (dr_delivery d')"
proof -
  note parts = inv [unfolded authority_inv_def facts_atomic_def]
  have origin: "(\<exists>c \<in> set (authority_cases db). case_delivers c x) \<or> (\<exists>a \<in> set (authority_advice db). advice_delivers a x)"
    if "x \<in> set (authority_edge_deliveries db)" for x
    using parts that by meson
  have dist: "distinct (fact_revisions db)" using inv by (simp add: authority_inv_def revisions_ordered_def)
  then have adv: "a = a'" if "a \<in> set (authority_advice db)" "a' \<in> set (authority_advice db)"
      "adv_commit_revision a = adv_commit_revision a'" for a a'
    using that distinct_key_eq [of adv_commit_revision "authority_advice db" a a'] by (simp add: fact_revisions_def)
  have mixed: "cr_AuthorityRevision c \<noteq> adv_commit_revision a"
    if "c \<in> set (authority_cases db)" "a \<in> set (authority_advice db)" for c a
    using dist that by (auto simp: fact_revisions_def)
  note same' = same adv mixed case_revision_unique [OF inv]
  from origin [OF rows(1)] origin [OF rows(2)] show ?thesis
    by (elim disjE bexE; unfold case_delivers_def advice_delivers_def; metis same')
qed

lemma delivery_positive:
  assumes inv: "authority_inv db" and d: "d \<in> set (authority_edge_deliveries db)"
  shows "0 < ed_Sequence (dr_delivery d) \<and> 0 < dr_edge_generation d"
proof
  let ?rows = "edge_rows (dr_tenant_id d) (dr_edge_id d) (dr_edge_generation d) db"
  have "dr_delivery d \<in> set ?rows" using d by (simp add: edge_rows_def)
  then have "ed_Sequence (dr_delivery d) \<in> set (map ed_Sequence ?rows)" by simp
  moreover obtain n where "map ed_Sequence ?rows = [1..n]"
    using inv by (auto simp: authority_inv_def log_contiguous_def)
  ultimately show "0 < ed_Sequence (dr_delivery d)" by simp
  note parts = inv [unfolded authority_inv_def facts_atomic_def rows_checked_def list_all_iff]
  from parts d have "(\<exists>c \<in> set (authority_cases db). case_delivers c d) \<or> (\<exists>a \<in> set (authority_advice db). advice_delivers a d)"
    by meson
  with parts show "0 < dr_edge_generation d"
    by (auto simp: case_delivers_def advice_delivers_def case_row_check_def advice_row_check_def)
qed

lemma deterministicOutboxID_nonempty [simp]: "deterministicOutboxID parts \<noteq> []"
  by (simp add: deterministicOutboxID_def sha256_text_def)

lemma uint64_pos: "0 < x \<Longrightarrow> x \<le> max_int64 \<Longrightarrow> uint64 x = nat x"
  by (simp add: uint64_def max_int64_def)

definition item_int64 :: "Item \<Rightarrow> bool" where
  "item_int64 i \<longleftrightarrow> it_AuthorityRevision i \<le> max_int64 \<and> it_EdgeGeneration i \<le> max_int64
     \<and> it_DeliverySequence i \<le> max_int64"

text \<open>The messages a committed fact calls for: the wake of a case's domain and the envelope of a delivery.\<close>

definition domain_request :: "string \<Rightarrow> CaseRecord \<Rightarrow> PublishRequest" where
  "domain_request outboxID c =
    \<lparr>pr_OutboxID = outboxID, pr_Destination = DestinationDomain, pr_TenantID = cr_TenantID c,
     pr_DomainID = cr_Domain c, pr_EdgeID = [], pr_EdgeGeneration = 0, pr_RawSSP = cr_Raw c,
     pr_FactSequence = nat (cr_AuthorityRevision c), pr_DeliverySequence = 0\<rparr>"

definition edge_request :: "string \<Rightarrow> delivery_row \<Rightarrow> PublishRequest" where
  "edge_request outboxID d =
    \<lparr>pr_OutboxID = outboxID, pr_Destination = DestinationEdge, pr_TenantID = dr_tenant_id d,
     pr_DomainID = [], pr_EdgeID = dr_edge_id d, pr_EdgeGeneration = nat (dr_edge_generation d),
     pr_RawSSP = ed_Raw (dr_delivery d), pr_FactSequence = nat (ed_AuthorityRevision (dr_delivery d)),
     pr_DeliverySequence = nat (ed_Sequence (dr_delivery d))\<rparr>"

definition item_of_fact :: "Item \<Rightarrow> authority_db \<Rightarrow> bool" where
  "item_of_fact item db \<longleftrightarrow>
    (\<exists>c \<in> set (authority_cases db). it_EventKind item = ''case'' \<and> it_EntityID item = cr_CaseID c
       \<and> it_DestinationKind item = ''domain_dispatch''
       \<and> publishRequest item = Inr (domain_request (it_ID item) c))
    \<or> (\<exists>d \<in> set (authority_edge_deliveries db). it_EventKind item = ed_Kind (dr_delivery d)
       \<and> it_EntityID item = ed_CaseID (dr_delivery d) \<and> it_DestinationKind item = ''edge_delivery''
       \<and> publishRequest item = Inr (edge_request (it_ID item) d))"

lemma outbox_item_publishable:
  assumes inv: "authority_inv db" and pres: "texts_present db" and o': "o' \<in> set (authority_outbox db)"
    and item: "item = outbox_item k o' db"
    and tok: "k \<noteq> []" and size: "length (it_Raw item) \<le> MaxEnvelopeBytes" and ints: "item_int64 item"
  shows "item_of_fact item db"
  using inv pres o'
proof (cases rule: outbox_row_facts)
  case (domain c)
  have texts: "case_texts c" using pres domain(1) by (simp add: texts_present_def)
  have raw: "cr_Raw c \<noteq> []" using inv domain(1)
    by (auto simp: authority_inv_def rows_checked_def list_all_iff case_row_check_def)
  have rev: "0 < cr_AuthorityRevision c" using revision_positive [OF inv] domain(1) by (simp add: fact_revisions_def)
  note row = domain(2) [unfolded outbox_identity_def outbox_entry_def]
  have "find (\<lambda>x. ob_destination_kind o' = ''domain_dispatch'' \<and> cr_TenantID x = ob_tenant_id o'
      \<and> cr_AuthorityRevision x = ob_authority_revision o') (authority_cases db) = Some c"
    using find_SomeI [of c "authority_cases db" "\<lambda>x. ob_destination_kind o' = ''domain_dispatch''
        \<and> cr_TenantID x = ob_tenant_id o' \<and> cr_AuthorityRevision x = ob_authority_revision o'" "\<lambda>x. x = c"]
      domain(1) row case_revision_unique [OF inv] by auto
  then have fields: "it_DomainID item = cr_Domain c" "it_EdgeID item = []" "it_EdgeGeneration item = 0"
    "it_DeliverySequence item = 0"
    using row by (simp_all add: item outbox_item_def Let_def find_None_iff split: option.split)
  have base: "it_ID item \<noteq> []" "it_LeaseToken item = k" "it_TenantID item = cr_TenantID c"
    "it_EventKind item = ''case''" "it_EntityID item = cr_CaseID c" "it_DestinationKind item = ''domain_dispatch''"
    "it_DestinationKey item = cr_Domain c" "it_Raw item = cr_Raw c" "it_AuthorityRevision item = cr_AuthorityRevision c"
    using row by (simp_all add: item outbox_item_def Let_def)
  have "publishRequest item = Inr (domain_request (it_ID item) c)"
    using fields base texts raw rev tok size ints
    by (simp add: publishRequest_def validateCommonItem_def route_request_def base_request_def SubjectFor_def
        validatePublishRequest_def destinationSubject_def Let_def item_int64_def uint64_pos domain_request_def)
  with base domain(1) show ?thesis by (auto simp: item_of_fact_def)
next
  case (edge d kind entity raw)
  note row = edge(8) [unfolded outbox_identity_def outbox_entry_def]
  let ?p = "\<lambda>x. ob_destination_kind o' = ''edge_delivery'' \<and> dr_tenant_id x = ob_tenant_id o'
      \<and> ed_AuthorityRevision (dr_delivery x) = ob_authority_revision o'"
  obtain y where y: "find ?p (authority_edge_deliveries db) = Some y" "y \<in> set (authority_edge_deliveries db)" "?p y"
    using find_SomeI [of d "authority_edge_deliveries db" ?p "\<lambda>_. True"] edge(1) row by auto
  have same: "dr_edge_id y = dr_edge_id d" "dr_edge_generation y = dr_edge_generation d"
    "ed_Kind (dr_delivery y) = kind" "ed_CaseID (dr_delivery y) = entity" "ed_Raw (dr_delivery y) = raw"
    "dr_tenant_id y = dr_tenant_id d" "ed_AuthorityRevision (dr_delivery y) = ed_AuthorityRevision (dr_delivery d)"
    using delivery_revision_unique [OF inv y(2) edge(1)] y(3) row edge(9-11) by auto
  have fields: "it_DomainID item = []" "it_EdgeID item = dr_edge_id d" "it_EdgeGeneration item = dr_edge_generation d"
    "it_DeliverySequence item = ed_Sequence (dr_delivery y)"
    using row y(1) same by (simp_all add: item outbox_item_def Let_def find_None_iff split: option.split)
  have base: "it_ID item \<noteq> []" "it_LeaseToken item = k" "it_TenantID item = dr_tenant_id d"
    "it_EventKind item = kind" "it_EntityID item = entity" "it_DestinationKind item = ''edge_delivery''"
    "it_DestinationKey item = edgeKey (dr_edge_id d) (dr_edge_generation d)" "it_Raw item = raw"
    "it_AuthorityRevision item = ed_AuthorityRevision (dr_delivery d)"
    using row by (simp_all add: item outbox_item_def Let_def)
  have pos: "0 < ed_Sequence (dr_delivery y)" "0 < dr_edge_generation d"
    using delivery_positive [OF inv y(2)] delivery_positive [OF inv edge(1)] by simp_all
  have "publishRequest item = Inr (edge_request (it_ID item) y)"
    using fields base edge(2-7) pos tok size ints same
    by (simp add: publishRequest_def validateCommonItem_def route_request_def base_request_def SubjectFor_def
        validatePublishRequest_def destinationSubject_def Let_def item_int64_def uint64_pos edgeKey_def edge_request_def)
  with base same y(2) show ?thesis unfolding item_of_fact_def by (intro disjI2 bexI [of _ y]) simp_all
qed

text \<open>
  C19. Every item a claim hands out carries its committed fact: in any reachable state of the authority the
  outbox row, joined with the case or delivery row of its revision, passes every check of the worker, and its
  publish request is that of the fact.  An item of a case's domain yields the wake of that case's domain with
  the case's tenant, bytes and revision; an item of an edge delivery yields the tenant, edge, generation,
  delivery sequence, bytes and revision of a row of the delivery log.  The hypotheses say that the lease
  tokens drawn are not empty, that the envelope is within the size limit and that the numbers are 64-bit
  integers.
\<close>

theorem claimed_items_publishable:
  assumes "authority_reachable s db" and "Claim s env w limit len db = (Inr items, db')" and "item \<in> set items"
    and "\<forall>n. ce_uuid env n \<noteq> []" and "length (it_Raw item) \<le> MaxEnvelopeBytes" and "item_int64 item"
  shows "(it_DestinationKind item = ''domain_dispatch'' \<and> it_EventKind item = ''case''
      \<and> (\<exists>c \<in> set (authority_cases db). it_EntityID item = cr_CaseID c
           \<and> publishRequest item = Inr (domain_request (it_ID item) c)))
    \<or> (it_DestinationKind item = ''edge_delivery''
      \<and> (\<exists>d \<in> set (authority_edge_deliveries db). it_EventKind item = ed_Kind (dr_delivery d)
           \<and> it_EntityID item = ed_CaseID (dr_delivery d)
           \<and> publishRequest item = Inr (edge_request (it_ID item) d)))"
proof -
  obtain m o' where "o' \<in> set (authority_outbox db)" "item = outbox_item (ce_uuid env m) o' db"
    using Claim_items [OF assms(2,3)] by blast
  from outbox_item_publishable [OF authority_reachable_inv [OF assms(1)] texts_present_reachable [OF assms(1)] this]
    assms(4-6) show ?thesis unfolding item_of_fact_def by blast
qed

section \<open>The worker on the authority store and JetStream\<close>

text \<open>
  The composition of \<^verbatim>\<open>cmd/snagline-delivery\<close>: the PostgreSQL store as source and
  \<^verbatim>\<open>deliverystream.Publish\<close> as publisher.  The world holds the database, the log of the calls that
  matter (an acknowledged message, a call of \<^verbatim>\<open>MarkPublished\<close>) and the environment: call number \<open>n\<close>
  finds the database moved by other clients, the server's clock, the failures of the call, the broker's
  answer and the state of the context.
\<close>

datatype delivery_event = Acked nats_Msg string | Marked string string

record delivery_env =
  de_others :: "nat \<Rightarrow> authority_db \<Rightarrow> authority_db"
  de_claim :: "nat \<Rightarrow> claim_env"
  de_clock :: "nat \<Rightarrow> time"
  de_fault :: "nat \<Rightarrow> (string \<times> bool) option"
  de_broker :: "nat \<Rightarrow> string + bool"
  de_ctx :: "nat \<Rightarrow> string option"
  de_now :: "nat \<Rightarrow> time"

record delivery_world =
  dw_db :: authority_db
  dw_log :: "delivery_event list"
  dw_calls :: nat
  dw_env :: delivery_env

type_synonym delivery_error = "store_error + stream_error"

definition before_call :: "delivery_world \<Rightarrow> authority_db" where
  "before_call w = de_others (dw_env w) (dw_calls w) (dw_db w)"

definition after_call :: "authority_db \<Rightarrow> delivery_world \<Rightarrow> delivery_world" where
  "after_call db w = w\<lparr>dw_db := db, dw_calls := Suc (dw_calls w)\<rparr>"

definition world_Claim ::
    "Store \<Rightarrow> string \<Rightarrow> int \<Rightarrow> int \<Rightarrow> delivery_world \<Rightarrow> (delivery_error + Item list) \<times> delivery_world" where
  "world_Claim s worker limit lease w =
    (case Claim s (de_claim (dw_env w) (dw_calls w)) worker limit lease (before_call w) of
       (Inl e, db) \<Rightarrow> (Inl (Inl e), after_call db w)
     | (Inr items, db) \<Rightarrow> (Inr items, after_call db w))"

definition world_MarkPublished ::
    "Store \<Rightarrow> string \<Rightarrow> string \<Rightarrow> delivery_world \<Rightarrow> delivery_error option \<times> delivery_world" where
  "world_MarkPublished s i k w =
    (case MarkPublished s (de_fault (dw_env w) (dw_calls w)) (de_clock (dw_env w) (dw_calls w)) i k (before_call w) of
       (err, db) \<Rightarrow> (map_option Inl err, after_call db (w\<lparr>dw_log := dw_log w @ [Marked i k]\<rparr>)))"

definition world_Release ::
    "Store \<Rightarrow> string \<Rightarrow> string \<Rightarrow> time \<Rightarrow> string \<Rightarrow> delivery_world \<Rightarrow> delivery_error option \<times> delivery_world" where
  "world_Release s i k retryAt reason w =
    (case Release s (de_fault (dw_env w) (dw_calls w)) (de_clock (dw_env w) (dw_calls w)) i k retryAt reason
            (before_call w) of
       (err, db) \<Rightarrow> (map_option Inl err, after_call db w))"

definition world_PublishMsg ::
    "nats_Msg \<Rightarrow> string \<Rightarrow> string \<Rightarrow> delivery_world \<Rightarrow> (string + bool) \<times> delivery_world" where
  "world_PublishMsg msg msgID stream w =
    (case de_broker (dw_env w) (dw_calls w) of
       Inl e \<Rightarrow> (Inl e, after_call (before_call w) w)
     | Inr duplicate \<Rightarrow>
         (Inr duplicate, after_call (before_call w) (w\<lparr>dw_log := dw_log w @ [Acked msg msgID]\<rparr>)))"

definition world_publish :: "PublishRequest \<Rightarrow> delivery_world \<Rightarrow> delivery_error option \<times> delivery_world" where
  "world_publish request w =
    (case Publish (Some world_PublishMsg) request w of
       (Inl e, w') \<Rightarrow> (Some (Inr e), w')
     | (Inr _, w') \<Rightarrow> (None, w'))"

definition world_source :: "Store \<Rightarrow> (delivery_world, delivery_error) Source" where
  "world_source s = \<lparr>src_Claim = world_Claim s, src_MarkPublished = world_MarkPublished s, src_Release = world_Release s\<rparr>"

definition delivery_worker :: "Store \<Rightarrow> string \<Rightarrow> int \<Rightarrow> int \<Rightarrow> int \<Rightarrow> (delivery_world, delivery_error) Worker" where
  "delivery_worker s workerID limit lease retryDelay =
    \<lparr>wk_Source = Some (world_source s), wk_Publisher = Some world_publish, wk_WorkerID = workerID,
     wk_Limit = limit, wk_Lease = lease, wk_RetryDelay = retryDelay, wk_Now = None\<rparr>"

definition deliver :: "(delivery_world, delivery_error) Worker \<Rightarrow> delivery_world \<Rightarrow> delivery_error work_error list \<times> delivery_world" where
  "deliver worker =
    RunOnce (\<lambda>w. de_ctx (dw_env w) (dw_calls w)) (\<lambda>w. de_now (dw_env w) (dw_calls w)) worker"

section \<open>A row is closed only after its bytes were acknowledged\<close>

definition row_bytes :: "authority_db \<Rightarrow> string \<Rightarrow> bytes \<Rightarrow> bool" where
  "row_bytes db i raw \<longleftrightarrow> (\<exists>o' \<in> set (authority_outbox db). ob_outbox_id o' = i \<and> ob_raw o' = raw)"

definition acked_before :: "delivery_world \<Rightarrow> bool" where
  "acked_before w \<longleftrightarrow>
    (\<forall>xs i k ys. dw_log w = xs @ Marked i k # ys \<longrightarrow>
       (\<exists>msg. Acked msg (MessageID i) \<in> set xs \<and> row_bytes (dw_db w) i (msg_Data msg)))"

definition world_inv :: "Store \<Rightarrow> delivery_world \<Rightarrow> bool" where
  "world_inv s w \<longleftrightarrow> authority_reachable s (dw_db w) \<and> acked_before w
    \<and> (\<forall>n db. (authority_step s)\<^sup>*\<^sup>* db (de_others (dw_env w) n db))"

definition world_held :: "delivery_world \<Rightarrow> Item \<Rightarrow> bool" where
  "world_held w item \<longleftrightarrow> row_bytes (dw_db w) (it_ID item) (it_Raw item)"

definition world_acked :: "delivery_world \<Rightarrow> Item \<Rightarrow> bool" where
  "world_acked w item \<longleftrightarrow> (\<exists>msg. Acked msg (MessageID (it_ID item)) \<in> set (dw_log w) \<and> msg_Data msg = it_Raw item)"

lemma row_bytes_steps:
  assumes "(authority_step s)\<^sup>*\<^sup>* db db'" and "row_bytes db i raw"
  shows "row_bytes db' i raw"
proof -
  obtain o' where o': "o' \<in> set (authority_outbox db)" "ob_outbox_id o' = i" "ob_raw o' = raw"
    using assms(2) by (auto simp: row_bytes_def)
  have "prefix (map outbox_identity (authority_outbox db)) (map outbox_identity (authority_outbox db'))"
    using authority_steps_evolve [OF assms(1)] by (simp add: evolves_def history_extends_def)
  then have "outbox_identity o' \<in> set (map outbox_identity (authority_outbox db'))"
    using set_mono_prefix o'(1) by fastforce
  then obtain o2 where "o2 \<in> set (authority_outbox db')" "outbox_identity o2 = outbox_identity o'" by auto
  with o' show ?thesis by (auto simp: row_bytes_def outbox_identity_def)
qed

lemma acked_before_db:
  assumes "acked_before w" and log: "dw_log w' = dw_log w"
    and rows: "\<And>i raw. row_bytes (dw_db w) i raw \<Longrightarrow> row_bytes (dw_db w') i raw"
  shows "acked_before w'"
  unfolding acked_before_def log
proof (intro allI impI)
  fix xs i k ys
  assume "dw_log w = xs @ Marked i k # ys"
  with assms(1) obtain msg where "Acked msg (MessageID i) \<in> set xs" "row_bytes (dw_db w) i (msg_Data msg)"
    unfolding acked_before_def by blast
  with rows show "\<exists>msg. Acked msg (MessageID i) \<in> set xs \<and> row_bytes (dw_db w') i (msg_Data msg)" by blast
qed

lemma acked_before_snoc:
  assumes "acked_before w" and log: "dw_log w' = dw_log w @ [e]"
    and rows: "\<And>i raw. row_bytes (dw_db w) i raw \<Longrightarrow> row_bytes (dw_db w') i raw"
    and marked: "\<And>i k. e = Marked i k \<Longrightarrow> \<exists>msg. Acked msg (MessageID i) \<in> set (dw_log w) \<and> row_bytes (dw_db w') i (msg_Data msg)"
  shows "acked_before w'"
  unfolding acked_before_def
proof (intro allI impI)
  fix xs i k ys
  assume split: "dw_log w' = xs @ Marked i k # ys"
  show "\<exists>msg. Acked msg (MessageID i) \<in> set xs \<and> row_bytes (dw_db w') i (msg_Data msg)"
  proof (cases ys rule: rev_cases)
    case Nil
    with split log have "e = Marked i k" "xs = dw_log w" by simp_all
    with marked [of i k] show ?thesis by simp
  next
    case (snoc ys' e')
    with split log have "dw_log w = xs @ Marked i k # ys'" by simp
    with assms(1) obtain msg where "Acked msg (MessageID i) \<in> set xs" "row_bytes (dw_db w) i (msg_Data msg)"
      unfolding acked_before_def by blast
    with rows show ?thesis by blast
  qed
qed

lemma Claim_steps: "authority_step s db (snd (Claim s env worker limit lease db))"
  by (rule authority_step.claim)

lemma before_call_steps:
  "world_inv s w \<Longrightarrow> (authority_step s)\<^sup>*\<^sup>* (dw_db w) (before_call w)"
  by (simp add: world_inv_def before_call_def)

lemma authority_reachable_steps:
  "authority_reachable s db \<Longrightarrow> (authority_step s)\<^sup>*\<^sup>* db db' \<Longrightarrow> authority_reachable s db'"
  unfolding authority_reachable_def by (rule rtranclp_trans)

lemma after_call_keeps:
  assumes inv: "world_inv s w" and steps: "(authority_step s)\<^sup>*\<^sup>* (dw_db w) db"
    and log: "log = dw_log w \<or> log = dw_log w @ [e]"
    and marked: "\<And>i k. e = Marked i k \<Longrightarrow> \<exists>msg. Acked msg (MessageID i) \<in> set (dw_log w) \<and> row_bytes (dw_db w) i (msg_Data msg)"
  shows "world_inv s (after_call db (w\<lparr>dw_log := log\<rparr>))
    \<and> (\<forall>item. world_held w item \<longrightarrow> world_held (after_call db (w\<lparr>dw_log := log\<rparr>)) item)"
proof -
  let ?w = "after_call db (w\<lparr>dw_log := log\<rparr>)"
  have w': "dw_db ?w = db" "dw_log ?w = log" "dw_env ?w = dw_env w" by (simp_all add: after_call_def)
  have rows: "row_bytes (dw_db w) i raw \<Longrightarrow> row_bytes (dw_db ?w) i raw" for i raw
    using row_bytes_steps [OF steps] w' by simp
  have before: "acked_before w" using inv by (simp add: world_inv_def)
  have "acked_before ?w"
    using log
  proof
    assume "log = dw_log w"
    then show ?thesis using acked_before_db [OF before, of ?w] rows w' by simp
  next
    assume "log = dw_log w @ [e]"
    then show ?thesis using acked_before_snoc [OF before, of ?w e] rows marked w' by metis
  qed
  moreover have "authority_reachable s db"
    using inv authority_reachable_steps [OF _ steps] by (simp add: world_inv_def)
  ultimately show ?thesis using inv rows w' by (simp add: world_inv_def world_held_def)
qed

lemma world_Claim_inv:
  assumes inv: "world_inv s w" and call: "world_Claim s worker limit lease w = (r, w')"
  shows "world_inv s w' \<and> (\<forall>items. r = Inr items \<longrightarrow> (\<forall>item \<in> set items. world_held w' item))"
proof -
  obtain r0 db where claim: "Claim s (de_claim (dw_env w) (dw_calls w)) worker limit lease (before_call w) = (r0, db)"
    by fastforce
  have step: "authority_step s (before_call w) db"
    using Claim_steps [of s "before_call w" "de_claim (dw_env w) (dw_calls w)" worker limit lease] claim by simp
  have steps: "(authority_step s)\<^sup>*\<^sup>* (dw_db w) db"
    using before_call_steps [OF inv] step by simp
  have w': "w' = after_call db w" and r: "\<And>items. r = Inr items \<Longrightarrow> r0 = Inr items"
    using call claim by (auto simp: world_Claim_def split: sum.splits)
  have "world_inv s w'" unfolding w' using after_call_keeps [OF inv steps, of "dw_log w" "Acked undefined undefined"] by simp
  moreover have "world_held w' item" if "r = Inr items" "item \<in> set items" for items item
  proof -
    from claim r [OF that(1)] have "Claim s (de_claim (dw_env w) (dw_calls w)) worker limit lease (before_call w) = (Inr items, db)"
      by simp
    from Claim_items [OF this that(2)] obtain m o' where "o' \<in> set (authority_outbox (before_call w))"
      "item = outbox_item (ce_uuid (de_claim (dw_env w) (dw_calls w)) m) o' (before_call w)" by blast
    then have "row_bytes (before_call w) (it_ID item) (it_Raw item)"
      by (auto simp: row_bytes_def outbox_item_def Let_def)
    with row_bytes_steps [OF r_into_rtranclp [of "authority_step s", OF step]] show ?thesis
      by (simp add: world_held_def w' after_call_def)
  qed
  ultimately show ?thesis by blast
qed

lemma world_publish_inv:
  assumes inv: "world_inv s w" and call: "world_publish request w = (err, w')"
  shows "world_inv s w' \<and> (\<forall>item. world_held w item \<longrightarrow> world_held w' item)"
proof -
  have "w' = w \<or> w' = after_call (before_call w) (w\<lparr>dw_log := dw_log w\<rparr>)
      \<or> (\<exists>msg i. w' = after_call (before_call w) (w\<lparr>dw_log := dw_log w @ [Acked msg i]\<rparr>))"
    using call by (auto simp: world_publish_def Publish_def world_PublishMsg_def split: sum.splits)
  then show ?thesis
  proof (elim disjE exE)
    fix msg i
    assume "w' = after_call (before_call w) (w\<lparr>dw_log := dw_log w @ [Acked msg i]\<rparr>)"
    then show ?thesis
      using after_call_keeps [OF inv before_call_steps [OF inv], of "dw_log w @ [Acked msg i]" "Acked msg i"] by simp
  next
    assume "w' = after_call (before_call w) (w\<lparr>dw_log := dw_log w\<rparr>)"
    then show ?thesis
      using after_call_keeps [OF inv before_call_steps [OF inv], of "dw_log w" "Acked undefined undefined"] by simp
  qed (use inv in simp)
qed

lemma publishRequest_fields:
  "publishRequest item = Inr request \<Longrightarrow> pr_OutboxID request = it_ID item \<and> pr_RawSSP request = it_Raw item"
  by (auto simp: publishRequest_def route_request_def base_request_def split: option.splits sum.splits if_splits)

lemma world_publish_acked:
  assumes "publishRequest item = Inr request" and "world_publish request w = (None, w')"
  shows "world_acked w' item"
  using assms(2) publishRequest_fields [OF assms(1)]
  by (force simp: world_publish_def Publish_def world_PublishMsg_def world_acked_def after_call_def
      publish_message_def split: sum.splits)

lemma world_MarkPublished_inv:
  assumes inv: "world_inv s w" and held: "world_held w item" and ack: "world_acked w item"
    and call: "world_MarkPublished s (it_ID item) k w = (err, w')"
  shows "world_inv s w' \<and> (\<forall>item. world_held w item \<longrightarrow> world_held w' item)"
proof -
  obtain e db where mark: "MarkPublished s (de_fault (dw_env w) (dw_calls w)) (de_clock (dw_env w) (dw_calls w))
      (it_ID item) k (before_call w) = (e, db)" by fastforce
  have "authority_step s (before_call w) db"
    using authority_step.mark_published [of s "before_call w" "de_fault (dw_env w) (dw_calls w)"
        "de_clock (dw_env w) (dw_calls w)" "it_ID item" k] mark by simp
  then have steps: "(authority_step s)\<^sup>*\<^sup>* (dw_db w) db" using before_call_steps [OF inv] by simp
  have "w' = after_call db (w\<lparr>dw_log := dw_log w @ [Marked (it_ID item) k]\<rparr>)"
    using call mark by (simp add: world_MarkPublished_def)
  moreover have "\<exists>msg. Acked msg (MessageID (it_ID item)) \<in> set (dw_log w) \<and> row_bytes (dw_db w) (it_ID item) (msg_Data msg)"
    using held ack by (auto simp: world_held_def world_acked_def)
  ultimately show ?thesis
    using after_call_keeps [OF inv steps, of "dw_log w @ [Marked (it_ID item) k]" "Marked (it_ID item) k"] by simp
qed

lemma world_Release_inv:
  assumes inv: "world_inv s w" and call: "world_Release s i k t reason w = (err, w')"
  shows "world_inv s w' \<and> (\<forall>item. world_held w item \<longrightarrow> world_held w' item)"
proof -
  obtain e db where rel: "Release s (de_fault (dw_env w) (dw_calls w)) (de_clock (dw_env w) (dw_calls w))
      i k t reason (before_call w) = (e, db)" by fastforce
  have "authority_step s (before_call w) db"
    using authority_step.release [of s "before_call w" "de_fault (dw_env w) (dw_calls w)"
        "de_clock (dw_env w) (dw_calls w)" i k t reason] rel by simp
  then have steps: "(authority_step s)\<^sup>*\<^sup>* (dw_db w) db" using before_call_steps [OF inv] by simp
  have "w' = after_call db (w\<lparr>dw_log := dw_log w\<rparr>)" using call rel by (simp add: world_Release_def)
  then show ?thesis using after_call_keeps [OF inv steps, of "dw_log w" "Acked undefined undefined"] by simp
qed

interpretation pg_delivery: delivery_pass "world_source s" world_publish "world_inv s" world_held world_acked for s
proof unfold_locales
  show "world_inv s w \<Longrightarrow> src_Claim (world_source s) worker limit lease w = (r, w') \<Longrightarrow>
      world_inv s w' \<and> (\<forall>items. r = Inr items \<longrightarrow> (\<forall>item \<in> set items. world_held w' item))"
    for w worker limit lease r w'
    by (rule world_Claim_inv) (simp_all add: world_source_def)
next
  show "world_inv s w \<Longrightarrow> world_publish request w = (err, w') \<Longrightarrow>
      world_inv s w' \<and> (\<forall>item. world_held w item \<longrightarrow> world_held w' item)" for w request err w'
    by (rule world_publish_inv)
next
  show "world_inv s w \<Longrightarrow> world_held w item \<Longrightarrow> publishRequest item = Inr request \<Longrightarrow>
      world_publish request w = (None, w') \<Longrightarrow> world_acked w' item" for w item request w'
    by (rule world_publish_acked)
next
  show "world_inv s w \<Longrightarrow> world_held w item \<Longrightarrow> world_acked w item \<Longrightarrow>
      src_MarkPublished (world_source s) (it_ID item) (it_LeaseToken item) w = (err, w') \<Longrightarrow>
      world_inv s w' \<and> (\<forall>item. world_held w item \<longrightarrow> world_held w' item)" for w item err w'
    by (rule world_MarkPublished_inv) (simp_all add: world_source_def)
next
  show "world_inv s w \<Longrightarrow> src_Release (world_source s) i k t reason w = (err, w') \<Longrightarrow>
      world_inv s w' \<and> (\<forall>item. world_held w item \<longrightarrow> world_held w' item)" for w i k t reason err w'
    by (rule world_Release_inv) (simp_all add: world_source_def)
qed

text \<open>
  C10. The worker closes an outbox row only after the broker acknowledged exactly its bytes.  Whatever the
  environment does (other workers and committers move the database between the calls, statements fail
  with or without having been applied, the broker refuses, the context is cancelled), every call of
  \<^verbatim>\<open>MarkPublished\<close> in the log of a pass is preceded by the acknowledgement of a message whose identifier
  is derived from that row's identifier and whose data are the bytes the row holds.
\<close>

theorem published_only_after_ack:
  assumes "authority_reachable s (dw_db w)" and "dw_log w = []"
    and "\<forall>n db. (authority_step s)\<^sup>*\<^sup>* db (de_others (dw_env w) n db)"
    and "deliver (delivery_worker s worker limit lease delay) w = (errs, w')"
    and "dw_log w' = xs @ Marked i k # ys"
  shows "\<exists>msg. Acked msg (MessageID i) \<in> set xs
    \<and> (\<exists>o' \<in> set (authority_outbox (dw_db w')). ob_outbox_id o' = i \<and> ob_raw o' = msg_Data msg)"
proof -
  have "world_inv s w" using assms(1-3) by (simp add: world_inv_def acked_before_def)
  from pg_delivery.RunOnce_inv [OF this, of "delivery_worker s worker limit lease delay"
      "\<lambda>w. de_ctx (dw_env w) (dw_calls w)" "\<lambda>w. de_now (dw_env w) (dw_calls w)"] assms(4)
  have "world_inv s w'" by (simp add: deliver_def delivery_worker_def)
  with assms(5) show ?thesis unfolding world_inv_def acked_before_def row_bytes_def by blast
qed

section \<open>An undisturbed pass publishes everything it claims\<close>

definition leased_for :: "(nat \<Rightarrow> time) \<Rightarrow> authority_db \<Rightarrow> Item \<Rightarrow> bool" where
  "leased_for clock db item \<longleftrightarrow>
    (\<exists>o' u. o' \<in> set (authority_outbox db) \<and> ob_outbox_id o' = it_ID item \<and> ob_lease_token o' = Some (it_LeaseToken item)
       \<and> ob_lease_until o' = Some u \<and> (\<forall>n. clock n < u) \<and> open_row o')"

lemma claim_loop_leased:
  assumes "claim_loop env w len ids n db = Inr (items, db')" and "distinct ids"
    and "\<forall>m n. clock n < ce_clock env m + (len div 1000) * 1000"
  shows "\<forall>item \<in> set items. leased_for clock db' item"
  using assms(1,2)
proof (induction ids arbitrary: n db items)
  case (Cons i ids)
  let ?p = "\<lambda>o'. ob_outbox_id o' = i \<and> open_row o'"
  let ?f = "leased_row w (ce_uuid env n) (ce_clock env n + (len div 1000) * 1000)"
  let ?db = "db\<lparr>authority_outbox := update_rows ?p ?f (authority_outbox db)\<rparr>"
  from Cons.prems(1) obtain first items' where items: "items = first # items'"
    and one: "rows_affected ?p (authority_outbox db) = 1"
    and read: "readClaimedOutboxItem i (ce_uuid env n) ?db = Inr first"
    and rest: "claim_loop env w len ids (Suc n) ?db = Inr (items', db')"
    by (auto simp: claim_loop_Cons_Inr)
  from one have "filter ?p (authority_outbox db) \<noteq> []" by (auto simp: rows_affected_def)
  then obtain o1 where o1: "o1 \<in> set (authority_outbox db)" "?p o1" by (auto simp: filter_empty_conv)
  then have row: "?f o1 \<in> set (authority_outbox ?db)" by (force simp: update_rows_def)
  have "?f o1 \<in> set (authority_outbox db')"
  proof (rule claim_loop_induct [OF rest, of "\<lambda>db. ?f o1 \<in> set (authority_outbox db)"])
    fix j m and db1 :: authority_db
    assume "j \<in> set ids" and "?f o1 \<in> set (authority_outbox db1)"
    moreover from this(1) Cons.prems(2) have "j \<noteq> i" by auto
    ultimately show "?f o1 \<in> set (authority_outbox (db1\<lparr>authority_outbox := update_rows (\<lambda>o'. ob_outbox_id o' = j \<and> open_row o')
        (leased_row w (ce_uuid env m) (ce_clock env m + len div 1000 * 1000)) (authority_outbox db1)\<rparr>))"
      using o1(2) by (simp add: update_rows_keep)
  qed (rule row)
  moreover have "it_ID first = i" "it_LeaseToken first = ce_uuid env n"
    using read by (auto simp: readClaimedOutboxItem_def outbox_item_def Let_def dest!: find_Some_in split: option.splits)
  ultimately have "leased_for clock db' first"
    using o1(2) assms(3) unfolding leased_for_def
    by (intro exI [of _ "?f o1"] exI [of _ "ce_clock env n + len div 1000 * 1000"]) simp
  moreover have "\<forall>item \<in> set items'. leased_for clock db' item"
    by (rule Cons.IH [OF rest]) (use Cons.prems(2) in simp)
  ultimately show ?case by (simp add: items)
qed simp

lemma MarkPublished_held:
  assumes inv: "authority_inv db" and pool: "store_pool s \<noteq> None"
    and held: "leased_for clock db item" and nonblank: "\<not> blank (it_ID item)" "\<not> blank (it_LeaseToken item)"
  shows "\<exists>db'. MarkPublished s None (clock n) (it_ID item) (it_LeaseToken item) db = (None, db')
    \<and> (\<exists>o' \<in> set (authority_outbox db'). ob_outbox_id o' = it_ID item \<and> ob_published_at o' \<noteq> None)
    \<and> (\<forall>other. it_ID other \<noteq> it_ID item \<longrightarrow> leased_for clock db other \<longrightarrow> leased_for clock db' other)"
proof -
  let ?p = "holds_lease (it_ID item) (it_LeaseToken item) (clock n)"
  obtain o' u where o': "o' \<in> set (authority_outbox db)" "ob_outbox_id o' = it_ID item"
    "ob_lease_token o' = Some (it_LeaseToken item)" "ob_lease_until o' = Some u" "clock n < u" "open_row o'"
    using held by (auto simp: leased_for_def)
  have dist: "distinct (map ob_outbox_id (authority_outbox db))"
    using inv by (simp add: authority_inv_def keys_unique_def)
  have p: "?p o'" using o' by (simp add: holds_lease_def)
  have "filter ?p (authority_outbox db) = filter (\<lambda>y. ob_outbox_id y = ob_outbox_id o' \<and> ?p y) (authority_outbox db)"
    using o'(2) by (auto simp: holds_lease_def intro: filter_cong)
  also have "\<dots> = [o']" by (rule filter_distinct_key [where p = ?p, OF dist o'(1) p])
  finally have one: "rows_affected ?p (authority_outbox db) = 1" by (simp add: rows_affected_def)
  let ?db = "db\<lparr>authority_outbox := update_rows ?p (published_row (clock n)) (authority_outbox db)\<rparr>"
  have run: "MarkPublished s None (clock n) (it_ID item) (it_LeaseToken item) db = (None, ?db)"
    using pool nonblank one by (simp add: MarkPublished_def Let_def)
  have "published_row (clock n) o' \<in> set (authority_outbox ?db)" using o'(1) p by (force simp: update_rows_def)
  then have "\<exists>o' \<in> set (authority_outbox ?db). ob_outbox_id o' = it_ID item \<and> ob_published_at o' \<noteq> None"
    using o'(2) by (intro bexI [of _ "published_row (clock n) o'"]) (simp_all add: published_row_def)
  moreover have "leased_for clock ?db other" if "it_ID other \<noteq> it_ID item" "leased_for clock db other" for other
  proof -
    from that(2) obtain ox ux where ox: "ox \<in> set (authority_outbox db)" "ob_outbox_id ox = it_ID other"
      "ob_lease_token ox = Some (it_LeaseToken other)" "ob_lease_until ox = Some ux" "\<forall>n. clock n < ux" "open_row ox"
      unfolding leased_for_def by blast
    with that(1) have "ox \<in> set (authority_outbox ?db)" by (simp add: update_rows_keep holds_lease_def)
    with ox show ?thesis unfolding leased_for_def by blast
  qed
  ultimately show ?thesis using run by blast
qed

text \<open>An environment that disturbs nothing.\<close>

definition undisturbed :: "delivery_env \<Rightarrow> bool" where
  "undisturbed env \<longleftrightarrow> (\<forall>n. de_others env n = id \<and> de_fault env n = None \<and> (\<exists>dup. de_broker env n = Inr dup)
     \<and> de_ctx env n = None \<and> ce_fault (de_claim env n) = None \<and> ce_commit (de_claim env n) = None)"

abbreviation published_in :: "authority_db \<Rightarrow> string \<Rightarrow> bool" where
  "published_in db i \<equiv> \<exists>o' \<in> set (authority_outbox db). ob_outbox_id o' = i \<and> ob_published_at o' \<noteq> None"

lemma published_in_step:
  assumes "authority_inv db" and "authority_step s db db'" and "published_in db i"
  shows "published_in db' i"
proof -
  obtain o' where o': "o' \<in> set (authority_outbox db)" "ob_outbox_id o' = i" "ob_published_at o' \<noteq> None"
    using assms(3) by blast
  then have "\<not> open_row o'" by (auto simp: open_row_def)
  from closed_row_step [OF assms(2,1) o'(1) this] o' show ?thesis by blast
qed

lemma run_items_undisturbed:
  assumes "undisturbed (dw_env w)" and "authority_inv (dw_db w)" and "store_pool s \<noteq> None"
    and "distinct (map it_ID items)"
    and "\<forall>item \<in> set items. leased_for (de_clock (dw_env w)) (dw_db w) item \<and> (\<exists>r. publishRequest item = Inr r)
           \<and> \<not> blank (it_ID item) \<and> \<not> blank (it_LeaseToken item)"
  shows "\<exists>w'. run_items (\<lambda>w. de_ctx (dw_env w) (dw_calls w)) clock worker (world_source s) world_publish items errs w = (errs, w')
    \<and> (\<forall>item \<in> set items. published_in (dw_db w') (it_ID item))
    \<and> (\<forall>i. published_in (dw_db w) i \<longrightarrow> published_in (dw_db w') i)"
  using assms
proof (induction items arbitrary: w)
  case Nil
  then show ?case by (simp add: undisturbed_def)
next
  case (Cons item items)
  let ?c = "de_clock (dw_env w)"
  obtain r where r: "publishRequest item = Inr r" using Cons.prems(5) by auto
  then obtain subject where subject: "SubjectFor r = Inr subject"
    by (auto simp: publishRequest_def split: option.splits sum.splits)
  obtain dup where dup: "de_broker (dw_env w) (dw_calls w) = Inr dup" using Cons.prems(1) by (auto simp: undisturbed_def)
  obtain w1 where pub: "world_publish r w = (None, w1)"
    and w1: "dw_db w1 = dw_db w" "dw_env w1 = dw_env w" "dw_calls w1 = Suc (dw_calls w)"
    using subject dup Cons.prems(1)
    by (simp add: world_publish_def Publish_def world_PublishMsg_def after_call_def before_call_def undisturbed_def)
  have item: "leased_for ?c (dw_db w) item" "\<not> blank (it_ID item)" "\<not> blank (it_LeaseToken item)"
    using Cons.prems(5) by auto
  obtain db' where mark: "MarkPublished s None (?c (Suc (dw_calls w))) (it_ID item) (it_LeaseToken item) (dw_db w) = (None, db')"
    and closed: "published_in db' (it_ID item)"
    and others: "\<forall>other. it_ID other \<noteq> it_ID item \<longrightarrow> leased_for ?c (dw_db w) other \<longrightarrow> leased_for ?c db' other"
    using MarkPublished_held [OF Cons.prems(2,3) item] by blast
  obtain w2 where mark2: "src_MarkPublished (world_source s) (it_ID item) (it_LeaseToken item) w1 = (None, w2)"
    and w2: "dw_db w2 = db'" "dw_env w2 = dw_env w"
    using mark w1 Cons.prems(1)
    by (simp add: world_source_def world_MarkPublished_def before_call_def after_call_def undisturbed_def)
  have step: "authority_step s (dw_db w) db'"
    using authority_step.mark_published [of s "dw_db w" None "?c (Suc (dw_calls w))" "it_ID item" "it_LeaseToken item"] mark
    by simp
  have "\<exists>w'. run_items (\<lambda>w. de_ctx (dw_env w) (dw_calls w)) clock worker (world_source s) world_publish items errs w2 = (errs, w')
      \<and> (\<forall>item \<in> set items. published_in (dw_db w') (it_ID item))
      \<and> (\<forall>i. published_in (dw_db w2) i \<longrightarrow> published_in (dw_db w') i)"
  proof (rule Cons.IH)
    show "authority_inv (dw_db w2)" using authority_step_inv [OF step Cons.prems(2)] w2 by simp
    show "\<forall>item \<in> set items. leased_for (de_clock (dw_env w2)) (dw_db w2) item \<and> (\<exists>r. publishRequest item = Inr r)
        \<and> \<not> blank (it_ID item) \<and> \<not> blank (it_LeaseToken item)"
    proof
      fix x
      assume "x \<in> set items"
      moreover from this have "it_ID x \<noteq> it_ID item"
        using Cons.prems(4) by (metis distinct.simps(2) image_eqI list.map(2) list.set_map)
      ultimately show "leased_for (de_clock (dw_env w2)) (dw_db w2) x \<and> (\<exists>r. publishRequest x = Inr r)
        \<and> \<not> blank (it_ID x) \<and> \<not> blank (it_LeaseToken x)"
        using Cons.prems(5) others w2 by simp
    qed
  qed (use Cons.prems w2 in simp_all)
  then obtain w' where w': "run_items (\<lambda>w. de_ctx (dw_env w) (dw_calls w)) clock worker (world_source s) world_publish items errs w2 = (errs, w')"
    "\<forall>item \<in> set items. published_in (dw_db w') (it_ID item)" "\<forall>i. published_in (dw_db w2) i \<longrightarrow> published_in (dw_db w') i"
    by blast
  have ctx: "de_ctx (dw_env w) (dw_calls w) = None" using Cons.prems(1) by (simp add: undisturbed_def)
  have run: "run_items (\<lambda>w. de_ctx (dw_env w) (dw_calls w)) clock worker (world_source s) world_publish (item # items) errs w = (errs, w')"
    using w'(1) by (simp add: ctx r pub mark2)
  moreover have "published_in (dw_db w') (it_ID item)" using closed w'(3) w2 by simp
  moreover have "published_in (dw_db w') i" if "published_in (dw_db w) i" for i
    using published_in_step [OF Cons.prems(2) step that] w'(3) w2 by simp
  ultimately show ?case using w'(2) by auto
qed

text \<open>
  C11. A delivery pass makes progress.  When nothing disturbs it (no failure, no cancellation, the broker
  acknowledges, the leases outlive the pass), a pass of a well-configured worker from any reachable state
  returns no error and every row its claim selected is published at the end, provided the selected
  envelopes are within the size limit and carry 64-bit numbers and the lease tokens are not blank.
\<close>

theorem undisturbed_pass_publishes:
  fixes w :: delivery_world and limit :: int
  defines "env \<equiv> de_claim (dw_env w) (dw_calls w)" and "ids \<equiv> select_claims (ce_select_clock (de_claim (dw_env w) (dw_calls w)))
      (ce_locked (de_claim (dw_env w) (dw_calls w))) limit (dw_db w)"
  assumes reach: "authority_reachable s (dw_db w)" and pool: "store_pool s \<noteq> None"
    and quiet: "undisturbed (dw_env w)"
    and args: "\<not> blank worker" "0 < limit" "limit \<le> MaxBatchSize" "0 < lease" "lease \<le> MaxLease" "0 < delay" "delay \<le> MaxRetryDelay"
    and clocks: "\<forall>m n. de_clock (dw_env w) n < ce_clock env m + (lease div 1000) * 1000"
    and tokens: "\<forall>n. \<not> blank (ce_uuid env n)"
    and rows: "\<forall>o' \<in> set (authority_outbox (dw_db w)). \<forall>k. length (ob_raw o') \<le> MaxEnvelopeBytes \<and> item_int64 (outbox_item k o' (dw_db w))"
  shows "\<exists>w'. deliver (delivery_worker s worker limit lease delay) w = ([], w')
    \<and> (\<forall>i \<in> set ids. \<exists>o' \<in> set (authority_outbox (dw_db w')). ob_outbox_id o' = i \<and> ob_published_at o' \<noteq> None)"
proof -
  let ?db = "dw_db w" and ?wk = "delivery_worker s worker limit lease delay"
  have inv: "authority_inv ?db" by (rule authority_reachable_inv [OF reach])
  have before: "before_call w = ?db" using quiet by (simp add: before_call_def undisturbed_def)
  have calm: "ce_fault env = None" "ce_commit env = None" "\<And>n. de_ctx (dw_env w) n = None"
    using quiet by (simp_all add: env_def undisturbed_def)
  have dist: "distinct (map ob_outbox_id (authority_outbox ?db))"
    using inv by (simp add: authority_inv_def keys_unique_def)
  have dids: "distinct ids" unfolding ids_def by (rule select_claims_distinct [OF dist])
  have openrows: "\<forall>i \<in> set ids. \<exists>o' \<in> set (authority_outbox ?db). ob_outbox_id o' = i \<and> open_row o'"
    unfolding ids_def using select_claims_D [of _ "ce_select_clock env" "ce_locked env" limit ?db]
    unfolding env_def claimable_def by fast
  obtain items db1 where loop: "claim_loop env worker lease ids 0 ?db = Inr (items, db1)" and iids: "map it_ID items = ids"
    using claim_loop_total [OF dist dids openrows, of env worker lease 0] by auto
  have claim: "Claim s env worker limit lease ?db = (Inr items, db1)"
    using pool args(1-5) calm(1,2) loop by (simp add: Claim_def ids_def env_def)
  have n: "int (length items) \<le> limit"
  proof -
    have "length items = length ids" using iids by (metis length_map)
    then show ?thesis using args(2) by (simp add: ids_def select_claims_def)
  qed
  let ?w1 = "after_call db1 w"
  have w1: "dw_db ?w1 = db1" "dw_env ?w1 = dw_env w" by (simp_all add: after_call_def)
  have wclaim: "world_Claim s worker limit lease w = (Inr items, ?w1)"
    using claim before by (simp add: world_Claim_def env_def)
  have inv1: "authority_inv db1" using Claim_inv [OF inv, of s env worker limit lease] claim by simp
  have leased: "\<forall>item \<in> set items. leased_for (de_clock (dw_env w)) db1 item"
    by (rule claim_loop_leased [OF loop dids clocks])
  have good: "(\<exists>r. publishRequest item = Inr r) \<and> \<not> blank (it_ID item) \<and> \<not> blank (it_LeaseToken item)"
    if it: "item \<in> set items" for item
  proof -
    obtain m o' where o': "o' \<in> set (authority_outbox ?db)" "item = outbox_item (ce_uuid env m) o' ?db"
      using Claim_items [OF claim it] by blast
    have fields: "it_Raw item = ob_raw o'" "it_LeaseToken item = ce_uuid env m" "it_ID item = ob_outbox_id o'"
      using o'(2) by (simp_all add: outbox_item_def Let_def)
    have "\<not> blank (ob_outbox_id o')"
      using inv texts_present_reachable [OF reach] o'(1)
      by (cases rule: outbox_row_facts)
        (auto simp: outbox_identity_def outbox_entry_def deterministicOutboxID_def sha256_text_def)
    moreover have "item_of_fact item ?db"
      using outbox_item_publishable [OF inv texts_present_reachable [OF reach] o'] rows o' tokens fields(1)
        not_blank_nonempty by simp
    then have "\<exists>r. publishRequest item = Inr r" unfolding item_of_fact_def by blast
    ultimately show ?thesis using tokens fields by simp
  qed
  obtain w' where run: "run_items (\<lambda>w. de_ctx (dw_env w) (dw_calls w)) (\<lambda>w. de_now (dw_env w) (dw_calls w)) ?wk
      (world_source s) world_publish items [] ?w1 = ([], w')"
    and closed: "\<forall>item \<in> set items. published_in (dw_db w') (it_ID item)"
    using run_items_undisturbed [of ?w1 s items "\<lambda>w. de_now (dw_env w) (dw_calls w)" ?wk "[]"]
      quiet inv1 pool dids iids leased good w1 by auto
  have valid: "Worker_validate ?wk = None"
    using args by (simp add: Worker_validate_def delivery_worker_def)
  have wk: "wk_Source ?wk = Some (world_source s)" "wk_Publisher ?wk = Some world_publish" "wk_WorkerID ?wk = worker"
    "wk_Limit ?wk = limit" "wk_Lease ?wk = lease" "src_Claim (world_source s) = world_Claim s"
    by (simp_all add: delivery_worker_def world_source_def)
  have "deliver ?wk w = ([], w')"
    using n by (simp add: deliver_def RunOnce_def wk valid calm(3) wclaim w1(2) run)
  moreover have "\<forall>i \<in> set ids. published_in (dw_db w') i" using closed iids by auto
  ultimately show ?thesis by blast
qed

section \<open>The properties on a concrete run\<close>

definition ex_env :: delivery_env where
  "ex_env = \<lparr>de_others = (\<lambda>_. id), de_claim = (\<lambda>_. ex_claim), de_clock = (\<lambda>_. 9000), de_fault = (\<lambda>_. None),
     de_broker = (\<lambda>_. Inr False), de_ctx = (\<lambda>_. None), de_now = (\<lambda>_. 9000)\<rparr>"

definition ex_world :: delivery_world where
  "ex_world = \<lparr>dw_db = ex_db3, dw_log = [], dw_calls = 0, dw_env = ex_env\<rparr>"

abbreviation ex_worker :: "(delivery_world, delivery_error) Worker" where
  "ex_worker \<equiv> delivery_worker ex_store ''w'' 10 1000000000 5000"

definition ex_item :: Item where
  "ex_item = \<lparr>it_ID = ex_id, it_LeaseToken = ''token'', it_TenantID = ''t'', it_EventKind = ''case'',
     it_EntityID = ''c'', it_DestinationKind = ''domain_dispatch'', it_DestinationKey = ''d'', it_Raw = ''case'',
     it_AuthorityRevision = 2, it_DomainID = ''d'', it_EdgeID = [], it_EdgeGeneration = 0, it_DeliverySequence = 0\<rparr>"

lemma ex_item_row: "outbox_item ''token'' ex_row ex_db3 = ex_item"
  by (simp add: outbox_item_def ex_row_def fresh_outbox_row_def ex_item_def ex_id_def ex_db3_def ex_db2_def ex_defs Let_def)

lemma ex_claim_run: "Claim ex_store ex_claim ''w'' 10 1000000000 ex_db3 = (Inr [ex_item], ex_db4)"
proof -
  from ex_outbox3 obtain o2 o3 where rows: "authority_outbox ex_db3 = [ex_row, o2, o3]"
    "ob_outbox_id o2 \<noteq> ex_id" "ob_outbox_id o3 \<noteq> ex_id" by blast
  let ?rows = "update_rows (\<lambda>o'. ob_outbox_id o' = ex_id \<and> open_row o') (leased_row ''w'' ''token'' 1000008000)
      [ex_row, o2, o3]"
  let ?db = "ex_db3\<lparr>authority_outbox := [ex_leased, o2, o3]\<rparr>"
  have upd: "?rows = [ex_leased, o2, o3]"
    using rows ex_claim_open by (simp add: update_rows_def ex_row_id ex_leased_def)
  have "outbox_item ''token'' ex_leased ?db = outbox_item ''token'' ex_row ex_db3"
    by (rule outbox_item_cong) (simp_all add: ex_leased_def leased_row_keeps)
  then have "claim_loop ex_claim ''w'' 1000000000 [ex_id] 0 ex_db3 = Inr ([ex_item], ?db)"
    using rows ex_claim_open
    by (simp add: claim_loop.simps Let_def ex_claim_def upd rows_affected_def ex_row_id readClaimedOutboxItem_def ex_item_row)
  then have "Claim ex_store ex_claim ''w'' 10 1000000000 ex_db3 = (Inr [ex_item], ?db)"
    using ex_select by (simp add: Claim_def ex_claim_def ex_store_def MaxBatchSize_def MaxLease_def)
  then show ?thesis by (simp add: ex_db4_def)
qed

lemma ex_publish: "\<exists>request. publishRequest ex_item = Inr request"
  by (simp add: publishRequest_def validateCommonItem_def route_request_def base_request_def SubjectFor_def ex_item_def
        validatePublishRequest_def destinationSubject_def Let_def uint64_def MaxEnvelopeBytes_def ex_id_def sha256_text_def)

theorem claimed_items_publishable_witness:
  "\<exists>items db' item c. Claim ex_store ex_claim ''w'' 10 1000000000 ex_db3 = (Inr items, db') \<and> item \<in> set items
    \<and> c \<in> set (authority_cases ex_db3) \<and> publishRequest item = Inr (domain_request ex_id c)"
proof -
  have "\<exists>c \<in> set (authority_cases ex_db3). publishRequest ex_item = Inr (domain_request (it_ID ex_item) c)"
    using claimed_items_publishable [OF ex_reachable(3) ex_claim_run, of ex_item]
    by (simp add: ex_claim_def ex_item_def MaxEnvelopeBytes_def item_int64_def max_int64_def) blast
  then obtain c where "c \<in> set (authority_cases ex_db3)" "publishRequest ex_item = Inr (domain_request ex_id c)"
    by (auto simp: ex_item_def)
  with ex_claim_run show ?thesis by (intro exI conjI) auto
qed

lemma ex_mark: "MarkPublished ex_store None 9000 ex_id ''token'' ex_db4 = (None, ex_db5)"
proof -
  from ex_db4_outbox obtain o2 o3 where "authority_outbox ex_db4 = [ex_leased, o2, o3]"
    "ob_outbox_id o2 \<noteq> ex_id" "ob_outbox_id o3 \<noteq> ex_id" by blast
  then have "rows_affected (holds_lease ex_id ''token'' 9000) (authority_outbox ex_db4) = 1"
    by (simp add: rows_affected_def holds_lease_def)
  then show ?thesis by (simp add: ex_db5_def MarkPublished_def ex_store_def Let_def)
qed

lemma after_call_env: "dw_env (after_call db w) = dw_env w"
  by (simp add: after_call_def)

lemma ex_deliver:
  "\<exists>msg w'. deliver ex_worker ex_world = ([], w') \<and> dw_log w' = [Acked msg (MessageID ex_id)] @ Marked ex_id ''token'' # []
     \<and> dw_db w' = ex_db5"
proof -
  obtain request where r: "publishRequest ex_item = Inr request" using ex_publish by blast
  then obtain subject where subject: "SubjectFor request = Inr subject"
    by (auto simp: publishRequest_def split: option.splits sum.splits)
  have i: "pr_OutboxID request = ex_id" using publishRequest_fields [OF r] by (simp add: ex_item_def)
  let ?w1 = "after_call ex_db4 ex_world"
  let ?w2 = "after_call ex_db4 (?w1\<lparr>dw_log := [Acked (publish_message subject request) (MessageID ex_id)]\<rparr>)"
  have pub: "world_publish request ?w1 = (None, ?w2)"
    by (simp add: world_publish_def Publish_def subject world_PublishMsg_def ex_world_def ex_env_def after_call_def
        before_call_def i)
  have mark: "world_MarkPublished ex_store ex_id ''token'' ?w2 =
      (None, after_call ex_db5 (?w2\<lparr>dw_log := dw_log ?w2 @ [Marked ex_id ''token'']\<rparr>))"
    by (simp add: world_MarkPublished_def ex_mark ex_world_def ex_env_def after_call_def before_call_def)
  have claim: "world_Claim ex_store ''w'' 10 1000000000 ex_world = (Inr [ex_item], ?w1)"
    by (simp add: world_Claim_def ex_claim_run ex_world_def ex_env_def before_call_def)
  have ids: "it_ID ex_item = ex_id" "it_LeaseToken ex_item = ''token''" by (simp_all add: ex_item_def)
  have env: "dw_env ex_world = ex_env" "\<And>n. de_ctx ex_env n = None" by (simp_all add: ex_world_def ex_env_def)
  have "deliver ex_worker ex_world = ([], after_call ex_db5 (?w2\<lparr>dw_log := dw_log ?w2 @ [Marked ex_id ''token'']\<rparr>))"
    by (simp add: deliver_def RunOnce_def delivery_worker_def Worker_validate_def MaxBatchSize_def MaxLease_def
        MaxRetryDelay_def world_source_def claim env r pub mark ids after_call_env)
  then show ?thesis by (auto simp: after_call_def)
qed

theorem published_only_after_ack_witness:
  "\<exists>w' msg. deliver ex_worker ex_world = ([], w') \<and> Acked msg (MessageID ex_id) \<in> set (dw_log w')
     \<and> (\<exists>o' \<in> set (authority_outbox (dw_db w')). ob_outbox_id o' = ex_id \<and> ob_raw o' = msg_Data msg)"
proof -
  obtain msg w' where run: "deliver ex_worker ex_world = ([], w')"
    and log: "dw_log w' = [Acked msg (MessageID ex_id)] @ Marked ex_id ''token'' # []"
    using ex_deliver by blast
  have "authority_reachable ex_store (dw_db ex_world)" "dw_log ex_world = []"
    "\<forall>n db. (authority_step ex_store)\<^sup>*\<^sup>* db (de_others (dw_env ex_world) n db)"
    using ex_reachable(3) by (simp_all add: ex_world_def ex_env_def)
  from published_only_after_ack [OF this run log] run log show ?thesis by auto
qed

theorem undisturbed_pass_publishes_witness:
  "\<exists>w'. deliver ex_worker ex_world = ([], w')
     \<and> (\<exists>o' \<in> set (authority_outbox (dw_db w')). ob_outbox_id o' = ex_id \<and> ob_published_at o' \<noteq> None)"
proof -
  have rows: "\<forall>o' \<in> set (authority_outbox (dw_db ex_world)). \<forall>k. length (ob_raw o') \<le> MaxEnvelopeBytes
      \<and> item_int64 (outbox_item k o' (dw_db ex_world))"
    by (simp add: ex_world_def ex_db3_def ex_db2_def ex_defs case_destinations_def advice_destinations_def
        fresh_outbox_row_def outbox_item_def item_int64_def max_int64_def MaxEnvelopeBytes_def Let_def)
  have "ex_id \<in> set (select_claims (ce_select_clock (de_claim (dw_env ex_world) (dw_calls ex_world)))
      (ce_locked (de_claim (dw_env ex_world) (dw_calls ex_world))) 10 (dw_db ex_world))"
    using ex_select by (simp add: ex_world_def ex_env_def ex_claim_def)
  moreover have "authority_reachable ex_store (dw_db ex_world)" using ex_reachable(3) by (simp add: ex_world_def)
  ultimately show ?thesis
    using undisturbed_pass_publishes [of ex_store ex_world "''w''" 10 1000000000 5000] rows
    by (simp add: ex_world_def ex_env_def undisturbed_def ex_claim_def ex_store_def MaxBatchSize_def MaxLease_def
        MaxRetryDelay_def) blast
qed

end
