(* ===== verification/Go_Time.thy ===== *)
theory Go_Time
  imports Snag_Prelude
begin

text \<open>
  The timestamps the edge store keeps as text: \<^verbatim>\<open>t.UTC().Format(time.RFC3339Nano)\<close> and the strict
  RFC 3339 reading \<^verbatim>\<open>time.Parse\<close> tries first.  The column values are only ever written by the former,
  so the looser fallback of \<^verbatim>\<open>time.Parse\<close> is never reached; the round trip is proved here.
\<close>

section \<open>The calendar\<close>

text \<open>Days from 1 January of year 0 to 1 January of year \<open>y\<close>, in the proleptic Gregorian calendar.\<close>

definition days_before :: "int \<Rightarrow> int" where
  "days_before y = 365 * y + (y - 1) div 4 - (y - 1) div 100 + (y - 1) div 400"

definition leap_year :: "int \<Rightarrow> bool" where
  "leap_year y = (y mod 4 = 0 \<and> (y mod 100 \<noteq> 0 \<or> y mod 400 = 0))"

definition month_lengths :: "int \<Rightarrow> int list" where
  "month_lengths y = [31, if leap_year y then 29 else 28, 31, 30, 31, 30, 31, 31, 30, 31, 30, 31]"

definition epoch_days :: int where
  "epoch_days = days_before 1970"

lemma div_pred:
  assumes "1 < (k::int)"
  shows "y div k = (y - 1) div k + (if y mod k = 0 then 1 else 0)"
proof (cases "y mod k = 0")
  case True
  have "y - 1 = k * (y div k - 1) + (k - 1)"
    using mult_div_mod_eq [of k y] True by (simp add: right_diff_distrib)
  moreover have "0 \<le> k - 1" "k - 1 < k" using assms by simp_all
  ultimately have "(y - 1) div k = y div k - 1" by (rule int_div_pos_eq)
  with True show ?thesis by simp
next
  case False
  have "y - 1 = k * (y div k) + (y mod k - 1)" by simp
  moreover have "0 \<le> y mod k - 1" "y mod k - 1 < k"
    using False assms pos_mod_sign [of k y] pos_mod_bound [of k y] by linarith+
  ultimately have "(y - 1) div k = y div k" by (rule int_div_pos_eq)
  with False show ?thesis by simp
qed

lemma leap_sum:
  assumes "Q \<Longrightarrow> P" "R \<Longrightarrow> Q"
  shows "365 * (y + 1) + (a + (if P then 1 else 0)) - (b + (if Q then 1 else 0)) + (c + (if R then 1 else 0))
    = 365 * y + a - b + c + (if P \<and> (\<not> Q \<or> R) then 366 else (365::int))"
  using assms by (cases P; cases Q; cases R; simp)

lemma mod_divisor: "(k::int) dvd m \<Longrightarrow> y mod m = 0 \<Longrightarrow> y mod k = 0"
  by (metis mod_mod_cancel mod_0)

lemma days_before_Suc: "days_before (y + 1) = days_before y + (if leap_year y then 366 else 365)"
proof -
  have four: "y mod 4 = 0" if "y mod 100 = 0" using that by (rule mod_divisor [rotated]) simp
  have hundred: "y mod 100 = 0" if "y mod 400 = 0" using that by (rule mod_divisor [rotated]) simp
  have "days_before (y + 1) = 365 * (y + 1) + y div 4 - y div 100 + y div 400"
    by (simp only: days_before_def add_diff_cancel_right')
  also have "\<dots> = 365 * (y + 1) + ((y - 1) div 4 + (if y mod 4 = 0 then 1 else 0))
      - ((y - 1) div 100 + (if y mod 100 = 0 then 1 else 0)) + ((y - 1) div 400 + (if y mod 400 = 0 then 1 else 0))"
    by (subst (1) div_pred [of 4 y], simp, subst (1) div_pred [of 100 y], simp,
        subst (1) div_pred [of 400 y], simp, rule refl)
  also have "\<dots> = days_before y + (if leap_year y then 366 else 365)"
    unfolding days_before_def leap_year_def by (rule leap_sum) (fact four, fact hundred)
  finally show ?thesis .
qed

lemma days_before_less: "days_before y < days_before (y + 1)"
  by (simp add: days_before_Suc)

lemma days_before_mono: "x \<le> y \<Longrightarrow> days_before x \<le> days_before y"
proof (induction y rule: int_ge_induct)
  case (step y)
  then show ?case using days_before_less [of y] by linarith
qed simp

text \<open>The year of a day, searched upwards from an estimate below it.\<close>

function year_from :: "int \<Rightarrow> int \<Rightarrow> int" where
  "year_from y d = (if days_before (y + 1) \<le> d then year_from (y + 1) d else y)"
  by pat_completeness auto
termination
  by (relation "measure (\<lambda>(y, d). nat (d + 1 - days_before y))")
    (auto simp: days_before_Suc split: if_splits)

declare year_from.simps [simp del]

definition year_of_day :: "int \<Rightarrow> int" where
  "year_of_day d = year_from (if 0 \<le> d then d div 366 else d div 365) d"

fun month_day :: "int \<Rightarrow> int list \<Rightarrow> int \<Rightarrow> int \<times> int" where
  "month_day m [] d = (m, d + 1)"
| "month_day m (l # ls) d = (if d < l then (m, d + 1) else month_day (m + 1) ls (d - l))"

definition civil :: "int \<Rightarrow> int \<times> int \<times> int" where
  "civil d = (let y = year_of_day d; (m, dy) = month_day 1 (month_lengths y) (d - days_before y) in (y, m, dy))"

definition day_number :: "int \<Rightarrow> int \<Rightarrow> int \<Rightarrow> int" where
  "day_number y m d = days_before y + sum_list (take (nat (m - 1)) (month_lengths y)) + (d - 1)"

lemma year_from_correct:
  "days_before y \<le> d \<Longrightarrow> days_before (year_from y d) \<le> d \<and> d < days_before (year_from y d + 1)"
proof (induction y d rule: year_from.induct)
  case (1 y d)
  then show ?case by (subst (1 2) year_from.simps) (auto simp: not_le)
qed

lemma year_of_day_correct:
  "days_before (year_of_day d) \<le> d \<and> d < days_before (year_of_day d + 1)"
proof -
  have "days_before (if 0 \<le> d then d div 366 else d div 365) \<le> d"
  proof (cases "0 \<le> d")
    case True
    define y where "y = d div 366"
    have "366 * y = d - d mod 366" by (simp add: y_def minus_mod_eq_mult_div)
    then have y: "0 \<le> y" "366 * y \<le> d" using True by (simp_all add: y_def pos_imp_zdiv_nonneg_iff)
    have "(y - 1) div 4 - (y - 1) div 100 + (y - 1) div 400 \<le> y"
    proof (cases "y = 0")
      case False
      then have "0 \<le> y - 1" using y(1) by simp
      then show ?thesis using zdiv_mono2 [of "y - 1" 1 4] zdiv_mono2 [of "y - 1" 100 400] by simp
    qed simp
    then show ?thesis using True y by (simp add: days_before_def flip: y_def)
  next
    case False
    define y where "y = d div 365"
    have "365 * y = d - d mod 365" by (simp add: y_def minus_mod_eq_mult_div)
    then have y: "y < 0" "365 * y \<le> d" using False by (simp_all add: y_def neg_imp_zdiv_neg_iff)
    have "(y - 1) div 4 \<le> (y - 1) div 100" "(y - 1) div 400 \<le> 0"
      using y(1) zdiv_mono2_neg [of "y - 1" 4 100] by (simp_all add: neg_imp_zdiv_neg_iff less_imp_le)
    then show ?thesis using False y by (simp add: days_before_def flip: y_def)
  qed
  then show ?thesis unfolding year_of_day_def by (rule year_from_correct)
qed

lemma month_day_correct:
  assumes "0 \<le> d" "d < sum_list ls" "\<forall>l \<in> set ls. 0 < l" "month_day m ls d = (m', dy)"
  shows "\<exists>k < length ls. m' = m + int k \<and> sum_list (take k ls) + (dy - 1) = d \<and> 1 \<le> dy \<and> dy \<le> ls ! k"
  using assms
proof (induction ls arbitrary: m d)
  case (Cons l ls)
  show ?case
  proof (cases "d < l")
    case True
    with Cons.prems show ?thesis by (intro exI [of _ 0]) auto
  next
    case False
    with Cons.prems have "\<exists>k < length ls. m' = m + 1 + int k \<and> sum_list (take k ls) + (dy - 1) = d - l
        \<and> 1 \<le> dy \<and> dy \<le> ls ! k"
      by (intro Cons.IH) auto
    then obtain k where "k < length ls" "m' = m + 1 + int k" "sum_list (take k ls) + (dy - 1) = d - l"
      "1 \<le> dy" "dy \<le> ls ! k" by blast
    then show ?thesis by (intro exI [of _ "Suc k"]) auto
  qed
qed simp

lemma civil_correct:
  assumes "civil d = (y, m, dy)"
  shows "y = year_of_day d \<and> 1 \<le> m \<and> m \<le> 12 \<and> 1 \<le> dy \<and> dy \<le> month_lengths y ! nat (m - 1)
    \<and> day_number y m dy = d"
proof -
  have y: "y = year_of_day d" and md: "month_day 1 (month_lengths y) (d - days_before y) = (m, dy)"
    using assms by (auto simp: civil_def Let_def split: prod.splits)
  have range: "0 \<le> d - days_before y" "d - days_before y < sum_list (month_lengths y)"
    using year_of_day_correct [of d] y by (auto simp: days_before_Suc month_lengths_def)
  have "\<forall>l \<in> set (month_lengths y). 0 < l" by (auto simp: month_lengths_def)
  from month_day_correct [OF range this md] obtain k where k: "k < 12" "m = 1 + int k"
    "sum_list (take k (month_lengths y)) + (dy - 1) = d - days_before y" "1 \<le> dy" "dy \<le> month_lengths y ! k"
    by (auto simp: month_lengths_def)
  then show ?thesis using y by (auto simp: day_number_def)
qed

lemma month_length_le: "k < 12 \<Longrightarrow> month_lengths y ! k \<le> 31"
  by (auto simp: month_lengths_def less_Suc_eq numeral_eq_Suc)

section \<open>Formatting\<close>

fun pad_digits :: "nat \<Rightarrow> nat \<Rightarrow> string" where
  "pad_digits 0 n = []"
| "pad_digits (Suc k) n = pad_digits k (n div 10) @ [digit_char (n mod 10)]"

definition fraction_text :: "nat \<Rightarrow> string" where
  "fraction_text ns =
    (if ns = 0 then [] else CHR ''.'' # rev (dropWhile (\<lambda>c. c = CHR ''0'') (rev (pad_digits 9 ns))))"

definition year_text :: "int \<Rightarrow> string" where
  "year_text y =
    (if y < 0 then CHR ''-'' # pad_digits (max 4 (length (digits10 (nat (- y))))) (nat (- y))
     else pad_digits (max 4 (length (digits10 (nat y)))) (nat y))"

definition sqlTime :: "time \<Rightarrow> string" where
  "sqlTime t =
    (let secs = t div 1000000000; ns = t mod 1000000000; sod = secs mod 86400;
         (y, m, d) = civil (secs div 86400 + epoch_days) in
     year_text y @ ''-'' @ pad_digits 2 (nat m) @ ''-'' @ pad_digits 2 (nat d) @ ''T''
     @ pad_digits 2 (nat (sod div 3600)) @ '':'' @ pad_digits 2 (nat (sod div 60 mod 60)) @ '':''
     @ pad_digits 2 (nat (sod mod 60)) @ fraction_text (nat ns) @ ''Z'')"

section \<open>Parsing\<close>

definition take_digits :: "nat \<Rightarrow> int \<Rightarrow> int \<Rightarrow> string \<Rightarrow> (int \<times> string) option" where
  "take_digits n lo hi s =
    (let ds = take n s; v = int (digits_value ds) in
     if length ds = n \<and> list_all is_digit ds \<and> lo \<le> v \<and> v \<le> hi then Some (v, drop n s) else None)"

definition expect_char :: "char \<Rightarrow> string \<Rightarrow> string option" where
  "expect_char c s = (case s of [] \<Rightarrow> None | x # xs \<Rightarrow> if x = c then Some xs else None)"

definition parse_fraction :: "string \<Rightarrow> int \<times> string" where
  "parse_fraction s =
    (case s of
       c # d # rest \<Rightarrow>
         if c = CHR ''.'' \<and> is_digit d then
           (let ds = takeWhile is_digit (d # rest); used = take 9 ds in
            (int (digits_value used * 10 ^ (9 - length used)), dropWhile is_digit (d # rest)))
         else (0, s)
     | _ \<Rightarrow> (0, s))"

definition parse_zone :: "string \<Rightarrow> int option" where
  "parse_zone s =
    (if s = ''Z'' then Some 0
     else case s of
       [sign, h1, h2, colon, m1, m2] \<Rightarrow>
         (case (take_digits 2 0 23 [h1, h2], take_digits 2 0 59 [m1, m2]) of
            (Some (hr, _), Some (mm, _)) \<Rightarrow>
              if (sign = CHR ''-'' \<or> sign = CHR ''+'') \<and> colon = CHR '':''
              then Some ((if sign = CHR ''-'' then -1 else 1) * ((hr * 60 + mm) * 60)) else None
          | _ \<Rightarrow> None)
     | _ \<Rightarrow> None)"

definition obind :: "'a option \<Rightarrow> ('a \<Rightarrow> 'b option) \<Rightarrow> 'b option" where
  "obind x f = (case x of None \<Rightarrow> None | Some y \<Rightarrow> f y)"

definition parseSQLTime :: "string \<Rightarrow> time option" where
  "parseSQLTime s =
    obind (take_digits 4 0 9999 s) (\<lambda>(year, s). obind (expect_char CHR ''-'' s) (\<lambda>s.
    obind (take_digits 2 1 12 s) (\<lambda>(month, s). obind (expect_char CHR ''-'' s) (\<lambda>s.
    obind (take_digits 2 1 (month_lengths year ! nat (month - 1)) s) (\<lambda>(day, s). obind (expect_char CHR ''T'' s) (\<lambda>s.
    obind (take_digits 2 0 23 s) (\<lambda>(hour, s). obind (expect_char CHR '':'' s) (\<lambda>s.
    obind (take_digits 2 0 59 s) (\<lambda>(minute, s). obind (expect_char CHR '':'' s) (\<lambda>s.
    obind (take_digits 2 0 59 s) (\<lambda>(sec, s).
    let (ns, rest) = parse_fraction s in
    obind (parse_zone rest) (\<lambda>zone.
      Some (((day_number year month day - epoch_days) * 86400 + hour * 3600 + minute * 60 + sec - zone)
              * 1000000000 + ns)))))))))))))"

section \<open>The round trip\<close>

lemma digit_char_digit [simp]: "d < 10 \<Longrightarrow> is_digit (digit_char d)"
  by (simp add: is_digit_def)

lemma digits_value_snoc: "digits_value (s @ [c]) = 10 * digits_value s + digit_value c"
  by (simp add: digits_value_def)

lemma length_pad_digits [simp]: "length (pad_digits k n) = k"
  by (induction k arbitrary: n) auto

lemma pad_digits_digits [simp]: "list_all is_digit (pad_digits k n)"
  by (induction k arbitrary: n) auto

lemma digits_value_pad_digits: "digits_value (pad_digits k n) = n mod 10 ^ k"
proof (induction k arbitrary: n)
  case (Suc k)
  then show ?case by (simp add: digits_value_snoc mod_mult2_eq)
qed (simp add: digits_value_def)

lemma take_digits_pad_digits [simp]:
  assumes "v < 10 ^ k" "lo \<le> int v" "int v \<le> hi"
  shows "take_digits k lo hi (pad_digits k v @ rest) = Some (int v, rest)"
  using assms by (simp add: take_digits_def Let_def digits_value_pad_digits)

lemma expect_char_Cons [simp]: "expect_char c (c # s) = Some s"
  by (simp add: expect_char_def)

lemma obind_Some [simp]: "obind (Some x) f = f x"
  by (simp add: obind_def)

lemma length_digits10: "n < 10 ^ k \<Longrightarrow> 0 < k \<Longrightarrow> length (digits10 n) \<le> k"
proof (induction k arbitrary: n)
  case (Suc k)
  show ?case
  proof (cases "n < 10")
    case False
    then have "n div 10 < 10 ^ k" "0 < k" using Suc.prems by (auto intro: less_mult_imp_div_less ccontr)
    with Suc.IH False show ?thesis by (subst digits10.simps) simp
  qed (simp add: digits10.simps)
qed simp

lemma year_text_4: "0 \<le> y \<Longrightarrow> y \<le> 9999 \<Longrightarrow> year_text y = pad_digits 4 (nat y)"
  using length_digits10 [of "nat y" 4] by (simp add: year_text_def nat_less_iff max_absorb1)

lemma digits_value_zeros: "digits_value (s @ replicate k CHR ''0'') = digits_value s * 10 ^ k"
proof (induction k)
  case (Suc k)
  have "s @ replicate (Suc k) CHR ''0'' = (s @ replicate k CHR ''0'') @ [CHR ''0'']"
    by (simp add: replicate_append_same)
  then show ?case using Suc by (simp only: digits_value_snoc) (simp add: digit_value_def)
qed simp

lemma trimmed_zeros:
  "\<exists>k. s = rev (dropWhile (\<lambda>c. c = x) (rev s)) @ replicate k x"
proof -
  define z where "z = takeWhile (\<lambda>c. c = x) (rev s)"
  have z: "z = replicate (length z) x"
    by (rule replicate_eqI) (auto simp: z_def dest: set_takeWhileD)
  have "rev s = z @ dropWhile (\<lambda>c. c = x) (rev s)" by (simp add: z_def)
  then have "s = rev (dropWhile (\<lambda>c. c = x) (rev s)) @ rev z" by (metis rev_append rev_rev_ident)
  moreover have "rev z = replicate (length z) x" using z by (metis rev_replicate)
  ultimately show ?thesis by metis
qed

lemma sexagesimal: "a * 60 + b = c \<Longrightarrow> c * 60 + d = e \<Longrightarrow> a * 3600 + b * 60 + d = (e::int)"
  by simp

lemma parse_fraction_text:
  assumes "ns < 1000000000"
  shows "parse_fraction (fraction_text ns @ ''Z'') = (int ns, ''Z'')"
proof (cases "ns = 0")
  case True
  then show ?thesis by (simp add: fraction_text_def parse_fraction_def)
next
  case False
  define ds where "ds = rev (dropWhile (\<lambda>c. c = CHR ''0'') (rev (pad_digits 9 ns)))"
  obtain k where k: "pad_digits 9 ns = ds @ replicate k CHR ''0''"
    unfolding ds_def by (rule exE [OF trimmed_zeros [of "pad_digits 9 ns" "CHR ''0''"]])
  have val: "digits_value ds * 10 ^ k = ns"
    using digits_value_pad_digits [of 9 ns] assms by (simp add: k digits_value_zeros)
  have len: "length ds + k = 9" using length_pad_digits [of 9 ns] by (simp add: k)
  have dig: "list_all is_digit ds" using pad_digits_digits [of 9 ns] by (simp add: k)
  have "ds \<noteq> []" using val False by (auto simp: digits_value_def)
  then obtain d ds' where d: "ds = d # ds'" by (cases ds) auto
  have z: "\<not> is_digit CHR ''Z''" by (simp add: is_digit_def)
  have "takeWhile is_digit (ds @ ''Z'') = ds" "dropWhile is_digit (ds @ ''Z'') = ''Z''"
    using dig z by (simp_all add: takeWhile_append dropWhile_append list_all_iff)
  moreover have "9 - length ds = k" "take 9 ds = ds" using len by simp_all
  moreover have "fraction_text ns = CHR ''.'' # ds" using False by (simp add: fraction_text_def ds_def)
  moreover have "is_digit d" using dig by (simp add: d)
  moreover have "int ns = int (digits_value ds) * 10 ^ k" by (simp flip: val)
  ultimately show ?thesis by (simp add: parse_fraction_def d Let_def)
qed

lemma take_pad: "0 \<le> v \<Longrightarrow> v < 10 ^ k \<Longrightarrow> lo \<le> v \<Longrightarrow> v \<le> hi \<Longrightarrow>
    take_digits k lo hi (pad_digits k (nat v) @ rest) = Some (v, rest)"
  by (simp add: nat_less_iff)

lemma parse_printed:
  assumes y: "0 \<le> y" "y \<le> 9999" and m: "1 \<le> m" "m \<le> 12" and d: "1 \<le> d" "d \<le> month_lengths y ! nat (m - 1)"
    and hr: "0 \<le> hr" "hr \<le> 23" and mi: "0 \<le> mi" "mi \<le> 59" and sec: "0 \<le> sec" "sec \<le> 59"
    and ns: "0 \<le> ns" "ns < 1000000000"
  shows "parseSQLTime (pad_digits 4 (nat y) @ CHR ''-'' # pad_digits 2 (nat m) @ CHR ''-'' # pad_digits 2 (nat d) @ CHR ''T''
     # pad_digits 2 (nat hr) @ CHR '':'' # pad_digits 2 (nat mi) @ CHR '':''
     # pad_digits 2 (nat sec) @ fraction_text (nat ns) @ ''Z'')
    = Some (((day_number y m d - epoch_days) * 86400 + hr * 3600 + mi * 60 + sec) * 1000000000 + ns)"
proof -
  have d31: "d < 10\<^sup>2" using d(2) month_length_le [of "nat (m - 1)" y] m by (simp add: nat_less_iff)
  have frac: "parse_fraction (fraction_text (nat ns) @ ''Z'') = (ns, ''Z'')"
    using ns by (subst parse_fraction_text) (simp_all add: nat_less_iff)
  have zone: "parse_zone ''Z'' = Some 0" by (simp add: parse_zone_def)
  show ?thesis
    unfolding parseSQLTime_def using assms d31
    by (simp add: take_pad frac zone)
qed

text \<open>Instants whose year has four digits.\<close>

definition storable_time :: "time \<Rightarrow> bool" where
  "storable_time t =
    (0 \<le> year_of_day (t div 86400000000000 + epoch_days) \<and> year_of_day (t div 86400000000000 + epoch_days) \<le> 9999)"

lemma sqlTime_reads_back:
  assumes "storable_time t"
  shows "parseSQLTime (sqlTime t) = Some t"
proof -
  define secs where "secs = t div 1000000000"
  define day where "day = secs div 86400 + epoch_days"
  define sod where "sod = secs mod 86400"
  obtain y m d where c: "civil day = (y, m, d)" by (cases "civil day") auto
  have day: "day = t div 86400000000000 + epoch_days"
    by (simp add: day_def secs_def zdiv_zmult2_eq [symmetric])
  note cc = civil_correct [OF c]
  have y: "0 \<le> y" "y \<le> 9999" using cc assms day by (auto simp: storable_time_def)
  have m: "1 \<le> m" "m \<le> 12" and d: "1 \<le> d" "d \<le> month_lengths y ! nat (m - 1)" and n: "day_number y m d = day"
    using cc by auto
  have s: "0 \<le> sod" "sod < 86400" by (simp_all add: sod_def)
  have h: "0 \<le> sod div 3600" "sod div 3600 \<le> 23" using s by (auto simp: zdiv_mono1 [of sod 86399 3600, simplified])
  have "sod div 3600 = sod div 60 div 60" by (simp add: zdiv_zmult2_eq [symmetric])
  then have split: "sod div 3600 * 3600 + sod div 60 mod 60 * 60 + sod mod 60 = sod"
    using sexagesimal [OF div_mult_mod_eq div_mult_mod_eq] by simp
  have t: "secs * 1000000000 + t mod 1000000000 = t" "(day - epoch_days) * 86400 + sod = secs"
    by (simp_all add: secs_def day_def sod_def)
  have "sqlTime t = pad_digits 4 (nat y) @ CHR ''-'' # pad_digits 2 (nat m) @ CHR ''-'' # pad_digits 2 (nat d) @ CHR ''T''
     # pad_digits 2 (nat (sod div 3600)) @ CHR '':'' # pad_digits 2 (nat (sod div 60 mod 60)) @ CHR '':''
     # pad_digits 2 (nat (sod mod 60)) @ fraction_text (nat (t mod 1000000000)) @ ''Z''"
    using c y by (simp add: sqlTime_def Let_def year_text_4 flip: secs_def day_def sod_def)
  moreover have "((day_number y m d - epoch_days) * 86400 + sod div 3600 * 3600 + sod div 60 mod 60 * 60 + sod mod 60)
              * 1000000000 + t mod 1000000000 = t"
    using t split n by (simp add: add.assoc)
  moreover have mi: "0 \<le> sod div 60 mod 60" "sod div 60 mod 60 \<le> 59"
    and sec: "0 \<le> sod mod 60" "sod mod 60 \<le> 59" and ns: "0 \<le> t mod 1000000000" "t mod 1000000000 < 1000000000"
    by simp_all
  ultimately show ?thesis by (simp only: parse_printed [OF y m d h mi sec ns])
qed

text \<open>
  C32.  The instants the edge store writes survive their column: for every instant in the years 0 to
  9999, reading the RFC 3339 text that was written gives the instant back to the nanosecond.
\<close>

theorem sqlTime_roundtrip: "storable_time t \<Longrightarrow> parseSQLTime (sqlTime t) = Some t"
  by (rule sqlTime_reads_back)

theorem sqlTime_roundtrip_witness:
  "parseSQLTime (sqlTime 1700000000123456000) = Some 1700000000123456000"
proof -
  have "year_of_day 739202 = 2023"
    by (simp add: year_of_day_def year_from.simps days_before_def)
  then show ?thesis
    by (intro sqlTime_roundtrip) (simp add: storable_time_def epoch_days_def days_before_def)
qed

end
