(* ===== verification/Edge_Tables.thy ===== *)
theory Edge_Tables
  imports Delivery_Stream Authority Go_Time
begin

text \<open>
  \<^verbatim>\<open>internal/sspedge/store.go\<close>: the edge's encrypted projection of the authority's delivery log.  The
  SQLite tables are a record of row lists and maps; the writers hold \<^verbatim>\<open>writeMu\<close> and the store has one
  connection, so transactions run one after another.  A transaction takes what it does not control: the
  statement that may fail (whichever it is, the transaction is rolled back and the call returns that
  error), the error that may be reported for the commit with whether the file had it already, and the
  random bytes it draws.  The AEAD cipher is the \<^verbatim>\<open>cipher.AEAD\<close> value the store was opened with.
\<close>

section \<open>Errors, handles and transactions\<close>

datatype edge_error =
    EdgeErr string
  | ErrSQL string
  | ErrPanic
  | ErrAuthority store_error

record aead =
  NonceSize :: nat
  Seal :: "bytes \<Rightarrow> bytes \<Rightarrow> bytes \<Rightarrow> bytes"
  Open :: "bytes \<Rightarrow> bytes \<Rightarrow> bytes \<Rightarrow> bytes option"

record EdgeDB =
  db_sqlDB :: bool
  db_key :: "aead option"
  db_tenant :: string

record edge_tx =
  tx_fault :: "string option"
  tx_commit :: "(string \<times> bool) option"
  tx_nonce :: bytes
  tx_random :: "nat \<Rightarrow> bytes"

section \<open>Wire types\<close>

abbreviation FamilyCase :: string where
  "FamilyCase \<equiv> ''case''"

abbreviation FamilyAdvice :: string where
  "FamilyAdvice \<equiv> ''advice''"

abbreviation VerdictAccepted :: string where
  "VerdictAccepted \<equiv> ''accepted''"

abbreviation VerdictRejected :: string where
  "VerdictRejected \<equiv> ''rejected''"

abbreviation VerdictQuarantined :: string where
  "VerdictQuarantined \<equiv> ''quarantined''"

abbreviation ApplyAccepted :: string where
  "ApplyAccepted \<equiv> ''accepted''"

abbreviation ApplyRejected :: string where
  "ApplyRejected \<equiv> ''rejected''"

abbreviation ApplyQuarantined :: string where
  "ApplyQuarantined \<equiv> ''quarantined''"

abbreviation ApplyDuplicate :: string where
  "ApplyDuplicate \<equiv> ''duplicate''"

abbreviation ApplyReconciliationRequired :: string where
  "ApplyReconciliationRequired \<equiv> ''reconciliation_required''"

abbreviation ApplyIdentityConflict :: string where
  "ApplyIdentityConflict \<equiv> ''identity_conflict''"

abbreviation DeliveryModeActive :: string where
  "DeliveryModeActive \<equiv> ''active''"

abbreviation DeliveryModeReconciliationRequired :: string where
  "DeliveryModeReconciliationRequired \<equiv> ''reconciliation_required''"

record EdgeIdentity =
  id_TenantID :: string
  id_EdgeID :: string
  id_Generation :: int

definition EdgeIdentity_validate :: "EdgeIdentity \<Rightarrow> edge_error option" where
  "EdgeIdentity_validate i =
    (if id_TenantID i = [] \<or> id_EdgeID i = [] \<or> id_Generation i \<le> 0
     then Some (EdgeErr ''sspedge: invalid edge identity'') else None)"

record JournalDelivery =
  jd_Stream :: string
  jd_Sequence :: nat
  jd_DeliverySeq :: int
  jd_TenantID :: string
  jd_EdgeID :: string
  jd_EdgeGeneration :: int
  jd_Subject :: string
  jd_Raw :: bytes

record Case =
  ca_CaseID :: string
  ca_IssuerEdgeID :: string
  ca_Domain :: string
  ca_Summary :: string
  ca_ContextManifest :: string
  ca_IssuerEdgeGeneration :: int
  ca_RouteKind :: string
  ca_RouteToken :: string
  ca_SourceToken :: string
  ca_RoutingEpoch :: int
  ca_RegistryRevision :: int
  ca_RegistryHash :: string
  ca_ExpiresAt :: time

record Advice =
  av_AdviceID :: string
  av_CaseID :: string
  av_CaseCommitment :: string
  av_Text :: string
  av_IssuerEdgeID :: string
  av_RouteKind :: string
  av_RouteToken :: string
  av_IssuerEdgeGeneration :: int
  av_RoutingEpoch :: int
  av_RegistryRevision :: int
  av_RegistryHash :: string
  av_ExpiresAt :: time

record VerifiedProjection =
  vp_EnvelopeID :: string
  vp_Commitment :: string
  vp_Family :: string
  vp_Case :: "Case option"
  vp_Advice :: "Advice option"

record GenerationDeliveryState =
  gs_Identity :: EdgeIdentity
  gs_LastContiguousSeq :: int
  gs_HighWatermark :: int
  gs_Mode :: string
  gs_Reason :: string

section \<open>Tables\<close>

type_synonym edge_key = "string \<times> string \<times> int"

record state_row =
  st_last_contiguous_seq :: int
  st_high_watermark :: int
  st_mode :: string
  st_reason :: string
  st_updated_at :: string

record edge_delivery_row =
  dl_key :: edge_key
  dl_delivery_seq :: int
  dl_carrier_stream :: string
  dl_carrier_sequence :: nat
  dl_subject :: string
  dl_raw_sha256 :: string
  dl_envelope_id :: "string option"
  dl_family :: "string option"
  dl_verdict :: string
  dl_reason :: string
  dl_received_at :: string
  dl_committed_at :: string

record identity_row =
  ir_commitment :: string
  ir_state :: string
  ir_first_delivery_seq :: int
  ir_first_seen_at :: string
  ir_conflicting_commitment :: "string option"
  ir_conflicting_delivery_seq :: "int option"
  ir_quarantined_at :: "string option"

record pending_case_row =
  pc_case_id :: string
  pc_envelope_id :: string
  pc_commitment :: string
  pc_raw_ciphertext :: bytes
  pc_key_version :: int
  pc_created_at :: string
  pc_state :: string
  pc_authority_id :: "string option"
  pc_authority_revision :: "int option"
  pc_accepted_at :: "string option"

record pending_advice_row =
  pa_case_id :: string
  pa_advice_id :: string
  pa_case_commitment :: string
  pa_commitment :: string
  pa_raw_ciphertext :: bytes
  pa_key_version :: int
  pa_created_at :: string
  pa_state :: string
  pa_authority_id :: "string option"
  pa_authority_revision :: "int option"
  pa_accepted_at :: "string option"

record turn_row =
  tu_event_id :: string
  tu_request_ciphertext :: bytes
  tu_result_ciphertext :: "bytes option"
  tu_state :: string
  tu_created_unix_nano :: int
  tu_expires_unix_nano :: int
  tu_completed_unix_nano :: "int option"
  tu_claim_token :: "string option"
  tu_claim_expires_unix_nano :: "int option"

record edge_case_row =
  ec_case_id :: string
  ec_envelope_id :: string
  ec_commitment :: string
  ec_issuer_edge_id :: string
  ec_issuer_edge_generation :: int
  ec_route_kind :: string
  ec_route_token :: string
  ec_source_token :: string
  ec_domain :: string
  ec_routing_epoch :: int
  ec_registry_revision :: int
  ec_registry_hash :: string
  ec_payload_ciphertext :: bytes
  ec_key_version :: int
  ec_expires_at :: string
  ec_state :: string

record edge_advice_row =
  ea_advice_id :: string
  ea_envelope_id :: string
  ea_case_id :: string
  ea_case_commitment :: string
  ea_commitment :: string
  ea_issuer_edge_id :: string
  ea_issuer_edge_generation :: int
  ea_route_kind :: string
  ea_route_token :: string
  ea_routing_epoch :: int
  ea_registry_revision :: int
  ea_registry_hash :: string
  ea_text_ciphertext :: bytes
  ea_key_version :: int
  ea_expires_at :: string
  ea_received_at :: string
  ea_state :: string

record front_row =
  fo_front :: string
  fo_advice_id :: string
  fo_message_id :: string
  fo_state :: string
  fo_created_at :: string
  fo_lease_owner :: "string option"
  fo_lease_expires_at :: "string option"
  fo_claim_token :: "string option"
  fo_delivery_receipt :: "string option"
  fo_delivered_at :: "string option"

record edge_db =
  ssp_edge_delivery_state :: "edge_key \<Rightarrow> state_row option"
  ssp_edge_deliveries :: "edge_delivery_row list"
  ssp_edge_envelope_identity :: "string \<Rightarrow> identity_row option"
  ssp_edge_pending_cases :: "pending_case_row list"
  ssp_edge_pending_advice :: "pending_advice_row list"
  ssp_edge_dispatcher_turns :: "turn_row list"
  ssp_edge_cases :: "edge_case_row list"
  ssp_edge_advice :: "edge_advice_row list"
  ssp_edge_front_outbox :: "front_row list"

definition edge_init :: edge_db where
  "edge_init =
    \<lparr>ssp_edge_delivery_state = (\<lambda>_. None), ssp_edge_deliveries = [], ssp_edge_envelope_identity = (\<lambda>_. None),
     ssp_edge_pending_cases = [], ssp_edge_pending_advice = [], ssp_edge_dispatcher_turns = [],
     ssp_edge_cases = [], ssp_edge_advice = [], ssp_edge_front_outbox = []\<rparr>"

text \<open>\<^verbatim>\<open>BeginTx\<close>, the statements of the transaction, \<^verbatim>\<open>Commit\<close>, with the deferred \<^verbatim>\<open>Rollback\<close>.\<close>

definition edge_transaction ::
    "EdgeDB \<Rightarrow> edge_tx \<Rightarrow> (edge_db \<Rightarrow> edge_error + 'a \<times> edge_db) \<Rightarrow> edge_db \<Rightarrow> (edge_error + 'a) \<times> edge_db" where
  "edge_transaction d env work db =
    (if \<not> db_sqlDB d then (Inl ErrPanic, db)
     else case tx_fault env of Some m \<Rightarrow> (Inl (ErrSQL m), db) | None \<Rightarrow>
    (case work db of
       Inl e \<Rightarrow> (Inl e, db)
     | Inr (r, db') \<Rightarrow>
         (case tx_commit env of
            None \<Rightarrow> (Inr r, db')
          | Some (m, applied) \<Rightarrow> (Inl (ErrSQL m), if applied then db' else db))))"

end
