(* ===== verification/Go_Json.thy ===== *)
theory Go_Json
  imports Snag_Prelude
begin

text \<open>
  The text \<^verbatim>\<open>encoding/json.Marshal\<close> writes for a Go string: quoted, with the control characters, the
  quote, the backslash and the HTML-sensitive characters escaped, U+2028 and U+2029 escaped, and every
  invalid UTF-8 byte replaced by an escaped U+FFFD.
\<close>

abbreviation backslash :: char where
  "backslash \<equiv> CHR 0x5C"

abbreviation quote :: char where
  "quote \<equiv> CHR 0x22"

definition html_safe :: "nat \<Rightarrow> bool" where
  "html_safe b = (32 \<le> b \<and> b < 128 \<and> b \<noteq> 34 \<and> b \<noteq> 92 \<and> b \<noteq> 38 \<and> b \<noteq> 60 \<and> b \<noteq> 62)"

definition json_escape_ascii :: "char \<Rightarrow> string" where
  "json_escape_ascii c =
    (let b = of_char c in
     if html_safe b then [c]
     else if b = 92 \<or> b = 34 then [backslash, c]
     else if b = 8 then [backslash, CHR ''b'']
     else if b = 12 then [backslash, CHR ''f'']
     else if b = 10 then [backslash, CHR ''n'']
     else if b = 13 then [backslash, CHR ''r'']
     else if b = 9 then [backslash, CHR ''t'']
     else backslash # ''u00'' @ [hex_digit (b div 16), hex_digit (b mod 16)])"

definition json_escape_rune :: "bytes \<Rightarrow> string" where
  "json_escape_rune s =
    (let (r, w) = decode_rune s in
     if r < 128 then json_escape_ascii (hd s)
     else if r = 65533 \<and> w = 1 then backslash # ''ufffd''
     else if r = 8232 \<or> r = 8233 then backslash # ''u202'' @ [hex_digit (r mod 16)]
     else take w s)"

function json_escape :: "bytes \<Rightarrow> string" where
  "json_escape s =
    (if s = [] then [] else json_escape_rune s @ json_escape (drop (snd (decode_rune s)) s))"
  by pat_completeness auto
termination
  by (relation "measure length") (auto simp: decode_rune_width_pos)

declare json_escape.simps [simp del]

definition json_string :: "bytes \<Rightarrow> string" where
  "json_string s = quote # json_escape s @ [quote]"

end
