(* ===== verification/Edge_Store.thy ===== *)
theory Edge_Store
  imports Edge_Tables Go_Json
begin

text \<open>
  The operations of \<^verbatim>\<open>internal/sspedge/store.go\<close> on the delivery log and its projection.  Typed strings
  (\<^verbatim>\<open>Verdict\<close>, \<^verbatim>\<open>ApplyOutcome\<close>, \<^verbatim>\<open>DeliveryMode\<close>, \<^verbatim>\<open>Family\<close>) stay strings.  An outcome that the source
  returns next to the error of its commit is dropped: its callers look at the error first.
\<close>

section \<open>Validation and field encryption\<close>

definition sha256RE :: "string \<Rightarrow> bool" where
  "sha256RE s = (length s = 71 \<and> take 7 s = ''sha256:'' \<and> list_all is_lower_hex (drop 7 s))"

definition routingTokenRE :: "string \<Rightarrow> bool" where
  "routingTokenRE s = (length s = 64 \<and> list_all is_lower_hex s)"

definition EdgeRoutingToken :: "string \<Rightarrow> int \<Rightarrow> string" where
  "EdgeRoutingToken edgeID generation = (if generation \<le> 0 then [] else EdgeToken edgeID (uint64 generation))"

definition known_family :: "VerifiedProjection \<Rightarrow> bool" where
  "known_family p = (vp_Family p = FamilyCase \<or> vp_Family p = FamilyAdvice)"

definition invalid_case :: "VerifiedProjection \<Rightarrow> bool" where
  "invalid_case p =
    (vp_Family p = FamilyCase \<and>
     (case vp_Case p of None \<Rightarrow> True | Some c \<Rightarrow>
        ca_CaseID c = [] \<or> ca_IssuerEdgeGeneration c \<le> 0 \<or> ca_RouteKind c \<noteq> ''domain''
        \<or> \<not> routingTokenRE (ca_RouteToken c) \<or> \<not> routingTokenRE (ca_SourceToken c)
        \<or> \<not> sha256RE (ca_RegistryHash c) \<or> ca_ExpiresAt c = zero_time))"

definition invalid_advice :: "VerifiedProjection \<Rightarrow> bool" where
  "invalid_advice p =
    (vp_Family p = FamilyAdvice \<and>
     (case vp_Advice p of None \<Rightarrow> True | Some a \<Rightarrow>
        av_AdviceID a = [] \<or> av_IssuerEdgeID a = [] \<or> av_IssuerEdgeGeneration a \<le> 0 \<or> av_RouteKind a \<noteq> ''edge''
        \<or> \<not> routingTokenRE (av_RouteToken a) \<or> \<not> sha256RE (av_CaseCommitment a)
        \<or> \<not> sha256RE (av_RegistryHash a) \<or> av_ExpiresAt a = zero_time))"

definition case_misrouted :: "JournalDelivery \<Rightarrow> VerifiedProjection \<Rightarrow> bool" where
  "case_misrouted d p =
    (vp_Family p = FamilyCase \<and>
     (case vp_Case p of None \<Rightarrow> True | Some c \<Rightarrow>
        ca_IssuerEdgeID c \<noteq> jd_EdgeID d \<or> ca_IssuerEdgeGeneration c \<noteq> jd_EdgeGeneration d
        \<or> ca_RouteToken c \<noteq> RoutingToken (ca_Domain c)
        \<or> ca_SourceToken c \<noteq> EdgeRoutingToken (jd_EdgeID d) (jd_EdgeGeneration d)))"

definition advice_misrouted :: "JournalDelivery \<Rightarrow> VerifiedProjection \<Rightarrow> bool" where
  "advice_misrouted d p =
    (vp_Family p = FamilyAdvice \<and>
     (case vp_Advice p of None \<Rightarrow> True | Some a \<Rightarrow>
        av_IssuerEdgeID a \<noteq> jd_EdgeID d \<or> av_IssuerEdgeGeneration a \<noteq> jd_EdgeGeneration d
        \<or> av_RouteToken a \<noteq> EdgeRoutingToken (jd_EdgeID d) (jd_EdgeGeneration d)))"

definition validateDelivery ::
    "JournalDelivery \<Rightarrow> string \<Rightarrow> string \<Rightarrow> VerifiedProjection option \<Rightarrow> time \<Rightarrow> edge_error option" where
  "validateDelivery d v reason p now =
    (if jd_DeliverySeq d \<le> 0 \<or> jd_TenantID d = [] \<or> jd_EdgeID d = [] \<or> jd_EdgeGeneration d \<le> 0
        \<or> jd_Subject d = [] \<or> length (jd_Raw d) = 0 \<or> now = zero_time
       then Some (EdgeErr ''sspedge: invalid delivery'')
     else if v \<noteq> VerdictAccepted \<and> v \<noteq> VerdictRejected \<and> v \<noteq> VerdictQuarantined
       then Some (EdgeErr ''sspedge: invalid verdict'')
     else if length reason > 256 then Some (EdgeErr ''sspedge: rejection reason too long'')
     else if v = VerdictAccepted then
       (case p of None \<Rightarrow> Some (EdgeErr ''sspedge: invalid accepted projection'') | Some p \<Rightarrow>
          if vp_EnvelopeID p = [] \<or> \<not> sha256RE (vp_Commitment p) \<or> \<not> known_family p
            then Some (EdgeErr ''sspedge: invalid accepted projection'')
          else if invalid_case p then Some (EdgeErr ''sspedge: invalid case'')
          else if invalid_advice p then Some (EdgeErr ''sspedge: invalid advice'')
          else if case_misrouted d p then Some (EdgeErr ''sspedge: case delivery identity mismatch'')
          else if advice_misrouted d p then Some (EdgeErr ''sspedge: advice delivery identity mismatch'')
          else None)
     else case p of None \<Rightarrow> None | Some p \<Rightarrow>
       if vp_EnvelopeID p = [] \<or> \<not> sha256RE (vp_Commitment p) \<or> \<not> known_family p
         then Some (EdgeErr ''sspedge: invalid rejected receipt metadata'') else None)"

definition hash :: "bytes \<Rightarrow> string" where
  "hash raw = sha256_text raw"

text \<open>The additional data binds a ciphertext to its table, its key and the tenant.\<close>

definition field_aad :: "EdgeDB \<Rightarrow> string \<Rightarrow> string \<Rightarrow> bytes" where
  "field_aad d table key = table @ [CHR 0x00] @ key @ [CHR 0x00] @ db_tenant d"

definition seal :: "EdgeDB \<Rightarrow> edge_tx \<Rightarrow> string \<Rightarrow> string \<Rightarrow> bytes \<Rightarrow> edge_error + bytes" where
  "seal d env table key plain =
    (case db_key d of None \<Rightarrow> Inl ErrPanic
     | Some k \<Rightarrow> Inr (tx_nonce env @ Seal k (tx_nonce env) plain (field_aad d table key)))"

definition open_field :: "EdgeDB \<Rightarrow> string \<Rightarrow> string \<Rightarrow> bytes \<Rightarrow> edge_error + bytes" where
  "open_field d table key ciphertext =
    (case db_key d of None \<Rightarrow> Inl ErrPanic
     | Some k \<Rightarrow>
         if length ciphertext < NonceSize k then Inl (EdgeErr ''sspedge: ciphertext is truncated'')
         else case Open k (take (NonceSize k) ciphertext) (drop (NonceSize k) ciphertext) (field_aad d table key) of
                None \<Rightarrow> Inl (EdgeErr ''sspedge: ciphertext failed authentication'')
              | Some plain \<Rightarrow> Inr plain)"

text \<open>\<^verbatim>\<open>encodeCasePayload\<close>: the JSON object of \<^verbatim>\<open>encryptedCasePayload\<close>.\<close>

definition encodeCasePayload :: "string \<Rightarrow> string \<Rightarrow> bytes" where
  "encodeCasePayload summary contextManifest =
    CHR ''{'' # json_string ''summary'' @ '':'' @ json_string summary @ '',''
    @ json_string ''context_manifest'' @ '':'' @ json_string contextManifest @ ''}''"

section \<open>Delivery state\<close>

definition identity_key :: "EdgeIdentity \<Rightarrow> edge_key" where
  "identity_key i = (id_TenantID i, id_EdgeID i, id_Generation i)"

definition state_of_row :: "EdgeIdentity \<Rightarrow> state_row \<Rightarrow> GenerationDeliveryState" where
  "state_of_row i r =
    \<lparr>gs_Identity = i, gs_LastContiguousSeq = st_last_contiguous_seq r, gs_HighWatermark = st_high_watermark r,
     gs_Mode = st_mode r, gs_Reason = st_reason r\<rparr>"

definition zero_state :: "EdgeIdentity \<Rightarrow> GenerationDeliveryState" where
  "zero_state i =
    \<lparr>gs_Identity = i, gs_LastContiguousSeq = 0, gs_HighWatermark = 0, gs_Mode = [], gs_Reason = []\<rparr>"

definition deliveryStateTx :: "EdgeIdentity \<Rightarrow> edge_db \<Rightarrow> GenerationDeliveryState \<times> bool" where
  "deliveryStateTx i db =
    (case ssp_edge_delivery_state db (identity_key i) of
       None \<Rightarrow> (zero_state i, False) | Some r \<Rightarrow> (state_of_row i r, True))"

definition requireReconciliationTx ::
    "GenerationDeliveryState \<Rightarrow> int \<Rightarrow> string \<Rightarrow> time \<Rightarrow> edge_db \<Rightarrow> edge_db" where
  "requireReconciliationTx state observed reason now db =
    (let high = (if observed > gs_HighWatermark state then observed else gs_HighWatermark state);
         key = identity_key (gs_Identity state);
         row = (case ssp_edge_delivery_state db key of
                  None \<Rightarrow> \<lparr>st_last_contiguous_seq = gs_LastContiguousSeq state, st_high_watermark = high,
                           st_mode = ''reconciliation_required'', st_reason = reason, st_updated_at = sqlTime now\<rparr>
                | Some r \<Rightarrow> r\<lparr>st_high_watermark := max (st_high_watermark r) high,
                             st_mode := ''reconciliation_required'', st_reason := reason,
                             st_updated_at := sqlTime now\<rparr>) in
     db\<lparr>ssp_edge_delivery_state := (ssp_edge_delivery_state db)(key \<mapsto> row)\<rparr>)"

definition haltAndCommitTx ::
    "GenerationDeliveryState \<Rightarrow> int \<Rightarrow> string \<Rightarrow> time \<Rightarrow> string \<Rightarrow> edge_db \<Rightarrow> edge_error + string \<times> edge_db" where
  "haltAndCommitTx state observed reason now outcome db =
    Inr (outcome, requireReconciliationTx state observed reason now db)"

definition advanceDeliveryStateTx :: "EdgeIdentity \<Rightarrow> bool \<Rightarrow> int \<Rightarrow> time \<Rightarrow> edge_db \<Rightarrow> edge_db" where
  "advanceDeliveryStateTx i exists seq now db =
    (let key = identity_key i in
     if \<not> exists then
       db\<lparr>ssp_edge_delivery_state := (ssp_edge_delivery_state db)(key \<mapsto>
         \<lparr>st_last_contiguous_seq = seq, st_high_watermark = seq, st_mode = ''active'', st_reason = [],
          st_updated_at = sqlTime now\<rparr>)\<rparr>
     else case ssp_edge_delivery_state db key of
       None \<Rightarrow> db
     | Some r \<Rightarrow>
         db\<lparr>ssp_edge_delivery_state := (ssp_edge_delivery_state db)(key \<mapsto>
           r\<lparr>st_last_contiguous_seq := seq, st_high_watermark := max (st_high_watermark r) seq,
             st_updated_at := sqlTime now\<rparr>)\<rparr>)"

definition RequireReconciliation ::
    "EdgeDB \<Rightarrow> edge_tx \<Rightarrow> EdgeIdentity \<Rightarrow> int \<Rightarrow> string \<Rightarrow> time \<Rightarrow> edge_db \<Rightarrow> (edge_error + unit) \<times> edge_db" where
  "RequireReconciliation d env i observed reason now db =
    (case EdgeIdentity_validate i of Some e \<Rightarrow> (Inl e, db) | None \<Rightarrow>
     if observed < 0 \<or> reason = [] \<or> now = zero_time
       then (Inl (EdgeErr ''sspedge: invalid reconciliation requirement''), db)
     else edge_transaction d env
       (\<lambda>db. Inr ((), requireReconciliationTx (fst (deliveryStateTx i db)) observed reason now db)) db)"

definition DeliveryState ::
    "EdgeDB \<Rightarrow> edge_tx \<Rightarrow> EdgeIdentity \<Rightarrow> edge_db \<Rightarrow> edge_error + GenerationDeliveryState" where
  "DeliveryState d env i db =
    (case EdgeIdentity_validate i of Some e \<Rightarrow> Inl e | None \<Rightarrow>
     if \<not> db_sqlDB d then Inl ErrPanic
     else case tx_fault env of Some m \<Rightarrow> Inl (ErrSQL m) | None \<Rightarrow>
       (case ssp_edge_delivery_state db (identity_key i) of
          None \<Rightarrow> Inr ((zero_state i)\<lparr>gs_Mode := DeliveryModeActive\<rparr>)
        | Some r \<Rightarrow> Inr (state_of_row i r)))"

definition CompleteReconciliation ::
    "EdgeDB \<Rightarrow> edge_tx \<Rightarrow> EdgeIdentity \<Rightarrow> int \<Rightarrow> int \<Rightarrow> time \<Rightarrow> edge_db \<Rightarrow> (edge_error + unit) \<times> edge_db" where
  "CompleteReconciliation d env i completeThrough high now db =
    (case EdgeIdentity_validate i of Some e \<Rightarrow> (Inl e, db) | None \<Rightarrow>
     if completeThrough < 0 \<or> completeThrough \<noteq> high \<or> now = zero_time
       then (Inl (EdgeErr ''sspedge: invalid reconciliation completion''), db)
     else edge_transaction d env
       (\<lambda>db. case ssp_edge_delivery_state db (identity_key i) of
          Some r \<Rightarrow>
            if st_mode r = ''reconciliation_required'' \<and> st_last_contiguous_seq r = completeThrough
               \<and> st_high_watermark r = high
            then Inr ((), db\<lparr>ssp_edge_delivery_state := (ssp_edge_delivery_state db)(identity_key i \<mapsto>
                   r\<lparr>st_mode := ''active'', st_reason := [], st_updated_at := sqlTime now\<rparr>)\<rparr>)
            else Inl (EdgeErr ''sspedge: reconciliation is not contiguous through high watermark'')
        | None \<Rightarrow> Inl (EdgeErr ''sspedge: reconciliation is not contiguous through high watermark'')) db)"

section \<open>Identity and projection\<close>

definition quarantine_identity :: "string \<Rightarrow> JournalDelivery \<Rightarrow> time \<Rightarrow> identity_row \<Rightarrow> identity_row" where
  "quarantine_identity commitment delivery now r =
    r\<lparr>ir_state := ''quarantined'',
      ir_conflicting_commitment := (case ir_conflicting_commitment r of None \<Rightarrow> Some commitment | c \<Rightarrow> c),
      ir_conflicting_delivery_seq :=
        (case ir_conflicting_delivery_seq r of None \<Rightarrow> Some (jd_DeliverySeq delivery) | s \<Rightarrow> s),
      ir_quarantined_at := (case ir_quarantined_at r of None \<Rightarrow> Some (sqlTime now) | t \<Rightarrow> t)\<rparr>"

definition quarantine_projection :: "string \<Rightarrow> edge_db \<Rightarrow> edge_db" where
  "quarantine_projection i db =
    (let advice = map (\<lambda>a. if ea_envelope_id a = i then a\<lparr>ea_state := ''quarantined''\<rparr> else a) (ssp_edge_advice db);
         ids = map ea_advice_id (filter (\<lambda>a. ea_envelope_id a = i) advice) in
     db\<lparr>ssp_edge_cases :=
          map (\<lambda>c. if ec_envelope_id c = i then c\<lparr>ec_state := ''quarantined''\<rparr> else c) (ssp_edge_cases db),
        ssp_edge_advice := advice,
        ssp_edge_front_outbox :=
          map (\<lambda>o'. if List.member ids (fo_advice_id o') then o'\<lparr>fo_state := ''quarantined''\<rparr> else o')
            (ssp_edge_front_outbox db)\<rparr>)"

definition claimIdentity ::
    "string \<Rightarrow> string \<Rightarrow> JournalDelivery \<Rightarrow> time \<Rightarrow> edge_db \<Rightarrow> string \<times> edge_db" where
  "claimIdentity i commitment delivery now db =
    (case ssp_edge_envelope_identity db i of
       None \<Rightarrow>
         (ApplyAccepted, db\<lparr>ssp_edge_envelope_identity := (ssp_edge_envelope_identity db)(i \<mapsto>
            \<lparr>ir_commitment = commitment, ir_state = ''accepted'', ir_first_delivery_seq = jd_DeliverySeq delivery,
             ir_first_seen_at = sqlTime now, ir_conflicting_commitment = None,
             ir_conflicting_delivery_seq = None, ir_quarantined_at = None\<rparr>)\<rparr>)
     | Some r \<Rightarrow>
         if ir_commitment r = commitment then (ApplyDuplicate, db)
         else (ApplyQuarantined,
           quarantine_projection i (db\<lparr>ssp_edge_envelope_identity :=
             (ssp_edge_envelope_identity db)(i \<mapsto> quarantine_identity commitment delivery now r)\<rparr>)))"

definition constraint_failed :: "string \<Rightarrow> edge_error" where
  "constraint_failed column = ErrSQL (''UNIQUE constraint failed: '' @ column)"

definition edge_case_row_of :: "VerifiedProjection \<Rightarrow> Case \<Rightarrow> bytes \<Rightarrow> edge_case_row" where
  "edge_case_row_of p c body =
    \<lparr>ec_case_id = ca_CaseID c, ec_envelope_id = vp_EnvelopeID p, ec_commitment = vp_Commitment p,
     ec_issuer_edge_id = ca_IssuerEdgeID c, ec_issuer_edge_generation = ca_IssuerEdgeGeneration c,
     ec_route_kind = ca_RouteKind c, ec_route_token = ca_RouteToken c, ec_source_token = ca_SourceToken c,
     ec_domain = ca_Domain c, ec_routing_epoch = ca_RoutingEpoch c, ec_registry_revision = ca_RegistryRevision c,
     ec_registry_hash = ca_RegistryHash c, ec_payload_ciphertext = body, ec_key_version = 1,
     ec_expires_at = sqlTime (ca_ExpiresAt c), ec_state = ''accepted''\<rparr>"

definition edge_advice_row_of :: "VerifiedProjection \<Rightarrow> Advice \<Rightarrow> bytes \<Rightarrow> time \<Rightarrow> edge_advice_row" where
  "edge_advice_row_of p a body now =
    \<lparr>ea_advice_id = av_AdviceID a, ea_envelope_id = vp_EnvelopeID p, ea_case_id = av_CaseID a,
     ea_case_commitment = av_CaseCommitment a, ea_commitment = vp_Commitment p,
     ea_issuer_edge_id = av_IssuerEdgeID a, ea_issuer_edge_generation = av_IssuerEdgeGeneration a,
     ea_route_kind = av_RouteKind a, ea_route_token = av_RouteToken a, ea_routing_epoch = av_RoutingEpoch a,
     ea_registry_revision = av_RegistryRevision a, ea_registry_hash = av_RegistryHash a,
     ea_text_ciphertext = body, ea_key_version = 1, ea_expires_at = sqlTime (av_ExpiresAt a),
     ea_received_at = sqlTime now, ea_state = ''accepted''\<rparr>"

definition insert_edge_case :: "edge_case_row \<Rightarrow> edge_db \<Rightarrow> edge_error + edge_db" where
  "insert_edge_case r db =
    (if list_ex (\<lambda>c. ec_case_id c = ec_case_id r) (ssp_edge_cases db) then Inr db
     else if list_ex (\<lambda>c. ec_envelope_id c = ec_envelope_id r) (ssp_edge_cases db)
       then Inl (constraint_failed ''ssp_edge_cases.envelope_id'')
     else Inr (db\<lparr>ssp_edge_cases := ssp_edge_cases db @ [r]\<rparr>))"

definition insert_edge_advice :: "edge_advice_row \<Rightarrow> edge_db \<Rightarrow> edge_error + edge_db" where
  "insert_edge_advice r db =
    (if list_ex (\<lambda>a. ea_advice_id a = ea_advice_id r) (ssp_edge_advice db) then Inr db
     else if list_ex (\<lambda>a. ea_envelope_id a = ea_envelope_id r) (ssp_edge_advice db)
       then Inl (constraint_failed ''ssp_edge_advice.envelope_id'')
     else Inr (db\<lparr>ssp_edge_advice := ssp_edge_advice db @ [r]\<rparr>))"

definition front_message_id :: "string \<Rightarrow> string \<Rightarrow> string" where
  "front_message_id front adviceID = ''snagline.'' @ front @ ''.advice.v1/'' @ adviceID"

definition insert_front :: "string \<Rightarrow> string \<Rightarrow> time \<Rightarrow> edge_db \<Rightarrow> edge_error + edge_db" where
  "insert_front front adviceID now db =
    (if list_ex (\<lambda>o'. fo_front o' = front \<and> fo_advice_id o' = adviceID) (ssp_edge_front_outbox db) then Inr db
     else if list_ex (\<lambda>o'. fo_message_id o' = front_message_id front adviceID) (ssp_edge_front_outbox db)
       then Inl (constraint_failed ''ssp_edge_front_outbox.message_id'')
     else Inr (db\<lparr>ssp_edge_front_outbox := ssp_edge_front_outbox db @
       [\<lparr>fo_front = front, fo_advice_id = adviceID, fo_message_id = front_message_id front adviceID,
         fo_state = ''pending'', fo_created_at = sqlTime now, fo_lease_owner = None, fo_lease_expires_at = None,
         fo_claim_token = None, fo_delivery_receipt = None, fo_delivered_at = None\<rparr>]\<rparr>))"

definition persist_case ::
    "EdgeDB \<Rightarrow> edge_tx \<Rightarrow> VerifiedProjection \<Rightarrow> edge_db \<Rightarrow> edge_error + edge_db" where
  "persist_case d env p db =
    (case vp_Case p of
       None \<Rightarrow> Inl (EdgeErr ''sspedge: case projection required'')
     | Some c \<Rightarrow>
         (case seal d env ''ssp_edge_cases'' (ca_CaseID c) (encodeCasePayload (ca_Summary c) (ca_ContextManifest c)) of
            Inl e \<Rightarrow> Inl e
          | Inr body \<Rightarrow> insert_edge_case (edge_case_row_of p c body) db))"

text \<open>The columns of an accepted case that the advice answering it must repeat.\<close>

definition advice_binds_case :: "Advice \<Rightarrow> edge_case_row \<Rightarrow> bool" where
  "advice_binds_case a c =
    (ec_commitment c = av_CaseCommitment a \<and> ec_issuer_edge_id c = av_IssuerEdgeID a
     \<and> ec_issuer_edge_generation c = av_IssuerEdgeGeneration a \<and> ec_source_token c = av_RouteToken a
     \<and> ec_routing_epoch c = av_RoutingEpoch a \<and> ec_registry_revision c = av_RegistryRevision a
     \<and> ec_registry_hash c = av_RegistryHash a)"

definition persist_advice ::
    "EdgeDB \<Rightarrow> edge_tx \<Rightarrow> VerifiedProjection \<Rightarrow> time \<Rightarrow> edge_db \<Rightarrow> edge_error + edge_db" where
  "persist_advice d env p now db =
    (case vp_Advice p of
       None \<Rightarrow> Inl (EdgeErr ''sspedge: advice projection required'')
     | Some a \<Rightarrow>
         (case find (\<lambda>c. ec_case_id c = av_CaseID a \<and> ec_state c = ''accepted'') (ssp_edge_cases db) of
            None \<Rightarrow> Inl (EdgeErr ''sspedge: advice case is absent or quarantined'')
          | Some c \<Rightarrow>
              if \<not> advice_binds_case a c then Inl (EdgeErr ''sspedge: advice does not bind exact accepted case'')
              else (case seal d env ''ssp_edge_advice'' (av_AdviceID a) (av_Text a) of
                 Inl e \<Rightarrow> Inl e
               | Inr body \<Rightarrow>
                   (case insert_edge_advice (edge_advice_row_of p a body now) db of
                      Inl e \<Rightarrow> Inl e
                    | Inr db1 \<Rightarrow>
                        (case insert_front ''cli'' (av_AdviceID a) now db1 of
                           Inl e \<Rightarrow> Inl e
                         | Inr db2 \<Rightarrow> insert_front ''amq'' (av_AdviceID a) now db2)))))"

definition persistProjection ::
    "EdgeDB \<Rightarrow> edge_tx \<Rightarrow> VerifiedProjection \<Rightarrow> time \<Rightarrow> edge_db \<Rightarrow> edge_error + edge_db" where
  "persistProjection d env p now db =
    (if vp_Family p = FamilyCase then persist_case d env p db
     else if vp_Family p = FamilyAdvice then persist_advice d env p now db
     else Inl (EdgeErr ''sspedge: unknown family''))"

section \<open>Applying one delivery\<close>

definition delivery_identity :: "JournalDelivery \<Rightarrow> EdgeIdentity" where
  "delivery_identity d =
    \<lparr>id_TenantID = jd_TenantID d, id_EdgeID = jd_EdgeID d, id_Generation = jd_EdgeGeneration d\<rparr>"

definition find_delivery :: "edge_key \<Rightarrow> int \<Rightarrow> edge_db \<Rightarrow> edge_delivery_row option" where
  "find_delivery key seq db = find (\<lambda>r. dl_key r = key \<and> dl_delivery_seq r = seq) (ssp_edge_deliveries db)"

definition delivery_row_of ::
    "JournalDelivery \<Rightarrow> VerifiedProjection option \<Rightarrow> string \<Rightarrow> string \<Rightarrow> time \<Rightarrow> edge_delivery_row" where
  "delivery_row_of d p verdict reason now =
    \<lparr>dl_key = identity_key (delivery_identity d), dl_delivery_seq = jd_DeliverySeq d,
     dl_carrier_stream = jd_Stream d, dl_carrier_sequence = jd_Sequence d, dl_subject = jd_Subject d,
     dl_raw_sha256 = hash (jd_Raw d), dl_envelope_id = map_option vp_EnvelopeID p,
     dl_family = map_option vp_Family p, dl_verdict = verdict, dl_reason = reason,
     dl_received_at = sqlTime now, dl_committed_at = sqlTime now\<rparr>"

text \<open>\<^verbatim>\<open>database/sql\<close> refuses an unsigned argument with the high bit set.\<close>

definition insert_delivery :: "edge_delivery_row \<Rightarrow> edge_db \<Rightarrow> edge_error + edge_db" where
  "insert_delivery r db =
    (if dl_carrier_sequence r \<ge> 2 ^ 63
       then Inl (ErrSQL ''sql: converting argument: uint64 values with high bit set are not supported'')
     else Inr (db\<lparr>ssp_edge_deliveries := ssp_edge_deliveries db @ [r]\<rparr>))"

definition same_evidence :: "edge_delivery_row \<Rightarrow> JournalDelivery \<Rightarrow> bool" where
  "same_evidence r d = (dl_raw_sha256 r = hash (jd_Raw d) \<and> dl_subject r = jd_Subject d)"

text \<open>The outcome, verdict and reason recorded for a fresh sequence, after identity and projection.\<close>

definition settle_delivery ::
    "EdgeDB \<Rightarrow> edge_tx \<Rightarrow> JournalDelivery \<Rightarrow> string \<Rightarrow> string \<Rightarrow> VerifiedProjection option \<Rightarrow> time \<Rightarrow> edge_db
       \<Rightarrow> edge_error + (string \<times> string \<times> string) \<times> edge_db" where
  "settle_delivery d env delivery verdict reason p now db =
    (if verdict \<noteq> VerdictAccepted then Inr ((verdict, verdict, reason), db)
     else case p of None \<Rightarrow> Inl ErrPanic | Some p \<Rightarrow>
       (case claimIdentity (vp_EnvelopeID p) (vp_Commitment p) delivery now db of
          (state, db1) \<Rightarrow>
            if state = ApplyQuarantined
              then Inr ((state, VerdictQuarantined, ''semantic_commitment_conflict''), db1)
            else if state = ApplyDuplicate then Inr ((state, verdict, reason), db1)
            else (case persistProjection d env p now db1 of
                    Inl e \<Rightarrow> Inl e
                  | Inr db2 \<Rightarrow> Inr ((verdict, verdict, reason), db2))))"

definition applyVerified_work ::
    "EdgeDB \<Rightarrow> edge_tx \<Rightarrow> JournalDelivery \<Rightarrow> string \<Rightarrow> string \<Rightarrow> VerifiedProjection option \<Rightarrow> time \<Rightarrow> bool
       \<Rightarrow> edge_db \<Rightarrow> edge_error + string \<times> edge_db" where
  "applyVerified_work d env delivery verdict reason p now allowReconciliation db =
    (let i = delivery_identity delivery; seq = jd_DeliverySeq delivery in
     case deliveryStateTx i db of (state0, exists) \<Rightarrow>
    (let state = (if exists then state0 else (zero_state i)\<lparr>gs_Mode := DeliveryModeActive\<rparr>) in
     if seq \<le> gs_LastContiguousSeq state then
       (case find_delivery (identity_key i) seq db of
          Some r \<Rightarrow>
            if \<not> same_evidence r delivery
              then haltAndCommitTx state seq ''delivery_identity_conflict'' now ApplyIdentityConflict db
            else Inr (ApplyDuplicate, db)
        | None \<Rightarrow> haltAndCommitTx state seq ''missing_committed_delivery'' now ApplyReconciliationRequired db)
     else if seq \<noteq> wrap64 (gs_LastContiguousSeq state + 1)
             \<or> gs_Mode state = DeliveryModeReconciliationRequired \<and> \<not> allowReconciliation
       then haltAndCommitTx state seq ''delivery_sequence_gap'' now ApplyReconciliationRequired db
     else case find_delivery (identity_key i) seq db of
       Some r \<Rightarrow>
         if \<not> same_evidence r delivery
           then haltAndCommitTx state seq ''delivery_identity_conflict'' now ApplyIdentityConflict db
         else Inr (ApplyDuplicate, if allowReconciliation then advanceDeliveryStateTx i exists seq now db else db)
     | None \<Rightarrow>
         (case settle_delivery d env delivery verdict reason p now db of
            Inl e \<Rightarrow> Inl e
          | Inr ((outcome, verdict', reason'), db1) \<Rightarrow>
              (case insert_delivery (delivery_row_of delivery p verdict' reason' now) db1 of
                 Inl e \<Rightarrow> Inl e
               | Inr db2 \<Rightarrow> Inr (outcome, advanceDeliveryStateTx i exists seq now db2)))))"

definition applyVerified ::
    "EdgeDB \<Rightarrow> edge_tx \<Rightarrow> JournalDelivery \<Rightarrow> string \<Rightarrow> string \<Rightarrow> VerifiedProjection option \<Rightarrow> time \<Rightarrow> bool
       \<Rightarrow> edge_db \<Rightarrow> (edge_error + string) \<times> edge_db" where
  "applyVerified d env delivery verdict reason p now allowReconciliation db =
    (case validateDelivery delivery verdict reason p now of Some e \<Rightarrow> (Inl e, db) | None \<Rightarrow>
     if jd_TenantID delivery \<noteq> db_tenant d
       then (Inl (EdgeErr ''sspedge: delivery tenant does not own this store''), db)
     else edge_transaction d env (applyVerified_work d env delivery verdict reason p now allowReconciliation) db)"

definition ApplyVerified ::
    "EdgeDB \<Rightarrow> edge_tx \<Rightarrow> JournalDelivery \<Rightarrow> string \<Rightarrow> string \<Rightarrow> VerifiedProjection option \<Rightarrow> time
       \<Rightarrow> edge_db \<Rightarrow> (edge_error + string) \<times> edge_db" where
  "ApplyVerified d env delivery verdict reason p now = applyVerified d env delivery verdict reason p now False"

definition applyReconciled ::
    "EdgeDB \<Rightarrow> edge_tx \<Rightarrow> JournalDelivery \<Rightarrow> string \<Rightarrow> string \<Rightarrow> VerifiedProjection option \<Rightarrow> time
       \<Rightarrow> edge_db \<Rightarrow> (edge_error + string) \<times> edge_db" where
  "applyReconciled d env delivery verdict reason p now = applyVerified d env delivery verdict reason p now True"

end
