(* ===== verification/Edge_Front.thy ===== *)
theory Edge_Front
  imports Edge_Store "HOL-Library.Product_Lexorder"
begin

text \<open>
  The front outbox of \<^verbatim>\<open>internal/sspedge/store.go\<close>: leasing accepted advice to a local front and recording
  the receipt of the front that showed it.  Columns holding times are text and are compared as text.
\<close>

record FrontDelivery =
  fd_Front :: string
  fd_CaseID :: string
  fd_AdviceID :: string
  fd_MessageID :: string
  fd_Text :: string
  fd_ClaimToken :: string

record FrontReceipt =
  fr_Front :: string
  fr_MessageID :: string
  fr_ClaimToken :: string
  fr_ReceiptID :: string

abbreviation FrontCLI :: string where
  "FrontCLI \<equiv> ''cli''"

abbreviation FrontAMQ :: string where
  "FrontAMQ \<equiv> ''amq''"

abbreviation DeliveryRecorded :: string where
  "DeliveryRecorded \<equiv> ''recorded''"

abbreviation DeliveryDuplicate :: string where
  "DeliveryDuplicate \<equiv> ''duplicate''"

definition claimToken :: "edge_tx \<Rightarrow> nat \<Rightarrow> string" where
  "claimToken env n = hex_encode (tx_random env n)"

text \<open>\<^verbatim>\<open>state='pending' OR (state='delivering' AND lease_expires_at < ?)\<close>; a \<^verbatim>\<open>NULL\<close> lease compares as false.\<close>

definition front_free :: "string \<Rightarrow> front_row \<Rightarrow> bool" where
  "front_free now o' =
    (fo_state o' = ''pending'' \<or>
     fo_state o' = ''delivering'' \<and> (case fo_lease_expires_at o' of None \<Rightarrow> False | Some t \<Rightarrow> t < now))"

definition select_front :: "string \<Rightarrow> string \<Rightarrow> int \<Rightarrow> edge_db \<Rightarrow> (front_row \<times> edge_advice_row) list" where
  "select_front front now limit db =
    take (nat limit) (sort_key (\<lambda>(o', a). (fo_created_at o', fo_advice_id o'))
      (filter (\<lambda>(o', a). fo_advice_id o' = ea_advice_id a \<and> fo_front o' = front
                 \<and> ea_state a = ''accepted'' \<and> front_free now o')
        (List.product (ssp_edge_front_outbox db) (ssp_edge_advice db))))"

definition front_lease :: "string \<Rightarrow> string \<Rightarrow> string \<Rightarrow> front_row \<Rightarrow> front_row" where
  "front_lease owner until token o' =
    o'\<lparr>fo_state := ''delivering'', fo_lease_owner := Some owner, fo_lease_expires_at := Some until,
       fo_claim_token := Some token\<rparr>"

fun claim_front_rows ::
    "EdgeDB \<Rightarrow> edge_tx \<Rightarrow> string \<Rightarrow> string \<Rightarrow> int \<Rightarrow> time \<Rightarrow> (front_row \<times> edge_advice_row) list \<Rightarrow> nat
       \<Rightarrow> edge_db \<Rightarrow> edge_error + FrontDelivery list \<times> edge_db" where
  "claim_front_rows d env front owner ttl now [] n db = Inr ([], db)"
| "claim_front_rows d env front owner ttl now ((o', a) # rest) n db =
    (let token = claimToken env n;
         matches = (\<lambda>r. fo_front r = front \<and> fo_advice_id r = fo_advice_id o' \<and> front_free (sqlTime now) r);
         db' = db\<lparr>ssp_edge_front_outbox :=
           update_rows matches (front_lease owner (sqlTime (now + ttl)) token) (ssp_edge_front_outbox db)\<rparr> in
     if rows_affected matches (ssp_edge_front_outbox db) \<noteq> 1
       then claim_front_rows d env front owner ttl now rest (Suc n) db'
     else case open_field d ''ssp_edge_advice'' (fo_advice_id o') (ea_text_ciphertext a) of
       Inl e \<Rightarrow> Inl e
     | Inr plain \<Rightarrow>
         (case claim_front_rows d env front owner ttl now rest (Suc n) db' of
            Inl e \<Rightarrow> Inl e
          | Inr (out, db'') \<Rightarrow>
              Inr (\<lparr>fd_Front = front, fd_CaseID = ea_case_id a, fd_AdviceID = fo_advice_id o',
                    fd_MessageID = fo_message_id o', fd_Text = plain, fd_ClaimToken = token\<rparr> # out, db'')))"

definition ClaimFrontDeliveries ::
    "EdgeDB \<Rightarrow> edge_tx \<Rightarrow> string \<Rightarrow> string \<Rightarrow> int \<Rightarrow> int \<Rightarrow> time \<Rightarrow> edge_db
       \<Rightarrow> (edge_error + FrontDelivery list) \<times> edge_db" where
  "ClaimFrontDeliveries d env front owner ttl limit now db =
    (if front \<noteq> FrontCLI \<and> front \<noteq> FrontAMQ \<or> owner = [] \<or> ttl \<le> 0 \<or> limit \<le> 0 \<or> now = zero_time
       then (Inl (EdgeErr ''sspedge: invalid front claim''), db)
     else edge_transaction d env
       (\<lambda>db. claim_front_rows d env front owner ttl now (select_front front (sqlTime now) limit db) 0 db) db)"

definition coalesce :: "string option \<Rightarrow> string" where
  "coalesce v = (case v of None \<Rightarrow> [] | Some s \<Rightarrow> s)"

definition front_delivered :: "string \<Rightarrow> string \<Rightarrow> front_row \<Rightarrow> front_row" where
  "front_delivered receipt now o' =
    o'\<lparr>fo_state := ''delivered'', fo_delivery_receipt := Some receipt, fo_delivered_at := Some now,
       fo_lease_owner := None, fo_lease_expires_at := None\<rparr>"

definition mark_front_work :: "FrontReceipt \<Rightarrow> time \<Rightarrow> edge_db \<Rightarrow> edge_error + string \<times> edge_db" where
  "mark_front_work receipt now db =
    (case find (\<lambda>o'. fo_front o' = fr_Front receipt \<and> fo_message_id o' = fr_MessageID receipt)
            (ssp_edge_front_outbox db) of
       None \<Rightarrow> Inl (EdgeErr ''sspedge: front message not found'')
     | Some o' \<Rightarrow>
         if fo_state o' = ''delivered'' then
           (if coalesce (fo_delivery_receipt o') \<noteq> fr_ReceiptID receipt
              then Inl (EdgeErr ''sspedge: delivered receipt mismatch'')
            else Inr (DeliveryDuplicate, db))
         else if fo_state o' \<noteq> ''delivering'' \<or> coalesce (fo_claim_token o') \<noteq> fr_ClaimToken receipt
           then Inl (EdgeErr ''sspedge: lost front delivery claim'')
         else Inr (DeliveryRecorded, db\<lparr>ssp_edge_front_outbox :=
           update_rows (\<lambda>r. fo_front r = fr_Front receipt \<and> fo_message_id r = fr_MessageID receipt
               \<and> fo_state r = ''delivering'' \<and> fo_claim_token r = Some (fr_ClaimToken receipt))
             (front_delivered (fr_ReceiptID receipt) (sqlTime now)) (ssp_edge_front_outbox db)\<rparr>))"

definition MarkFrontDelivered ::
    "EdgeDB \<Rightarrow> edge_tx \<Rightarrow> FrontReceipt \<Rightarrow> time \<Rightarrow> edge_db \<Rightarrow> (edge_error + string) \<times> edge_db" where
  "MarkFrontDelivered d env receipt now db =
    (if fr_Front receipt \<noteq> FrontCLI \<and> fr_Front receipt \<noteq> FrontAMQ \<or> fr_MessageID receipt = []
        \<or> fr_ClaimToken receipt = [] \<or> fr_ReceiptID receipt = [] \<or> now = zero_time
       then (Inl (EdgeErr ''sspedge: invalid delivery receipt''), db)
     else edge_transaction d env (mark_front_work receipt now) db)"

end
