(* ===== verification/Edge_Spool.thy ===== *)
theory Edge_Spool
  imports Edge_Front
begin

text \<open>
  \<^verbatim>\<open>internal/sspedge/edge_case_store.go\<close> and \<^verbatim>\<open>edge_advice_spool.go\<close>: the encrypted spool of signed
  submissions an edge or a dispatcher has not yet had accepted, and the advice read model.  A handle
  without a database or key is the source's nil store.
\<close>

definition nil_edge_store :: edge_error where
  "nil_edge_store = EdgeErr ''sspedge: nil store''"

definition closed_store :: "EdgeDB \<Rightarrow> bool" where
  "closed_store d = (\<not> db_sqlDB d \<or> db_key d = None)"

section \<open>Types of \<^verbatim>\<open>internal/edge/service.go\<close>\<close>

record PendingCase =
  pdc_EnvelopeID :: string
  pdc_CaseID :: string
  pdc_Commitment :: string
  pdc_Raw :: bytes
  pdc_CreatedAt :: time

record AcceptedRemoteCase =
  arc_EnvelopeID :: string
  arc_CaseID :: string
  arc_Commitment :: string
  arc_Receipt :: CommitReceipt
  arc_AcceptedAt :: time

record PendingAdvice =
  pda_AdviceID :: string
  pda_CaseID :: string
  pda_CaseCommitment :: string
  pda_Commitment :: string
  pda_Raw :: bytes
  pda_CreatedAt :: time

record AcceptedRemoteAdvice =
  ara_AdviceID :: string
  ara_CaseID :: string
  ara_Commitment :: string
  ara_Receipt :: CommitReceipt
  ara_AcceptedAt :: time

record AdviceView =
  vw_AdviceID :: string
  vw_CaseID :: string
  vw_Text :: string
  vw_ReceivedAt :: time

section \<open>Pending cases\<close>

definition validatePendingCase :: "PendingCase \<Rightarrow> edge_error option" where
  "validatePendingCase p =
    (if blank (pdc_EnvelopeID p) \<or> blank (pdc_CaseID p) \<or> \<not> sha256RE (pdc_Commitment p)
        \<or> length (pdc_Raw p) = 0 \<or> length (pdc_Raw p) > MaxEnvelopeBytes \<or> pdc_CreatedAt p = zero_time
     then Some (EdgeErr ''sspedge: invalid pending case'') else None)"

definition stored_time :: "string \<Rightarrow> edge_error + time" where
  "stored_time raw =
    (case parseSQLTime raw of None \<Rightarrow> Inl (EdgeErr ''sspedge: invalid stored timestamp'') | Some t \<Rightarrow> Inr t)"

definition find_pending_case :: "string \<Rightarrow> edge_db \<Rightarrow> pending_case_row option" where
  "find_pending_case caseID db = find (\<lambda>r. pc_case_id r = caseID) (ssp_edge_pending_cases db)"

definition scanPendingCase :: "EdgeDB \<Rightarrow> pending_case_row option \<Rightarrow> string \<Rightarrow> edge_error + PendingCase option" where
  "scanPendingCase d row caseID =
    (case row of None \<Rightarrow> Inr None | Some r \<Rightarrow>
    (case stored_time (pc_created_at r) of Inl e \<Rightarrow> Inl e | Inr createdAt \<Rightarrow>
    (case open_field d ''ssp_edge_pending_cases'' caseID (pc_raw_ciphertext r) of Inl e \<Rightarrow> Inl e | Inr raw \<Rightarrow>
       Inr (Some \<lparr>pdc_EnvelopeID = pc_envelope_id r, pdc_CaseID = caseID, pdc_Commitment = pc_commitment r,
                  pdc_Raw = raw, pdc_CreatedAt = createdAt\<rparr>))))"

definition loadPendingCaseTx :: "EdgeDB \<Rightarrow> string \<Rightarrow> edge_db \<Rightarrow> edge_error + PendingCase option" where
  "loadPendingCaseTx d caseID db = scanPendingCase d (find_pending_case caseID db) caseID"

definition pending_case_row_of :: "PendingCase \<Rightarrow> bytes \<Rightarrow> pending_case_row" where
  "pending_case_row_of p ciphertext =
    \<lparr>pc_case_id = pdc_CaseID p, pc_envelope_id = pdc_EnvelopeID p, pc_commitment = pdc_Commitment p,
     pc_raw_ciphertext = ciphertext, pc_key_version = 1, pc_created_at = sqlTime (pdc_CreatedAt p),
     pc_state = ''pending'', pc_authority_id = None, pc_authority_revision = None, pc_accepted_at = None\<rparr>"

definition save_case_work :: "EdgeDB \<Rightarrow> edge_tx \<Rightarrow> PendingCase \<Rightarrow> edge_db \<Rightarrow> edge_error + unit \<times> edge_db" where
  "save_case_work d env p db =
    (case loadPendingCaseTx d (pdc_CaseID p) db of
       Inl e \<Rightarrow> Inl e
     | Inr (Some existing) \<Rightarrow>
         if pdc_EnvelopeID existing = pdc_EnvelopeID p \<and> pdc_Commitment existing = pdc_Commitment p
            \<and> pdc_CreatedAt existing = pdc_CreatedAt p \<and> pdc_Raw existing = pdc_Raw p
         then Inr ((), db)
         else Inl (EdgeErr ''sspedge: pending case conflicts with stored exact wire'')
     | Inr None \<Rightarrow>
         (case seal d env ''ssp_edge_pending_cases'' (pdc_CaseID p) (pdc_Raw p) of
            Inl e \<Rightarrow> Inl e
          | Inr ciphertext \<Rightarrow>
              if list_ex (\<lambda>r. pc_envelope_id r = pdc_EnvelopeID p) (ssp_edge_pending_cases db)
                then Inl (constraint_failed ''ssp_edge_pending_cases.envelope_id'')
              else Inr ((), db\<lparr>ssp_edge_pending_cases :=
                ssp_edge_pending_cases db @ [pending_case_row_of p ciphertext]\<rparr>)))"

definition SavePendingCase ::
    "EdgeDB \<Rightarrow> edge_tx \<Rightarrow> PendingCase \<Rightarrow> edge_db \<Rightarrow> (edge_error + unit) \<times> edge_db" where
  "SavePendingCase d env p db =
    (if closed_store d then (Inl nil_edge_store, db)
     else case validatePendingCase p of Some e \<Rightarrow> (Inl e, db) | None \<Rightarrow>
       edge_transaction d env (save_case_work d env p) db)"

definition LoadPendingCase ::
    "EdgeDB \<Rightarrow> edge_tx \<Rightarrow> string \<Rightarrow> edge_db \<Rightarrow> edge_error + PendingCase option" where
  "LoadPendingCase d env caseID db =
    (if closed_store d then Inl nil_edge_store
     else if blank caseID then Inl (EdgeErr ''sspedge: case ID is required'')
     else case tx_fault env of Some m \<Rightarrow> Inl (ErrSQL m) | None \<Rightarrow>
       scanPendingCase d (find_pending_case caseID db) caseID)"

definition validateAcceptedRemote :: "AcceptedRemoteCase \<Rightarrow> edge_error option" where
  "validateAcceptedRemote a =
    (if blank (arc_EnvelopeID a) \<or> blank (arc_CaseID a) \<or> \<not> sha256RE (arc_Commitment a)
        \<or> blank (rcpt_AuthorityID (arc_Receipt a)) \<or> rcpt_Revision (arc_Receipt a) \<le> 0
        \<or> rcpt_EnvelopeID (arc_Receipt a) \<noteq> arc_EnvelopeID a \<or> rcpt_Commitment (arc_Receipt a) \<noteq> arc_Commitment a
        \<or> arc_AcceptedAt a = zero_time
     then Some (EdgeErr ''sspedge: invalid accepted_remote receipt'') else None)"

definition case_accepted_row :: "AcceptedRemoteCase \<Rightarrow> pending_case_row \<Rightarrow> pending_case_row" where
  "case_accepted_row a r =
    r\<lparr>pc_state := ''accepted_remote'', pc_authority_id := Some (rcpt_AuthorityID (arc_Receipt a)),
      pc_authority_revision := Some (rcpt_Revision (arc_Receipt a)),
      pc_accepted_at := Some (sqlTime (arc_AcceptedAt a))\<rparr>"

definition coalesce_int :: "int option \<Rightarrow> int" where
  "coalesce_int v = (case v of None \<Rightarrow> 0 | Some n \<Rightarrow> n)"

definition mark_case_work :: "AcceptedRemoteCase \<Rightarrow> edge_db \<Rightarrow> edge_error + unit \<times> edge_db" where
  "mark_case_work a db =
    (case find_pending_case (arc_CaseID a) db of
       None \<Rightarrow> Inl (EdgeErr ''sspedge: pending case not found'')
     | Some r \<Rightarrow>
         if pc_envelope_id r \<noteq> arc_EnvelopeID a \<or> pc_commitment r \<noteq> arc_Commitment a
           then Inl (EdgeErr ''sspedge: authority receipt does not bind stored pending case'')
         else if pc_state r = ''accepted_remote'' then
           (if coalesce (pc_authority_id r) = rcpt_AuthorityID (arc_Receipt a)
               \<and> coalesce_int (pc_authority_revision r) = rcpt_Revision (arc_Receipt a)
               \<and> coalesce (pc_accepted_at r) = sqlTime (arc_AcceptedAt a)
            then Inr ((), db)
            else Inl (EdgeErr ''sspedge: accepted_remote receipt conflicts with stored evidence''))
         else if pc_state r \<noteq> ''pending'' then Inl (EdgeErr ''sspedge: pending case has invalid state'')
         else Inr ((), db\<lparr>ssp_edge_pending_cases :=
           update_rows (\<lambda>r. pc_case_id r = arc_CaseID a \<and> pc_state r = ''pending'')
             (case_accepted_row a) (ssp_edge_pending_cases db)\<rparr>))"

definition MarkCaseAcceptedRemote ::
    "EdgeDB \<Rightarrow> edge_tx \<Rightarrow> AcceptedRemoteCase \<Rightarrow> edge_db \<Rightarrow> (edge_error + unit) \<times> edge_db" where
  "MarkCaseAcceptedRemote d env a db =
    (if \<not> db_sqlDB d then (Inl nil_edge_store, db)
     else case validateAcceptedRemote a of Some e \<Rightarrow> (Inl e, db) | None \<Rightarrow>
       edge_transaction d env (mark_case_work a) db)"

section \<open>Pending advice\<close>

definition validatePendingAdvice :: "PendingAdvice \<Rightarrow> edge_error option" where
  "validatePendingAdvice p =
    (if blank (pda_AdviceID p) \<or> blank (pda_CaseID p) \<or> \<not> sha256RE (pda_CaseCommitment p)
        \<or> \<not> sha256RE (pda_Commitment p) \<or> length (pda_Raw p) = 0 \<or> length (pda_Raw p) > MaxEnvelopeBytes
        \<or> pda_CreatedAt p = zero_time
     then Some (EdgeErr ''sspedge: invalid pending advice'') else None)"

definition find_pending_advice :: "string \<Rightarrow> edge_db \<Rightarrow> pending_advice_row option" where
  "find_pending_advice caseID db = find (\<lambda>r. pa_case_id r = caseID) (ssp_edge_pending_advice db)"

definition scanPendingAdvice ::
    "EdgeDB \<Rightarrow> pending_advice_row option \<Rightarrow> string \<Rightarrow> edge_error + PendingAdvice option" where
  "scanPendingAdvice d row caseID =
    (case row of None \<Rightarrow> Inr None | Some r \<Rightarrow>
    (case stored_time (pa_created_at r) of Inl e \<Rightarrow> Inl e | Inr createdAt \<Rightarrow>
    (case open_field d ''ssp_edge_pending_advice'' caseID (pa_raw_ciphertext r) of Inl e \<Rightarrow> Inl e | Inr raw \<Rightarrow>
       Inr (Some \<lparr>pda_AdviceID = pa_advice_id r, pda_CaseID = caseID, pda_CaseCommitment = pa_case_commitment r,
                  pda_Commitment = pa_commitment r, pda_Raw = raw, pda_CreatedAt = createdAt\<rparr>))))"

definition loadPendingAdviceTx :: "EdgeDB \<Rightarrow> string \<Rightarrow> edge_db \<Rightarrow> edge_error + PendingAdvice option" where
  "loadPendingAdviceTx d caseID db = scanPendingAdvice d (find_pending_advice caseID db) caseID"

definition pending_advice_row_of :: "PendingAdvice \<Rightarrow> bytes \<Rightarrow> pending_advice_row" where
  "pending_advice_row_of p ciphertext =
    \<lparr>pa_case_id = pda_CaseID p, pa_advice_id = pda_AdviceID p, pa_case_commitment = pda_CaseCommitment p,
     pa_commitment = pda_Commitment p, pa_raw_ciphertext = ciphertext, pa_key_version = 1,
     pa_created_at = sqlTime (pda_CreatedAt p), pa_state = ''pending'', pa_authority_id = None,
     pa_authority_revision = None, pa_accepted_at = None\<rparr>"

definition save_advice_work ::
    "EdgeDB \<Rightarrow> edge_tx \<Rightarrow> PendingAdvice \<Rightarrow> edge_db \<Rightarrow> edge_error + unit \<times> edge_db" where
  "save_advice_work d env p db =
    (case loadPendingAdviceTx d (pda_CaseID p) db of
       Inl e \<Rightarrow> Inl e
     | Inr (Some existing) \<Rightarrow>
         if pda_AdviceID existing = pda_AdviceID p \<and> pda_CaseCommitment existing = pda_CaseCommitment p
            \<and> pda_Commitment existing = pda_Commitment p \<and> pda_CreatedAt existing = pda_CreatedAt p
            \<and> pda_Raw existing = pda_Raw p
         then Inr ((), db)
         else Inl (EdgeErr ''sspedge: pending advice conflicts with stored exact wire'')
     | Inr None \<Rightarrow>
         (case seal d env ''ssp_edge_pending_advice'' (pda_CaseID p) (pda_Raw p) of
            Inl e \<Rightarrow> Inl e
          | Inr ciphertext \<Rightarrow>
              if list_ex (\<lambda>r. pa_advice_id r = pda_AdviceID p) (ssp_edge_pending_advice db)
                then Inl (constraint_failed ''ssp_edge_pending_advice.advice_id'')
              else Inr ((), db\<lparr>ssp_edge_pending_advice :=
                ssp_edge_pending_advice db @ [pending_advice_row_of p ciphertext]\<rparr>)))"

definition SavePendingAdvice ::
    "EdgeDB \<Rightarrow> edge_tx \<Rightarrow> PendingAdvice \<Rightarrow> edge_db \<Rightarrow> (edge_error + unit) \<times> edge_db" where
  "SavePendingAdvice d env p db =
    (if closed_store d then (Inl nil_edge_store, db)
     else case validatePendingAdvice p of Some e \<Rightarrow> (Inl e, db) | None \<Rightarrow>
       edge_transaction d env (save_advice_work d env p) db)"

definition LoadPendingAdvice ::
    "EdgeDB \<Rightarrow> edge_tx \<Rightarrow> string \<Rightarrow> edge_db \<Rightarrow> edge_error + PendingAdvice option" where
  "LoadPendingAdvice d env caseID db =
    (if closed_store d then Inl nil_edge_store
     else if blank caseID then Inl (EdgeErr ''sspedge: case ID is required'')
     else case tx_fault env of Some m \<Rightarrow> Inl (ErrSQL m) | None \<Rightarrow>
       scanPendingAdvice d (find_pending_advice caseID db) caseID)"

definition validateAcceptedRemoteAdvice :: "AcceptedRemoteAdvice \<Rightarrow> edge_error option" where
  "validateAcceptedRemoteAdvice a =
    (if blank (ara_AdviceID a) \<or> blank (ara_CaseID a) \<or> \<not> sha256RE (ara_Commitment a)
        \<or> blank (rcpt_AuthorityID (ara_Receipt a)) \<or> rcpt_Revision (ara_Receipt a) \<le> 0
        \<or> rcpt_EnvelopeID (ara_Receipt a) \<noteq> ara_AdviceID a \<or> rcpt_Commitment (ara_Receipt a) \<noteq> ara_Commitment a
        \<or> ara_AcceptedAt a = zero_time
     then Some (EdgeErr ''sspedge: invalid accepted_remote advice receipt'') else None)"

definition advice_accepted_row :: "AcceptedRemoteAdvice \<Rightarrow> pending_advice_row \<Rightarrow> pending_advice_row" where
  "advice_accepted_row a r =
    r\<lparr>pa_state := ''accepted_remote'', pa_authority_id := Some (rcpt_AuthorityID (ara_Receipt a)),
      pa_authority_revision := Some (rcpt_Revision (ara_Receipt a)),
      pa_accepted_at := Some (sqlTime (ara_AcceptedAt a))\<rparr>"

definition mark_advice_work :: "AcceptedRemoteAdvice \<Rightarrow> edge_db \<Rightarrow> edge_error + unit \<times> edge_db" where
  "mark_advice_work a db =
    (case find_pending_advice (ara_CaseID a) db of
       None \<Rightarrow> Inl (EdgeErr ''sspedge: pending advice not found'')
     | Some r \<Rightarrow>
         if pa_advice_id r \<noteq> ara_AdviceID a \<or> pa_commitment r \<noteq> ara_Commitment a
           then Inl (EdgeErr ''sspedge: authority receipt does not bind stored pending advice'')
         else if pa_state r = ''accepted_remote'' then
           (if coalesce (pa_authority_id r) = rcpt_AuthorityID (ara_Receipt a)
               \<and> coalesce_int (pa_authority_revision r) = rcpt_Revision (ara_Receipt a)
            then Inr ((), db)
            else Inl (EdgeErr ''sspedge: accepted_remote advice receipt conflicts with stored evidence''))
         else if pa_state r \<noteq> ''pending'' then Inl (EdgeErr ''sspedge: pending advice has invalid state'')
         else Inr ((), db\<lparr>ssp_edge_pending_advice :=
           update_rows (\<lambda>r. pa_case_id r = ara_CaseID a \<and> pa_state r = ''pending'')
             (advice_accepted_row a) (ssp_edge_pending_advice db)\<rparr>))"

definition MarkAdviceAcceptedRemote ::
    "EdgeDB \<Rightarrow> edge_tx \<Rightarrow> AcceptedRemoteAdvice \<Rightarrow> edge_db \<Rightarrow> (edge_error + unit) \<times> edge_db" where
  "MarkAdviceAcceptedRemote d env a db =
    (if \<not> db_sqlDB d then (Inl nil_edge_store, db)
     else case validateAcceptedRemoteAdvice a of Some e \<Rightarrow> (Inl e, db) | None \<Rightarrow>
       edge_transaction d env (mark_advice_work a) db)"

section \<open>Advice views\<close>

definition advice_view :: "EdgeDB \<Rightarrow> edge_advice_row \<Rightarrow> edge_error + AdviceView" where
  "advice_view d a =
    (case open_field d ''ssp_edge_advice'' (ea_advice_id a) (ea_text_ciphertext a) of Inl e \<Rightarrow> Inl e | Inr plain \<Rightarrow>
    (case stored_time (ea_received_at a) of Inl e \<Rightarrow> Inl e | Inr receivedAt \<Rightarrow>
       Inr \<lparr>vw_AdviceID = ea_advice_id a, vw_CaseID = ea_case_id a, vw_Text = plain, vw_ReceivedAt = receivedAt\<rparr>))"

fun advice_views :: "EdgeDB \<Rightarrow> edge_advice_row list \<Rightarrow> edge_error + AdviceView list" where
  "advice_views d [] = Inr []"
| "advice_views d (a # rest) =
    (case advice_view d a of Inl e \<Rightarrow> Inl e | Inr v \<Rightarrow>
    (case advice_views d rest of Inl e \<Rightarrow> Inl e | Inr vs \<Rightarrow> Inr (v # vs)))"

definition ListAdvice :: "EdgeDB \<Rightarrow> edge_tx \<Rightarrow> string \<Rightarrow> edge_db \<Rightarrow> edge_error + AdviceView list" where
  "ListAdvice d env caseID db =
    (if closed_store d then Inl nil_edge_store
     else if blank caseID then Inl (EdgeErr ''sspedge: case ID is required'')
     else case tx_fault env of Some m \<Rightarrow> Inl (ErrSQL m) | None \<Rightarrow>
       advice_views d (sort_key (\<lambda>a. (ea_received_at a, ea_advice_id a))
         (filter (\<lambda>a. ea_case_id a = caseID \<and> ea_state a = ''accepted'') (ssp_edge_advice db))))"

definition PresentAdvice :: "EdgeDB \<Rightarrow> edge_tx \<Rightarrow> string \<Rightarrow> edge_db \<Rightarrow> edge_error + AdviceView option" where
  "PresentAdvice d env adviceID db =
    (if closed_store d then Inl nil_edge_store
     else if blank adviceID then Inl (EdgeErr ''sspedge: advice ID is required'')
     else case tx_fault env of Some m \<Rightarrow> Inl (ErrSQL m) | None \<Rightarrow>
       (case find (\<lambda>a. ea_advice_id a = adviceID \<and> ea_state a = ''accepted'') (ssp_edge_advice db) of
          None \<Rightarrow> Inr None
        | Some a \<Rightarrow> (case advice_view d a of Inl e \<Rightarrow> Inl e | Inr v \<Rightarrow> Inr (Some v))))"

end
