(* ===== verification/Dispatcher_Turns.thy ===== *)
theory Dispatcher_Turns
  imports Edge_Spool
begin

text \<open>
  \<^verbatim>\<open>internal/sspedge/dispatcher_turn_store.go\<close>: the replay guard of the dispatcher.  One row per Buzz
  event binds the exact request, holds at most one execution claim and, once completed, the result.
  \<^verbatim>\<open>UnixNano\<close> is the instant as a 64-bit integer.
\<close>

section \<open>Limits and validation\<close>

definition maxDispatcherTurnRequestBytes :: nat where
  "maxDispatcherTurnRequestBytes = 64 * 1024"

definition maxDispatcherTurnResultBytes :: nat where
  "maxDispatcherTurnResultBytes = 16 * 1024"

definition maxDispatcherTurnRetention :: int where
  "maxDispatcherTurnRetention = 30 * 24 * 3600000000000"

definition maxDispatcherTurnCapacity :: int where
  "maxDispatcherTurnCapacity = 1048576"

definition maxDispatcherTurnClaimTTL :: int where
  "maxDispatcherTurnClaimTTL = 10 * 60000000000"

definition dispatcherTurnRequestAAD :: string where
  "dispatcherTurnRequestAAD = ''ssp_edge_dispatcher_turn_request''"

definition dispatcherTurnResultAAD :: string where
  "dispatcherTurnResultAAD = ''ssp_edge_dispatcher_turn_result''"

definition dispatcherTurnIDPattern :: "string \<Rightarrow> bool" where
  "dispatcherTurnIDPattern s = (length s = 64 \<and> list_all is_lower_hex s)"

definition ErrDispatcherTurnMismatch :: edge_error where
  "ErrDispatcherTurnMismatch = EdgeErr ''sspedge: dispatcher turn request conflicts with stored binding''"

definition ErrDispatcherTurnCapacity :: edge_error where
  "ErrDispatcherTurnCapacity = EdgeErr ''sspedge: dispatcher turn replay guard is full''"

record DispatcherTurnBinding =
  tb_Completed :: bool
  tb_InFlight :: bool
  tb_ClaimToken :: string
  tb_Result :: bytes

definition zero_binding :: DispatcherTurnBinding where
  "zero_binding = \<lparr>tb_Completed = False, tb_InFlight = False, tb_ClaimToken = [], tb_Result = []\<rparr>"

definition UnixNano :: "time \<Rightarrow> int" where
  "UnixNano t = wrap64 t"

definition turn_request_ok :: "bytes \<Rightarrow> bool" where
  "turn_request_ok request = (length request \<noteq> 0 \<and> \<not> length request > maxDispatcherTurnRequestBytes)"

section \<open>Binding\<close>

definition find_turn :: "string \<Rightarrow> edge_db \<Rightarrow> turn_row option" where
  "find_turn eventID db = find (\<lambda>r. tu_event_id r = eventID) (ssp_edge_dispatcher_turns db)"

definition result_length :: "turn_row \<Rightarrow> nat" where
  "result_length r = (case tu_result_ciphertext r of None \<Rightarrow> 0 | Some c \<Rightarrow> length c)"

definition prune_turns :: "time \<Rightarrow> edge_db \<Rightarrow> edge_db" where
  "prune_turns now db =
    db\<lparr>ssp_edge_dispatcher_turns :=
         filter (\<lambda>r. \<not> tu_expires_unix_nano r \<le> UnixNano now) (ssp_edge_dispatcher_turns db)\<rparr>"

definition claim_turn_row :: "string \<Rightarrow> int \<Rightarrow> turn_row \<Rightarrow> turn_row" where
  "claim_turn_row token until r = r\<lparr>tu_claim_token := Some token, tu_claim_expires_unix_nano := Some until\<rparr>"

definition bind_pending ::
    "edge_tx \<Rightarrow> string \<Rightarrow> time \<Rightarrow> int \<Rightarrow> turn_row \<Rightarrow> edge_db \<Rightarrow> edge_error + DispatcherTurnBinding \<times> edge_db" where
  "bind_pending env eventID now claimTTL r db =
    (let storedClaim = coalesce (tu_claim_token r); claimExpires = coalesce_int (tu_claim_expires_unix_nano r) in
     if result_length r \<noteq> 0 then Inl (EdgeErr ''sspedge: pending dispatcher turn has a result'')
     else if (storedClaim = []) \<noteq> (claimExpires = 0)
       then Inl (EdgeErr ''sspedge: pending dispatcher turn has an invalid claim'')
     else if storedClaim \<noteq> [] \<and> claimExpires > UnixNano now then Inr (zero_binding\<lparr>tb_InFlight := True\<rparr>, db)
     else
       (let token = claimToken env 0; matches = (\<lambda>r. tu_event_id r = eventID \<and> tu_state r = ''pending'') in
        if rows_affected matches (ssp_edge_dispatcher_turns db) \<noteq> 1
          then Inl (EdgeErr ''sspedge: dispatcher turn claim lost its binding'')
        else Inr (zero_binding\<lparr>tb_ClaimToken := token\<rparr>,
          db\<lparr>ssp_edge_dispatcher_turns :=
               update_rows matches (claim_turn_row token (UnixNano (now + claimTTL))) (ssp_edge_dispatcher_turns db)\<rparr>)))"

definition bind_completed ::
    "EdgeDB \<Rightarrow> string \<Rightarrow> turn_row \<Rightarrow> edge_db \<Rightarrow> edge_error + DispatcherTurnBinding \<times> edge_db" where
  "bind_completed d eventID r db =
    (if result_length r = 0 \<or> coalesce (tu_claim_token r) \<noteq> [] \<or> coalesce_int (tu_claim_expires_unix_nano r) \<noteq> 0
       then Inl (EdgeErr ''sspedge: completed dispatcher turn state is invalid'')
     else case open_field d dispatcherTurnResultAAD eventID (coalesce (tu_result_ciphertext r)) of
       Inl e \<Rightarrow> Inl e
     | Inr result \<Rightarrow>
         if length result = 0 \<or> length result > maxDispatcherTurnResultBytes
           then Inl (EdgeErr ''sspedge: invalid stored dispatcher turn result'')
         else Inr (zero_binding\<lparr>tb_Completed := True, tb_Result := result\<rparr>, db))"

definition fresh_turn :: "string \<Rightarrow> bytes \<Rightarrow> time \<Rightarrow> int \<Rightarrow> int \<Rightarrow> string \<Rightarrow> turn_row" where
  "fresh_turn eventID ciphertext now retention claimTTL token =
    \<lparr>tu_event_id = eventID, tu_request_ciphertext = ciphertext, tu_result_ciphertext = None, tu_state = ''pending'',
     tu_created_unix_nano = UnixNano now, tu_expires_unix_nano = UnixNano (now + retention),
     tu_completed_unix_nano = None, tu_claim_token = Some token,
     tu_claim_expires_unix_nano = Some (UnixNano (now + claimTTL))\<rparr>"

definition bind_turn_work ::
    "EdgeDB \<Rightarrow> edge_tx \<Rightarrow> string \<Rightarrow> bytes \<Rightarrow> time \<Rightarrow> int \<Rightarrow> int \<Rightarrow> int \<Rightarrow> edge_db
       \<Rightarrow> edge_error + DispatcherTurnBinding \<times> edge_db" where
  "bind_turn_work d env eventID request now retention claimTTL capacity db0 =
    (let db = prune_turns now db0 in
     case find_turn eventID db of
       Some r \<Rightarrow>
         (case open_field d dispatcherTurnRequestAAD eventID (tu_request_ciphertext r) of
            Inl e \<Rightarrow> Inl e
          | Inr storedRequest \<Rightarrow>
              if storedRequest \<noteq> request then Inl ErrDispatcherTurnMismatch
              else if tu_state r = ''pending'' then bind_pending env eventID now claimTTL r db
              else if tu_state r = ''completed'' then bind_completed d eventID r db
              else Inl (EdgeErr ''sspedge: invalid dispatcher turn state''))
     | None \<Rightarrow>
         if int (length (ssp_edge_dispatcher_turns db)) \<ge> capacity then Inl ErrDispatcherTurnCapacity
         else (case seal d env dispatcherTurnRequestAAD eventID request of
            Inl e \<Rightarrow> Inl e
          | Inr ciphertext \<Rightarrow>
              (let token = claimToken env 0 in
               Inr (zero_binding\<lparr>tb_ClaimToken := token\<rparr>,
                 db\<lparr>ssp_edge_dispatcher_turns := ssp_edge_dispatcher_turns db @
                      [fresh_turn eventID ciphertext now retention claimTTL token]\<rparr>))))"

definition BindDispatcherTurn ::
    "EdgeDB \<Rightarrow> edge_tx \<Rightarrow> string \<Rightarrow> bytes \<Rightarrow> time \<Rightarrow> int \<Rightarrow> int \<Rightarrow> int \<Rightarrow> edge_db
       \<Rightarrow> (edge_error + DispatcherTurnBinding) \<times> edge_db" where
  "BindDispatcherTurn d env eventID request now retention claimTTL capacity db =
    (if closed_store d then (Inl nil_edge_store, db)
     else if \<not> dispatcherTurnIDPattern eventID \<or> \<not> turn_request_ok request \<or> now = zero_time
        \<or> retention \<le> 0 \<or> retention > maxDispatcherTurnRetention \<or> claimTTL \<le> 0
        \<or> claimTTL > maxDispatcherTurnClaimTTL \<or> capacity \<le> 0 \<or> capacity > maxDispatcherTurnCapacity
       then (Inl (EdgeErr ''sspedge: invalid dispatcher turn binding''), db)
     else edge_transaction d env (bind_turn_work d env eventID request now retention claimTTL capacity) db)"

section \<open>Completing and giving up a claim\<close>

definition completed_turn :: "bytes \<Rightarrow> time \<Rightarrow> turn_row \<Rightarrow> turn_row" where
  "completed_turn ciphertext completedAt r =
    r\<lparr>tu_result_ciphertext := Some ciphertext, tu_state := ''completed'',
      tu_completed_unix_nano := Some (UnixNano completedAt), tu_claim_token := None,
      tu_claim_expires_unix_nano := None\<rparr>"

definition holds_turn :: "string \<Rightarrow> string \<Rightarrow> turn_row \<Rightarrow> bool" where
  "holds_turn eventID claim r =
    (tu_event_id r = eventID \<and> tu_state r = ''pending'' \<and> tu_claim_token r = Some claim)"

definition complete_turn_work ::
    "EdgeDB \<Rightarrow> edge_tx \<Rightarrow> string \<Rightarrow> bytes \<Rightarrow> bytes \<Rightarrow> time \<Rightarrow> string \<Rightarrow> edge_db \<Rightarrow> edge_error + unit \<times> edge_db" where
  "complete_turn_work d env eventID request result completedAt claim db =
    (case find_turn eventID db of
       None \<Rightarrow> Inl (EdgeErr ''sspedge: dispatcher turn binding not found'')
     | Some r \<Rightarrow>
    (case open_field d dispatcherTurnRequestAAD eventID (tu_request_ciphertext r) of
       Inl e \<Rightarrow> Inl e
     | Inr storedRequest \<Rightarrow>
         if storedRequest \<noteq> request then Inl ErrDispatcherTurnMismatch
         else if tu_state r = ''completed'' then
           (if coalesce (tu_claim_token r) \<noteq> []
              then Inl (EdgeErr ''sspedge: completed dispatcher turn retained a claim'')
            else case open_field d dispatcherTurnResultAAD eventID (coalesce (tu_result_ciphertext r)) of
              Inl e \<Rightarrow> Inl e
            | Inr storedResult \<Rightarrow>
                if storedResult \<noteq> result
                  then Inl (EdgeErr ''sspedge: dispatcher turn result conflicts with stored binding'')
                else Inr ((), db))
         else if tu_state r \<noteq> ''pending'' \<or> result_length r \<noteq> 0 \<or> coalesce (tu_claim_token r) \<noteq> claim
           then Inl (EdgeErr ''sspedge: invalid dispatcher turn state'')
         else (case seal d env dispatcherTurnResultAAD eventID result of
            Inl e \<Rightarrow> Inl e
          | Inr ciphertext \<Rightarrow>
              if rows_affected (holds_turn eventID claim) (ssp_edge_dispatcher_turns db) \<noteq> 1
                then Inl (EdgeErr ''sspedge: dispatcher turn completion lost its binding'')
              else Inr ((), db\<lparr>ssp_edge_dispatcher_turns :=
                update_rows (holds_turn eventID claim) (completed_turn ciphertext completedAt)
                  (ssp_edge_dispatcher_turns db)\<rparr>))))"

definition CompleteDispatcherTurn ::
    "EdgeDB \<Rightarrow> edge_tx \<Rightarrow> string \<Rightarrow> bytes \<Rightarrow> bytes \<Rightarrow> time \<Rightarrow> string \<Rightarrow> edge_db \<Rightarrow> (edge_error + unit) \<times> edge_db" where
  "CompleteDispatcherTurn d env eventID request result completedAt claim db =
    (if closed_store d then (Inl nil_edge_store, db)
     else if \<not> dispatcherTurnIDPattern eventID \<or> \<not> dispatcherTurnIDPattern claim \<or> \<not> turn_request_ok request
        \<or> length result = 0 \<or> length result > maxDispatcherTurnResultBytes \<or> completedAt = zero_time
       then (Inl (EdgeErr ''sspedge: invalid dispatcher turn completion''), db)
     else edge_transaction d env (complete_turn_work d env eventID request result completedAt claim) db)"

definition released_turn :: "turn_row \<Rightarrow> turn_row" where
  "released_turn r = r\<lparr>tu_claim_token := None, tu_claim_expires_unix_nano := None\<rparr>"

definition updatePendingDispatcherTurnClaim ::
    "EdgeDB \<Rightarrow> string \<Rightarrow> bytes \<Rightarrow> string \<Rightarrow> bool \<Rightarrow> edge_db \<Rightarrow> edge_error + unit \<times> edge_db" where
  "updatePendingDispatcherTurnClaim d eventID request claim abandon db =
    (case find_turn eventID db of
       None \<Rightarrow> Inl (EdgeErr ''sspedge: dispatcher turn binding not found'')
     | Some r \<Rightarrow>
    (case open_field d dispatcherTurnRequestAAD eventID (tu_request_ciphertext r) of
       Inl e \<Rightarrow> Inl e
     | Inr storedRequest \<Rightarrow>
         if storedRequest \<noteq> request then Inl ErrDispatcherTurnMismatch
         else if tu_state r \<noteq> ''pending'' \<or> result_length r \<noteq> 0 \<or> coalesce (tu_claim_token r) \<noteq> claim
           then Inl (EdgeErr ''sspedge: dispatcher turn claim is not owned by this execution'')
         else if rows_affected (holds_turn eventID claim) (ssp_edge_dispatcher_turns db) \<noteq> 1
           then Inl (EdgeErr ''sspedge: dispatcher turn claim update lost its binding'')
         else Inr ((), db\<lparr>ssp_edge_dispatcher_turns :=
           (if abandon then filter (\<lambda>r. \<not> holds_turn eventID claim r) (ssp_edge_dispatcher_turns db)
            else update_rows (holds_turn eventID claim) released_turn (ssp_edge_dispatcher_turns db))\<rparr>)))"

definition ReleaseDispatcherTurnClaim ::
    "EdgeDB \<Rightarrow> edge_tx \<Rightarrow> string \<Rightarrow> bytes \<Rightarrow> string \<Rightarrow> edge_db \<Rightarrow> (edge_error + unit) \<times> edge_db" where
  "ReleaseDispatcherTurnClaim d env eventID request claim db =
    (if closed_store d then (Inl nil_edge_store, db)
     else if \<not> dispatcherTurnIDPattern eventID \<or> \<not> dispatcherTurnIDPattern claim \<or> \<not> turn_request_ok request
       then (Inl (EdgeErr ''sspedge: invalid dispatcher turn claim release''), db)
     else edge_transaction d env (updatePendingDispatcherTurnClaim d eventID request claim False) db)"

definition AbandonDispatcherTurn ::
    "EdgeDB \<Rightarrow> edge_tx \<Rightarrow> string \<Rightarrow> bytes \<Rightarrow> string \<Rightarrow> edge_db \<Rightarrow> (edge_error + unit) \<times> edge_db" where
  "AbandonDispatcherTurn d env eventID request claim db =
    (if closed_store d then (Inl nil_edge_store, db)
     else if \<not> dispatcherTurnIDPattern eventID \<or> \<not> dispatcherTurnIDPattern claim \<or> \<not> turn_request_ok request
       then (Inl (EdgeErr ''sspedge: invalid dispatcher turn abandonment''), db)
     else edge_transaction d env (updatePendingDispatcherTurnClaim d eventID request claim True) db)"

end
