(* ===== verification/Edge_Log.thy ===== *)
theory Edge_Log
  imports Dispatcher_Turns
begin

text \<open>
  The delivery log of the edge store.  Every writer of the store is a step; the log of each edge
  incarnation is the contiguous sequence 1, 2, ..., last, and only a fresh next delivery extends it.
\<close>

section \<open>Transactions\<close>

lemma edge_transaction_snd:
  assumes "P db" "\<And>r db'. work db = Inr (r, db') \<Longrightarrow> P db'"
  shows "P (snd (edge_transaction d env work db))"
  using assms by (auto simp: edge_transaction_def split: option.splits sum.splits)

lemma edge_transaction_Inr:
  "edge_transaction d env work db = (Inr r, db') \<Longrightarrow> work db = Inr (r, db')"
  by (auto simp: edge_transaction_def split: if_splits option.splits sum.splits)

lemma edge_transaction_run:
  "db_sqlDB d \<Longrightarrow> tx_fault env = None \<Longrightarrow> tx_commit env = None \<Longrightarrow> work db = Inr (r, db') \<Longrightarrow>
    edge_transaction d env work db = (Inr r, db')"
  by (simp add: edge_transaction_def)

lemma edge_transaction_refused:
  "work db = Inl e \<Longrightarrow> \<exists>e'. edge_transaction d env work db = (Inl e', db)"
  by (auto simp: edge_transaction_def split: option.splits)

section \<open>Steps\<close>

inductive edge_step :: "EdgeDB \<Rightarrow> edge_db \<Rightarrow> edge_db \<Rightarrow> bool" for d where
  apply_delivery: "edge_step d db (snd (applyVerified d env delivery verdict reason p now allow db))"
| require: "edge_step d db (snd (RequireReconciliation d env i observed reason now db))"
| complete: "edge_step d db (snd (CompleteReconciliation d env i through high now db))"
| claim_front: "edge_step d db (snd (ClaimFrontDeliveries d env front owner ttl limit now db))"
| mark_front: "edge_step d db (snd (MarkFrontDelivered d env rc now db))"
| save_case: "edge_step d db (snd (SavePendingCase d env pending db))"
| mark_case: "edge_step d db (snd (MarkCaseAcceptedRemote d env accepted db))"
| save_advice: "edge_step d db (snd (SavePendingAdvice d env pending_advice db))"
| mark_advice: "edge_step d db (snd (MarkAdviceAcceptedRemote d env accepted_advice db))"
| bind_turn: "edge_step d db (snd (BindDispatcherTurn d env eventID request now retention ttl capacity db))"
| complete_turn: "edge_step d db (snd (CompleteDispatcherTurn d env eventID request result now claim db))"
| release_turn: "edge_step d db (snd (ReleaseDispatcherTurnClaim d env eventID request claim db))"
| abandon_turn: "edge_step d db (snd (AbandonDispatcherTurn d env eventID request claim db))"

inductive edge_run :: "EdgeDB \<Rightarrow> edge_db \<Rightarrow> edge_db \<Rightarrow> bool" for d where
  run_refl: "edge_run d db db"
| run_step: "edge_run d db db' \<Longrightarrow> edge_step d db' db'' \<Longrightarrow> edge_run d db db''"

abbreviation edge_reachable :: "EdgeDB \<Rightarrow> edge_db \<Rightarrow> bool" where
  "edge_reachable d db \<equiv> edge_run d edge_init db"

lemma edge_run_trans: "edge_run d b c \<Longrightarrow> edge_run d a b \<Longrightarrow> edge_run d a c"
  by (induction rule: edge_run.induct) (auto intro: edge_run.intros)

lemma edge_run_step1: "edge_step d db db' \<Longrightarrow> edge_run d db db'"
  by (auto intro: edge_run.intros)

section \<open>What the operations leave alone\<close>

text \<open>The spool and the turn guard touch their own tables only.\<close>

definition same_delivery_tables :: "edge_db \<Rightarrow> edge_db \<Rightarrow> bool" where
  "same_delivery_tables a b =
    (ssp_edge_delivery_state b = ssp_edge_delivery_state a \<and> ssp_edge_deliveries b = ssp_edge_deliveries a)"

definition same_projection_tables :: "edge_db \<Rightarrow> edge_db \<Rightarrow> bool" where
  "same_projection_tables a b =
    (ssp_edge_envelope_identity b = ssp_edge_envelope_identity a \<and> ssp_edge_cases b = ssp_edge_cases a
     \<and> ssp_edge_advice b = ssp_edge_advice a)"

lemma same_delivery_refl [simp]: "same_delivery_tables db db"
  by (simp add: same_delivery_tables_def)

lemma same_projection_refl [simp]: "same_projection_tables db db"
  by (simp add: same_projection_tables_def)

definition local_frame :: "edge_db \<Rightarrow> edge_db \<Rightarrow> bool" where
  "local_frame a b =
    (same_delivery_tables a b \<and> same_projection_tables a b \<and> ssp_edge_front_outbox b = ssp_edge_front_outbox a)"

lemma local_frame_refl [simp]: "local_frame db db"
  by (simp add: local_frame_def)

lemmas frame_defs = local_frame_def same_delivery_tables_def same_projection_tables_def

lemma spool_work_frame:
  "save_case_work d env pending db = Inr (r, db') \<Longrightarrow> local_frame db db'"
  "mark_case_work accepted db = Inr (r, db') \<Longrightarrow> local_frame db db'"
  "save_advice_work d env padvice db = Inr (r, db') \<Longrightarrow> local_frame db db'"
  "mark_advice_work aadvice db = Inr (r, db') \<Longrightarrow> local_frame db db'"
  by (auto simp: save_case_work_def mark_case_work_def save_advice_work_def mark_advice_work_def frame_defs
      split: sum.splits option.splits if_splits)

lemmas frame_transaction = edge_transaction_snd [where P = "local_frame db" for db, OF local_frame_refl]

lemma spool_frame:
  "local_frame db (snd (SavePendingCase d env pending db))"
  "local_frame db (snd (MarkCaseAcceptedRemote d env accepted db))"
  "local_frame db (snd (SavePendingAdvice d env padvice db))"
  "local_frame db (snd (MarkAdviceAcceptedRemote d env aadvice db))"
  by (auto simp: SavePendingCase_def MarkCaseAcceptedRemote_def SavePendingAdvice_def MarkAdviceAcceptedRemote_def
      split: option.splits intro: frame_transaction spool_work_frame)

definition turns_only :: "edge_db \<Rightarrow> edge_db \<Rightarrow> bool" where
  "turns_only a b = (\<exists>rows. b = a\<lparr>ssp_edge_dispatcher_turns := rows\<rparr>)"

lemma turns_only_refl [simp]: "turns_only db db"
  unfolding turns_only_def by (rule exI [of _ "ssp_edge_dispatcher_turns db"]) simp

lemma turns_only_update [simp]: "turns_only db (db\<lparr>ssp_edge_dispatcher_turns := rows\<rparr>)"
  by (auto simp: turns_only_def)

lemma turns_only_frame: "turns_only a b \<Longrightarrow> local_frame a b"
  by (auto simp: turns_only_def frame_defs)

lemma bind_pending_turns: "bind_pending env e now ttl r db = Inr (b, db') \<Longrightarrow> turns_only db db'"
  by (auto simp: bind_pending_def Let_def split: if_splits)

lemma bind_completed_turns: "bind_completed d e r db = Inr (b, db') \<Longrightarrow> db' = db"
  by (auto simp: bind_completed_def split: if_splits sum.splits)

lemma bind_turn_work_turns:
  "bind_turn_work d env e req now ret ttl cap db = Inr (b, db') \<Longrightarrow> turns_only db db'"
  by (auto simp: bind_turn_work_def Let_def prune_turns_def split: if_splits sum.splits option.splits
      dest!: bind_pending_turns bind_completed_turns) (auto simp: turns_only_def)

lemma complete_turn_work_turns:
  "complete_turn_work d env e req res now c db = Inr (b, db') \<Longrightarrow> turns_only db db'"
  by (auto simp: complete_turn_work_def split: if_splits sum.splits option.splits)

lemma update_claim_turns:
  "updatePendingDispatcherTurnClaim d e req c ab db = Inr (b, db') \<Longrightarrow> turns_only db db'"
  by (auto simp: updatePendingDispatcherTurnClaim_def split: if_splits sum.splits option.splits)

lemmas turns_transaction = edge_transaction_snd [where P = "turns_only db" for db, OF turns_only_refl]

lemma turn_ops_turns:
  "turns_only db (snd (BindDispatcherTurn d env e req now ret ttl cap db))"
  "turns_only db (snd (CompleteDispatcherTurn d env e req res now c db))"
  "turns_only db (snd (ReleaseDispatcherTurnClaim d env e req c db))"
  "turns_only db (snd (AbandonDispatcherTurn d env e req c db))"
  by (auto simp: BindDispatcherTurn_def CompleteDispatcherTurn_def ReleaseDispatcherTurnClaim_def
      AbandonDispatcherTurn_def
      intro: turns_transaction bind_turn_work_turns complete_turn_work_turns update_claim_turns)

lemmas turn_ops_frame = turn_ops_turns [THEN turns_only_frame]

text \<open>The front outbox operations touch the front outbox only.\<close>

definition front_only :: "edge_db \<Rightarrow> edge_db \<Rightarrow> bool" where
  "front_only a b = (\<exists>rows. b = a\<lparr>ssp_edge_front_outbox := rows\<rparr>)"

lemma front_only_refl [simp]: "front_only db db"
  unfolding front_only_def by (rule exI [of _ "ssp_edge_front_outbox db"]) simp

lemma front_only_trans: "front_only a b \<Longrightarrow> front_only b c \<Longrightarrow> front_only a c"
  by (auto simp: front_only_def)

lemma front_only_update [simp]: "front_only db (db\<lparr>ssp_edge_front_outbox := rows\<rparr>)"
  by (auto simp: front_only_def)

definition leasing :: "string \<Rightarrow> string \<Rightarrow> int \<Rightarrow> time \<Rightarrow> string \<Rightarrow> string \<Rightarrow> edge_db \<Rightarrow> edge_db" where
  "leasing front owner ttl now i token db =
    db\<lparr>ssp_edge_front_outbox :=
       update_rows (\<lambda>r. fo_front r = front \<and> fo_advice_id r = i \<and> front_free (sqlTime now) r)
         (front_lease owner (sqlTime (now + ttl)) token) (ssp_edge_front_outbox db)\<rparr>"

text \<open>What every single lease keeps, a claim keeps.\<close>

lemma claim_front_rows_keeps:
  assumes step: "\<And>db i token. P db \<Longrightarrow> P (leasing front owner ttl now i token db)"
  shows "P db \<Longrightarrow> claim_front_rows d env front owner ttl now sel n db = Inr (out, db') \<Longrightarrow> P db'"
proof (induction sel arbitrary: n db out)
  case (Cons x sel)
  obtain o' a where x: "x = (o', a)" by fastforce
  obtain out' where "claim_front_rows d env front owner ttl now sel (Suc n)
      (leasing front owner ttl now (fo_advice_id o') (claimToken env n) db) = Inr (out', db')"
    using Cons.prems(2) by (auto simp: x Let_def leasing_def split: if_splits sum.splits)
  then show ?case by (rule Cons.IH [OF step [OF Cons.prems(1)]])
qed simp

lemma claim_front_rows_front:
  "claim_front_rows d env front owner ttl now sel n db = Inr (out, db') \<Longrightarrow> front_only db db'"
  by (rule claim_front_rows_keeps [where P = "front_only db" and front = front and owner = owner and ttl = ttl and now = now])
    (auto intro: front_only_trans simp: leasing_def)

lemma mark_front_work_front: "mark_front_work rc now db = Inr (r, db') \<Longrightarrow> front_only db db'"
  by (auto simp: mark_front_work_def split: option.splits if_splits)

lemmas front_transaction = edge_transaction_snd [where P = "front_only db" for db, OF front_only_refl]

lemma front_ops_front:
  "front_only db (snd (ClaimFrontDeliveries d env front owner ttl limit now db))"
  "front_only db (snd (MarkFrontDelivered d env rc now db))"
  by (auto simp: ClaimFrontDeliveries_def MarkFrontDelivered_def
      intro: front_transaction claim_front_rows_front mark_front_work_front)

lemma front_only_frame: "front_only a b \<Longrightarrow> same_delivery_tables a b \<and> same_projection_tables a b"
  by (auto simp: front_only_def frame_defs)

section \<open>The log invariant\<close>

definition log_of :: "edge_key \<Rightarrow> edge_db \<Rightarrow> edge_delivery_row list" where
  "log_of key db = filter (\<lambda>r. dl_key r = key) (ssp_edge_deliveries db)"

definition last_seq :: "edge_key \<Rightarrow> edge_db \<Rightarrow> int" where
  "last_seq key db = (case ssp_edge_delivery_state db key of None \<Rightarrow> 0 | Some r \<Rightarrow> st_last_contiguous_seq r)"

definition halted_key :: "edge_key \<Rightarrow> edge_db \<Rightarrow> bool" where
  "halted_key key db =
    (case ssp_edge_delivery_state db key of None \<Rightarrow> False
     | Some r \<Rightarrow> st_mode r = DeliveryModeReconciliationRequired)"

definition state_ok :: "state_row \<Rightarrow> bool" where
  "state_ok r =
    (0 \<le> st_last_contiguous_seq r \<and> st_last_contiguous_seq r \<le> st_high_watermark r
     \<and> (st_mode r = DeliveryModeActive \<or> st_mode r = DeliveryModeReconciliationRequired))"

definition log_inv :: "edge_db \<Rightarrow> bool" where
  "log_inv db =
    (\<forall>key. map dl_delivery_seq (log_of key db) = [1..last_seq key db]
       \<and> (\<forall>r. ssp_edge_delivery_state db key = Some r \<longrightarrow> state_ok r))"

lemma log_invI:
  "(\<And>key. map dl_delivery_seq (log_of key db) = [1..last_seq key db]) \<Longrightarrow>
   (\<And>key r. ssp_edge_delivery_state db key = Some r \<Longrightarrow> state_ok r) \<Longrightarrow> log_inv db"
  unfolding log_inv_def by blast

lemma log_invD:
  assumes "log_inv db"
  shows "map dl_delivery_seq (log_of key db) = [1..last_seq key db]"
    and "ssp_edge_delivery_state db key = Some r \<Longrightarrow> state_ok r"
  using assms unfolding log_inv_def by blast+

lemma log_inv_init: "log_inv edge_init"
  by (simp add: log_inv_def log_of_def last_seq_def edge_init_def)

lemma last_seq_nonneg: "log_inv db \<Longrightarrow> 0 \<le> last_seq key db"
  using log_invD(2) [of db key] by (auto simp: last_seq_def state_ok_def split: option.splits)

lemma log_of_cong: "same_delivery_tables a b \<Longrightarrow> log_of key b = log_of key a \<and> last_seq key b = last_seq key a"
  by (simp add: same_delivery_tables_def log_of_def last_seq_def)

lemma log_inv_cong: "same_delivery_tables a b \<Longrightarrow> log_inv a \<Longrightarrow> log_inv b"
  by (simp add: log_inv_def log_of_cong) (simp add: same_delivery_tables_def)

text \<open>A row is found exactly when its sequence has been passed.\<close>

lemma find_delivery_iff:
  assumes "log_inv db"
  shows "(\<exists>r. find_delivery key seq db = Some r) \<longleftrightarrow> 1 \<le> seq \<and> seq \<le> last_seq key db"
proof -
  have "(\<exists>r. find_delivery key seq db = Some r) \<longleftrightarrow> seq \<in> set (map dl_delivery_seq (log_of key db))"
    by (auto simp: find_delivery_def log_of_def find_None_iff not_None_eq [symmetric] simp del: not_None_eq)
  also have "\<dots> \<longleftrightarrow> seq \<in> {1..last_seq key db}" by (simp only: log_invD(1) [OF assms] set_upto)
  finally show ?thesis by simp
qed

lemma find_delivery_None:
  "log_inv db \<Longrightarrow> find_delivery key seq db = None \<longleftrightarrow> seq < 1 \<or> last_seq key db < seq"
  using find_delivery_iff [of db key seq] by (cases "find_delivery key seq db") auto

lemma find_delivery_Some_in:
  "find_delivery key seq db = Some r \<Longrightarrow> r \<in> set (log_of key db) \<and> dl_delivery_seq r = seq \<and> dl_key r = key"
  by (auto simp: find_delivery_def log_of_def find_Some_iff)

section \<open>Effect of each writer on the log\<close>

lemma require_state:
  "ssp_edge_delivery_state (requireReconciliationTx st observed reason now db)
    = (ssp_edge_delivery_state db)(identity_key (gs_Identity st) \<mapsto>
        (case ssp_edge_delivery_state db (identity_key (gs_Identity st)) of
           None \<Rightarrow> \<lparr>st_last_contiguous_seq = gs_LastContiguousSeq st,
                    st_high_watermark = max observed (gs_HighWatermark st),
                    st_mode = ''reconciliation_required'', st_reason = reason, st_updated_at = sqlTime now\<rparr>
         | Some r \<Rightarrow> r\<lparr>st_high_watermark := max (st_high_watermark r) (max observed (gs_HighWatermark st)),
                      st_mode := ''reconciliation_required'', st_reason := reason, st_updated_at := sqlTime now\<rparr>))"
  by (simp add: requireReconciliationTx_def Let_def max_def split: option.splits)

lemma require_tables:
  "ssp_edge_deliveries (requireReconciliationTx st observed reason now db) = ssp_edge_deliveries db"
  "same_projection_tables db (requireReconciliationTx st observed reason now db)"
  "ssp_edge_front_outbox (requireReconciliationTx st observed reason now db) = ssp_edge_front_outbox db"
  by (simp_all add: requireReconciliationTx_def Let_def same_projection_tables_def)

definition state_at :: "EdgeIdentity \<Rightarrow> edge_db \<Rightarrow> GenerationDeliveryState" where
  "state_at i db =
    (case deliveryStateTx i db of
       (s, exists) \<Rightarrow> if exists then s else (zero_state i)\<lparr>gs_Mode := DeliveryModeActive\<rparr>)"

lemma state_at_simps:
  "gs_Identity (state_at i db) = i"
  "gs_LastContiguousSeq (state_at i db) = last_seq (identity_key i) db"
  "(gs_Mode (state_at i db) = DeliveryModeReconciliationRequired) = halted_key (identity_key i) db"
  by (auto simp: state_at_def deliveryStateTx_def zero_state_def state_of_row_def last_seq_def halted_key_def
      split: option.splits)

text \<open>A halt keeps every log and every counter, and marks the incarnation.\<close>

lemma require_log:
  assumes "gs_LastContiguousSeq st = last_seq (identity_key (gs_Identity st)) db"
  shows "log_of key (requireReconciliationTx st observed reason now db) = log_of key db"
    and "last_seq key (requireReconciliationTx st observed reason now db) = last_seq key db"
    and "halted_key key (requireReconciliationTx st observed reason now db)
      = (key = identity_key (gs_Identity st) \<or> halted_key key db)"
  using assms
  by (auto simp: log_of_def last_seq_def halted_key_def require_state require_tables split: option.splits)

lemma require_log_inv:
  assumes inv: "log_inv db" and st: "gs_LastContiguousSeq st = last_seq (identity_key (gs_Identity st)) db"
    and high: "ssp_edge_delivery_state db (identity_key (gs_Identity st)) = None \<Longrightarrow> 0 \<le> gs_HighWatermark st"
  shows "log_inv (requireReconciliationTx st observed reason now db)"
proof (rule log_invI)
  fix key
  show "map dl_delivery_seq (log_of key (requireReconciliationTx st observed reason now db))
      = [1..last_seq key (requireReconciliationTx st observed reason now db)]"
    using log_invD(1) [OF inv] by (simp add: require_log [OF st])
next
  fix key r
  assume r: "ssp_edge_delivery_state (requireReconciliationTx st observed reason now db) key = Some r"
  show "state_ok r"
  proof (cases "key = identity_key (gs_Identity st)")
    case True
    with r high st log_invD(2) [OF inv, of key] show ?thesis
      by (cases "ssp_edge_delivery_state db key") (auto simp: require_state last_seq_def state_ok_def max_def)
  next
    case False
    with r log_invD(2) [OF inv] show ?thesis by (simp add: require_state)
  qed
qed

lemma advance_tables:
  "ssp_edge_deliveries (advanceDeliveryStateTx i ex seq now db) = ssp_edge_deliveries db"
  "same_projection_tables db (advanceDeliveryStateTx i ex seq now db)"
  "ssp_edge_front_outbox (advanceDeliveryStateTx i ex seq now db) = ssp_edge_front_outbox db"
  by (simp_all add: advanceDeliveryStateTx_def Let_def same_projection_tables_def split: option.splits)

lemma advance_state:
  assumes "ex = (ssp_edge_delivery_state db (identity_key i) \<noteq> None)"
  shows "last_seq key (advanceDeliveryStateTx i ex seq now db) = (if key = identity_key i then seq else last_seq key db)"
    and "halted_key key (advanceDeliveryStateTx i ex seq now db) = halted_key key db"
  using assms by (auto simp: advanceDeliveryStateTx_def Let_def last_seq_def halted_key_def split: option.splits)

lemma advance_state_ok:
  assumes "ex = (ssp_edge_delivery_state db (identity_key i) \<noteq> None)" "0 \<le> seq"
    and "\<And>key r. ssp_edge_delivery_state db key = Some r \<Longrightarrow> state_ok r"
    and "ssp_edge_delivery_state (advanceDeliveryStateTx i ex seq now db) key = Some r"
  shows "state_ok r"
proof (cases "key = identity_key i")
  case True
  with assms(1,2,4) assms(3) [of key] show ?thesis
    by (cases "ssp_edge_delivery_state db key") (auto simp: advanceDeliveryStateTx_def Let_def state_ok_def max_def)
next
  case False
  with assms(1,4) have "ssp_edge_delivery_state db key = Some r"
    by (auto simp: advanceDeliveryStateTx_def Let_def split: if_splits option.splits)
  then show ?thesis by (rule assms(3))
qed

text \<open>Identity claims and projections leave the delivery tables alone.\<close>

lemma claimIdentity_tables: "same_delivery_tables db (snd (claimIdentity i c d now db))"
  by (simp add: claimIdentity_def quarantine_projection_def Let_def same_delivery_tables_def split: option.splits)

lemma insert_rows_tables:
  "insert_edge_case r db = Inr db' \<Longrightarrow> same_delivery_tables db db'"
  "insert_edge_advice a db = Inr db' \<Longrightarrow> same_delivery_tables db db'"
  "insert_front f i now db = Inr db' \<Longrightarrow> same_delivery_tables db db'"
  by (auto simp: insert_edge_case_def insert_edge_advice_def insert_front_def same_delivery_tables_def
      split: if_splits)

lemma same_delivery_trans: "same_delivery_tables a b \<Longrightarrow> same_delivery_tables b c \<Longrightarrow> same_delivery_tables a c"
  by (simp add: same_delivery_tables_def)

lemma persistProjection_tables: "persistProjection d env p now db = Inr db' \<Longrightarrow> same_delivery_tables db db'"
  by (auto simp: persistProjection_def persist_case_def persist_advice_def
      split: if_splits option.splits sum.splits
      dest!: insert_rows_tables intro: same_delivery_trans)

lemma settle_tables:
  assumes "settle_delivery d env dl v rsn p now db = Inr (o', db')"
  shows "same_delivery_tables db db'"
proof (cases "v = VerdictAccepted")
  case True
  with assms obtain pr where p: "p = Some pr" by (auto simp: settle_delivery_def split: option.splits)
  obtain state db1 where c: "claimIdentity (vp_EnvelopeID pr) (vp_Commitment pr) dl now db = (state, db1)" by fastforce
  have 1: "same_delivery_tables db db1" using claimIdentity_tables [of db] c by (metis snd_conv)
  have "db' = db1 \<or> persistProjection d env pr now db1 = Inr db'"
    using assms True by (auto simp: settle_delivery_def p c split: if_splits sum.splits)
  then show ?thesis using 1 persistProjection_tables same_delivery_trans by blast
qed (use assms in \<open>auto simp: settle_delivery_def\<close>)

section \<open>Applying a delivery\<close>

lemma next_sequence:
  assumes "n < seq" "0 \<le> n" "seq = wrap64 (n + 1)"
  shows "seq = n + 1"
proof -
  have "wrap64 (n + 1) \<le> n + 1"
    using assms(2) zmod_le_nonneg_dividend [of "n + 1 + 9223372036854775808" 18446744073709551616]
    by (simp add: wrap64_def)
  with assms show ?thesis by simp
qed

text \<open>The ways a delivery can go: replayed, halting, or recorded as the next one.\<close>

lemma applyVerified_work_cases [consumes 3, case_names replay halt recorded]:
  fixes key dl
  defines "key \<equiv> identity_key (delivery_identity dl)"
  assumes inv: "log_inv db" and seq: "0 < jd_DeliverySeq dl"
    and work: "applyVerified_work d env dl v rsn p now allow db = Inr (outcome, db')"
  obtains (replay) r where "outcome = ApplyDuplicate" "db' = db" "jd_DeliverySeq dl \<le> last_seq key db"
      "find_delivery key (jd_DeliverySeq dl) db = Some r" "same_evidence r dl"
  | (halt) reason where "outcome = ApplyIdentityConflict \<or> outcome = ApplyReconciliationRequired"
      "db' = requireReconciliationTx (state_at (delivery_identity dl) db) (jd_DeliverySeq dl) reason now db"
      "outcome = ApplyIdentityConflict \<longrightarrow>
        (\<exists>r. find_delivery key (jd_DeliverySeq dl) db = Some r \<and> \<not> same_evidence r dl)"
      "outcome = ApplyReconciliationRequired \<longrightarrow>
        last_seq key db < jd_DeliverySeq dl \<and> (jd_DeliverySeq dl \<noteq> wrap64 (last_seq key db + 1) \<or> halted_key key db \<and> \<not> allow)"
  | (recorded) v' rsn' db1 where "jd_DeliverySeq dl = last_seq key db + 1" "halted_key key db \<longrightarrow> allow"
      "settle_delivery d env dl v rsn p now db = Inr ((outcome, v', rsn'), db1)"
      "jd_Sequence dl < 2 ^ 63"
      "db' = advanceDeliveryStateTx (delivery_identity dl) (ssp_edge_delivery_state db key \<noteq> None) (jd_DeliverySeq dl) now
          (db1\<lparr>ssp_edge_deliveries := ssp_edge_deliveries db1 @ [delivery_row_of dl p v' rsn' now]\<rparr>)"
proof -
  let ?i = "delivery_identity dl" and ?seq = "jd_DeliverySeq dl" and ?last = "last_seq key db"
  obtain s ex where st: "deliveryStateTx ?i db = (s, ex)" by fastforce
  have ex: "ex = (ssp_edge_delivery_state db key \<noteq> None)"
    using st by (auto simp: deliveryStateTx_def key_def split: option.splits)
  define state where "state = state_at ?i db"
  have state: "(if ex then s else (zero_state ?i)\<lparr>gs_Mode := DeliveryModeActive\<rparr>) = state"
    by (simp add: state_def state_at_def st)
  have last: "gs_LastContiguousSeq state = ?last" and mode: "(gs_Mode state = DeliveryModeReconciliationRequired) = halted_key key db"
    by (simp_all add: state_def state_at_simps key_def)
  note w = work [unfolded applyVerified_work_def Let_def st prod.case state last mode haltAndCommitTx_def, folded key_def]
  show thesis
  proof (cases "?seq \<le> ?last")
    case True
    then obtain r where r: "find_delivery key ?seq db = Some r" using find_delivery_iff [OF inv] seq by fastforce
    show thesis
    proof (cases "same_evidence r dl")
      case True
      with w r \<open>?seq \<le> ?last\<close> have "outcome = ApplyDuplicate" "db' = db" by auto
      then show thesis using replay r True \<open>?seq \<le> ?last\<close> by blast
    next
      case False
      with w r \<open>?seq \<le> ?last\<close> have "outcome = ApplyIdentityConflict"
        "db' = requireReconciliationTx state ?seq ''delivery_identity_conflict'' now db" by auto
      then show thesis using halt [of "''delivery_identity_conflict''"] r False by (auto simp: state_def)
    qed
  next
    case late: False
    then have none: "find_delivery key ?seq db = None" using find_delivery_None [OF inv] by simp
    show thesis
    proof (cases "?seq \<noteq> wrap64 (?last + 1) \<or> halted_key key db \<and> \<not> allow")
      case True
      with w late have "outcome = ApplyReconciliationRequired"
        "db' = requireReconciliationTx state ?seq ''delivery_sequence_gap'' now db" by auto
      then show thesis using halt [of "''delivery_sequence_gap''"] late True by (auto simp: state_def)
    next
      case False
      then have nxt: "?seq = ?last + 1" using next_sequence [of ?last ?seq] late last_seq_nonneg [OF inv] by simp
      from w late False none obtain v' rsn' db1 db2 where s: "settle_delivery d env dl v rsn p now db = Inr ((outcome, v', rsn'), db1)"
        and i: "insert_delivery (delivery_row_of dl p v' rsn' now) db1 = Inr db2"
        and "db' = advanceDeliveryStateTx ?i ex ?seq now db2"
        by (auto split: sum.splits)
      then show thesis using recorded [OF nxt _ s] False
        by (auto simp: ex insert_delivery_def delivery_row_of_def split: if_splits)
    qed
  qed
qed

lemma state_at_high: "ssp_edge_delivery_state db (identity_key i) = None \<Longrightarrow> gs_HighWatermark (state_at i db) = 0"
  by (simp add: state_at_def deliveryStateTx_def zero_state_def)

lemma deliveryStateTx_simps:
  "gs_Identity (fst (deliveryStateTx i db)) = i"
  "gs_LastContiguousSeq (fst (deliveryStateTx i db)) = last_seq (identity_key i) db"
  "ssp_edge_delivery_state db (identity_key i) = None \<Longrightarrow> gs_HighWatermark (fst (deliveryStateTx i db)) = 0"
  by (auto simp: deliveryStateTx_def zero_state_def state_of_row_def last_seq_def split: option.splits)

lemma recorded_log:
  fixes dl
  defines "key \<equiv> identity_key (delivery_identity dl)"
  assumes tables: "same_delivery_tables db db1"
    and db': "db' = advanceDeliveryStateTx (delivery_identity dl) (ssp_edge_delivery_state db key \<noteq> None) (jd_DeliverySeq dl) now
          (db1\<lparr>ssp_edge_deliveries := ssp_edge_deliveries db1 @ [row]\<rparr>)"
    and row: "dl_key row = key"
  shows "log_of k db' = log_of k db @ (if k = key then [row] else [])"
    and "last_seq k db' = (if k = key then jd_DeliverySeq dl else last_seq k db)"
    and "halted_key k db' = halted_key k db"
    and "(\<And>key r. ssp_edge_delivery_state db key = Some r \<Longrightarrow> state_ok r) \<Longrightarrow> 0 \<le> jd_DeliverySeq dl \<Longrightarrow>
      ssp_edge_delivery_state db' k = Some r \<Longrightarrow> state_ok r"
proof -
  let ?db = "db1\<lparr>ssp_edge_deliveries := ssp_edge_deliveries db1 @ [row]\<rparr>"
  have st: "ssp_edge_delivery_state ?db = ssp_edge_delivery_state db" and dl: "ssp_edge_deliveries db1 = ssp_edge_deliveries db"
    using tables by (simp_all add: same_delivery_tables_def)
  have ex: "(ssp_edge_delivery_state db key \<noteq> None) = (ssp_edge_delivery_state ?db (identity_key (delivery_identity dl)) \<noteq> None)"
    by (simp only: st key_def)
  show "log_of k db' = log_of k db @ (if k = key then [row] else [])"
    by (auto simp: db' log_of_def advance_tables dl row)
  show "last_seq k db' = (if k = key then jd_DeliverySeq dl else last_seq k db)"
    unfolding db' advance_state(1) [OF ex] by (simp add: key_def last_seq_def st)
  show "halted_key k db' = halted_key k db"
    unfolding db' advance_state(2) [OF ex] by (simp add: halted_key_def st)
  assume ok: "\<And>key r. ssp_edge_delivery_state db key = Some r \<Longrightarrow> state_ok r" and "0 \<le> jd_DeliverySeq dl"
    "ssp_edge_delivery_state db' k = Some r"
  then show "state_ok r"
    using advance_state_ok [OF ex, of "jd_DeliverySeq dl" now k r] by (simp add: db' st)
qed

definition log_extends :: "edge_db \<Rightarrow> edge_db \<Rightarrow> bool" where
  "log_extends a b = (\<forall>key. \<exists>rows. log_of key b = log_of key a @ rows)"

lemma log_extends_refl [simp]: "log_extends db db"
  by (simp add: log_extends_def)

lemma log_extends_trans: "log_extends a b \<Longrightarrow> log_extends b c \<Longrightarrow> log_extends a c"
  unfolding log_extends_def by (metis append.assoc)

lemma log_extends_same: "(\<And>key. log_of key b = log_of key a) \<Longrightarrow> log_extends a b"
  by (simp add: log_extends_def)

lemma delivery_row_of_simps [simp]:
  "dl_key (delivery_row_of dl p v rsn now) = identity_key (delivery_identity dl)"
  "dl_delivery_seq (delivery_row_of dl p v rsn now) = jd_DeliverySeq dl"
  "dl_raw_sha256 (delivery_row_of dl p v rsn now) = hash (jd_Raw dl)"
  "dl_subject (delivery_row_of dl p v rsn now) = jd_Subject dl"
  by (simp_all add: delivery_row_of_def)

lemma applyVerified_work_log:
  assumes inv: "log_inv db" and seq: "0 < jd_DeliverySeq dl"
    and work: "applyVerified_work d env dl v rsn p now allow db = Inr (outcome, db')"
  shows "log_inv db' \<and> log_extends db db'"
  using inv seq work
proof (cases rule: applyVerified_work_cases)
  case (replay r)
  then show ?thesis using inv by simp
next
  case (halt reason)
  have st: "gs_LastContiguousSeq (state_at (delivery_identity dl) db)
      = last_seq (identity_key (gs_Identity (state_at (delivery_identity dl) db))) db"
    by (simp add: state_at_simps)
  have "log_inv db'" unfolding halt(2)
    by (rule require_log_inv [OF inv st]) (simp add: state_at_simps state_at_high)
  then show ?thesis by (simp add: halt(2) require_log [OF st] log_extends_same)
next
  case (recorded v' rsn' db1)
  note log = recorded_log [OF settle_tables [OF recorded(3)] recorded(5), simplified]
  have "log_inv db'"
  proof (rule log_invI)
    fix key
    show "map dl_delivery_seq (log_of key db') = [1..last_seq key db']"
      using log_invD(1) [OF inv, of key] last_seq_nonneg [OF inv, of key] recorded(1)
      by (auto simp: log upto_rec2)
  next
    fix key r
    assume "ssp_edge_delivery_state db' key = Some r"
    then show "state_ok r" using log(4) log_invD(2) [OF inv] seq by fastforce
  qed
  moreover have "log_extends db db'" by (auto simp: log_extends_def log)
  ultimately show ?thesis by blast
qed

lemma applyVerified_log:
  assumes "log_inv db"
  shows "log_inv (snd (applyVerified d env dl v rsn p now allow db))
    \<and> log_extends db (snd (applyVerified d env dl v rsn p now allow db))"
proof (cases "validateDelivery dl v rsn p now = None \<and> jd_TenantID dl = db_tenant d")
  case True
  then have "0 < jd_DeliverySeq dl" by (auto simp: validateDelivery_def split: if_splits)
  then have "log_inv (snd (edge_transaction d env (applyVerified_work d env dl v rsn p now allow) db))
      \<and> log_extends db (snd (edge_transaction d env (applyVerified_work d env dl v rsn p now allow) db))"
    using assms applyVerified_work_log
    by (intro edge_transaction_snd [where P = "\<lambda>x. log_inv x \<and> log_extends db x"]) auto
  then show ?thesis using True by (simp add: applyVerified_def)
qed (use assms in \<open>auto simp: applyVerified_def split: option.splits\<close>)

lemma require_step_log:
  assumes "log_inv db"
  shows "log_inv (snd (RequireReconciliation d env i observed reason now db))
    \<and> log_extends db (snd (RequireReconciliation d env i observed reason now db))"
proof -
  let ?r = "requireReconciliationTx (fst (deliveryStateTx i db)) observed reason now db"
  have st: "gs_LastContiguousSeq (fst (deliveryStateTx i db)) = last_seq (identity_key (gs_Identity (fst (deliveryStateTx i db)))) db"
    by (simp add: deliveryStateTx_simps)
  have "log_inv ?r" by (rule require_log_inv [OF assms st]) (simp add: deliveryStateTx_simps)
  moreover have "log_extends db ?r" by (simp add: require_log [OF st] log_extends_same)
  ultimately have "log_inv (snd (edge_transaction d env (\<lambda>db. Inr ((), requireReconciliationTx (fst (deliveryStateTx i db)) observed reason now db)) db))
    \<and> log_extends db (snd (edge_transaction d env (\<lambda>db. Inr ((), requireReconciliationTx (fst (deliveryStateTx i db)) observed reason now db)) db))"
    using assms by (intro edge_transaction_snd [where P = "\<lambda>x. log_inv x \<and> log_extends db x"]) auto
  then show ?thesis using assms by (auto simp: RequireReconciliation_def split: option.splits)
qed

lemma complete_effect:
  assumes "CompleteReconciliation d env i through high now db = (res, db')"
  shows "db' = db \<or> (\<exists>r. ssp_edge_delivery_state db (identity_key i) = Some r \<and> halted_key (identity_key i) db
    \<and> last_seq (identity_key i) db = through \<and> through = high \<and> st_high_watermark r = high
    \<and> db' = db\<lparr>ssp_edge_delivery_state := (ssp_edge_delivery_state db)(identity_key i \<mapsto>
        r\<lparr>st_mode := ''active'', st_reason := [], st_updated_at := sqlTime now\<rparr>)\<rparr>)"
  using assms
  by (auto simp: CompleteReconciliation_def edge_transaction_def halted_key_def last_seq_def
      split: option.splits if_splits sum.splits)

lemma complete_step_log:
  assumes "log_inv db"
  shows "log_inv (snd (CompleteReconciliation d env i through high now db))
    \<and> log_extends db (snd (CompleteReconciliation d env i through high now db))"
proof -
  obtain res db' where c: "CompleteReconciliation d env i through high now db = (res, db')" by fastforce
  from complete_effect [OF c] show ?thesis
  proof
    assume "db' = db"
    then show ?thesis using assms c by simp
  next
    assume "\<exists>r. ssp_edge_delivery_state db (identity_key i) = Some r \<and> halted_key (identity_key i) db
      \<and> last_seq (identity_key i) db = through \<and> through = high \<and> st_high_watermark r = high
      \<and> db' = db\<lparr>ssp_edge_delivery_state := (ssp_edge_delivery_state db)(identity_key i \<mapsto>
          r\<lparr>st_mode := ''active'', st_reason := [], st_updated_at := sqlTime now\<rparr>)\<rparr>"
    then obtain r where r: "ssp_edge_delivery_state db (identity_key i) = Some r"
      and db': "db' = db\<lparr>ssp_edge_delivery_state := (ssp_edge_delivery_state db)(identity_key i \<mapsto>
          r\<lparr>st_mode := ''active'', st_reason := [], st_updated_at := sqlTime now\<rparr>)\<rparr>" by blast
    have log: "log_of key db' = log_of key db" "last_seq key db' = last_seq key db" for key
      using r by (auto simp: db' log_of_def last_seq_def)
    have "log_inv db'"
    proof (rule log_invI)
      show "map dl_delivery_seq (log_of key db') = [1..last_seq key db']" for key
        using log_invD(1) [OF assms] by (simp add: log)
      show "state_ok r'" if "ssp_edge_delivery_state db' key = Some r'" for key r'
        using that log_invD(2) [OF assms] log_invD(2) [OF assms r] by (auto simp: db' state_ok_def split: if_splits)
    qed
    then show ?thesis by (simp add: c log_extends_same log)
  qed
qed

lemma local_frame_delivery: "local_frame a b \<Longrightarrow> same_delivery_tables a b"
  by (simp add: local_frame_def)

lemmas delivery_tables_kept =
  front_ops_front [THEN front_only_frame, THEN conjunct1]
  spool_frame [THEN local_frame_delivery]
  turn_ops_frame [THEN local_frame_delivery]

lemma edge_step_log:
  assumes "edge_step d db db'" "log_inv db"
  shows "log_inv db' \<and> log_extends db db'"
proof -
  have "log_inv b \<and> log_extends db b" if "same_delivery_tables db b" for b
    using that assms(2) log_inv_cong log_of_cong by (blast intro: log_extends_same)
  note frame = this [OF delivery_tables_kept(1)] this [OF delivery_tables_kept(2)] this [OF delivery_tables_kept(3)]
    this [OF delivery_tables_kept(4)] this [OF delivery_tables_kept(5)] this [OF delivery_tables_kept(6)]
    this [OF delivery_tables_kept(7)] this [OF delivery_tables_kept(8)] this [OF delivery_tables_kept(9)]
    this [OF delivery_tables_kept(10)]
  from assms(1) show ?thesis
    by (cases rule: edge_step.cases)
      (simp_all only: frame applyVerified_log [OF assms(2)] require_step_log [OF assms(2)] complete_step_log [OF assms(2)] simp_thms)
qed

lemma edge_run_log:
  assumes "edge_run d db db'" "log_inv db"
  shows "log_inv db' \<and> log_extends db db'"
  using assms by (induction rule: edge_run.induct) (auto dest: edge_step_log intro: log_extends_trans)

lemma reachable_log_inv: "edge_reachable d db \<Longrightarrow> log_inv db"
  using edge_run_log log_inv_init by blast

end
