(* ===== verification/Edge_Projection.thy ===== *)
theory Edge_Projection
  imports Edge_Log
begin

text \<open>
  The projection the edge shows: every stored case and advice carries the commitment claimed for its
  envelope, is quarantined exactly when that envelope is, and the front outbox follows its advice.
\<close>

section \<open>Invariant\<close>

definition claimed_by :: "edge_db \<Rightarrow> string \<Rightarrow> string \<Rightarrow> string \<Rightarrow> bool" where
  "claimed_by db envelope commitment state =
    (\<exists>r. ssp_edge_envelope_identity db envelope = Some r \<and> ir_commitment r = commitment \<and> ir_state r = state)"

definition answers_case :: "edge_advice_row \<Rightarrow> edge_case_row \<Rightarrow> bool" where
  "answers_case a c =
    (ec_case_id c = ea_case_id a \<and> ec_commitment c = ea_case_commitment a \<and> ec_issuer_edge_id c = ea_issuer_edge_id a
     \<and> ec_issuer_edge_generation c = ea_issuer_edge_generation a \<and> ec_source_token c = ea_route_token a
     \<and> ec_routing_epoch c = ea_routing_epoch a \<and> ec_registry_revision c = ea_registry_revision a
     \<and> ec_registry_hash c = ea_registry_hash a)"

definition known_state :: "string \<Rightarrow> bool" where
  "known_state s = (s = ''accepted'' \<or> s = ''quarantined'')"

definition case_ok :: "edge_db \<Rightarrow> edge_case_row \<Rightarrow> bool" where
  "case_ok db c = (known_state (ec_state c) \<and> claimed_by db (ec_envelope_id c) (ec_commitment c) (ec_state c))"

definition advice_ok :: "edge_db \<Rightarrow> edge_advice_row \<Rightarrow> bool" where
  "advice_ok db a =
    (known_state (ea_state a) \<and> claimed_by db (ea_envelope_id a) (ea_commitment a) (ea_state a)
     \<and> (\<exists>c \<in> set (ssp_edge_cases db). answers_case a c)
     \<and> (\<forall>front \<in> {FrontCLI, FrontAMQ}. \<exists>o' \<in> set (ssp_edge_front_outbox db).
          fo_front o' = front \<and> fo_advice_id o' = ea_advice_id a))"

definition front_ok :: "edge_db \<Rightarrow> front_row \<Rightarrow> bool" where
  "front_ok db o' =
    (fo_message_id o' = front_message_id (fo_front o') (fo_advice_id o')
     \<and> (fo_front o' = FrontCLI \<or> fo_front o' = FrontAMQ)
     \<and> (\<exists>a \<in> set (ssp_edge_advice db). ea_advice_id a = fo_advice_id o'
          \<and> (ea_state a = ''quarantined'') = (fo_state o' = ''quarantined'')))"

definition front_key :: "front_row \<Rightarrow> string \<times> string" where
  "front_key o' = (fo_front o', fo_advice_id o')"

definition proj_inv :: "edge_db \<Rightarrow> bool" where
  "proj_inv db =
    (list_all (case_ok db) (ssp_edge_cases db) \<and> list_all (advice_ok db) (ssp_edge_advice db)
     \<and> list_all (front_ok db) (ssp_edge_front_outbox db)
     \<and> distinct (map ec_case_id (ssp_edge_cases db)) \<and> distinct (map ea_advice_id (ssp_edge_advice db))
     \<and> distinct (map front_key (ssp_edge_front_outbox db)))"

lemma proj_inv_init: "proj_inv edge_init"
  by (simp add: proj_inv_def edge_init_def)

lemma proj_invD:
  assumes "proj_inv db"
  shows "c \<in> set (ssp_edge_cases db) \<Longrightarrow> case_ok db c"
    and "a \<in> set (ssp_edge_advice db) \<Longrightarrow> advice_ok db a"
    and "o' \<in> set (ssp_edge_front_outbox db) \<Longrightarrow> front_ok db o'"
    and "distinct (map ec_case_id (ssp_edge_cases db))" "distinct (map ea_advice_id (ssp_edge_advice db))"
    and "distinct (map front_key (ssp_edge_front_outbox db))"
  using assms by (auto simp: proj_inv_def list_all_iff)

lemma proj_invI:
  assumes "\<And>c. c \<in> set (ssp_edge_cases db) \<Longrightarrow> case_ok db c"
    and "\<And>a. a \<in> set (ssp_edge_advice db) \<Longrightarrow> advice_ok db a"
    and "\<And>o'. o' \<in> set (ssp_edge_front_outbox db) \<Longrightarrow> front_ok db o'"
    and "distinct (map ec_case_id (ssp_edge_cases db))" "distinct (map ea_advice_id (ssp_edge_advice db))"
    and "distinct (map front_key (ssp_edge_front_outbox db))"
  shows "proj_inv db"
  using assms by (simp add: proj_inv_def list_all_iff)

definition same_shown :: "edge_db \<Rightarrow> edge_db \<Rightarrow> bool" where
  "same_shown a b = (same_projection_tables a b \<and> ssp_edge_front_outbox b = ssp_edge_front_outbox a)"

lemma proj_inv_cong: "same_shown a b \<Longrightarrow> proj_inv a \<Longrightarrow> proj_inv b"
  by (simp add: proj_inv_def same_shown_def same_projection_tables_def case_ok_def [abs_def]
      advice_ok_def [abs_def] front_ok_def [abs_def] claimed_by_def [abs_def])

section \<open>Claiming an identity\<close>

definition quarantined_case :: "string \<Rightarrow> edge_case_row \<Rightarrow> edge_case_row" where
  "quarantined_case i c = (if ec_envelope_id c = i then c\<lparr>ec_state := ''quarantined''\<rparr> else c)"

definition quarantined_advice :: "string \<Rightarrow> edge_advice_row \<Rightarrow> edge_advice_row" where
  "quarantined_advice i a = (if ea_envelope_id a = i then a\<lparr>ea_state := ''quarantined''\<rparr> else a)"

definition quarantined_front :: "string \<Rightarrow> edge_db \<Rightarrow> front_row \<Rightarrow> front_row" where
  "quarantined_front i db o' =
    (if \<exists>a \<in> set (ssp_edge_advice db). ea_envelope_id a = i \<and> ea_advice_id a = fo_advice_id o'
     then o'\<lparr>fo_state := ''quarantined''\<rparr> else o')"

lemma quarantined_simps [simp]:
  "ec_case_id (quarantined_case i c) = ec_case_id c" "ec_envelope_id (quarantined_case i c) = ec_envelope_id c"
  "ec_commitment (quarantined_case i c) = ec_commitment c"
  "ec_state (quarantined_case i c) = (if ec_envelope_id c = i then ''quarantined'' else ec_state c)"
  "ea_advice_id (quarantined_advice i a) = ea_advice_id a"
  "ea_envelope_id (quarantined_advice i a) = ea_envelope_id a"
  "ea_commitment (quarantined_advice i a) = ea_commitment a" "ea_case_id (quarantined_advice i a) = ea_case_id a"
  "ea_state (quarantined_advice i a) = (if ea_envelope_id a = i then ''quarantined'' else ea_state a)"
  "fo_front (quarantined_front i db o') = fo_front o'" "fo_advice_id (quarantined_front i db o') = fo_advice_id o'"
  "fo_message_id (quarantined_front i db o') = fo_message_id o'"
  "front_key (quarantined_front i db o') = front_key o'"
  "answers_case (quarantined_advice i a) (quarantined_case j c) = answers_case a c"
  by (simp_all add: quarantined_case_def quarantined_advice_def quarantined_front_def front_key_def answers_case_def)

lemma quarantined_ids:
  "List.member (map ea_advice_id (filter (\<lambda>a. ea_envelope_id a = i)
      (map (\<lambda>a. if ea_envelope_id a = i then a\<lparr>ea_state := st\<rparr> else a) rows))) x
    = (\<exists>a \<in> set rows. ea_envelope_id a = i \<and> ea_advice_id a = x)"
  by (induction rows) auto

lemma quarantine_projection_tables:
  "ssp_edge_cases (quarantine_projection i db) = map (quarantined_case i) (ssp_edge_cases db)"
  "ssp_edge_advice (quarantine_projection i db) = map (quarantined_advice i) (ssp_edge_advice db)"
  "ssp_edge_front_outbox (quarantine_projection i db) = map (quarantined_front i db) (ssp_edge_front_outbox db)"
  "ssp_edge_envelope_identity (quarantine_projection i db) = ssp_edge_envelope_identity db"
  unfolding quarantine_projection_def Let_def quarantined_ids
  by (simp_all add: quarantined_case_def [abs_def] quarantined_advice_def [abs_def] quarantined_front_def [abs_def])

lemma quarantine_inv:
  assumes inv: "proj_inv db" and i: "ssp_edge_envelope_identity db i = Some r"
    and r': "ir_commitment r' = ir_commitment r" "ir_state r' = ''quarantined''"
  shows "proj_inv (quarantine_projection i (db\<lparr>ssp_edge_envelope_identity := (ssp_edge_envelope_identity db)(i \<mapsto> r')\<rparr>))"
    (is "proj_inv ?q")
proof (rule proj_invI)
  let ?db = "db\<lparr>ssp_edge_envelope_identity := (ssp_edge_envelope_identity db)(i \<mapsto> r')\<rparr>"
  have claimed: "claimed_by ?q e c (if e = i then ''quarantined'' else s)" if "claimed_by db e c s" for e c s
    using that i r' by (auto simp: claimed_by_def quarantine_projection_tables)
  have known: "known_state (if b then ''quarantined'' else s)" if "known_state s" for b s
    using that by (simp add: known_state_def)
  show "case_ok ?q c" if "c \<in> set (ssp_edge_cases ?q)" for c
    using that proj_invD(1) [OF inv] claimed known by (auto simp: quarantine_projection_tables case_ok_def)
  show "advice_ok ?q a" if a: "a \<in> set (ssp_edge_advice ?q)" for a
  proof -
    from a obtain a0 where a0: "a0 \<in> set (ssp_edge_advice db)" "a = quarantined_advice i a0"
      by (auto simp: quarantine_projection_tables)
    from proj_invD(2) [OF inv a0(1)] show ?thesis
      using claimed known by (auto simp: advice_ok_def a0(2) quarantine_projection_tables)
  qed
  show "front_ok ?q o'" if "o' \<in> set (ssp_edge_front_outbox ?q)" for o'
  proof -
    from that obtain o0 where o0: "o0 \<in> set (ssp_edge_front_outbox db)" "o' = quarantined_front i ?db o0"
      by (auto simp: quarantine_projection_tables)
    from proj_invD(3) [OF inv o0(1)] obtain a where a: "a \<in> set (ssp_edge_advice db)" "ea_advice_id a = fo_advice_id o0"
      "(ea_state a = ''quarantined'') = (fo_state o0 = ''quarantined'')" by (auto simp: front_ok_def)
    have "(\<exists>b \<in> set (ssp_edge_advice ?db). ea_envelope_id b = i \<and> ea_advice_id b = fo_advice_id o0) = (ea_envelope_id a = i)"
    proof
      assume "\<exists>b \<in> set (ssp_edge_advice ?db). ea_envelope_id b = i \<and> ea_advice_id b = fo_advice_id o0"
      then obtain b where b: "b \<in> set (ssp_edge_advice db)" "ea_envelope_id b = i" "ea_advice_id b = fo_advice_id o0" by auto
      from proj_invD(5) [OF inv] a b have "b = a" by (metis distinct_map inj_onD)
      with b show "ea_envelope_id a = i" by simp
    qed (use a in auto)
    then have "(ea_state (quarantined_advice i a) = ''quarantined'') = (fo_state o' = ''quarantined'')"
      using a(3) by (simp add: o0(2) quarantined_front_def)
    moreover have "quarantined_advice i a \<in> set (ssp_edge_advice ?q)" using a(1) by (simp add: quarantine_projection_tables)
    ultimately show ?thesis
      using proj_invD(3) [OF inv o0(1)] a(2)
      unfolding front_ok_def o0(2) quarantined_simps by (intro conjI bexI [of _ "quarantined_advice i a"]) simp_all
  qed
qed (use proj_invD(4-6) [OF inv] in \<open>simp_all add: quarantine_projection_tables comp_def\<close>)

lemma claimIdentity_inv:
  assumes inv: "proj_inv db" and c: "claimIdentity i commitment dl now db = (state, db')"
  shows "proj_inv db'"
    and "state = ApplyAccepted \<Longrightarrow> ssp_edge_envelope_identity db i = None
      \<and> (\<exists>r. db' = db\<lparr>ssp_edge_envelope_identity := (ssp_edge_envelope_identity db)(i \<mapsto> r)\<rparr>
          \<and> ir_commitment r = commitment \<and> ir_state r = ''accepted'')"
    and "state = ApplyAccepted \<or> state = ApplyDuplicate \<or> state = ApplyQuarantined"
proof -
  show "state = ApplyAccepted \<Longrightarrow> ssp_edge_envelope_identity db i = None
      \<and> (\<exists>r. db' = db\<lparr>ssp_edge_envelope_identity := (ssp_edge_envelope_identity db)(i \<mapsto> r)\<rparr>
          \<and> ir_commitment r = commitment \<and> ir_state r = ''accepted'')"
    "state = ApplyAccepted \<or> state = ApplyDuplicate \<or> state = ApplyQuarantined"
    using c by (auto simp: claimIdentity_def split: option.splits if_splits)
  show "proj_inv db'"
  proof (cases "ssp_edge_envelope_identity db i")
    case None
    have keep: "claimed_by db' e cm s" if "claimed_by db e cm s" for e cm s
      using that None c by (auto simp: claimed_by_def claimIdentity_def)
    have tabs: "ssp_edge_cases db' = ssp_edge_cases db" "ssp_edge_advice db' = ssp_edge_advice db"
      "ssp_edge_front_outbox db' = ssp_edge_front_outbox db"
      using None c by (auto simp: claimIdentity_def)
    show ?thesis
      by (rule proj_invI)
        (use proj_invD [OF inv] keep in \<open>auto simp: tabs case_ok_def advice_ok_def front_ok_def\<close>)
  next
    case (Some r)
    then show ?thesis
      using c inv quarantine_inv [OF inv Some, of "quarantine_identity commitment dl now r"]
      by (auto simp: claimIdentity_def quarantine_identity_def split: if_splits)
  qed
qed

section \<open>Storing a projection\<close>

lemma advice_ok_more_cases:
  "advice_ok db a \<Longrightarrow> set (ssp_edge_cases db) \<subseteq> set rows \<Longrightarrow> advice_ok (db\<lparr>ssp_edge_cases := rows\<rparr>) a"
  by (auto simp: advice_ok_def claimed_by_def)

lemma persist_case_inv:
  assumes inv: "proj_inv db" and p: "persist_case d env pr db = Inr db'"
    and claimed: "claimed_by db (vp_EnvelopeID pr) (vp_Commitment pr) ''accepted''"
  shows "proj_inv db'"
proof -
  from p obtain c body where c: "vp_Case pr = Some c" and ins: "insert_edge_case (edge_case_row_of pr c body) db = Inr db'"
    by (auto simp: persist_case_def split: option.splits sum.splits)
  show ?thesis
  proof (cases "db' = db")
    case False
    let ?r = "edge_case_row_of pr c body"
    from ins False have db': "db' = db\<lparr>ssp_edge_cases := ssp_edge_cases db @ [?r]\<rparr>"
      and fresh: "ec_case_id ?r \<notin> ec_case_id ` set (ssp_edge_cases db)"
      by (auto simp: insert_edge_case_def list_ex_iff split: if_splits)
    have "case_ok db' ?r" using claimed by (simp add: case_ok_def known_state_def db' claimed_by_def edge_case_row_of_def)
    then show ?thesis
      by (intro proj_invI) (use proj_invD [OF inv] fresh in
        \<open>auto simp: db' case_ok_def claimed_by_def front_ok_def intro: advice_ok_more_cases\<close>)
  qed (use inv in simp)
qed

definition fresh_front :: "string \<Rightarrow> string \<Rightarrow> time \<Rightarrow> front_row" where
  "fresh_front front adviceID now =
    \<lparr>fo_front = front, fo_advice_id = adviceID, fo_message_id = front_message_id front adviceID,
     fo_state = ''pending'', fo_created_at = sqlTime now, fo_lease_owner = None, fo_lease_expires_at = None,
     fo_claim_token = None, fo_delivery_receipt = None, fo_delivered_at = None\<rparr>"

lemma insert_front_effect:
  assumes "insert_front front i now db = Inr db'"
  shows "if \<exists>o' \<in> set (ssp_edge_front_outbox db). front_key o' = (front, i) then db' = db
    else db' = db\<lparr>ssp_edge_front_outbox := ssp_edge_front_outbox db @ [fresh_front front i now]\<rparr>"
  using assms
  by (auto simp: insert_front_def list_ex_iff front_key_def fresh_front_def split: if_splits)

lemma persist_advice_effect:
  assumes inv: "proj_inv db" and p: "persist_advice d env pr now db = Inr db'"
  shows "db' = db \<or> (\<exists>a body c. vp_Advice pr = Some a \<and> c \<in> set (ssp_edge_cases db)
      \<and> answers_case (edge_advice_row_of pr a body now) c
      \<and> av_AdviceID a \<notin> ea_advice_id ` set (ssp_edge_advice db)
      \<and> db' = db\<lparr>ssp_edge_advice := ssp_edge_advice db @ [edge_advice_row_of pr a body now],
           ssp_edge_front_outbox := ssp_edge_front_outbox db @
             [fresh_front FrontCLI (av_AdviceID a) now, fresh_front FrontAMQ (av_AdviceID a) now]\<rparr>)"
proof -
  from p obtain a c body db1 db2 where a: "vp_Advice pr = Some a"
    and c: "find (\<lambda>c. ec_case_id c = av_CaseID a \<and> ec_state c = ''accepted'') (ssp_edge_cases db) = Some c"
    and b: "advice_binds_case a c"
    and ins: "insert_edge_advice (edge_advice_row_of pr a body now) db = Inr db1"
    and cli: "insert_front FrontCLI (av_AdviceID a) now db1 = Inr db2"
    and amq: "insert_front FrontAMQ (av_AdviceID a) now db2 = Inr db'"
    by (auto simp: persist_advice_def split: option.splits sum.splits if_splits)
  have c': "c \<in> set (ssp_edge_cases db)" "ec_case_id c = av_CaseID a" using c by (auto simp: find_Some_iff)
  have ans: "answers_case (edge_advice_row_of pr a body now) c"
    using b c' by (simp add: answers_case_def edge_advice_row_of_def advice_binds_case_def)
  show ?thesis
  proof (cases "av_AdviceID a \<in> ea_advice_id ` set (ssp_edge_advice db)")
    case True
    then have "db1 = db" using ins by (auto simp: insert_edge_advice_def list_ex_iff edge_advice_row_of_def split: if_splits)
    from True obtain a0 where a0: "a0 \<in> set (ssp_edge_advice db)" "ea_advice_id a0 = av_AdviceID a" by auto
    from proj_invD(2) [OF inv a0(1)] a0(2)
    have "\<exists>o' \<in> set (ssp_edge_front_outbox db). front_key o' = (front, av_AdviceID a)" if "front \<in> {FrontCLI, FrontAMQ}" for front
      using that unfolding advice_ok_def front_key_def by force
    with insert_front_effect [OF cli] insert_front_effect [OF amq] show ?thesis by (auto simp: \<open>db1 = db\<close>)
  next
    case False
    then have other: "ea_advice_id x \<noteq> av_AdviceID a" if "x \<in> set (ssp_edge_advice db)" for x using that by force
    then have db1: "db1 = db\<lparr>ssp_edge_advice := ssp_edge_advice db @ [edge_advice_row_of pr a body now]\<rparr>"
      using ins by (auto simp: insert_edge_advice_def list_ex_iff edge_advice_row_of_def split: if_splits)
    have none: "front_key o' \<noteq> (front, av_AdviceID a)" if "o' \<in> set (ssp_edge_front_outbox db)" for o' front
      using proj_invD(3) [OF inv that] other by (auto simp: front_ok_def front_key_def)
    have db2: "db2 = db1\<lparr>ssp_edge_front_outbox := ssp_edge_front_outbox db @ [fresh_front FrontCLI (av_AdviceID a) now]\<rparr>"
      using insert_front_effect [OF cli] none by (auto simp: db1 split: if_splits)
    have "db' = db2\<lparr>ssp_edge_front_outbox := ssp_edge_front_outbox db2 @ [fresh_front FrontAMQ (av_AdviceID a) now]\<rparr>"
      using insert_front_effect [OF amq] none by (auto simp: db1 db2 front_key_def fresh_front_def split: if_splits)
    then show ?thesis using a c'(1) ans False by (auto simp: db1 db2)
  qed
qed

lemma persist_advice_inv:
  assumes inv: "proj_inv db" and p: "persist_advice d env pr now db = Inr db'"
    and claimed: "claimed_by db (vp_EnvelopeID pr) (vp_Commitment pr) ''accepted''"
  shows "proj_inv db'"
  using persist_advice_effect [OF inv p]
proof
  assume "\<exists>a body c. vp_Advice pr = Some a \<and> c \<in> set (ssp_edge_cases db)
      \<and> answers_case (edge_advice_row_of pr a body now) c
      \<and> av_AdviceID a \<notin> ea_advice_id ` set (ssp_edge_advice db)
      \<and> db' = db\<lparr>ssp_edge_advice := ssp_edge_advice db @ [edge_advice_row_of pr a body now],
           ssp_edge_front_outbox := ssp_edge_front_outbox db @
             [fresh_front FrontCLI (av_AdviceID a) now, fresh_front FrontAMQ (av_AdviceID a) now]\<rparr>"
  then obtain a body c where c: "c \<in> set (ssp_edge_cases db)" "answers_case (edge_advice_row_of pr a body now) c"
    and fresh: "av_AdviceID a \<notin> ea_advice_id ` set (ssp_edge_advice db)"
    and db': "db' = db\<lparr>ssp_edge_advice := ssp_edge_advice db @ [edge_advice_row_of pr a body now],
           ssp_edge_front_outbox := ssp_edge_front_outbox db @
             [fresh_front FrontCLI (av_AdviceID a) now, fresh_front FrontAMQ (av_AdviceID a) now]\<rparr>" by blast
  let ?r = "edge_advice_row_of pr a body now"
  have other: "ea_advice_id x \<noteq> av_AdviceID a" if "x \<in> set (ssp_edge_advice db)" for x using fresh that by force
  have r: "ea_advice_id ?r = av_AdviceID a" "ea_state ?r = ''accepted''" by (simp_all add: edge_advice_row_of_def)
  have new: "advice_ok db' ?r"
    using c claimed by (auto simp: advice_ok_def known_state_def db' claimed_by_def edge_advice_row_of_def fresh_front_def)
  have old: "advice_ok db' a'" if "a' \<in> set (ssp_edge_advice db)" for a'
    using proj_invD(2) [OF inv that] by (auto simp: advice_ok_def claimed_by_def db')
  have front: "front_ok db' o'" if "o' \<in> set (ssp_edge_front_outbox db')" for o'
    using that proj_invD(3) [OF inv] r by (auto simp: front_ok_def db' fresh_front_def)
  have none: "front_key o' \<noteq> (f, av_AdviceID a)" if "o' \<in> set (ssp_edge_front_outbox db)" for o' f
    using proj_invD(3) [OF inv that] other by (auto simp: front_ok_def front_key_def)
  show ?thesis
  proof (rule proj_invI)
    show "case_ok db' c" if "c \<in> set (ssp_edge_cases db')" for c
      using that proj_invD(1) [OF inv] by (auto simp: db' case_ok_def claimed_by_def)
    show "advice_ok db' a'" if "a' \<in> set (ssp_edge_advice db')" for a'
      using that new old by (auto simp: db')
    show "front_ok db' o'" if "o' \<in> set (ssp_edge_front_outbox db')" for o' using that by (rule front)
    show "distinct (map ec_case_id (ssp_edge_cases db'))" "distinct (map ea_advice_id (ssp_edge_advice db'))"
      using proj_invD(4,5) [OF inv] fresh r by (simp_all add: db')
    show "distinct (map front_key (ssp_edge_front_outbox db'))"
      using proj_invD(6) [OF inv] none by (force simp: db' fresh_front_def front_key_def)
  qed
qed (use inv in simp)

lemma settle_inv:
  assumes inv: "proj_inv db" and s: "settle_delivery d env dl v rsn p now db = Inr (o', db')"
  shows "proj_inv db'"
proof (cases "v = VerdictAccepted")
  case True
  with s obtain pr where p: "p = Some pr" by (auto simp: settle_delivery_def split: option.splits)
  obtain state db1 where c: "claimIdentity (vp_EnvelopeID pr) (vp_Commitment pr) dl now db = (state, db1)" by fastforce
  note ci = claimIdentity_inv [OF inv c]
  have "db' = db1 \<or> state = ApplyAccepted \<and> persistProjection d env pr now db1 = Inr db'"
    using s True ci(3) by (auto simp: settle_delivery_def p c split: if_splits sum.splits)
  then show ?thesis
  proof
    assume acc: "state = ApplyAccepted \<and> persistProjection d env pr now db1 = Inr db'"
    then have "claimed_by db1 (vp_EnvelopeID pr) (vp_Commitment pr) ''accepted''"
      using ci(2) by (auto simp: claimed_by_def)
    with acc ci(1) show ?thesis
      by (auto simp: persistProjection_def split: if_splits intro: persist_case_inv persist_advice_inv)
  qed (use ci(1) in simp)
qed (use assms in \<open>auto simp: settle_delivery_def\<close>)

section \<open>Every step keeps the projection\<close>

lemma same_shown_require: "same_shown db (requireReconciliationTx st observed reason now db)"
  by (simp add: same_shown_def require_tables)

lemma same_shown_advance:
  "same_shown db (advanceDeliveryStateTx i ex seq now (db\<lparr>ssp_edge_deliveries := rows\<rparr>))"
  by (simp add: same_shown_def advance_tables(3)) (simp add: same_projection_tables_def advanceDeliveryStateTx_def Let_def split: option.splits)

lemma applyVerified_work_inv:
  assumes "log_inv db" "0 < jd_DeliverySeq dl" "proj_inv db"
    and "applyVerified_work d env dl v rsn p now allow db = Inr (outcome, db')"
  shows "proj_inv db'"
  using assms(1,2,4)
proof (cases rule: applyVerified_work_cases)
  case (recorded v' rsn' db1)
  then show ?thesis using settle_inv [OF assms(3)] proj_inv_cong [OF same_shown_advance] by blast
qed (use assms(3) proj_inv_cong [OF same_shown_require] in auto)

lemma apply_proj_inv:
  assumes "log_inv db" "proj_inv db"
  shows "proj_inv (snd (applyVerified d env dl v rsn p now allow db))"
proof (cases "validateDelivery dl v rsn p now = None \<and> jd_TenantID dl = db_tenant d")
  case True
  then have "0 < jd_DeliverySeq dl" by (auto simp: validateDelivery_def split: if_splits)
  then have "proj_inv (snd (edge_transaction d env (applyVerified_work d env dl v rsn p now allow) db))"
    using assms applyVerified_work_inv by (intro edge_transaction_snd [where P = proj_inv]) auto
  then show ?thesis using True by (simp add: applyVerified_def)
qed (use assms in \<open>auto simp: applyVerified_def split: option.splits\<close>)

text \<open>Leasing and delivering front rows.\<close>

lemma proj_inv_front_update:
  assumes inv: "proj_inv db"
    and upd: "\<And>r. q r \<Longrightarrow> fo_front (f r) = fo_front r \<and> fo_advice_id (f r) = fo_advice_id r
      \<and> fo_message_id (f r) = fo_message_id r \<and> fo_state r \<noteq> ''quarantined'' \<and> fo_state (f r) \<noteq> ''quarantined''"
  shows "proj_inv (db\<lparr>ssp_edge_front_outbox := update_rows q f (ssp_edge_front_outbox db)\<rparr>)" (is "proj_inv ?db")
proof (rule proj_invI)
  have key: "front_key (if q r then f r else r) = front_key r" for r using upd [of r] by (simp add: front_key_def)
  show "case_ok ?db c" if "c \<in> set (ssp_edge_cases ?db)" for c
    using that proj_invD(1) [OF inv] by (simp add: case_ok_def claimed_by_def)
  show "advice_ok ?db a" if a: "a \<in> set (ssp_edge_advice ?db)" for a
  proof -
    have "\<exists>o' \<in> set (update_rows q f (ssp_edge_front_outbox db)). fo_front o' = front \<and> fo_advice_id o' = ea_advice_id a"
      if "o1 \<in> set (ssp_edge_front_outbox db)" "fo_front o1 = front" "fo_advice_id o1 = ea_advice_id a" for front o1
      using that upd [of o1] by (intro bexI [of _ "if q o1 then f o1 else o1"]) (auto simp: update_rows_def)
    with a proj_invD(2) [OF inv, of a] show ?thesis by (auto simp: advice_ok_def claimed_by_def)
  qed
  show "front_ok ?db o'" if o: "o' \<in> set (ssp_edge_front_outbox ?db)" for o'
  proof -
    from o obtain o1 where o1: "o1 \<in> set (ssp_edge_front_outbox db)" "o' = (if q o1 then f o1 else o1)"
      using set_update_rows_D [of o' q f] by auto
    from proj_invD(3) [OF inv o1(1)] show ?thesis using upd [of o1] by (auto simp: front_ok_def o1(2))
  qed
  show "distinct (map front_key (ssp_edge_front_outbox ?db))"
    using proj_invD(6) [OF inv] upd
    by (simp add: map_update_rows [of q front_key f] front_key_def)
qed (use proj_invD(4,5) [OF inv] in simp_all)

lemma claim_front_rows_inv:
  assumes "proj_inv db" "claim_front_rows d env front owner ttl now sel n db = Inr (out, db')"
  shows "proj_inv db'"
proof -
  have "proj_inv (leasing front owner ttl now i token db)" if "proj_inv db" for db i token
    unfolding leasing_def by (rule proj_inv_front_update [OF that]) (auto simp: front_lease_def front_free_def)
  from claim_front_rows_keeps [where P = proj_inv, OF this assms] show ?thesis .
qed

lemma mark_front_work_inv:
  assumes "proj_inv db" "mark_front_work rc now db = Inr (r, db')"
  shows "proj_inv db'"
proof (cases "db' = db")
  case False
  with assms(2) have db': "db' = db\<lparr>ssp_edge_front_outbox :=
     update_rows (\<lambda>r. fo_front r = fr_Front rc \<and> fo_message_id r = fr_MessageID rc
         \<and> fo_state r = ''delivering'' \<and> fo_claim_token r = Some (fr_ClaimToken rc))
       (front_delivered (fr_ReceiptID rc) (sqlTime now)) (ssp_edge_front_outbox db)\<rparr>"
    by (auto simp: mark_front_work_def split: option.splits if_splits)
  show ?thesis unfolding db'
    by (rule proj_inv_front_update [OF assms(1)]) (auto simp: front_delivered_def)
qed (use assms in simp)

lemma front_ops_inv:
  assumes "proj_inv db"
  shows "proj_inv (snd (ClaimFrontDeliveries d env front owner ttl limit now db))"
    and "proj_inv (snd (MarkFrontDelivered d env rc now db))"
  using assms
  by (auto simp: ClaimFrontDeliveries_def MarkFrontDelivered_def
      intro: edge_transaction_snd [where P = proj_inv] claim_front_rows_inv mark_front_work_inv)

lemma state_ops_shown:
  "same_shown db (snd (RequireReconciliation d env i observed reason now db))"
  "same_shown db (snd (CompleteReconciliation d env i through high now db))"
  by (auto simp: RequireReconciliation_def CompleteReconciliation_def same_shown_require edge_transaction_def
      same_shown_def same_projection_tables_def require_tables [unfolded same_projection_tables_def]
      split: option.splits sum.splits)

lemma local_frame_shown: "local_frame a b \<Longrightarrow> same_shown a b"
  by (simp add: local_frame_def same_shown_def)

lemma edge_step_proj:
  assumes "edge_step d db db'" "log_inv db" "proj_inv db"
  shows "proj_inv db'"
proof -
  note frame = proj_inv_cong [OF _ assms(3)]
  note [simp] = frame [OF state_ops_shown(1)] frame [OF state_ops_shown(2)]
    frame [OF local_frame_shown, OF spool_frame(1)] frame [OF local_frame_shown, OF spool_frame(2)]
    frame [OF local_frame_shown, OF spool_frame(3)] frame [OF local_frame_shown, OF spool_frame(4)]
    frame [OF local_frame_shown, OF turn_ops_frame(1)] frame [OF local_frame_shown, OF turn_ops_frame(2)]
    frame [OF local_frame_shown, OF turn_ops_frame(3)] frame [OF local_frame_shown, OF turn_ops_frame(4)]
  from assms(1) show ?thesis
    by (cases rule: edge_step.cases) (simp_all add: apply_proj_inv assms(2,3) front_ops_inv)
qed

lemma edge_run_proj:
  assumes "edge_run d db db'" "log_inv db" "proj_inv db"
  shows "proj_inv db'"
  using assms by (induction rule: edge_run.induct) (auto dest: edge_step_proj edge_run_log)

lemma reachable_proj_inv: "edge_reachable d db \<Longrightarrow> proj_inv db"
  using edge_run_proj log_inv_init proj_inv_init by blast

end
