(* ===== verification/Edge_Properties.thy ===== *)
theory Edge_Properties
  imports Edge_Projection
begin

text \<open>
  What the edge store promises about the delivery log, about halted incarnations, about quarantined
  content and about the front outbox, in every state it can reach.
\<close>

section \<open>The log\<close>

text \<open>
  C23.  In every reachable state the deliveries recorded for an edge incarnation are exactly the
  sequences 1 to its contiguous counter, in order, and the counter never passes the high watermark.
\<close>

theorem edge_store_log_contiguous:
  assumes "edge_reachable d db"
  shows "map dl_delivery_seq (log_of key db) = [1..last_seq key db]
    \<and> (\<forall>r. ssp_edge_delivery_state db key = Some r \<longrightarrow> st_last_contiguous_seq r \<le> st_high_watermark r)"
  using log_invD [OF reachable_log_inv [OF assms]] by (simp add: state_ok_def)

lemma applyVerified_valid:
  assumes "validateDelivery dl v rsn p now = None" "jd_TenantID dl = db_tenant d"
    and "db_sqlDB d" "tx_fault env = None" "tx_commit env = None"
    and "applyVerified_work d env dl v rsn p now allow db = Inr (outcome, db')"
  shows "applyVerified d env dl v rsn p now allow db = (Inr outcome, db')"
  using assms by (simp add: applyVerified_def edge_transaction_run)

lemma applyVerified_InrD:
  assumes "applyVerified d env dl v rsn p now allow db = (Inr outcome, db')"
  shows "applyVerified_work d env dl v rsn p now allow db = Inr (outcome, db')" "0 < jd_DeliverySeq dl"
proof -
  have v: "validateDelivery dl v rsn p now = None" and t: "jd_TenantID dl = db_tenant d"
    using assms by (auto simp: applyVerified_def split: option.splits if_splits)
  show "0 < jd_DeliverySeq dl" using v by (auto simp: validateDelivery_def split: if_splits)
  have "edge_transaction d env (applyVerified_work d env dl v rsn p now allow) db = (Inr outcome, db')"
    using assms v t by (simp add: applyVerified_def)
  then show "applyVerified_work d env dl v rsn p now allow db = Inr (outcome, db')" by (rule edge_transaction_Inr)
qed

text \<open>After a delivery went through, the log holds its evidence.\<close>

lemma applied_evidence:
  assumes inv: "log_inv db" and a: "applyVerified d env dl v rsn p now allow db = (Inr outcome, db')"
    and o: "outcome \<noteq> ApplyIdentityConflict" "outcome \<noteq> ApplyReconciliationRequired"
  shows "\<exists>r \<in> set (log_of (identity_key (delivery_identity dl)) db').
    dl_delivery_seq r = jd_DeliverySeq dl \<and> same_evidence r dl"
  using inv applyVerified_InrD(2) [OF a] applyVerified_InrD(1) [OF a]
proof (cases rule: applyVerified_work_cases)
  case (replay r)
  then show ?thesis using find_delivery_Some_in by blast
next
  case (recorded v' rsn' db1)
  show ?thesis
    using recorded_log(1) [OF settle_tables [OF recorded(3)] recorded(5), of "identity_key (delivery_identity dl)"]
    by (auto simp: same_evidence_def)
qed (use o in auto)

lemma log_row_unique:
  assumes "log_inv db" "r \<in> set (log_of key db)" "r' \<in> set (log_of key db)" "dl_delivery_seq r = dl_delivery_seq r'"
  shows "r = r'"
proof -
  have "distinct (map dl_delivery_seq (log_of key db))" by (simp add: log_invD(1) [OF assms(1)])
  with assms(2-4) show ?thesis by (metis distinct_map inj_onD)
qed

lemma find_delivery_log:
  assumes "log_inv db" "r \<in> set (log_of key db)" "dl_delivery_seq r = seq"
  shows "find_delivery key seq db = Some r"
proof -
  have "find_delivery key seq db \<noteq> None"
    using assms(2,3) by (auto simp: find_delivery_def find_None_iff log_of_def)
  then obtain r' where r': "find_delivery key seq db = Some r'" by blast
  then have "r' = r" using find_delivery_Some_in [OF r'] assms(3) by (intro log_row_unique [OF assms(1) _ assms(2)]) auto
  with r' show ?thesis by simp
qed

lemma seen_work:
  assumes inv: "log_inv db" and r: "r \<in> set (log_of (identity_key (delivery_identity dl)) db)"
    and s: "dl_delivery_seq r = jd_DeliverySeq dl"
  shows "applyVerified_work d env dl v rsn p now allow db
    = (if same_evidence r dl then Inr (ApplyDuplicate, db)
       else haltAndCommitTx (state_at (delivery_identity dl) db) (jd_DeliverySeq dl) ''delivery_identity_conflict'' now
              ApplyIdentityConflict db)"
proof -
  let ?key = "identity_key (delivery_identity dl)"
  have f: "find_delivery ?key (jd_DeliverySeq dl) db = Some r" using find_delivery_log [OF inv r s] .
  then have le: "jd_DeliverySeq dl \<le> last_seq ?key db" using find_delivery_iff [OF inv] by blast
  obtain st ex where st: "deliveryStateTx (delivery_identity dl) db = (st, ex)" by fastforce
  have "(if ex then st else (zero_state (delivery_identity dl))\<lparr>gs_Mode := DeliveryModeActive\<rparr>) = state_at (delivery_identity dl) db"
    by (simp add: state_at_def st)
  then show ?thesis using f le
    unfolding applyVerified_work_def Let_def st prod.case by (simp add: state_at_simps)
qed

lemma log_extends_in: "log_extends a b \<Longrightarrow> r \<in> set (log_of key a) \<Longrightarrow> r \<in> set (log_of key b)"
  unfolding log_extends_def by (metis UnI1 set_append)

text \<open>
  C24.  Delivery is exactly once.  When a delivery has gone through (accepted, rejected, quarantined or
  already a duplicate), then whatever the store does afterwards, offering the same delivery again, with
  whatever verdict, is answered as a duplicate and changes nothing.
\<close>

theorem redelivery_is_duplicate:
  assumes "edge_reachable d db"
    and "applyVerified d env dl v rsn p now allow db = (Inr outcome, db1)"
    and "outcome \<noteq> ApplyIdentityConflict" "outcome \<noteq> ApplyReconciliationRequired"
    and "edge_run d db1 db2"
    and "validateDelivery dl v' rsn' p' now' = None" "tx_fault env' = None" "tx_commit env' = None"
  shows "applyVerified d env' dl v' rsn' p' now' allow' db2 = (Inr ApplyDuplicate, db2)"
proof -
  have inv: "log_inv db" using reachable_log_inv [OF assms(1)] .
  then have inv1: "log_inv db1" using applyVerified_log assms(2) by (metis snd_conv)
  note run = edge_run_log [OF assms(5) inv1]
  obtain r where r: "r \<in> set (log_of (identity_key (delivery_identity dl)) db1)"
    "dl_delivery_seq r = jd_DeliverySeq dl" "same_evidence r dl"
    using applied_evidence [OF inv assms(2-4)] by blast
  have "r \<in> set (log_of (identity_key (delivery_identity dl)) db2)" using log_extends_in r(1) run by blast
  then have "applyVerified_work d env' dl v' rsn' p' now' allow' db2 = Inr (ApplyDuplicate, db2)"
    using seen_work [of db2 r dl] r run by simp
  moreover have "db_sqlDB d" "jd_TenantID dl = db_tenant d"
    using assms(2) by (auto simp: applyVerified_def edge_transaction_def split: option.splits if_splits)
  ultimately show ?thesis using applyVerified_valid assms(6-8) by blast
qed

text \<open>
  C25.  A redelivery whose bytes or subject differ from the recorded evidence halts the incarnation: the
  conflict is committed, the log is untouched, and the outcome says so.
\<close>

theorem conflicting_redelivery_halts:
  assumes "edge_reachable d db" "r \<in> set (log_of (identity_key (delivery_identity dl)) db)"
    and "dl_delivery_seq r = jd_DeliverySeq dl" "\<not> same_evidence r dl"
    and "validateDelivery dl v rsn p now = None" "jd_TenantID dl = db_tenant d"
    and "db_sqlDB d" "tx_fault env = None" "tx_commit env = None"
  shows "\<exists>db'. applyVerified d env dl v rsn p now allow db = (Inr ApplyIdentityConflict, db')
    \<and> halted_key (identity_key (delivery_identity dl)) db' \<and> (\<forall>key. log_of key db' = log_of key db)"
proof -
  let ?key = "identity_key (delivery_identity dl)" and ?st = "state_at (delivery_identity dl) db"
  have inv: "log_inv db" using reachable_log_inv [OF assms(1)] .
  have w: "applyVerified_work d env dl v rsn p now allow db = Inr (ApplyIdentityConflict,
      requireReconciliationTx ?st (jd_DeliverySeq dl) ''delivery_identity_conflict'' now db)"
    using seen_work [OF inv assms(2,3)] assms(4) by (simp add: haltAndCommitTx_def)
  have st: "gs_LastContiguousSeq ?st = last_seq (identity_key (gs_Identity ?st)) db" by (simp add: state_at_simps)
  show ?thesis
    using applyVerified_valid [OF assms(5-9) w] require_log [OF st] by (simp add: state_at_simps)
qed

section \<open>Halted incarnations\<close>

lemma live_apply_frozen:
  assumes inv: "log_inv db" and h: "halted_key key db"
  shows "log_of key (snd (applyVerified d env dl v rsn p now False db)) = log_of key db
    \<and> halted_key key (snd (applyVerified d env dl v rsn p now False db))"
proof (cases "validateDelivery dl v rsn p now = None \<and> jd_TenantID dl = db_tenant d")
  case True
  then have seq: "0 < jd_DeliverySeq dl" by (auto simp: validateDelivery_def split: if_splits)
  have "log_of key db' = log_of key db \<and> halted_key key db'"
    if "applyVerified_work d env dl v rsn p now False db = Inr (outcome, db')" for outcome db'
    using inv seq that
  proof (cases rule: applyVerified_work_cases)
    case (halt reason)
    have "gs_LastContiguousSeq (state_at (delivery_identity dl) db)
        = last_seq (identity_key (gs_Identity (state_at (delivery_identity dl) db))) db" by (simp add: state_at_simps)
    from require_log [OF this] show ?thesis by (simp add: halt(2) h)
  next
    case (recorded v' rsn' db1)
    then have "key \<noteq> identity_key (delivery_identity dl)" using h by auto
    with recorded_log(1,3) [OF settle_tables [OF recorded(3)] recorded(5)] show ?thesis by (simp add: h)
  qed (use h in simp)
  then show ?thesis using True h
    by (simp add: applyVerified_def)
      (rule edge_transaction_snd [where P = "\<lambda>x. log_of key x = log_of key db \<and> halted_key key x"], auto)
qed (use h in \<open>auto simp: applyVerified_def split: option.splits\<close>)

text \<open>Only a completed reconciliation ends a halt.\<close>

lemma apply_keeps_halt:
  assumes inv: "log_inv db" and h: "halted_key key db"
  shows "halted_key key (snd (applyVerified d env dl v rsn p now allow db))"
proof (cases "validateDelivery dl v rsn p now = None \<and> jd_TenantID dl = db_tenant d")
  case True
  then have seq: "0 < jd_DeliverySeq dl" by (auto simp: validateDelivery_def split: if_splits)
  have "halted_key key db'" if "applyVerified_work d env dl v rsn p now allow db = Inr (outcome, db')" for outcome db'
    using inv seq that
  proof (cases rule: applyVerified_work_cases)
    case (halt reason)
    have "gs_LastContiguousSeq (state_at (delivery_identity dl) db)
        = last_seq (identity_key (gs_Identity (state_at (delivery_identity dl) db))) db" by (simp add: state_at_simps)
    from require_log [OF this] show ?thesis by (simp add: halt(2) h)
  next
    case (recorded v' rsn' db1)
    with recorded_log(3) [OF settle_tables [OF recorded(3)] recorded(5)] show ?thesis by (simp add: h)
  qed (use h in simp)
  then show ?thesis using True h
    by (simp add: applyVerified_def) (rule edge_transaction_snd [where P = "halted_key key"], auto)
qed (use h in \<open>auto simp: applyVerified_def split: option.splits\<close>)

lemma halted_key_cong: "same_delivery_tables a b \<Longrightarrow> halted_key key b = halted_key key a"
  by (simp add: same_delivery_tables_def halted_key_def)

lemma require_keeps_halt:
  "halted_key key db \<Longrightarrow> halted_key key (snd (RequireReconciliation d env i observed reason now db))"
proof -
  assume h: "halted_key key db"
  have "gs_LastContiguousSeq (fst (deliveryStateTx i db)) = last_seq (identity_key (gs_Identity (fst (deliveryStateTx i db)))) db"
    by (simp add: deliveryStateTx_simps)
  from require_log(3) [OF this] h show ?thesis
    by (auto simp: RequireReconciliation_def edge_transaction_def split: option.splits)
qed

text \<open>
  A completed reconciliation of the incarnation \<open>key\<close>: a call of \<^verbatim>\<open>CompleteReconciliation\<close> for
  it whose bound is the high watermark the edge stores, when the log holds every sequence up to that bound.
\<close>

definition reconciled :: "EdgeDB \<Rightarrow> edge_key \<Rightarrow> edge_db \<Rightarrow> edge_db \<Rightarrow> bool" where
  "reconciled d key a b \<longleftrightarrow>
    (\<exists>env i through now r. identity_key i = key \<and> b = snd (CompleteReconciliation d env i through through now a)
      \<and> ssp_edge_delivery_state a key = Some r \<and> st_high_watermark r = through
      \<and> map dl_delivery_seq (log_of key a) = [1..through] \<and> log_of key b = log_of key a)"

lemma complete_ends_halt:
  assumes inv: "log_inv db"
    and h: "halted_key key db" "\<not> halted_key key (snd (CompleteReconciliation d env i through high now db))"
  shows "reconciled d key db (snd (CompleteReconciliation d env i through high now db))"
proof -
  obtain res db' where c: "CompleteReconciliation d env i through high now db = (res, db')" by fastforce
  with h have "db' \<noteq> db" by auto
  with complete_effect [OF c] obtain r where r: "ssp_edge_delivery_state db (identity_key i) = Some r"
    "last_seq (identity_key i) db = through" "through = high" "st_high_watermark r = high"
    and db': "db' = db\<lparr>ssp_edge_delivery_state := (ssp_edge_delivery_state db)(identity_key i \<mapsto>
        r\<lparr>st_mode := ''active'', st_reason := [], st_updated_at := sqlTime now\<rparr>)\<rparr>" by blast
  have key: "identity_key i = key" using h c by (auto simp: db' halted_key_def split: if_splits)
  have "log_of key db' = log_of key db" by (simp add: db' log_of_def)
  moreover have "map dl_delivery_seq (log_of key db) = [1..high]" using log_invD(1) [OF inv, of key] r(2,3) key by simp
  ultimately show ?thesis using c r key unfolding reconciled_def by (metis snd_conv)
qed

lemma step_ends_halt:
  assumes inv: "log_inv db" and h: "halted_key key db" and "edge_step d db db'" "\<not> halted_key key db'"
  shows "reconciled d key db db'"
  using assms(3,4)
  by (cases rule: edge_step.cases)
    (simp_all add: apply_keeps_halt [OF inv h] require_keeps_halt [OF h] complete_ends_halt [OF inv h]
      halted_key_cong [OF delivery_tables_kept(1)] halted_key_cong [OF delivery_tables_kept(2)]
      halted_key_cong [OF delivery_tables_kept(3)] halted_key_cong [OF delivery_tables_kept(4)]
      halted_key_cong [OF delivery_tables_kept(5)] halted_key_cong [OF delivery_tables_kept(6)]
      halted_key_cong [OF delivery_tables_kept(7)] halted_key_cong [OF delivery_tables_kept(8)]
      halted_key_cong [OF delivery_tables_kept(9)] halted_key_cong [OF delivery_tables_kept(10)] h)

lemma run_ends_halt:
  assumes "edge_run d db db'" "edge_reachable d db" "halted_key key db" "\<not> halted_key key db'"
  shows "\<exists>a b. edge_run d db a \<and> halted_key key a \<and> edge_step d a b \<and> \<not> halted_key key b \<and> reconciled d key a b
    \<and> edge_run d b db'"
  using assms
proof (induction rule: edge_run.induct)
  case (run_step db db' db'')
  show ?case
  proof (cases "halted_key key db'")
    case True
    have "log_inv db'" using reachable_log_inv edge_run_trans [OF run_step.hyps(1) run_step.prems(1)] by blast
    from step_ends_halt [OF this True run_step.hyps(2) run_step.prems(3)] run_step.hyps True run_step.prems(3)
    show ?thesis by (intro exI [of _ db'] exI [of _ db''] conjI run_refl)
  next
    case False
    with run_step.IH run_step.prems obtain a b where
      "edge_run d db a" "halted_key key a" "edge_step d a b" "\<not> halted_key key b" "reconciled d key a b" "edge_run d b db'"
      by blast
    then show ?thesis using edge_run.run_step [OF _ run_step.hyps(2)] by blast
  qed
qed simp

text \<open>
  C26.  A halted incarnation is frozen until it is reconciled.  No live delivery extends its log or lifts its
  halt.  A step that lifts the halt is a completed reconciliation of this incarnation, whose bound is the
  stored high watermark and whose log holds every sequence up to it; and every run of the edge that ends with
  the halt lifted contains such a step.
\<close>

theorem halted_generation_frozen:
  assumes "edge_reachable d db" "halted_key key db"
  shows "log_of key (snd (ApplyVerified d env dl v rsn p now db)) = log_of key db
      \<and> halted_key key (snd (ApplyVerified d env dl v rsn p now db))
    \<and> (\<forall>db'. edge_step d db db' \<longrightarrow> \<not> halted_key key db' \<longrightarrow> reconciled d key db db')
    \<and> (\<forall>db'. edge_run d db db' \<longrightarrow> \<not> halted_key key db' \<longrightarrow>
      (\<exists>a b. edge_run d db a \<and> halted_key key a \<and> edge_step d a b \<and> \<not> halted_key key b \<and> reconciled d key a b
         \<and> edge_run d b db'))"
proof -
  have inv: "log_inv db" using reachable_log_inv [OF assms(1)] .
  have "log_of key (snd (ApplyVerified d env dl v rsn p now db)) = log_of key db
      \<and> halted_key key (snd (ApplyVerified d env dl v rsn p now db))"
    unfolding ApplyVerified_def by (rule live_apply_frozen [OF inv assms(2)])
  then show ?thesis using step_ends_halt [OF inv assms(2)] run_ends_halt [OF _ assms] by blast
qed

section \<open>Quarantined envelopes\<close>

definition identity_kept :: "edge_db \<Rightarrow> edge_db \<Rightarrow> bool" where
  "identity_kept a b =
    (\<forall>i r. ssp_edge_envelope_identity a i = Some r \<longrightarrow>
      (\<exists>r'. ssp_edge_envelope_identity b i = Some r' \<and> ir_commitment r' = ir_commitment r
         \<and> (ir_state r = ''quarantined'' \<longrightarrow> ir_state r' = ''quarantined'')))"

lemma identity_kept_refl [simp]: "identity_kept db db"
  by (simp add: identity_kept_def)

lemma identity_keptD:
  "identity_kept a b \<Longrightarrow> ssp_edge_envelope_identity a i = Some r \<Longrightarrow>
    \<exists>r'. ssp_edge_envelope_identity b i = Some r' \<and> ir_commitment r' = ir_commitment r
      \<and> (ir_state r = ''quarantined'' \<longrightarrow> ir_state r' = ''quarantined'')"
  unfolding identity_kept_def by blast

lemma identity_kept_trans:
  assumes "identity_kept a b" "identity_kept b c"
  shows "identity_kept a c"
  unfolding identity_kept_def
proof (intro allI impI)
  fix i r
  assume "ssp_edge_envelope_identity a i = Some r"
  from identity_keptD [OF assms(1) this] obtain r1 where r1: "ssp_edge_envelope_identity b i = Some r1"
    "ir_commitment r1 = ir_commitment r" "ir_state r = ''quarantined'' \<longrightarrow> ir_state r1 = ''quarantined''" by blast
  from identity_keptD [OF assms(2) r1(1)] r1(2,3)
  show "\<exists>r'. ssp_edge_envelope_identity c i = Some r' \<and> ir_commitment r' = ir_commitment r
      \<and> (ir_state r = ''quarantined'' \<longrightarrow> ir_state r' = ''quarantined'')" by auto
qed

lemma identity_kept_same: "ssp_edge_envelope_identity b = ssp_edge_envelope_identity a \<Longrightarrow> identity_kept a b"
  by (simp add: identity_kept_def)

lemma claimIdentity_kept: "identity_kept db (snd (claimIdentity i c dl now db))"
  by (auto simp: identity_kept_def claimIdentity_def quarantine_projection_tables quarantine_identity_def
      split: option.splits if_splits)

lemma persistProjection_identity:
  "persistProjection d env p now db = Inr db' \<Longrightarrow> ssp_edge_envelope_identity db' = ssp_edge_envelope_identity db"
  by (auto simp: persistProjection_def persist_case_def persist_advice_def insert_edge_case_def insert_edge_advice_def
      insert_front_def split: if_splits option.splits sum.splits)

lemma settle_kept:
  assumes "settle_delivery d env dl v rsn p now db = Inr (o', db')"
  shows "identity_kept db db'"
proof (cases "v = VerdictAccepted")
  case True
  with assms obtain pr where p: "p = Some pr" by (auto simp: settle_delivery_def split: option.splits)
  obtain state db1 where c: "claimIdentity (vp_EnvelopeID pr) (vp_Commitment pr) dl now db = (state, db1)" by fastforce
  have k: "identity_kept db db1" using claimIdentity_kept [of db] c by (metis snd_conv)
  have "db' = db1 \<or> persistProjection d env pr now db1 = Inr db'"
    using assms True by (auto simp: settle_delivery_def p c split: if_splits sum.splits)
  then show ?thesis using k persistProjection_identity identity_kept_same identity_kept_trans by blast
qed (use assms in \<open>auto simp: settle_delivery_def\<close>)

lemma shown_identity: "same_shown a b \<Longrightarrow> identity_kept a b"
  by (intro identity_kept_same) (simp add: same_shown_def same_projection_tables_def)

lemma apply_identity_kept:
  assumes inv: "log_inv db"
  shows "identity_kept db (snd (applyVerified d env dl v rsn p now allow db))"
proof (cases "validateDelivery dl v rsn p now = None \<and> jd_TenantID dl = db_tenant d")
  case True
  then have seq: "0 < jd_DeliverySeq dl" by (auto simp: validateDelivery_def split: if_splits)
  have "identity_kept db db'" if "applyVerified_work d env dl v rsn p now allow db = Inr (outcome, db')" for outcome db'
    using inv seq that
  proof (cases rule: applyVerified_work_cases)
    case (halt reason)
    then show ?thesis using shown_identity [OF same_shown_require] by simp
  next
    case (recorded v' rsn' db1)
    then show ?thesis
      using settle_kept [OF recorded(3)] shown_identity [OF same_shown_advance] identity_kept_trans by blast
  qed simp
  then show ?thesis using True
    by (simp add: applyVerified_def) (rule edge_transaction_snd [where P = "identity_kept db"], auto)
qed (auto simp: applyVerified_def split: option.splits)

lemma front_only_identity: "front_only a b \<Longrightarrow> identity_kept a b"
  by (rule identity_kept_same) (auto simp: front_only_def)

lemma edge_step_identity:
  assumes "edge_step d db db'" "log_inv db"
  shows "identity_kept db db'"
proof -
  note local = shown_identity [OF local_frame_shown]
  note [simp] = shown_identity [OF state_ops_shown(1)] shown_identity [OF state_ops_shown(2)]
    front_only_identity [OF front_ops_front(1)] front_only_identity [OF front_ops_front(2)]
    local [OF spool_frame(1)] local [OF spool_frame(2)] local [OF spool_frame(3)] local [OF spool_frame(4)]
    local [OF turn_ops_frame(1)] local [OF turn_ops_frame(2)] local [OF turn_ops_frame(3)] local [OF turn_ops_frame(4)]
    apply_identity_kept [OF assms(2)]
  from assms(1) show ?thesis by (cases rule: edge_step.cases) simp_all
qed

lemma edge_run_identity:
  assumes "edge_run d db db'" "log_inv db"
  shows "identity_kept db db'"
  using assms
  by (induction rule: edge_run.induct) (auto dest: edge_step_identity edge_run_log intro: identity_kept_trans)

text \<open>What a front is handed: accepted advice that answers a stored case, in its own text.\<close>

lemma claim_front_rows_out:
  assumes "claim_front_rows d env front owner ttl now sel n db = Inr (out, db')" "fd \<in> set out"
  shows "\<exists>o' a. (o', a) \<in> set sel \<and> fd_AdviceID fd = fo_advice_id o' \<and> fd_CaseID fd = ea_case_id a
    \<and> fd_MessageID fd = fo_message_id o' \<and> fd_Front fd = front
    \<and> open_field d ''ssp_edge_advice'' (fo_advice_id o') (ea_text_ciphertext a) = Inr (fd_Text fd)"
  using assms
proof (induction sel arbitrary: n db out)
  case (Cons x sel)
  obtain o' a where x: "x = (o', a)" by fastforce
  let ?db = "leasing front owner ttl now (fo_advice_id o') (claimToken env n) db"
  obtain out' where rest: "claim_front_rows d env front owner ttl now sel (Suc n) ?db = Inr (out', db')"
    and fd: "fd \<in> set out' \<or> fd_AdviceID fd = fo_advice_id o' \<and> fd_CaseID fd = ea_case_id a
      \<and> fd_MessageID fd = fo_message_id o' \<and> fd_Front fd = front
      \<and> open_field d ''ssp_edge_advice'' (fo_advice_id o') (ea_text_ciphertext a) = Inr (fd_Text fd)"
    using Cons.prems by (auto simp: x Let_def leasing_def split: if_splits sum.splits)
  from fd show ?case
  proof
    assume "fd \<in> set out'"
    from Cons.IH [OF rest this] show ?thesis by auto
  qed (auto simp: x)
qed simp

lemma select_front_in:
  "(o', a) \<in> set (select_front front now limit db) \<Longrightarrow>
    o' \<in> set (ssp_edge_front_outbox db) \<and> a \<in> set (ssp_edge_advice db) \<and> fo_advice_id o' = ea_advice_id a
    \<and> fo_front o' = front \<and> ea_state a = ''accepted'' \<and> front_free now o'"
  by (auto simp: select_front_def dest: in_set_takeD)

lemma claimed_front:
  assumes "ClaimFrontDeliveries d env front owner ttl limit now db = (Inr fds, db')" "fd \<in> set fds"
  shows "\<exists>o' \<in> set (ssp_edge_front_outbox db). \<exists>a \<in> set (ssp_edge_advice db).
    fo_front o' = front \<and> fo_advice_id o' = fd_AdviceID fd \<and> fo_message_id o' = fd_MessageID fd \<and> front_free (sqlTime now) o'
    \<and> ea_advice_id a = fd_AdviceID fd \<and> ea_state a = ''accepted'' \<and> ea_case_id a = fd_CaseID fd
    \<and> open_field d ''ssp_edge_advice'' (fd_AdviceID fd) (ea_text_ciphertext a) = Inr (fd_Text fd)"
proof -
  have "edge_transaction d env (\<lambda>db. claim_front_rows d env front owner ttl now
      (select_front front (sqlTime now) limit db) 0 db) db = (Inr fds, db')"
    using assms(1) by (auto simp: ClaimFrontDeliveries_def split: if_splits)
  from edge_transaction_Inr [OF this]
  have w: "claim_front_rows d env front owner ttl now (select_front front (sqlTime now) limit db) 0 db = Inr (fds, db')" .
  from claim_front_rows_out [OF w assms(2)] select_front_in show ?thesis by (metis (no_types))
qed

text \<open>
  C27.  A front is handed only sound advice: every delivery a claim returns is the decrypted text of an
  accepted advice whose commitment is the one claimed for its envelope, and which repeats the commitment,
  issuer, route and registry coordinates of a case the edge stores.
\<close>

theorem front_claims_bound:
  assumes "edge_reachable d db" "ClaimFrontDeliveries d env front owner ttl limit now db = (Inr fds, db')"
    and "fd \<in> set fds"
  shows "\<exists>a \<in> set (ssp_edge_advice db). \<exists>c \<in> set (ssp_edge_cases db).
    ea_advice_id a = fd_AdviceID fd \<and> claimed_by db (ea_envelope_id a) (ea_commitment a) ''accepted''
    \<and> answers_case a c \<and> ec_case_id c = fd_CaseID fd
    \<and> open_field d ''ssp_edge_advice'' (fd_AdviceID fd) (ea_text_ciphertext a) = Inr (fd_Text fd)"
proof -
  obtain a where a: "a \<in> set (ssp_edge_advice db)" "ea_advice_id a = fd_AdviceID fd" "ea_state a = ''accepted''"
    "ea_case_id a = fd_CaseID fd"
    "open_field d ''ssp_edge_advice'' (fd_AdviceID fd) (ea_text_ciphertext a) = Inr (fd_Text fd)"
    using claimed_front [OF assms(2,3)] by blast
  from proj_invD(2) [OF reachable_proj_inv [OF assms(1)] a(1)] obtain c where "c \<in> set (ssp_edge_cases db)"
    "answers_case a c" "claimed_by db (ea_envelope_id a) (ea_commitment a) ''accepted''"
    using a(3) by (auto simp: advice_ok_def)
  then show ?thesis using a by (intro bexI [of _ a] bexI [of _ c]) (auto simp: answers_case_def)
qed

lemma advice_views_in:
  "advice_views d rows = Inr vs \<Longrightarrow> v \<in> set vs \<Longrightarrow> \<exists>a \<in> set rows. vw_AdviceID v = ea_advice_id a"
  by (induction rows arbitrary: vs) (auto simp: advice_view_def split: sum.splits)

lemma quarantined_rows:
  assumes inv: "proj_inv db" and i: "ssp_edge_envelope_identity db i = Some r" "ir_state r = ''quarantined''"
    and a: "a \<in> set (ssp_edge_advice db)" "ea_envelope_id a = i"
    and b: "b \<in> set (ssp_edge_advice db)" "ea_state b = ''accepted''"
  shows "ea_advice_id b \<noteq> ea_advice_id a"
proof
  assume "ea_advice_id b = ea_advice_id a"
  then have "b = a" using a b proj_invD(5) [OF inv] by (metis distinct_map inj_onD)
  with proj_invD(2) [OF inv a(1)] a(2) b(2) i show False by (auto simp: advice_ok_def claimed_by_def)
qed

text \<open>
  C28.  Quarantine is for good.  Once an envelope is quarantined, then whatever the store does afterwards
  its advice is never handed to a front, never listed and never presented again.
\<close>

theorem quarantined_content_hidden:
  assumes "edge_reachable d db" "ssp_edge_envelope_identity db i = Some r" "ir_state r = ''quarantined''"
    and "edge_run d db db'" "a \<in> set (ssp_edge_advice db')" "ea_envelope_id a = i"
  shows "(\<forall>env front owner ttl limit now fds db''.
        ClaimFrontDeliveries d env front owner ttl limit now db' = (Inr fds, db'') \<longrightarrow>
        ea_advice_id a \<notin> set (map fd_AdviceID fds))
    \<and> (\<forall>env c vs. ListAdvice d env c db' = Inr vs \<longrightarrow> ea_advice_id a \<notin> set (map vw_AdviceID vs))
    \<and> (\<forall>env v. PresentAdvice d env (ea_advice_id a) db' \<noteq> Inr (Some v))"
proof -
  have inv: "log_inv db" using reachable_log_inv [OF assms(1)] .
  have proj: "proj_inv db'" using edge_run_proj [OF assms(4) inv reachable_proj_inv [OF assms(1)]] .
  obtain r' where r': "ssp_edge_envelope_identity db' i = Some r'" "ir_state r' = ''quarantined''"
    using edge_run_identity [OF assms(4) inv] assms(2,3) unfolding identity_kept_def by blast
  note hidden = quarantined_rows [OF proj r' assms(5,6)]
  have "ea_advice_id a \<notin> set (map fd_AdviceID fds)"
    if c: "ClaimFrontDeliveries d env front owner ttl limit now db' = (Inr fds, db'')" for env front owner ttl limit now fds db''
  proof
    assume "ea_advice_id a \<in> set (map fd_AdviceID fds)"
    then obtain fd where "fd \<in> set fds" "fd_AdviceID fd = ea_advice_id a" by auto
    with claimed_front [OF c] hidden show False by metis
  qed
  moreover have "ea_advice_id a \<notin> set (map vw_AdviceID vs)" if l: "ListAdvice d env c db' = Inr vs" for env c vs
  proof
    assume "ea_advice_id a \<in> set (map vw_AdviceID vs)"
    then obtain v where v: "v \<in> set vs" "vw_AdviceID v = ea_advice_id a" by auto
    have "advice_views d (sort_key (\<lambda>a. (ea_received_at a, ea_advice_id a))
         (filter (\<lambda>a. ea_case_id a = c \<and> ea_state a = ''accepted'') (ssp_edge_advice db'))) = Inr vs"
      using l by (auto simp: ListAdvice_def split: if_splits option.splits)
    from advice_views_in [OF this v(1)] obtain b where "b \<in> set (ssp_edge_advice db')" "ea_state b = ''accepted''"
      "vw_AdviceID v = ea_advice_id b" by auto
    with hidden [of b] v(2) show False by simp
  qed
  moreover have "PresentAdvice d env (ea_advice_id a) db' \<noteq> Inr (Some v)" for env v
    using hidden by (auto simp: PresentAdvice_def find_Some_iff split: if_splits option.splits sum.splits)
  ultimately show ?thesis by blast
qed

section \<open>Front deliveries\<close>

definition front_closed :: "front_row \<Rightarrow> bool" where
  "front_closed o' = (fo_state o' = ''delivered'' \<or> fo_state o' = ''quarantined'')"

text \<open>A closed front row keeps its receipt and stays closed.\<close>

definition front_kept :: "edge_db \<Rightarrow> edge_db \<Rightarrow> bool" where
  "front_kept a b =
    (\<forall>o' \<in> set (ssp_edge_front_outbox a). front_closed o' \<longrightarrow>
      (\<exists>o'' \<in> set (ssp_edge_front_outbox b). front_key o'' = front_key o' \<and> front_closed o''
         \<and> fo_delivery_receipt o'' = fo_delivery_receipt o'))"

lemma front_kept_refl [simp]: "front_kept db db"
  by (auto simp: front_kept_def)

lemma front_kept_trans:
  assumes "front_kept a b" "front_kept b c"
  shows "front_kept a c"
  unfolding front_kept_def
proof (intro ballI impI)
  fix o' assume "o' \<in> set (ssp_edge_front_outbox a)" "front_closed o'"
  then obtain o1 where "o1 \<in> set (ssp_edge_front_outbox b)" "front_key o1 = front_key o'" "front_closed o1"
    "fo_delivery_receipt o1 = fo_delivery_receipt o'" using assms(1) unfolding front_kept_def by blast
  then show "\<exists>o'' \<in> set (ssp_edge_front_outbox c). front_key o'' = front_key o' \<and> front_closed o''
         \<and> fo_delivery_receipt o'' = fo_delivery_receipt o'"
    using assms(2) unfolding front_kept_def by metis
qed

lemma front_kept_superset: "set (ssp_edge_front_outbox a) \<subseteq> set (ssp_edge_front_outbox b) \<Longrightarrow> front_kept a b"
  by (auto simp: front_kept_def)

lemma front_kept_update:
  assumes "\<And>r. q r \<Longrightarrow> \<not> front_closed r"
  shows "front_kept db (db\<lparr>ssp_edge_front_outbox := update_rows q f (ssp_edge_front_outbox db)\<rparr>)"
  unfolding front_kept_def
proof (intro ballI impI)
  fix o' assume o: "o' \<in> set (ssp_edge_front_outbox db)" "front_closed o'"
  then have "o' \<in> set (update_rows q f (ssp_edge_front_outbox db))"
    using assms by (force simp: update_rows_def image_iff)
  with o(2) show "\<exists>o'' \<in> set (ssp_edge_front_outbox (db\<lparr>ssp_edge_front_outbox := update_rows q f (ssp_edge_front_outbox db)\<rparr>)).
      front_key o'' = front_key o' \<and> front_closed o'' \<and> fo_delivery_receipt o'' = fo_delivery_receipt o'" by auto
qed

lemma claimIdentity_front_kept: "front_kept db (snd (claimIdentity i c dl now db))"
proof -
  have "front_closed (quarantined_front i db' o')" "fo_delivery_receipt (quarantined_front i db' o') = fo_delivery_receipt o'"
    if "front_closed o'" for db' o'
    using that by (simp_all add: front_closed_def quarantined_front_def)
  then show ?thesis
    by (auto simp: front_kept_def claimIdentity_def quarantine_projection_tables split: option.splits)
qed

lemma persist_front_kept: "persistProjection d env p now db = Inr db' \<Longrightarrow> front_kept db db'"
  by (rule front_kept_superset)
    (auto simp: persistProjection_def persist_case_def persist_advice_def insert_edge_case_def insert_edge_advice_def
      insert_front_def split: if_splits option.splits sum.splits)

lemma settle_front_kept:
  assumes "settle_delivery d env dl v rsn p now db = Inr (o', db')"
  shows "front_kept db db'"
proof (cases "v = VerdictAccepted")
  case True
  with assms obtain pr where p: "p = Some pr" by (auto simp: settle_delivery_def split: option.splits)
  obtain state db1 where c: "claimIdentity (vp_EnvelopeID pr) (vp_Commitment pr) dl now db = (state, db1)" by fastforce
  have k: "front_kept db db1" using claimIdentity_front_kept [of db] c by (metis snd_conv)
  have "db' = db1 \<or> persistProjection d env pr now db1 = Inr db'"
    using assms True by (auto simp: settle_delivery_def p c split: if_splits sum.splits)
  then show ?thesis using k persist_front_kept front_kept_trans by blast
qed (use assms in \<open>auto simp: settle_delivery_def\<close>)

lemma shown_front: "same_shown a b \<Longrightarrow> front_kept a b"
  by (rule front_kept_superset) (simp add: same_shown_def)

lemma apply_front_kept:
  assumes inv: "log_inv db"
  shows "front_kept db (snd (applyVerified d env dl v rsn p now allow db))"
proof (cases "validateDelivery dl v rsn p now = None \<and> jd_TenantID dl = db_tenant d")
  case True
  then have seq: "0 < jd_DeliverySeq dl" by (auto simp: validateDelivery_def split: if_splits)
  have "front_kept db db'" if "applyVerified_work d env dl v rsn p now allow db = Inr (outcome, db')" for outcome db'
    using inv seq that
  proof (cases rule: applyVerified_work_cases)
    case (halt reason)
    then show ?thesis using shown_front [OF same_shown_require] by simp
  next
    case (recorded v' rsn' db1)
    then show ?thesis
      using settle_front_kept [OF recorded(3)] shown_front [OF same_shown_advance] front_kept_trans by blast
  qed simp
  then show ?thesis using True
    by (simp add: applyVerified_def) (rule edge_transaction_snd [where P = "front_kept db"], auto)
qed (auto simp: applyVerified_def split: option.splits)

lemma front_ops_kept:
  "front_kept db (snd (ClaimFrontDeliveries d env front owner ttl limit now db))"
  "front_kept db (snd (MarkFrontDelivered d env rc now db))"
proof -
  have "front_kept db (leasing front owner ttl now i token db1)" if "front_kept db db1" for db1 i token
    unfolding leasing_def
    by (rule front_kept_trans [OF that]) (rule front_kept_update, auto simp: front_free_def front_closed_def)
  from claim_front_rows_keeps [where P = "front_kept db", OF this front_kept_refl]
  show "front_kept db (snd (ClaimFrontDeliveries d env front owner ttl limit now db))"
    by (auto simp: ClaimFrontDeliveries_def intro: edge_transaction_snd [where P = "front_kept db"])
  have "front_kept db db'" if "mark_front_work rc now db = Inr (r, db')" for r db'
    using that
    by (auto simp: mark_front_work_def front_closed_def intro!: front_kept_update split: option.splits if_splits)
  then show "front_kept db (snd (MarkFrontDelivered d env rc now db))"
    by (auto simp: MarkFrontDelivered_def intro: edge_transaction_snd [where P = "front_kept db"])
qed

lemma edge_step_front:
  assumes "edge_step d db db'" "log_inv db"
  shows "front_kept db db'"
proof -
  note local = shown_front [OF local_frame_shown]
  note [simp] = shown_front [OF state_ops_shown(1)] shown_front [OF state_ops_shown(2)] front_ops_kept
    local [OF spool_frame(1)] local [OF spool_frame(2)] local [OF spool_frame(3)] local [OF spool_frame(4)]
    local [OF turn_ops_frame(1)] local [OF turn_ops_frame(2)] local [OF turn_ops_frame(3)] local [OF turn_ops_frame(4)]
    apply_front_kept [OF assms(2)]
  from assms(1) show ?thesis by (cases rule: edge_step.cases) simp_all
qed

lemma edge_run_front:
  assumes "edge_run d db db'" "log_inv db"
  shows "front_kept db db'"
  using assms
  by (induction rule: edge_run.induct) (auto dest: edge_step_front edge_run_log intro: front_kept_trans)

text \<open>
  C29.  A front delivery is recorded once.  After a receipt was recorded for a front message, whatever the
  store does afterwards no claim hands the message out again, and the only receipt it ever accepts is
  that same one.
\<close>

theorem front_delivery_final:
  assumes "edge_reachable d db" "o' \<in> set (ssp_edge_front_outbox db)" "fo_state o' = ''delivered''"
    and "edge_run d db db'"
  shows "(\<forall>env owner ttl limit now fds db''.
        ClaimFrontDeliveries d env (fo_front o') owner ttl limit now db' = (Inr fds, db'') \<longrightarrow>
        fo_advice_id o' \<notin> set (map fd_AdviceID fds))
    \<and> (\<forall>env rc now res db''. MarkFrontDelivered d env rc now db' = (Inr res, db'') \<longrightarrow>
        fr_Front rc = fo_front o' \<longrightarrow> fr_MessageID rc = fo_message_id o' \<longrightarrow>
        res = DeliveryDuplicate \<and> coalesce (fo_delivery_receipt o') = fr_ReceiptID rc)"
proof -
  have inv: "log_inv db" and pinv: "proj_inv db" using reachable_log_inv reachable_proj_inv assms(1) by blast+
  have proj: "proj_inv db'" using edge_run_proj [OF assms(4) inv pinv] .
  obtain o1 where o1: "o1 \<in> set (ssp_edge_front_outbox db')" "front_key o1 = front_key o'" "front_closed o1"
    "fo_delivery_receipt o1 = fo_delivery_receipt o'"
    using edge_run_front [OF assms(4) inv] assms(2,3) unfolding front_kept_def front_closed_def by blast
  have same: "x = o1" if "x \<in> set (ssp_edge_front_outbox db')" "front_key x = front_key o'" for x
    using that o1(1,2) proj_invD(6) [OF proj] by (metis distinct_map inj_onD)
  have "fo_advice_id o' \<notin> set (map fd_AdviceID fds)"
    if c: "ClaimFrontDeliveries d env (fo_front o') owner ttl limit now db' = (Inr fds, db'')" for env owner ttl limit now fds db''
  proof
    assume "fo_advice_id o' \<in> set (map fd_AdviceID fds)"
    then obtain fd where "fd \<in> set fds" "fd_AdviceID fd = fo_advice_id o'" by auto
    with claimed_front [OF c] obtain x where "x \<in> set (ssp_edge_front_outbox db')" "fo_front x = fo_front o'"
      "fo_advice_id x = fo_advice_id o'" "front_free (sqlTime now) x" by metis
    with same [of x] o1(3) show False by (auto simp: front_key_def front_free_def front_closed_def)
  qed
  moreover have "res = DeliveryDuplicate \<and> coalesce (fo_delivery_receipt o') = fr_ReceiptID rc"
    if m: "MarkFrontDelivered d env rc now db' = (Inr res, db'')" and rc: "fr_Front rc = fo_front o'"
      "fr_MessageID rc = fo_message_id o'" for env rc now res db''
  proof -
    have w: "mark_front_work rc now db' = Inr (res, db'')"
      using m edge_transaction_Inr by (auto simp: MarkFrontDelivered_def split: if_splits)
    then obtain x where x: "find (\<lambda>o'. fo_front o' = fr_Front rc \<and> fo_message_id o' = fr_MessageID rc) (ssp_edge_front_outbox db') = Some x"
      by (auto simp: mark_front_work_def split: option.splits)
    then have x': "x \<in> set (ssp_edge_front_outbox db')" "fo_front x = fo_front o'" "fo_message_id x = fo_message_id o'"
      using rc by (auto simp: find_Some_iff)
    have "fo_advice_id x = fo_advice_id o'"
      using x'(2,3) proj_invD(3) [OF proj x'(1)] proj_invD(3) [OF pinv assms(2)]
      by (simp add: front_ok_def front_message_id_def)
    then have "x = o1" using same x'(1,2) by (simp add: front_key_def)
    then show ?thesis using w x o1(3,4) by (auto simp: mark_front_work_def front_closed_def split: if_splits)
  qed
  ultimately show ?thesis by blast
qed

end
