(* ===== verification/Edge_Example.thy ===== *)
theory Edge_Example
  imports Edge_Properties
begin

text \<open>
  A small run of the edge store: a case is delivered, advice answering it follows, a front shows the
  advice, and a second envelope under the advice's identifier quarantines it.  The promises of the edge
  store are applied to it.
\<close>

section \<open>The run\<close>

definition ex_aead :: aead where
  "ex_aead = \<lparr>NonceSize = 1, Seal = (\<lambda>n p a. a @ p),
     Open = (\<lambda>n c a. if take (length a) c = a then Some (drop (length a) c) else None)\<rparr>"

definition ex_edge :: EdgeDB where
  "ex_edge = \<lparr>db_sqlDB = True, db_key = Some ex_aead, db_tenant = ''t''\<rparr>"

definition ex_tx :: edge_tx where
  "ex_tx = \<lparr>tx_fault = None, tx_commit = None, tx_nonce = ''n'', tx_random = (\<lambda>_. ''r'')\<rparr>"

definition ex_sha :: "char \<Rightarrow> string" where
  "ex_sha c = ''sha256:'' @ replicate 64 c"

definition ex_delivery :: "int \<Rightarrow> bytes \<Rightarrow> JournalDelivery" where
  "ex_delivery seq raw =
    \<lparr>jd_Stream = [], jd_Sequence = 0, jd_DeliverySeq = seq, jd_TenantID = ''t'', jd_EdgeID = ''e'',
     jd_EdgeGeneration = 1, jd_Subject = ''s'', jd_Raw = raw\<rparr>"

definition ex_edge_case :: Case where
  "ex_edge_case =
    \<lparr>ca_CaseID = ''c'', ca_IssuerEdgeID = ''e'', ca_Domain = ''d'', ca_Summary = ''help'', ca_ContextManifest = ''m'',
     ca_IssuerEdgeGeneration = 1, ca_RouteKind = ''domain'', ca_RouteToken = RoutingToken ''d'',
     ca_SourceToken = EdgeRoutingToken ''e'' 1, ca_RoutingEpoch = 1, ca_RegistryRevision = 1,
     ca_RegistryHash = ex_sha CHR ''0'', ca_ExpiresAt = 9\<rparr>"

definition ex_edge_advice :: Advice where
  "ex_edge_advice =
    \<lparr>av_AdviceID = ''a'', av_CaseID = ''c'', av_CaseCommitment = ex_sha CHR ''1'', av_Text = ''do this'',
     av_IssuerEdgeID = ''e'', av_RouteKind = ''edge'', av_RouteToken = EdgeRoutingToken ''e'' 1,
     av_IssuerEdgeGeneration = 1, av_RoutingEpoch = 1, av_RegistryRevision = 1,
     av_RegistryHash = ex_sha CHR ''0'', av_ExpiresAt = 9\<rparr>"

definition ex_p1 :: VerifiedProjection where
  "ex_p1 = \<lparr>vp_EnvelopeID = ''ce'', vp_Commitment = ex_sha CHR ''1'', vp_Family = FamilyCase,
            vp_Case = Some ex_edge_case, vp_Advice = None\<rparr>"

definition ex_p2 :: VerifiedProjection where
  "ex_p2 = \<lparr>vp_EnvelopeID = ''a'', vp_Commitment = ex_sha CHR ''2'', vp_Family = FamilyAdvice,
            vp_Case = None, vp_Advice = Some ex_edge_advice\<rparr>"

definition ex_p3 :: VerifiedProjection where
  "ex_p3 = ex_p2\<lparr>vp_Commitment := ex_sha CHR ''3''\<rparr>"

abbreviation ex_key :: edge_key where
  "ex_key \<equiv> (''t'', ''e'', 1)"

abbreviation ex_apply :: "int \<Rightarrow> bytes \<Rightarrow> VerifiedProjection \<Rightarrow> edge_db \<Rightarrow> (edge_error + string) \<times> edge_db" where
  "ex_apply seq raw p \<equiv> applyVerified ex_edge ex_tx (ex_delivery seq raw) VerdictAccepted [] (Some p) 1 False"

definition ex_e1 :: edge_db where
  "ex_e1 = snd (ex_apply 1 ''case'' ex_p1 edge_init)"

definition ex_e2 :: edge_db where
  "ex_e2 = snd (ex_apply 2 ''advice'' ex_p2 ex_e1)"

definition ex_e3 :: edge_db where
  "ex_e3 = snd (ClaimFrontDeliveries ex_edge ex_tx FrontCLI ''w'' 10 5 1 ex_e2)"

definition ex_e4 :: edge_db where
  "ex_e4 = snd (MarkFrontDelivered ex_edge ex_tx
     \<lparr>fr_Front = FrontCLI, fr_MessageID = ''snagline.cli.advice.v1/a'', fr_ClaimToken = ''72'', fr_ReceiptID = ''seen''\<rparr> 2 ex_e3)"

definition ex_e5 :: edge_db where
  "ex_e5 = snd (ex_apply 3 ''other'' ex_p3 ex_e2)"

lemma routing_token_ok [simp]: "routingTokenRE (RoutingToken x)" "0 < g \<Longrightarrow> routingTokenRE (EdgeRoutingToken x g)"
  by (simp_all add: routingTokenRE_def RoutingToken_def EdgeRoutingToken_def EdgeToken_def hashLengthPrefixed_def
      hex_encode_lower)

lemma ex_sha_ok [simp]: "c \<in> set ''0123'' \<Longrightarrow> sha256RE (ex_sha c)"
  by (auto simp: sha256RE_def ex_sha_def is_lower_hex_def list_all_iff)

lemmas ex_parts = ex_edge_def ex_tx_def ex_delivery_def ex_aead_def ex_edge_case_def ex_edge_advice_def
  ex_p1_def ex_p2_def ex_p3_def

lemma ex_edge_valid:
  "0 < seq \<Longrightarrow> raw \<noteq> [] \<Longrightarrow> validateDelivery (ex_delivery seq raw) VerdictAccepted [] (Some ex_p1) 1 = None"
  "0 < seq \<Longrightarrow> raw \<noteq> [] \<Longrightarrow> validateDelivery (ex_delivery seq raw) VerdictAccepted [] (Some ex_p2) 1 = None"
  "0 < seq \<Longrightarrow> raw \<noteq> [] \<Longrightarrow> validateDelivery (ex_delivery seq raw) VerdictAccepted [] (Some ex_p3) 1 = None"
  by (simp_all add: validateDelivery_def ex_parts zero_time_def known_family_def invalid_case_def invalid_advice_def
      case_misrouted_def advice_misrouted_def)

lemma ex_env [simp]: "tx_fault ex_tx = None" "tx_commit ex_tx = None" "db_sqlDB ex_edge" "db_tenant ex_edge = ''t''"
  "jd_TenantID (ex_delivery seq raw) = ''t''" "jd_DeliverySeq (ex_delivery seq raw) = seq"
  "identity_key (delivery_identity (ex_delivery seq raw)) = ex_key"
  by (simp_all add: ex_parts identity_key_def delivery_identity_def)

definition ex_state :: "int \<Rightarrow> state_row" where
  "ex_state n = \<lparr>st_last_contiguous_seq = n, st_high_watermark = n, st_mode = ''active'', st_reason = [],
     st_updated_at = sqlTime 1\<rparr>"

definition ex_claim_row :: "VerifiedProjection \<Rightarrow> int \<Rightarrow> identity_row" where
  "ex_claim_row p n = \<lparr>ir_commitment = vp_Commitment p, ir_state = ''accepted'', ir_first_delivery_seq = n,
     ir_first_seen_at = sqlTime 1, ir_conflicting_commitment = None, ir_conflicting_delivery_seq = None,
     ir_quarantined_at = None\<rparr>"

definition ex_case_stored :: edge_case_row where
  "ex_case_stored = edge_case_row_of ex_p1 ex_edge_case
     (''n'' @ field_aad ex_edge ''ssp_edge_cases'' ''c'' @ encodeCasePayload ''help'' ''m'')"

definition ex_advice_stored :: edge_advice_row where
  "ex_advice_stored = edge_advice_row_of ex_p2 ex_edge_advice
     (''n'' @ field_aad ex_edge ''ssp_edge_advice'' ''a'' @ ''do this'') 1"

lemma ex_seal [simp]: "seal ex_edge ex_tx table key plain = Inr (''n'' @ field_aad ex_edge table key @ plain)"
  by (simp add: seal_def ex_edge_def ex_tx_def ex_aead_def)

lemma ex_proj [simp]:
  "vp_EnvelopeID ex_p1 = ''ce''" "vp_Family ex_p1 = FamilyCase" "vp_Case ex_p1 = Some ex_edge_case"
  "vp_EnvelopeID ex_p2 = ''a''" "vp_Family ex_p2 = FamilyAdvice" "vp_Advice ex_p2 = Some ex_edge_advice"
  "vp_EnvelopeID ex_p3 = ''a''" "ca_CaseID ex_edge_case = ''c''" "ca_Summary ex_edge_case = ''help''"
  "ca_ContextManifest ex_edge_case = ''m''" "av_CaseID ex_edge_advice = ''c''" "av_AdviceID ex_edge_advice = ''a''"
  "av_Text ex_edge_advice = ''do this''" "jd_Sequence (ex_delivery seq raw) = 0"
  "vp_Commitment ex_p2 \<noteq> vp_Commitment ex_p3"
  by (simp_all add: ex_parts ex_sha_def)

lemmas ex_work = applyVerified_work_def Let_def deliveryStateTx_def zero_state_def wrap64_def
  find_delivery_def settle_delivery_def claimIdentity_def persistProjection_def insert_delivery_def
  advanceDeliveryStateTx_def

lemma ex_apply1:
  "ex_apply 1 ''case'' ex_p1 edge_init = (Inr ApplyAccepted,
    edge_init\<lparr>ssp_edge_delivery_state := [ex_key \<mapsto> ex_state 1],
      ssp_edge_deliveries := [delivery_row_of (ex_delivery 1 ''case'') (Some ex_p1) VerdictAccepted [] 1],
      ssp_edge_envelope_identity := [''ce'' \<mapsto> ex_claim_row ex_p1 1], ssp_edge_cases := [ex_case_stored]\<rparr>)"
  by (rule applyVerified_valid)
    (simp_all add: ex_edge_valid ex_work edge_init_def persist_case_def insert_edge_case_def
      delivery_row_of_def ex_state_def ex_claim_row_def ex_case_stored_def)

lemma ex_e1_eq: "ex_e1 = edge_init\<lparr>ssp_edge_delivery_state := [ex_key \<mapsto> ex_state 1],
      ssp_edge_deliveries := [delivery_row_of (ex_delivery 1 ''case'') (Some ex_p1) VerdictAccepted [] 1],
      ssp_edge_envelope_identity := [''ce'' \<mapsto> ex_claim_row ex_p1 1], ssp_edge_cases := [ex_case_stored]\<rparr>"
  by (simp add: ex_e1_def ex_apply1)

lemma ex_stored [simp]:
  "ec_case_id ex_case_stored = ''c''" "ec_state ex_case_stored = ''accepted''" "ec_envelope_id ex_case_stored = ''ce''"
  "advice_binds_case ex_edge_advice ex_case_stored"
  "ea_advice_id ex_advice_stored = ''a''" "ea_state ex_advice_stored = ''accepted''" "ea_envelope_id ex_advice_stored = ''a''"
  "ea_case_id ex_advice_stored = ''c''"
  by (simp_all add: ex_case_stored_def ex_advice_stored_def edge_case_row_of_def edge_advice_row_of_def ex_parts
      advice_binds_case_def)

lemma ex_apply2:
  "ex_apply 2 ''advice'' ex_p2 ex_e1 = (Inr ApplyAccepted,
    edge_init\<lparr>ssp_edge_delivery_state := [ex_key \<mapsto> ex_state 2],
      ssp_edge_deliveries := [delivery_row_of (ex_delivery 1 ''case'') (Some ex_p1) VerdictAccepted [] 1,
        delivery_row_of (ex_delivery 2 ''advice'') (Some ex_p2) VerdictAccepted [] 1],
      ssp_edge_envelope_identity := [''ce'' \<mapsto> ex_claim_row ex_p1 1, ''a'' \<mapsto> ex_claim_row ex_p2 2],
      ssp_edge_cases := [ex_case_stored], ssp_edge_advice := [ex_advice_stored],
      ssp_edge_front_outbox := [fresh_front FrontCLI ''a'' 1, fresh_front FrontAMQ ''a'' 1]\<rparr>)"
  by (rule applyVerified_valid)
    (simp_all add: ex_edge_valid ex_work edge_init_def ex_e1_eq persist_advice_def insert_edge_advice_def insert_front_def
      delivery_row_of_def ex_state_def state_of_row_def ex_claim_row_def ex_advice_stored_def fresh_front_def front_message_id_def)

lemma ex_e2_eq: "ex_e2 = edge_init\<lparr>ssp_edge_delivery_state := [ex_key \<mapsto> ex_state 2],
      ssp_edge_deliveries := [delivery_row_of (ex_delivery 1 ''case'') (Some ex_p1) VerdictAccepted [] 1,
        delivery_row_of (ex_delivery 2 ''advice'') (Some ex_p2) VerdictAccepted [] 1],
      ssp_edge_envelope_identity := [''ce'' \<mapsto> ex_claim_row ex_p1 1, ''a'' \<mapsto> ex_claim_row ex_p2 2],
      ssp_edge_cases := [ex_case_stored], ssp_edge_advice := [ex_advice_stored],
      ssp_edge_front_outbox := [fresh_front FrontCLI ''a'' 1, fresh_front FrontAMQ ''a'' 1]\<rparr>"
  by (simp add: ex_e2_def ex_apply2)

lemma ex_open [simp]:
  "open_field ex_edge ''ssp_edge_advice'' ''a'' (ea_text_ciphertext ex_advice_stored) = Inr ''do this''"
  by (simp add: open_field_def ex_advice_stored_def edge_advice_row_of_def ex_edge_def ex_aead_def)

definition ex_shown :: FrontDelivery where
  "ex_shown = \<lparr>fd_Front = FrontCLI, fd_CaseID = ''c'', fd_AdviceID = ''a'',
     fd_MessageID = ''snagline.cli.advice.v1/a'', fd_Text = ''do this'', fd_ClaimToken = ''72''\<rparr>"

lemma ex_claim3:
  "ClaimFrontDeliveries ex_edge ex_tx FrontCLI ''w'' 10 5 1 ex_e2 = (Inr [ex_shown],
     ex_e2\<lparr>ssp_edge_front_outbox := [front_lease ''w'' (sqlTime 11) ''72'' (fresh_front FrontCLI ''a'' 1), fresh_front FrontAMQ ''a'' 1]\<rparr>)"
proof -
  have sel: "select_front FrontCLI (sqlTime 1) 5 ex_e2 = [(fresh_front FrontCLI ''a'' 1, ex_advice_stored)]"
    by (simp add: select_front_def ex_e2_eq fresh_front_def front_free_def)
  have tok: "claimToken ex_tx 0 = ''72''" by code_simp
  have "claim_front_rows ex_edge ex_tx FrontCLI ''w'' 10 1 [(fresh_front FrontCLI ''a'' 1, ex_advice_stored)] 0 ex_e2
      = Inr ([ex_shown], ex_e2\<lparr>ssp_edge_front_outbox :=
          [front_lease ''w'' (sqlTime 11) ''72'' (fresh_front FrontCLI ''a'' 1), fresh_front FrontAMQ ''a'' 1]\<rparr>)"
    by (simp add: tok Let_def ex_e2_eq rows_affected_def update_rows_def front_free_def fresh_front_def ex_shown_def front_message_id_def)
  then show ?thesis
    by (simp add: ClaimFrontDeliveries_def zero_time_def edge_transaction_def sel)
qed

lemma ex_e3_eq:
  "ex_e3 = ex_e2\<lparr>ssp_edge_front_outbox := [front_lease ''w'' (sqlTime 11) ''72'' (fresh_front FrontCLI ''a'' 1), fresh_front FrontAMQ ''a'' 1]\<rparr>"
  by (simp add: ex_e3_def ex_claim3)

definition ex_delivered :: front_row where
  "ex_delivered = front_delivered ''seen'' (sqlTime 2) (front_lease ''w'' (sqlTime 11) ''72'' (fresh_front FrontCLI ''a'' 1))"

lemma ex_e4_front: "ssp_edge_front_outbox ex_e4 = [ex_delivered, fresh_front FrontAMQ ''a'' 1]"
  by (simp add: ex_e4_def MarkFrontDelivered_def zero_time_def edge_transaction_def mark_front_work_def ex_e3_eq
      fresh_front_def front_lease_def front_message_id_def coalesce_def update_rows_def ex_delivered_def front_delivered_def)

lemma ex_apply3:
  "ex_apply 3 ''other'' ex_p3 ex_e2 = (Inr ApplyQuarantined, ex_e5)"
  "\<exists>r. ssp_edge_envelope_identity ex_e5 ''a'' = Some r \<and> ir_state r = ''quarantined''"
  "ssp_edge_advice ex_e5 = [quarantined_advice ''a'' ex_advice_stored]"
proof -
  define db1 where "db1 = snd (claimIdentity ''a'' (vp_Commitment ex_p3) (ex_delivery 3 ''other'') 1 ex_e2)"
  have c: "claimIdentity ''a'' (vp_Commitment ex_p3) (ex_delivery 3 ''other'') 1 ex_e2 = (ApplyQuarantined, db1)"
    by (simp add: db1_def) (simp add: claimIdentity_def ex_e2_eq ex_claim_row_def)
  let ?db = "advanceDeliveryStateTx (delivery_identity (ex_delivery 3 ''other'')) True 3 1
      (db1\<lparr>ssp_edge_deliveries := ssp_edge_deliveries db1 @
         [delivery_row_of (ex_delivery 3 ''other'') (Some ex_p3) VerdictQuarantined ''semantic_commitment_conflict'' 1]\<rparr>)"
  have e: "ex_apply 3 ''other'' ex_p3 ex_e2 = (Inr ApplyQuarantined, ?db)"
  proof (rule applyVerified_valid)
    have "settle_delivery ex_edge ex_tx (ex_delivery 3 ''other'') VerdictAccepted [] (Some ex_p3) 1 ex_e2
        = Inr ((ApplyQuarantined, VerdictQuarantined, ''semantic_commitment_conflict''), db1)"
      by (simp add: settle_delivery_def c)
    then show "applyVerified_work ex_edge ex_tx (ex_delivery 3 ''other'') VerdictAccepted [] (Some ex_p3) 1 False ex_e2 = Inr (ApplyQuarantined, ?db)"
      by (simp add: applyVerified_work_def Let_def deliveryStateTx_def ex_e2_eq ex_state_def state_of_row_def wrap64_def
          find_delivery_def insert_delivery_def) (simp add: delivery_row_of_def)
  qed (simp_all add: ex_edge_valid)
  then have e5: "ex_e5 = ?db" by (simp add: ex_e5_def)
  show "ex_apply 3 ''other'' ex_p3 ex_e2 = (Inr ApplyQuarantined, ex_e5)" using e e5 by simp
  have "ssp_edge_envelope_identity ex_e5 = ssp_edge_envelope_identity db1 \<and> ssp_edge_advice ex_e5 = ssp_edge_advice db1"
    using advance_tables(2) unfolding e5 same_projection_tables_def by simp
  moreover have "db1 = quarantine_projection ''a'' (ex_e2\<lparr>ssp_edge_envelope_identity := (ssp_edge_envelope_identity ex_e2)(''a'' \<mapsto>
      quarantine_identity (vp_Commitment ex_p3) (ex_delivery 3 ''other'') 1 (ex_claim_row ex_p2 2))\<rparr>)"
    by (simp add: db1_def claimIdentity_def ex_e2_eq ex_claim_row_def)
  ultimately show "\<exists>r. ssp_edge_envelope_identity ex_e5 ''a'' = Some r \<and> ir_state r = ''quarantined''"
    "ssp_edge_advice ex_e5 = [quarantined_advice ''a'' ex_advice_stored]"
    by (simp_all add: quarantine_projection_tables quarantine_identity_def ex_e2_eq)
qed

lemma ex_edge_reachable: "edge_reachable ex_edge ex_e1" "edge_reachable ex_edge ex_e2" "edge_reachable ex_edge ex_e4"
  "edge_reachable ex_edge ex_e5"
proof -
  show 1: "edge_reachable ex_edge ex_e1"
    unfolding ex_e1_def by (rule edge_run_step1) (rule edge_step.intros)
  show 2: "edge_reachable ex_edge ex_e2"
    unfolding ex_e2_def by (rule run_step [OF 1]) (rule edge_step.intros)
  have 3: "edge_reachable ex_edge ex_e3"
    unfolding ex_e3_def by (rule run_step [OF 2]) (rule edge_step.intros)
  show "edge_reachable ex_edge ex_e4"
    unfolding ex_e4_def by (rule run_step [OF 3]) (rule edge_step.intros)
  show "edge_reachable ex_edge ex_e5"
    unfolding ex_e5_def by (rule run_step [OF 2]) (rule edge_step.intros)
qed

section \<open>The promises on the run\<close>

text \<open>What a front is handed in a state of the run.\<close>

definition claimed_by_front :: "edge_db \<Rightarrow> FrontDelivery list" where
  "claimed_by_front db =
    (case fst (ClaimFrontDeliveries ex_edge ex_tx FrontCLI ''w'' 10 5 100 db) of Inl _ \<Rightarrow> [] | Inr fds \<Rightarrow> fds)"

lemma claimed_by_frontI:
  assumes "\<And>fds db'. ClaimFrontDeliveries ex_edge ex_tx FrontCLI ''w'' 10 5 100 db = (Inr fds, db') \<Longrightarrow>
    x \<notin> set (map fd_AdviceID fds)"
  shows "x \<notin> set (map fd_AdviceID (claimed_by_front db))"
proof (cases "ClaimFrontDeliveries ex_edge ex_tx FrontCLI ''w'' 10 5 100 db")
  case (Pair r db')
  then show ?thesis using assms by (cases r) (auto simp: claimed_by_front_def)
qed

theorem edge_store_log_contiguous_witness:
  "edge_reachable ex_edge ex_e2 \<and> map dl_delivery_seq (log_of ex_key ex_e2) = [1, 2]"
  using edge_store_log_contiguous [OF ex_edge_reachable(2), of ex_key] ex_edge_reachable(2)
  by (simp add: ex_e2_eq last_seq_def ex_state_def upto.simps)

theorem redelivery_is_duplicate_witness:
  "applyVerified ex_edge ex_tx (ex_delivery 1 ''case'') VerdictRejected ''late'' None 5 True ex_e2 = (Inr ApplyDuplicate, ex_e2)"
proof -
  have run: "edge_run ex_edge ex_e1 ex_e2" unfolding ex_e2_def by (rule edge_run_step1) (rule edge_step.intros)
  show ?thesis
  proof (rule redelivery_is_duplicate [where dl = "ex_delivery 1 ''case''" and db = edge_init and d = ex_edge and env = ex_tx])
    show "ex_apply 1 ''case'' ex_p1 edge_init = (Inr ApplyAccepted, ex_e1)" using ex_apply1 by (simp add: ex_e1_eq)
    show "validateDelivery (ex_delivery 1 ''case'') VerdictRejected ''late'' None 5 = None"
      by (simp add: validateDelivery_def ex_delivery_def zero_time_def)
  qed (simp_all add: run run_refl)
qed

theorem conflicting_redelivery_halts_witness:
  "\<exists>db'. applyVerified ex_edge ex_tx ((ex_delivery 1 ''case'')\<lparr>jd_Subject := ''x''\<rparr>) VerdictAccepted [] (Some ex_p1) 1 False ex_e2
     = (Inr ApplyIdentityConflict, db') \<and> halted_key ex_key db' \<and> (\<forall>key. log_of key db' = log_of key ex_e2)"
proof -
  let ?dl = "(ex_delivery 1 ''case'')\<lparr>jd_Subject := ''x''\<rparr>"
  have key: "identity_key (delivery_identity ?dl) = ex_key" by (simp add: identity_key_def delivery_identity_def ex_delivery_def)
  have "\<exists>db'. applyVerified ex_edge ex_tx ?dl VerdictAccepted [] (Some ex_p1) 1 False ex_e2 = (Inr ApplyIdentityConflict, db')
    \<and> halted_key (identity_key (delivery_identity ?dl)) db' \<and> (\<forall>key. log_of key db' = log_of key ex_e2)"
  proof (rule conflicting_redelivery_halts [OF ex_edge_reachable(2)])
    show "delivery_row_of (ex_delivery 1 ''case'') (Some ex_p1) VerdictAccepted [] 1 \<in> set (log_of (identity_key (delivery_identity ?dl)) ex_e2)"
      by (simp add: key log_of_def ex_e2_eq)
    show "validateDelivery ?dl VerdictAccepted [] (Some ex_p1) 1 = None"
      by (simp add: validateDelivery_def ex_parts zero_time_def known_family_def invalid_case_def invalid_advice_def
          case_misrouted_def advice_misrouted_def)
  qed (simp_all add: same_evidence_def ex_delivery_def)
  then show ?thesis by (simp add: key)
qed

definition ex_e6 :: edge_db where
  "ex_e6 = snd (RequireReconciliation ex_edge ex_tx \<lparr>id_TenantID = ''t'', id_EdgeID = ''e'', id_Generation = 1\<rparr> 7 ''gap'' 1 ex_e2)"

lemma ex_e6_halted: "edge_reachable ex_edge ex_e6" "halted_key ex_key ex_e6"
proof -
  show "edge_reachable ex_edge ex_e6"
    unfolding ex_e6_def by (rule run_step [OF ex_edge_reachable(2)]) (rule edge_step.intros)
  show "halted_key ex_key ex_e6"
    by (simp add: ex_e6_def RequireReconciliation_def EdgeIdentity_validate_def zero_time_def edge_transaction_def
        halted_key_def require_state deliveryStateTx_simps identity_key_def ex_e2_eq)
qed

abbreviation ex_identity :: EdgeIdentity where
  "ex_identity \<equiv> \<lparr>id_TenantID = ''t'', id_EdgeID = ''e'', id_Generation = 1\<rparr>"

definition ex_e7 :: edge_db where
  "ex_e7 = snd (RequireReconciliation ex_edge ex_tx ex_identity 2 ''replay'' 1 ex_e2)"

definition ex_e8 :: edge_db where
  "ex_e8 = snd (CompleteReconciliation ex_edge ex_tx ex_identity 2 2 3 ex_e7)"

lemma ex_e7_halted: "edge_reachable ex_edge ex_e7" "halted_key ex_key ex_e7"
  "edge_step ex_edge ex_e7 ex_e8" "\<not> halted_key ex_key ex_e8"
proof -
  show "edge_reachable ex_edge ex_e7"
    unfolding ex_e7_def by (rule run_step [OF ex_edge_reachable(2)]) (rule edge_step.intros)
  show "halted_key ex_key ex_e7"
    by (simp add: ex_e7_def RequireReconciliation_def EdgeIdentity_validate_def zero_time_def edge_transaction_def
        halted_key_def require_state deliveryStateTx_simps identity_key_def ex_e2_eq)
  show "edge_step ex_edge ex_e7 ex_e8" unfolding ex_e8_def by (rule edge_step.intros)
  show "\<not> halted_key ex_key ex_e8"
    by (simp add: ex_e8_def ex_e7_def RequireReconciliation_def CompleteReconciliation_def EdgeIdentity_validate_def
        zero_time_def edge_transaction_def ex_tx_def halted_key_def require_state deliveryStateTx_simps identity_key_def
        ex_e2_eq ex_state_def deliveryStateTx_def state_of_row_def)
qed

theorem halted_generation_frozen_witness:
  "halted_key ex_key ex_e6 \<and> log_of ex_key (snd (ApplyVerified ex_edge ex_tx (ex_delivery 3 ''x'') VerdictRejected ''r'' None 5 ex_e6)) = log_of ex_key ex_e6
    \<and> halted_key ex_key (snd (ApplyVerified ex_edge ex_tx (ex_delivery 3 ''x'') VerdictRejected ''r'' None 5 ex_e6))
    \<and> reconciled ex_edge ex_key ex_e7 ex_e8"
  using halted_generation_frozen [OF ex_e6_halted, of ex_tx "ex_delivery 3 ''x''" VerdictRejected "''r''" None 5] ex_e6_halted(2)
    halted_generation_frozen [OF ex_e7_halted(1,2)] ex_e7_halted(3,4) by blast

theorem front_claims_bound_witness:
  "\<exists>a \<in> set (ssp_edge_advice ex_e2). \<exists>c \<in> set (ssp_edge_cases ex_e2).
    ea_advice_id a = fd_AdviceID ex_shown \<and> claimed_by ex_e2 (ea_envelope_id a) (ea_commitment a) ''accepted''
    \<and> answers_case a c \<and> ec_case_id c = fd_CaseID ex_shown
    \<and> open_field ex_edge ''ssp_edge_advice'' (fd_AdviceID ex_shown) (ea_text_ciphertext a) = Inr (fd_Text ex_shown)"
  by (rule front_claims_bound [OF ex_edge_reachable(2) ex_claim3]) simp

theorem quarantined_content_hidden_witness:
  "ea_advice_id (quarantined_advice ''a'' ex_advice_stored) = ''a''
    \<and> quarantined_advice ''a'' ex_advice_stored \<in> set (ssp_edge_advice ex_e5)
    \<and> ''a'' \<notin> set (map fd_AdviceID (claimed_by_front ex_e5))
    \<and> ''a'' \<notin> set (map vw_AdviceID (case ListAdvice ex_edge ex_tx ''c'' ex_e5 of Inl _ \<Rightarrow> [] | Inr vs \<Rightarrow> vs))
    \<and> (\<forall>v. PresentAdvice ex_edge ex_tx ''a'' ex_e5 \<noteq> Inr (Some v))"
proof -
  obtain r where r: "ssp_edge_envelope_identity ex_e5 ''a'' = Some r" "ir_state r = ''quarantined''" using ex_apply3(2) by blast
  have a: "quarantined_advice ''a'' ex_advice_stored \<in> set (ssp_edge_advice ex_e5)"
    "ea_envelope_id (quarantined_advice ''a'' ex_advice_stored) = ''a''" using ex_apply3(3) by simp_all
  note hidden = quarantined_content_hidden [OF ex_edge_reachable(4) r run_refl a]
  have id: "ea_advice_id (quarantined_advice ''a'' ex_advice_stored) = ''a''" by simp
  have "''a'' \<notin> set (map fd_AdviceID (claimed_by_front ex_e5))"
    using hidden id by (intro claimed_by_frontI) metis
  moreover have "''a'' \<notin> set (map vw_AdviceID (case ListAdvice ex_edge ex_tx ''c'' ex_e5 of Inl _ \<Rightarrow> [] | Inr vs \<Rightarrow> vs))"
    using hidden id by (cases "ListAdvice ex_edge ex_tx ''c'' ex_e5") simp_all
  ultimately show ?thesis using hidden id a(1) by simp
qed

theorem front_delivery_final_witness:
  "fo_state ex_delivered = ''delivered'' \<and> ''a'' \<notin> set (map fd_AdviceID (claimed_by_front ex_e4))"
proof -
  have o: "ex_delivered \<in> set (ssp_edge_front_outbox ex_e4)" "fo_state ex_delivered = ''delivered''" "fo_front ex_delivered = FrontCLI"
    "fo_advice_id ex_delivered = ''a''"
    by (simp_all add: ex_e4_front ex_delivered_def front_delivered_def front_lease_def fresh_front_def)
  from front_delivery_final [OF ex_edge_reachable(3) o(1,2) run_refl] o
  have "''a'' \<notin> set (map fd_AdviceID (claimed_by_front ex_e4))" by (intro claimed_by_frontI) metis
  with o show ?thesis by simp
qed

end
