(* ===== verification/Edge_Spool_Properties.thy ===== *)
theory Edge_Spool_Properties
  imports Edge_Example
begin

text \<open>
  The spool keeps signed bytes exactly: what was saved is loaded back byte for byte after any further
  activity of the store, and a different wire under the same case is refused.  The
  acceptance of a case is recorded once.  The cipher is assumed to
  open what it sealed, under nonces of its own length, which is the contract of \<^verbatim>\<open>cipher.AEAD\<close>.
\<close>

section \<open>Field encryption\<close>

definition aead_sound :: "EdgeDB \<Rightarrow> bool" where
  "aead_sound d =
    (\<exists>k. db_key d = Some k \<and> (\<forall>n p a. length n = NonceSize k \<longrightarrow> Open k n (Seal k n p a) a = Some p))"

definition nonce_ok :: "EdgeDB \<Rightarrow> edge_tx \<Rightarrow> bool" where
  "nonce_ok d env = (\<forall>k. db_key d = Some k \<longrightarrow> length (tx_nonce env) = NonceSize k)"

lemma open_seal:
  "aead_sound d \<Longrightarrow> nonce_ok d env \<Longrightarrow> seal d env table key plain = Inr c \<Longrightarrow> open_field d table key c = Inr plain"
  by (auto simp: aead_sound_def nonce_ok_def seal_def open_field_def)

lemma stored_time_sqlTime: "storable_time t \<Longrightarrow> stored_time (sqlTime t) = Inr t"
  unfolding stored_time_def by (simp add: sqlTime_reads_back)

section \<open>The spool tables under every step\<close>

text \<open>The tables of the local producers: the two spools and the turn guard.\<close>

definition same_spool :: "edge_db \<Rightarrow> edge_db \<Rightarrow> bool" where
  "same_spool a b =
    (ssp_edge_pending_cases b = ssp_edge_pending_cases a \<and> ssp_edge_pending_advice b = ssp_edge_pending_advice a
     \<and> ssp_edge_dispatcher_turns b = ssp_edge_dispatcher_turns a)"

lemma same_spool_refl [simp]: "same_spool db db"
  by (simp add: same_spool_def)

lemma same_spool_trans: "same_spool a b \<Longrightarrow> same_spool b c \<Longrightarrow> same_spool a c"
  by (simp add: same_spool_def)

lemma claimIdentity_spool: "same_spool db (snd (claimIdentity i c dl now db))"
  by (simp add: claimIdentity_def quarantine_projection_def Let_def same_spool_def split: option.splits)

lemma persist_spool: "persistProjection d env p now db = Inr db' \<Longrightarrow> same_spool db db'"
  by (auto simp: persistProjection_def persist_case_def persist_advice_def insert_edge_case_def insert_edge_advice_def
      insert_front_def same_spool_def split: if_splits option.splits sum.splits)

lemma settle_spool:
  assumes "settle_delivery d env dl v rsn p now db = Inr (o', db')"
  shows "same_spool db db'"
proof (cases "v = VerdictAccepted")
  case True
  with assms obtain pr where p: "p = Some pr" by (auto simp: settle_delivery_def split: option.splits)
  obtain state db1 where c: "claimIdentity (vp_EnvelopeID pr) (vp_Commitment pr) dl now db = (state, db1)" by fastforce
  have k: "same_spool db db1" using claimIdentity_spool [of db] c by (metis snd_conv)
  have "db' = db1 \<or> persistProjection d env pr now db1 = Inr db'"
    using assms True by (auto simp: settle_delivery_def p c split: if_splits sum.splits)
  then show ?thesis using k persist_spool same_spool_trans by blast
qed (use assms in \<open>auto simp: settle_delivery_def\<close>)

lemma require_spool: "same_spool db (requireReconciliationTx st observed reason now db)"
  by (simp add: requireReconciliationTx_def Let_def same_spool_def)

lemma advance_spool: "same_spool db (advanceDeliveryStateTx i ex seq now (db\<lparr>ssp_edge_deliveries := rows\<rparr>))"
  by (simp add: advanceDeliveryStateTx_def Let_def same_spool_def split: option.splits)

lemma apply_spool:
  assumes inv: "log_inv db"
  shows "same_spool db (snd (applyVerified d env dl v rsn p now allow db))"
proof (cases "validateDelivery dl v rsn p now = None \<and> jd_TenantID dl = db_tenant d")
  case True
  then have seq: "0 < jd_DeliverySeq dl" by (auto simp: validateDelivery_def split: if_splits)
  have "same_spool db db'" if "applyVerified_work d env dl v rsn p now allow db = Inr (outcome, db')" for outcome db'
    using inv seq that
  proof (cases rule: applyVerified_work_cases)
    case (recorded v' rsn' db1)
    then show ?thesis using settle_spool [OF recorded(3)] advance_spool same_spool_trans by blast
  qed (simp_all add: require_spool)
  then show ?thesis using True
    by (simp add: applyVerified_def) (rule edge_transaction_snd [where P = "same_spool db"], auto)
qed (auto simp: applyVerified_def split: option.splits)

lemma state_ops_spool:
  "same_spool db (snd (RequireReconciliation d env i observed reason now db))"
  "same_spool db (snd (CompleteReconciliation d env i through high now db))"
  using require_spool
  by (auto simp: RequireReconciliation_def CompleteReconciliation_def edge_transaction_def same_spool_def
      split: option.splits sum.splits)

lemma front_only_spool: "front_only a b \<Longrightarrow> same_spool a b"
  by (auto simp: front_only_def same_spool_def)

text \<open>What identifies a spooled wire: everything but its acceptance.\<close>

definition case_wire :: "pending_case_row \<Rightarrow> string \<times> string \<times> bytes \<times> string" where
  "case_wire r = (pc_envelope_id r, pc_commitment r, pc_raw_ciphertext r, pc_created_at r)"

definition advice_wire :: "pending_advice_row \<Rightarrow> string \<times> string \<times> string \<times> bytes \<times> string" where
  "advice_wire r = (pa_advice_id r, pa_case_commitment r, pa_commitment r, pa_raw_ciphertext r, pa_created_at r)"

definition spool_kept :: "edge_db \<Rightarrow> edge_db \<Rightarrow> bool" where
  "spool_kept a b =
    ((\<forall>k r. find_pending_case k a = Some r \<longrightarrow> (\<exists>r'. find_pending_case k b = Some r' \<and> case_wire r' = case_wire r)) \<and>
     (\<forall>k r. find_pending_advice k a = Some r \<longrightarrow> (\<exists>r'. find_pending_advice k b = Some r' \<and> advice_wire r' = advice_wire r)))"

lemma spool_kept_same: "same_spool a b \<Longrightarrow> spool_kept a b"
  by (simp add: same_spool_def spool_kept_def find_pending_case_def find_pending_advice_def)

lemma spool_kept_refl [simp]: "spool_kept db db"
  by (simp add: spool_kept_def)

lemma spool_kept_trans:
  assumes "spool_kept a b" "spool_kept b c"
  shows "spool_kept a c"
proof -
  have 1: "\<exists>r'. find_pending_case k c = Some r' \<and> case_wire r' = case_wire r" if "find_pending_case k a = Some r" for k r
    using that assms unfolding spool_kept_def by metis
  have 2: "\<exists>r'. find_pending_advice k c = Some r' \<and> advice_wire r' = advice_wire r" if "find_pending_advice k a = Some r" for k r
    using that assms unfolding spool_kept_def by metis
  from 1 2 show ?thesis unfolding spool_kept_def by blast
qed

lemma turns_only_spool: "turns_only a b \<Longrightarrow> spool_kept a b"
  by (auto simp: turns_only_def spool_kept_def find_pending_case_def find_pending_advice_def)

lemma find_update_rows:
  assumes "\<And>r. key (f r) = key r"
  shows "find (\<lambda>r. key r = k) (update_rows q f rows)
    = map_option (\<lambda>r. if q r then f r else r) (find (\<lambda>r. key r = k) rows)"
  using assms by (induction rows) (auto simp: update_rows_def)

lemma spool_work_kept:
  "save_case_work d env p db = Inr (u, db') \<Longrightarrow> spool_kept db db'"
  "mark_case_work ac db = Inr (u, db') \<Longrightarrow> spool_kept db db'"
  "save_advice_work d env pa db = Inr (u, db') \<Longrightarrow> spool_kept db db'"
  "mark_advice_work aa db = Inr (u, db') \<Longrightarrow> spool_kept db db'"
proof -
  show "save_case_work d env p db = Inr (u, db') \<Longrightarrow> spool_kept db db'"
    by (auto simp: save_case_work_def spool_kept_def find_pending_case_def find_pending_advice_def find_append
        split: sum.splits option.splits if_splits)
  show "save_advice_work d env pa db = Inr (u, db') \<Longrightarrow> spool_kept db db'"
    by (auto simp: save_advice_work_def spool_kept_def find_pending_case_def find_pending_advice_def find_append
        split: sum.splits option.splits if_splits)
  show "mark_case_work ac db = Inr (u, db') \<Longrightarrow> spool_kept db db'"
    by (auto simp: mark_case_work_def spool_kept_def find_pending_case_def find_pending_advice_def
        find_update_rows [where key = pc_case_id] case_accepted_row_def case_wire_def split: option.splits if_splits)
  show "mark_advice_work aa db = Inr (u, db') \<Longrightarrow> spool_kept db db'"
    by (auto simp: mark_advice_work_def spool_kept_def find_pending_case_def find_pending_advice_def
        find_update_rows [where key = pa_case_id] advice_accepted_row_def advice_wire_def split: option.splits if_splits)
qed

lemmas spool_transaction = edge_transaction_snd [where P = "spool_kept db" for db, OF spool_kept_refl]

lemma spool_ops_kept:
  "spool_kept db (snd (SavePendingCase d env pending db))"
  "spool_kept db (snd (MarkCaseAcceptedRemote d env accepted db))"
  "spool_kept db (snd (SavePendingAdvice d env padvice db))"
  "spool_kept db (snd (MarkAdviceAcceptedRemote d env aadvice db))"
  by (auto simp: SavePendingCase_def MarkCaseAcceptedRemote_def SavePendingAdvice_def MarkAdviceAcceptedRemote_def
      split: option.splits intro: spool_transaction spool_work_kept)

lemma edge_step_spool:
  assumes "edge_step d db db'" "log_inv db"
  shows "spool_kept db db'"
proof -
  note s = spool_kept_same
  note [simp] = spool_ops_kept s [OF apply_spool [OF assms(2)]] s [OF state_ops_spool(1)] s [OF state_ops_spool(2)]
    s [OF front_only_spool, OF front_ops_front(1)] s [OF front_only_spool, OF front_ops_front(2)]
    turns_only_spool [OF turn_ops_turns(1)] turns_only_spool [OF turn_ops_turns(2)]
    turns_only_spool [OF turn_ops_turns(3)] turns_only_spool [OF turn_ops_turns(4)]
  from assms(1) show ?thesis by (cases rule: edge_step.cases) simp_all
qed

lemma edge_run_spool:
  assumes "edge_run d db db'" "log_inv db"
  shows "spool_kept db db'"
  using assms by (induction rule: edge_run.induct) (auto dest: edge_step_spool edge_run_log intro: spool_kept_trans)

section \<open>Saved wires\<close>

definition spooled_case :: "EdgeDB \<Rightarrow> edge_db \<Rightarrow> string \<Rightarrow> PendingCase option" where
  "spooled_case d db caseID =
    (case loadPendingCaseTx d caseID db of Inl e \<Rightarrow> None | Inr p \<Rightarrow> p)"

definition spooled_advice :: "EdgeDB \<Rightarrow> edge_db \<Rightarrow> string \<Rightarrow> PendingAdvice option" where
  "spooled_advice d db caseID =
    (case loadPendingAdviceTx d caseID db of Inl e \<Rightarrow> None | Inr p \<Rightarrow> p)"

lemma scan_case_wire:
  "case_wire r' = case_wire r \<Longrightarrow> scanPendingCase d (Some r') k = scanPendingCase d (Some r) k"
  by (auto simp: case_wire_def scanPendingCase_def split: sum.splits)

lemma scan_advice_wire:
  "advice_wire r' = advice_wire r \<Longrightarrow> scanPendingAdvice d (Some r') k = scanPendingAdvice d (Some r) k"
  by (auto simp: advice_wire_def scanPendingAdvice_def split: sum.splits)

lemma spooled_case_kept:
  assumes "spool_kept a b" "spooled_case d a k = Some p"
  shows "loadPendingCaseTx d k b = Inr (Some p)"
proof -
  from assms(2) obtain r where r: "find_pending_case k a = Some r" "scanPendingCase d (Some r) k = Inr (Some p)"
    by (cases "find_pending_case k a")
      (auto simp: spooled_case_def loadPendingCaseTx_def scanPendingCase_def [of d None] split: sum.splits)
  with assms(1) obtain r' where "find_pending_case k b = Some r'" "case_wire r' = case_wire r"
    unfolding spool_kept_def by blast
  then show ?thesis using r scan_case_wire [of r' r d k] by (simp add: loadPendingCaseTx_def)
qed

lemma spooled_advice_kept:
  assumes "spool_kept a b" "spooled_advice d a k = Some p"
  shows "loadPendingAdviceTx d k b = Inr (Some p)"
proof -
  from assms(2) obtain r where r: "find_pending_advice k a = Some r" "scanPendingAdvice d (Some r) k = Inr (Some p)"
    by (cases "find_pending_advice k a")
      (auto simp: spooled_advice_def loadPendingAdviceTx_def scanPendingAdvice_def [of d None] split: sum.splits)
  with assms(1) obtain r' where "find_pending_advice k b = Some r'" "advice_wire r' = advice_wire r"
    unfolding spool_kept_def by blast
  then show ?thesis using r scan_advice_wire [of r' r d k] by (simp add: loadPendingAdviceTx_def)
qed

lemma saved_case:
  assumes d: "aead_sound d" "nonce_ok d env" "storable_time (pdc_CreatedAt p)"
    and s: "save_case_work d env p db = Inr (u, db')"
  shows "spooled_case d db' (pdc_CaseID p) = Some p"
proof (cases "loadPendingCaseTx d (pdc_CaseID p) db")
  case (Inr x)
  show ?thesis
  proof (cases x)
    case None
    then have none: "find_pending_case (pdc_CaseID p) db = None"
      using Inr by (auto simp: loadPendingCaseTx_def scanPendingCase_def split: option.splits sum.splits)
    from s Inr None obtain c where c: "seal d env ''ssp_edge_pending_cases'' (pdc_CaseID p) (pdc_Raw p) = Inr c"
      and db': "db' = db\<lparr>ssp_edge_pending_cases := ssp_edge_pending_cases db @ [pending_case_row_of p c]\<rparr>"
      by (auto simp: save_case_work_def split: sum.splits if_splits)
    have "find_pending_case (pdc_CaseID p) db' = Some (pending_case_row_of p c)"
      using none by (simp add: db' find_pending_case_def find_append pending_case_row_of_def)
    then show ?thesis
      using open_seal [OF d(1,2) c] stored_time_sqlTime [OF d(3)]
      by (simp add: spooled_case_def loadPendingCaseTx_def scanPendingCase_def pending_case_row_of_def)
  next
    case (Some e)
    then have "pdc_CaseID e = pdc_CaseID p"
      using Inr by (auto simp: loadPendingCaseTx_def scanPendingCase_def split: option.splits sum.splits)
    with s Inr Some have "e = p \<and> db' = db" by (auto simp: save_case_work_def split: if_splits)
    with Inr Some show ?thesis by (simp add: spooled_case_def)
  qed
qed (use s in \<open>simp add: save_case_work_def\<close>)

lemma saved_advice:
  assumes d: "aead_sound d" "nonce_ok d env" "storable_time (pda_CreatedAt p)"
    and s: "save_advice_work d env p db = Inr (u, db')"
  shows "spooled_advice d db' (pda_CaseID p) = Some p"
proof (cases "loadPendingAdviceTx d (pda_CaseID p) db")
  case (Inr x)
  show ?thesis
  proof (cases x)
    case None
    then have none: "find_pending_advice (pda_CaseID p) db = None"
      using Inr by (auto simp: loadPendingAdviceTx_def scanPendingAdvice_def split: option.splits sum.splits)
    from s Inr None obtain c where c: "seal d env ''ssp_edge_pending_advice'' (pda_CaseID p) (pda_Raw p) = Inr c"
      and db': "db' = db\<lparr>ssp_edge_pending_advice := ssp_edge_pending_advice db @ [pending_advice_row_of p c]\<rparr>"
      by (auto simp: save_advice_work_def split: sum.splits if_splits)
    have "find_pending_advice (pda_CaseID p) db' = Some (pending_advice_row_of p c)"
      using none by (simp add: db' find_pending_advice_def find_append pending_advice_row_of_def)
    then show ?thesis
      using open_seal [OF d(1,2) c] stored_time_sqlTime [OF d(3)]
      by (simp add: spooled_advice_def loadPendingAdviceTx_def scanPendingAdvice_def pending_advice_row_of_def)
  next
    case (Some e)
    then have "pda_CaseID e = pda_CaseID p"
      using Inr by (auto simp: loadPendingAdviceTx_def scanPendingAdvice_def split: option.splits sum.splits)
    with s Inr Some have "e = p \<and> db' = db" by (auto simp: save_advice_work_def split: if_splits)
    with Inr Some show ?thesis by (simp add: spooled_advice_def)
  qed
qed (use s in \<open>simp add: save_advice_work_def\<close>)

lemma SavePendingCase_InrD:
  "SavePendingCase d env p db = (Inr u, db') \<Longrightarrow>
    save_case_work d env p db = Inr (u, db') \<and> \<not> closed_store d \<and> validatePendingCase p = None"
  by (auto simp: SavePendingCase_def split: if_splits option.splits dest: edge_transaction_Inr)

lemma SavePendingAdvice_InrD:
  "SavePendingAdvice d env p db = (Inr u, db') \<Longrightarrow>
    save_advice_work d env p db = Inr (u, db') \<and> \<not> closed_store d \<and> validatePendingAdvice p = None"
  by (auto simp: SavePendingAdvice_def split: if_splits option.splits dest: edge_transaction_Inr)

lemma spooled_case_run:
  assumes "log_inv db1" "edge_run d db1 db2" "spooled_case d db1 k = Some p"
  shows "loadPendingCaseTx d k db2 = Inr (Some p)"
  using spooled_case_kept [OF edge_run_spool [OF assms(2,1)] assms(3)] .

lemma save_case_log: "log_inv db \<Longrightarrow> SavePendingCase d env p db = (r, db1) \<Longrightarrow> log_inv db1"
  using edge_step_log [OF save_case [of d db env p]] by simp

lemma save_advice_log: "log_inv db \<Longrightarrow> SavePendingAdvice d env p db = (r, db1) \<Longrightarrow> log_inv db1"
  using edge_step_log [OF save_advice [of d db env p]] by simp

text \<open>
  C30.  The spool gives back what it was given.  Once a signed case was saved, then after any further
  activity of the store loading it returns exactly the saved record, bytes and instant included, and
  saving anything else under the same case is refused without effect.
\<close>

theorem pending_case_roundtrip:
  assumes "edge_reachable d db" "aead_sound d" "nonce_ok d env" "storable_time (pdc_CreatedAt p)"
    and "SavePendingCase d env p db = (Inr (), db1)" "edge_run d db1 db2"
  shows "(\<forall>env'. tx_fault env' = None \<longrightarrow> LoadPendingCase d env' (pdc_CaseID p) db2 = Inr (Some p))
    \<and> (\<forall>env' p'. pdc_CaseID p' = pdc_CaseID p \<longrightarrow> p' \<noteq> p \<longrightarrow>
         (\<exists>e. SavePendingCase d env' p' db2 = (Inl e, db2)))"
proof -
  note save = SavePendingCase_InrD [OF assms(5), THEN conjunct1]
  have open': "\<not> closed_store d" and valid: "validatePendingCase p = None" using SavePendingCase_InrD [OF assms(5)] by blast+
  have log1: "log_inv db1" using save_case_log [OF reachable_log_inv [OF assms(1)] assms(5)] .
  have load: "loadPendingCaseTx d (pdc_CaseID p) db2 = Inr (Some p)"
    using spooled_case_run [OF log1 assms(6) saved_case [OF assms(2-4) save]] .
  have "\<not> blank (pdc_CaseID p)" using valid by (simp add: validatePendingCase_def split: if_splits)
  then have "LoadPendingCase d env' (pdc_CaseID p) db2 = Inr (Some p)" if "tx_fault env' = None" for env'
    using that load open' by (simp add: LoadPendingCase_def loadPendingCaseTx_def)
  moreover have "\<exists>e. SavePendingCase d env' p' db2 = (Inl e, db2)" if "pdc_CaseID p' = pdc_CaseID p" "p' \<noteq> p" for env' p'
  proof -
    have "save_case_work d env' p' db2 = Inl (EdgeErr ''sspedge: pending case conflicts with stored exact wire'')"
      using that load by (auto simp: save_case_work_def)
    from edge_transaction_refused [where work = "save_case_work d env' p'", OF this] show ?thesis
      by (auto simp: SavePendingCase_def split: option.splits)
  qed
  ultimately show ?thesis by blast
qed

text \<open>
  C31.  One final advice per case at the dispatcher: once a signed advice was saved for a case, after any
  further activity the spool returns exactly that advice, and no other advice can be saved for the case.
\<close>

theorem pending_advice_once:
  assumes "edge_reachable d db" "aead_sound d" "nonce_ok d env" "storable_time (pda_CreatedAt p)"
    and "SavePendingAdvice d env p db = (Inr (), db1)" "edge_run d db1 db2"
  shows "(\<forall>env'. tx_fault env' = None \<longrightarrow> LoadPendingAdvice d env' (pda_CaseID p) db2 = Inr (Some p))
    \<and> (\<forall>env' p'. pda_CaseID p' = pda_CaseID p \<longrightarrow> p' \<noteq> p \<longrightarrow>
         (\<exists>e. SavePendingAdvice d env' p' db2 = (Inl e, db2)))"
proof -
  note save = SavePendingAdvice_InrD [OF assms(5), THEN conjunct1]
  have open': "\<not> closed_store d" and valid: "validatePendingAdvice p = None" using SavePendingAdvice_InrD [OF assms(5)] by blast+
  have log1: "log_inv db1" using save_advice_log [OF reachable_log_inv [OF assms(1)] assms(5)] .
  have load: "loadPendingAdviceTx d (pda_CaseID p) db2 = Inr (Some p)"
    using spooled_advice_kept [OF edge_run_spool [OF assms(6) log1] saved_advice [OF assms(2-4) save]] .
  have "\<not> blank (pda_CaseID p)" using valid by (simp add: validatePendingAdvice_def split: if_splits)
  then have "LoadPendingAdvice d env' (pda_CaseID p) db2 = Inr (Some p)" if "tx_fault env' = None" for env'
    using that load open' by (simp add: LoadPendingAdvice_def loadPendingAdviceTx_def)
  moreover have "\<exists>e. SavePendingAdvice d env' p' db2 = (Inl e, db2)" if "pda_CaseID p' = pda_CaseID p" "p' \<noteq> p" for env' p'
  proof -
    have "save_advice_work d env' p' db2 = Inl (EdgeErr ''sspedge: pending advice conflicts with stored exact wire'')"
      using that load by (auto simp: save_advice_work_def)
    from edge_transaction_refused [where work = "save_advice_work d env' p'", OF this] show ?thesis
      by (auto simp: SavePendingAdvice_def split: option.splits)
  qed
  ultimately show ?thesis by blast
qed

section \<open>The spool as a write-once store\<close>

text \<open>A handle whose cipher works, used without storage failures.\<close>

definition spool_ready :: "EdgeDB \<Rightarrow> edge_tx \<Rightarrow> bool" where
  "spool_ready d env = (aead_sound d \<and> nonce_ok d env \<and> db_sqlDB d \<and> tx_fault env = None \<and> tx_commit env = None)"

definition case_put :: "EdgeDB \<Rightarrow> edge_tx \<Rightarrow> PendingCase \<Rightarrow> edge_db \<Rightarrow> unit option \<times> edge_db" where
  "case_put d env p db =
    (case SavePendingCase d env p db of (Inl e, db') \<Rightarrow> (None, db') | (Inr u, db') \<Rightarrow> (Some u, db'))"

definition valid_pending :: "PendingCase \<Rightarrow> bool" where
  "valid_pending p = (validatePendingCase p = None \<and> storable_time (pdc_CreatedAt p))"

definition case_spool_inv :: "EdgeDB \<Rightarrow> edge_tx \<Rightarrow> edge_db \<Rightarrow> bool" where
  "case_spool_inv d env db = (spool_ready d env \<and> log_inv db)"

interpretation case_spool: write_once "case_spool_inv d env" "spooled_case d" "case_put d env" valid_pending pdc_CaseID
    "\<lambda>q v. v = q" "\<lambda>_. ()" for d env
proof unfold_locales
  fix s q
  assume inv: "case_spool_inv d env s"
  then show "case_spool_inv d env (snd (case_put d env q s))"
    using save_case_log [of s d env q]
    by (auto simp: case_put_def case_spool_inv_def split: prod.splits sum.splits)
  show "spooled_case d (snd (case_put d env q s)) k = Some v" if "spooled_case d s k = Some v" for k v
  proof -
    have "spool_kept s (snd (case_put d env q s))"
      using spool_ops_kept(1) [of s d env q] by (auto simp: case_put_def split: prod.splits sum.splits)
    from spooled_case_kept [OF this that] show ?thesis by (simp add: spooled_case_def)
  qed
  show "\<exists>v. spooled_case d (snd (case_put d env q s)) (pdc_CaseID q) = Some v \<and> v = q \<and> r = ()"
    if "valid_pending q" "fst (case_put d env q s) = Some r" for r
  proof -
    from that(2) obtain db' where "SavePendingCase d env q s = (Inr (), db')" "snd (case_put d env q s) = db'"
      by (auto simp: case_put_def split: prod.splits sum.splits)
    moreover have "spooled_case d db' (pdc_CaseID q) = Some q"
      using saved_case [OF _ _ _ SavePendingCase_InrD [OF calculation(1), THEN conjunct1]] inv that(1)
      by (simp add: case_spool_inv_def spool_ready_def valid_pending_def)
    ultimately show ?thesis by simp
  qed
  show "case_put d env q s = (Some (), s)"
    if "valid_pending q" "spooled_case d s (pdc_CaseID q) = Some v" "v = q" for v
  proof -
    have "loadPendingCaseTx d (pdc_CaseID q) s = Inr (Some q)"
      using spooled_case_kept [OF spool_kept_refl that(2)] that(3) by simp
    then have "save_case_work d env q s = Inr ((), s)" by (simp add: save_case_work_def)
    then show ?thesis
      using inv that(1) by (auto simp: case_put_def SavePendingCase_def case_spool_inv_def spool_ready_def valid_pending_def
          closed_store_def aead_sound_def edge_transaction_run)
  qed
  show "fst (case_put d env q s) = None" if "spooled_case d s (pdc_CaseID q) = Some v" "v \<noteq> q" for v
  proof -
    have "loadPendingCaseTx d (pdc_CaseID q) s = Inr (Some v)" using spooled_case_kept [OF spool_kept_refl that(1)] .
    moreover have "pdc_CaseID v = pdc_CaseID q"
      using calculation by (auto simp: loadPendingCaseTx_def scanPendingCase_def split: option.splits sum.splits)
    ultimately have "save_case_work d env q s = Inl (EdgeErr ''sspedge: pending case conflicts with stored exact wire'')"
      using that(2) by (auto simp: save_case_work_def)
    then obtain e where "edge_transaction d env (save_case_work d env q) s = (Inl e, s)"
      using edge_transaction_refused by blast
    then show ?thesis
      by (auto simp: case_put_def SavePendingCase_def split: option.splits)
  qed
qed

section \<open>Acceptance\<close>

















section \<open>A saved case\<close>

definition ex_saved :: PendingCase where
  "ex_saved = \<lparr>pdc_EnvelopeID = ''ce'', pdc_CaseID = ''c'', pdc_Commitment = ex_sha CHR ''1'', pdc_Raw = ''wire'',
     pdc_CreatedAt = 1\<rparr>"

definition ex_saved_advice :: PendingAdvice where
  "ex_saved_advice = \<lparr>pda_AdviceID = ''a'', pda_CaseID = ''c'', pda_CaseCommitment = ex_sha CHR ''1'',
     pda_Commitment = ex_sha CHR ''2'', pda_Raw = ''wire'', pda_CreatedAt = 1\<rparr>"


definition ex_s1 :: edge_db where
  "ex_s1 = snd (SavePendingCase ex_edge ex_tx ex_saved edge_init)"

lemma ex_storable: "storable_time 1" "storable_time 2"
  by code_simp+

lemma ex_cipher: "aead_sound ex_edge" "nonce_ok ex_edge ex_tx"
  by (auto simp: aead_sound_def nonce_ok_def ex_edge_def ex_aead_def ex_tx_def)

lemma ex_edge_open: "\<not> closed_store ex_edge"
  by (simp add: closed_store_def ex_edge_def)

lemma ex_saves:
  "SavePendingCase ex_edge ex_tx ex_saved edge_init = (Inr (), ex_s1)"
  "ssp_edge_pending_cases ex_s1 = [pending_case_row_of ex_saved (''n'' @ field_aad ex_edge ''ssp_edge_pending_cases'' ''c'' @ ''wire'')]"
  "\<exists>db. SavePendingAdvice ex_edge ex_tx ex_saved_advice edge_init = (Inr (), db)"
  by (simp_all add: ex_s1_def SavePendingCase_def SavePendingAdvice_def validatePendingCase_def validatePendingAdvice_def
      save_case_work_def save_advice_work_def loadPendingCaseTx_def loadPendingAdviceTx_def scanPendingCase_def
      scanPendingAdvice_def find_pending_case_def find_pending_advice_def ex_saved_def ex_saved_advice_def ex_edge_open
      MaxEnvelopeBytes_def zero_time_def edge_init_def edge_transaction_run)


theorem pending_case_roundtrip_witness:
  "LoadPendingCase ex_edge ex_tx ''c'' ex_s1 = Inr (Some ex_saved)
    \<and> (\<exists>e. SavePendingCase ex_edge ex_tx (ex_saved\<lparr>pdc_Raw := ''other''\<rparr>) ex_s1 = (Inl e, ex_s1))"
proof -
  note rt = pending_case_roundtrip [OF run_refl ex_cipher, of ex_saved ex_s1 ex_s1]
  have p: "storable_time (pdc_CreatedAt ex_saved)" "pdc_CaseID ex_saved = ''c''"
    "ex_saved\<lparr>pdc_Raw := ''other''\<rparr> \<noteq> ex_saved" "pdc_CaseID (ex_saved\<lparr>pdc_Raw := ''other''\<rparr>) = pdc_CaseID ex_saved"
    by (simp_all add: ex_saved_def ex_storable)
  note both = rt [OF p(1) ex_saves(1) run_refl]
  from both [THEN conjunct1, rule_format, of ex_tx]
    both [THEN conjunct2, rule_format, of "ex_saved\<lparr>pdc_Raw := ''other''\<rparr>" ex_tx] p
  show ?thesis by simp
qed

theorem pending_advice_once_witness:
  "\<exists>db. LoadPendingAdvice ex_edge ex_tx ''c'' db = Inr (Some ex_saved_advice)
    \<and> (\<exists>e. SavePendingAdvice ex_edge ex_tx (ex_saved_advice\<lparr>pda_Raw := ''other''\<rparr>) db = (Inl e, db))"
proof -
  from ex_saves(3) obtain db where s: "SavePendingAdvice ex_edge ex_tx ex_saved_advice edge_init = (Inr (), db)" ..
  have p: "storable_time (pda_CreatedAt ex_saved_advice)" "pda_CaseID ex_saved_advice = ''c''"
    "ex_saved_advice\<lparr>pda_Raw := ''other''\<rparr> \<noteq> ex_saved_advice"
    "pda_CaseID (ex_saved_advice\<lparr>pda_Raw := ''other''\<rparr>) = pda_CaseID ex_saved_advice"
    by (simp_all add: ex_saved_advice_def ex_storable)
  note both = pending_advice_once [OF run_refl ex_cipher p(1) s run_refl]
  from both [THEN conjunct1, rule_format, of ex_tx]
    both [THEN conjunct2, rule_format, of "ex_saved_advice\<lparr>pda_Raw := ''other''\<rparr>" ex_tx] p
  show ?thesis by (intro exI [of _ db]) simp
qed



end
