(* ===== verification/Turn_Properties.thy ===== *)
theory Turn_Properties
  imports Edge_Spool_Properties
begin

text \<open>
  The replay guard of the dispatcher: its table stays bounded, with one row per Buzz event; a live claim
  excludes every other execution; a completed turn answers with its recorded result.
\<close>

section \<open>The table\<close>

definition turn_ok :: "turn_row \<Rightarrow> bool" where
  "turn_ok r =
    ((tu_state r = ''pending'' \<and> tu_result_ciphertext r = None)
     \<or> (tu_state r = ''completed'' \<and> tu_result_ciphertext r \<noteq> None \<and> tu_claim_token r = None
        \<and> tu_claim_expires_unix_nano r = None))"

definition turns_inv :: "edge_db \<Rightarrow> bool" where
  "turns_inv db =
    (distinct (map tu_event_id (ssp_edge_dispatcher_turns db))
     \<and> int (length (ssp_edge_dispatcher_turns db)) \<le> maxDispatcherTurnCapacity
     \<and> list_all turn_ok (ssp_edge_dispatcher_turns db))"

lemma length_update_rows [simp]: "length (update_rows q f rows) = length rows"
  by (simp add: update_rows_def)

lemma turns_inv_filter:
  assumes "turns_inv db"
  shows "turns_inv (db\<lparr>ssp_edge_dispatcher_turns := filter q (ssp_edge_dispatcher_turns db)\<rparr>)"
proof -
  have "int (length (filter q (ssp_edge_dispatcher_turns db))) \<le> maxDispatcherTurnCapacity"
    using assms length_filter_le [of q "ssp_edge_dispatcher_turns db"] unfolding turns_inv_def by linarith
  with assms show ?thesis by (simp add: turns_inv_def list_all_iff distinct_map_filter)
qed

lemma turns_inv_prune: "turns_inv db \<Longrightarrow> turns_inv (prune_turns now db)"
  unfolding prune_turns_def by (rule turns_inv_filter)

lemma turns_inv_update:
  assumes "turns_inv db" "\<And>r. tu_event_id (f r) = tu_event_id r" "\<And>r. turn_ok r \<Longrightarrow> q r \<Longrightarrow> turn_ok (f r)"
  shows "turns_inv (db\<lparr>ssp_edge_dispatcher_turns := update_rows q f (ssp_edge_dispatcher_turns db)\<rparr>)"
proof -
  have "map tu_event_id (update_rows q f (ssp_edge_dispatcher_turns db)) = map tu_event_id (ssp_edge_dispatcher_turns db)"
    using assms(2) by (simp add: update_rows_def)
  moreover have "list_all turn_ok (update_rows q f (ssp_edge_dispatcher_turns db))"
    using assms(1,3) by (auto simp: turns_inv_def list_all_iff update_rows_def)
  ultimately show ?thesis using assms(1) by (simp add: turns_inv_def)
qed

lemma bind_turns_inv:
  assumes "turns_inv db" "capacity \<le> maxDispatcherTurnCapacity"
    and "bind_turn_work d env e request now retention ttl capacity db = Inr (b, db')"
  shows "turns_inv db'"
proof -
  let ?db = "prune_turns now db"
  have inv: "turns_inv ?db" using turns_inv_prune [OF assms(1)] .
  show ?thesis
  proof (cases "find_turn e ?db")
    case None
    then obtain c token where "db' = ?db\<lparr>ssp_edge_dispatcher_turns := ssp_edge_dispatcher_turns ?db @
        [fresh_turn e c now retention ttl token]\<rparr>" "int (length (ssp_edge_dispatcher_turns ?db)) < capacity"
      using assms(3) by (auto simp: bind_turn_work_def Let_def split: if_splits sum.splits)
    moreover have "e \<notin> tu_event_id ` set (ssp_edge_dispatcher_turns ?db)"
      using None by (auto simp: find_turn_def find_None_iff)
    ultimately show ?thesis using inv assms(2)
      by (auto simp: turns_inv_def fresh_turn_def turn_ok_def)
  next
    case (Some r)
    then have "db' = ?db \<or> bind_pending env e now ttl r ?db = Inr (b, db')"
      using assms(3) by (auto simp: bind_turn_work_def Let_def bind_completed_def split: if_splits sum.splits)
    moreover have "turns_inv db'" if "bind_pending env e now ttl r ?db = Inr (b, db')"
      using that inv by (auto simp: bind_pending_def Let_def turn_ok_def claim_turn_row_def intro!: turns_inv_update
          split: if_splits)
    ultimately show ?thesis using inv by blast
  qed
qed

lemma complete_turns_inv:
  "turns_inv db \<Longrightarrow> complete_turn_work d env e request result at claim db = Inr (u, db') \<Longrightarrow> turns_inv db'"
  by (auto simp: complete_turn_work_def completed_turn_def turn_ok_def intro!: turns_inv_update
      split: option.splits sum.splits if_splits)

lemma claim_turns_inv:
  "turns_inv db \<Longrightarrow> updatePendingDispatcherTurnClaim d e request claim abandon db = Inr (u, db') \<Longrightarrow> turns_inv db'"
  by (auto simp: updatePendingDispatcherTurnClaim_def released_turn_def turn_ok_def holds_turn_def
      intro!: turns_inv_update turns_inv_filter split: option.splits sum.splits if_splits)

lemmas turns_transaction = edge_transaction_snd [where P = turns_inv]

lemma turn_ops_inv:
  assumes "turns_inv db"
  shows "turns_inv (snd (BindDispatcherTurn d env e request now retention ttl capacity db))"
    "turns_inv (snd (CompleteDispatcherTurn d env e request result now claim db))"
    "turns_inv (snd (ReleaseDispatcherTurnClaim d env e request claim db))"
    "turns_inv (snd (AbandonDispatcherTurn d env e request claim db))"
proof -
  show "turns_inv (snd (BindDispatcherTurn d env e request now retention ttl capacity db))"
  proof (cases "capacity \<le> maxDispatcherTurnCapacity")
    case True
    then have "turns_inv (snd (edge_transaction d env (bind_turn_work d env e request now retention ttl capacity) db))"
      using assms bind_turns_inv by (intro turns_transaction)
    then show ?thesis using assms by (simp add: BindDispatcherTurn_def)
  qed (use assms in \<open>simp add: BindDispatcherTurn_def\<close>)
  have "turns_inv (snd (edge_transaction d env (complete_turn_work d env e request result now claim) db))"
    using assms complete_turns_inv by (intro turns_transaction)
  then show "turns_inv (snd (CompleteDispatcherTurn d env e request result now claim db))"
    using assms by (simp add: CompleteDispatcherTurn_def)
  have "turns_inv (snd (edge_transaction d env (updatePendingDispatcherTurnClaim d e request claim ab) db))" for ab
    using assms claim_turns_inv by (intro turns_transaction)
  then show "turns_inv (snd (ReleaseDispatcherTurnClaim d env e request claim db))"
    "turns_inv (snd (AbandonDispatcherTurn d env e request claim db))"
    using assms by (simp_all add: ReleaseDispatcherTurnClaim_def AbandonDispatcherTurn_def)
qed

text \<open>Every other writer leaves the table alone.\<close>

definition same_turns :: "edge_db \<Rightarrow> edge_db \<Rightarrow> bool" where
  "same_turns a b = (ssp_edge_dispatcher_turns b = ssp_edge_dispatcher_turns a)"

lemma same_turns_inv: "same_turns a b \<Longrightarrow> turns_inv a \<Longrightarrow> turns_inv b"
  by (simp add: same_turns_def turns_inv_def)

lemma same_turns_refl [simp]: "same_turns db db"
  by (simp add: same_turns_def)

lemma same_spool_turns: "same_spool a b \<Longrightarrow> same_turns a b"
  by (simp add: same_spool_def same_turns_def)

lemma spool_work_turns:
  "save_case_work d env p db = Inr (u, db') \<Longrightarrow> same_turns db db'"
  "mark_case_work ac db = Inr (u, db') \<Longrightarrow> same_turns db db'"
  "save_advice_work d env pa db = Inr (u, db') \<Longrightarrow> same_turns db db'"
  "mark_advice_work aa db = Inr (u, db') \<Longrightarrow> same_turns db db'"
  by (auto simp: save_case_work_def mark_case_work_def save_advice_work_def mark_advice_work_def same_turns_def
      split: sum.splits option.splits if_splits)

lemmas same_turns_transaction = edge_transaction_snd [where P = "same_turns db" for db, OF same_turns_refl]

lemma spool_ops_turns:
  "same_turns db (snd (SavePendingCase d env pending db))"
  "same_turns db (snd (MarkCaseAcceptedRemote d env accepted db))"
  "same_turns db (snd (SavePendingAdvice d env padvice db))"
  "same_turns db (snd (MarkAdviceAcceptedRemote d env aadvice db))"
  by (auto simp: SavePendingCase_def MarkCaseAcceptedRemote_def SavePendingAdvice_def MarkAdviceAcceptedRemote_def
      split: option.splits intro: same_turns_transaction spool_work_turns)

lemma edge_step_turns:
  assumes "edge_step d db db'" "log_inv db" "turns_inv db"
  shows "turns_inv db'"
proof -
  note t = same_turns_inv [OF _ assms(3)]
  note u = t [OF same_spool_turns]
  note [simp] = turn_ops_inv [OF assms(3)] t [OF spool_ops_turns(1)] t [OF spool_ops_turns(2)]
    t [OF spool_ops_turns(3)] t [OF spool_ops_turns(4)] u [OF apply_spool [OF assms(2)]] u [OF state_ops_spool(1)]
    u [OF state_ops_spool(2)] u [OF front_only_spool, OF front_ops_front(1)] u [OF front_only_spool, OF front_ops_front(2)]
  from assms(1) show ?thesis by (cases rule: edge_step.cases) simp_all
qed

lemma edge_run_turns:
  assumes "edge_run d db db'" "log_inv db" "turns_inv db"
  shows "turns_inv db'"
  using assms by (induction rule: edge_run.induct) (auto dest: edge_step_turns edge_run_log)

lemma reachable_turns_inv:
  assumes "edge_reachable d db"
  shows "turns_inv db"
proof (rule edge_run_turns [OF assms])
  show "log_inv edge_init" using reachable_log_inv [OF run_refl] .
  show "turns_inv edge_init" by (simp add: turns_inv_def edge_init_def maxDispatcherTurnCapacity_def)
qed

lemma find_turn_iff:
  assumes "turns_inv db"
  shows "find_turn e db = Some r \<longleftrightarrow> r \<in> set (ssp_edge_dispatcher_turns db) \<and> tu_event_id r = e"
proof
  assume r: "r \<in> set (ssp_edge_dispatcher_turns db) \<and> tu_event_id r = e"
  then obtain r' where r': "find_turn e db = Some r'"
    by (cases "find_turn e db") (auto simp: find_turn_def find_None_iff)
  then have "r' \<in> set (ssp_edge_dispatcher_turns db)" "tu_event_id r' = e"
    by (auto simp: find_turn_def find_Some_iff)
  with r assms have "r' = r" by (auto simp: turns_inv_def distinct_map dest: inj_onD)
  with r' show "find_turn e db = Some r" by simp
qed (auto simp: find_turn_def find_Some_iff)

text \<open>
  C34.  The replay guard is bounded: however the dispatcher uses it, the table never holds more than
  \<^verbatim>\<open>maxDispatcherTurnCapacity\<close> rows, one per event, and every row is either pending without a result or
  completed with a result and no claim.
\<close>

theorem dispatcher_turns_bounded:
  assumes "edge_reachable d db"
  shows "distinct (map tu_event_id (ssp_edge_dispatcher_turns db))
    \<and> int (length (ssp_edge_dispatcher_turns db)) \<le> maxDispatcherTurnCapacity
    \<and> list_all (\<lambda>r. tu_state r = ''pending'' \<and> tu_result_ciphertext r = None
        \<or> tu_state r = ''completed'' \<and> tu_result_ciphertext r \<noteq> None \<and> tu_claim_token r = None)
      (ssp_edge_dispatcher_turns db)"
  using reachable_turns_inv [OF assms] by (auto simp: turns_inv_def turn_ok_def list_all_iff)

section \<open>Claims\<close>

lemma rows_one: "rows_affected q rows = 1 \<Longrightarrow> \<exists>r \<in> set rows. q r"
  by (induction rows) (auto simp: rows_affected_def split: if_splits)

lemma claimed_turn:
  assumes inv: "turns_inv db" and w: "bind_turn_work d env e request now retention ttl capacity db = Inr (b, db')"
    and t: "tb_ClaimToken b \<noteq> []"
  shows "turns_inv (prune_turns now db)
    \<and> (\<exists>r. find_turn e db' = Some r \<and> tu_state r = ''pending'' \<and> tu_result_ciphertext r = None
        \<and> tu_claim_token r = Some (tb_ClaimToken b)
        \<and> tu_claim_expires_unix_nano r = Some (UnixNano (now + ttl)))"
proof -
  let ?db = "prune_turns now db"
  have inv': "turns_inv ?db" using turns_inv_prune [OF inv] .
  show ?thesis
  proof (cases "find_turn e ?db")
    case None
    then obtain c where "db' = ?db\<lparr>ssp_edge_dispatcher_turns := ssp_edge_dispatcher_turns ?db @
        [fresh_turn e c now retention ttl (tb_ClaimToken b)]\<rparr>"
      using w by (auto simp: bind_turn_work_def Let_def split: if_splits sum.splits)
    with None inv' show ?thesis by (simp add: find_turn_def find_append fresh_turn_def)
  next
    case (Some r)
    have "bind_pending env e now ttl r ?db = Inr (b, db') \<and> tu_state r = ''pending''"
      using w t Some by (auto simp: bind_turn_work_def Let_def bind_completed_def zero_binding_def split: if_splits sum.splits)
    then have st: "tu_state r = ''pending''" "tb_ClaimToken b = claimToken env 0"
      and db': "db' = ?db\<lparr>ssp_edge_dispatcher_turns := update_rows (\<lambda>r. tu_event_id r = e \<and> tu_state r = ''pending'')
        (claim_turn_row (claimToken env 0) (UnixNano (now + ttl))) (ssp_edge_dispatcher_turns ?db)\<rparr>"
      using t by (auto simp: bind_pending_def Let_def zero_binding_def split: if_splits)
    have r: "r \<in> set (ssp_edge_dispatcher_turns ?db)" "tu_event_id r = e"
      using Some by (auto simp: find_turn_def find_Some_iff)
    then have "tu_result_ciphertext r = None" using inv' st by (auto simp: turns_inv_def list_all_iff turn_ok_def)
    moreover have "find_turn e db' = Some (claim_turn_row (claimToken env 0) (UnixNano (now + ttl)) r)"
      using Some r st unfolding db' find_turn_def
      by (simp add: find_update_rows [where key = tu_event_id] claim_turn_row_def)
    ultimately show ?thesis using inv' st by (simp add: claim_turn_row_def)
  qed
qed

lemma find_pruned:
  assumes "turns_inv db" "find_turn e db = Some r" "tu_expires_unix_nano r > UnixNano now"
  shows "find_turn e (prune_turns now db) = Some r"
proof -
  have "r \<in> set (ssp_edge_dispatcher_turns db)" "tu_event_id r = e" using find_turn_iff assms(1,2) by blast+
  with assms(3) show ?thesis using find_turn_iff [OF turns_inv_prune [OF assms(1)]] by (simp add: prune_turns_def)
qed

text \<open>
  A row is held while it is completed or carries a claim; it is held until its binding expires and, as long as
  it is pending, until its claim expires.
\<close>

definition turn_held :: "turn_row \<Rightarrow> bool" where
  "turn_held r \<longleftrightarrow> tu_state r = ''completed'' \<or> tu_state r = ''pending'' \<and> coalesce (tu_claim_token r) \<noteq> []"

definition turn_limit :: "turn_row \<Rightarrow> int" where
  "turn_limit r =
    (if tu_state r = ''completed'' then tu_expires_unix_nano r
     else min (tu_expires_unix_nano r) (coalesce_int (tu_claim_expires_unix_nano r)))"

definition bound_late :: "EdgeDB \<Rightarrow> int \<Rightarrow> edge_db \<Rightarrow> edge_db \<Rightarrow> bool" where
  "bound_late d limit a b \<longleftrightarrow>
    (\<exists>env e request now retention ttl capacity. limit \<le> UnixNano now
       \<and> b = snd (BindDispatcherTurn d env e request now retention ttl capacity a))"

definition claim_used :: "EdgeDB \<Rightarrow> string \<Rightarrow> string \<Rightarrow> edge_db \<Rightarrow> edge_db \<Rightarrow> bool" where
  "claim_used d e token a b \<longleftrightarrow>
    (\<exists>env request result now. b = snd (CompleteDispatcherTurn d env e request result now token a))
    \<or> (\<exists>env request. b = snd (ReleaseDispatcherTurnClaim d env e request token a))
    \<or> (\<exists>env request. b = snd (AbandonDispatcherTurn d env e request token a))"

lemma live_claim_in_flight:
  assumes "turns_inv db" "find_turn e db = Some r" "tu_state r = ''pending''" "turn_held r" "UnixNano now < turn_limit r"
    and "bind_turn_work d env e request now retention ttl capacity db = Inr (b, db')"
  shows "b = zero_binding\<lparr>tb_InFlight := True\<rparr> \<and> db' = prune_turns now db"
  using assms(6) find_pruned [OF assms(1,2), of now] assms(3-5)
  by (auto simp: bind_turn_work_def Let_def bind_pending_def turn_held_def turn_limit_def split: sum.splits if_splits)

lemma bind_keeps_held:
  assumes inv: "turns_inv db" and r: "find_turn e db = Some r" "turn_held r" and now: "UnixNano now < turn_limit r"
    and w: "bind_turn_work d env e' request now retention ttl capacity db = Inr (b, db')"
  shows "find_turn e db' = Some r"
proof -
  let ?db = "prune_turns now db"
  have "UnixNano now < tu_expires_unix_nano r" using now by (auto simp: turn_limit_def split: if_splits)
  then have f: "find_turn e ?db = Some r" using find_pruned [OF inv r(1)] by simp
  have id: "tu_event_id r = e" using r(1) find_turn_iff [OF inv] by blast
  show ?thesis
  proof (cases "e' = e")
    case True
    show ?thesis
    proof (cases "tu_state r = ''completed''")
      case True
      with w f \<open>e' = e\<close> show ?thesis by (auto simp: bind_turn_work_def Let_def bind_completed_def split: sum.splits if_splits)
    next
      case False
      then have "tu_state r = ''pending''" using r(2) by (simp add: turn_held_def)
      from live_claim_in_flight [OF inv r(1) this r(2) now w [unfolded True]] f show ?thesis by simp
    qed
  next
    case False
    then have "find_turn e (?db\<lparr>ssp_edge_dispatcher_turns := update_rows (\<lambda>x. tu_event_id x = e' \<and> q x)
        (claim_turn_row tk u) (ssp_edge_dispatcher_turns ?db)\<rparr>) = Some r" for tk u q
      using f id by (simp add: find_turn_def find_update_rows [where key = tu_event_id] claim_turn_row_def)
    with w f show ?thesis
      by (auto simp: bind_turn_work_def Let_def bind_completed_def bind_pending_def find_turn_def find_append
          split: option.splits sum.splits if_splits)
  qed
qed

lemma claim_work_keeps:
  assumes inv: "turns_inv db" and r: "find_turn e db = Some r" "\<not> holds_turn e' claim r"
  shows "complete_turn_work d env e' request result at claim db = Inr (u, db') \<Longrightarrow> find_turn e db' = Some r"
    "updatePendingDispatcherTurnClaim d e' request claim abandon db = Inr (u, db') \<Longrightarrow> find_turn e db' = Some r"
proof -
  let ?q = "holds_turn e' claim"
  have upd: "find_turn e (db\<lparr>ssp_edge_dispatcher_turns := update_rows ?q f (ssp_edge_dispatcher_turns db)\<rparr>) = Some r"
    if "\<And>x. tu_event_id (f x) = tu_event_id x" for f
    using r that by (simp add: find_turn_def find_update_rows [where key = tu_event_id])
  have "find_turn e (db\<lparr>ssp_edge_dispatcher_turns := filter (\<lambda>x. \<not> ?q x) (ssp_edge_dispatcher_turns db)\<rparr>) = Some r"
    using r find_turn_iff [OF inv] find_turn_iff [OF turns_inv_filter [OF inv, of "\<lambda>x. \<not> ?q x"]] by simp
  then show "updatePendingDispatcherTurnClaim d e' request claim abandon db = Inr (u, db') \<Longrightarrow> find_turn e db' = Some r"
    using upd [of released_turn]
    by (auto simp: updatePendingDispatcherTurnClaim_def released_turn_def split: option.splits sum.splits if_splits)
  show "complete_turn_work d env e' request result at claim db = Inr (u, db') \<Longrightarrow> find_turn e db' = Some r"
    using upd [of "completed_turn c at" for c] r
    by (auto simp: complete_turn_work_def completed_turn_def split: option.splits sum.splits if_splits)
qed

lemmas find_transaction = edge_transaction_snd [where P = "\<lambda>x. find_turn e x = Some r" for e r]

lemma turn_ops_keep:
  assumes inv: "turns_inv db" and r: "find_turn e db = Some r"
  shows "turn_held r \<Longrightarrow> UnixNano now < turn_limit r \<Longrightarrow>
      find_turn e (snd (BindDispatcherTurn d env e' request now retention ttl capacity db)) = Some r"
    "\<not> holds_turn e' claim r \<Longrightarrow> find_turn e (snd (CompleteDispatcherTurn d env e' request result now claim db)) = Some r"
    "\<not> holds_turn e' claim r \<Longrightarrow> find_turn e (snd (ReleaseDispatcherTurnClaim d env e' request claim db)) = Some r"
    "\<not> holds_turn e' claim r \<Longrightarrow> find_turn e (snd (AbandonDispatcherTurn d env e' request claim db)) = Some r"
proof -
  show "find_turn e (snd (BindDispatcherTurn d env e' request now retention ttl capacity db)) = Some r"
    if h: "turn_held r" "UnixNano now < turn_limit r"
  proof -
    have "find_turn e (snd (edge_transaction d env (bind_turn_work d env e' request now retention ttl capacity) db)) = Some r"
      using r bind_keeps_held [OF inv r h] by (intro find_transaction)
    with r show ?thesis by (simp add: BindDispatcherTurn_def)
  qed
  assume h: "\<not> holds_turn e' claim r"
  note k = claim_work_keeps [OF inv r h]
  have "find_turn e (snd (edge_transaction d env (complete_turn_work d env e' request result now claim) db)) = Some r"
    using r k(1) by (intro find_transaction)
  with r show "find_turn e (snd (CompleteDispatcherTurn d env e' request result now claim db)) = Some r"
    by (simp add: CompleteDispatcherTurn_def)
  have "find_turn e (snd (edge_transaction d env (updatePendingDispatcherTurnClaim d e' request claim ab) db)) = Some r" for ab
    using r k(2) by (intro find_transaction)
  with r show "find_turn e (snd (ReleaseDispatcherTurnClaim d env e' request claim db)) = Some r"
    "find_turn e (snd (AbandonDispatcherTurn d env e' request claim db)) = Some r"
    by (simp_all add: ReleaseDispatcherTurnClaim_def AbandonDispatcherTurn_def)
qed

lemma same_turns_find: "same_turns a b \<Longrightarrow> find_turn e b = find_turn e a"
  by (simp add: same_turns_def find_turn_def)

lemma step_ends_turn:
  assumes inv: "log_inv db" "turns_inv db" and r: "find_turn e db = Some r" "turn_held r"
    and step: "edge_step d db db'" and lost: "find_turn e db' \<noteq> Some r"
  shows "bound_late d (turn_limit r) db db'
    \<or> tu_state r = ''pending'' \<and> claim_used d e (coalesce (tu_claim_token r)) db db'"
proof -
  note t = same_turns_find [where e = e and a = db]
  note u = t [OF same_spool_turns]
  note other = t [OF spool_ops_turns(1)] t [OF spool_ops_turns(2)] t [OF spool_ops_turns(3)] t [OF spool_ops_turns(4)]
    u [OF apply_spool [OF inv(1)]] u [OF state_ops_spool(1)] u [OF state_ops_spool(2)]
    u [OF front_only_spool, OF front_ops_front(1)] u [OF front_only_spool, OF front_ops_front(2)]
  have mine: "e' = e \<and> tu_state r = ''pending'' \<and> coalesce (tu_claim_token r) = claim" if "holds_turn e' claim r" for e' claim
    using that r(1) find_turn_iff [OF inv(2)] by (auto simp: holds_turn_def coalesce_def)
  from step lost show ?thesis
  proof (cases rule: edge_step.cases)
    case (bind_turn env e' request now retention ttl capacity)
    then show ?thesis using lost turn_ops_keep(1) [OF inv(2) r] unfolding bound_late_def by (metis not_le)
  next
    case (complete_turn env e' request result now claim)
    then have "holds_turn e' claim r" using lost turn_ops_keep(2) [OF inv(2) r(1)] by metis
    from mine [OF this] complete_turn show ?thesis unfolding claim_used_def by blast
  next
    case (release_turn env e' request claim)
    then have "holds_turn e' claim r" using lost turn_ops_keep(3) [OF inv(2) r(1)] by metis
    from mine [OF this] release_turn show ?thesis unfolding claim_used_def by blast
  next
    case (abandon_turn env e' request claim)
    then have "holds_turn e' claim r" using lost turn_ops_keep(4) [OF inv(2) r(1)] by metis
    from mine [OF this] abandon_turn show ?thesis unfolding claim_used_def by blast
  qed (simp_all add: other r(1))
qed

lemma run_ends_turn:
  assumes "edge_run d db db'" "log_inv db" "turns_inv db" "find_turn e db = Some r" "turn_held r" "find_turn e db' \<noteq> Some r"
  shows "\<exists>a b. edge_run d db a \<and> find_turn e a = Some r \<and> edge_step d a b \<and> find_turn e b \<noteq> Some r \<and> edge_run d b db'
    \<and> (bound_late d (turn_limit r) a b \<or> tu_state r = ''pending'' \<and> claim_used d e (coalesce (tu_claim_token r)) a b)"
  using assms
proof (induction rule: edge_run.induct)
  case (run_step db db' db'')
  show ?case
  proof (cases "find_turn e db' = Some r")
    case True
    have "log_inv db'" "turns_inv db'"
      using edge_run_log [OF run_step.hyps(1)] edge_run_turns [OF run_step.hyps(1)] run_step.prems(1,2) by blast+
    from step_ends_turn [OF this True run_step.prems(4) run_step.hyps(2) run_step.prems(5)] run_step.hyps True
      run_step.prems(5) show ?thesis by (intro exI [of _ db'] exI [of _ db''] conjI run_refl)
  next
    case False
    from run_step.IH [OF run_step.prems(1-4) False] show ?thesis using edge_run.run_step [OF _ run_step.hyps(2)] by blast
  qed
qed simp

lemma other_claim_refused:
  assumes "find_turn e db = Some r" "tu_state r = ''pending''" "coalesce (tu_claim_token r) \<noteq> claim"
  shows "\<exists>x. CompleteDispatcherTurn d env e request result at claim db = (Inl x, db)"
    "\<exists>x. ReleaseDispatcherTurnClaim d env e request claim db = (Inl x, db)"
    "\<exists>x. AbandonDispatcherTurn d env e request claim db = (Inl x, db)"
proof -
  have "\<exists>x. complete_turn_work d env e request result at claim db = Inl x"
    "\<exists>x. updatePendingDispatcherTurnClaim d e request claim abandon db = Inl x" for abandon
    using assms by (auto simp: complete_turn_work_def updatePendingDispatcherTurnClaim_def split: sum.splits)
  then have "\<exists>x. edge_transaction d env (complete_turn_work d env e request result at claim) db = (Inl x, db)"
    "\<exists>x. edge_transaction d env (updatePendingDispatcherTurnClaim d e request claim abandon) db = (Inl x, db)" for abandon
    using edge_transaction_refused by blast+
  then show "\<exists>x. CompleteDispatcherTurn d env e request result at claim db = (Inl x, db)"
    "\<exists>x. ReleaseDispatcherTurnClaim d env e request claim db = (Inl x, db)"
    "\<exists>x. AbandonDispatcherTurn d env e request claim db = (Inl x, db)"
    by (auto simp: CompleteDispatcherTurn_def ReleaseDispatcherTurnClaim_def AbandonDispatcherTurn_def)
qed

lemma held_bind_in_flight:
  assumes "turns_inv db" "find_turn e db = Some r" "tu_state r = ''pending''" "turn_held r" "UnixNano now < turn_limit r"
    and "fst (BindDispatcherTurn d env e request now retention ttl capacity db) = Inr b"
  shows "b = zero_binding\<lparr>tb_InFlight := True\<rparr>"
proof -
  obtain db' where "BindDispatcherTurn d env e request now retention ttl capacity db = (Inr b, db')"
    using assms(6) by (metis prod.collapse)
  then have "bind_turn_work d env e request now retention ttl capacity db = Inr (b, db')"
    by (auto simp: BindDispatcherTurn_def split: if_splits dest: edge_transaction_Inr)
  from live_claim_in_flight [OF assms(1-5) this] show ?thesis by simp
qed

text \<open>
  C35.  A live claim is exclusive.  When binding an event handed out a claim, then after any further run of the
  edge either the row of the turn is still the one the binding wrote, or the run contains a step that ends the
  claim: a call of its holder that completes, releases or abandons the turn with the token, or a binding at a
  time when the claim or the row has expired.  While the row stands, a binding of the event at a time before
  both expiries is told that it is in flight, gets no token and leaves the row, or fails; and nobody without
  the token can complete, release or abandon the turn.
\<close>

theorem dispatcher_claim_exclusive:
  assumes "edge_reachable d db" "BindDispatcherTurn d env e request now retention ttl capacity db = (Inr b, db1)"
    and "tb_ClaimToken b \<noteq> []" "edge_run d db1 db2"
  shows "\<exists>r. find_turn e db1 = Some r \<and> tu_state r = ''pending'' \<and> tu_claim_token r = Some (tb_ClaimToken b)
    \<and> tu_claim_expires_unix_nano r = Some (UnixNano (now + ttl))
    \<and> (find_turn e db2 \<noteq> Some r \<longrightarrow>
        (\<exists>x y. edge_run d db1 x \<and> find_turn e x = Some r \<and> edge_step d x y \<and> find_turn e y \<noteq> Some r \<and> edge_run d y db2
          \<and> (bound_late d (min (tu_expires_unix_nano r) (UnixNano (now + ttl))) x y
             \<or> claim_used d e (tb_ClaimToken b) x y)))
    \<and> (find_turn e db2 = Some r \<longrightarrow>
        (\<forall>env' request' later retention' ttl' capacity'.
             UnixNano later < UnixNano (now + ttl) \<longrightarrow> UnixNano later < tu_expires_unix_nano r \<longrightarrow>
             find_turn e (snd (BindDispatcherTurn d env' e request' later retention' ttl' capacity' db2)) = Some r
             \<and> (\<forall>b'. fst (BindDispatcherTurn d env' e request' later retention' ttl' capacity' db2) = Inr b' \<longrightarrow>
                  b' = zero_binding\<lparr>tb_InFlight := True\<rparr>))
        \<and> (\<forall>env' request' result later claim. claim \<noteq> tb_ClaimToken b \<longrightarrow>
             (\<exists>x. CompleteDispatcherTurn d env' e request' result later claim db2 = (Inl x, db2))
             \<and> (\<exists>x. ReleaseDispatcherTurnClaim d env' e request' claim db2 = (Inl x, db2))
             \<and> (\<exists>x. AbandonDispatcherTurn d env' e request' claim db2 = (Inl x, db2))))"
proof -
  have reach: "edge_reachable d db1"
    using run_step [OF assms(1)] bind_turn [of d db env e request now retention ttl capacity] assms(2) by simp
  have inv1: "log_inv db1" "turns_inv db1" using reachable_log_inv [OF reach] reachable_turns_inv [OF reach] .
  have inv2: "turns_inv db2" using edge_run_turns [OF assms(4) inv1] .
  have "bind_turn_work d env e request now retention ttl capacity db = Inr (b, db1)"
    using assms(2) by (auto simp: BindDispatcherTurn_def split: if_splits dest: edge_transaction_Inr)
  from claimed_turn [OF reachable_turns_inv [OF assms(1)] this assms(3)] obtain r where
    r: "find_turn e db1 = Some r" "tu_state r = ''pending''" "tu_claim_token r = Some (tb_ClaimToken b)"
      "tu_claim_expires_unix_nano r = Some (UnixNano (now + ttl))" by blast
  have held: "turn_held r" and limit: "turn_limit r = min (tu_expires_unix_nano r) (UnixNano (now + ttl))"
    and token: "coalesce (tu_claim_token r) = tb_ClaimToken b"
    using r(2-4) assms(3) by (simp_all add: turn_held_def turn_limit_def coalesce_def coalesce_int_def)
  show ?thesis
  proof (cases "find_turn e db2 = Some r")
    case True
    note stands = turn_ops_keep(1) [OF inv2 True held] held_bind_in_flight [OF inv2 True r(2) held]
      other_claim_refused [OF True r(2), unfolded token, OF not_sym]
    show ?thesis
    proof (intro exI [of _ r] conjI impI allI)
      fix env' request' later retention' ttl' capacity'
      assume "UnixNano later < UnixNano (now + ttl)" "UnixNano later < tu_expires_unix_nano r"
      then have now: "UnixNano later < turn_limit r" by (simp add: limit)
      show "find_turn e (snd (BindDispatcherTurn d env' e request' later retention' ttl' capacity' db2)) = Some r"
        by (rule stands(1) [OF now])
      show "b' = zero_binding\<lparr>tb_InFlight := True\<rparr>"
        if "fst (BindDispatcherTurn d env' e request' later retention' ttl' capacity' db2) = Inr b'" for b'
        by (rule stands(2) [OF now that])
    qed (use r True in \<open>simp_all add: stands(3-5)\<close>)
  next
    case False
    have "\<exists>x y. edge_run d db1 x \<and> find_turn e x = Some r \<and> edge_step d x y \<and> find_turn e y \<noteq> Some r \<and> edge_run d y db2
        \<and> (bound_late d (min (tu_expires_unix_nano r) (UnixNano (now + ttl))) x y
           \<or> claim_used d e (tb_ClaimToken b) x y)"
      using run_ends_turn [OF assms(4) inv1 r(1) held False] r(2) unfolding limit token by simp
    with r False show ?thesis by (intro exI [of _ r]) simp
  qed
qed

section \<open>Results\<close>

text \<open>The nonce of the stored ciphertexts is not empty: AES-GCM takes one of twelve bytes.\<close>

definition nonce_present :: "EdgeDB \<Rightarrow> bool" where
  "nonce_present d = (\<forall>k. db_key d = Some k \<longrightarrow> 0 < NonceSize k)"

lemma open_nonempty: "nonce_present d \<Longrightarrow> open_field d table key c = Inr p \<Longrightarrow> c \<noteq> []"
  by (auto simp: open_field_def nonce_present_def split: option.splits if_splits)

definition turn_result :: "EdgeDB \<Rightarrow> string \<Rightarrow> bytes \<Rightarrow> bytes \<Rightarrow> turn_row \<Rightarrow> bool" where
  "turn_result d e request result r \<longleftrightarrow>
    tu_state r = ''completed'' \<and> open_field d dispatcherTurnRequestAAD e (tu_request_ciphertext r) = Inr request
    \<and> open_field d dispatcherTurnResultAAD e (coalesce (tu_result_ciphertext r)) = Inr result"

lemma completed_row:
  assumes inv: "turns_inv db" and d: "aead_sound d" "nonce_ok d env"
    and w: "complete_turn_work d env e request result at claim db = Inr ((), db1)"
  shows "\<exists>r. find_turn e db1 = Some r \<and> turn_result d e request result r"
proof -
  obtain r0 where r0: "find_turn e db = Some r0"
    "open_field d dispatcherTurnRequestAAD e (tu_request_ciphertext r0) = Inr request"
    using w by (auto simp: complete_turn_work_def split: option.splits sum.splits if_splits)
  show ?thesis
  proof (cases "tu_state r0 = ''completed''")
    case True
    with w r0 show ?thesis by (auto simp: complete_turn_work_def turn_result_def split: sum.splits if_splits)
  next
    case False
    with w r0 obtain c where c: "seal d env dispatcherTurnResultAAD e result = Inr c"
      and one: "rows_affected (holds_turn e claim) (ssp_edge_dispatcher_turns db) = 1"
      and db1: "db1 = db\<lparr>ssp_edge_dispatcher_turns :=
        update_rows (holds_turn e claim) (completed_turn c at) (ssp_edge_dispatcher_turns db)\<rparr>"
      by (auto simp: complete_turn_work_def split: sum.splits if_splits)
    obtain r1 where r1: "r1 \<in> set (ssp_edge_dispatcher_turns db)" "holds_turn e claim r1" using rows_one [OF one] by blast
    then have "find_turn e db = Some r1" using find_turn_iff [OF inv] by (simp add: holds_turn_def)
    with r0 r1 have h: "holds_turn e claim r0" by simp
    have "find_turn e db1 = Some (completed_turn c at r0)"
      using r0(1) h unfolding db1 find_turn_def
      by (simp add: find_update_rows [where key = tu_event_id] completed_turn_def)
    then show ?thesis using r0(2) open_seal [OF d c] by (simp add: completed_turn_def coalesce_def turn_result_def)
  qed
qed

lemma bind_replays:
  assumes inv: "turns_inv db" and d: "nonce_present d" and r: "find_turn e db = Some r" "turn_result d e request result r"
    and ok: "length result \<noteq> 0" "\<not> length result > maxDispatcherTurnResultBytes" and now: "UnixNano now < tu_expires_unix_nano r"
  shows "bind_turn_work d env e request now retention ttl capacity db
      = Inr (zero_binding\<lparr>tb_Completed := True, tb_Result := result\<rparr>, prune_turns now db)"
    "other \<noteq> request \<Longrightarrow> bind_turn_work d env e other now retention ttl capacity db = Inl ErrDispatcherTurnMismatch"
proof -
  have row: "tu_state r = ''completed''" "open_field d dispatcherTurnRequestAAD e (tu_request_ciphertext r) = Inr request"
    "open_field d dispatcherTurnResultAAD e (coalesce (tu_result_ciphertext r)) = Inr result"
    using r(2) by (simp_all add: turn_result_def)
  note pr = find_pruned [OF inv r(1) now]
  have "r \<in> set (ssp_edge_dispatcher_turns db)" using r(1) find_turn_iff [OF inv] by blast
  then have "tu_claim_token r = None" "tu_claim_expires_unix_nano r = None"
    using inv row by (auto simp: turns_inv_def list_all_iff turn_ok_def)
  moreover have "result_length r \<noteq> 0"
    using open_nonempty [OF d row(3)] by (auto simp: result_length_def coalesce_def split: option.splits)
  ultimately show "bind_turn_work d env e request now retention ttl capacity db
      = Inr (zero_binding\<lparr>tb_Completed := True, tb_Result := result\<rparr>, prune_turns now db)"
    using row ok pr by (simp add: bind_turn_work_def Let_def bind_completed_def coalesce_def coalesce_int_def)
  show "other \<noteq> request \<Longrightarrow> bind_turn_work d env e other now retention ttl capacity db = Inl ErrDispatcherTurnMismatch"
    using row pr by (simp add: bind_turn_work_def Let_def)
qed

definition turn_times_ok :: "time \<Rightarrow> int \<Rightarrow> int \<Rightarrow> int \<Rightarrow> bool" where
  "turn_times_ok now retention ttl capacity \<longleftrightarrow>
    now \<noteq> zero_time \<and> 0 < retention \<and> retention \<le> maxDispatcherTurnRetention \<and> 0 < ttl
    \<and> ttl \<le> maxDispatcherTurnClaimTTL \<and> 0 < capacity \<and> capacity \<le> maxDispatcherTurnCapacity"

lemma held_bind_replays:
  assumes "turns_inv db" "nonce_present d" "find_turn e db = Some r" "turn_result d e request result r"
    and "length result \<noteq> 0" "\<not> length result > maxDispatcherTurnResultBytes" "UnixNano later < tu_expires_unix_nano r"
  shows "fst (BindDispatcherTurn d env e rq later retention ttl capacity db) = Inr b \<Longrightarrow>
      rq = request \<and> b = zero_binding\<lparr>tb_Completed := True, tb_Result := result\<rparr>"
    "db_sqlDB d \<Longrightarrow> \<not> closed_store d \<Longrightarrow> dispatcherTurnIDPattern e \<Longrightarrow> turn_request_ok rq \<Longrightarrow>
      turn_times_ok later retention ttl capacity \<Longrightarrow> tx_fault env = None \<Longrightarrow> tx_commit env = None \<Longrightarrow>
      BindDispatcherTurn d env e rq later retention ttl capacity db
        = (if rq = request then (Inr (zero_binding\<lparr>tb_Completed := True, tb_Result := result\<rparr>), prune_turns later db)
           else (Inl ErrDispatcherTurnMismatch, db))"
proof -
  note work = bind_replays [OF assms]
  show "rq = request \<and> b = zero_binding\<lparr>tb_Completed := True, tb_Result := result\<rparr>"
    if fst: "fst (BindDispatcherTurn d env e rq later retention ttl capacity db) = Inr b"
  proof -
    obtain db' where "BindDispatcherTurn d env e rq later retention ttl capacity db = (Inr b, db')"
      using fst by (metis prod.collapse)
    then have "bind_turn_work d env e rq later retention ttl capacity db = Inr (b, db')"
      by (auto simp: BindDispatcherTurn_def split: if_splits dest: edge_transaction_Inr)
    then show ?thesis using work(1) [of env retention ttl capacity] work(2) [of rq env retention ttl capacity]
      by (cases "rq = request") auto
  qed
  assume sql: "db_sqlDB d" "\<not> closed_store d" "dispatcherTurnIDPattern e" "turn_request_ok rq"
    "turn_times_ok later retention ttl capacity" "tx_fault env = None" "tx_commit env = None"
  then have "BindDispatcherTurn d env e rq later retention ttl capacity db
      = edge_transaction d env (bind_turn_work d env e rq later retention ttl capacity) db"
    by (simp add: BindDispatcherTurn_def turn_times_ok_def)
  then show "BindDispatcherTurn d env e rq later retention ttl capacity db
        = (if rq = request then (Inr (zero_binding\<lparr>tb_Completed := True, tb_Result := result\<rparr>), prune_turns later db)
           else (Inl ErrDispatcherTurnMismatch, db))"
    using sql work by (simp add: edge_transaction_def)
qed

text \<open>
  C36.  A completed turn is replayed, never executed twice.  When completing a turn succeeded, then after any
  further run of the edge either its row still stands, or the run contains a binding at a time when the row
  has expired.  While it stands, a binding of the event before the expiry never hands out a claim: whatever
  fails around it, an answer is the recorded result for the same request, byte for byte.  When nothing fails,
  the same request is so answered and a different one is refused as a mismatch, both without effect on the
  row.  The stored fields are sealed by an authenticated cipher that opens what it sealed, with a nonce of
  positive length.
\<close>

theorem completed_turn_replayed:
  assumes "edge_reachable d db" "aead_sound d" "nonce_present d" "nonce_ok d env" "db_sqlDB d"
    and "CompleteDispatcherTurn d env e request result at claim db = (Inr (), db1)" "edge_run d db1 db2"
  shows "\<exists>r. find_turn e db1 = Some r \<and> tu_state r = ''completed''
    \<and> (find_turn e db2 \<noteq> Some r \<longrightarrow>
        (\<exists>x y. edge_run d db1 x \<and> find_turn e x = Some r \<and> edge_step d x y \<and> find_turn e y \<noteq> Some r \<and> edge_run d y db2
          \<and> bound_late d (tu_expires_unix_nano r) x y))
    \<and> (find_turn e db2 = Some r \<longrightarrow>
        (\<forall>env' rq later retention ttl capacity. UnixNano later < tu_expires_unix_nano r \<longrightarrow>
             find_turn e (snd (BindDispatcherTurn d env' e rq later retention ttl capacity db2)) = Some r
             \<and> (\<forall>b. fst (BindDispatcherTurn d env' e rq later retention ttl capacity db2) = Inr b \<longrightarrow>
                  rq = request \<and> b = zero_binding\<lparr>tb_Completed := True, tb_Result := result\<rparr>)
             \<and> (turn_request_ok rq \<longrightarrow> turn_times_ok later retention ttl capacity \<longrightarrow>
                tx_fault env' = None \<longrightarrow> tx_commit env' = None \<longrightarrow>
                BindDispatcherTurn d env' e rq later retention ttl capacity db2 =
                  (if rq = request
                   then (Inr (zero_binding\<lparr>tb_Completed := True, tb_Result := result\<rparr>), prune_turns later db2)
                   else (Inl ErrDispatcherTurnMismatch, db2)))))"
proof -
  have reach: "edge_reachable d db1"
    using run_step [OF assms(1)] complete_turn [of d db env e request result at claim] assms(6) by simp
  have inv1: "log_inv db1" "turns_inv db1" using reachable_log_inv [OF reach] reachable_turns_inv [OF reach] .
  have inv2: "turns_inv db2" using edge_run_turns [OF assms(7) inv1] .
  have w: "complete_turn_work d env e request result at claim db = Inr ((), db1)"
    and ok: "\<not> closed_store d" "dispatcherTurnIDPattern e" "length result \<noteq> 0" "\<not> length result > maxDispatcherTurnResultBytes"
    using assms(6) by (auto simp: CompleteDispatcherTurn_def split: if_splits dest: edge_transaction_Inr)
  obtain r where r: "find_turn e db1 = Some r" "turn_result d e request result r"
    using completed_row [OF reachable_turns_inv [OF assms(1)] assms(2,4) w] by blast
  then have st: "tu_state r = ''completed''" "turn_held r" "turn_limit r = tu_expires_unix_nano r"
    by (simp_all add: turn_result_def turn_held_def turn_limit_def)
  show ?thesis
  proof (cases "find_turn e db2 = Some r")
    case True
    note stands = turn_ops_keep(1) [OF inv2 True st(2), unfolded st(3)]
      held_bind_replays(1) [OF inv2 assms(3) True r(2) ok(3,4)]
      held_bind_replays(2) [OF inv2 assms(3) True r(2) ok(3,4) _ assms(5) ok(1,2)]
    show ?thesis using r(1) st(1) True stands by (intro exI [of _ r] conjI impI allI) (blast | simp)+
  next
    case False
    have "\<exists>x y. edge_run d db1 x \<and> find_turn e x = Some r \<and> edge_step d x y \<and> find_turn e y \<noteq> Some r \<and> edge_run d y db2
        \<and> bound_late d (tu_expires_unix_nano r) x y"
      using run_ends_turn [OF assms(7) inv1 r(1) st(2) False] st(1) unfolding st(3) by simp
    with r(1) st(1) False show ?thesis by (intro exI [of _ r]) simp
  qed
qed

section \<open>A turn\<close>

definition ex_event :: string where
  "ex_event = replicate 64 CHR ''a''"

definition ex_claim :: string where
  "ex_claim = replicate 64 CHR ''7''"

text \<open>The 32 random bytes of the claim are all \<^verbatim>\<open>0x77\<close>, a letter w.\<close>

definition ex_turn_tx :: edge_tx where
  "ex_turn_tx = ex_tx\<lparr>tx_random := (\<lambda>_. replicate 32 CHR ''w'')\<rparr>"

definition ex_turn :: turn_row where
  "ex_turn = fresh_turn ex_event (''n'' @ field_aad ex_edge dispatcherTurnRequestAAD ex_event @ ''ask'') 1 100 10 ex_claim"

definition ex_t1 :: edge_db where
  "ex_t1 = edge_init\<lparr>ssp_edge_dispatcher_turns := [ex_turn]\<rparr>"

definition ex_t2 :: edge_db where
  "ex_t2 = edge_init\<lparr>ssp_edge_dispatcher_turns :=
     [completed_turn (''n'' @ field_aad ex_edge dispatcherTurnResultAAD ex_event @ ''answer'') 5 ex_turn]\<rparr>"

lemma ex_turn_env [simp]: "tx_fault ex_turn_tx = None" "tx_commit ex_turn_tx = None"
  "seal ex_edge ex_turn_tx table key plain = Inr (''n'' @ field_aad ex_edge table key @ plain)"
  "open_field ex_edge table key (CHR ''n'' # field_aad ex_edge table key @ plain) = Inr plain"
  by (simp_all add: ex_turn_tx_def ex_tx_def seal_def open_field_def ex_edge_def ex_aead_def)

lemma ex_turn_token: "claimToken ex_turn_tx 0 = ex_claim"
  by code_simp

lemma ex_turn_ids [simp]: "dispatcherTurnIDPattern ex_event" "dispatcherTurnIDPattern ex_claim" "ex_claim \<noteq> []"
  by code_simp+

lemma ex_turn_times [simp]: "UnixNano 1 = 1" "UnixNano 11 = 11" "UnixNano 101 = 101" "UnixNano 5 = 5"
  by code_simp+

lemma ex_bound:
  "BindDispatcherTurn ex_edge ex_turn_tx ex_event ''ask'' 1 100 10 8 edge_init
     = (Inr (zero_binding\<lparr>tb_ClaimToken := ex_claim\<rparr>), ex_t1)"
  by (simp add: BindDispatcherTurn_def ex_edge_open turn_request_ok_def maxDispatcherTurnRequestBytes_def zero_time_def
      maxDispatcherTurnRetention_def maxDispatcherTurnClaimTTL_def maxDispatcherTurnCapacity_def edge_transaction_run
      bind_turn_work_def prune_turns_def edge_init_def find_turn_def ex_turn_token ex_t1_def ex_turn_def)

lemma ex_bound_again: "\<exists>b'. fst (BindDispatcherTurn ex_edge ex_turn_tx ex_event ''ask'' 5 100 10 8 ex_t1) = Inr b'"
  by (simp add: BindDispatcherTurn_def ex_edge_open turn_request_ok_def maxDispatcherTurnRequestBytes_def zero_time_def
      maxDispatcherTurnRetention_def maxDispatcherTurnClaimTTL_def maxDispatcherTurnCapacity_def edge_transaction_run
      bind_turn_work_def bind_pending_def result_length_def coalesce_def coalesce_int_def prune_turns_def find_turn_def
      ex_t1_def ex_turn_def fresh_turn_def)

lemma ex_completed:
  "CompleteDispatcherTurn ex_edge ex_turn_tx ex_event ''ask'' ''answer'' 5 ex_claim ex_t1 = (Inr (), ex_t2)"
  by (simp add: CompleteDispatcherTurn_def ex_edge_open turn_request_ok_def maxDispatcherTurnRequestBytes_def zero_time_def
      maxDispatcherTurnResultBytes_def edge_transaction_run complete_turn_work_def ex_t1_def ex_t2_def find_turn_def
      ex_turn_def fresh_turn_def result_length_def coalesce_def rows_affected_def holds_turn_def update_rows_def
      completed_turn_def)

lemma ex_turn_reachable: "edge_reachable ex_edge ex_t1"
  using edge_run_step1 [OF bind_turn [of ex_edge edge_init ex_turn_tx ex_event "''ask''" 1 100 10 8]] by (simp add: ex_bound)

lemma ex_turn_found:
  "find_turn ex_event ex_t1 = Some ex_turn" "find_turn ex_event ex_t2 =
     Some (completed_turn (''n'' @ field_aad ex_edge dispatcherTurnResultAAD ex_event @ ''answer'') 5 ex_turn)"
  "tu_expires_unix_nano ex_turn = 101"
  by (simp_all add: find_turn_def ex_t1_def ex_t2_def ex_turn_def fresh_turn_def completed_turn_def)

theorem dispatcher_turns_bounded_witness:
  "distinct (map tu_event_id (ssp_edge_dispatcher_turns ex_t1))
    \<and> int (length (ssp_edge_dispatcher_turns ex_t1)) \<le> maxDispatcherTurnCapacity \<and> ssp_edge_dispatcher_turns ex_t1 \<noteq> []"
  using dispatcher_turns_bounded [OF ex_turn_reachable] by (simp add: ex_t1_def)

theorem dispatcher_claim_exclusive_witness:
  "(\<exists>b'. fst (BindDispatcherTurn ex_edge ex_turn_tx ex_event ''ask'' 5 100 10 8 ex_t1) = Inr b' \<and> tb_InFlight b')
    \<and> (\<exists>x. CompleteDispatcherTurn ex_edge ex_turn_tx ex_event ''ask'' ''answer'' 5 ex_event ex_t1 = (Inl x, ex_t1))"
proof -
  let ?b = "zero_binding\<lparr>tb_ClaimToken := ex_claim\<rparr>"
  have b: "tb_ClaimToken ?b \<noteq> []" and c: "ex_event \<noteq> tb_ClaimToken ?b" by (simp, code_simp)
  have t: "UnixNano 5 < UnixNano (1 + 10)" "UnixNano 5 < tu_expires_unix_nano ex_turn" by (simp_all add: ex_turn_found)
  obtain b' where b': "fst (BindDispatcherTurn ex_edge ex_turn_tx ex_event ''ask'' 5 100 10 8 ex_t1) = Inr b'"
    using ex_bound_again by blast
  note all = dispatcher_claim_exclusive [OF run_refl ex_bound b run_refl]
  have "\<forall>env' request' later retention' ttl' capacity' b'. UnixNano later < UnixNano (1 + 10) \<longrightarrow>
      UnixNano later < tu_expires_unix_nano ex_turn \<longrightarrow>
      fst (BindDispatcherTurn ex_edge env' ex_event request' later retention' ttl' capacity' ex_t1) = Inr b' \<longrightarrow>
      b' = zero_binding\<lparr>tb_InFlight := True\<rparr>"
    using all ex_turn_found(1) by simp
  with t b' have "b' = zero_binding\<lparr>tb_InFlight := True\<rparr>" by blast
  moreover have "\<exists>x. CompleteDispatcherTurn ex_edge ex_turn_tx ex_event ''ask'' ''answer'' 5 ex_event ex_t1 = (Inl x, ex_t1)"
    using all ex_turn_found(1) c by auto
  ultimately show ?thesis using b' by simp
qed

theorem completed_turn_replayed_witness:
  "BindDispatcherTurn ex_edge ex_turn_tx ex_event ''ask'' 5 100 10 8 ex_t2
      = (Inr (zero_binding\<lparr>tb_Completed := True, tb_Result := ''answer''\<rparr>), prune_turns 5 ex_t2)
    \<and> BindDispatcherTurn ex_edge ex_turn_tx ex_event ''ask again'' 5 100 10 8 ex_t2 = (Inl ErrDispatcherTurnMismatch, ex_t2)"
proof -
  let ?r = "completed_turn (''n'' @ field_aad ex_edge dispatcherTurnResultAAD ex_event @ ''answer'') 5 ex_turn"
  have n: "nonce_ok ex_edge ex_turn_tx" "nonce_present ex_edge"
    using ex_cipher(2) by (simp_all add: nonce_ok_def ex_turn_tx_def nonce_present_def ex_edge_def ex_aead_def)
  have t: "UnixNano 5 < tu_expires_unix_nano ?r" "turn_request_ok ''ask again''" "turn_request_ok ''ask''"
    "turn_times_ok 5 100 10 8"
    using ex_turn_found(3)
    by (simp_all add: completed_turn_def turn_request_ok_def maxDispatcherTurnRequestBytes_def turn_times_ok_def
        zero_time_def maxDispatcherTurnRetention_def maxDispatcherTurnClaimTTL_def maxDispatcherTurnCapacity_def)
  note all = completed_turn_replayed [OF ex_turn_reachable ex_cipher(1) n(2,1) ex_env(3) ex_completed run_refl]
  have "\<forall>env' rq later retention ttl capacity. UnixNano later < tu_expires_unix_nano ?r \<longrightarrow>
      turn_request_ok rq \<longrightarrow> turn_times_ok later retention ttl capacity \<longrightarrow> tx_fault env' = None \<longrightarrow> tx_commit env' = None \<longrightarrow>
      BindDispatcherTurn ex_edge env' ex_event rq later retention ttl capacity ex_t2 =
        (if rq = ''ask'' then (Inr (zero_binding\<lparr>tb_Completed := True, tb_Result := ''answer''\<rparr>), prune_turns later ex_t2)
         else (Inl ErrDispatcherTurnMismatch, ex_t2))"
    using all unfolding ex_turn_found(2) by simp
  then have "BindDispatcherTurn ex_edge ex_turn_tx ex_event rq 5 100 10 8 ex_t2 =
      (if rq = ''ask'' then (Inr (zero_binding\<lparr>tb_Completed := True, tb_Result := ''answer''\<rparr>), prune_turns 5 ex_t2)
       else (Inl ErrDispatcherTurnMismatch, ex_t2))" if "turn_request_ok rq" for rq
    using t(1,4) ex_turn_env(1,2) that by blast
  from this [OF t(3)] this [OF t(2)] show ?thesis by simp
qed

end
