(* ===== verification/Go_Json_Read.thy ===== *)
theory Go_Json_Read
  imports Go_Json
begin

text \<open>
  Reading JSON the way \<^verbatim>\<open>encoding/json\<close> does: the strict grammar \<^verbatim>\<open>Unmarshal\<close> checks first, the text of
  a string with its escapes resolved, the raw slice a \<^verbatim>\<open>json.RawMessage\<close> receives, and the conversion
  to strings, integers, slices and structs.  A parsed value keeps the raw text of every member and
  element.  The parser takes fuel; \<open>parse_value_fuel\<close> shows that the fuel it is called with is enough.
\<close>

section \<open>White space, hexadecimal digits and runes\<close>

definition json_space :: "char \<Rightarrow> bool" where
  "json_space c = (c = CHR '' '' \<or> c = CHR 0x09 \<or> c = CHR 0x0D \<or> c = CHR 0x0A)"

definition skip_ws :: "string \<Rightarrow> string" where
  "skip_ws s = dropWhile json_space s"

definition hex_value :: "char \<Rightarrow> nat option" where
  "hex_value c =
    (let b = of_char c in
     if 48 \<le> b \<and> b \<le> 57 then Some (b - 48)
     else if 97 \<le> b \<and> b \<le> 102 then Some (b - 87)
     else if 65 \<le> b \<and> b \<le> 70 then Some (b - 55)
     else None)"

text \<open>The value of four hexadecimal digits at the head of a text.\<close>

definition hex4 :: "string \<Rightarrow> nat option" where
  "hex4 s =
    (case s of
       a # b # c # d # _ \<Rightarrow>
         (case (hex_value a, hex_value b, hex_value c, hex_value d) of
            (Some a, Some b, Some c, Some d) \<Rightarrow> Some (((a * 16 + b) * 16 + c) * 16 + d)
          | _ \<Rightarrow> None)
     | _ \<Rightarrow> None)"

text \<open>\<^verbatim>\<open>utf8.EncodeRune\<close>: surrogates and values past U+10FFFF are written as U+FFFD.\<close>

definition encode_rune :: "nat \<Rightarrow> string" where
  "encode_rune r =
    (if r < 128 then [char_of r]
     else if r < 2048 then [char_of (192 + r div 64), char_of (128 + r mod 64)]
     else if r > 1114111 \<or> 55296 \<le> r \<and> r \<le> 57343 then [CHR 0xEF, CHR 0xBF, CHR 0xBD]
     else if r < 65536
       then [char_of (224 + r div 4096), char_of (128 + r div 64 mod 64), char_of (128 + r mod 64)]
     else [char_of (240 + r div 262144), char_of (128 + r div 4096 mod 64), char_of (128 + r div 64 mod 64),
           char_of (128 + r mod 64)])"

text \<open>\<^verbatim>\<open>utf8.Valid\<close>: no byte decodes to U+FFFD of width one.\<close>

function utf8_valid :: "bytes \<Rightarrow> bool" where
  "utf8_valid s =
    (if s = [] then True
     else if decode_rune s = (65533, 1) then False
     else utf8_valid (drop (snd (decode_rune s)) s))"
  by pat_completeness auto
termination
  by (relation "measure length") (auto simp: decode_rune_width_pos)

declare utf8_valid.simps [simp del]

text \<open>\<^verbatim>\<open>utf8.RuneCount\<close>.\<close>

definition rune_count :: "bytes \<Rightarrow> nat" where
  "rune_count s = length (runes s)"

text \<open>\<^verbatim>\<open>bytes.TrimSpace\<close>: the white space of Unicode at both ends.\<close>

function trim_left :: "bytes \<Rightarrow> bytes" where
  "trim_left s =
    (if s \<noteq> [] \<and> unicode_space (fst (decode_rune s)) then trim_left (drop (snd (decode_rune s)) s) else s)"
  by pat_completeness auto
termination
  by (relation "measure length") (auto simp: decode_rune_width_pos)

declare trim_left.simps [simp del]

definition last_space :: "bytes \<Rightarrow> nat" where
  "last_space s =
    (let ends = (\<lambda>k. k \<le> length s \<and> snd (decode_rune (drop (length s - k) s)) = k
                   \<and> unicode_space (fst (decode_rune (drop (length s - k) s)))) in
     if ends 1 then 1 else if ends 2 then 2 else if ends 3 then 3 else 0)"

function trim_right :: "bytes \<Rightarrow> bytes" where
  "trim_right s = (if s \<noteq> [] \<and> last_space s \<noteq> 0 then trim_right (take (length s - last_space s) s) else s)"
  by pat_completeness auto
termination
  by (relation "measure length") auto

declare trim_right.simps [simp del]

definition trim_space :: "bytes \<Rightarrow> bytes" where
  "trim_space s = trim_right (trim_left s)"

section \<open>Strings and numbers\<close>

text \<open>One escape, from after its backslash, and what follows it.\<close>

definition scan_escape :: "string \<Rightarrow> (string \<times> string) option" where
  "scan_escape s =
    (case s of
       [] \<Rightarrow> None
     | e # rest \<Rightarrow>
         if e = CHR ''u'' then (if hex4 rest = None then None else Some (e # take 4 rest, drop 4 rest))
         else if e \<in> {quote, backslash, CHR ''/'', CHR ''b'', CHR ''f'', CHR ''n'', CHR ''r'', CHR ''t''}
           then Some ([e], rest)
         else None)"

lemma scan_escape_shorter: "scan_escape s = Some (t, r) \<Longrightarrow> length r < length s"
  by (cases s) (auto simp: scan_escape_def split: if_splits)

text \<open>The text of a string up to its closing quote, by the grammar, and what follows the quote.\<close>

function scan_string :: "string \<Rightarrow> (string \<times> string) option" where
  "scan_string s =
    (case s of
       [] \<Rightarrow> None
     | c # cs \<Rightarrow>
         if c = quote then Some ([], cs)
         else if c = backslash then
           Option.bind (scan_escape cs) (\<lambda>(e, rest). map_option (\<lambda>(t, r). (c # e @ t, r)) (scan_string rest))
         else if (of_char c :: nat) < 32 then None
         else map_option (\<lambda>(t, r). (c # t, r)) (scan_string cs))"
  by pat_completeness auto
termination
  by (relation "measure length") (auto dest: scan_escape_shorter)

declare scan_string.simps [simp del]

definition escaped_char :: "char \<Rightarrow> char" where
  "escaped_char e =
    (if e = CHR ''b'' then CHR 0x08 else if e = CHR ''f'' then CHR 0x0C else if e = CHR ''n'' then CHR 0x0A
     else if e = CHR ''r'' then CHR 0x0D else if e = CHR ''t'' then CHR 0x09 else e)"

text \<open>The rune of a surrogate pair, if the two units are one.\<close>

definition surrogate_pair :: "nat \<Rightarrow> nat \<Rightarrow> nat option" where
  "surrogate_pair u v =
    (if 55296 \<le> u \<and> u \<le> 56319 \<and> 56320 \<le> v \<and> v \<le> 57343
     then Some ((u - 55296) * 1024 + (v - 56320) + 65536) else None)"

text \<open>The unit after a first escape, when another escape follows directly.\<close>

definition second_unit :: "string \<Rightarrow> nat option" where
  "second_unit s =
    (case s of a # b # rest \<Rightarrow> if a = backslash \<and> b = CHR ''u'' then hex4 rest else None | _ \<Rightarrow> None)"

text \<open>\<^verbatim>\<open>unquote\<close> on the text between the quotes.\<close>

function unquote :: "string \<Rightarrow> string" where
  "unquote s =
    (case s of
       [] \<Rightarrow> []
     | c # cs \<Rightarrow>
         if c = backslash then
           (case cs of
              [] \<Rightarrow> []
            | e # rest \<Rightarrow>
                if e = CHR ''u'' then
                  (case hex4 rest of
                     None \<Rightarrow> []
                   | Some u \<Rightarrow>
                       if 55296 \<le> u \<and> u \<le> 57343 then
                         (case Option.bind (second_unit (drop 4 rest)) (surrogate_pair u) of
                            Some r \<Rightarrow> encode_rune r @ unquote (drop 10 rest)
                          | None \<Rightarrow> encode_rune 65533 @ unquote (drop 4 rest))
                       else encode_rune u @ unquote (drop 4 rest))
                else escaped_char e # unquote rest)
         else if (of_char c :: nat) < 128 then c # unquote cs
         else encode_rune (fst (decode_rune s)) @ unquote (drop (snd (decode_rune s)) s))"
  by pat_completeness auto
termination
  by (relation "measure length") (auto simp: decode_rune_width_pos)

declare unquote.simps [simp del]

fun digit_head :: "string \<Rightarrow> bool" where
  "digit_head [] = False"
| "digit_head (c # cs) = is_digit c"

definition scan_int :: "string \<Rightarrow> (string \<times> string) option" where
  "scan_int s =
    (if \<not> digit_head s then None
     else if hd s = CHR ''0'' then Some (''0'', tl s)
     else Some (takeWhile is_digit s, dropWhile is_digit s))"

definition scan_frac :: "string \<Rightarrow> (string \<times> string) option" where
  "scan_frac s =
    (case s of
       c # cs \<Rightarrow>
         if c \<noteq> CHR ''.'' then Some ([], s)
         else if digit_head cs then Some (c # takeWhile is_digit cs, dropWhile is_digit cs) else None
     | [] \<Rightarrow> Some ([], s))"

definition scan_exp :: "string \<Rightarrow> (string \<times> string) option" where
  "scan_exp s =
    (case s of
       c # cs \<Rightarrow>
         if c \<noteq> CHR ''e'' \<and> c \<noteq> CHR ''E'' then Some ([], s)
         else (case cs of
             d # ds \<Rightarrow>
               if d = CHR ''+'' \<or> d = CHR ''-'' then
                 (if digit_head ds then Some (c # d # takeWhile is_digit ds, dropWhile is_digit ds) else None)
               else if digit_head cs then Some (c # takeWhile is_digit cs, dropWhile is_digit cs) else None
           | [] \<Rightarrow> None)
     | [] \<Rightarrow> Some ([], s))"

definition scan_unsigned :: "string \<Rightarrow> (string \<times> string) option" where
  "scan_unsigned s =
    Option.bind (scan_int s) (\<lambda>(i, s1). Option.bind (scan_frac s1) (\<lambda>(f, s2).
    Option.bind (scan_exp s2) (\<lambda>(e, s3). Some (i @ f @ e, s3))))"

definition scan_number :: "string \<Rightarrow> (string \<times> string) option" where
  "scan_number s =
    (case s of
       c # cs \<Rightarrow> if c = CHR ''-'' then map_option (\<lambda>(t, r). (c # t, r)) (scan_unsigned cs) else scan_unsigned s
     | [] \<Rightarrow> None)"

section \<open>Values\<close>

text \<open>A value; every member and element comes with the slice of the text it was read from.\<close>

datatype json =
    JNull
  | JBool bool
  | JNum string
  | JStr string
  | JArr "(string \<times> json) list"
  | JObj "(string \<times> string \<times> json) list"

type_synonym members = "(string \<times> string \<times> json) list"

definition slice :: "string \<Rightarrow> string \<Rightarrow> string" where
  "slice s rest = take (length s - length rest) s"

fun strip_prefix :: "string \<Rightarrow> string \<Rightarrow> string option" where
  "strip_prefix [] s = Some s"
| "strip_prefix (p # ps) [] = None"
| "strip_prefix (p # ps) (c # cs) = (if p = c then strip_prefix ps cs else None)"

text \<open>The values that are one token other than a string.\<close>

definition parse_literal :: "string \<Rightarrow> (json \<times> string) option" where
  "parse_literal s =
    (case strip_prefix ''null'' s of Some r \<Rightarrow> Some (JNull, r) | None \<Rightarrow>
    (case strip_prefix ''true'' s of Some r \<Rightarrow> Some (JBool True, r) | None \<Rightarrow>
    (case strip_prefix ''false'' s of Some r \<Rightarrow> Some (JBool False, r) | None \<Rightarrow>
      map_option (\<lambda>(t, r). (JNum t, r)) (scan_number s))))"

fun parse_value :: "nat \<Rightarrow> string \<Rightarrow> (json \<times> string) option"
and parse_members :: "nat \<Rightarrow> string \<Rightarrow> (members \<times> string) option"
and parse_elements :: "nat \<Rightarrow> string \<Rightarrow> ((string \<times> json) list \<times> string) option" where
  "parse_value 0 s = None"
| "parse_value (Suc n) s =
    (case s of
       [] \<Rightarrow> None
     | c # cs \<Rightarrow>
         if c = CHR ''{'' then
           (case skip_ws cs of
              [] \<Rightarrow> None
            | d # r \<Rightarrow> if d = CHR ''}'' then Some (JObj [], r)
                       else map_option (\<lambda>(ms, r). (JObj ms, r)) (parse_members n (d # r)))
         else if c = CHR ''['' then
           (case skip_ws cs of
              [] \<Rightarrow> None
            | d # r \<Rightarrow> if d = CHR '']'' then Some (JArr [], r)
                       else map_option (\<lambda>(es, r). (JArr es, r)) (parse_elements n (d # r)))
         else if c = quote then map_option (\<lambda>(t, r). (JStr (unquote t), r)) (scan_string cs)
         else parse_literal s)"
| "parse_members 0 s = None"
| "parse_members (Suc n) s =
    (case s of
       [] \<Rightarrow> None
     | q # cs \<Rightarrow>
         if q \<noteq> quote then None
         else Option.bind (scan_string cs) (\<lambda>(k, r).
           case skip_ws r of
             [] \<Rightarrow> None
           | d # r1 \<Rightarrow>
               if d \<noteq> CHR '':'' then None
               else Option.bind (parse_value n (skip_ws r1)) (\<lambda>(v, r2).
                 let m = (unquote k, slice (skip_ws r1) r2, v) in
                 case skip_ws r2 of
                   [] \<Rightarrow> None
                 | e # r3 \<Rightarrow>
                     if e = CHR ''}'' then Some ([m], r3)
                     else if e = CHR '','' then map_option (\<lambda>(ms, r). (m # ms, r)) (parse_members n (skip_ws r3))
                     else None)))"
| "parse_elements 0 s = None"
| "parse_elements (Suc n) s =
    Option.bind (parse_value n s) (\<lambda>(v, r).
      let m = (slice s r, v) in
      case skip_ws r of
        [] \<Rightarrow> None
      | e # r1 \<Rightarrow>
          if e = CHR '']'' then Some ([m], r1)
          else if e = CHR '','' then map_option (\<lambda>(es, r). (m # es, r)) (parse_elements n (skip_ws r1))
          else None)"

declare parse_value.simps [simp del] parse_members.simps [simp del] parse_elements.simps [simp del]

definition json_fuel :: "string \<Rightarrow> nat" where
  "json_fuel s = 2 * length s + 2"

text \<open>The first value of a text and what follows it, as \<^verbatim>\<open>Decoder.Decode\<close> reads it.\<close>

definition decode_value :: "string \<Rightarrow> (json \<times> string) option" where
  "decode_value s = parse_value (json_fuel s) (skip_ws s)"

text \<open>The one value of a text, as \<^verbatim>\<open>Unmarshal\<close> requires.\<close>

definition unmarshal :: "string \<Rightarrow> json option" where
  "unmarshal s = Option.bind (decode_value s) (\<lambda>(v, r). if skip_ws r = [] then Some v else None)"

section \<open>Conversion to Go values\<close>

text \<open>\<^verbatim>\<open>strconv.ParseInt(s, 10, 64)\<close> and \<^verbatim>\<open>strconv.ParseUint(s, 10, 64)\<close>.\<close>

definition ParseUint :: "string \<Rightarrow> nat option" where
  "ParseUint s =
    (if s = [] \<or> \<not> list_all is_digit s \<or> digits_value s \<ge> 2 ^ 64 then None else Some (digits_value s))"

definition ParseInt :: "string \<Rightarrow> int option" where
  "ParseInt s =
    (let neg = (s \<noteq> [] \<and> hd s = CHR ''-'');
         ds = (if s \<noteq> [] \<and> (hd s = CHR ''-'' \<or> hd s = CHR ''+'') then tl s else s) in
     if ds = [] \<or> \<not> list_all is_digit ds then None
     else let v = int (digits_value ds) in
       if neg then (if v > 2 ^ 63 then None else Some (- v))
       else if v \<ge> 2 ^ 63 then None else Some v)"

text \<open>
  Decoding into a variable that holds \<open>old\<close>: a JSON \<^verbatim>\<open>null\<close> leaves a string or an integer alone and clears
  a slice or a pointer; a value of another type is an error.
\<close>

definition into_string :: "string \<Rightarrow> json \<Rightarrow> string option" where
  "into_string old v = (case v of JNull \<Rightarrow> Some old | JStr s \<Rightarrow> Some s | _ \<Rightarrow> None)"

definition into_int :: "int \<Rightarrow> json \<Rightarrow> int option" where
  "into_int old v = (case v of JNull \<Rightarrow> Some old | JNum t \<Rightarrow> ParseInt t | _ \<Rightarrow> None)"

definition into_string_pointer :: "json \<Rightarrow> string option option" where
  "into_string_pointer v = (case v of JNull \<Rightarrow> Some None | JStr s \<Rightarrow> Some (Some s) | _ \<Rightarrow> None)"

fun all_some :: "'a option list \<Rightarrow> 'a list option" where
  "all_some [] = Some []"
| "all_some (x # xs) = Option.bind x (\<lambda>y. map_option (\<lambda>ys. y # ys) (all_some xs))"

definition into_slice :: "(json \<Rightarrow> 'a option) \<Rightarrow> json \<Rightarrow> 'a list option" where
  "into_slice element v = (case v of JNull \<Rightarrow> Some [] | JArr es \<Rightarrow> all_some (map (element \<circ> snd) es) | _ \<Rightarrow> None)"

definition into_raw_slice :: "json \<Rightarrow> string list option" where
  "into_raw_slice v = (case v of JNull \<Rightarrow> Some [] | JArr es \<Rightarrow> Some (map fst es) | _ \<Rightarrow> None)"

text \<open>
  The members of an object that decode into a field: those with its name, or with a name equal to it up
  to case folding.  Among the runes past ASCII only the long s and the Kelvin sign fold to letters.
\<close>

definition fold_rune :: "nat \<Rightarrow> nat" where
  "fold_rune r =
    (if 97 \<le> r \<and> r \<le> 122 then r - 32 else if r = 383 then 83 else if r = 8490 then 75 else r)"

definition names_field :: "string \<Rightarrow> string \<Rightarrow> bool" where
  "names_field field key = (key = field \<or> map fold_rune (runes key) = map fold_rune (runes field))"

text \<open>A field after all the members that name it, from its zero value.\<close>

definition field_into :: "('a \<Rightarrow> json \<Rightarrow> 'a option) \<Rightarrow> 'a \<Rightarrow> string \<Rightarrow> members \<Rightarrow> 'a option" where
  "field_into decode zero field ms =
    fold (\<lambda>(k, _, v) acc. if names_field field k then Option.bind acc (\<lambda>old. decode old v) else acc) ms (Some zero)"

abbreviation string_field :: "string \<Rightarrow> members \<Rightarrow> string option" where
  "string_field \<equiv> field_into into_string []"

abbreviation int_field :: "string \<Rightarrow> members \<Rightarrow> int option" where
  "int_field \<equiv> field_into into_int 0"

abbreviation strings_field :: "string \<Rightarrow> members \<Rightarrow> string list option" where
  "strings_field \<equiv> field_into (\<lambda>_. into_slice (into_string [])) []"

abbreviation pointer_field :: "string \<Rightarrow> members \<Rightarrow> string option option" where
  "pointer_field \<equiv> field_into (\<lambda>_. into_string_pointer) None"

text \<open>The members a struct is decoded from: none for \<^verbatim>\<open>null\<close>, an error for any other type.\<close>

definition struct_members :: "json \<Rightarrow> members option" where
  "struct_members v = (case v of JNull \<Rightarrow> Some [] | JObj ms \<Rightarrow> Some ms | _ \<Rightarrow> None)"

text \<open>The final value of a key, the last one when it is repeated.\<close>

definition member :: "string \<Rightarrow> members \<Rightarrow> (string \<times> json) option" where
  "member name ms = map_of (rev ms) name"

section \<open>The fuel is enough\<close>

lemma length_skip_ws: "length (skip_ws s) \<le> length s"
  by (simp add: skip_ws_def length_dropWhile_le)

lemma skip_ws_Cons: "skip_ws s = c # r \<Longrightarrow> length r < length s"
  using length_skip_ws [of s] by simp

lemma scan_string_shorter: "scan_string s = Some (t, r) \<Longrightarrow> length r < length s"
proof (induction s arbitrary: t rule: measure_induct_rule [of length])
  case (less s)
  obtain c cs where s: "s = c # cs" using less.prems by (cases s) (auto simp: scan_string.simps)
  consider "r = cs" | e rest t' where "scan_escape cs = Some (e, rest)" "scan_string rest = Some (t', r)"
    | t' where "scan_string cs = Some (t', r)"
    using less.prems by (subst (asm) scan_string.simps) (auto simp: s bind_eq_Some_conv split: if_splits)
  then show ?case
  proof cases
    case 2
    then show ?thesis using less.IH [of rest t'] scan_escape_shorter [OF 2(1)] s by simp
  next
    case 3
    then show ?thesis using less.IH [of cs t'] s by simp
  qed (simp add: s)
qed

lemma scan_number_shorter: "scan_number s = Some (t, r) \<Longrightarrow> length r < length s"
proof -
  have drop: "length (dropWhile is_digit y) \<le> length y" for y by (rule length_dropWhile_le)
  have int: "length q < length y" if "scan_int y = Some (p, q)" for y p q
    using that drop [of "tl y"] by (cases y) (auto simp: scan_int_def split: if_splits)
  have frac: "length q \<le> length y" if "scan_frac y = Some (p, q)" for y p q
    using that drop by (fastforce simp: scan_frac_def le_SucI split: list.splits if_splits)
  have exp: "length q \<le> length y" if "scan_exp y = Some (p, q)" for y p q
    using that drop by (auto simp: scan_exp_def split: list.splits if_splits intro: le_SucI le_trans [OF drop])
  have "length q < length y" if "scan_unsigned y = Some (p, q)" for y p q
    using that by (auto simp: scan_unsigned_def bind_eq_Some_conv dest!: int frac exp)
  then show "scan_number s = Some (t, r) \<Longrightarrow> length r < length s"
    by (fastforce simp: scan_number_def split: list.splits if_splits intro: less_SucI)
qed

lemma strip_prefix_length: "strip_prefix p s = Some r \<Longrightarrow> length s = length p + length r"
  by (induction p s rule: strip_prefix.induct) (auto split: if_splits)

lemma parse_literal_shorter: "parse_literal s = Some (v, r) \<Longrightarrow> length r < length s"
  by (auto simp: parse_literal_def split: option.splits dest: scan_number_shorter strip_prefix_length)

lemma parse_no_fuel: "parse_value 0 s = None" "parse_members 0 s = None" "parse_elements 0 s = None"
  by (simp_all add: parse_value.simps parse_members.simps parse_elements.simps)

text \<open>What a success of each parser comes from.\<close>

lemma parse_value_SomeE:
  assumes "parse_value (Suc n) s = Some (v, r)"
  obtains (obj) c cs d r' ms where "s = c # cs" "skip_ws cs = d # r'" "parse_members n (d # r') = Some (ms, r)"
  | (arr) c cs d r' es where "s = c # cs" "skip_ws cs = d # r'" "parse_elements n (d # r') = Some (es, r)"
  | (closed) c cs d where "s = c # cs" "skip_ws cs = d # r"
  | (str) c cs t where "s = c # cs" "scan_string cs = Some (t, r)"
  | (lit) "parse_literal s = Some (v, r)"
proof (cases s)
  case (Cons c cs)
  show ?thesis
  proof (cases "c = CHR ''{'' \<or> c = CHR ''[''")
    case True
    then obtain d r' where d: "skip_ws cs = d # r'"
      using assms by (cases "skip_ws cs") (auto simp: parse_value.simps Cons)
    then show ?thesis using assms True
      by (auto simp: parse_value.simps Cons split: if_splits intro: obj [OF Cons d] arr [OF Cons d] closed [OF Cons])
  next
    case False
    then show ?thesis using assms
      by (auto simp: parse_value.simps Cons split: if_splits intro: str [OF Cons] lit)
  qed
qed (use assms in \<open>simp add: parse_value.simps\<close>)

lemma parse_members_SomeE:
  assumes "parse_members (Suc n) s = Some (ms, r)"
  obtains q cs k r1 d r2 v r3 e r4 where "s = q # cs" "scan_string cs = Some (k, r1)" "skip_ws r1 = d # r2"
    "parse_value n (skip_ws r2) = Some (v, r3)" "skip_ws r3 = e # r4"
    "r = r4 \<or> (\<exists>ms'. parse_members n (skip_ws r4) = Some (ms', r))"
proof -
  obtain q cs where s: "s = q # cs" using assms by (cases s) (auto simp: parse_members.simps)
  with assms obtain k r1 where k: "scan_string cs = Some (k, r1)"
    by (auto simp: parse_members.simps bind_eq_Some_conv split: if_splits)
  with assms s obtain d r2 where d: "skip_ws r1 = d # r2"
    by (cases "skip_ws r1") (auto simp: parse_members.simps split: if_splits)
  with assms s k obtain v r3 where v: "parse_value n (skip_ws r2) = Some (v, r3)"
    by (auto simp: parse_members.simps bind_eq_Some_conv split: if_splits)
  with assms s k d obtain e r4 where e: "skip_ws r3 = e # r4"
    by (cases "skip_ws r3") (auto simp: parse_members.simps split: if_splits)
  with assms s k d v have "r = r4 \<or> (\<exists>ms'. parse_members n (skip_ws r4) = Some (ms', r))"
    by (auto simp: parse_members.simps(2) Let_def split: if_splits)
  with s k d v e show ?thesis by (rule that)
qed

lemma parse_elements_SomeE:
  assumes "parse_elements (Suc n) s = Some (es, r)"
  obtains v r3 e r4 where "parse_value n s = Some (v, r3)" "skip_ws r3 = e # r4"
    "r = r4 \<or> (\<exists>es'. parse_elements n (skip_ws r4) = Some (es', r))"
proof -
  obtain v r3 where v: "parse_value n s = Some (v, r3)"
    using assms by (auto simp: parse_elements.simps bind_eq_Some_conv)
  with assms obtain e r4 where e: "skip_ws r3 = e # r4"
    by (cases "skip_ws r3") (auto simp: parse_elements.simps)
  with assms v have "r = r4 \<or> (\<exists>es'. parse_elements n (skip_ws r4) = Some (es', r))"
    by (auto simp: parse_elements.simps(2) Let_def split: if_splits)
  with v e show ?thesis by (rule that)
qed

lemma parse_shorter:
  "parse_value n s = Some (v, r) \<Longrightarrow> length r < length s"
  "parse_members n s = Some (ms, r) \<Longrightarrow> length r < length s"
  "parse_elements n s = Some (es, r) \<Longrightarrow> length r < length s"
proof (induction n arbitrary: s v ms es r)
  case (Suc n)
  note v_ih = Suc(1) and m_ih = Suc(2) and e_ih = Suc(3)
  { case 1
    then show ?case
    proof (cases rule: parse_value_SomeE)
      case (obj c cs d r' ms)
      then show ?thesis using m_ih [OF obj(3)] skip_ws_Cons [OF obj(2)] by simp
    next
      case (arr c cs d r' es)
      then show ?thesis using e_ih [OF arr(3)] skip_ws_Cons [OF arr(2)] by simp
    next
      case (closed c cs d)
      then show ?thesis using skip_ws_Cons [OF closed(2)] by simp
    next
      case (str c cs t)
      then show ?thesis using scan_string_shorter [OF str(2)] by simp
    qed (rule parse_literal_shorter)
  next
    case 2
    then show ?case
    proof (cases rule: parse_members_SomeE)
      case (1 q cs k r1 d r2 v r3 e r4)
      have "length r4 < length cs"
        using scan_string_shorter [OF 1(2)] skip_ws_Cons [OF 1(3)] v_ih [OF 1(4)] length_skip_ws [of r2]
          skip_ws_Cons [OF 1(5)] by linarith
      moreover have "length r \<le> length r4" using 1(6) m_ih [of "skip_ws r4" _ r] length_skip_ws [of r4] by force
      ultimately show ?thesis by (simp add: 1)
    qed
  next
    case 3
    then show ?case
    proof (cases rule: parse_elements_SomeE)
      case (1 v r3 e r4)
      have "length r \<le> length r4" using 1(3) e_ih [of "skip_ws r4" _ r] length_skip_ws [of r4] by force
      then show ?thesis using v_ih [OF 1(1)] skip_ws_Cons [OF 1(2)] by linarith
    qed
  }
qed (simp_all add: parse_no_fuel)

text \<open>With fuel of more than twice the length of the text, more fuel changes nothing.\<close>

lemma parse_more_fuel:
  "2 * length s < n \<Longrightarrow> parse_value (Suc n) s = parse_value n s"
  "2 * length s < n \<Longrightarrow> parse_members (Suc n) s = parse_members n s"
  "2 * length s + 1 < n \<Longrightarrow> parse_elements (Suc n) s = parse_elements n s"
proof (induction n arbitrary: s)
  case (Suc n)
  note v_ih = Suc(1) and m_ih = Suc(2) and e_ih = Suc(3)
  { case 1
    have "parse_members (Suc n) y = parse_members n y" "parse_elements (Suc n) y = parse_elements n y"
      if "s = c # cs" "skip_ws cs = y" for c cs y
      using 1 that length_skip_ws [of cs] by (auto intro!: m_ih e_ih)
    then show ?case
      by (cases s) (auto simp: parse_value.simps(2) split: list.splits)
  next
    case 2
    have v: "parse_value (Suc n) (skip_ws r2) = parse_value n (skip_ws r2)"
      and m: "parse_value n (skip_ws r2) = Some (v, r3) \<Longrightarrow> skip_ws r3 = e # r4 \<Longrightarrow>
        parse_members (Suc n) (skip_ws r4) = parse_members n (skip_ws r4)"
      if "s = q # cs" "scan_string cs = Some (k, r1)" "skip_ws r1 = d # r2" for q cs k r1 d r2 v r3 e r4
      using 2 that scan_string_shorter [OF that(2)] skip_ws_Cons [OF that(3)] length_skip_ws [of r2]
        skip_ws_Cons [of r3 e r4] parse_shorter(1) [of n "skip_ws r2" v r3] length_skip_ws [of r4]
      by (auto intro!: v_ih m_ih)
    show ?case
    proof (cases s)
      case (Cons q cs)
      show ?thesis
      proof (cases "scan_string cs")
        case (Some kr)
        obtain k r1 where kr: "kr = (k, r1)" by fastforce
        show ?thesis
        proof (cases "skip_ws r1")
          case r1: (Cons d r2)
          note v' = v [OF Cons Some [unfolded kr] r1]
          show ?thesis
          proof (cases "parse_value n (skip_ws r2)")
            case (Some vr)
            obtain v' r3 where vr: "vr = (v', r3)" by fastforce
            show ?thesis
              using m [OF Cons \<open>scan_string cs = Some kr\<close> [unfolded kr] r1 Some [unfolded vr]] \<open>scan_string cs = Some kr\<close>
              by (cases "skip_ws r3") (simp_all add: parse_members.simps(2) Cons kr r1 Some vr v' Let_def)
          qed (simp add: parse_members.simps(2) Cons Some kr r1 v')
        qed (simp add: parse_members.simps(2) Cons Some kr)
      qed (simp add: parse_members.simps(2) Cons)
    qed (simp add: parse_members.simps(2))
  next
    case 3
    have v: "parse_value (Suc n) s = parse_value n s" using 3 by (auto intro!: v_ih)
    have e: "parse_elements (Suc n) (skip_ws r4) = parse_elements n (skip_ws r4)"
      if "parse_value n s = Some (v, r3)" "skip_ws r3 = e # r4" for v r3 e r4
      using 3 parse_shorter(1) [OF that(1)] skip_ws_Cons [OF that(2)] length_skip_ws [of r4] by (auto intro!: e_ih)
    show ?case
    proof (cases "parse_value n s")
      case (Some vr)
      obtain v' r3 where vr: "vr = (v', r3)" by fastforce
      show ?thesis
        using e Some vr by (cases "skip_ws r3") (auto simp: parse_elements.simps(2) v Let_def)
    qed (simp add: parse_elements.simps(2) v)
  }
qed simp_all

lemma parse_value_fuel: "2 * length s < n \<Longrightarrow> parse_value (n + k) s = parse_value n s"
  by (induction k) (simp_all add: parse_more_fuel(1))

text \<open>So reading a text does not depend on the fuel it was given.\<close>

lemma decode_value_fuel: "json_fuel s \<le> n \<Longrightarrow> parse_value n (skip_ws s) = decode_value s"
proof -
  assume n: "json_fuel s \<le> n"
  have "2 * length (skip_ws s) < json_fuel s" using length_skip_ws [of s] by (simp add: json_fuel_def)
  from parse_value_fuel [OF this, of "n - json_fuel s"] n show ?thesis by (simp add: decode_value_def)
qed

section \<open>Reading back printed integers\<close>

lemma digits10_all: "list_all is_digit (digits10 n)"
  using digits10_digits [of _ n] by (auto simp: list_all_iff)

lemma digits10_unsigned: "hd (digits10 n) \<noteq> CHR ''-''" "hd (digits10 n) \<noteq> CHR ''+''"
  using digits10_digits [of "hd (digits10 n)" n] by (auto simp: is_digit_def)

lemma ParseUint_itoa: "n < 2 ^ 64 \<Longrightarrow> ParseUint (itoa (int n)) = Some n"
  by (simp add: ParseUint_def itoa_def digits10_all)

lemma ParseInt_itoa: "0 \<le> n \<Longrightarrow> n < 2 ^ 63 \<Longrightarrow> ParseInt (itoa n) = Some n"
  by (simp add: ParseInt_def itoa_def digits10_all digits10_unsigned Let_def)

lemma ParseInt_itoa_range: "0 \<le> n \<Longrightarrow> ParseInt (itoa n) = (if n < 2 ^ 63 then Some n else None)"
  by (simp add: ParseInt_def itoa_def digits10_all digits10_unsigned Let_def)

end
