(* ===== verification/Ssp_Envelope.thy ===== *)
theory Ssp_Envelope
  imports Go_Json_Read Go_Time Sha256 Delivery_Stream
begin

text \<open>
  \<^verbatim>\<open>internal/ssp/envelope.go\<close>, \<^verbatim>\<open>header.go\<close> and \<^verbatim>\<open>commitment.go\<close>: the signed wire format.  The scans over
  the received bytes work on the suffix that starts at the source's index.  The canonicalisation of
  \<^verbatim>\<open>github.com/gowebpki/jcs\<close> and the Ed25519 operations are arguments.  Errors carry the sentinel they
  wrap; wrapping that only adds text is dropped, and so are values interpolated into a message.
\<close>

section \<open>Constants, errors and the envelope\<close>

definition MaxDepth :: nat where
  "MaxDepth = 32"

abbreviation Family_Case :: string where
  "Family_Case \<equiv> ''ssp.case.v1''"

abbreviation Family_Advice :: string where
  "Family_Advice \<equiv> ''ssp.advice.v1''"

abbreviation Family_Registry :: string where
  "Family_Registry \<equiv> ''ssp.registry.v1''"

datatype ssp_error =
    SspErr string
  | ErrUnknownFamily
  | ErrUnknownField
  | ErrDuplicateKey
  | ErrExpiredEnvelope
  | ErrInvalidEnvelope ssp_error
  | ErrCanonical string
  | OutOfFuel

text \<open>\<^verbatim>\<open>errors.Is\<close> for the two sentinels callers ask about.\<close>

fun is_expired :: "ssp_error \<Rightarrow> bool" where
  "is_expired ErrExpiredEnvelope = True"
| "is_expired (ErrInvalidEnvelope e) = is_expired e"
| "is_expired _ = False"

fun is_invalid :: "ssp_error \<Rightarrow> bool" where
  "is_invalid (ErrInvalidEnvelope e) = True"
| "is_invalid _ = False"

record Envelope =
  en_Schema :: string
  en_ID :: string
  en_CaseID :: string
  en_EmittedAt :: string
  en_ExpiresAt :: string
  en_RoutingEpoch :: int
  en_RegistryRevision :: int
  en_RegistryHash :: string
  en_AuthorKeyID :: string
  en_SignatureAlg :: string
  en_Body :: bytes
  en_Signature :: string

text \<open>What comes from outside: canonicalisation, signature verification and signing, and public keys.\<close>

record ssp_crypto =
  cr_jcs :: "bytes \<Rightarrow> string + bytes"
  cr_verify :: "bytes \<Rightarrow> bytes \<Rightarrow> bytes \<Rightarrow> bool"
  cr_sign :: "bytes \<Rightarrow> bytes \<Rightarrow> bytes"

definition sha256HexPattern :: "string \<Rightarrow> bool" where
  "sha256HexPattern s = (take 7 s = ''sha256:'' \<and> length s = 71 \<and> list_all is_lower_hex (drop 7 s))"

abbreviation malformed :: ssp_error where
  "malformed \<equiv> SspErr ''ssp: malformed JSON''"

section \<open>Guards on the raw bytes\<close>

definition isHighSurrogate :: "nat \<Rightarrow> bool" where
  "isHighSurrogate unit = (55296 \<le> unit \<and> unit \<le> 56319)"

definition isLowSurrogate :: "nat \<Rightarrow> bool" where
  "isLowSurrogate unit = (56320 \<le> unit \<and> unit \<le> 57343)"

fun read_digits :: "nat \<Rightarrow> bytes \<Rightarrow> ssp_error + nat" where
  "read_digits acc [] = Inr acc"
| "read_digits acc (c # cs) =
    (case hex_value c of
       None \<Rightarrow> Inl (SspErr ''ssp: invalid unicode escape digit'')
     | Some d \<Rightarrow> read_digits (acc * 16 + d) cs)"

definition readHex4 :: "bytes \<Rightarrow> ssp_error + nat" where
  "readHex4 s = (if length s < 4 then Inl (SspErr ''ssp: truncated unicode escape'') else read_digits 0 (take 4 s))"

function validate_escapes :: "bool \<Rightarrow> bytes \<Rightarrow> ssp_error option" where
  "validate_escapes inString s =
    (case s of
       [] \<Rightarrow> None
     | c # cs \<Rightarrow>
         if \<not> inString then validate_escapes (c = quote) cs
         else if c = quote then validate_escapes False cs
         else if c = backslash then
           (case cs of
              [] \<Rightarrow> Some (SspErr ''ssp: truncated escape sequence'')
            | e # rest \<Rightarrow>
                if e \<noteq> CHR ''u'' then validate_escapes True rest
                else (case readHex4 rest of Inl err \<Rightarrow> Some err | Inr u \<Rightarrow>
                  if isLowSurrogate u then Some (SspErr ''ssp: lone low surrogate escape'')
                  else if isHighSurrogate u then
                    (if length (drop 4 rest) < 6 \<or> take 2 (drop 4 rest) \<noteq> [backslash, CHR ''u'']
                     then Some (SspErr ''ssp: high surrogate escape is not followed by a low surrogate escape'')
                     else (case readHex4 (drop 6 rest) of Inl err \<Rightarrow> Some err | Inr v \<Rightarrow>
                       if \<not> isLowSurrogate v
                         then Some (SspErr ''ssp: high surrogate escape is followed by a unit which is not a low surrogate'')
                       else validate_escapes True (drop 10 rest)))
                  else validate_escapes True (drop 4 rest)))
         else validate_escapes True cs)"
  by pat_completeness auto
termination
  by (relation "measure (length \<circ> snd)") auto

declare validate_escapes.simps [simp del]

definition validateStringEscapes :: "bytes \<Rightarrow> ssp_error option" where
  "validateStringEscapes raw = validate_escapes False raw"

text \<open>
  Numbers are tokens only when they fit a 64-bit float.  The exponent is read as \<^verbatim>\<open>strconv\<close> reads it,
  without further digits once it has passed 10000; the bound is the midpoint between the largest float and
  the next power of two.
\<close>

definition exponent_value :: "string \<Rightarrow> int" where
  "exponent_value s =
    (let signed = (s \<noteq> [] \<and> (hd s = CHR ''+'' \<or> hd s = CHR ''-''));
         n = foldl (\<lambda>e c. if e < 10000 then 10 * e + int (digit_value c) else e) 0 (if signed then tl s else s) in
     if s \<noteq> [] \<and> hd s = CHR ''-'' then - n else n)"

definition float_in_range :: "string \<Rightarrow> bool" where
  "float_in_range t =
    (let u = (if t \<noteq> [] \<and> hd t = CHR ''-'' then tl t else t);
         whole = takeWhile is_digit u; s1 = dropWhile is_digit u;
         point = (s1 \<noteq> [] \<and> hd s1 = CHR ''.'');
         frac = (if point then takeWhile is_digit (tl s1) else []);
         s2 = (if point then dropWhile is_digit (tl s1) else s1);
         e = (if s2 = [] then 0 else exponent_value (tl s2)) - int (length frac);
         m = digits_value (whole @ frac); top = 2 ^ 1024 - 2 ^ 970 in
     if e \<ge> 0 then m * 10 ^ nat e < top else m < top * 10 ^ nat (- e))"

text \<open>One token that is a whole value: the text behind it, or nothing when it is malformed.\<close>

definition scalar_token :: "string \<Rightarrow> string option" where
  "scalar_token s =
    (case s of
       [] \<Rightarrow> None
     | c # cs \<Rightarrow>
         if c = quote then map_option snd (scan_string cs)
         else (case parse_literal s of
             Some (JNum t, r) \<Rightarrow> if float_in_range t then Some r else None
           | Some (_, r) \<Rightarrow> Some r
           | None \<Rightarrow> None))"

text \<open>The separator a token reader demands before a value: nothing, a colon or a comma.\<close>

fun after_separator :: "char option \<Rightarrow> string \<Rightarrow> string option" where
  "after_separator None s = Some s"
| "after_separator (Some c) s = (case s of [] \<Rightarrow> None | d # r \<Rightarrow> if d = c then Some (skip_ws r) else None)"

text \<open>The token a value starts with, and what follows it.\<close>

datatype value_token = OpenObject | OpenArray | Scalar

definition value_start :: "nat \<Rightarrow> char option \<Rightarrow> string \<Rightarrow> ssp_error + value_token \<times> string" where
  "value_start depth sep s =
    (if depth > MaxDepth then Inl (SspErr ''ssp: nesting depth exceeded'')
     else (case after_separator sep (skip_ws s) of
       None \<Rightarrow> Inl malformed
     | Some t \<Rightarrow>
         if take 1 t = ''{'' \<or> take 1 t = ''['' then
           (if depth \<ge> MaxDepth then Inl (SspErr ''ssp: nesting depth exceeded'')
            else Inr (if take 1 t = ''{'' then OpenObject else OpenArray, tl t))
         else (case scalar_token t of None \<Rightarrow> Inl malformed | Some r \<Rightarrow> Inr (Scalar, r))))"

text \<open>The next key of an object, \<^const>\<open>None\<close> at its end.\<close>

definition key_token :: "string list \<Rightarrow> string \<Rightarrow> ssp_error + string option \<times> string" where
  "key_token keys s =
    (let t = skip_ws s in
     if take 1 t = ''}'' then Inr (None, tl t)
     else (case after_separator (if keys = [] then None else Some CHR '','') t of
       None \<Rightarrow> Inl malformed
     | Some u \<Rightarrow>
         if take 1 u \<noteq> [quote] then Inl malformed
         else (case scan_string (tl u) of
             None \<Rightarrow> Inl malformed
           | Some (k, r) \<Rightarrow> if unquote k \<in> set keys then Inl ErrDuplicateKey else Inr (Some (unquote k), r))))"

fun scanValue :: "nat \<Rightarrow> nat \<Rightarrow> char option \<Rightarrow> string \<Rightarrow> ssp_error + string"
and scan_object :: "nat \<Rightarrow> nat \<Rightarrow> string list \<Rightarrow> string \<Rightarrow> ssp_error + string"
and scan_array :: "nat \<Rightarrow> nat \<Rightarrow> bool \<Rightarrow> string \<Rightarrow> ssp_error + string" where
  "scanValue 0 depth sep s = Inl OutOfFuel"
| "scanValue (Suc n) depth sep s =
    (case value_start depth sep s of
       Inl e \<Rightarrow> Inl e
     | Inr (OpenObject, r) \<Rightarrow> scan_object n depth [] r
     | Inr (OpenArray, r) \<Rightarrow> scan_array n depth True r
     | Inr (Scalar, r) \<Rightarrow> Inr r)"
| "scan_object 0 depth keys s = Inl OutOfFuel"
| "scan_object (Suc n) depth keys s =
    (case key_token keys s of
       Inl e \<Rightarrow> Inl e
     | Inr (None, r) \<Rightarrow> Inr r
     | Inr (Some k, r) \<Rightarrow>
         (case scanValue n (depth + 1) (Some CHR '':'') r of
            Inl e \<Rightarrow> Inl e
          | Inr r2 \<Rightarrow> scan_object n depth (k # keys) r2))"
| "scan_array 0 depth first s = Inl OutOfFuel"
| "scan_array (Suc n) depth first s =
    (let t = skip_ws s in
     if take 1 t = '']'' then Inr (tl t)
     else if take 1 t = ''}'' \<or> t = [] then Inl malformed
     else (case scanValue n (depth + 1) (if first then None else Some CHR '','') t of
         Inl e \<Rightarrow> Inl e
       | Inr r2 \<Rightarrow> scan_array n depth False r2))"

declare scanValue.simps [simp del] scan_object.simps [simp del] scan_array.simps [simp del]

definition rawGuard :: "bytes \<Rightarrow> ssp_error option" where
  "rawGuard raw =
    (if length raw > MaxEnvelopeBytes then Some (SspErr ''ssp: envelope exceeds 65536 bytes'')
     else if \<not> utf8_valid raw then Some (SspErr ''ssp: invalid UTF-8'')
     else (case validateStringEscapes raw of Some e \<Rightarrow> Some e | None \<Rightarrow>
       if take 1 (skip_ws raw) \<noteq> ''{'' then Some (SspErr ''ssp: envelope root must be an object'')
       else (case scanValue (json_fuel raw) 0 None raw of
           Inl e \<Rightarrow> Some e
         | Inr rest \<Rightarrow> if skip_ws rest = [] then None else Some malformed)))"

definition canonical :: "ssp_crypto \<Rightarrow> bytes \<Rightarrow> ssp_error + bytes" where
  "canonical cr raw =
    (case rawGuard raw of Some e \<Rightarrow> Inl e | None \<Rightarrow>
     (case cr_jcs cr raw of Inl e \<Rightarrow> Inl (ErrCanonical e) | Inr c \<Rightarrow> Inr c))"

section \<open>Base64\<close>

text \<open>\<^verbatim>\<open>base64.RawURLEncoding\<close>; a strict decoder skips line breaks and demands zero padding bits.\<close>

definition b64_char :: "nat \<Rightarrow> char" where
  "b64_char v =
    (if v < 26 then char_of (65 + v) else if v < 52 then char_of (71 + v)
     else if v < 62 then char_of (v - 4) else if v = 62 then CHR ''-'' else CHR ''_'')"

definition b64_value :: "char \<Rightarrow> nat option" where
  "b64_value c =
    (let b = of_char c in
     if 65 \<le> b \<and> b \<le> 90 then Some (b - 65) else if 97 \<le> b \<and> b \<le> 122 then Some (b - 71)
     else if 48 \<le> b \<and> b \<le> 57 then Some (b + 4) else if b = 45 then Some 62 else if b = 95 then Some 63
     else None)"

fun b64_encode :: "bytes \<Rightarrow> string" where
  "b64_encode [] = []"
| "b64_encode [a] = [b64_char (of_char a div 4), b64_char (of_char a mod 4 * 16)]"
| "b64_encode [a, b] =
    [b64_char (of_char a div 4), b64_char (of_char a mod 4 * 16 + of_char b div 16),
     b64_char (of_char b mod 16 * 4)]"
| "b64_encode (a # b # c # rest) =
    b64_char (of_char a div 4) # b64_char (of_char a mod 4 * 16 + of_char b div 16)
    # b64_char (of_char b mod 16 * 4 + of_char c div 64) # b64_char (of_char c mod 64) # b64_encode rest"

fun b64_bytes :: "nat list \<Rightarrow> bytes option" where
  "b64_bytes [] = Some []"
| "b64_bytes [x] = None"
| "b64_bytes [x, y] = (if y mod 16 = 0 then Some [char_of (x * 4 + y div 16)] else None)"
| "b64_bytes [x, y, z] =
    (if z mod 4 = 0 then Some [char_of (x * 4 + y div 16), char_of (y mod 16 * 16 + z div 4)] else None)"
| "b64_bytes (x # y # z # w # rest) =
    map_option (\<lambda>bs. char_of (x * 4 + y div 16) # char_of (y mod 16 * 16 + z div 4) # char_of (z mod 4 * 64 + w) # bs)
      (b64_bytes rest)"

definition b64_decode :: "string \<Rightarrow> bytes option" where
  "b64_decode s =
    Option.bind (all_some (map b64_value (filter (\<lambda>c. c \<noteq> CHR 0x0D \<and> c \<noteq> CHR 0x0A) s))) b64_bytes"

definition DecodeCanonicalBase64 :: "string \<Rightarrow> nat \<Rightarrow> ssp_error + bytes" where
  "DecodeCanonicalBase64 encoded wantLen =
    (case b64_decode encoded of
       None \<Rightarrow> Inl (SspErr ''ssp: not canonical base64url'')
     | Some decoded \<Rightarrow>
         if length decoded \<noteq> wantLen then Inl (SspErr ''ssp: decoded length'')
         else if b64_encode decoded \<noteq> encoded then Inl (SspErr ''ssp: base64url encoding is not canonical'')
         else Inr decoded)"

section \<open>Strict decoding\<close>

definition exactObject :: "bytes \<Rightarrow> ssp_error + members" where
  "exactObject raw =
    (if take 1 (trim_space raw) \<noteq> ''{'' then Inl (SspErr ''ssp: must be an object'')
     else case unmarshal (trim_space raw) of
       Some (JObj ms) \<Rightarrow> Inr ms
     | _ \<Rightarrow> Inl (SspErr ''ssp: invalid object''))"

fun require_present :: "members \<Rightarrow> string list \<Rightarrow> ssp_error option" where
  "require_present ms [] = None"
| "require_present ms (name # names) =
    (case member name ms of
       None \<Rightarrow> Some (SspErr ''ssp: missing required member'')
     | Some (raw, _) \<Rightarrow>
         if trim_space raw = ''null'' then Some (SspErr ''ssp: required member is null'')
         else require_present ms names)"

definition requireExactMembers :: "members \<Rightarrow> string list \<Rightarrow> ssp_error option" where
  "requireExactMembers ms required =
    (if \<not> list_all (\<lambda>m. fst m \<in> set required) ms then Some ErrUnknownField else require_present ms required)"

definition requiredString :: "members \<Rightarrow> string \<Rightarrow> ssp_error + string" where
  "requiredString ms name =
    (case member name ms of
       None \<Rightarrow> Inl (SspErr ''ssp: required member is missing or null'')
     | Some (raw, _) \<Rightarrow>
         if trim_space raw = ''null'' then Inl (SspErr ''ssp: required member is missing or null'')
         else (case Option.bind (unmarshal raw) (into_string []) of
             None \<Rightarrow> Inl (SspErr ''ssp: member must be a string'')
           | Some value \<Rightarrow> Inr value))"

text \<open>The pattern \<^verbatim>\<open>^(-?0|[1-9][0-9]*)$\<close>.\<close>

definition integer_text :: "string \<Rightarrow> bool" where
  "integer_text t =
    (t = ''0'' \<or> t = ''-0'' \<or> t \<noteq> [] \<and> hd t \<noteq> CHR ''0'' \<and> list_all is_digit t)"

definition requiredNonNegativeInteger :: "members \<Rightarrow> string \<Rightarrow> ssp_error + int" where
  "requiredNonNegativeInteger ms name =
    (case member name ms of
       None \<Rightarrow> Inl (SspErr ''ssp: required member is missing or null'')
     | Some (raw, _) \<Rightarrow>
    (let t = trim_space raw in
     if t = ''null'' then Inl (SspErr ''ssp: required member is missing or null'')
     else if \<not> integer_text t then Inl (SspErr ''ssp: member must be a non-negative integer'')
     else case ParseInt t of
       None \<Rightarrow> Inl (SspErr ''ssp: member is outside the safe integer range'')
     | Some v \<Rightarrow> if v > 2 ^ 53 - 1 then Inl (SspErr ''ssp: member is outside the safe integer range'') else Inr v))"

definition envelopeCommonRequiredMembers :: "string list" where
  "envelopeCommonRequiredMembers =
    [''schema'', ''id'', ''emitted_at'', ''expires_at'', ''routing_epoch'', ''registry_revision'', ''author_key_id'',
     ''signature_alg'', ''body'', ''signature'']"

text \<open>The required strings of an object, in order, up to the first failure.\<close>

fun requiredStrings :: "members \<Rightarrow> string list \<Rightarrow> ssp_error + string list" where
  "requiredStrings ms [] = Inr []"
| "requiredStrings ms (name # names) =
    (case requiredString ms name of Inl e \<Rightarrow> Inl e | Inr v \<Rightarrow>
    (case requiredStrings ms names of Inl e \<Rightarrow> Inl e | Inr vs \<Rightarrow> Inr (v # vs)))"

definition decodeStrictEnvelope :: "bytes \<Rightarrow> ssp_error + Envelope" where
  "decodeStrictEnvelope raw =
    (case rawGuard raw of Some e \<Rightarrow> Inl e | None \<Rightarrow>
    (case exactObject raw of Inl e \<Rightarrow> Inl e | Inr ms \<Rightarrow>
    (case requiredString ms ''schema'' of Inl e \<Rightarrow> Inl e | Inr schema \<Rightarrow>
     if schema \<noteq> Family_Case \<and> schema \<noteq> Family_Advice \<and> schema \<noteq> Family_Registry then Inl ErrUnknownFamily
     else if schema = Family_Registry \<and> (member ''case_id'' ms \<noteq> None \<or> member ''registry_hash'' ms \<noteq> None)
       then Inl (SspErr ''ssp: member is forbidden for ssp.registry.v1'')
     else (case requireExactMembers ms (envelopeCommonRequiredMembers
            @ (if schema = Family_Registry then [] else [''case_id'', ''registry_hash''])) of
       Some e \<Rightarrow> Inl e
     | None \<Rightarrow>
    (case requiredNonNegativeInteger ms ''routing_epoch'' of Inl e \<Rightarrow> Inl e | Inr routingEpoch \<Rightarrow>
    (case requiredNonNegativeInteger ms ''registry_revision'' of Inl e \<Rightarrow> Inl e | Inr registryRevision \<Rightarrow>
    (case requiredStrings ms [''id'', ''emitted_at'', ''expires_at'', ''author_key_id'', ''signature_alg'', ''signature''] of
       Inl e \<Rightarrow> Inl e
     | Inr texts \<Rightarrow>
    (case (if schema = Family_Registry then Inr [[], []] else requiredStrings ms [''case_id'', ''registry_hash'']) of
       Inl e \<Rightarrow> Inl e
     | Inr bound \<Rightarrow>
         Inr \<lparr>en_Schema = schema, en_ID = texts ! 0, en_CaseID = bound ! 0, en_EmittedAt = texts ! 1,
              en_ExpiresAt = texts ! 2, en_RoutingEpoch = routingEpoch, en_RegistryRevision = registryRevision,
              en_RegistryHash = bound ! 1, en_AuthorKeyID = texts ! 3, en_SignatureAlg = texts ! 4,
              en_Body = (case member ''body'' ms of None \<Rightarrow> [] | Some (b, _) \<Rightarrow> b), en_Signature = texts ! 5\<rparr>))))))))"

record EnvelopeHeader =
  eh_Schema :: string
  eh_ID :: string
  eh_CaseID :: string
  eh_EmittedAt :: string
  eh_ExpiresAt :: string
  eh_RoutingEpoch :: int
  eh_RegistryRevision :: int
  eh_RegistryHash :: string
  eh_AuthorKeyID :: string

definition header_of :: "Envelope \<Rightarrow> EnvelopeHeader" where
  "header_of e =
    \<lparr>eh_Schema = en_Schema e, eh_ID = en_ID e, eh_CaseID = en_CaseID e, eh_EmittedAt = en_EmittedAt e,
     eh_ExpiresAt = en_ExpiresAt e, eh_RoutingEpoch = en_RoutingEpoch e,
     eh_RegistryRevision = en_RegistryRevision e, eh_RegistryHash = en_RegistryHash e,
     eh_AuthorKeyID = en_AuthorKeyID e\<rparr>"

definition ReadHeader :: "bytes \<Rightarrow> ssp_error + EnvelopeHeader" where
  "ReadHeader raw = (case decodeStrictEnvelope raw of Inl e \<Rightarrow> Inl e | Inr e \<Rightarrow> Inr (header_of e))"

section \<open>Timestamps, identifiers and numbers\<close>

text \<open>The pattern \<^verbatim>\<open>timestampV1\<close>: twenty bytes, or a fraction of one to six digits before the \<^verbatim>\<open>Z\<close>.\<close>

definition timestampV1 :: "string \<Rightarrow> bool" where
  "timestampV1 s =
    (let head = take 19 s; tail = drop 19 s;
         punct = [(4, CHR ''-''), (7, CHR ''-''), (10, CHR ''T''), (13, CHR '':''), (16, CHR '':'')] in
     length head = 19
     \<and> list_all (\<lambda>(i, c). case map_of punct i of Some p \<Rightarrow> c = p | None \<Rightarrow> is_digit c) (enumerate 0 head)
     \<and> (tail = ''Z''
        \<or> (3 \<le> length tail \<and> length tail \<le> 8 \<and> hd tail = CHR ''.'' \<and> last tail = CHR ''Z''
           \<and> list_all is_digit (butlast (tl tail)))))"

definition ParseTimestamp :: "string \<Rightarrow> ssp_error + time" where
  "ParseTimestamp value =
    (if \<not> timestampV1 value \<or> take 4 value = ''0000'' then Inl (SspErr ''ssp: invalid timestamp grammar'')
     else case parseSQLTime value of None \<Rightarrow> Inl (SspErr ''parsing time'') | Some t \<Rightarrow> Inr t)"

definition validOpaqueID :: "string \<Rightarrow> bool" where
  "validOpaqueID value = (utf8_valid value \<and> 1 \<le> rune_count value \<and> rune_count value \<le> 512)"

definition check_number :: "string \<Rightarrow> ssp_error option" where
  "check_number t =
    (if list_ex (\<lambda>c. c = CHR ''.'' \<or> c = CHR ''e'' \<or> c = CHR ''E'') t
       then Some (SspErr ''ssp: floating-point numbers are not allowed'')
     else case ParseInt t of
       None \<Rightarrow> Some (SspErr ''ssp: integer exceeds safe range'')
     | Some n \<Rightarrow> if n < - (2 ^ 53 - 1) \<or> n > 2 ^ 53 - 1 then Some (SspErr ''ssp: integer exceeds safe range'') else None)"

text \<open>The walk visits the decoded value, in which the last of several equal keys remains.\<close>

fun walk_numbers :: "json \<Rightarrow> ssp_error option"
and walk_elements :: "(string \<times> json) list \<Rightarrow> ssp_error option"
and walk_members :: "members \<Rightarrow> ssp_error option" where
  "walk_numbers (JNum t) = check_number t"
| "walk_numbers (JArr es) = walk_elements es"
| "walk_numbers (JObj ms) = walk_members ms"
| "walk_numbers _ = None"
| "walk_elements [] = None"
| "walk_elements ((r, v) # es) = (case walk_numbers v of Some e \<Rightarrow> Some e | None \<Rightarrow> walk_elements es)"
| "walk_members [] = None"
| "walk_members ((k, r, v) # ms) =
    (case (if k \<in> fst ` set ms then None else walk_numbers v) of Some e \<Rightarrow> Some e | None \<Rightarrow> walk_members ms)"

definition validateNumbers :: "bytes \<Rightarrow> ssp_error option" where
  "validateNumbers raw =
    (case decode_value raw of None \<Rightarrow> Some (SspErr ''ssp: invalid body'') | Some (v, _) \<Rightarrow> walk_numbers v)"

end
