(* ===== verification/Ssp_Family.thy ===== *)
theory Ssp_Family
  imports Ssp_Envelope
begin

text \<open>
  The bodies of the three families: \<^verbatim>\<open>validateCaseAdviceBody\<close> of \<^verbatim>\<open>internal/ssp/envelope.go\<close> and
  \<^verbatim>\<open>internal/ssp/registry_family.go\<close>.  Fields of structs are decoded as \<^verbatim>\<open>encoding/json\<close> does, with the
  zero value for a member that is absent.
\<close>

section \<open>Case and advice bodies\<close>

definition case_members :: "string list" where
  "case_members =
    [''domain'', ''issuer_edge_id'', ''issuer_edge_generation'', ''summary'', ''public_summary'', ''context_manifest'']"

definition advice_members :: "string list" where
  "advice_members = [''case_commitment'', ''text'', ''public_summary'']"

definition invalid_case_body :: ssp_error where
  "invalid_case_body = SspErr ''ssp: invalid ssp.case.v1 body''"

definition invalid_advice_body :: ssp_error where
  "invalid_advice_body = SspErr ''ssp: invalid ssp.advice.v1 body''"

definition validate_case_body :: "members \<Rightarrow> ssp_error option" where
  "validate_case_body ms =
    (case requireExactMembers ms case_members of Some e \<Rightarrow> Some e | None \<Rightarrow>
    (case requiredStrings ms [''domain'', ''issuer_edge_id''] of Inl e \<Rightarrow> Some e | Inr route \<Rightarrow>
    (case requiredNonNegativeInteger ms ''issuer_edge_generation'' of Inl e \<Rightarrow> Some invalid_case_body | Inr generation \<Rightarrow>
     if generation = 0 then Some invalid_case_body
     else (case requiredStrings ms [''summary'', ''public_summary'', ''context_manifest''] of
         Inl e \<Rightarrow> Some e
       | Inr texts \<Rightarrow>
           if \<not> validOpaqueID (route ! 0) \<or> \<not> validOpaqueID (route ! 1) \<or> rune_count (texts ! 0) = 0
              \<or> rune_count (texts ! 0) > 4096 \<or> rune_count (texts ! 1) = 0 \<or> rune_count (texts ! 1) > 1024
              \<or> \<not> sha256HexPattern (texts ! 2)
           then Some invalid_case_body else None))))"

definition validate_advice_body :: "members \<Rightarrow> ssp_error option" where
  "validate_advice_body ms =
    (case requireExactMembers ms advice_members of Some e \<Rightarrow> Some e | None \<Rightarrow>
    (case requiredStrings ms [''case_commitment'', ''text'', ''public_summary''] of Inl e \<Rightarrow> Some e | Inr texts \<Rightarrow>
       if \<not> sha256HexPattern (texts ! 0) \<or> rune_count (texts ! 1) = 0 \<or> rune_count (texts ! 1) > 8192
          \<or> rune_count (texts ! 2) = 0 \<or> rune_count (texts ! 2) > 1024
       then Some invalid_advice_body else None))"

definition validateCaseAdviceBody :: "string \<Rightarrow> bytes \<Rightarrow> ssp_error option" where
  "validateCaseAdviceBody schema raw =
    (if \<not> utf8_valid raw then Some (SspErr ''ssp: invalid UTF-8 body'')
     else (case exactObject raw of Inl e \<Rightarrow> Some e | Inr ms \<Rightarrow>
       if schema = Family_Case then validate_case_body ms
       else if schema = Family_Advice then validate_advice_body ms
       else Some ErrUnknownFamily))"

section \<open>Typed members\<close>

definition maxRegistryDomains :: nat where
  "maxRegistryDomains = 4096"

definition maxRegistryPrincipals :: nat where
  "maxRegistryPrincipals = 16384"

definition maxRegistryEdges :: nat where
  "maxRegistryEdges = 16384"

definition maxRegistryKeys :: nat where
  "maxRegistryKeys = 32768"

definition maxOpaqueIDArrayItems :: nat where
  "maxOpaqueIDArrayItems = 16384"

definition maxSafeInteger :: int where
  "maxSafeInteger = 2 ^ 53 - 1"

definition registryKeyUsages :: "string list" where
  "registryKeyUsages = [''advice'', ''edge'', ''registry'']"

datatype jsonType = jsonInvalid | jsonNull | jsonBool | jsonNumber | jsonString | jsonArray | jsonObject

fun classifyJSON :: "bytes \<Rightarrow> jsonType" where
  "classifyJSON [] = jsonInvalid"
| "classifyJSON (b # rest) =
    (if json_space b then classifyJSON rest
     else if b = CHR ''n'' then jsonNull
     else if b = CHR ''t'' \<or> b = CHR ''f'' then jsonBool
     else if b = quote then jsonString
     else if b = CHR ''['' then jsonArray
     else if b = CHR ''{'' then jsonObject
     else if b = CHR ''-'' \<or> is_digit b then jsonNumber
     else jsonInvalid)"

record memberRule =
  mr_name :: string
  mr_kind :: jsonType
  mr_optional :: bool
  mr_nullable :: bool

definition rule :: "string \<Rightarrow> jsonType \<Rightarrow> memberRule" where
  "rule name kind = \<lparr>mr_name = name, mr_kind = kind, mr_optional = False, mr_nullable = False\<rparr>"

fun check_rules :: "members \<Rightarrow> memberRule list \<Rightarrow> ssp_error option" where
  "check_rules ms [] = None"
| "check_rules ms (r # rs) =
    (case member (mr_name r) ms of
       None \<Rightarrow> if mr_optional r then check_rules ms rs else Some (SspErr ''ssp: member is missing'')
     | Some (raw, _) \<Rightarrow>
         if classifyJSON raw = mr_kind r \<or> mr_nullable r \<and> classifyJSON raw = jsonNull then check_rules ms rs
         else Some (SspErr ''ssp: member has the wrong type''))"

definition requireTypedMembers :: "bytes \<Rightarrow> memberRule list \<Rightarrow> ssp_error + members" where
  "requireTypedMembers raw rules =
    (case Option.bind (unmarshal raw) struct_members of
       None \<Rightarrow> Inl (SspErr ''ssp: invalid object'')
     | Some ms \<Rightarrow>
         (case check_rules ms rules of Some e \<Rightarrow> Inl e | None \<Rightarrow>
          if \<not> list_all (\<lambda>m. fst m \<in> set (map mr_name rules)) ms then Inl (SspErr ''ssp: unknown member'')
          else Inr ms))"

definition checkIntegerRange :: "int \<Rightarrow> int \<Rightarrow> ssp_error option" where
  "checkIntegerRange v lo = (if v < lo \<or> v > maxSafeInteger then Some (SspErr ''ssp: invalid integer'') else None)"

fun opaque_ids :: "string list \<Rightarrow> string list \<Rightarrow> ssp_error option" where
  "opaque_ids seen [] = None"
| "opaque_ids seen (v # vs) =
    (if \<not> validOpaqueID v then Some (SspErr ''ssp: invalid entry'')
     else if v \<in> set seen then Some (SspErr ''ssp: duplicate entry'')
     else opaque_ids (v # seen) vs)"

definition validateOpaqueIDArray :: "string list \<Rightarrow> ssp_error option" where
  "validateOpaqueIDArray vs =
    (if length vs > maxOpaqueIDArrayItems then Some (SspErr ''ssp: too many entries'') else opaque_ids [] vs)"

text \<open>The first failure of a sequence of checks.\<close>

fun first_error :: "'e option list \<Rightarrow> 'e option" where
  "first_error [] = None"
| "first_error (None # es) = first_error es"
| "first_error (Some e # es) = Some e"

section \<open>Registry records\<close>

record domain_body =
  db_Domain :: string
  db_DispatcherPrincipalID :: string
  db_IssuerEdgeIDs :: "string list"
  db_SpecialistPrincipalIDs :: "string list"
  db_Families :: "string list"
  db_RoutingEpoch :: int

record principal_body =
  pb_PrincipalID :: string
  pb_Roles :: "string list"
  pb_SSPKeyIDs :: "string list"
  pb_EdgeIDs :: "string list"

record edge_body =
  eb_EdgeID :: string
  eb_Generation :: int
  eb_PrincipalID :: string

record key_body =
  kb_KeyID :: string
  kb_PublicKey :: string
  kb_PrincipalID :: string
  kb_Usage :: string
  kb_NotBefore :: string
  kb_ExpiresAt :: string
  kb_RevokedAt :: "string option"

definition domain_of :: "json \<Rightarrow> domain_body option" where
  "domain_of v =
    Option.bind (struct_members v) (\<lambda>ms. Option.bind (string_field ''domain'' ms) (\<lambda>domain.
    Option.bind (string_field ''dispatcher_principal_id'' ms) (\<lambda>dispatcher.
    Option.bind (strings_field ''issuer_edge_ids'' ms) (\<lambda>issuers.
    Option.bind (strings_field ''specialist_principal_ids'' ms) (\<lambda>specialists.
    Option.bind (strings_field ''families'' ms) (\<lambda>families.
    Option.bind (int_field ''routing_epoch'' ms) (\<lambda>epoch.
      Some \<lparr>db_Domain = domain, db_DispatcherPrincipalID = dispatcher, db_IssuerEdgeIDs = issuers,
            db_SpecialistPrincipalIDs = specialists, db_Families = families, db_RoutingEpoch = epoch\<rparr>)))))))"

definition principal_of :: "json \<Rightarrow> principal_body option" where
  "principal_of v =
    Option.bind (struct_members v) (\<lambda>ms. Option.bind (string_field ''principal_id'' ms) (\<lambda>i.
    Option.bind (strings_field ''roles'' ms) (\<lambda>roles. Option.bind (strings_field ''ssp_key_ids'' ms) (\<lambda>keys.
    Option.bind (strings_field ''edge_ids'' ms) (\<lambda>edges.
      Some \<lparr>pb_PrincipalID = i, pb_Roles = roles, pb_SSPKeyIDs = keys, pb_EdgeIDs = edges\<rparr>)))))"

definition edge_of :: "json \<Rightarrow> edge_body option" where
  "edge_of v =
    Option.bind (struct_members v) (\<lambda>ms. Option.bind (string_field ''edge_id'' ms) (\<lambda>i.
    Option.bind (string_field ''principal_id'' ms) (\<lambda>principal. Option.bind (int_field ''generation'' ms) (\<lambda>generation.
      Some \<lparr>eb_EdgeID = i, eb_Generation = generation, eb_PrincipalID = principal\<rparr>))))"

definition key_of :: "json \<Rightarrow> key_body option" where
  "key_of v =
    Option.bind (struct_members v) (\<lambda>ms. Option.bind (string_field ''key_id'' ms) (\<lambda>i.
    Option.bind (string_field ''public_key'' ms) (\<lambda>public. Option.bind (string_field ''principal_id'' ms) (\<lambda>principal.
    Option.bind (string_field ''usage'' ms) (\<lambda>usage. Option.bind (string_field ''not_before'' ms) (\<lambda>notBefore.
    Option.bind (string_field ''expires_at'' ms) (\<lambda>expiresAt. Option.bind (pointer_field ''revoked_at'' ms) (\<lambda>revokedAt.
      Some \<lparr>kb_KeyID = i, kb_PublicKey = public, kb_PrincipalID = principal, kb_Usage = usage,
            kb_NotBefore = notBefore, kb_ExpiresAt = expiresAt, kb_RevokedAt = revokedAt\<rparr>))))))))"

fun route_families :: "string list \<Rightarrow> string list \<Rightarrow> ssp_error option" where
  "route_families seen [] =
    (if Family_Case \<notin> set seen then Some (SspErr ''ssp: missing family ssp.case.v1'')
     else if Family_Advice \<notin> set seen then Some (SspErr ''ssp: missing family ssp.advice.v1'')
     else None)"
| "route_families seen (f # fs) =
    (if f \<noteq> Family_Case \<and> f \<noteq> Family_Advice then Some (SspErr ''ssp: unsupported family'')
     else if f \<in> set seen then Some (SspErr ''ssp: duplicate family'')
     else route_families (f # seen) fs)"

definition validateRouteFamilies :: "string list \<Rightarrow> ssp_error option" where
  "validateRouteFamilies families =
    (if length families \<noteq> 2 then Some (SspErr ''ssp: families must contain exactly case and advice'')
     else route_families [] families)"

definition opaque_id :: "string \<Rightarrow> ssp_error option" where
  "opaque_id v = (if validOpaqueID v then None else Some (SspErr ''ssp: invalid identifier''))"

definition validateDomainRoute :: "bytes \<Rightarrow> ssp_error option" where
  "validateDomainRoute raw =
    (case requireTypedMembers raw
        [rule ''domain'' jsonString, rule ''dispatcher_principal_id'' jsonString, rule ''issuer_edge_ids'' jsonArray,
         rule ''specialist_principal_ids'' jsonArray, rule ''families'' jsonArray, rule ''routing_epoch'' jsonNumber] of
       Inl e \<Rightarrow> Some e
     | Inr _ \<Rightarrow>
    (case Option.bind (unmarshal raw) domain_of of
       None \<Rightarrow> Some (SspErr ''ssp: invalid domain'')
     | Some route \<Rightarrow>
         first_error
           [opaque_id (db_Domain route), opaque_id (db_DispatcherPrincipalID route),
            if db_IssuerEdgeIDs route = [] then Some (SspErr ''ssp: issuer_edge_ids must not be empty'') else None,
            validateOpaqueIDArray (db_IssuerEdgeIDs route), validateOpaqueIDArray (db_SpecialistPrincipalIDs route),
            validateRouteFamilies (db_Families route), checkIntegerRange (db_RoutingEpoch route) 0]))"

definition validatePrincipalRecord :: "bytes \<Rightarrow> ssp_error option" where
  "validatePrincipalRecord raw =
    (case requireTypedMembers raw
        [rule ''principal_id'' jsonString, rule ''roles'' jsonArray, rule ''ssp_key_ids'' jsonArray,
         rule ''edge_ids'' jsonArray] of
       Inl e \<Rightarrow> Some e
     | Inr _ \<Rightarrow>
    (case Option.bind (unmarshal raw) principal_of of
       None \<Rightarrow> Some (SspErr ''ssp: invalid principal'')
     | Some r \<Rightarrow>
         first_error
           [opaque_id (pb_PrincipalID r), validateOpaqueIDArray (pb_Roles r), validateOpaqueIDArray (pb_SSPKeyIDs r),
            validateOpaqueIDArray (pb_EdgeIDs r)]))"

definition validateEdgeRecord :: "bytes \<Rightarrow> ssp_error option" where
  "validateEdgeRecord raw =
    (case requireTypedMembers raw
        [rule ''edge_id'' jsonString, rule ''principal_id'' jsonString, rule ''generation'' jsonNumber] of
       Inl e \<Rightarrow> Some e
     | Inr _ \<Rightarrow>
    (case Option.bind (unmarshal raw) edge_of of
       None \<Rightarrow> Some (SspErr ''ssp: invalid edge'')
     | Some r \<Rightarrow>
         first_error [opaque_id (eb_EdgeID r), opaque_id (eb_PrincipalID r), checkIntegerRange (eb_Generation r) 1]))"

definition parseRegistryTimestamp :: "string \<Rightarrow> ssp_error + time" where
  "parseRegistryTimestamp value =
    (case ParseTimestamp value of Inl e \<Rightarrow> Inl (SspErr ''ssp: invalid timestamp'') | Inr t \<Rightarrow> Inr t)"

definition key_times :: "key_body \<Rightarrow> ssp_error option" where
  "key_times r =
    (case parseRegistryTimestamp (kb_NotBefore r) of Inl e \<Rightarrow> Some e | Inr notBefore \<Rightarrow>
    (case parseRegistryTimestamp (kb_ExpiresAt r) of Inl e \<Rightarrow> Some e | Inr expiresAt \<Rightarrow>
     if \<not> expiresAt > notBefore then Some (SspErr ''ssp: invalid validity window'')
     else (case kb_RevokedAt r of None \<Rightarrow> None | Some revokedAt \<Rightarrow>
         (case parseRegistryTimestamp revokedAt of Inl e \<Rightarrow> Some e | Inr _ \<Rightarrow> None))))"

definition validateKeyRecord :: "bytes \<Rightarrow> ssp_error option" where
  "validateKeyRecord raw =
    (case requireTypedMembers raw
        [rule ''key_id'' jsonString, rule ''public_key'' jsonString, rule ''principal_id'' jsonString,
         rule ''usage'' jsonString, rule ''not_before'' jsonString, rule ''expires_at'' jsonString,
         (rule ''revoked_at'' jsonString)\<lparr>mr_optional := True, mr_nullable := True\<rparr>] of
       Inl e \<Rightarrow> Some e
     | Inr _ \<Rightarrow>
    (case Option.bind (unmarshal raw) key_of of
       None \<Rightarrow> Some (SspErr ''ssp: invalid key'')
     | Some r \<Rightarrow>
         first_error
           [opaque_id (kb_KeyID r), opaque_id (kb_PrincipalID r),
            (case DecodeCanonicalBase64 (kb_PublicKey r) 32 of
               Inl e \<Rightarrow> Some (SspErr ''ssp: invalid public_key'') | Inr _ \<Rightarrow> None),
            if kb_Usage r \<notin> set registryKeyUsages then Some (SspErr ''ssp: invalid usage'') else None,
            key_times r]))"

section \<open>The registry body\<close>

record registry_raw =
  rg_Revision :: int
  rg_RoutingEpoch :: int
  rg_PreviousCommitment :: "string option"
  rg_Domains :: "bytes list"
  rg_Principals :: "bytes list"
  rg_Edges :: "bytes list"
  rg_Keys :: "bytes list"

abbreviation raws_field :: "string \<Rightarrow> members \<Rightarrow> bytes list option" where
  "raws_field \<equiv> field_into (\<lambda>_. into_raw_slice) []"

definition registry_raw_of :: "json \<Rightarrow> registry_raw option" where
  "registry_raw_of v =
    Option.bind (struct_members v) (\<lambda>ms. Option.bind (int_field ''revision'' ms) (\<lambda>revision.
    Option.bind (int_field ''routing_epoch'' ms) (\<lambda>epoch. Option.bind (pointer_field ''previous_commitment'' ms) (\<lambda>prev.
    Option.bind (raws_field ''domains'' ms) (\<lambda>domains. Option.bind (raws_field ''principals'' ms) (\<lambda>principals.
    Option.bind (raws_field ''edges'' ms) (\<lambda>edges. Option.bind (raws_field ''keys'' ms) (\<lambda>keys.
      Some \<lparr>rg_Revision = revision, rg_RoutingEpoch = epoch, rg_PreviousCommitment = prev, rg_Domains = domains,
            rg_Principals = principals, rg_Edges = edges, rg_Keys = keys\<rparr>))))))))"

definition check_entries :: "bytes list \<Rightarrow> nat \<Rightarrow> (bytes \<Rightarrow> ssp_error option) \<Rightarrow> ssp_error option" where
  "check_entries entries bound validate =
    (if length entries > bound then Some (SspErr ''ssp: registry exceeds its entries'')
     else first_error (map validate entries))"

definition validateRegistryBody :: "Envelope \<Rightarrow> ssp_error option" where
  "validateRegistryBody e =
    (case requireTypedMembers (en_Body e)
        [rule ''revision'' jsonNumber, rule ''routing_epoch'' jsonNumber,
         (rule ''previous_commitment'' jsonString)\<lparr>mr_nullable := True\<rparr>, rule ''domains'' jsonArray,
         rule ''principals'' jsonArray, rule ''edges'' jsonArray, rule ''keys'' jsonArray] of
       Inl err \<Rightarrow> Some err
     | Inr _ \<Rightarrow>
    (case Option.bind (unmarshal (en_Body e)) registry_raw_of of
       None \<Rightarrow> Some (SspErr ''ssp: invalid ssp.registry.v1 body'')
     | Some body \<Rightarrow>
         first_error
           [checkIntegerRange (rg_Revision body) 0, checkIntegerRange (rg_RoutingEpoch body) 0,
            (case rg_PreviousCommitment body of None \<Rightarrow> None | Some c \<Rightarrow>
               if sha256HexPattern c then None else Some (SspErr ''ssp: registry body previous_commitment'')),
            if rg_Revision body \<noteq> en_RegistryRevision e
              then Some (SspErr ''ssp: registry body revision does not match header registry_revision'') else None,
            if rg_RoutingEpoch body \<noteq> en_RoutingEpoch e
              then Some (SspErr ''ssp: registry body routing_epoch does not match header routing_epoch'') else None,
            check_entries (rg_Domains body) maxRegistryDomains validateDomainRoute,
            check_entries (rg_Principals body) maxRegistryPrincipals validatePrincipalRecord,
            check_entries (rg_Edges body) maxRegistryEdges validateEdgeRecord,
            check_entries (rg_Keys body) maxRegistryKeys validateKeyRecord]))"

definition validateBody :: "Envelope \<Rightarrow> ssp_error option" where
  "validateBody e =
    (if en_Schema e = Family_Registry then validateRegistryBody e
     else if en_Schema e = Family_Case \<or> en_Schema e = Family_Advice
       then validateCaseAdviceBody (en_Schema e) (en_Body e)
     else Some ErrUnknownFamily)"

end
