(* ===== verification/Ssp_Verify.thy ===== *)
theory Ssp_Verify
  imports Ssp_Family
begin

text \<open>
  Validation, signing and verification of envelopes and their commitment (\<^verbatim>\<open>internal/ssp/envelope.go\<close>,
  \<^verbatim>\<open>commitment.go\<close>) and the proof of a verified registry (\<^verbatim>\<open>verified_registry.go\<close>).
\<close>

section \<open>Removing the signature\<close>

fun string_rest :: "bool \<Rightarrow> bytes \<Rightarrow> bytes option" where
  "string_rest escaped [] = None"
| "string_rest escaped (c # cs) =
    (if escaped then string_rest False cs
     else if c = backslash then string_rest True cs
     else if c = quote then Some cs
     else string_rest False cs)"

definition stringEnd :: "bytes \<Rightarrow> ssp_error + bytes" where
  "stringEnd s =
    (if take 1 s \<noteq> [quote] then Inl (SspErr ''ssp: malformed JSON string'')
     else (case string_rest False (tl s) of
         None \<Rightarrow> Inl (SspErr ''ssp: unterminated JSON string'')
       | Some r \<Rightarrow> Inr r))"

text \<open>The rest of a container: how many brackets are open, and the state of the string scan.\<close>

fun container_rest :: "nat \<Rightarrow> bool \<Rightarrow> bool \<Rightarrow> bytes \<Rightarrow> bytes option" where
  "container_rest open_count inString escaped [] = None"
| "container_rest open_count inString escaped (c # cs) =
    (if inString then
       (if escaped then container_rest open_count True False cs
        else if c = backslash then container_rest open_count True True cs
        else if c = quote then container_rest open_count False False cs
        else container_rest open_count True False cs)
     else if c = quote then container_rest open_count True escaped cs
     else if c = CHR ''{'' \<or> c = CHR ''['' then container_rest (open_count + 1) False escaped cs
     else if c = CHR ''}'' \<or> c = CHR '']'' then
       (if open_count \<le> 1 then Some cs else container_rest (open_count - 1) False escaped cs)
     else container_rest open_count False escaped cs)"

definition value_byte :: "char \<Rightarrow> bool" where
  "value_byte c = (c \<noteq> CHR '','' \<and> c \<noteq> CHR ''}'' \<and> c \<noteq> CHR '']'' \<and> \<not> json_space c)"

definition valueEnd :: "bytes \<Rightarrow> ssp_error + bytes" where
  "valueEnd s =
    (if s = [] then Inl (SspErr ''ssp: missing JSON value'')
     else if hd s = quote then stringEnd s
     else if hd s = CHR ''{'' \<or> hd s = CHR ''['' then
       (case container_rest 1 False False (tl s) of
          None \<Rightarrow> Inl (SspErr ''ssp: unterminated JSON container'')
        | Some r \<Rightarrow> Inr r)
     else if \<not> value_byte (hd s) then Inl (SspErr ''ssp: missing JSON value'')
     else Inr (dropWhile value_byte s))"

text \<open>
  One round of the loop on a member: its text unless it is the signature, and the text after the comma, or
  \<^const>\<open>None\<close> when the object ends.
\<close>

definition strip_member :: "bytes \<Rightarrow> ssp_error + bytes list \<times> bytes option" where
  "strip_member s =
    (case stringEnd s of Inl e \<Rightarrow> Inl e | Inr r \<Rightarrow>
    (case Option.bind (unmarshal (slice s r)) (into_string []) of None \<Rightarrow> Inl malformed | Some key \<Rightarrow>
     if take 1 (skip_ws r) \<noteq> '':'' then Inl malformed
     else (case valueEnd (skip_ws (tl (skip_ws r))) of Inl e \<Rightarrow> Inl e | Inr r2 \<Rightarrow>
       (let kept = (if key \<noteq> ''signature'' then [slice s r2] else []); t = skip_ws r2 in
        if take 1 t = '','' then Inr (kept, Some (tl t))
        else if take 1 t = ''}'' then Inr (kept, None)
        else Inl malformed))))"

lemma string_rest_shorter: "string_rest escaped s = Some r \<Longrightarrow> length r < length s"
  by (induction escaped s rule: string_rest.induct) (auto split: if_splits)

lemma stringEnd_shorter: "stringEnd s = Inr r \<Longrightarrow> length r < length s"
  by (cases s) (auto simp: stringEnd_def split: if_splits option.splits dest: string_rest_shorter)

lemma container_rest_shorter: "container_rest n i e s = Some r \<Longrightarrow> length r < length s"
  by (induction n i e s rule: container_rest.induct) (auto split: if_splits)

lemma valueEnd_shorter: "valueEnd s = Inr r \<Longrightarrow> length r < length s"
  by (cases s) (auto simp: valueEnd_def split: if_splits option.splits
      dest: stringEnd_shorter container_rest_shorter intro: le_imp_less_Suc length_dropWhile_le)

lemma strip_member_shorter:
  assumes "strip_member s = Inr (kept, Some rest)"
  shows "length rest < length s"
proof -
  obtain r where r: "stringEnd s = Inr r"
    using assms by (cases "stringEnd s") (auto simp: strip_member_def)
  obtain r2 where r2: "valueEnd (skip_ws (tl (skip_ws r))) = Inr r2" "rest = tl (skip_ws r2)"
    using assms r by (auto simp: strip_member_def Let_def split: option.splits if_splits sum.splits)
  have "length r2 < length (skip_ws (tl (skip_ws r)))" using valueEnd_shorter [OF r2(1)] .
  moreover have "length (skip_ws (tl (skip_ws r))) \<le> length r"
    using length_skip_ws [of "tl (skip_ws r)"] length_skip_ws [of r] by simp
  ultimately show ?thesis using stringEnd_shorter [OF r] length_skip_ws [of r2] r2(2) by simp
qed

function strip_members :: "bytes \<Rightarrow> ssp_error + bytes list" where
  "strip_members s =
    (let t = skip_ws s in
     if t = [] then Inl malformed
     else if take 1 t = ''}'' then Inr []
     else (case strip_member t of
         Inl e \<Rightarrow> Inl e
       | Inr (kept, None) \<Rightarrow> Inr kept
       | Inr (kept, Some r) \<Rightarrow> (case strip_members r of Inl e \<Rightarrow> Inl e | Inr others \<Rightarrow> Inr (kept @ others))))"
  by pat_completeness auto
termination
proof (relation "measure length")
  fix s t :: bytes and x kept rest r
  assume "t = skip_ws s" "strip_member t = Inr x" "(kept, rest) = x" "rest = Some r"
  then show "(r, s) \<in> measure length"
    using strip_member_shorter [of t kept r] length_skip_ws [of s] by (auto simp: eq_commute)
qed simp

declare strip_members.simps [simp del]

fun join_comma :: "bytes list \<Rightarrow> bytes" where
  "join_comma [] = []"
| "join_comma [x] = x"
| "join_comma (x # y # rest) = x @ '','' @ join_comma (y # rest)"

definition stripUnsignedTopLevel :: "bytes \<Rightarrow> ssp_error + bytes" where
  "stripUnsignedTopLevel raw =
    (if take 1 (skip_ws raw) \<noteq> ''{'' then Inl (SspErr ''ssp: envelope root must be an object'')
     else (case strip_members (tl (skip_ws raw)) of
         Inl e \<Rightarrow> Inl e
       | Inr kept \<Rightarrow> Inr (''{'' @ join_comma kept @ ''}'')))"

section \<open>Validation and verification\<close>

definition Validate :: "time \<Rightarrow> Envelope \<Rightarrow> ssp_error option" where
  "Validate now e =
    (if en_Schema e \<noteq> Family_Case \<and> en_Schema e \<noteq> Family_Advice \<and> en_Schema e \<noteq> Family_Registry
       then Some ErrUnknownFamily
     else if \<not> validOpaqueID (en_ID e) \<or> \<not> validOpaqueID (en_AuthorKeyID e) \<or> en_SignatureAlg e \<noteq> ''ed25519''
             \<or> en_Body e = []
       then Some (SspErr ''ssp: missing required field'')
     else if en_Schema e = Family_Registry \<and> en_CaseID e \<noteq> []
       then Some (SspErr ''ssp: case_id is forbidden for ssp.registry.v1'')
     else if en_Schema e = Family_Registry \<and> en_RegistryHash e \<noteq> []
       then Some (SspErr ''ssp: registry_hash is forbidden for ssp.registry.v1'')
     else if en_Schema e \<noteq> Family_Registry \<and> (\<not> validOpaqueID (en_CaseID e) \<or> en_RegistryHash e = [])
       then Some (SspErr ''ssp: missing required field'')
     else (case ParseTimestamp (en_EmittedAt e) of Inl _ \<Rightarrow> Some (SspErr ''ssp: invalid emitted_at'') | Inr emitted \<Rightarrow>
          (case ParseTimestamp (en_ExpiresAt e) of Inl _ \<Rightarrow> Some (SspErr ''ssp: invalid expires_at'') | Inr expires \<Rightarrow>
       if emitted > now then Some (SspErr ''ssp: emitted_at is in the future'')
       else if \<not> expires > now then Some ErrExpiredEnvelope
       else if \<not> expires > emitted then Some (SspErr ''ssp: invalid time range'')
       else if en_RoutingEpoch e < 0 \<or> en_RegistryRevision e < 0 \<or> en_RoutingEpoch e > 2 ^ 53 - 1
               \<or> en_RegistryRevision e > 2 ^ 53 - 1
         then Some (SspErr ''ssp: invalid revision'')
       else if en_Schema e \<noteq> Family_Registry \<and> \<not> sha256HexPattern (en_RegistryHash e)
         then Some (SspErr ''ssp: invalid registry_hash'')
       else (case validateNumbers (en_Body e) of Some err \<Rightarrow> Some err | None \<Rightarrow> validateBody e))))"

definition decodeAndValidate :: "bytes \<Rightarrow> time \<Rightarrow> ssp_error + Envelope" where
  "decodeAndValidate raw now =
    (case decodeStrictEnvelope raw of
       Inl e \<Rightarrow> Inl (ErrInvalidEnvelope e)
     | Inr e \<Rightarrow> (case Validate now e of Some err \<Rightarrow> Inl (ErrInvalidEnvelope err) | None \<Rightarrow> Inr e))"

text \<open>The bytes a signature is over: the received object without its signature, canonicalised.\<close>

definition signing_bytes :: "ssp_crypto \<Rightarrow> bytes \<Rightarrow> ssp_error + bytes" where
  "signing_bytes cr raw =
    (case stripUnsignedTopLevel raw of
       Inl e \<Rightarrow> Inl (ErrInvalidEnvelope e)
     | Inr bare \<Rightarrow>
         (case canonical cr bare of Inl e \<Rightarrow> Inl (ErrInvalidEnvelope e) | Inr c \<Rightarrow> Inr c))"

text \<open>A verifying key is the bytes of its public key, none for the zero value.\<close>

definition Verify :: "ssp_crypto \<Rightarrow> bytes \<Rightarrow> (string \<Rightarrow> bytes option) \<Rightarrow> time \<Rightarrow> ssp_error + Envelope" where
  "Verify cr raw keys now =
    (case decodeAndValidate raw now of Inl e \<Rightarrow> Inl e | Inr e \<Rightarrow>
    (case DecodeCanonicalBase64 (en_Signature e) 64 of Inl _ \<Rightarrow> Inl (SspErr ''ssp: invalid signature'') | Inr sig \<Rightarrow>
    (case signing_bytes cr raw of Inl err \<Rightarrow> Inl err | Inr c \<Rightarrow>
    (case keys (en_AuthorKeyID e) of None \<Rightarrow> Inl (SspErr ''ssp: author key is unknown'') | Some pk \<Rightarrow>
     if pk = [] \<or> \<not> cr_verify cr pk c sig then Inl (SspErr ''ssp: signature verification failed'')
     else Inr e))))"

definition EnvelopeCommitment :: "ssp_crypto \<Rightarrow> bytes \<Rightarrow> time \<Rightarrow> ssp_error + string" where
  "EnvelopeCommitment cr raw now =
    (case decodeAndValidate raw now of Inl e \<Rightarrow> Inl e | Inr _ \<Rightarrow>
    (case signing_bytes cr raw of Inl e \<Rightarrow> Inl e | Inr c \<Rightarrow> Inr (''sha256:'' @ hex_encode (sha256 c))))"

text \<open>
  The schema, the case and the body of an envelope decoded without the strict rules, by a plain
  \<^verbatim>\<open>json.Unmarshal\<close> into \<^verbatim>\<open>Envelope\<close>: every field must have its type, and the body is the slice of the last
  member that names it.
\<close>

definition envelope_fields :: "bytes \<Rightarrow> (string \<times> string \<times> bytes) option" where
  "envelope_fields raw =
    Option.bind (Option.bind (unmarshal raw) struct_members) (\<lambda>ms.
      if list_all (\<lambda>f. string_field f ms \<noteq> None)
           [''id'', ''emitted_at'', ''expires_at'', ''registry_hash'', ''author_key_id'', ''signature_alg'', ''signature'']
         \<and> int_field ''routing_epoch'' ms \<noteq> None \<and> int_field ''registry_revision'' ms \<noteq> None
      then Option.bind (string_field ''schema'' ms) (\<lambda>schema. Option.bind (string_field ''case_id'' ms) (\<lambda>caseID.
        Some (schema, caseID, foldl (\<lambda>old (k, r, _). if names_field ''body'' k then r else old) [] ms)))
      else None)"

section \<open>Signing\<close>

text \<open>
  \<^verbatim>\<open>json.Marshal\<close> of an envelope.  The raw body is compacted: white space outside strings goes, and the
  HTML-sensitive characters and the two line separators are escaped.
\<close>

function compact :: "bool \<Rightarrow> bool \<Rightarrow> bytes \<Rightarrow> bytes" where
  "compact inString escaped s =
    (case s of
       [] \<Rightarrow> []
     | c # cs \<Rightarrow>
         if \<not> inString then
           (if json_space c then compact False False cs else c # compact (c = quote) False cs)
         else if c = CHR ''<'' \<or> c = CHR ''>'' \<or> c = CHR ''&'' then
           backslash # ''u00'' @ [hex_digit (of_char c div 16), hex_digit (of_char c mod 16)] @ compact True False cs
         else if c = CHR 0xE2 \<and> (take 2 cs = [CHR 0x80, CHR 0xA8] \<or> take 2 cs = [CHR 0x80, CHR 0xA9]) then
           backslash # ''u202'' @ [hex_digit (of_char (cs ! 1) mod 16)] @ compact True False (drop 2 cs)
         else c # compact (\<not> (c = quote \<and> \<not> escaped)) (c = backslash \<and> \<not> escaped) cs)"
  by pat_completeness auto
termination
  by (relation "measure (length \<circ> snd \<circ> snd)") auto

declare compact.simps [simp del]

definition json_member :: "string \<Rightarrow> string \<Rightarrow> string" where
  "json_member name text = json_string name @ '':'' @ text"

definition omit_empty :: "string \<Rightarrow> string \<Rightarrow> string list" where
  "omit_empty name v = (if v = [] then [] else [json_member name (json_string v)])"

definition marshal_envelope :: "Envelope \<Rightarrow> ssp_error + bytes" where
  "marshal_envelope e =
    (if unmarshal (en_Body e) = None then Inl (SspErr ''ssp: marshal envelope'')
     else Inr (''{'' @ join_comma
       ([json_member ''schema'' (json_string (en_Schema e)), json_member ''id'' (json_string (en_ID e))]
        @ omit_empty ''case_id'' (en_CaseID e)
        @ [json_member ''emitted_at'' (json_string (en_EmittedAt e)),
           json_member ''expires_at'' (json_string (en_ExpiresAt e)),
           json_member ''routing_epoch'' (itoa (en_RoutingEpoch e)),
           json_member ''registry_revision'' (itoa (en_RegistryRevision e))]
        @ omit_empty ''registry_hash'' (en_RegistryHash e)
        @ [json_member ''author_key_id'' (json_string (en_AuthorKeyID e)),
           json_member ''signature_alg'' (json_string (en_SignatureAlg e)),
           json_member ''body'' (compact False False (en_Body e))]
        @ omit_empty ''signature'' (en_Signature e)) @ ''}''))"

text \<open>A signing key is the bytes of its private key, none for the zero value.\<close>

definition Sign :: "ssp_crypto \<Rightarrow> Envelope \<Rightarrow> bytes \<Rightarrow> time \<Rightarrow> ssp_error + bytes" where
  "Sign cr e0 key now =
    (let e = e0\<lparr>en_Signature := []\<rparr> in
     case Validate now e of Some err \<Rightarrow> Inl err | None \<Rightarrow>
    (case marshal_envelope e of Inl err \<Rightarrow> Inl err | Inr bare \<Rightarrow>
    (case canonical cr bare of Inl err \<Rightarrow> Inl err | Inr c \<Rightarrow>
     if key = [] then Inl (SspErr ''ssp: sign envelope'')
     else (case marshal_envelope (e\<lparr>en_Signature := b64_encode (cr_sign cr key c)\<rparr>) of
         Inl err \<Rightarrow> Inl err
       | Inr wire \<Rightarrow> (case rawGuard wire of Some err \<Rightarrow> Inl err | None \<Rightarrow> Inr wire)))))"

section \<open>Verified registries\<close>

definition ErrUnverifiedProof :: ssp_error where
  "ErrUnverifiedProof = SspErr ''ssp: registry proof was not produced by VerifyRegistry''"

record VerifiedRegistryEnvelope =
  vr_verified :: bool
  vr_raw :: bytes
  vr_envelope :: Envelope
  vr_commitment :: string
  vr_authorKeyID :: string
  vr_verifyingKey :: bytes
  vr_verifiedAt :: time

definition VerifyRegistry ::
    "ssp_crypto \<Rightarrow> bytes \<Rightarrow> string \<Rightarrow> bytes \<Rightarrow> time \<Rightarrow> ssp_error + VerifiedRegistryEnvelope" where
  "VerifyRegistry cr raw expectedAuthorKeyID key now =
    (if expectedAuthorKeyID = [] then Inl (SspErr ''ssp: expected author key id is required'')
     else if key = [] then Inl (SspErr ''ssp: verifying key is required'')
     else (case Verify cr raw [expectedAuthorKeyID \<mapsto> key] now of Inl e \<Rightarrow> Inl e | Inr envelope \<Rightarrow>
       if en_Schema envelope \<noteq> Family_Registry then Inl ErrUnknownFamily
       else if en_AuthorKeyID envelope \<noteq> expectedAuthorKeyID then Inl (SspErr ''ssp: author_key_id is not the pinned one'')
       else (case EnvelopeCommitment cr raw now of Inl e \<Rightarrow> Inl e | Inr commitment \<Rightarrow>
         Inr \<lparr>vr_verified = True, vr_raw = raw, vr_envelope = envelope, vr_commitment = commitment,
              vr_authorKeyID = expectedAuthorKeyID, vr_verifyingKey = key, vr_verifiedAt = now\<rparr>)))"

definition ReverifyAt :: "ssp_crypto \<Rightarrow> VerifiedRegistryEnvelope \<Rightarrow> time \<Rightarrow> ssp_error + VerifiedRegistryEnvelope" where
  "ReverifyAt cr v now =
    (if \<not> vr_verified v then Inl ErrUnverifiedProof
     else VerifyRegistry cr (vr_raw v) (vr_authorKeyID v) (vr_verifyingKey v) now)"

definition proof_Envelope :: "VerifiedRegistryEnvelope \<Rightarrow> ssp_error + Envelope" where
  "proof_Envelope v = (if \<not> vr_verified v then Inl ErrUnverifiedProof else Inr (vr_envelope v))"

definition proof_Commitment :: "VerifiedRegistryEnvelope \<Rightarrow> ssp_error + string" where
  "proof_Commitment v = (if \<not> vr_verified v then Inl ErrUnverifiedProof else Inr (vr_commitment v))"

end
