(* ===== verification/Ssp_Properties.thy ===== *)
theory Ssp_Properties
  imports Ssp_Verify
begin

text \<open>
  Properties of the signed wire format: the base64 text of a signature or key is determined by its bytes,
  and the scan of the received bytes always reaches a verdict.
\<close>

section \<open>Canonical base64\<close>

lemma b64_value_char [simp]: "v < 64 \<Longrightarrow> b64_value (b64_char v) = Some v"
  by (auto simp: b64_value_def b64_char_def Let_def)

lemma b64_char_visible [simp]:
  "v < 64 \<Longrightarrow> b64_char v \<noteq> CHR 0x0D" "v < 64 \<Longrightarrow> b64_char v \<noteq> CHR 0x0A"
  by (auto simp: b64_value_def Let_def dest: b64_value_char)

lemma sextets [simp]:
  "(of_char a :: nat) div 4 < 64" "(of_char a :: nat) mod 64 < 64"
  "(of_char a :: nat) mod 4 * 16 + of_char b div 16 < 64" "(of_char a :: nat) mod 16 * 4 + of_char b div 64 < 64"
  "(of_char a :: nat) mod 4 * 16 < 64" "(of_char a :: nat) mod 16 * 4 < 64"
  using of_char_less_256 [of a] of_char_less_256 [of b] by linarith+

lemma char_of_eqI: "n = of_char c \<Longrightarrow> char_of (n :: nat) = c"
  by simp

lemma joined_parts:
  fixes p q m :: nat
  assumes "q < m"
  shows "(p * m + q) div m = p" and "(p * m + q) mod m = q"
  using assms by simp_all

lemma high_parts: "(of_char c :: nat) div 16 < 16" "(of_char c :: nat) div 64 < 4"
  using of_char_less_256 [of c] by linarith+

lemma octet_of_two: "char_of ((of_char a :: nat) div 4 * 4 + (of_char a mod 4 * 16 + of_char b div 16) div 16) = a"
  by (rule char_of_eqI) (simp only: joined_parts [OF high_parts(1)] div_mult_mod_eq)

lemma octet_of_middle:
  "char_of (((of_char a :: nat) mod 4 * 16 + of_char b div 16) mod 16 * 16 + (of_char b mod 16 * 4 + of_char c div 64) div 4) = b"
  by (rule char_of_eqI) (simp only: joined_parts [OF high_parts(1)] joined_parts [OF high_parts(2)] div_mult_mod_eq)

lemma octet_of_last: "char_of (((of_char b :: nat) mod 16 * 4 + of_char c div 64) mod 4 * 64 + of_char c mod 64) = c"
  by (rule char_of_eqI) (simp only: joined_parts [OF high_parts(2)] div_mult_mod_eq)

lemma octet_alone: "char_of ((of_char a :: nat) div 4 * 4 + of_char a mod 4 * 16 div 16) = a"
  by (rule char_of_eqI) (simp add: div_mult_mod_eq)

lemma octet_end:
  "char_of (((of_char a :: nat) mod 4 * 16 + of_char b div 16) mod 16 * 16 + of_char b mod 16 * 4 div 4) = b"
  by (rule char_of_eqI) (simp add: mod_less [OF high_parts(1)])

lemmas octets = octet_of_two octet_of_middle octet_of_last octet_alone octet_end

fun b64_sextets :: "bytes \<Rightarrow> nat list" where
  "b64_sextets [] = []"
| "b64_sextets [a] = [of_char a div 4, of_char a mod 4 * 16]"
| "b64_sextets [a, b] = [of_char a div 4, of_char a mod 4 * 16 + of_char b div 16, of_char b mod 16 * 4]"
| "b64_sextets (a # b # c # rest) =
    of_char a div 4 # (of_char a mod 4 * 16 + of_char b div 16) # (of_char b mod 16 * 4 + of_char c div 64)
    # of_char c mod 64 # b64_sextets rest"

lemma b64_encode_sextets: "b64_encode d = map b64_char (b64_sextets d)"
  by (induction d rule: b64_encode.induct) simp_all

lemma b64_sextets_less: "list_all (\<lambda>v. v < 64) (b64_sextets d)"
  by (induction d rule: b64_encode.induct) simp_all

lemma b64_bytes_sextets: "b64_bytes (b64_sextets d) = Some d"
proof (induction d rule: b64_encode.induct)
  case 1
  show ?case by simp
next
  case (2 a)
  show ?case unfolding b64_sextets.simps b64_bytes.simps octets by simp
next
  case (3 a b)
  show ?case unfolding b64_sextets.simps b64_bytes.simps octets by simp
next
  case (4 a b c rest)
  then show ?case unfolding b64_sextets.simps b64_bytes.simps octets by simp
qed

lemma all_some_chars: "list_all (\<lambda>v. v < 64) vs \<Longrightarrow> all_some (map b64_value (map b64_char vs)) = Some vs"
  by (induction vs) simp_all

lemma visible_chars:
  "list_all (\<lambda>v. v < 64) vs \<Longrightarrow> filter (\<lambda>c. c \<noteq> CHR 0x0D \<and> c \<noteq> CHR 0x0A) (map b64_char vs) = map b64_char vs"
  by (induction vs) simp_all

lemma b64_decode_encode: "b64_decode (b64_encode d) = Some d"
  unfolding b64_decode_def b64_encode_sextets visible_chars [OF b64_sextets_less] all_some_chars [OF b64_sextets_less]
  by (simp add: b64_bytes_sextets)

text \<open>
  C15. A signature or key has exactly one accepted text.  Decoding a text as so many bytes succeeds with
  some bytes exactly when they are that many and the text is their encoding; every other spelling,
  including one with other padding bits or with line breaks, is refused.
\<close>

theorem canonical_base64_unique:
  "DecodeCanonicalBase64 encoded wantLen = Inr decoded \<longleftrightarrow> length decoded = wantLen \<and> encoded = b64_encode decoded"
  by (auto simp: DecodeCanonicalBase64_def b64_decode_encode split: option.splits if_splits)

section \<open>The scan of the raw bytes\<close>

lemma value_start_no_fuel: "value_start depth sep s \<noteq> Inl OutOfFuel"
  by (auto simp: value_start_def split: option.splits if_splits)

lemma key_token_no_fuel: "key_token keys s \<noteq> Inl OutOfFuel"
  by (auto simp: key_token_def Let_def split: option.splits if_splits)

lemma after_separator_length: "after_separator sep s = Some t \<Longrightarrow> length t \<le> length s"
  by (cases sep) (auto split: list.splits if_splits intro: le_SucI length_skip_ws)

lemma scalar_token_shorter: "scalar_token s = Some r \<Longrightarrow> length r < length s"
  by (auto simp: scalar_token_def split: list.splits if_splits option.splits json.splits
      dest!: scan_string_shorter parse_literal_shorter)

lemma value_start_shorter:
  assumes "value_start depth sep s = Inr (tok, r)"
  shows "length r < length s"
proof -
  obtain t where t: "after_separator sep (skip_ws s) = Some t"
    using assms by (auto simp: value_start_def split: if_splits option.splits)
  have le: "length t \<le> length s"
    using after_separator_length [OF t] length_skip_ws [of s] by linarith
  have "length r < length t"
    using assms t by (cases t) (auto simp: value_start_def split: if_splits option.splits dest: scalar_token_shorter)
  with le show ?thesis by linarith
qed

lemma key_token_shorter:
  assumes "key_token keys s = Inr (k, r)"
  shows "length r < length s"
proof (cases "take 1 (skip_ws s) = ''}''")
  case True
  then show ?thesis using assms length_skip_ws [of s] by (cases "skip_ws s") (auto simp: key_token_def Let_def)
next
  case False
  then obtain u where u: "after_separator (if keys = [] then None else Some CHR '','') (skip_ws s) = Some u"
    using assms by (auto simp: key_token_def Let_def split: option.splits)
  have le: "length u \<le> length s"
    using after_separator_length [OF u] length_skip_ws [of s] by linarith
  obtain x where "scan_string (tl u) = Some (x, r)" "u \<noteq> []"
    using assms False u by (cases u) (auto simp: key_token_def Let_def split: option.splits if_splits)
  then show ?thesis using scan_string_shorter [of "tl u" x r] le by simp
qed

lemma read_digits_no_fuel: "read_digits acc s \<noteq> Inl OutOfFuel"
  by (induction acc s rule: read_digits.induct) (auto split: option.splits)

lemma readHex4_no_fuel: "readHex4 s \<noteq> Inl OutOfFuel"
  by (simp add: readHex4_def read_digits_no_fuel)

lemma validate_escapes_no_fuel: "validate_escapes b s \<noteq> Some OutOfFuel"
proof (induction s arbitrary: b rule: measure_induct_rule [of length])
  case (less s)
  show ?case
  proof (cases s)
    case (Cons c cs)
    have shorter: "validate_escapes b' (drop n cs) \<noteq> Some OutOfFuel" for b' n
      by (rule less) (simp add: Cons)
    have here: "validate_escapes b' cs \<noteq> Some OutOfFuel" for b'
      using shorter [of b' 0] by simp
    show ?thesis
    proof (cases cs)
      case Nil
      then show ?thesis using Cons by (simp add: validate_escapes.simps)
    next
      case inner: (Cons e rest)
      have rest: "validate_escapes b' (drop n rest) \<noteq> Some OutOfFuel" "validate_escapes b' rest \<noteq> Some OutOfFuel" for b' n
        using shorter [of b' "Suc n"] shorter [of b' 1] inner by simp_all
      have hex: "readHex4 t = Inl x \<Longrightarrow> x \<noteq> OutOfFuel" for t x
        using readHex4_no_fuel [of t] by auto
      show ?thesis
        by (subst validate_escapes.simps) (use Cons inner here rest hex in \<open>auto split: sum.split\<close>)
    qed
  qed (simp add: validate_escapes.simps)
qed

lemmas scan_simps = scanValue.simps scan_object.simps scan_array.simps

text \<open>One step of the scan of an object and of an array.\<close>

lemma scan_object_step:
  assumes "key_token keys s = Inr (Some k, r)"
  shows "scan_object (Suc n) depth keys s =
    (case scanValue n (depth + 1) (Some CHR '':'') r of Inl e \<Rightarrow> Inl e | Inr r2 \<Rightarrow> scan_object n depth (k # keys) r2)"
  by (subst scan_object.simps(2)) (simp only: assms sum.case prod.case option.case)

lemma scan_object_stop:
  assumes "\<nexists>k r. key_token keys s = Inr (Some k, r)"
  shows "scan_object (Suc n) depth keys s = (case key_token keys s of Inl e \<Rightarrow> Inl e | Inr (_, r) \<Rightarrow> Inr r)"
  using assms by (auto simp: scan_object.simps(2) split: sum.splits option.splits)

lemma scan_array_step:
  assumes "\<not> (take 1 (skip_ws s) = '']'' \<or> take 1 (skip_ws s) = ''}'' \<or> skip_ws s = [])"
  shows "scan_array (Suc n) depth first s =
    (case scanValue n (depth + 1) (if first then None else Some CHR '','') (skip_ws s) of
       Inl e \<Rightarrow> Inl e | Inr r2 \<Rightarrow> scan_array n depth False r2)"
  using assms by (subst scan_array.simps(2)) (simp only: Let_def if_False simp_thms de_Morgan_disj)

lemma scan_array_stop:
  assumes "take 1 (skip_ws s) = '']'' \<or> take 1 (skip_ws s) = ''}'' \<or> skip_ws s = []"
  shows "scan_array (Suc n) depth first s =
    (if take 1 (skip_ws s) = '']'' then Inr (tl (skip_ws s)) else Inl malformed)"
  using assms by (auto simp: scan_array.simps(2) Let_def)

lemma scan_shorter:
  "scanValue n depth sep s = Inr r \<Longrightarrow> length r < length s"
  "scan_object n depth keys s = Inr r \<Longrightarrow> length r < length s"
  "scan_array n depth first s = Inr r \<Longrightarrow> length r < length s"
proof (induction n arbitrary: depth sep keys first s r)
  case (Suc n)
  note v_ih = Suc(1) and o_ih = Suc(2) and a_ih = Suc(3)
  { case 1
    then show ?case
      by (auto simp: scanValue.simps(2) split: sum.splits value_token.splits dest!: value_start_shorter o_ih a_ih)
  next
    case 2
    show ?case
    proof (cases "\<exists>k r. key_token keys s = Inr (Some k, r)")
      case True
      then obtain k r1 where k: "key_token keys s = Inr (Some k, r1)" by blast
      with 2 obtain r2 where "scanValue n (depth + 1) (Some CHR '':'') r1 = Inr r2" "scan_object n depth (k # keys) r2 = Inr r"
        by (auto simp: scan_object_step split: sum.splits)
      with key_token_shorter [OF k] show ?thesis by (auto dest!: v_ih o_ih)
    qed (use 2 in \<open>auto simp: scan_object_stop split: sum.splits dest: key_token_shorter\<close>)
  next
    case 3
    show ?case
    proof (cases "take 1 (skip_ws s) = '']'' \<or> take 1 (skip_ws s) = ''}'' \<or> skip_ws s = []")
      case True
      with 3 length_skip_ws [of s] show ?thesis
        by (cases "skip_ws s") (auto simp: scan_array_stop split: if_splits)
    next
      case False
      with 3 obtain r2 where "scanValue n (depth + 1) (if first then None else Some CHR '','') (skip_ws s) = Inr r2"
          "scan_array n depth False r2 = Inr r"
        by (auto simp: scan_array_step split: sum.splits)
      then show ?thesis using length_skip_ws [of s] by (auto dest!: v_ih a_ih)
    qed
  }
qed (simp_all add: scan_simps)

lemma scan_stable:
  "scanValue n depth sep s \<noteq> Inl OutOfFuel \<Longrightarrow> scanValue (Suc n) depth sep s = scanValue n depth sep s"
  "scan_object n depth keys s \<noteq> Inl OutOfFuel \<Longrightarrow> scan_object (Suc n) depth keys s = scan_object n depth keys s"
  "scan_array n depth first s \<noteq> Inl OutOfFuel \<Longrightarrow> scan_array (Suc n) depth first s = scan_array n depth first s"
proof (induction n arbitrary: depth sep keys first s)
  case (Suc n)
  note v_ih = Suc(1) and o_ih = Suc(2) and a_ih = Suc(3)
  { case 1
    have eq: "scanValue (Suc m) depth sep s =
      (case value_start depth sep s of Inl e \<Rightarrow> Inl e | Inr (OpenObject, r) \<Rightarrow> scan_object m depth [] r
       | Inr (OpenArray, r) \<Rightarrow> scan_array m depth True r | Inr (Scalar, r) \<Rightarrow> Inr r)" for m
      by (rule scanValue.simps(2))
    show ?case
      using 1 unfolding eq by (auto simp: o_ih a_ih split: sum.splits value_token.splits)
  next
    case 2
    show ?case
    proof (cases "\<exists>k r. key_token keys s = Inr (Some k, r)")
      case True
      then obtain k r where k: "key_token keys s = Inr (Some k, r)" by blast
      show ?thesis
        using 2 v_ih [of "depth + 1" "Some CHR '':''" r] o_ih unfolding scan_object_step [OF k]
        by (auto split: sum.splits)
    next
      case False
      show ?thesis unfolding scan_object_stop [OF False] ..
    qed
  next
    case 3
    show ?case
    proof (cases "take 1 (skip_ws s) = '']'' \<or> take 1 (skip_ws s) = ''}'' \<or> skip_ws s = []")
      case False
      show ?thesis
        using 3 v_ih [of "depth + 1" "if first then None else Some CHR '',''" "skip_ws s"] a_ih
        unfolding scan_array_step [OF False] by (auto split: sum.splits)
    next
      case True
      show ?thesis unfolding scan_array_stop [OF True] ..
    qed
  }
qed (simp_all add: scan_simps)

lemma scan_enough:
  "2 * length s < n \<Longrightarrow> scanValue n depth sep s \<noteq> Inl OutOfFuel"
  "2 * length s < n \<Longrightarrow> scan_object n depth keys s \<noteq> Inl OutOfFuel"
  "2 * length s + 1 < n \<Longrightarrow> scan_array n depth first s \<noteq> Inl OutOfFuel"
proof (induction n arbitrary: depth sep keys first s)
  case (Suc n)
  note v_ih = Suc(1) and o_ih = Suc(2) and a_ih = Suc(3)
  { case 1
    have step: "2 * length r + 1 < n" "2 * length r < n" if "value_start depth sep s = Inr (tok, r)" for tok r
      using value_start_shorter [OF that] 1 by linarith+
    show ?case
      using value_start_no_fuel [of depth sep s] o_ih a_ih step
      by (auto simp: scanValue.simps(2) split: sum.splits value_token.splits)
  next
    case 2
    show ?case
    proof (cases "\<exists>k r. key_token keys s = Inr (Some k, r)")
      case True
      then obtain k r where k: "key_token keys s = Inr (Some k, r)" by blast
      have r: "2 * length r < n" using key_token_shorter [OF k] 2 by linarith
      have "2 * length r2 < n" if "scanValue n (depth + 1) (Some CHR '':'') r = Inr r2" for r2
        using scan_shorter(1) [OF that] r by linarith
      then show ?thesis
        using v_ih [OF r] o_ih unfolding scan_object_step [OF k] by (auto split: sum.splits)
    qed (use key_token_no_fuel [of keys s] in \<open>auto simp: scan_object_stop split: sum.splits\<close>)
  next
    case 3
    have t: "2 * length (skip_ws s) < n" using length_skip_ws [of s] 3 by linarith
    have r2: "2 * length r2 + 1 < n" if "scanValue n (depth + 1) sp (skip_ws s) = Inr r2" for sp r2
      using scan_shorter(1) [OF that] t by linarith
    show ?case
    proof (cases "take 1 (skip_ws s) = '']'' \<or> take 1 (skip_ws s) = ''}'' \<or> skip_ws s = []")
      case False
      then show ?thesis
        using v_ih [OF t] a_ih r2 unfolding scan_array_step [OF False] by (auto split: sum.splits)
    qed (simp add: scan_array_stop)
  }
qed simp_all

lemma scan_fuel: "2 * length s < n \<Longrightarrow> scanValue (n + k) depth sep s = scanValue n depth sep s"
  by (induction k) (simp_all add: scan_stable(1) scan_enough(1))

text \<open>
  C17. The guard on received bytes always reaches a verdict.  The nested scan for duplicate keys and depth
  needs no more steps than twice the length of the bytes: with that many it never gives up, and more
  steps never change its answer.
\<close>

theorem raw_guard_terminates:
  "rawGuard raw \<noteq> Some OutOfFuel
   \<and> scanValue (json_fuel raw + k) depth sep raw = scanValue (json_fuel raw) depth sep raw"
proof -
  have fuel: "2 * length raw < json_fuel raw" by (simp add: json_fuel_def)
  have "validate_escapes b t \<noteq> Some OutOfFuel" for b t
    by (rule validate_escapes_no_fuel)
  then have "rawGuard raw \<noteq> Some OutOfFuel"
    using scan_enough(1) [OF fuel, of 0 None]
    by (auto simp: rawGuard_def validateStringEscapes_def split: option.splits sum.splits if_splits)
  with scan_fuel [OF fuel] show ?thesis by simp
qed

end
