(* ===== verification/Registry.thy ===== *)
theory Registry
  imports Ssp_Verify Authority
begin

text \<open>
  \<^verbatim>\<open>internal/registrygraph/validate.go\<close> and \<^verbatim>\<open>internal/registry\<close>: the graph inside a registry body, its
  decoding into a snapshot, the lookups and fences on a snapshot, and root verification.
\<close>

datatype registry_error =
    RegErr string
  | RegSsp ssp_error
  | ErrUnknownDomain

fun registry_expired :: "registry_error \<Rightarrow> bool" where
  "registry_expired (RegSsp e) = is_expired e"
| "registry_expired _ = False"

fun registry_invalid :: "registry_error \<Rightarrow> bool" where
  "registry_invalid (RegSsp e) = is_invalid e"
| "registry_invalid _ = False"

section \<open>The registry graph\<close>

record graph_domain =
  gd_Domain :: string
  gd_DispatcherPrincipalID :: string
  gd_IssuerEdgeIDs :: "string list"
  gd_SpecialistPrincipalIDs :: "string list"

record graph_key =
  gk_KeyID :: string
  gk_PrincipalID :: string
  gk_Usage :: string

record graph_body =
  gb_Domains :: "graph_domain list"
  gb_Principals :: "principal_body list"
  gb_Edges :: "edge_body list"
  gb_Keys :: "graph_key list"

definition graph_domain_of :: "json \<Rightarrow> graph_domain option" where
  "graph_domain_of v =
    Option.bind (struct_members v) (\<lambda>ms. Option.bind (string_field ''domain'' ms) (\<lambda>domain.
    Option.bind (string_field ''dispatcher_principal_id'' ms) (\<lambda>dispatcher.
    Option.bind (strings_field ''issuer_edge_ids'' ms) (\<lambda>issuers.
    Option.bind (strings_field ''specialist_principal_ids'' ms) (\<lambda>specialists.
      Some \<lparr>gd_Domain = domain, gd_DispatcherPrincipalID = dispatcher, gd_IssuerEdgeIDs = issuers,
            gd_SpecialistPrincipalIDs = specialists\<rparr>)))))"

definition graph_key_of :: "json \<Rightarrow> graph_key option" where
  "graph_key_of v =
    Option.bind (struct_members v) (\<lambda>ms. Option.bind (string_field ''key_id'' ms) (\<lambda>i.
    Option.bind (string_field ''principal_id'' ms) (\<lambda>principal. Option.bind (string_field ''usage'' ms) (\<lambda>usage.
      Some \<lparr>gk_KeyID = i, gk_PrincipalID = principal, gk_Usage = usage\<rparr>))))"

definition graph_body_of :: "json \<Rightarrow> graph_body option" where
  "graph_body_of v =
    Option.bind (struct_members v) (\<lambda>ms.
    Option.bind (field_into (\<lambda>_. into_slice graph_domain_of) [] ''domains'' ms) (\<lambda>domains.
    Option.bind (field_into (\<lambda>_. into_slice principal_of) [] ''principals'' ms) (\<lambda>principals.
    Option.bind (field_into (\<lambda>_. into_slice edge_of) [] ''edges'' ms) (\<lambda>edges.
    Option.bind (field_into (\<lambda>_. into_slice graph_key_of) [] ''keys'' ms) (\<lambda>keys.
      Some \<lparr>gb_Domains = domains, gb_Principals = principals, gb_Edges = edges, gb_Keys = keys\<rparr>)))))"

text \<open>A Go map filled from a list, the last entry of a key remaining.\<close>

definition indexed :: "('a \<Rightarrow> string) \<Rightarrow> 'a list \<Rightarrow> string \<Rightarrow> 'a option" where
  "indexed key xs i = find (\<lambda>x. key x = i) (rev xs)"

definition zero_principal :: principal_body where
  "zero_principal = \<lparr>pb_PrincipalID = [], pb_Roles = [], pb_SSPKeyIDs = [], pb_EdgeIDs = []\<rparr>"

definition principalHasUsage :: "graph_key list \<Rightarrow> principal_body \<Rightarrow> string \<Rightarrow> bool" where
  "principalHasUsage keys owner usage =
    list_ex (\<lambda>i. case indexed gk_KeyID keys i of
        None \<Rightarrow> False
      | Some k \<Rightarrow> gk_PrincipalID k = pb_PrincipalID owner \<and> gk_Usage k = usage) (pb_SSPKeyIDs owner)"

definition check_route :: "graph_body \<Rightarrow> graph_domain \<Rightarrow> registry_error option" where
  "check_route b route =
    (case indexed pb_PrincipalID (gb_Principals b) (gd_DispatcherPrincipalID route) of
       None \<Rightarrow> Some (RegErr ''registry: dispatcher does not resolve'')
     | Some dispatcher \<Rightarrow>
         if ''dispatcher'' \<notin> set (pb_Roles dispatcher) then Some (RegErr ''registry: lacks dispatcher role'')
         else if \<not> principalHasUsage (gb_Keys b) dispatcher ''advice'' then Some (RegErr ''registry: has no advice key'')
         else first_error
           (map (\<lambda>i. case indexed pb_PrincipalID (gb_Principals b) i of
                  None \<Rightarrow> Some (RegErr ''registry: specialist does not resolve'')
                | Some s \<Rightarrow> if ''specialist'' \<notin> set (pb_Roles s) then Some (RegErr ''registry: lacks specialist role'')
                            else None) (gd_SpecialistPrincipalIDs route)
            @ map (\<lambda>i. case indexed eb_EdgeID (gb_Edges b) i of
                  None \<Rightarrow> Some (RegErr ''registry: issuer edge does not resolve'')
                | Some e \<Rightarrow>
                    (let owner = (case indexed pb_PrincipalID (gb_Principals b) (eb_PrincipalID e) of
                          None \<Rightarrow> zero_principal | Some p \<Rightarrow> p) in
                     if \<not> principalHasUsage (gb_Keys b) owner ''edge''
                       then Some (RegErr ''registry: issuer edge owner has no edge key'') else None))
                (gd_IssuerEdgeIDs route)))"

definition check_principal :: "graph_body \<Rightarrow> principal_body \<Rightarrow> registry_error option" where
  "check_principal b p =
    first_error
      (map (\<lambda>i. case indexed gk_KeyID (gb_Keys b) i of
             None \<Rightarrow> Some (RegErr ''registry: key does not resolve'')
           | Some k \<Rightarrow> if gk_PrincipalID k \<noteq> pb_PrincipalID p then Some (RegErr ''registry: claims key of another'') else None)
         (pb_SSPKeyIDs p)
       @ map (\<lambda>i. case indexed eb_EdgeID (gb_Edges b) i of
             None \<Rightarrow> Some (RegErr ''registry: edge does not resolve'')
           | Some e \<Rightarrow> if eb_PrincipalID e \<noteq> pb_PrincipalID p then Some (RegErr ''registry: claims edge of another'') else None)
         (pb_EdgeIDs p))"

definition check_edge :: "graph_body \<Rightarrow> edge_body \<Rightarrow> registry_error option" where
  "check_edge b e =
    (case indexed pb_PrincipalID (gb_Principals b) (eb_PrincipalID e) of
       None \<Rightarrow> Some (RegErr ''registry: edge principal does not resolve'')
     | Some owner \<Rightarrow>
         if ''edge'' \<notin> set (pb_Roles owner) then Some (RegErr ''registry: lacks edge role'')
         else if eb_EdgeID e \<notin> set (pb_EdgeIDs owner) then Some (RegErr ''registry: edge is not claimed'')
         else None)"

definition check_key :: "graph_body \<Rightarrow> graph_key \<Rightarrow> registry_error option" where
  "check_key b k =
    (case indexed pb_PrincipalID (gb_Principals b) (gk_PrincipalID k) of
       None \<Rightarrow> Some (RegErr ''registry: key principal does not resolve'')
     | Some owner \<Rightarrow>
         if gk_KeyID k \<notin> set (pb_SSPKeyIDs owner) then Some (RegErr ''registry: key is not claimed'')
         else if gk_Usage k = ''registry'' \<and> ''registry-authority'' \<notin> set (pb_Roles owner)
           then Some (RegErr ''registry: lacks registry-authority role'')
         else None)"

definition check_distinct :: "string list \<Rightarrow> registry_error option" where
  "check_distinct ids = (if distinct ids then None else Some (RegErr ''registry: duplicate identifier''))"

definition validate_graph :: "graph_body \<Rightarrow> registry_error option" where
  "validate_graph b =
    first_error
      ([check_distinct (map gd_Domain (gb_Domains b)), check_distinct (map pb_PrincipalID (gb_Principals b)),
        check_distinct (map eb_EdgeID (gb_Edges b)), check_distinct (map gk_KeyID (gb_Keys b))]
       @ map (check_route b) (gb_Domains b) @ map (check_principal b) (gb_Principals b)
       @ map (check_edge b) (gb_Edges b) @ map (check_key b) (gb_Keys b))"

definition graph_Validate :: "Envelope \<Rightarrow> registry_error option" where
  "graph_Validate e =
    (case Option.bind (unmarshal (en_Body e)) graph_body_of of
       None \<Rightarrow> Some (RegErr ''registry: decode body'')
     | Some b \<Rightarrow> validate_graph b)"

section \<open>Snapshots\<close>

record KeyRecord =
  kr_KeyID :: string
  kr_PublicKey :: bytes
  kr_PrincipalID :: string
  kr_Usage :: string
  kr_NotBefore :: time
  kr_ExpiresAt :: time
  kr_RevokedAt :: "time option"

abbreviation UsageAdvice :: string where
  "UsageAdvice \<equiv> ''advice''"

abbreviation UsageEdge :: string where
  "UsageEdge \<equiv> ''edge''"

definition Usable :: "KeyRecord \<Rightarrow> time \<Rightarrow> bool" where
  "Usable k at =
    ((case kr_RevokedAt k of None \<Rightarrow> True | Some r \<Rightarrow> at < r) \<and> \<not> at < kr_NotBefore k \<and> at < kr_ExpiresAt k)"

record Registry =
  rv_revision :: int
  rv_routingEpoch :: int
  rv_previousCommitment :: string
  rv_commitment :: string
  rv_authorKeyID :: string
  rv_expiresAt :: time
  rv_domainsList :: "domain_body list"
  rv_principalsList :: "principal_body list"
  rv_edgesList :: "edge_body list"
  rv_keysList :: "KeyRecord list"

text \<open>The lookups by identifier; the maps are the lists indexed by \<^verbatim>\<open>index\<close>.\<close>

definition Domain :: "Registry \<Rightarrow> string \<Rightarrow> domain_body option" where
  "Domain r domain = indexed db_Domain (rv_domainsList r) domain"

definition Principal :: "Registry \<Rightarrow> string \<Rightarrow> principal_body option" where
  "Principal r i = indexed pb_PrincipalID (rv_principalsList r) i"

definition Edge :: "Registry \<Rightarrow> string \<Rightarrow> edge_body option" where
  "Edge r i = indexed eb_EdgeID (rv_edgesList r) i"

definition Key :: "Registry \<Rightarrow> string \<Rightarrow> KeyRecord option" where
  "Key r i = indexed kr_KeyID (rv_keysList r) i"

definition AuthorizesCaseIssuer :: "Registry \<Rightarrow> string \<Rightarrow> string \<Rightarrow> bool" where
  "AuthorizesCaseIssuer r domain edgeID =
    (case Domain r domain of None \<Rightarrow> False | Some route \<Rightarrow> edgeID \<noteq> [] \<and> edgeID \<in> set (db_IssuerEdgeIDs route))"

definition AuthorizesCaseIssuerGeneration :: "Registry \<Rightarrow> string \<Rightarrow> string \<Rightarrow> int \<Rightarrow> bool" where
  "AuthorizesCaseIssuerGeneration r domain edgeID generation =
    (if generation \<le> 0 \<or> \<not> AuthorizesCaseIssuer r domain edgeID then False
     else (case Edge r edgeID of None \<Rightarrow> False | Some e \<Rightarrow> eb_Generation e = generation))"

definition SigningKeyFor :: "Registry \<Rightarrow> string \<Rightarrow> string \<Rightarrow> time \<Rightarrow> KeyRecord option" where
  "SigningKeyFor r principalID usage at =
    (case Principal r principalID of None \<Rightarrow> None | Some p \<Rightarrow>
       find (\<lambda>k. kr_PrincipalID k = principalID \<and> kr_Usage k = usage \<and> Usable k at)
         (List.map_filter (Key r) (pb_SSPKeyIDs p)))"

datatype EpochVerdict = EpochCurrent | EpochHistorical | EpochFuture

definition EvaluateEpoch :: "Registry \<Rightarrow> string \<Rightarrow> int \<Rightarrow> registry_error + EpochVerdict" where
  "EvaluateEpoch r domain epoch =
    (case Domain r domain of None \<Rightarrow> Inl ErrUnknownDomain | Some route \<Rightarrow>
       if epoch = db_RoutingEpoch route then Inr EpochCurrent
       else if epoch < db_RoutingEpoch route then Inr EpochHistorical
       else Inr EpochFuture)"

definition MachineAcceptableEpoch :: "Registry \<Rightarrow> string \<Rightarrow> int \<Rightarrow> bool" where
  "MachineAcceptableEpoch r domain epoch = (EvaluateEpoch r domain epoch = Inr EpochCurrent)"

definition CheckBinding :: "Registry \<Rightarrow> int \<Rightarrow> string \<Rightarrow> registry_error option" where
  "CheckBinding r revision commitment =
    (if revision \<noteq> rv_revision r then Some (RegErr ''registry: envelope binds another revision'')
     else if commitment \<noteq> rv_commitment r then Some (RegErr ''registry: envelope binds a different snapshot'')
     else None)"

definition Expired :: "Registry \<Rightarrow> time \<Rightarrow> bool" where
  "Expired r at = (rv_expiresAt r \<noteq> zero_time \<and> \<not> at < rv_expiresAt r)"

section \<open>Decoding and root verification\<close>

record registry_body =
  ry_Revision :: int
  ry_RoutingEpoch :: int
  ry_PreviousCommitment :: "string option"
  ry_Domains :: "domain_body list"
  ry_Principals :: "principal_body list"
  ry_Edges :: "edge_body list"
  ry_Keys :: "key_body list"

definition registry_body_of :: "json \<Rightarrow> registry_body option" where
  "registry_body_of v =
    Option.bind (struct_members v) (\<lambda>ms. Option.bind (int_field ''revision'' ms) (\<lambda>revision.
    Option.bind (int_field ''routing_epoch'' ms) (\<lambda>epoch. Option.bind (pointer_field ''previous_commitment'' ms) (\<lambda>prev.
    Option.bind (field_into (\<lambda>_. into_slice domain_of) [] ''domains'' ms) (\<lambda>domains.
    Option.bind (field_into (\<lambda>_. into_slice principal_of) [] ''principals'' ms) (\<lambda>principals.
    Option.bind (field_into (\<lambda>_. into_slice edge_of) [] ''edges'' ms) (\<lambda>edges.
    Option.bind (field_into (\<lambda>_. into_slice key_of) [] ''keys'' ms) (\<lambda>keys.
      Some \<lparr>ry_Revision = revision, ry_RoutingEpoch = epoch, ry_PreviousCommitment = prev, ry_Domains = domains,
            ry_Principals = principals, ry_Edges = edges, ry_Keys = keys\<rparr>))))))))"

definition decodePublicKey :: "string \<Rightarrow> registry_error + bytes" where
  "decodePublicKey encoded =
    (case b64_decode encoded of
       None \<Rightarrow> Inl (RegErr ''registry: public key must be canonical 32-byte base64url'')
     | Some raw \<Rightarrow>
         if length raw \<noteq> 32 \<or> b64_encode raw \<noteq> encoded
           then Inl (RegErr ''registry: public key must be canonical 32-byte base64url'') else Inr raw)"

definition decode_key :: "key_body \<Rightarrow> registry_error + KeyRecord" where
  "decode_key k =
    (case decodePublicKey (kb_PublicKey k) of Inl e \<Rightarrow> Inl e | Inr public \<Rightarrow>
    (case ParseTimestamp (kb_NotBefore k) of Inl e \<Rightarrow> Inl (RegSsp e) | Inr notBefore \<Rightarrow>
    (case ParseTimestamp (kb_ExpiresAt k) of Inl e \<Rightarrow> Inl (RegSsp e) | Inr expiresAt \<Rightarrow>
    (case (case kb_RevokedAt k of
             None \<Rightarrow> Inr None
           | Some t \<Rightarrow> (case ParseTimestamp t of Inl e \<Rightarrow> Inl (RegSsp e) | Inr at \<Rightarrow> Inr (Some at))) of
       Inl e \<Rightarrow> Inl e
     | Inr revokedAt \<Rightarrow>
         Inr \<lparr>kr_KeyID = kb_KeyID k, kr_PublicKey = public, kr_PrincipalID = kb_PrincipalID k, kr_Usage = kb_Usage k,
              kr_NotBefore = notBefore, kr_ExpiresAt = expiresAt, kr_RevokedAt = revokedAt\<rparr>))))"

fun decode_keys :: "key_body list \<Rightarrow> registry_error + KeyRecord list" where
  "decode_keys [] = Inr []"
| "decode_keys (k # ks) =
    (case decode_key k of Inl e \<Rightarrow> Inl e | Inr r \<Rightarrow>
    (case decode_keys ks of Inl e \<Rightarrow> Inl e | Inr rs \<Rightarrow> Inr (r # rs)))"

definition decodeRegistry :: "Envelope \<Rightarrow> string \<Rightarrow> registry_error + Registry" where
  "decodeRegistry e commitment =
    (case graph_Validate e of Some err \<Rightarrow> Inl err | None \<Rightarrow>
    (case Option.bind (unmarshal (en_Body e)) registry_body_of of
       None \<Rightarrow> Inl (RegErr ''registry: decode body'')
     | Some body \<Rightarrow>
    (case ParseTimestamp (en_ExpiresAt e) of Inl err \<Rightarrow> Inl (RegSsp err) | Inr expiresAt \<Rightarrow>
    (case decode_keys (ry_Keys body) of Inl err \<Rightarrow> Inl err | Inr keys \<Rightarrow>
       Inr \<lparr>rv_revision = ry_Revision body, rv_routingEpoch = ry_RoutingEpoch body,
            rv_previousCommitment = (case ry_PreviousCommitment body of None \<Rightarrow> [] | Some c \<Rightarrow> c),
            rv_commitment = commitment, rv_authorKeyID = en_AuthorKeyID e, rv_expiresAt = expiresAt,
            rv_domainsList = ry_Domains body, rv_principalsList = ry_Principals body,
            rv_edgesList = ry_Edges body, rv_keysList = keys\<rparr>))))"

record Trust =
  tr_authorKeyID :: string
  tr_publicKey :: bytes

definition NewTrust :: "string \<Rightarrow> bytes \<Rightarrow> registry_error + Trust" where
  "NewTrust authorKeyID publicKey =
    (if authorKeyID = [] then Inl (RegErr ''registry: trust author key id is required'')
     else if length publicKey \<noteq> 32 then Inl (RegErr ''registry: trust public key'')
     else Inr \<lparr>tr_authorKeyID = authorKeyID, tr_publicKey = publicKey\<rparr>)"

definition NewVerifier :: "Trust \<Rightarrow> registry_error option" where
  "NewVerifier trust =
    (if tr_authorKeyID trust = [] \<or> length (tr_publicKey trust) \<noteq> 32
     then Some (RegErr ''registry: configured trust root is required'') else None)"

record Verified =
  vf_snapshot :: Registry
  vf_commitment :: string

text \<open>\<^verbatim>\<open>Verifier.Verify\<close> with the clock's instant as an argument.\<close>

definition Verifier_Verify :: "ssp_crypto \<Rightarrow> Trust \<Rightarrow> time \<Rightarrow> bytes \<Rightarrow> registry_error + Verified" where
  "Verifier_Verify cr trust now raw =
    (if length (tr_publicKey trust) \<noteq> 32 then Inl (RegErr ''ed25519 public key must be 32 bytes'')
     else (case VerifyRegistry cr raw (tr_authorKeyID trust) (tr_publicKey trust) now of
         Inl e \<Rightarrow> Inl (RegSsp e)
       | Inr pr \<Rightarrow>
           (case proof_Envelope pr of Inl e \<Rightarrow> Inl (RegSsp e) | Inr envelope \<Rightarrow>
           (case proof_Commitment pr of Inl e \<Rightarrow> Inl (RegSsp e) | Inr commitment \<Rightarrow>
           (case decodeRegistry envelope commitment of Inl e \<Rightarrow> Inl e | Inr snapshot \<Rightarrow>
              Inr \<lparr>vf_snapshot = snapshot, vf_commitment = commitment\<rparr>)))))"

text \<open>\<^verbatim>\<open>Verified.Commitment\<close> refuses evidence without a commitment.\<close>

definition Verified_Commitment :: "Verified \<Rightarrow> registry_error + string" where
  "Verified_Commitment v =
    (if vf_commitment v = [] then Inl (RegErr ''registry: candidate was not verified'') else Inr (vf_commitment v))"

end
