(* ===== verification/Registry_Properties.thy ===== *)
theory Registry_Properties
  imports Registry
begin

text \<open>
  The graph check of a registry body against what it means: unique identifiers, ownership that both sides
  claim, and the roles and keys a route needs.
\<close>

section \<open>Lookups\<close>

lemma first_error_None: "first_error xs = None \<longleftrightarrow> (\<forall>x \<in> set xs. x = None)"
  by (induction xs rule: first_error.induct) (auto split: option.splits)

lemma find_unique:
  "distinct (map key xs) \<Longrightarrow> find (\<lambda>x. key x = i) xs = Some x \<longleftrightarrow> x \<in> set xs \<and> key x = i"
  by (induction xs) auto

lemma indexed_Some:
  assumes "distinct (map key xs)"
  shows "indexed key xs i = Some x \<longleftrightarrow> x \<in> set xs \<and> key x = i"
  using assms find_unique [of key "rev xs" i x] by (simp add: indexed_def rev_map [symmetric])

lemma indexed_None: "indexed key xs i = None \<longleftrightarrow> (\<forall>x \<in> set xs. key x \<noteq> i)"
  by (auto simp: indexed_def find_None_iff)

section \<open>The graph\<close>

definition owned_key :: "graph_body \<Rightarrow> string \<Rightarrow> string \<Rightarrow> bool" where
  "owned_key b principalID usage = (\<exists>k \<in> set (gb_Keys b). gk_PrincipalID k = principalID \<and> gk_Usage k = usage)"

definition has_role :: "graph_body \<Rightarrow> string \<Rightarrow> string \<Rightarrow> bool" where
  "has_role b principalID role = (\<exists>p \<in> set (gb_Principals b). pb_PrincipalID p = principalID \<and> role \<in> set (pb_Roles p))"

definition unique_ids :: "graph_body \<Rightarrow> bool" where
  "unique_ids b \<longleftrightarrow> distinct (map gd_Domain (gb_Domains b)) \<and> distinct (map pb_PrincipalID (gb_Principals b))
     \<and> distinct (map eb_EdgeID (gb_Edges b)) \<and> distinct (map gk_KeyID (gb_Keys b))"

text \<open>A principal lists a key, or an edge, exactly when the key or edge names the principal.\<close>

definition two_way :: "graph_body \<Rightarrow> bool" where
  "two_way b \<longleftrightarrow>
     (\<forall>k \<in> set (gb_Keys b). \<exists>p \<in> set (gb_Principals b). pb_PrincipalID p = gk_PrincipalID k \<and> gk_KeyID k \<in> set (pb_SSPKeyIDs p))
     \<and> (\<forall>e \<in> set (gb_Edges b). \<exists>p \<in> set (gb_Principals b). pb_PrincipalID p = eb_PrincipalID e \<and> eb_EdgeID e \<in> set (pb_EdgeIDs p))
     \<and> (\<forall>p \<in> set (gb_Principals b).
          (\<forall>i \<in> set (pb_SSPKeyIDs p). \<exists>k \<in> set (gb_Keys b). gk_KeyID k = i \<and> gk_PrincipalID k = pb_PrincipalID p)
          \<and> (\<forall>i \<in> set (pb_EdgeIDs p). \<exists>e \<in> set (gb_Edges b). eb_EdgeID e = i \<and> eb_PrincipalID e = pb_PrincipalID p))"

definition roles_held :: "graph_body \<Rightarrow> bool" where
  "roles_held b \<longleftrightarrow>
     (\<forall>e \<in> set (gb_Edges b). has_role b (eb_PrincipalID e) ''edge'')
     \<and> (\<forall>k \<in> set (gb_Keys b). gk_Usage k = ''registry'' \<longrightarrow> has_role b (gk_PrincipalID k) ''registry-authority'')"

definition route_served :: "graph_body \<Rightarrow> graph_domain \<Rightarrow> bool" where
  "route_served b d \<longleftrightarrow>
     has_role b (gd_DispatcherPrincipalID d) ''dispatcher'' \<and> owned_key b (gd_DispatcherPrincipalID d) ''advice''
     \<and> (\<forall>i \<in> set (gd_SpecialistPrincipalIDs d). has_role b i ''specialist'')
     \<and> (\<forall>i \<in> set (gd_IssuerEdgeIDs d). \<exists>e \<in> set (gb_Edges b). eb_EdgeID e = i \<and> owned_key b (eb_PrincipalID e) ''edge'')"

definition graph_sound :: "graph_body \<Rightarrow> bool" where
  "graph_sound b \<longleftrightarrow> unique_ids b \<and> two_way b \<and> roles_held b \<and> (\<forall>d \<in> set (gb_Domains b). route_served b d)"

text \<open>Each check by itself, on a graph with unique identifiers.\<close>

lemma unique_principal:
  assumes "unique_ids b"
  shows "indexed pb_PrincipalID (gb_Principals b) i = Some p \<longleftrightarrow> p \<in> set (gb_Principals b) \<and> pb_PrincipalID p = i"
  using assms by (simp add: unique_ids_def indexed_Some)

lemma unique_edge:
  assumes "unique_ids b"
  shows "indexed eb_EdgeID (gb_Edges b) i = Some e \<longleftrightarrow> e \<in> set (gb_Edges b) \<and> eb_EdgeID e = i"
  using assms by (simp add: unique_ids_def indexed_Some)

lemma unique_key:
  assumes "unique_ids b"
  shows "indexed gk_KeyID (gb_Keys b) i = Some k \<longleftrightarrow> k \<in> set (gb_Keys b) \<and> gk_KeyID k = i"
  using assms by (simp add: unique_ids_def indexed_Some)

lemma check_option: "(case x of None \<Rightarrow> Some err | Some y \<Rightarrow> f y) = None \<longleftrightarrow> (\<exists>y. x = Some y \<and> f y = None)"
  by (cases x) auto

lemma check_key_iff:
  assumes "unique_ids b"
  shows "check_key b k = None \<longleftrightarrow>
    (\<exists>p \<in> set (gb_Principals b). pb_PrincipalID p = gk_PrincipalID k \<and> gk_KeyID k \<in> set (pb_SSPKeyIDs p)
       \<and> (gk_Usage k = ''registry'' \<longrightarrow> ''registry-authority'' \<in> set (pb_Roles p)))"
  by (auto simp: check_key_def check_option unique_principal [OF assms] split: if_splits)

lemma check_edge_iff:
  assumes "unique_ids b"
  shows "check_edge b e = None \<longleftrightarrow>
    (\<exists>p \<in> set (gb_Principals b). pb_PrincipalID p = eb_PrincipalID e \<and> ''edge'' \<in> set (pb_Roles p)
       \<and> eb_EdgeID e \<in> set (pb_EdgeIDs p))"
  by (auto simp: check_edge_def check_option unique_principal [OF assms] split: if_splits)

lemma check_principal_iff:
  assumes "unique_ids b"
  shows "check_principal b p = None \<longleftrightarrow>
    (\<forall>i \<in> set (pb_SSPKeyIDs p). \<exists>k \<in> set (gb_Keys b). gk_KeyID k = i \<and> gk_PrincipalID k = pb_PrincipalID p)
    \<and> (\<forall>i \<in> set (pb_EdgeIDs p). \<exists>e \<in> set (gb_Edges b). eb_EdgeID e = i \<and> eb_PrincipalID e = pb_PrincipalID p)"
  by (auto simp: check_principal_def first_error_None check_option ball_Un unique_key [OF assms] unique_edge [OF assms])

text \<open>With unique identifiers, what some principal of a name has, the principal of that name has.\<close>

lemma of_principal:
  assumes "unique_ids b" "p \<in> set (gb_Principals b)" "pb_PrincipalID p = i"
  shows "(\<exists>q \<in> set (gb_Principals b). pb_PrincipalID q = i \<and> P q) \<longleftrightarrow> P p"
  using assms by (auto simp: unique_ids_def distinct_map inj_on_def)

lemma checks_two_way:
  assumes "unique_ids b"
  shows "(\<forall>p \<in> set (gb_Principals b). check_principal b p = None) \<and> (\<forall>e \<in> set (gb_Edges b). check_edge b e = None)
      \<and> (\<forall>k \<in> set (gb_Keys b). check_key b k = None) \<longleftrightarrow> two_way b \<and> roles_held b"
proof -
  have edge: "check_edge b e = None \<longleftrightarrow>
      (\<exists>p \<in> set (gb_Principals b). pb_PrincipalID p = eb_PrincipalID e \<and> eb_EdgeID e \<in> set (pb_EdgeIDs p))
      \<and> has_role b (eb_PrincipalID e) ''edge''" for e
  proof (cases "\<exists>p \<in> set (gb_Principals b). pb_PrincipalID p = eb_PrincipalID e")
    case True
    then obtain p where p: "p \<in> set (gb_Principals b)" "pb_PrincipalID p = eb_PrincipalID e" by blast
    show ?thesis unfolding check_edge_iff [OF assms] has_role_def of_principal [OF assms p] by blast
  qed (auto simp: check_edge_iff [OF assms] has_role_def)
  have key: "check_key b k = None \<longleftrightarrow>
      (\<exists>p \<in> set (gb_Principals b). pb_PrincipalID p = gk_PrincipalID k \<and> gk_KeyID k \<in> set (pb_SSPKeyIDs p))
      \<and> (gk_Usage k = ''registry'' \<longrightarrow> has_role b (gk_PrincipalID k) ''registry-authority'')" for k
  proof (cases "\<exists>p \<in> set (gb_Principals b). pb_PrincipalID p = gk_PrincipalID k")
    case True
    then obtain p where p: "p \<in> set (gb_Principals b)" "pb_PrincipalID p = gk_PrincipalID k" by blast
    show ?thesis unfolding check_key_iff [OF assms] has_role_def of_principal [OF assms p] by blast
  qed (auto simp: check_key_iff [OF assms] has_role_def)
  show ?thesis
    unfolding edge key check_principal_iff [OF assms] two_way_def roles_held_def ball_conj_distrib by argo
qed

lemma usage_owned:
  assumes "unique_ids b" "two_way b" "p \<in> set (gb_Principals b)"
  shows "principalHasUsage (gb_Keys b) p usage \<longleftrightarrow> owned_key b (pb_PrincipalID p) usage"
proof -
  have usage: "(case indexed gk_KeyID (gb_Keys b) i of None \<Rightarrow> False
      | Some k \<Rightarrow> gk_PrincipalID k = pb_PrincipalID p \<and> gk_Usage k = usage) \<longleftrightarrow>
      (\<exists>k \<in> set (gb_Keys b). gk_KeyID k = i \<and> gk_PrincipalID k = pb_PrincipalID p \<and> gk_Usage k = usage)" for i
    using unique_key [OF assms(1), of i] by (cases "indexed gk_KeyID (gb_Keys b) i") force+
  have "gk_KeyID k \<in> set (pb_SSPKeyIDs p)" if "k \<in> set (gb_Keys b)" "gk_PrincipalID k = pb_PrincipalID p" for k
  proof -
    have "\<exists>q \<in> set (gb_Principals b). pb_PrincipalID q = pb_PrincipalID p \<and> gk_KeyID k \<in> set (pb_SSPKeyIDs q)"
      using assms(2) that(1) unfolding two_way_def that(2) [symmetric] by blast
    then show ?thesis by (simp only: of_principal [OF assms(1,3) refl])
  qed
  then show ?thesis unfolding principalHasUsage_def list_ex_iff usage owned_key_def by blast
qed

lemma edge_owner:
  assumes "two_way b" "e \<in> set (gb_Edges b)"
  obtains p where "p \<in> set (gb_Principals b)" "pb_PrincipalID p = eb_PrincipalID e"
  using assms by (auto simp: two_way_def)

lemma owner_usage:
  assumes "unique_ids b" "two_way b" "e \<in> set (gb_Edges b)"
  shows "principalHasUsage (gb_Keys b)
      (case indexed pb_PrincipalID (gb_Principals b) (eb_PrincipalID e) of None \<Rightarrow> zero_principal | Some p \<Rightarrow> p) usage
      \<longleftrightarrow> owned_key b (eb_PrincipalID e) usage"
proof -
  obtain p where p: "p \<in> set (gb_Principals b)" "pb_PrincipalID p = eb_PrincipalID e"
    by (rule edge_owner [OF assms(2,3)])
  then have "indexed pb_PrincipalID (gb_Principals b) (eb_PrincipalID e) = Some p"
    by (simp add: unique_principal [OF assms(1)])
  then show ?thesis using usage_owned [OF assms(1,2) p(1)] p(2) by simp
qed

lemma check_route_iff:
  assumes "unique_ids b" "two_way b"
  shows "check_route b d = None \<longleftrightarrow> route_served b d"
proof -
  have specialist: "(case indexed pb_PrincipalID (gb_Principals b) i of
        None \<Rightarrow> Some err | Some s \<Rightarrow> if ''specialist'' \<notin> set (pb_Roles s) then Some err' else None) = None
      \<longleftrightarrow> has_role b i ''specialist''" for i and err err' :: registry_error
    unfolding check_option unique_principal [OF assms(1)] has_role_def by (auto split: if_splits)
  have issuer: "(case indexed eb_EdgeID (gb_Edges b) i of
        None \<Rightarrow> Some err
      | Some e \<Rightarrow> (let owner = (case indexed pb_PrincipalID (gb_Principals b) (eb_PrincipalID e) of
              None \<Rightarrow> zero_principal | Some p \<Rightarrow> p) in
          if \<not> principalHasUsage (gb_Keys b) owner ''edge'' then Some err' else None)) = None
      \<longleftrightarrow> (\<exists>e \<in> set (gb_Edges b). eb_EdgeID e = i \<and> owned_key b (eb_PrincipalID e) ''edge'')"
    for i and err err' :: registry_error
    unfolding check_option unique_edge [OF assms(1)] Let_def
    using owner_usage [OF assms] by (auto split: if_splits)
  have dispatcher: "(\<exists>p. (p \<in> set (gb_Principals b) \<and> pb_PrincipalID p = i) \<and> ''dispatcher'' \<in> set (pb_Roles p)
        \<and> principalHasUsage (gb_Keys b) p ''advice'' \<and> Q)
      \<longleftrightarrow> has_role b i ''dispatcher'' \<and> owned_key b i ''advice'' \<and> Q" for i Q
    using usage_owned [OF assms] unfolding has_role_def by blast
  have guarded: "(if \<not> A then Some x else if \<not> B then Some y else z) = None \<longleftrightarrow> A \<and> B \<and> z = None"
    for A B and x y :: registry_error and z by simp
  show ?thesis
    unfolding check_route_def check_option unique_principal [OF assms(1)] guarded dispatcher
    by (simp add: first_error_None ball_Un specialist issuer route_served_def)
qed

text \<open>
  C14. A registry is accepted exactly when its graph is sound.  The checks pass if and only if domains,
  principals, edges and keys have unique names, a principal lists a key or an edge exactly when that key
  or edge names it as owner, owners hold the roles their edges and registry keys need, and every route has
  a dispatcher with the role and an advice key of its own, specialists with the role, and issuing edges
  that exist and whose owner has an edge key.
\<close>

theorem registry_graph_sound: "validate_graph b = None \<longleftrightarrow> graph_sound b"
proof (cases "unique_ids b")
  case True
  then show ?thesis
    using checks_two_way [OF True] check_route_iff [OF True]
    by (auto simp: validate_graph_def graph_sound_def first_error_None ball_Un check_distinct_def unique_ids_def)
next
  case False
  then show ?thesis
    by (auto simp: validate_graph_def graph_sound_def first_error_None check_distinct_def unique_ids_def split: if_splits)
qed

end
