(* ===== verification/Control_Api.thy ===== *)
theory Control_Api
  imports Registry Authority_Store
begin

text \<open>
  \<^verbatim>\<open>internal/controlapi/service.go\<close>: admission of signed envelopes into the authority and the two evidence
  reads.  A request runs against one state of the database; the facts it reads are immutable, so running
  it between two commits of others gives the same answers.  \<open>env\<close> holds what a request meets: the clock's
  reading at each place the source asks for it, faults of the reads, and the attempts of the commit.
\<close>

datatype api_error =
    ErrUnauthorized
  | ErrRejected
  | ErrExpiredInput
  | ErrInvalidCaseBinding
  | ApiStore store_error
  | ApiRegistry registry_error

record WorkloadIdentity =
  wl_PrincipalID :: string
  wl_EdgeID :: string
  wl_EdgeGeneration :: int

record Service =
  sv_tenant :: string
  sv_authority :: Store
  sv_registryTrust :: Trust
  sv_registryPublisherPrincipalID :: string

record api_env =
  ap_clock :: "nat \<Rightarrow> time"
  ap_fault :: "nat \<Rightarrow> store_error option"
  ap_commit :: "nat \<Rightarrow> tx_attempt"

definition api_New :: "string \<Rightarrow> Store option \<Rightarrow> Trust \<Rightarrow> string \<Rightarrow> api_error + Service" where
  "api_New tenant authority trust publisher =
    (case authority of
       None \<Rightarrow> Inl (ApiRegistry (RegErr ''controlapi: tenant, authority, and registry publisher principal are required''))
     | Some authority \<Rightarrow>
         if blank tenant \<or> blank publisher
           then Inl (ApiRegistry (RegErr ''controlapi: tenant, authority, and registry publisher principal are required''))
         else (case NewVerifier trust of
             Some e \<Rightarrow> Inl (ApiRegistry e)
           | None \<Rightarrow> Inr \<lparr>sv_tenant = tenant, sv_authority = authority, sv_registryTrust = trust,
                           sv_registryPublisherPrincipalID = publisher\<rparr>))"

definition classifySSPError :: "ssp_error option \<Rightarrow> api_error" where
  "classifySSPError err =
    (case err of None \<Rightarrow> ErrUnauthorized | Some e \<Rightarrow>
       if is_expired e then ErrExpiredInput else if is_invalid e then ErrRejected else ErrUnauthorized)"

definition classify_registry :: "registry_error \<Rightarrow> api_error" where
  "classify_registry e = (case e of RegSsp e \<Rightarrow> classifySSPError (Some e) | _ \<Rightarrow> ErrUnauthorized)"

text \<open>What a commit answers.\<close>

definition commit_answer ::
    "(CommitReceipt \<times> store_error option) \<times> authority_db \<Rightarrow> (api_error + CommitReceipt) \<times> authority_db" where
  "commit_answer a =
    (case a of ((rc, None), db) \<Rightarrow> (Inr rc, db) | ((_, Some e), db) \<Rightarrow> (Inl (ApiStore e), db))"

section \<open>Registries\<close>

definition SubmitRegistry ::
    "ssp_crypto \<Rightarrow> Service \<Rightarrow> api_env \<Rightarrow> WorkloadIdentity \<Rightarrow> bytes \<Rightarrow> authority_db
       \<Rightarrow> (api_error + CommitReceipt) \<times> authority_db" where
  "SubmitRegistry cr s env w raw db =
    (if wl_PrincipalID w \<noteq> sv_registryPublisherPrincipalID s \<or> wl_EdgeID w \<noteq> [] \<or> wl_EdgeGeneration w \<noteq> 0
       then (Inl ErrUnauthorized, db)
     else (case ReadHeader raw of Inl e \<Rightarrow> (Inl ErrRejected, db) | Inr h \<Rightarrow>
       if eh_Schema h \<noteq> Family_Registry then (Inl ErrRejected, db)
       else (case Verifier_Verify cr (sv_registryTrust s) (ap_clock env 0) raw of
           Inl e \<Rightarrow> (Inl (classify_registry e), db)
         | Inr verified \<Rightarrow>
             (case Verified_Commitment verified of Inl e \<Rightarrow> (Inl ErrRejected, db) | Inr commitment \<Rightarrow>
             (let snapshot = vf_snapshot verified in
              if rv_revision snapshot \<noteq> eh_RegistryRevision h \<or> rv_routingEpoch snapshot \<noteq> eh_RoutingEpoch h
                 \<or> Expired snapshot (ap_clock env 1)
                then (Inl ErrExpiredInput, db)
              else commit_answer (CommitRegistry (sv_authority s) (ap_commit env)
                \<lparr>crr_TenantID = sv_tenant s, crr_Revision = rv_revision snapshot, crr_EnvelopeID = eh_ID h,
                 crr_Commitment = commitment, crr_Raw = raw, crr_RoutingEpoch = rv_routingEpoch snapshot,
                 crr_PreviousCommitment = rv_previousCommitment snapshot,
                 crr_Edges = Some (map (\<lambda>e. (eb_EdgeID e,
                   \<lparr>re_PrincipalID = eb_PrincipalID e, re_Generation = eb_Generation e\<rparr>)) (rv_edgesList snapshot)),
                 crr_AuthenticatedPrincipalID = wl_PrincipalID w, crr_AuthenticatedEdgeID = [], crr_Decision = ''verified_registry_admission''\<rparr> db))))))"

definition api_resolveRegistry ::
    "ssp_crypto \<Rightarrow> Service \<Rightarrow> api_env \<Rightarrow> EnvelopeHeader \<Rightarrow> authority_db \<Rightarrow> api_error + Registry" where
  "api_resolveRegistry cr s env h db =
    (case ResolveRegistry (sv_authority s) (ap_fault env 0) (sv_tenant s) (eh_RegistryRevision h) (eh_RegistryHash h) db of
       Inl e \<Rightarrow> Inl (ApiStore e)
     | Inr r \<Rightarrow>
         (case Verifier_Verify cr (sv_registryTrust s) (ap_clock env 0) (rr_Raw r) of
            Inl e \<Rightarrow> if registry_expired e then Inl ErrExpiredInput else Inl (ApiRegistry e)
          | Inr verified \<Rightarrow>
              (case Verified_Commitment verified of Inl e \<Rightarrow> Inl (ApiRegistry e) | Inr commitment \<Rightarrow>
              (let snapshot = vf_snapshot verified in
               if rr_Revision r \<noteq> eh_RegistryRevision h \<or> rr_Commitment r \<noteq> eh_RegistryHash h \<or> commitment \<noteq> rr_Commitment r
                  \<or> rv_revision snapshot \<noteq> rr_Revision r \<or> rv_routingEpoch snapshot \<noteq> rr_RoutingEpoch r
                  \<or> Expired snapshot (ap_clock env 1)
                  \<or> CheckBinding snapshot (eh_RegistryRevision h) (eh_RegistryHash h) \<noteq> None
                 then Inl ErrExpiredInput
               else Inr snapshot))))"

section \<open>Cases and advice\<close>

text \<open>\<^const>\<open>None\<close> as the error is \<^verbatim>\<open>ErrUnauthorized\<close>; any other error is one of package \<^verbatim>\<open>ssp\<close>.\<close>

definition verifyRegisteredEnvelope ::
    "ssp_crypto \<Rightarrow> bytes \<Rightarrow> EnvelopeHeader \<Rightarrow> Registry \<Rightarrow> string \<Rightarrow> time \<Rightarrow> ssp_error option + KeyRecord \<times> Envelope" where
  "verifyRegisteredEnvelope cr raw h snapshot usage now =
    (case Key snapshot (eh_AuthorKeyID h) of None \<Rightarrow> Inl None | Some key \<Rightarrow>
     if kr_Usage key \<noteq> usage \<or> \<not> Usable key now then Inl None
     else if length (kr_PublicKey key) \<noteq> 32 then Inl (Some (SspErr ''ed25519 public key must be 32 bytes''))
     else (case Verify cr raw [eh_AuthorKeyID h \<mapsto> kr_PublicKey key] now of
         Inl e \<Rightarrow> Inl (Some e)
       | Inr verified \<Rightarrow>
           (case ParseTimestamp (en_EmittedAt verified) of
              Inl e \<Rightarrow> Inl None
            | Inr emittedAt \<Rightarrow> if \<not> Usable key emittedAt then Inl None else Inr (key, verified))))"

record caseBody =
  bc_Domain :: string
  bc_IssuerEdgeID :: string
  bc_IssuerEdgeGeneration :: int

definition caseBody_of :: "json \<Rightarrow> caseBody option" where
  "caseBody_of v =
    Option.bind (struct_members v) (\<lambda>ms. Option.bind (string_field ''domain'' ms) (\<lambda>domain.
    Option.bind (string_field ''issuer_edge_id'' ms) (\<lambda>edgeID.
    Option.bind (int_field ''issuer_edge_generation'' ms) (\<lambda>generation.
      Some \<lparr>bc_Domain = domain, bc_IssuerEdgeID = edgeID, bc_IssuerEdgeGeneration = generation\<rparr>))))"

definition adviceBody_of :: "json \<Rightarrow> string option" where
  "adviceBody_of v = Option.bind (struct_members v) (string_field ''case_commitment'')"

text \<open>The registry's verdict on a case: \<^verbatim>\<open>true\<close> when every condition of \<^verbatim>\<open>submitCase\<close> holds.\<close>

definition case_authorized ::
    "Registry \<Rightarrow> WorkloadIdentity \<Rightarrow> EnvelopeHeader \<Rightarrow> KeyRecord \<Rightarrow> Envelope \<Rightarrow> caseBody \<Rightarrow> bool" where
  "case_authorized snapshot w h key verified body =
    (case Edge snapshot (bc_IssuerEdgeID body) of None \<Rightarrow> False | Some edge \<Rightarrow>
    (case Principal snapshot (eb_PrincipalID edge) of None \<Rightarrow> False | Some owner \<Rightarrow>
    (case Domain snapshot (bc_Domain body) of None \<Rightarrow> False | Some route \<Rightarrow>
       wl_PrincipalID w \<noteq> [] \<and> wl_EdgeID w \<noteq> [] \<and> wl_EdgeGeneration w > 0
       \<and> wl_EdgeID w = bc_IssuerEdgeID body \<and> wl_EdgeGeneration w = bc_IssuerEdgeGeneration body
       \<and> eb_Generation edge = bc_IssuerEdgeGeneration body \<and> wl_PrincipalID w = eb_PrincipalID edge
       \<and> kr_PrincipalID key = eb_PrincipalID edge \<and> eh_AuthorKeyID h \<in> set (pb_SSPKeyIDs owner)
       \<and> AuthorizesCaseIssuerGeneration snapshot (bc_Domain body) (bc_IssuerEdgeID body) (bc_IssuerEdgeGeneration body)
       \<and> Family_Case \<in> set (db_Families route)
       \<and> MachineAcceptableEpoch snapshot (bc_Domain body) (en_RoutingEpoch verified))))"

definition submitCase ::
    "ssp_crypto \<Rightarrow> Service \<Rightarrow> api_env \<Rightarrow> WorkloadIdentity \<Rightarrow> bytes \<Rightarrow> EnvelopeHeader \<Rightarrow> Registry \<Rightarrow> authority_db
       \<Rightarrow> (api_error + CommitReceipt) \<times> authority_db" where
  "submitCase cr s env w raw h snapshot db =
    (case verifyRegisteredEnvelope cr raw h snapshot UsageEdge (ap_clock env 2) of
       Inl e \<Rightarrow> (Inl (classifySSPError e), db)
     | Inr (key, verified) \<Rightarrow>
         if en_Schema verified \<noteq> Family_Case then (Inl ErrRejected, db)
         else if kr_PrincipalID key = [] then (Inl ErrUnauthorized, db)
         else (case Option.bind (unmarshal (en_Body verified)) caseBody_of of None \<Rightarrow> (Inl ErrRejected, db) | Some body \<Rightarrow>
           if \<not> case_authorized snapshot w h key verified body then (Inl ErrUnauthorized, db)
           else (case EnvelopeCommitment cr raw (ap_clock env 3) of Inl e \<Rightarrow> (Inl ErrRejected, db) | Inr commitment \<Rightarrow>
             (case ParseTimestamp (en_ExpiresAt verified) of Inl e \<Rightarrow> (Inl ErrRejected, db) | Inr expiresAt \<Rightarrow>
              commit_answer (CommitCase (sv_authority s) (ap_commit env)
                \<lparr>ccr_TenantID = sv_tenant s, ccr_CaseID = en_CaseID verified, ccr_EnvelopeID = en_ID verified,
                 ccr_Commitment = commitment, ccr_Raw = raw, ccr_Domain = bc_Domain body,
                 ccr_IssuerEdgeID = bc_IssuerEdgeID body, ccr_IssuerEdgeGeneration = bc_IssuerEdgeGeneration body,
                 ccr_RoutingEpoch = en_RoutingEpoch verified, ccr_RegistryRevision = en_RegistryRevision verified,
                 ccr_RegistryHash = en_RegistryHash verified, ccr_ExpiresAt = expiresAt,
                 ccr_AuthenticatedPrincipalID = wl_PrincipalID w, ccr_AuthenticatedEdgeID = wl_EdgeID w,
                 ccr_Decision = ''verified_case_admission''\<rparr> db)))))"

record committedCase =
  cm_commitment :: string
  cm_domain :: string
  cm_record :: CaseRecord

definition findCommittedCase ::
    "ssp_crypto \<Rightarrow> Service \<Rightarrow> api_env \<Rightarrow> string \<Rightarrow> string \<Rightarrow> EnvelopeHeader \<Rightarrow> Registry \<Rightarrow> authority_db
       \<Rightarrow> api_error + committedCase" where
  "findCommittedCase cr s env caseID commitment h snapshot db =
    (case ResolveCase (sv_authority s) (ap_fault env 1) (sv_tenant s) caseID commitment db of
       Inl e \<Rightarrow> Inl (ApiStore e)
     | Inr found \<Rightarrow>
    (case ReadHeader (cr_Raw found) of Inl e \<Rightarrow> Inl ErrInvalidCaseBinding | Inr ch \<Rightarrow>
     if eh_RegistryRevision ch \<noteq> eh_RegistryRevision h \<or> eh_RegistryHash ch \<noteq> eh_RegistryHash h
        \<or> eh_RoutingEpoch ch \<noteq> eh_RoutingEpoch h
       then Inl ErrInvalidCaseBinding
     else (case verifyRegisteredEnvelope cr (cr_Raw found) ch snapshot UsageEdge (ap_clock env 4) of
         Inl (Some e) \<Rightarrow> if is_expired e then Inl ErrExpiredInput else Inl ErrInvalidCaseBinding
       | Inl None \<Rightarrow> Inl ErrInvalidCaseBinding
       | Inr (key, verified) \<Rightarrow>
           if en_Schema verified \<noteq> Family_Case \<or> kr_PrincipalID key = [] then Inl ErrInvalidCaseBinding
           else (case EnvelopeCommitment cr (cr_Raw found) (ap_clock env 5) of Inl e \<Rightarrow> Inl ErrInvalidCaseBinding | Inr actual \<Rightarrow>
             if actual \<noteq> cr_Commitment found then Inl ErrInvalidCaseBinding
             else (case Option.bind (unmarshal (en_Body verified)) caseBody_of of None \<Rightarrow> Inl ErrInvalidCaseBinding | Some body \<Rightarrow>
               if en_CaseID verified \<noteq> caseID \<or> bc_Domain body = [] \<or> bc_Domain body \<noteq> cr_Domain found
                 then Inl ErrInvalidCaseBinding
               else Inr \<lparr>cm_commitment = cr_Commitment found, cm_domain = bc_Domain body, cm_record = found\<rparr>)))))"

definition advice_authorized ::
    "Registry \<Rightarrow> WorkloadIdentity \<Rightarrow> EnvelopeHeader \<Rightarrow> KeyRecord \<Rightarrow> committedCase \<Rightarrow> bool" where
  "advice_authorized snapshot w h key committed =
    (case Domain snapshot (cm_domain committed) of None \<Rightarrow> False | Some route \<Rightarrow>
    (case Principal snapshot (db_DispatcherPrincipalID route) of None \<Rightarrow> False | Some owner \<Rightarrow>
       wl_PrincipalID w \<noteq> [] \<and> wl_PrincipalID w = db_DispatcherPrincipalID route \<and> wl_EdgeID w = []
       \<and> wl_EdgeGeneration w = 0 \<and> db_DispatcherPrincipalID route \<noteq> []
       \<and> kr_PrincipalID key = db_DispatcherPrincipalID route \<and> eh_AuthorKeyID h \<in> set (pb_SSPKeyIDs owner)
       \<and> Family_Advice \<in> set (db_Families route)
       \<and> MachineAcceptableEpoch snapshot (cm_domain committed) (eh_RoutingEpoch h)))"

definition submitAdvice ::
    "ssp_crypto \<Rightarrow> Service \<Rightarrow> api_env \<Rightarrow> WorkloadIdentity \<Rightarrow> bytes \<Rightarrow> EnvelopeHeader \<Rightarrow> Registry \<Rightarrow> authority_db
       \<Rightarrow> (api_error + CommitReceipt) \<times> authority_db" where
  "submitAdvice cr s env w raw h snapshot db =
    (case envelope_fields raw of None \<Rightarrow> (Inl ErrRejected, db) | Some (_, _, untrusted) \<Rightarrow>
    (case Option.bind (unmarshal untrusted) adviceBody_of of None \<Rightarrow> (Inl ErrRejected, db) | Some hint \<Rightarrow>
    (case findCommittedCase cr s env (eh_CaseID h) hint h snapshot db of Inl e \<Rightarrow> (Inl e, db) | Inr committed \<Rightarrow>
    (case verifyRegisteredEnvelope cr raw h snapshot UsageAdvice (ap_clock env 2) of
       Inl e \<Rightarrow> (Inl (classifySSPError e), db)
     | Inr (key, verified) \<Rightarrow>
         if en_Schema verified \<noteq> Family_Advice then (Inl ErrRejected, db)
         else if kr_PrincipalID key = [] then (Inl ErrUnauthorized, db)
         else if \<not> advice_authorized snapshot w h key committed then (Inl ErrUnauthorized, db)
         else (case Option.bind (unmarshal (en_Body verified)) adviceBody_of of None \<Rightarrow> (Inl ErrRejected, db) | Some bound \<Rightarrow>
           if bound \<noteq> cm_commitment committed then (Inl ErrInvalidCaseBinding, db)
           else (case EnvelopeCommitment cr raw (ap_clock env 3) of Inl e \<Rightarrow> (Inl ErrRejected, db) | Inr commitment \<Rightarrow>
             commit_answer (CommitAdvice (sv_authority s) (ap_commit env)
               \<lparr>car_TenantID = sv_tenant s, car_CaseID = en_CaseID verified, car_EnvelopeID = en_ID verified,
                car_CaseCommitment = cm_commitment committed, car_Commitment = commitment, car_Raw = raw,
                car_RoutingEpoch = en_RoutingEpoch verified, car_RegistryRevision = en_RegistryRevision verified,
                car_RegistryHash = en_RegistryHash verified, car_AuthenticatedPrincipalID = wl_PrincipalID w, car_AuthenticatedEdgeID = [],
                car_Decision = ''verified_advice_admission''\<rparr> db)))))))"

definition Submit ::
    "ssp_crypto \<Rightarrow> Service \<Rightarrow> api_env \<Rightarrow> WorkloadIdentity \<Rightarrow> bytes \<Rightarrow> authority_db
       \<Rightarrow> (api_error + CommitReceipt) \<times> authority_db" where
  "Submit cr s env w raw db =
    (case ReadHeader raw of Inl e \<Rightarrow> (Inl ErrRejected, db) | Inr h \<Rightarrow>
     if eh_Schema h \<noteq> Family_Case \<and> eh_Schema h \<noteq> Family_Advice then (Inl ErrRejected, db)
     else (case api_resolveRegistry cr s env h db of
         Inl e \<Rightarrow> (Inl e, db)
       | Inr snapshot \<Rightarrow>
           if eh_Schema h = Family_Case then submitCase cr s env w raw h snapshot db
           else submitAdvice cr s env w raw h snapshot db))"

section \<open>Evidence reads\<close>

definition api_ResolveCase ::
    "ssp_crypto \<Rightarrow> Service \<Rightarrow> api_env \<Rightarrow> WorkloadIdentity \<Rightarrow> string \<Rightarrow> string \<Rightarrow> authority_db \<Rightarrow> api_error + CaseRecord" where
  "api_ResolveCase cr s env w caseID commitment db =
    (case ResolveCase (sv_authority s) (ap_fault env 2) (sv_tenant s) caseID commitment db of
       Inl e \<Rightarrow> Inl (ApiStore e)
     | Inr r \<Rightarrow>
    (case ReadHeader (cr_Raw r) of Inl e \<Rightarrow> Inl ErrInvalidCaseBinding | Inr h \<Rightarrow>
     if eh_Schema h \<noteq> Family_Case then Inl ErrInvalidCaseBinding
     else (case api_resolveRegistry cr s env h db of Inl e \<Rightarrow> Inl e | Inr snapshot \<Rightarrow>
     (case findCommittedCase cr s env caseID commitment h snapshot db of Inl e \<Rightarrow> Inl e | Inr committed \<Rightarrow>
      (let dispatcherAuthorized =
             (case Domain snapshot (cm_domain committed) of None \<Rightarrow> False | Some route \<Rightarrow>
                wl_PrincipalID w \<noteq> [] \<and> wl_PrincipalID w = db_DispatcherPrincipalID route
                \<and> wl_EdgeID w = [] \<and> wl_EdgeGeneration w = 0);
           edgeAuthorized =
             (case Edge snapshot (cr_IssuerEdgeID (cm_record committed)) of None \<Rightarrow> False | Some target \<Rightarrow>
                wl_PrincipalID w \<noteq> [] \<and> wl_PrincipalID w = eb_PrincipalID target
                \<and> wl_EdgeID w = cr_IssuerEdgeID (cm_record committed)
                \<and> wl_EdgeGeneration w = cr_IssuerEdgeGeneration (cm_record committed)
                \<and> eb_Generation target = cr_IssuerEdgeGeneration (cm_record committed)) in
       if \<not> dispatcherAuthorized \<and> \<not> edgeAuthorized then Inl ErrUnauthorized else Inr (cm_record committed))))))"

definition api_ResolveRegistry ::
    "ssp_crypto \<Rightarrow> Service \<Rightarrow> api_env \<Rightarrow> WorkloadIdentity \<Rightarrow> int \<Rightarrow> string \<Rightarrow> authority_db \<Rightarrow> api_error + RegistryRecord" where
  "api_ResolveRegistry cr s env w revision commitment db =
    (if wl_PrincipalID w = [] \<or> wl_EdgeID w = [] \<or> wl_EdgeGeneration w \<le> 0 then Inl ErrUnauthorized
     else (case ResolveRegistry (sv_authority s) (ap_fault env 3) (sv_tenant s) revision commitment db of
         Inl e \<Rightarrow> Inl (ApiStore e)
       | Inr r \<Rightarrow>
     (case ReadHeader (rr_Raw r) of Inl e \<Rightarrow> Inl ErrInvalidCaseBinding | Inr h \<Rightarrow>
      if eh_Schema h \<noteq> Family_Registry then Inl ErrInvalidCaseBinding
      else (case ParseTimestamp (eh_EmittedAt h) of Inl e \<Rightarrow> Inl ErrInvalidCaseBinding | Inr emittedAt \<Rightarrow>
      (case NewVerifier (sv_registryTrust s) of Some e \<Rightarrow> Inl (ApiRegistry e) | None \<Rightarrow>
      (case Verifier_Verify cr (sv_registryTrust s) emittedAt (rr_Raw r) of Inl e \<Rightarrow> Inl (ApiRegistry e) | Inr verified \<Rightarrow>
      (case Verified_Commitment verified of Inl e \<Rightarrow> Inl (ApiRegistry e) | Inr actual \<Rightarrow>
      (case Edge (vf_snapshot verified) (wl_EdgeID w) of None \<Rightarrow> Inl ErrUnauthorized | Some edge \<Rightarrow>
       if eb_PrincipalID edge \<noteq> wl_PrincipalID w \<or> eb_Generation edge \<noteq> wl_EdgeGeneration w \<or> rr_TenantID r \<noteq> sv_tenant s
          \<or> rr_Revision r \<noteq> revision \<or> rr_Revision r \<noteq> rv_revision (vf_snapshot verified)
          \<or> rr_RoutingEpoch r \<noteq> rv_routingEpoch (vf_snapshot verified) \<or> rr_Commitment r \<noteq> commitment
          \<or> actual \<noteq> commitment
         then Inl ErrUnauthorized
       else Inr r))))))))"

end
