(* ===== verification/Edge_Consumer.thy ===== *)
theory Edge_Consumer
  imports Edge_Store Go_Json_Read
begin

text \<open>
  \<^verbatim>\<open>internal/sspedge/consumer.go\<close>, \<^verbatim>\<open>authority_reconciler.go\<close> and \<^verbatim>\<open>jetstream_consumer.go\<close>: how an edge
  takes deliveries, live from the broker or in pages from the authority.  The consumer's own state is its
  halted flag; its methods are called on values that are not nil.  What the verifier answers in a call is
  an argument, since it reads the authority of that moment; so are the broker's client and its messages.
\<close>

section \<open>Messages and outcomes\<close>

record JournalMetadata =
  jm_Stream :: string
  jm_Sequence :: nat
  jm_DeliverySeq :: int
  jm_TenantID :: string
  jm_EdgeID :: string
  jm_EdgeGeneration :: int

text \<open>A message with what its methods return in this call: metadata, acknowledgement, negative one.\<close>

record JournalMessage =
  msg_Metadata :: "edge_error + JournalMetadata"
  msg_JournalSubject :: string
  msg_JournalData :: bytes
  msg_DoubleAck :: "edge_error option"
  msg_Nak :: "edge_error option"

text \<open>An error of a verifier: \<^verbatim>\<open>VerificationError\<close> with its reason, permanence and cause, or any other.\<close>

datatype verify_error =
    VerificationError string bool edge_error
  | OtherError edge_error

definition Permanent :: "string \<Rightarrow> edge_error \<Rightarrow> verify_error" where
  "Permanent reason err = VerificationError reason True err"

definition Transient :: "edge_error \<Rightarrow> verify_error" where
  "Transient err = VerificationError [] False err"

text \<open>What remains of a verifier's error for the caller, who only asks whether it is the halted error.\<close>

fun cause :: "verify_error \<Rightarrow> edge_error" where
  "cause (VerificationError reason permanent err) = err"
| "cause (OtherError err) = err"

type_synonym verifier = "JournalDelivery \<Rightarrow> verify_error + VerifiedProjection option"

abbreviation ProcessAccepted :: string where
  "ProcessAccepted \<equiv> ''accepted''"

abbreviation ProcessRejected :: string where
  "ProcessRejected \<equiv> ''rejected''"

abbreviation ProcessQuarantined :: string where
  "ProcessQuarantined \<equiv> ''quarantined''"

abbreviation ProcessDuplicate :: string where
  "ProcessDuplicate \<equiv> ''duplicate''"

abbreviation ProcessRetrying :: string where
  "ProcessRetrying \<equiv> ''retrying''"

abbreviation ProcessReconciliationRequired :: string where
  "ProcessReconciliationRequired \<equiv> ''reconciliation_required''"

abbreviation ProcessIdentityConflict :: string where
  "ProcessIdentityConflict \<equiv> ''identity_conflict''"

definition ErrConsumerHalted :: edge_error where
  "ErrConsumerHalted = EdgeErr ''sspedge: journal consumer halted''"

record ReconcileBatch =
  rb_Deliveries :: "JournalDelivery list"
  rb_HighWatermark :: int
  rb_CompleteThrough :: int

record ReconcileResult =
  rs_Applied :: int
  rs_HighWatermark :: int
  rs_CompleteThrough :: int
  rs_Resumed :: bool

definition zero_result :: ReconcileResult where
  "zero_result = \<lparr>rs_Applied = 0, rs_HighWatermark = 0, rs_CompleteThrough = 0, rs_Resumed = False\<rparr>"

record JournalConsumer =
  jc_identity :: EdgeIdentity
  jc_halted :: bool

section \<open>Routes\<close>

definition edgeDeliverySubject :: "EdgeIdentity \<Rightarrow> string" where
  "edgeDeliverySubject i =
    (if EdgeIdentity_validate i \<noteq> None then []
     else SubjectPrefix @ ''.'' @ RoutingToken (id_TenantID i) @ ''.'' @ DestinationEdge @ ''.''
            @ EdgeToken (id_EdgeID i) (uint64 (id_Generation i)))"

definition routeMatches :: "string \<Rightarrow> EdgeIdentity \<Rightarrow> VerifiedProjection option \<Rightarrow> bool" where
  "routeMatches subject i p =
    (case p of None \<Rightarrow> False | Some p \<Rightarrow>
    (let edgeToken = EdgeRoutingToken (id_EdgeID i) (id_Generation i) in
     if subject \<noteq> edgeDeliverySubject i then False
     else if vp_Family p = FamilyCase then
       (case vp_Case p of None \<Rightarrow> False | Some c \<Rightarrow>
          \<not> (ca_IssuerEdgeID c \<noteq> id_EdgeID i \<or> ca_IssuerEdgeGeneration c \<noteq> id_Generation i
             \<or> ca_RouteKind c \<noteq> ''domain'' \<or> ca_RouteToken c \<noteq> RoutingToken (ca_Domain c)
             \<or> ca_SourceToken c \<noteq> edgeToken))
     else if vp_Family p = FamilyAdvice then
       (case vp_Advice p of None \<Rightarrow> False | Some a \<Rightarrow>
          \<not> (av_IssuerEdgeID a \<noteq> id_EdgeID i \<or> av_IssuerEdgeGeneration a \<noteq> id_Generation i
             \<or> av_RouteKind a \<noteq> ''edge'' \<or> av_RouteToken a \<noteq> edgeToken))
     else False))"

section \<open>The journal consumer\<close>

definition NewJournalConsumer ::
    "EdgeDB option \<Rightarrow> edge_tx \<Rightarrow> verifier option \<Rightarrow> EdgeIdentity \<Rightarrow> edge_db \<Rightarrow> edge_error + JournalConsumer" where
  "NewJournalConsumer d env verifier i db =
    (case d of None \<Rightarrow> Inl (EdgeErr ''sspedge: invalid journal consumer'') | Some d \<Rightarrow>
     if verifier = None \<or> EdgeIdentity_validate i \<noteq> None then Inl (EdgeErr ''sspedge: invalid journal consumer'')
     else case DeliveryState d env i db of Inl e \<Rightarrow> Inl e | Inr state \<Rightarrow>
       if gs_Mode state \<noteq> DeliveryModeActive \<and> gs_Mode state \<noteq> DeliveryModeReconciliationRequired
         then Inl (EdgeErr ''sspedge: invalid persisted delivery mode'')
       else Inr \<lparr>jc_identity = i, jc_halted = (gs_Mode state = DeliveryModeReconciliationRequired)\<rparr>)"

definition apply_delivery ::
    "EdgeDB \<Rightarrow> edge_tx \<Rightarrow> verifier \<Rightarrow> JournalConsumer \<Rightarrow> JournalDelivery \<Rightarrow> time \<Rightarrow> bool \<Rightarrow> edge_db
       \<Rightarrow> (edge_error + string) \<times> edge_db" where
  "apply_delivery d env verify c delivery now reconciling db =
    (let applied = (\<lambda>verdict reason p.
           if reconciling then applyReconciled d env delivery verdict reason p now db
           else ApplyVerified d env delivery verdict reason p now db) in
     case verify delivery of
       Inl (VerificationError reason permanent err) \<Rightarrow>
         if permanent then applied VerdictRejected reason None else (Inl err, db)
     | Inl (OtherError err) \<Rightarrow> (Inl err, db)
     | Inr p \<Rightarrow>
         if \<not> routeMatches (jd_Subject delivery) (jc_identity c) p
           then applied VerdictRejected ''route_mismatch'' p
         else applied VerdictAccepted [] p)"

definition consumer_outcome :: "string \<Rightarrow> JournalConsumer \<Rightarrow> (edge_error + string) \<times> JournalConsumer" where
  "consumer_outcome outcome c =
    (if outcome = ApplyAccepted then (Inr ProcessAccepted, c)
     else if outcome = ApplyRejected then (Inr ProcessRejected, c)
     else if outcome = ApplyDuplicate then (Inr ProcessDuplicate, c)
     else if outcome = ApplyQuarantined then (Inr ProcessQuarantined, c\<lparr>jc_halted := True\<rparr>)
     else if outcome = ApplyReconciliationRequired then (Inr ProcessReconciliationRequired, c\<lparr>jc_halted := True\<rparr>)
     else if outcome = ApplyIdentityConflict then (Inr ProcessIdentityConflict, c\<lparr>jc_halted := True\<rparr>)
     else (Inl (EdgeErr ''sspedge: unknown apply outcome''), c))"

definition message_delivery :: "JournalMetadata \<Rightarrow> JournalMessage \<Rightarrow> JournalDelivery" where
  "message_delivery meta msg =
    \<lparr>jd_Stream = jm_Stream meta, jd_Sequence = jm_Sequence meta, jd_DeliverySeq = jm_DeliverySeq meta,
     jd_TenantID = jm_TenantID meta, jd_EdgeID = jm_EdgeID meta, jd_EdgeGeneration = jm_EdgeGeneration meta,
     jd_Subject = msg_JournalSubject msg, jd_Raw = msg_JournalData msg\<rparr>"

definition names_identity :: "EdgeIdentity \<Rightarrow> JournalDelivery \<Rightarrow> bool" where
  "names_identity i delivery =
    (jd_TenantID delivery = id_TenantID i \<and> jd_EdgeID delivery = id_EdgeID i
     \<and> jd_EdgeGeneration delivery = id_Generation i)"

definition Handle ::
    "EdgeDB \<Rightarrow> edge_tx \<Rightarrow> verifier \<Rightarrow> JournalMessage \<Rightarrow> time \<Rightarrow> JournalConsumer \<Rightarrow> edge_db
       \<Rightarrow> (edge_error + string) \<times> JournalConsumer \<times> edge_db" where
  "Handle d env verify msg now c db =
    (if jc_halted c then (Inl ErrConsumerHalted, c, db)
     else case msg_Metadata msg of Inl e \<Rightarrow> (Inl e, c, db) | Inr meta \<Rightarrow>
    (let delivery = message_delivery meta msg in
     if jd_DeliverySeq delivery \<le> 0
       then (Inl (EdgeErr ''sspedge: delivery sequence must be positive''), c, db)
     else if \<not> names_identity (jc_identity c) delivery then
       (case RequireReconciliation d env (jc_identity c) 0 ''delivery_identity_mismatch'' now db of
          (Inl e, db') \<Rightarrow> (Inl e, c, db')
        | (Inr _, db') \<Rightarrow> (Inr ProcessReconciliationRequired, c\<lparr>jc_halted := True\<rparr>, db'))
     else case apply_delivery d env verify c delivery now False db of
         (Inl e, db') \<Rightarrow> (Inl e, c, db')
       | (Inr outcome, db') \<Rightarrow> (case consumer_outcome outcome c of (r, c') \<Rightarrow> (r, c', db'))))"

definition retry_message :: "JournalMessage \<Rightarrow> edge_error + string" where
  "retry_message msg = (case msg_Nak msg of Some e \<Rightarrow> Inl e | None \<Rightarrow> Inr ProcessRetrying)"

definition Process ::
    "EdgeDB \<Rightarrow> edge_tx \<Rightarrow> verifier \<Rightarrow> JournalMessage \<Rightarrow> time \<Rightarrow> JournalConsumer \<Rightarrow> edge_db
       \<Rightarrow> (edge_error + string) \<times> JournalConsumer \<times> edge_db" where
  "Process d env verify msg now c db =
    (case Handle d env verify msg now c db of
       (Inl e, c', db') \<Rightarrow> (if e = ErrConsumerHalted then Inl e else retry_message msg, c', db')
     | (Inr outcome, c', db') \<Rightarrow>
         (case msg_DoubleAck msg of Some e \<Rightarrow> Inl e | None \<Rightarrow> Inr outcome, c', db'))"

section \<open>Reconciliation\<close>

fun batch_contiguous :: "EdgeIdentity \<Rightarrow> int \<Rightarrow> JournalDelivery list \<Rightarrow> bool" where
  "batch_contiguous i expected [] = True"
| "batch_contiguous i expected (delivery # rest) =
    (if \<not> names_identity i delivery \<or> jd_DeliverySeq delivery \<noteq> expected then False
     else batch_contiguous i (wrap64 (expected + 1)) rest)"

text \<open>
  The apply loop: it stops at an error or at a delivery that halts, and counts what it applied.  The
  \<open>n\<close>-th call uses the \<open>n\<close>-th transaction of \<open>envs\<close>.
\<close>

fun reconcile_deliveries ::
    "EdgeDB \<Rightarrow> (nat \<Rightarrow> edge_tx) \<Rightarrow> verifier \<Rightarrow> JournalConsumer \<Rightarrow> time \<Rightarrow> nat \<Rightarrow> JournalDelivery list \<Rightarrow> edge_db
       \<Rightarrow> (edge_error option \<times> int) \<times> edge_db" where
  "reconcile_deliveries d envs verify c now n [] db = ((None, 0), db)"
| "reconcile_deliveries d envs verify c now n (delivery # rest) db =
    (case apply_delivery d (envs n) verify c delivery now True db of
       (Inl e, db') \<Rightarrow> ((Some e, 0), db')
     | (Inr outcome, db') \<Rightarrow>
         if outcome = ApplyReconciliationRequired \<or> outcome = ApplyQuarantined \<or> outcome = ApplyIdentityConflict
           then ((Some (EdgeErr ''sspedge: reconciliation delivery halted''), 0), db')
         else case reconcile_deliveries d envs verify c now (Suc n) rest db' of
           ((e, applied), db'') \<Rightarrow> ((e, applied + 1), db''))"

definition finish_reconcile ::
    "EdgeDB \<Rightarrow> edge_tx \<Rightarrow> edge_tx \<Rightarrow> ReconcileBatch \<Rightarrow> time \<Rightarrow> ReconcileResult \<Rightarrow> JournalConsumer \<Rightarrow> edge_db
       \<Rightarrow> (ReconcileResult \<times> edge_error option) \<times> JournalConsumer \<times> edge_db" where
  "finish_reconcile d read_env env batch now result c db =
    (case DeliveryState d read_env (jc_identity c) db of Inl e \<Rightarrow> ((result, Some e), c, db) | Inr state \<Rightarrow>
     if gs_LastContiguousSeq state \<noteq> rb_CompleteThrough batch
       then ((result, Some (EdgeErr ''sspedge: reconciliation incomplete through declared boundary'')), c, db)
     else if rb_CompleteThrough batch = rb_HighWatermark batch then
       (case CompleteReconciliation d env (jc_identity c) (rb_CompleteThrough batch) (rb_HighWatermark batch) now db of
          (Inl e, db') \<Rightarrow> ((result, Some e), c, db')
        | (Inr _, db') \<Rightarrow> ((result\<lparr>rs_Resumed := True\<rparr>, None), c\<lparr>jc_halted := False\<rparr>, db'))
     else ((result, None), c, db))"

text \<open>
  \<open>envs\<close> holds what each database call of one pass meets: 0 and 1 the two reads of the state, 2 the
  completion, from 3 on the applies.  The reconciler is \<^verbatim>\<open>nil\<close> or the function it computes.
\<close>

definition Reconcile ::
    "EdgeDB \<Rightarrow> (nat \<Rightarrow> edge_tx) \<Rightarrow> verifier \<Rightarrow> (EdgeIdentity \<Rightarrow> int \<Rightarrow> edge_error + ReconcileBatch) option
       \<Rightarrow> time \<Rightarrow> JournalConsumer \<Rightarrow> edge_db \<Rightarrow> (ReconcileResult \<times> edge_error option) \<times> JournalConsumer \<times> edge_db" where
  "Reconcile d envs verify reconciler now c db =
    (if \<not> jc_halted c then ((zero_result, Some (EdgeErr ''sspedge: reconciliation not required'')), c, db)
     else case reconciler of None \<Rightarrow> ((zero_result, Some (EdgeErr ''sspedge: reconciler is required'')), c, db)
       | Some fetchAfter \<Rightarrow>
    (case DeliveryState d (envs 0) (jc_identity c) db of Inl e \<Rightarrow> ((zero_result, Some e), c, db) | Inr state \<Rightarrow>
    (case fetchAfter (jc_identity c) (gs_LastContiguousSeq state) of
       Inl e \<Rightarrow> ((zero_result, Some e), c, db)
     | Inr batch \<Rightarrow>
    (let result = zero_result\<lparr>rs_HighWatermark := rb_HighWatermark batch, rs_CompleteThrough := rb_CompleteThrough batch\<rparr> in
     if rb_HighWatermark batch < gs_HighWatermark state \<or> rb_CompleteThrough batch < gs_LastContiguousSeq state
        \<or> rb_CompleteThrough batch > rb_HighWatermark batch
       then ((result, Some (EdgeErr ''sspedge: invalid reconciliation bounds'')), c, db)
     else if int (length (rb_Deliveries batch)) \<noteq> wrap64 (rb_CompleteThrough batch - gs_LastContiguousSeq state)
       then ((result, Some (EdgeErr ''sspedge: reconciliation range does not match complete boundary'')), c, db)
     else if \<not> batch_contiguous (jc_identity c) (wrap64 (gs_LastContiguousSeq state + 1)) (rb_Deliveries batch)
       then ((result, Some (EdgeErr ''sspedge: non-contiguous reconciliation delivery'')), c, db)
     else case reconcile_deliveries d envs verify c now 3 (rb_Deliveries batch) db of
       ((Some e, applied), db') \<Rightarrow> ((result\<lparr>rs_Applied := applied\<rparr>, Some e), c, db')
     | ((None, applied), db') \<Rightarrow>
         finish_reconcile d (envs 1) (envs 2) batch now (result\<lparr>rs_Applied := applied\<rparr>) c db'))))"

section \<open>The authority reconciler\<close>

record AuthorityReconciler =
  ar_source :: "(EdgeDeliveryQuery \<Rightarrow> edge_error + EdgeDeliveryPage) option"
  ar_limit :: int

definition NewAuthorityReconciler ::
    "(EdgeDeliveryQuery \<Rightarrow> edge_error + EdgeDeliveryPage) option \<Rightarrow> int \<Rightarrow> edge_error + AuthorityReconciler" where
  "NewAuthorityReconciler source limit =
    (if source = None \<or> limit \<le> 0 \<or> limit > 1000
     then Inl (EdgeErr ''sspedge: authority reconciler requires a source and 1..1000 limit'')
     else Inr \<lparr>ar_source = source, ar_limit = limit\<rparr>)"

definition page_delivery :: "EdgeIdentity \<Rightarrow> EdgeDelivery \<Rightarrow> JournalDelivery" where
  "page_delivery i delivery =
    \<lparr>jd_Stream = [], jd_Sequence = 0, jd_DeliverySeq = ed_Sequence delivery, jd_TenantID = id_TenantID i,
     jd_EdgeID = id_EdgeID i, jd_EdgeGeneration = id_Generation i, jd_Subject = edgeDeliverySubject i,
     jd_Raw = ed_Raw delivery\<rparr>"

fun page_valid :: "int \<Rightarrow> EdgeDelivery list \<Rightarrow> bool" where
  "page_valid expected [] = True"
| "page_valid expected (delivery # rest) =
    (if ed_Sequence delivery \<noteq> expected \<or> (ed_Kind delivery \<noteq> FamilyCase \<and> ed_Kind delivery \<noteq> FamilyAdvice)
        \<or> ed_CaseID delivery = [] \<or> ed_EnvelopeID delivery = [] \<or> ed_Commitment delivery = []
        \<or> ed_AuthorityRevision delivery \<le> 0 \<or> length (ed_Raw delivery) = 0
        \<or> length (ed_Raw delivery) > MaxEnvelopeBytes
     then False
     else page_valid (wrap64 (expected + 1)) rest)"

definition FetchAfter :: "AuthorityReconciler \<Rightarrow> EdgeIdentity \<Rightarrow> int \<Rightarrow> edge_error + ReconcileBatch" where
  "FetchAfter r i after =
    (case ar_source r of None \<Rightarrow> Inl (EdgeErr ''sspedge: nil authority reconciler'') | Some list_deliveries \<Rightarrow>
    (case EdgeIdentity_validate i of Some e \<Rightarrow> Inl e | None \<Rightarrow>
     if after < 0 then Inl (EdgeErr ''sspedge: reconciliation cursor must not be negative'')
     else case list_deliveries
         \<lparr>edq_TenantID = id_TenantID i, edq_EdgeID = id_EdgeID i, edq_PrincipalID = [],
          edq_EdgeGeneration = id_Generation i, edq_AfterSequence = after, edq_Limit = ar_limit r\<rparr> of
       Inl e \<Rightarrow> Inl e
     | Inr page \<Rightarrow>
         if edp_HighWatermark page < after \<or> edp_CompleteThrough page < after
            \<or> edp_CompleteThrough page > edp_HighWatermark page
            \<or> int (length (edp_Deliveries page)) > ar_limit r
            \<or> int (length (edp_Deliveries page)) \<noteq> wrap64 (edp_CompleteThrough page - after)
           then Inl (EdgeErr ''sspedge: invalid authority reconciliation bounds'')
         else if \<not> page_valid (wrap64 (after + 1)) (edp_Deliveries page)
           then Inl (EdgeErr ''sspedge: invalid authority delivery'')
         else Inr \<lparr>rb_Deliveries = map (page_delivery i) (edp_Deliveries page),
                   rb_HighWatermark = edp_HighWatermark page, rb_CompleteThrough = edp_CompleteThrough page\<rparr>))"

section \<open>The pull consumer\<close>

text \<open>A broker message with what its methods return; \<open>jsm_Header\<close> is \<^verbatim>\<open>Headers().Values\<close>.\<close>

record js_metadata =
  jmd_Stream :: string
  jmd_StreamSequence :: nat

record js_message =
  jsm_Metadata :: "string + js_metadata option"
  jsm_Subject :: string
  jsm_Data :: bytes
  jsm_Header :: "string \<Rightarrow> string list"
  jsm_DoubleAck :: "string option"
  jsm_Nak :: "string option"

definition positiveIntHeader :: "(string \<Rightarrow> string list) \<Rightarrow> string \<Rightarrow> edge_error + int" where
  "positiveIntHeader headers name =
    (case headers name of
       [text] \<Rightarrow>
         (case ParseInt text of
            Some v \<Rightarrow> if v \<le> 0 \<or> itoa v \<noteq> text
                        then Inl (EdgeErr ''sspedge: header must be a canonical positive integer'') else Inr v
          | None \<Rightarrow> Inl (EdgeErr ''sspedge: header must be a canonical positive integer''))
     | _ \<Rightarrow> Inl (EdgeErr ''sspedge: header must appear exactly once''))"

definition positiveUintHeader :: "(string \<Rightarrow> string list) \<Rightarrow> string \<Rightarrow> edge_error + nat" where
  "positiveUintHeader headers name =
    (case headers name of
       [text] \<Rightarrow>
         (case ParseUint text of
            Some v \<Rightarrow> if v = 0 \<or> FormatUint v \<noteq> text
                        then Inl (EdgeErr ''sspedge: header must be a canonical positive integer'') else Inr v
          | None \<Rightarrow> Inl (EdgeErr ''sspedge: header must be a canonical positive integer''))
     | _ \<Rightarrow> Inl (EdgeErr ''sspedge: header must appear exactly once''))"

definition jetStream_Metadata :: "EdgeIdentity \<Rightarrow> js_message \<Rightarrow> edge_error + JournalMetadata" where
  "jetStream_Metadata i m =
    (case jsm_Metadata m of Inl e \<Rightarrow> Inl (ErrSQL e) | Inr metadata \<Rightarrow>
    (case metadata of None \<Rightarrow> Inl (EdgeErr ''sspedge: invalid JetStream delivery metadata'') | Some md \<Rightarrow>
     if jmd_Stream md \<noteq> StreamName \<or> jmd_StreamSequence md = 0 \<or> jsm_Subject m \<noteq> edgeDeliverySubject i
        \<or> length (jsm_Data m) = 0 \<or> length (jsm_Data m) > MaxEnvelopeBytes
       then Inl (EdgeErr ''sspedge: invalid JetStream delivery metadata'')
     else case jsm_Header m ''Snagline-Outbox-ID'' of
       [outboxID] \<Rightarrow>
         if outboxID = [] then Inl (EdgeErr ''sspedge: invalid outbox header'')
         else (case positiveUintHeader (jsm_Header m) ''Snagline-Fact-Sequence'' of Inl e \<Rightarrow> Inl e | Inr _ \<Rightarrow>
           (case positiveIntHeader (jsm_Header m) ''Snagline-Delivery-Sequence'' of Inl e \<Rightarrow> Inl e | Inr deliverySequence \<Rightarrow>
           (case positiveIntHeader (jsm_Header m) ''Snagline-Edge-Generation'' of Inl e \<Rightarrow> Inl e | Inr edgeGeneration \<Rightarrow>
             Inr \<lparr>jm_Stream = jmd_Stream md, jm_Sequence = jmd_StreamSequence md, jm_DeliverySeq = deliverySequence,
                  jm_TenantID = id_TenantID i, jm_EdgeID = id_EdgeID i, jm_EdgeGeneration = edgeGeneration\<rparr>)))
     | _ \<Rightarrow> Inl (EdgeErr ''sspedge: invalid outbox header'')))"

definition jetStreamJournalMessage :: "EdgeIdentity \<Rightarrow> js_message \<Rightarrow> JournalMessage" where
  "jetStreamJournalMessage i m =
    \<lparr>msg_Metadata = jetStream_Metadata i m, msg_JournalSubject = jsm_Subject m, msg_JournalData = jsm_Data m,
     msg_DoubleAck = map_option ErrSQL (jsm_DoubleAck m), msg_Nak = map_option ErrSQL (jsm_Nak m)\<rparr>"

definition defaultJetStreamFetchWait :: int where
  "defaultJetStreamFetchWait = 5 * 1000000000"

definition maxJetStreamFetchWait :: int where
  "maxJetStreamFetchWait = 30 * 1000000000"

definition ErrNoJournalMessage :: edge_error where
  "ErrNoJournalMessage = EdgeErr ''sspedge: no journal message available''"

record JetStreamPullConsumer =
  jp_identity :: EdgeIdentity
  jp_spec :: ConsumerSpec
  jp_fetchWait :: int

text \<open>
  The broker: creating or updating a durable, and opening it by stream and name, each with the error it
  may return.
\<close>

record js_client =
  js_CreateOrUpdate :: "string \<Rightarrow> jetstream_ConsumerConfig \<Rightarrow> string option"
  js_Consumer :: "string \<Rightarrow> string \<Rightarrow> string option"

definition stream_failure :: "stream_error \<Rightarrow> edge_error" where
  "stream_failure e = (case e of ErrBroker m \<Rightarrow> ErrSQL m | _ \<Rightarrow> EdgeErr ''deliverystream'')"

definition NewJetStreamPullConsumer ::
    "js_client option \<Rightarrow> ConsumerRequest \<Rightarrow> JournalConsumer option \<Rightarrow> int \<Rightarrow> edge_error + JetStreamPullConsumer" where
  "NewJetStreamPullConsumer js request handler wait =
    (case (js, handler) of
       (Some js, Some c) \<Rightarrow>
      (case EdgeIdentity_validate (jc_identity c) of Some e \<Rightarrow> Inl e | None \<Rightarrow>
       let i = jc_identity c in
       if cq_Destination request \<noteq> DestinationEdge \<or> int (cq_EdgeGeneration request) > max_int64
          \<or> cq_TenantID request \<noteq> id_TenantID i \<or> cq_EdgeID request \<noteq> id_EdgeID i
          \<or> int (cq_EdgeGeneration request) \<noteq> id_Generation i
         then Inl (EdgeErr ''sspedge: JetStream consumer identity does not match journal handler'')
       else let fetchWait = (if wait = 0 then defaultJetStreamFetchWait else wait) in
       if fetchWait < 0 \<or> fetchWait > maxJetStreamFetchWait
         then Inl (EdgeErr ''sspedge: JetStream fetch wait must be at most 30 seconds'')
       else case EnsureConsumer (Some (js_CreateOrUpdate js)) request of
         Inl e \<Rightarrow> Inl (stream_failure e)
       | Inr spec \<Rightarrow>
           if cs_Stream spec \<noteq> StreamName \<or> cs_FilterSubject spec \<noteq> edgeDeliverySubject i
             then Inl (EdgeErr ''sspedge: ensured JetStream consumer does not match edge delivery route'')
           else case js_Consumer js (cs_Stream spec) (cs_Durable spec) of
             Some e \<Rightarrow> Inl (ErrSQL e)
           | None \<Rightarrow> Inr \<lparr>jp_identity = i, jp_spec = spec, jp_fetchWait = fetchWait\<rparr>)
     | _ \<Rightarrow> Inl (EdgeErr ''sspedge: JetStream and journal handler are required''))"

text \<open>
  What one fetch gives: a timeout, another error, a message, or a batch that closes without one, which is
  then an error of the batch unless it has none or a timeout.
\<close>

datatype fetch_result =
    FetchTimeout
  | FetchFailed string
  | FetchEmpty "string option"
  | Fetched js_message

definition HandleNext ::
    "EdgeDB \<Rightarrow> edge_tx \<Rightarrow> verifier \<Rightarrow> JetStreamPullConsumer \<Rightarrow> fetch_result \<Rightarrow> time \<Rightarrow> JournalConsumer \<Rightarrow> edge_db
       \<Rightarrow> (edge_error + string) \<times> JournalConsumer \<times> edge_db" where
  "HandleNext d env verify pull fetch now c db =
    (if jc_halted c then (Inl ErrConsumerHalted, c, db)
     else case fetch of
       FetchTimeout \<Rightarrow> (Inl ErrNoJournalMessage, c, db)
     | FetchFailed e \<Rightarrow> (Inl (ErrSQL e), c, db)
     | FetchEmpty (Some e) \<Rightarrow> (Inl (ErrSQL e), c, db)
     | FetchEmpty None \<Rightarrow> (Inl ErrNoJournalMessage, c, db)
     | Fetched m \<Rightarrow>
         (case Handle d env verify (jetStreamJournalMessage (jp_identity pull) m) now c db of
            (Inl e, c', db') \<Rightarrow>
              (if jsm_Nak m \<noteq> None then Inl (EdgeErr ''sspedge: handle delivery: NAK failed'')
               else if e = ErrConsumerHalted then Inl e else Inr ProcessRetrying, c', db')
          | (Inr outcome, c', db') \<Rightarrow>
              (if jsm_DoubleAck m \<noteq> None then Inl (EdgeErr ''sspedge: DoubleAck committed delivery'')
               else Inr outcome, c', db')))"

section \<open>Authoritative reconciliation at start and at intervals\<close>

text \<open>
  \<^verbatim>\<open>cmd/snagline-edge/runtime.go\<close>.  The loop of \<^verbatim>\<open>reconcileAuthoritativeEdge\<close>, with what its \<open>n\<close>-th round
  meets as \<open>rounds n\<close>: the transactions of its two reads, those of the pass, the verifier and the
  authority's page function.  \<^const>\<open>None\<close> is a loop still running after \<open>fuel\<close> rounds.
\<close>

record reconcile_round =
  ro_before :: edge_tx
  ro_after :: edge_tx
  ro_pass :: "nat \<Rightarrow> edge_tx"
  ro_verify :: verifier
  ro_fetch :: "EdgeIdentity \<Rightarrow> int \<Rightarrow> edge_error + ReconcileBatch"

fun reconcile_loop ::
    "nat \<Rightarrow> EdgeDB \<Rightarrow> (nat \<Rightarrow> reconcile_round) \<Rightarrow> nat \<Rightarrow> time \<Rightarrow> JournalConsumer \<Rightarrow> edge_db
       \<Rightarrow> (edge_error option \<times> edge_db) option" where
  "reconcile_loop fuel d rounds n now c db =
    (if \<not> jc_halted c then Some (None, db)
     else case fuel of 0 \<Rightarrow> None | Suc fuel' \<Rightarrow>
    (case DeliveryState d (ro_before (rounds n)) (jc_identity c) db of Inl e \<Rightarrow> Some (Some e, db) | Inr before \<Rightarrow>
    (case Reconcile d (ro_pass (rounds n)) (ro_verify (rounds n)) (Some (ro_fetch (rounds n))) now c db of
       ((result, Some e), c', db') \<Rightarrow> Some (Some e, db')
     | ((result, None), c', db') \<Rightarrow>
         if rs_Resumed result then Some (None, db')
         else case DeliveryState d (ro_after (rounds n)) (jc_identity c) db' of Inl e \<Rightarrow> Some (Some e, db') | Inr after \<Rightarrow>
           if gs_LastContiguousSeq after \<le> gs_LastContiguousSeq before
             then Some (Some (EdgeErr ''authority reconciliation made no durable progress''), db')
           else reconcile_loop fuel' d rounds (Suc n) now c' db')))"

declare reconcile_loop.simps [simp del]

text \<open>\<^verbatim>\<open>reconcileEdge\<close>, the repair of a live consumer that has halted, with no guard on progress.\<close>

fun reconcileEdge ::
    "nat \<Rightarrow> EdgeDB \<Rightarrow> (nat \<Rightarrow> reconcile_round) \<Rightarrow> (nat \<Rightarrow> time) \<Rightarrow> nat \<Rightarrow> JournalConsumer \<Rightarrow> edge_db
       \<Rightarrow> (edge_error option \<times> JournalConsumer \<times> edge_db) option" where
  "reconcileEdge fuel d rounds now n c db =
    (if \<not> jc_halted c then Some (None, c, db)
     else case fuel of 0 \<Rightarrow> None | Suc fuel' \<Rightarrow>
    (case Reconcile d (ro_pass (rounds n)) (ro_verify (rounds n)) (Some (ro_fetch (rounds n))) (now n) c db of
       ((result, Some e), c', db') \<Rightarrow> Some (Some e, c', db')
     | ((result, None), c', db') \<Rightarrow> reconcileEdge fuel' d rounds now (Suc n) c' db'))"

declare reconcileEdge.simps [simp del]

definition reconcileAuthoritativeEdge ::
    "nat \<Rightarrow> EdgeDB \<Rightarrow> edge_tx \<Rightarrow> edge_tx \<Rightarrow> edge_tx \<Rightarrow> (nat \<Rightarrow> reconcile_round) \<Rightarrow> EdgeIdentity \<Rightarrow> time \<Rightarrow> edge_db
       \<Rightarrow> (edge_error option \<times> edge_db) option" where
  "reconcileAuthoritativeEdge fuel d read_env require_env new_env rounds i now db =
    (if now = zero_time then Some (Some (EdgeErr ''invalid authority reconciliation dependencies''), db)
     else case DeliveryState d read_env i db of Inl e \<Rightarrow> Some (Some e, db) | Inr state \<Rightarrow>
    (case RequireReconciliation d require_env i (gs_HighWatermark state) ''authoritative_reconciliation'' now db of
       (Inl e, db') \<Rightarrow> Some (Some e, db')
     | (Inr _, db') \<Rightarrow>
         (case NewJournalConsumer (Some d) new_env (Some (ro_verify (rounds 0))) i db' of
            Inl e \<Rightarrow> Some (Some e, db')
          | Inr c \<Rightarrow> reconcile_loop fuel d rounds 0 now c db')))"

definition edgeAuthorityReadReady ::
    "EdgeDB \<Rightarrow> edge_tx \<Rightarrow> EdgeIdentity \<Rightarrow> (EdgeIdentity \<Rightarrow> int \<Rightarrow> edge_error + ReconcileBatch) \<Rightarrow> edge_db
       \<Rightarrow> edge_error option" where
  "edgeAuthorityReadReady d env i fetchAfter db =
    (case DeliveryState d env i db of
       Inl e \<Rightarrow> Some (EdgeErr ''edge delivery state unavailable'')
     | Inr state \<Rightarrow>
         if gs_Mode state \<noteq> DeliveryModeActive then Some (EdgeErr ''edge delivery state unavailable'')
         else case fetchAfter i (gs_LastContiguousSeq state) of
           Inl e \<Rightarrow> Some (EdgeErr ''edge authoritative read unavailable'')
         | Inr _ \<Rightarrow> None)"

end
