(* ===== verification/Edge_Service.thy ===== *)
theory Edge_Service
  imports Ssp_Verify Edge_Spool
begin

text \<open>
  \<^verbatim>\<open>internal/edge/service.go\<close>: opening a support case at the edge and finalising an advice at the
  dispatcher.  Both sign once, keep the signed bytes in the encrypted spool, and submit those bytes.  The
  gateway's answer in a call is a function of the submitted workload and bytes; each call to the store has
  its own transaction environment, by position; the clock and the identifier generator are read once per
  place.  Values are not nil.
\<close>

section \<open>Types and errors\<close>

definition ErrNotFound :: edge_error where
  "ErrNotFound = EdgeErr ''edge: not found''"

definition ErrNotCommitted :: edge_error where
  "ErrNotCommitted = EdgeErr ''edge: case is not committed''"

definition ErrAlreadyPending :: edge_error where
  "ErrAlreadyPending = EdgeErr ''edge: case already has a pending submission''"

definition ErrPendingAdviceConflict :: edge_error where
  "ErrPendingAdviceConflict = EdgeErr ''edge: pending advice conflicts with finalization request''"

record RegistryCoordinates =
  rc_RoutingEpoch :: int
  rc_Revision :: int
  rc_Hash :: string

record OpenCaseRequest =
  oc_CaseID :: string
  oc_Domain :: string
  oc_Summary :: string
  oc_PublicSummary :: string
  oc_ContextManifest :: string
  oc_Registry :: RegistryCoordinates

record edge_CaseRecord =
  ecr_EnvelopeID :: string
  ecr_CaseID :: string
  ecr_Commitment :: string
  ecr_Summary :: string
  ecr_Registry :: RegistryCoordinates
  ecr_ExpiresAt :: time
  ecr_Committed :: bool

record edge_WorkloadIdentity =
  ew_PrincipalID :: string
  ew_EdgeID :: string
  ew_EdgeGeneration :: int

type_synonym gateway = "edge_WorkloadIdentity \<Rightarrow> bytes \<Rightarrow> edge_error + CommitReceipt"

record edge_Service =
  es_edgeID :: string
  es_edgeGeneration :: int
  es_principalID :: string
  es_authorKeyID :: string
  es_signer :: bytes
  es_store :: EdgeDB
  es_ttl :: int

record Finalizer =
  fz_principalID :: string
  fz_authorKeyID :: string
  fz_signer :: bytes
  fz_store :: EdgeDB
  fz_ttl :: int

text \<open>What one call meets.\<close>

record service_env =
  se_tx :: "nat \<Rightarrow> edge_tx"
  se_clock :: "nat \<Rightarrow> time"
  se_newID :: "edge_error + string"
  se_gateway :: gateway

record Submission =
  sb_EnvelopeID :: string
  sb_CaseID :: string
  sb_Commitment :: string
  sb_AcceptedRemote :: bool
  sb_Receipt :: CommitReceipt

definition zero_submission :: Submission where
  "zero_submission =
    \<lparr>sb_EnvelopeID = [], sb_CaseID = [], sb_Commitment = [], sb_AcceptedRemote = False, sb_Receipt = zero_receipt\<rparr>"

definition NewService ::
    "string \<Rightarrow> int \<Rightarrow> string \<Rightarrow> string \<Rightarrow> bytes \<Rightarrow> EdgeDB \<Rightarrow> int \<Rightarrow> edge_error + edge_Service" where
  "NewService edgeID generation principalID authorKeyID signer store ttl =
    (if edgeID = [] \<or> generation \<le> 0 \<or> principalID = [] \<or> authorKeyID = []
       then Inl (EdgeErr ''edge: edge identity, signer, store, gateway, and ID generator are required'')
     else if ttl \<le> 0 then Inl (EdgeErr ''edge: envelope TTL must be positive'')
     else Inr \<lparr>es_edgeID = edgeID, es_edgeGeneration = generation, es_principalID = principalID,
               es_authorKeyID = authorKeyID, es_signer = signer, es_store = store, es_ttl = ttl\<rparr>)"

definition NewFinalizer :: "string \<Rightarrow> string \<Rightarrow> bytes \<Rightarrow> EdgeDB \<Rightarrow> int \<Rightarrow> edge_error + Finalizer" where
  "NewFinalizer principalID authorKeyID signer store ttl =
    (if principalID = [] \<or> authorKeyID = [] \<or> ttl \<le> 0
       then Inl (EdgeErr ''edge: dispatcher identity, signer, cases, advice spool, gateway, positive TTL, and ID generator are required'')
     else Inr \<lparr>fz_principalID = principalID, fz_authorKeyID = authorKeyID, fz_signer = signer, fz_store = store,
               fz_ttl = ttl\<rparr>)"

definition NewCaseSigner :: "bytes \<Rightarrow> edge_error + bytes" where
  "NewCaseSigner key = (if key = [] then Inl (EdgeErr ''edge: case signing key is required'') else Inr key)"

definition SignCase :: "ssp_crypto \<Rightarrow> bytes \<Rightarrow> Envelope \<Rightarrow> time \<Rightarrow> edge_error + bytes" where
  "SignCase cr key envelope now =
    (if en_Schema envelope \<noteq> Family_Case then Inl (EdgeErr ''edge: case signer only signs ssp.case.v1'')
     else (case Sign cr envelope key now of Inl e \<Rightarrow> Inl (EdgeErr ''edge: sign case'') | Inr raw \<Rightarrow> Inr raw))"

definition NewAdviceSigner :: "bytes \<Rightarrow> edge_error + bytes" where
  "NewAdviceSigner key = (if key = [] then Inl (EdgeErr ''edge: advice signing key is required'') else Inr key)"

definition SignAdvice :: "ssp_crypto \<Rightarrow> bytes \<Rightarrow> Envelope \<Rightarrow> time \<Rightarrow> edge_error + bytes" where
  "SignAdvice cr key envelope now =
    (if en_Schema envelope \<noteq> Family_Advice then Inl (EdgeErr ''edge: advice signer only signs ssp.advice.v1'')
     else (case Sign cr envelope key now of Inl e \<Rightarrow> Inl (EdgeErr ''edge: sign advice'') | Inr raw \<Rightarrow> Inr raw))"

section \<open>Validation and encoding\<close>

definition valid_text :: "string \<Rightarrow> nat \<Rightarrow> bool" where
  "valid_text v maximum = (utf8_valid v \<and> rune_count v \<ge> 1 \<and> rune_count v \<le> maximum)"

definition valid_opaque :: "string \<Rightarrow> bool" where
  "valid_opaque v = (utf8_valid v \<and> rune_count v \<ge> 1 \<and> rune_count v \<le> 512)"

definition validateOpenCaseRequest :: "OpenCaseRequest \<Rightarrow> edge_error option" where
  "validateOpenCaseRequest r =
    (if \<not> valid_opaque (oc_CaseID r) \<or> \<not> valid_opaque (oc_Domain r)
       then Some (EdgeErr ''edge: case ID and domain must be bounded opaque identifiers'')
     else if \<not> valid_text (oc_Summary r) 4096
       then Some (EdgeErr ''edge: case summary must contain 1..4096 UTF-8 code points'')
     else if \<not> valid_text (oc_PublicSummary r) 1024
       then Some (EdgeErr ''edge: public case summary must contain 1..1024 UTF-8 code points'')
     else if \<not> sha256HexPattern (oc_ContextManifest r) \<or> \<not> sha256HexPattern (rc_Hash (oc_Registry r))
             \<or> rc_RoutingEpoch (oc_Registry r) < 0 \<or> rc_Revision (oc_Registry r) < 0
       then Some (EdgeErr ''edge: case registry coordinates or context manifest are invalid'')
     else None)"

record FinalizeAdviceRequest =
  fa_CaseID :: string
  fa_CaseCommitment :: string
  fa_Text :: string
  fa_PublicSummary :: string

definition validateFinalizeAdviceRequest :: "FinalizeAdviceRequest \<Rightarrow> edge_error option" where
  "validateFinalizeAdviceRequest r =
    (if \<not> valid_opaque (fa_CaseID r) \<or> \<not> sha256HexPattern (fa_CaseCommitment r) \<or> \<not> valid_text (fa_Text r) 8192
        \<or> \<not> valid_text (fa_PublicSummary r) 1024
     then Some (EdgeErr ''edge: advice request is invalid'') else None)"

text \<open>\<^verbatim>\<open>now.Format(time.RFC3339)\<close>, which drops the fraction of a second.\<close>

definition rfc3339 :: "time \<Rightarrow> string" where
  "rfc3339 t = sqlTime (t - t mod 1000000000)"

definition case_body_text :: "edge_Service \<Rightarrow> OpenCaseRequest \<Rightarrow> bytes" where
  "case_body_text s r =
    ''{'' @ join_comma
      [json_member ''domain'' (json_string (oc_Domain r)), json_member ''issuer_edge_id'' (json_string (es_edgeID s)),
       json_member ''issuer_edge_generation'' (itoa (es_edgeGeneration s)),
       json_member ''summary'' (json_string (oc_Summary r)),
       json_member ''public_summary'' (json_string (oc_PublicSummary r)),
       json_member ''context_manifest'' (json_string (oc_ContextManifest r))] @ ''}''"

definition advice_body_text :: "FinalizeAdviceRequest \<Rightarrow> bytes" where
  "advice_body_text r =
    ''{'' @ join_comma
      [json_member ''case_commitment'' (json_string (fa_CaseCommitment r)),
       json_member ''text'' (json_string (fa_Text r)),
       json_member ''public_summary'' (json_string (fa_PublicSummary r))] @ ''}''"

section \<open>Cases\<close>

definition submitPending ::
    "edge_Service \<Rightarrow> service_env \<Rightarrow> PendingCase \<Rightarrow> edge_db \<Rightarrow> (Submission \<times> edge_error option) \<times> edge_db" where
  "submitPending s env p db =
    (let result = zero_submission\<lparr>sb_EnvelopeID := pdc_EnvelopeID p, sb_CaseID := pdc_CaseID p,
                                  sb_Commitment := pdc_Commitment p\<rparr> in
     case se_gateway env \<lparr>ew_PrincipalID = es_principalID s, ew_EdgeID = es_edgeID s,
                          ew_EdgeGeneration = es_edgeGeneration s\<rparr> (pdc_Raw p) of
       Inl e \<Rightarrow> ((result, Some e), db)
     | Inr rcpt \<Rightarrow>
         if rcpt_EnvelopeID rcpt \<noteq> pdc_EnvelopeID p
           then ((result, Some (EdgeErr ''edge: authority accepted different envelope'')), db)
         else if rcpt_Commitment rcpt \<noteq> pdc_Commitment p
           then ((result, Some (EdgeErr ''edge: authority accepted different commitment'')), db)
         else if rcpt_AuthorityID rcpt = [] \<or> rcpt_Revision rcpt \<le> 0
           then ((result, Some (EdgeErr ''edge: gateway returned incomplete commit receipt'')), db)
         else (case MarkCaseAcceptedRemote (es_store s) (se_tx env 2)
                 \<lparr>arc_EnvelopeID = pdc_EnvelopeID p, arc_CaseID = pdc_CaseID p, arc_Commitment = pdc_Commitment p,
                  arc_Receipt = rcpt, arc_AcceptedAt = se_clock env 1\<rparr> db of
             (Inl e, db') \<Rightarrow> ((result, Some e), db')
           | (Inr _, db') \<Rightarrow> ((result\<lparr>sb_AcceptedRemote := True, sb_Receipt := rcpt\<rparr>, None), db')))"

definition case_envelope :: "edge_Service \<Rightarrow> OpenCaseRequest \<Rightarrow> string \<Rightarrow> time \<Rightarrow> Envelope" where
  "case_envelope s r envelopeID now =
    \<lparr>en_Schema = Family_Case, en_ID = envelopeID, en_CaseID = oc_CaseID r, en_EmittedAt = rfc3339 now,
     en_ExpiresAt = rfc3339 (now + es_ttl s), en_RoutingEpoch = rc_RoutingEpoch (oc_Registry r),
     en_RegistryRevision = rc_Revision (oc_Registry r), en_RegistryHash = rc_Hash (oc_Registry r),
     en_AuthorKeyID = es_authorKeyID s, en_SignatureAlg = ''ed25519'', en_Body = case_body_text s r, en_Signature = []\<rparr>"

definition OpenCase ::
    "ssp_crypto \<Rightarrow> edge_Service \<Rightarrow> service_env \<Rightarrow> OpenCaseRequest \<Rightarrow> edge_db
       \<Rightarrow> (Submission \<times> edge_error option) \<times> edge_db" where
  "OpenCase cr s env r db =
    (case validateOpenCaseRequest r of Some e \<Rightarrow> ((zero_submission, Some e), db) | None \<Rightarrow>
    (case LoadPendingCase (es_store s) (se_tx env 0) (oc_CaseID r) db of
       Inl e \<Rightarrow> ((zero_submission, Some e), db)
     | Inr (Some _) \<Rightarrow> ((zero_submission, Some ErrAlreadyPending), db)
     | Inr None \<Rightarrow>
    (let now = se_clock env 0 in
     case se_newID env of Inl e \<Rightarrow> ((zero_submission, Some e), db) | Inr envelopeID \<Rightarrow>
    (case SignCase cr (es_signer s) (case_envelope s r envelopeID now) now of
       Inl e \<Rightarrow> ((zero_submission, Some e), db)
     | Inr raw \<Rightarrow>
    (case EnvelopeCommitment cr raw now of
       Inl e \<Rightarrow> ((zero_submission, Some (EdgeErr ''edge: commit signed case'')), db)
     | Inr commitment \<Rightarrow>
    (let pending = \<lparr>pdc_EnvelopeID = envelopeID, pdc_CaseID = oc_CaseID r, pdc_Commitment = commitment, pdc_Raw = raw,
                    pdc_CreatedAt = now\<rparr> in
     case SavePendingCase (es_store s) (se_tx env 1) pending db of
       (Inl e, db') \<Rightarrow> ((zero_submission, Some e), db')
     | (Inr _, db') \<Rightarrow> submitPending s env pending db'))))))"

definition RetryCase ::
    "edge_Service \<Rightarrow> service_env \<Rightarrow> string \<Rightarrow> edge_db \<Rightarrow> (Submission \<times> edge_error option) \<times> edge_db" where
  "RetryCase s env caseID db =
    (case LoadPendingCase (es_store s) (se_tx env 0) caseID db of
       Inl e \<Rightarrow> ((zero_submission, Some e), db)
     | Inr None \<Rightarrow> ((zero_submission, Some ErrNotFound), db)
     | Inr (Some pending) \<Rightarrow> submitPending s env pending db)"

definition service_PresentAdvice :: "edge_Service \<Rightarrow> edge_tx \<Rightarrow> string \<Rightarrow> edge_db \<Rightarrow> edge_error + AdviceView" where
  "service_PresentAdvice s env adviceID db =
    (case PresentAdvice (es_store s) env adviceID db of
       Inl e \<Rightarrow> Inl e | Inr None \<Rightarrow> Inl ErrNotFound | Inr (Some a) \<Rightarrow> Inr a)"

section \<open>Reading a case\<close>

text \<open>
  \<^verbatim>\<open>DB.GetCase\<close> of \<^verbatim>\<open>internal/sspedge/edge_case_store.go\<close>: the decrypted payload is one JSON object without
  unknown members.
\<close>

definition decodeCasePayload :: "bytes \<Rightarrow> edge_error + string \<times> string" where
  "decodeCasePayload raw =
    (case Option.bind (decode_value raw) (\<lambda>(v, r). Option.bind (struct_members v) (\<lambda>ms. Some (ms, r))) of
       None \<Rightarrow> Inl (EdgeErr ''sspedge: decode case payload'')
     | Some (ms, r) \<Rightarrow>
         if \<not> list_all (\<lambda>m. names_field ''summary'' (fst m) \<or> names_field ''context_manifest'' (fst m)) ms
           then Inl (EdgeErr ''sspedge: decode case payload'')
         else (case (string_field ''summary'' ms, string_field ''context_manifest'' ms) of
             (Some summary, Some manifest) \<Rightarrow>
               if skip_ws r \<noteq> [] then Inl (EdgeErr ''sspedge: case payload must contain exactly one value'')
               else Inr (summary, manifest)
           | _ \<Rightarrow> Inl (EdgeErr ''sspedge: decode case payload'')))"

definition GetCase :: "EdgeDB \<Rightarrow> edge_tx \<Rightarrow> string \<Rightarrow> edge_db \<Rightarrow> edge_error + edge_CaseRecord option" where
  "GetCase d env caseID db =
    (if closed_store d then Inl nil_edge_store
     else if blank caseID then Inl (EdgeErr ''sspedge: case ID is required'')
     else (case tx_fault env of Some m \<Rightarrow> Inl (ErrSQL m) | None \<Rightarrow>
     (case find (\<lambda>c. ec_case_id c = caseID \<and> ec_state c = ''accepted'') (ssp_edge_cases db) of
        None \<Rightarrow> Inr None
      | Some c \<Rightarrow>
     (case open_field d ''ssp_edge_cases'' caseID (ec_payload_ciphertext c) of Inl e \<Rightarrow> Inl e | Inr plain \<Rightarrow>
     (case decodeCasePayload plain of Inl e \<Rightarrow> Inl e | Inr (summary, _) \<Rightarrow>
     (case stored_time (ec_expires_at c) of Inl e \<Rightarrow> Inl e | Inr expiresAt \<Rightarrow>
        Inr (Some \<lparr>ecr_EnvelopeID = ec_envelope_id c, ecr_CaseID = caseID, ecr_Commitment = ec_commitment c,
                   ecr_Summary = summary,
                   ecr_Registry = \<lparr>rc_RoutingEpoch = ec_routing_epoch c, rc_Revision = ec_registry_revision c,
                                   rc_Hash = ec_registry_hash c\<rparr>,
                   ecr_ExpiresAt = expiresAt, ecr_Committed = True\<rparr>)))))))"

definition service_GetCase :: "edge_Service \<Rightarrow> edge_tx \<Rightarrow> string \<Rightarrow> edge_db \<Rightarrow> edge_error + edge_CaseRecord" where
  "service_GetCase s env caseID db =
    (case GetCase (es_store s) env caseID db of
       Inl e \<Rightarrow> Inl e | Inr None \<Rightarrow> Inl ErrNotFound | Inr (Some c) \<Rightarrow> Inr c)"

section \<open>Advice\<close>

definition submitPendingAdvice ::
    "Finalizer \<Rightarrow> service_env \<Rightarrow> PendingAdvice \<Rightarrow> edge_db \<Rightarrow> (Submission \<times> edge_error option) \<times> edge_db" where
  "submitPendingAdvice f env p db =
    (let result = zero_submission\<lparr>sb_EnvelopeID := pda_AdviceID p, sb_CaseID := pda_CaseID p,
                                  sb_Commitment := pda_Commitment p\<rparr> in
     case se_gateway env \<lparr>ew_PrincipalID = fz_principalID f, ew_EdgeID = [], ew_EdgeGeneration = 0\<rparr> (pda_Raw p) of
       Inl e \<Rightarrow> ((result, Some e), db)
     | Inr rcpt \<Rightarrow>
         if rcpt_EnvelopeID rcpt \<noteq> pda_AdviceID p \<or> rcpt_Commitment rcpt \<noteq> pda_Commitment p
            \<or> rcpt_AuthorityID rcpt = [] \<or> rcpt_Revision rcpt \<le> 0
           then ((result, Some (EdgeErr ''edge: gateway returned mismatched or incomplete commit receipt'')), db)
         else (case MarkAdviceAcceptedRemote (fz_store f) (se_tx env 2)
                 \<lparr>ara_AdviceID = pda_AdviceID p, ara_CaseID = pda_CaseID p, ara_Commitment = pda_Commitment p,
                  ara_Receipt = rcpt, ara_AcceptedAt = se_clock env 1\<rparr> db of
             (Inl e, db') \<Rightarrow> ((result, Some e), db')
           | (Inr _, db') \<Rightarrow> ((result\<lparr>sb_AcceptedRemote := True, sb_Receipt := rcpt\<rparr>, None), db')))"

definition pendingAdviceMatchesRequest ::
    "ssp_crypto \<Rightarrow> bytes \<Rightarrow> FinalizeAdviceRequest \<Rightarrow> time \<Rightarrow> edge_error + bool" where
  "pendingAdviceMatchesRequest cr raw r now =
    (case EnvelopeCommitment cr raw now of Inl e \<Rightarrow> Inl (EdgeErr ''edge: decode pending advice'') | Inr _ \<Rightarrow>
    (case envelope_fields raw of None \<Rightarrow> Inl (EdgeErr ''edge: decode pending advice'') | Some (schema, caseID, body) \<Rightarrow>
     if schema \<noteq> Family_Advice then Inl (EdgeErr ''stored envelope is not advice'')
     else (case Option.bind (unmarshal body) struct_members of
         None \<Rightarrow> Inl (EdgeErr ''edge: decode pending advice'')
       | Some ms \<Rightarrow>
           (case (string_field ''case_commitment'' ms, string_field ''text'' ms, string_field ''public_summary'' ms) of
              (Some commitment, Some adviceText, Some publicSummary) \<Rightarrow>
                Inr (caseID = fa_CaseID r \<and> commitment = fa_CaseCommitment r \<and> adviceText = fa_Text r
                     \<and> publicSummary = fa_PublicSummary r)
            | _ \<Rightarrow> Inl (EdgeErr ''edge: decode pending advice'')))))"

definition advice_envelope ::
    "Finalizer \<Rightarrow> FinalizeAdviceRequest \<Rightarrow> edge_CaseRecord \<Rightarrow> string \<Rightarrow> time \<Rightarrow> time \<Rightarrow> Envelope" where
  "advice_envelope f r c adviceID now expires =
    \<lparr>en_Schema = Family_Advice, en_ID = adviceID, en_CaseID = ecr_CaseID c, en_EmittedAt = rfc3339 now,
     en_ExpiresAt = rfc3339 expires, en_RoutingEpoch = rc_RoutingEpoch (ecr_Registry c),
     en_RegistryRevision = rc_Revision (ecr_Registry c), en_RegistryHash = rc_Hash (ecr_Registry c),
     en_AuthorKeyID = fz_authorKeyID f, en_SignatureAlg = ''ed25519'', en_Body = advice_body_text r, en_Signature = []\<rparr>"

text \<open>The part of \<^verbatim>\<open>FinalizeAdvice\<close> after the case was read: expiry, signing, spooling, submission.\<close>

definition finalize_case ::
    "ssp_crypto \<Rightarrow> Finalizer \<Rightarrow> service_env \<Rightarrow> FinalizeAdviceRequest \<Rightarrow> edge_CaseRecord \<Rightarrow> edge_db
       \<Rightarrow> (Submission \<times> edge_error option) \<times> edge_db" where
  "finalize_case cr f env r c db =
    (let now = se_clock env 0; expires = min (now + fz_ttl f) (ecr_ExpiresAt c) in
     if \<not> expires > now then ((zero_submission, Some ErrNotCommitted), db)
     else (case se_newID env of Inl e \<Rightarrow> ((zero_submission, Some e), db) | Inr adviceID \<Rightarrow>
     (case SignAdvice cr (fz_signer f) (advice_envelope f r c adviceID now expires) now of
        Inl e \<Rightarrow> ((zero_submission, Some e), db)
      | Inr raw \<Rightarrow>
     (case EnvelopeCommitment cr raw now of
        Inl e \<Rightarrow> ((zero_submission, Some (EdgeErr ''edge: commit signed advice'')), db)
      | Inr commitment \<Rightarrow>
     (let pending = \<lparr>pda_AdviceID = adviceID, pda_CaseID = ecr_CaseID c, pda_CaseCommitment = fa_CaseCommitment r,
                     pda_Commitment = commitment, pda_Raw = raw, pda_CreatedAt = now\<rparr> in
      case SavePendingAdvice (fz_store f) (se_tx env 1) pending db of
        (Inl e, db') \<Rightarrow> ((zero_submission, Some e), db')
      | (Inr _, db') \<Rightarrow> submitPendingAdvice f env pending db')))))"

definition FinalizeAdvice ::
    "ssp_crypto \<Rightarrow> Finalizer \<Rightarrow> service_env \<Rightarrow> (string \<Rightarrow> edge_error + edge_CaseRecord option) \<Rightarrow> FinalizeAdviceRequest
       \<Rightarrow> edge_db \<Rightarrow> (Submission \<times> edge_error option) \<times> edge_db" where
  "FinalizeAdvice cr f env getCase r db =
    (case validateFinalizeAdviceRequest r of Some e \<Rightarrow> ((zero_submission, Some e), db) | None \<Rightarrow>
    (case LoadPendingAdvice (fz_store f) (se_tx env 0) (fa_CaseID r) db of
       Inl e \<Rightarrow> ((zero_submission, Some e), db)
     | Inr (Some pending) \<Rightarrow>
         (case pendingAdviceMatchesRequest cr (pda_Raw pending) r (se_clock env 2) of
            Inl e \<Rightarrow> ((zero_submission, Some e), db)
          | Inr m \<Rightarrow> ((zero_submission, Some (if m then ErrAlreadyPending else ErrPendingAdviceConflict)), db))
     | Inr None \<Rightarrow>
         (case getCase (fa_CaseID r) of
            Inl e \<Rightarrow> ((zero_submission, Some e), db)
          | Inr None \<Rightarrow> ((zero_submission, Some ErrNotFound), db)
          | Inr (Some c) \<Rightarrow>
              if \<not> ecr_Committed c \<or> ecr_Commitment c \<noteq> fa_CaseCommitment r
                then ((zero_submission, Some ErrNotCommitted), db)
              else finalize_case cr f env r c db)))"

definition RetryAdvice ::
    "Finalizer \<Rightarrow> service_env \<Rightarrow> string \<Rightarrow> edge_db \<Rightarrow> (Submission \<times> edge_error option) \<times> edge_db" where
  "RetryAdvice f env caseID db =
    (case LoadPendingAdvice (fz_store f) (se_tx env 0) caseID db of
       Inl e \<Rightarrow> ((zero_submission, Some e), db)
     | Inr None \<Rightarrow> ((zero_submission, Some ErrNotFound), db)
     | Inr (Some pending) \<Rightarrow> submitPendingAdvice f env pending db)"

end
