(* ===== verification/Control_Http.thy ===== *)
theory Control_Http
  imports Control_Api Edge_Consumer Edge_Service
begin

text \<open>
  \<^verbatim>\<open>internal/controlhttp/server.go\<close>, the HTTP boundary of the control plane, and the calls of
  \<^verbatim>\<open>internal/controlclient/client.go\<close>.  A request is its method, its decoded path, the first value of every
  query key, its body and the TLS state of the connection; a response is a status with an error code or a
  record.  The JSON text of a response body, and the limit the client puts on its length, are not modelled.
\<close>

section \<open>Requests and responses\<close>

text \<open>
  The subject alternative names of a certificate.  \<^verbatim>\<open>crypto/x509\<close> only yields ASCII DNS names and addresses;
  the IP addresses and the URIs are given as their \<^verbatim>\<open>String\<close> methods print them.
\<close>

record certificate =
  ct_DNSNames :: "string list"
  ct_EmailAddresses :: "string list"
  ct_IPAddresses :: "string list"
  ct_URIs :: "string list"

record ConnectionState =
  tls_PeerCertificates :: "certificate list"
  tls_VerifiedChains :: "certificate list list"

text \<open>The body is \<^const>\<open>None\<close> when reading it fails.\<close>

record http_request =
  rq_method :: string
  rq_path :: string
  rq_query :: "string \<Rightarrow> string"
  rq_body :: "bytes option"
  rq_TLS :: "ConnectionState option"

datatype http_body =
    ErrorBody string
  | ReceiptBody CommitReceipt
  | CaseBody CaseRecord
  | RegistryBody RegistryRecord
  | PageBody EdgeDeliveryPage

type_synonym http_response = "nat \<times> http_body"

definition writeError :: "nat \<Rightarrow> string \<Rightarrow> http_response" where
  "writeError status code = (status, ErrorBody code)"

text \<open>\<^verbatim>\<open>context.DeadlineExceeded\<close>, as a read of the store returns it.\<close>

definition deadline_exceeded :: store_error where
  "deadline_exceeded = ErrText ''context deadline exceeded''"

definition writeTypedControlOutcome :: "api_error \<Rightarrow> http_response option" where
  "writeTypedControlOutcome e =
    (if e = ErrUnauthorized \<or> e = ApiStore ErrEdgeNotActive then Some (writeError 403 ''forbidden'')
     else if e = ApiStore deadline_exceeded then Some (writeError 504 ''deadline_exceeded'')
     else if e = ErrExpiredInput \<or> e = ApiStore ErrRegistryHalted then Some (writeError 410 ''gone'')
     else if e \<in> {ApiStore ErrConflictingCase, ApiStore ErrFinalAdviceAlreadySet, ApiStore ErrConflictingRegistry,
                  ApiStore ErrRegistryRevisionSequence, ApiStore ErrRegistryEquivocation, ApiStore ErrRegistryRollback,
                  ApiStore ErrEdgeGenerationRollback}
       then Some (writeError 409 ''conflict'')
     else if e \<in> {ApiStore ErrInvalidRequest, ApiStore ErrCaseBinding, ApiStore ErrRegistryBinding, ErrInvalidCaseBinding}
       then Some (writeError 422 ''unprocessable'')
     else None)"

definition writeAdmissionError :: "api_error \<Rightarrow> http_response" where
  "writeAdmissionError e =
    (case writeTypedControlOutcome e of Some r \<Rightarrow> r | None \<Rightarrow>
     if e = ApiStore ErrCaseNotFound \<or> e = ApiStore ErrRegistryNotFound then writeError 422 ''unprocessable''
     else if e = ErrRejected then writeError 400 ''rejected''
     else writeError 503 ''unavailable'')"

definition writeStoreError :: "api_error \<Rightarrow> http_response" where
  "writeStoreError e =
    (case writeTypedControlOutcome e of Some r \<Rightarrow> r | None \<Rightarrow>
     if e = ApiStore ErrCaseNotFound \<or> e = ApiStore ErrRegistryNotFound \<or> e = ApiStore ErrRegistryHeadNotFound
       then writeError 404 ''not_found''
     else writeError 503 ''unavailable'')"

section \<open>Workload identity\<close>

definition ascii_lower :: "string \<Rightarrow> string" where
  "ascii_lower s = map (\<lambda>c. if 65 \<le> (of_char c :: nat) \<and> (of_char c :: nat) \<le> 90 then char_of (of_char c + 32 :: nat) else c) s"

definition certificateSANs :: "certificate \<Rightarrow> string list" where
  "certificateSANs c =
    map (\<lambda>n. ''dns:'' @ ascii_lower n) (ct_DNSNames c) @ map (\<lambda>n. ''email:'' @ ascii_lower n) (ct_EmailAddresses c)
    @ map (\<lambda>n. ''ip:'' @ n) (ct_IPAddresses c) @ map (\<lambda>n. ''uri:'' @ n) (ct_URIs c)"

definition has_prefix :: "string \<Rightarrow> string \<Rightarrow> bool" where
  "has_prefix p s = (take (length p) s = p)"

definition validSAN :: "string \<Rightarrow> bool" where
  "validSAN san = list_ex (\<lambda>p. has_prefix p san \<and> length san > length p) [''dns:'', ''email:'', ''ip:'', ''uri:'']"

record Server =
  hs_tenant :: string
  hs_admission :: Service
  hs_authority :: Store
  hs_identities :: "string \<Rightarrow> WorkloadIdentity option"
  hs_maxBodyBytes :: int
  hs_timeout :: int

definition valid_mapping :: "string \<times> WorkloadIdentity \<Rightarrow> bool" where
  "valid_mapping m =
    (validSAN (fst m) \<and> \<not> blank (wl_PrincipalID (snd m)) \<and> wl_EdgeGeneration (snd m) \<ge> 0
     \<and> (wl_EdgeID (snd m) = [] \<longrightarrow> wl_EdgeGeneration (snd m) = 0)
     \<and> (wl_EdgeID (snd m) \<noteq> [] \<longrightarrow> wl_EdgeGeneration (snd m) \<noteq> 0))"

text \<open>The identities are the entries of a Go map, so their names are distinct.\<close>

definition defaultMaxBodyBytes :: int where
  "defaultMaxBodyBytes = int MaxEnvelopeBytes"

definition defaultRequestTimeout :: int where
  "defaultRequestTimeout = 10 * 1000000000"

definition or_default :: "int \<Rightarrow> int \<Rightarrow> int" where
  "or_default configured standard = (if configured = 0 then standard else configured)"

definition server_New ::
    "string \<Rightarrow> Service option \<Rightarrow> Store option \<Rightarrow> (string \<times> WorkloadIdentity) list \<Rightarrow> int \<Rightarrow> int
       \<Rightarrow> string + Server" where
  "server_New tenant admission authority identities maxBodyBytes requestTimeout =
    (let maxBody = or_default maxBodyBytes defaultMaxBodyBytes;
         timeout = or_default requestTimeout defaultRequestTimeout in
     case (admission, authority) of
       (Some admission', Some authority') \<Rightarrow>
         if blank tenant \<or> identities = []
           then Inl ''controlhttp: tenant, admission, authority, and client identities are required''
         else if \<not> list_all valid_mapping identities
           then Inl ''controlhttp: each SAN mapping requires a principal and complete edge coordinates when present''
         else if maxBody \<le> 0 then Inl ''controlhttp: max body bytes must be positive''
         else if timeout \<le> 0 then Inl ''controlhttp: request timeout must be positive''
         else Inr \<lparr>hs_tenant = tenant, hs_admission = admission', hs_authority = authority',
                   hs_identities = map_of identities, hs_maxBodyBytes = maxBody, hs_timeout = timeout\<rparr>
     | _ \<Rightarrow> Inl ''controlhttp: tenant, admission, authority, and client identities are required'')"

fun match_identity ::
    "(string \<Rightarrow> WorkloadIdentity option) \<Rightarrow> WorkloadIdentity option \<Rightarrow> string list \<Rightarrow> WorkloadIdentity option" where
  "match_identity identities found [] = found"
| "match_identity identities found (san # sans) =
    (case identities san of
       None \<Rightarrow> match_identity identities found sans
     | Some w \<Rightarrow> if found \<noteq> None \<and> found \<noteq> Some w then None else match_identity identities (Some w) sans)"

definition workload :: "Server \<Rightarrow> ConnectionState option \<Rightarrow> WorkloadIdentity option" where
  "workload s state =
    (case state of
       None \<Rightarrow> None
     | Some st \<Rightarrow>
         (case tls_PeerCertificates st of
            [] \<Rightarrow> None
          | peer # _ \<Rightarrow>
              if tls_VerifiedChains st = [] then None else match_identity (hs_identities s) None (certificateSANs peer)))"

section \<open>Handlers\<close>

definition trim_prefix :: "string \<Rightarrow> string \<Rightarrow> string" where
  "trim_prefix p s = (if has_prefix p s then drop (length p) s else s)"

fun split_slash :: "string \<Rightarrow> string \<Rightarrow> string list" where
  "split_slash acc [] = [acc]"
| "split_slash acc (c # cs) = (if c = CHR ''/'' then acc # split_slash [] cs else split_slash (acc @ [c]) cs)"

definition edgePage :: "(string \<Rightarrow> string) \<Rightarrow> (int \<times> int) option" where
  "edgePage query =
    (let after = (if query ''after_sequence'' = [] then Some 0 else
           (case ParseInt (query ''after_sequence'') of None \<Rightarrow> None | Some n \<Rightarrow> if n < 0 then None else Some n));
         limit = (if query ''limit'' = [] then Some 100 else
           (case ParseInt (query ''limit'') of None \<Rightarrow> None | Some n \<Rightarrow> if n < 1 \<or> n > 1000 then None else Some n)) in
     case (after, limit) of (Some a, Some l) \<Rightarrow> Some (a, l) | _ \<Rightarrow> None)"

text \<open>\<^verbatim>\<open>io.LimitReader(body, limit+1)\<close> yields nothing when the sum wraps to a negative number.\<close>

definition readRaw :: "bytes option \<Rightarrow> int \<Rightarrow> bytes option" where
  "readRaw body limit =
    (case map_option (take (nat (wrap64 (limit + 1)))) body of
       None \<Rightarrow> None
     | Some raw \<Rightarrow> if length raw = 0 \<or> int (length raw) > limit then None else Some raw)"

definition submit ::
    "ssp_crypto \<Rightarrow> Server \<Rightarrow> api_env \<Rightarrow> http_request \<Rightarrow> WorkloadIdentity \<Rightarrow> bool \<Rightarrow> authority_db
       \<Rightarrow> http_response \<times> authority_db" where
  "submit cr s env rq w registry db =
    (case readRaw (rq_body rq) (hs_maxBodyBytes s) of
       None \<Rightarrow> (writeError 413 ''body_too_large'', db)
     | Some raw \<Rightarrow>
         (case (if registry then SubmitRegistry cr (hs_admission s) env w raw db else Submit cr (hs_admission s) env w raw db) of
            (Inl e, db') \<Rightarrow> (writeAdmissionError e, db')
          | (Inr rc, db') \<Rightarrow> ((200, ReceiptBody rc), db')))"

definition resolveCase ::
    "ssp_crypto \<Rightarrow> Server \<Rightarrow> api_env \<Rightarrow> http_request \<Rightarrow> WorkloadIdentity \<Rightarrow> authority_db \<Rightarrow> http_response" where
  "resolveCase cr s env rq w db =
    (let caseID = trim_prefix ''/v1/cases/'' (rq_path rq); commitment = rq_query rq ''commitment'' in
     if caseID = [] \<or> CHR ''/'' \<in> set caseID then writeError 400 ''invalid_case_query''
     else if commitment = [] then writeError 400 ''invalid_case_query''
     else (case api_ResolveCase cr (hs_admission s) env w caseID commitment db of
         Inl e \<Rightarrow> writeStoreError e | Inr r \<Rightarrow> (200, CaseBody r)))"

definition resolveRegistry ::
    "ssp_crypto \<Rightarrow> Server \<Rightarrow> api_env \<Rightarrow> http_request \<Rightarrow> WorkloadIdentity \<Rightarrow> authority_db \<Rightarrow> http_response" where
  "resolveRegistry cr s env rq w db =
    (let revisionText = trim_prefix ''/v1/registries/'' (rq_path rq); commitment = rq_query rq ''commitment'' in
     if revisionText = [] \<or> CHR ''/'' \<in> set revisionText then writeError 400 ''invalid_registry_query''
     else (case ParseInt revisionText of None \<Rightarrow> writeError 400 ''invalid_registry_query'' | Some revision \<Rightarrow>
       if revision \<le> 0 \<or> commitment = [] then writeError 400 ''invalid_registry_query''
       else (case api_ResolveRegistry cr (hs_admission s) env w revision commitment db of
           Inl e \<Rightarrow> writeStoreError e | Inr r \<Rightarrow> (200, RegistryBody r))))"

definition server_reconcile ::
    "Server \<Rightarrow> api_env \<Rightarrow> http_request \<Rightarrow> WorkloadIdentity \<Rightarrow> authority_db \<Rightarrow> http_response" where
  "server_reconcile s env rq w db =
    (case split_slash [] (trim_prefix ''/v1/edges/'' (rq_path rq)) of
       [edgeID, generations, generationText, deliveries] \<Rightarrow>
         if edgeID = [] \<or> generations \<noteq> ''generations'' \<or> deliveries \<noteq> ''deliveries'' then writeError 404 ''not_found''
         else (case ParseInt generationText of None \<Rightarrow> writeError 403 ''forbidden'' | Some generation \<Rightarrow>
           if generation \<le> 0 \<or> wl_EdgeID w \<noteq> edgeID \<or> wl_EdgeGeneration w \<noteq> generation then writeError 403 ''forbidden''
           else (case edgePage (rq_query rq) of None \<Rightarrow> writeError 400 ''invalid_edge_query'' | Some (after, limit) \<Rightarrow>
             (case ListEdgeDeliveries (hs_authority s) (ap_fault env 0)
                 \<lparr>edq_TenantID = hs_tenant s, edq_EdgeID = edgeID, edq_PrincipalID = wl_PrincipalID w,
                  edq_EdgeGeneration = generation, edq_AfterSequence = after, edq_Limit = limit\<rparr> db of
                Inl e \<Rightarrow> writeStoreError (ApiStore e)
              | Inr page \<Rightarrow> (200, PageBody page))))
     | _ \<Rightarrow> writeError 404 ''not_found'')"

definition ServeHTTP ::
    "ssp_crypto \<Rightarrow> Server \<Rightarrow> api_env \<Rightarrow> http_request \<Rightarrow> authority_db \<Rightarrow> http_response \<times> authority_db" where
  "ServeHTTP cr s env rq db =
    (case workload s (rq_TLS rq) of None \<Rightarrow> (writeError 401 ''unauthenticated'', db) | Some w \<Rightarrow>
     if rq_method rq = ''POST'' \<and> rq_path rq = ''/v1/registries'' then submit cr s env rq w True db
     else if rq_method rq = ''POST'' \<and> (rq_path rq = ''/v1/cases'' \<or> rq_path rq = ''/v1/advice'')
       then submit cr s env rq w False db
     else if rq_method rq = ''GET'' \<and> has_prefix ''/v1/cases/'' (rq_path rq) then (resolveCase cr s env rq w db, db)
     else if rq_method rq = ''GET'' \<and> has_prefix ''/v1/registries/'' (rq_path rq) then (resolveRegistry cr s env rq w db, db)
     else if rq_method rq = ''GET'' \<and> has_prefix ''/v1/edges/'' (rq_path rq) then (server_reconcile s env rq w db, db)
     else (writeError 404 ''not_found'', db))"

section \<open>The client\<close>

text \<open>
  The transport is one exchange over the verified connection: method, path before escaping, query, and body,
  with the server's response or the error of the request.  It includes the resolution of the path against
  the endpoint.  A body that is not the record the caller asked for does not decode.
\<close>

type_synonym exchange = "string \<Rightarrow> string \<Rightarrow> (string \<times> string) list \<Rightarrow> bytes option \<Rightarrow> edge_error + http_response"

record Client =
  cl_http :: exchange
  cl_workload :: edge_WorkloadIdentity

definition client_rejected :: "nat \<Rightarrow> string \<Rightarrow> edge_error" where
  "client_rejected status code =
    EdgeErr (''controlclient: control plane rejected request: status '' @ itoa (int status) @ '', code '' @ [CHR 0x22] @ code @ [CHR 0x22])"

definition call ::
    "Client \<Rightarrow> string \<Rightarrow> string \<Rightarrow> (string \<times> string) list \<Rightarrow> bytes option \<Rightarrow> edge_error + http_body" where
  "call c meth path query body =
    (case cl_http c meth path query body of
       Inl e \<Rightarrow> Inl e
     | Inr (status, reply) \<Rightarrow>
         if status < 200 \<or> status \<ge> 300
           then Inl (client_rejected status (case reply of ErrorBody code \<Rightarrow> code | _ \<Rightarrow> []))
         else Inr reply)"

definition decode_failed :: edge_error where
  "decode_failed = EdgeErr ''controlclient: decode response''"

fun client_page_valid :: "int \<Rightarrow> EdgeDelivery list \<Rightarrow> bool" where
  "client_page_valid expected [] = True"
| "client_page_valid expected (d # ds) =
    (if ed_Sequence d \<noteq> expected \<or> ed_Kind d = [] \<or> ed_CaseID d = [] \<or> ed_EnvelopeID d = [] \<or> ed_Commitment d = []
        \<or> length (ed_Raw d) = 0 \<or> ed_AuthorityRevision d \<le> 0
     then False else client_page_valid (wrap64 (expected + 1)) ds)"

definition client_ListEdgeDeliveries ::
    "Client \<Rightarrow> EdgeDeliveryQuery \<Rightarrow> edge_error + EdgeDeliveryPage" where
  "client_ListEdgeDeliveries c q =
    (if ew_EdgeID (cl_workload c) = [] \<or> edq_EdgeID q \<noteq> ew_EdgeID (cl_workload c) 
        \<or> edq_EdgeGeneration q \<noteq> ew_EdgeGeneration (cl_workload c) \<or> edq_TenantID q = []
       then Inl (EdgeErr ''controlclient: invalid certificate-bound edge delivery query'')
     else if EdgeDeliveryQuery_Validate (q\<lparr>edq_PrincipalID := ew_PrincipalID (cl_workload c)\<rparr>) \<noteq> None
       then Inl (EdgeErr ''controlclient: invalid certificate-bound edge delivery query'')
     else (case call c ''GET''
             (''/v1/edges/'' @ edq_EdgeID q @ ''/generations/'' @ itoa (edq_EdgeGeneration q) @ ''/deliveries'')
             [(''after_sequence'', itoa (edq_AfterSequence q)), (''limit'', itoa (edq_Limit q))] None of
         Inl e \<Rightarrow> Inl e
       | Inr (PageBody page) \<Rightarrow>
           if edp_HighWatermark page < edq_AfterSequence q \<or> edp_CompleteThrough page < edq_AfterSequence q
              \<or> edp_CompleteThrough page > edp_HighWatermark page
              \<or> int (length (edp_Deliveries page)) \<noteq> wrap64 (edp_CompleteThrough page - edq_AfterSequence q)
             then Inl (EdgeErr ''controlclient: invalid authority delivery page'')
           else if \<not> client_page_valid (wrap64 (edq_AfterSequence q + 1)) (edp_Deliveries page)
             then Inl (EdgeErr ''controlclient: invalid authority delivery'')
           else Inr page
       | Inr _ \<Rightarrow> Inl decode_failed))"

definition client_ResolveCase :: "Client \<Rightarrow> string \<Rightarrow> string \<Rightarrow> edge_error + CaseRecord" where
  "client_ResolveCase c caseID commitment =
    (if caseID = [] \<or> \<not> validCommitment commitment then Inl (EdgeErr ''controlclient: invalid case query'')
     else (case call c ''GET'' (''/v1/cases/'' @ caseID) [(''commitment'', commitment)] None of
         Inl e \<Rightarrow> Inl e
       | Inr (CaseBody r) \<Rightarrow>
           if cr_CaseID r \<noteq> caseID \<or> cr_Commitment r \<noteq> commitment \<or> length (cr_Raw r) = 0 \<or> cr_EnvelopeID r = []
              \<or> cr_Domain r = [] \<or> cr_IssuerEdgeID r = [] \<or> cr_IssuerEdgeGeneration r \<le> 0 \<or> cr_AuthorityRevision r \<le> 0
              \<or> cr_ExpiresAt r = zero_time
             then Inl (EdgeErr ''controlclient: invalid resolved case'')
           else Inr r
       | Inr _ \<Rightarrow> Inl decode_failed))"

definition client_ResolveRegistry :: "Client \<Rightarrow> string \<Rightarrow> int \<Rightarrow> string \<Rightarrow> edge_error + RegistryRecord" where
  "client_ResolveRegistry c tenant revision commitment =
    (if tenant = [] \<or> revision \<le> 0 \<or> \<not> validCommitment commitment then Inl (EdgeErr ''controlclient: invalid registry query'')
     else (case call c ''GET'' (''/v1/registries/'' @ itoa revision) [(''commitment'', commitment)] None of
         Inl e \<Rightarrow> Inl e
       | Inr (RegistryBody r) \<Rightarrow>
           if rr_TenantID r \<noteq> tenant \<or> rr_Revision r \<noteq> revision \<or> rr_Commitment r \<noteq> commitment \<or> rr_EnvelopeID r = []
              \<or> length (rr_Raw r) = 0 \<or> rr_AuthorityRevision r \<le> 0
             then Inl (EdgeErr ''controlclient: invalid resolved registry'')
           else Inr r
       | Inr _ \<Rightarrow> Inl decode_failed))"

definition client_Submit :: "Client \<Rightarrow> gateway" where
  "client_Submit c requested raw =
    (if requested \<noteq> cl_workload c
       then Inl (EdgeErr ''controlclient: requested workload does not match certificate-bound workload'')
     else (case ReadHeader raw of Inl e \<Rightarrow> Inl (EdgeErr ''controlclient: read SSP header'') | Inr h \<Rightarrow>
       if eh_Schema h \<noteq> Family_Case \<and> eh_Schema h \<noteq> Family_Advice
         then Inl (EdgeErr ''controlclient: only case and advice submission are supported'')
       else (case call c ''POST'' (if eh_Schema h = Family_Case then ''/v1/cases'' else ''/v1/advice'') [] (Some raw) of
           Inl e \<Rightarrow> Inl e
         | Inr (ReceiptBody rc) \<Rightarrow>
             if rcpt_AuthorityID rc = [] \<or> rcpt_Revision rc \<le> 0 \<or> rcpt_EnvelopeID rc \<noteq> eh_ID h \<or> rcpt_Commitment rc = []
               then Inl (EdgeErr ''controlclient: incomplete or mismatched commit receipt'')
             else Inr rc
         | Inr _ \<Rightarrow> Inl decode_failed)))"

text \<open>\<^verbatim>\<open>projectionAuthorityClient\<close> of \<^verbatim>\<open>cmd/snagline-edge/runtime.go\<close>.\<close>

record projectionAuthorityClient =
  pc_client :: "Client option"
  pc_tenant :: string

definition projection_ListEdgeDeliveries ::
    "projectionAuthorityClient \<Rightarrow> EdgeDeliveryQuery \<Rightarrow> edge_error + EdgeDeliveryPage" where
  "projection_ListEdgeDeliveries p q =
    (case pc_client p of None \<Rightarrow> Inl (EdgeErr ''control authority tenant mismatch'') | Some c \<Rightarrow>
     if edq_TenantID q \<noteq> pc_tenant p then Inl (EdgeErr ''control authority tenant mismatch'')
     else client_ListEdgeDeliveries c q)"

definition projection_ResolveCase ::
    "projectionAuthorityClient \<Rightarrow> string \<Rightarrow> string \<Rightarrow> edge_error + CaseRecord" where
  "projection_ResolveCase p caseID commitment =
    (case pc_client p of None \<Rightarrow> Inl (EdgeErr ''control authority unavailable'') | Some c \<Rightarrow>
     client_ResolveCase c caseID commitment)"

definition projection_ResolveRegistry ::
    "projectionAuthorityClient \<Rightarrow> string \<Rightarrow> int \<Rightarrow> string \<Rightarrow> edge_error + RegistryRecord" where
  "projection_ResolveRegistry p tenant revision commitment =
    (case pc_client p of None \<Rightarrow> Inl (EdgeErr ''control authority tenant mismatch'') | Some c \<Rightarrow>
     if tenant \<noteq> pc_tenant p then Inl (EdgeErr ''control authority tenant mismatch'')
     else client_ResolveRegistry c tenant revision commitment)"

end
