(* ===== verification/Control_Properties.thy ===== *)
theory Control_Properties
  imports Control_Http
begin

text \<open>
  What the control plane admits.  Nothing reaches the authority unless its bytes carry a signature of a key
  that a root-verified, committed registry gives to the authenticated sender for this purpose.
\<close>

section \<open>Signatures\<close>

definition signed_with :: "ssp_crypto \<Rightarrow> bytes \<Rightarrow> bytes \<Rightarrow> bool" where
  "signed_with cr public raw \<longleftrightarrow>
     (\<exists>e sig c. decodeStrictEnvelope raw = Inr e \<and> DecodeCanonicalBase64 (en_Signature e) 64 = Inr sig
        \<and> signing_bytes cr raw = Inr c \<and> cr_verify cr public c sig)"

definition registered_signature :: "ssp_crypto \<Rightarrow> Registry \<Rightarrow> string \<Rightarrow> time \<Rightarrow> bytes \<Rightarrow> KeyRecord \<Rightarrow> bool" where
  "registered_signature cr snapshot usage now raw key \<longleftrightarrow>
     (\<exists>e. decodeStrictEnvelope raw = Inr e \<and> Key snapshot (en_AuthorKeyID e) = Some key \<and> kr_Usage key = usage
        \<and> Usable key now \<and> signed_with cr (kr_PublicKey key) raw)"

lemma ReadHeader_Inr: "ReadHeader raw = Inr h \<longleftrightarrow> (\<exists>e. decodeStrictEnvelope raw = Inr e \<and> h = header_of e)"
  by (auto simp: ReadHeader_def split: sum.splits)

lemma decodeAndValidate_Inr:
  "decodeAndValidate raw now = Inr e \<longleftrightarrow> decodeStrictEnvelope raw = Inr e \<and> Validate now e = None"
  by (auto simp: decodeAndValidate_def split: sum.splits option.splits)

lemma Verify_Inr:
  assumes "Verify cr raw keys now = Inr e"
  obtains public where "keys (en_AuthorKeyID e) = Some public" "decodeStrictEnvelope raw = Inr e"
    "Validate now e = None" "signed_with cr public raw"
proof -
  obtain sig c public where "decodeAndValidate raw now = Inr e" "DecodeCanonicalBase64 (en_Signature e) 64 = Inr sig"
    "signing_bytes cr raw = Inr c" "keys (en_AuthorKeyID e) = Some public" "cr_verify cr public c sig"
    using assms by (auto simp: Verify_def split: sum.splits option.splits if_splits)
  then show thesis by (auto simp: decodeAndValidate_Inr signed_with_def intro!: that)
qed

lemma verifyRegisteredEnvelope_Inr:
  assumes "verifyRegisteredEnvelope cr raw h snapshot usage now = Inr (key, verified)"
  shows "registered_signature cr snapshot usage now raw key" and "decodeStrictEnvelope raw = Inr verified"
    and "Validate now verified = None"
proof -
  have key: "Key snapshot (eh_AuthorKeyID h) = Some key" "kr_Usage key = usage" "Usable key now"
    and ok: "Verify cr raw [eh_AuthorKeyID h \<mapsto> kr_PublicKey key] now = Inr verified"
    using assms by (auto simp: verifyRegisteredEnvelope_def split: option.splits if_splits sum.splits)
  obtain public where public: "[eh_AuthorKeyID h \<mapsto> kr_PublicKey key] (en_AuthorKeyID verified) = Some public"
    and e: "decodeStrictEnvelope raw = Inr verified" "Validate now verified = None" and signed: "signed_with cr public raw"
    using ok by (rule Verify_Inr)
  have "eh_AuthorKeyID h = en_AuthorKeyID verified" "public = kr_PublicKey key"
    using public by (auto split: if_splits)
  with key e signed show "registered_signature cr snapshot usage now raw key"
    by (auto simp: registered_signature_def)
  show "decodeStrictEnvelope raw = Inr verified" "Validate now verified = None" by fact+
qed

section \<open>Admission\<close>

text \<open>The registry a header names: committed by the authority, verified from the pinned root, in force.\<close>

definition committed_registry :: "ssp_crypto \<Rightarrow> Service \<Rightarrow> api_env \<Rightarrow> EnvelopeHeader \<Rightarrow> authority_db \<Rightarrow> Registry \<Rightarrow> bool" where
  "committed_registry cr s env h db snapshot \<longleftrightarrow>
     (\<exists>g v. g \<in> set (authority_registries db) \<and> rg_tenant_id g = sv_tenant s
        \<and> rg_registry_revision g = eh_RegistryRevision h \<and> rg_commitment g = eh_RegistryHash h
        \<and> Verifier_Verify cr (sv_registryTrust s) (ap_clock env 0) (rg_raw g) = Inr v \<and> vf_snapshot v = snapshot
        \<and> rv_revision snapshot = eh_RegistryRevision h \<and> rv_commitment snapshot = eh_RegistryHash h
        \<and> \<not> Expired snapshot (ap_clock env 1))"

lemma ResolveRegistry_Inr:
  assumes "ResolveRegistry s fault tenant revision commitment db = Inr r"
  obtains g where "g \<in> set (authority_registries db)" "rg_tenant_id g = tenant" "rg_registry_revision g = revision"
    "rg_commitment g = commitment" "r = registry_record g"
  using assms by (auto simp: ResolveRegistry_def find_Some_iff split: if_splits option.splits intro!: that)

lemma ResolveCase_Inr:
  assumes "ResolveCase s fault tenant caseID commitment db = Inr c"
  shows "c \<in> set (authority_cases db)" "cr_TenantID c = tenant" "cr_CaseID c = caseID" "cr_Commitment c = commitment"
  using assms by (auto simp: ResolveCase_def find_Some_iff split: if_splits option.splits)

lemma api_resolveRegistry_Inr:
  assumes "api_resolveRegistry cr s env h db = Inr snapshot"
  shows "committed_registry cr s env h db snapshot"
proof -
  obtain r v where r: "ResolveRegistry (sv_authority s) (ap_fault env 0) (sv_tenant s) (eh_RegistryRevision h) (eh_RegistryHash h) db = Inr r"
    and v: "Verifier_Verify cr (sv_registryTrust s) (ap_clock env 0) (rr_Raw r) = Inr v" "vf_snapshot v = snapshot"
      "rv_revision snapshot = eh_RegistryRevision h" "rv_commitment snapshot = eh_RegistryHash h" "\<not> Expired snapshot (ap_clock env 1)"
    using assms by (auto simp: api_resolveRegistry_def Let_def Verified_Commitment_def CheckBinding_def split: sum.splits if_splits)
  from ResolveRegistry_Inr [OF r] obtain g where "g \<in> set (authority_registries db)" "rg_tenant_id g = sv_tenant s"
    "rg_registry_revision g = eh_RegistryRevision h" "rg_commitment g = eh_RegistryHash h" "r = registry_record g" .
  with v show ?thesis by (auto simp: committed_registry_def registry_record_def)
qed

text \<open>The sender is the edge that issues the case, at its registered generation, on a route that admits it.\<close>

definition issuer_admitted :: "Registry \<Rightarrow> WorkloadIdentity \<Rightarrow> CommitCaseRequest \<Rightarrow> bool" where
  "issuer_admitted snapshot w req \<longleftrightarrow>
     (\<exists>edge. Edge snapshot (wl_EdgeID w) = Some edge \<and> eb_PrincipalID edge = wl_PrincipalID w
        \<and> eb_Generation edge = wl_EdgeGeneration w)
     \<and> ccr_IssuerEdgeID req = wl_EdgeID w \<and> ccr_IssuerEdgeGeneration req = wl_EdgeGeneration w
     \<and> AuthorizesCaseIssuerGeneration snapshot (ccr_Domain req) (wl_EdgeID w) (wl_EdgeGeneration w)
     \<and> MachineAcceptableEpoch snapshot (ccr_Domain req) (ccr_RoutingEpoch req)"

text \<open>The sender is the dispatcher of the domain of a committed case that its own issuer signed.\<close>

definition dispatcher_admitted ::
    "ssp_crypto \<Rightarrow> Service \<Rightarrow> api_env \<Rightarrow> authority_db \<Rightarrow> Registry \<Rightarrow> WorkloadIdentity \<Rightarrow> CommitAdviceRequest \<Rightarrow> bool" where
  "dispatcher_admitted cr s env db snapshot w req \<longleftrightarrow>
     (\<exists>found route key. found \<in> set (authority_cases db) \<and> cr_TenantID found = sv_tenant s \<and> cr_CaseID found = car_CaseID req
        \<and> cr_Commitment found = car_CaseCommitment req
        \<and> registered_signature cr snapshot UsageEdge (ap_clock env 4) (cr_Raw found) key
        \<and> Domain snapshot (cr_Domain found) = Some route \<and> db_DispatcherPrincipalID route = wl_PrincipalID w
        \<and> wl_EdgeID w = [] \<and> Family_Advice \<in> set (db_Families route)
        \<and> MachineAcceptableEpoch snapshot (cr_Domain found) (car_RoutingEpoch req))"

lemma submitCase_cases:
  obtains (refused) e where "submitCase cr s env w raw h snapshot db = (Inl e, db)"
  | (admitted) key req where "registered_signature cr snapshot UsageEdge (ap_clock env 2) raw key"
      "kr_PrincipalID key = wl_PrincipalID w" "issuer_admitted snapshot w req" "ccr_Raw req = raw"
      "EnvelopeCommitment cr raw (ap_clock env 3) = Inr (ccr_Commitment req)"
      "submitCase cr s env w raw h snapshot db = commit_answer (CommitCase (sv_authority s) (ap_commit env) req db)"
proof (cases "verifyRegisteredEnvelope cr raw h snapshot UsageEdge (ap_clock env 2)")
  case (Inl e)
  then show thesis by (intro refused) (simp add: submitCase_def)
next
  case (Inr kv)
  then obtain key verified where kv: "verifyRegisteredEnvelope cr raw h snapshot UsageEdge (ap_clock env 2) = Inr (key, verified)"
    by (cases kv) simp
  show thesis
  proof (cases "\<exists>body commitment expiresAt. en_Schema verified = Family_Case \<and> kr_PrincipalID key \<noteq> []
      \<and> Option.bind (unmarshal (en_Body verified)) caseBody_of = Some body \<and> case_authorized snapshot w h key verified body
      \<and> EnvelopeCommitment cr raw (ap_clock env 3) = Inr commitment \<and> ParseTimestamp (en_ExpiresAt verified) = Inr expiresAt")
    case True
    then obtain body commitment expiresAt where ok: "en_Schema verified = Family_Case" "kr_PrincipalID key \<noteq> []"
      "Option.bind (unmarshal (en_Body verified)) caseBody_of = Some body" "case_authorized snapshot w h key verified body"
      "EnvelopeCommitment cr raw (ap_clock env 3) = Inr commitment" "ParseTimestamp (en_ExpiresAt verified) = Inr expiresAt"
      by blast
    have may: "kr_PrincipalID key = wl_PrincipalID w"
        "\<And>req. ccr_IssuerEdgeID req = bc_IssuerEdgeID body \<Longrightarrow> ccr_IssuerEdgeGeneration req = bc_IssuerEdgeGeneration body
          \<Longrightarrow> ccr_Domain req = bc_Domain body \<Longrightarrow> ccr_RoutingEpoch req = en_RoutingEpoch verified \<Longrightarrow> issuer_admitted snapshot w req"
      using ok(4) by (auto simp: case_authorized_def issuer_admitted_def split: option.splits)
    show thesis
      by (rule admitted [OF verifyRegisteredEnvelope_Inr(1) [OF kv] may(1)])
        (simp_all add: submitCase_def kv ok may(2))
  next
    case False
    then have "\<exists>e. submitCase cr s env w raw h snapshot db = (Inl e, db)"
      by (auto simp: submitCase_def kv split: option.splits sum.splits)
    then show thesis using refused by blast
  qed
qed

lemma findCommittedCase_Inr:
  assumes "findCommittedCase cr s env caseID hint h snapshot db = Inr committed"
  obtains found key where "found \<in> set (authority_cases db)" "cr_TenantID found = sv_tenant s" "cr_CaseID found = caseID"
    "cr_Commitment found = cm_commitment committed" "cr_Domain found = cm_domain committed"
    "registered_signature cr snapshot UsageEdge (ap_clock env 4) (cr_Raw found) key"
proof -
  obtain found where found: "ResolveCase (sv_authority s) (ap_fault env 1) (sv_tenant s) caseID hint db = Inr found"
    using assms by (auto simp: findCommittedCase_def split: sum.splits)
  obtain ch key verified where "ReadHeader (cr_Raw found) = Inr ch"
    and ok: "verifyRegisteredEnvelope cr (cr_Raw found) ch snapshot UsageEdge (ap_clock env 4) = Inr (key, verified)"
      "cr_Commitment found = cm_commitment committed" "cr_Domain found = cm_domain committed"
    using assms found by (auto simp: findCommittedCase_def split: sum.splits if_splits option.splits)
  with ResolveCase_Inr [OF found] verifyRegisteredEnvelope_Inr(1) [OF ok(1)] show thesis by (intro that)
qed

lemma submitAdvice_cases:
  assumes "ReadHeader raw = Inr h"
  obtains (refused) e where "submitAdvice cr s env w raw h snapshot db = (Inl e, db)"
  | (admitted) key req where "registered_signature cr snapshot UsageAdvice (ap_clock env 2) raw key"
      "kr_PrincipalID key = wl_PrincipalID w" "dispatcher_admitted cr s env db snapshot w req" "car_Raw req = raw"
      "EnvelopeCommitment cr raw (ap_clock env 3) = Inr (car_Commitment req)"
      "submitAdvice cr s env w raw h snapshot db = commit_answer (CommitAdvice (sv_authority s) (ap_commit env) req db)"
proof (cases "\<exists>schema id body hint committed key verified bound commitment. envelope_fields raw = Some (schema, id, body)
      \<and> Option.bind (unmarshal body) adviceBody_of = Some hint
      \<and> findCommittedCase cr s env (eh_CaseID h) hint h snapshot db = Inr committed
      \<and> verifyRegisteredEnvelope cr raw h snapshot UsageAdvice (ap_clock env 2) = Inr (key, verified)
      \<and> en_Schema verified = Family_Advice \<and> kr_PrincipalID key \<noteq> [] \<and> advice_authorized snapshot w h key committed
      \<and> Option.bind (unmarshal (en_Body verified)) adviceBody_of = Some bound \<and> bound = cm_commitment committed
      \<and> EnvelopeCommitment cr raw (ap_clock env 3) = Inr commitment")
  case True
  then obtain schema id body hint committed key verified bound commitment where ok:
      "envelope_fields raw = Some (schema, id, body)" "Option.bind (unmarshal body) adviceBody_of = Some hint"
      "findCommittedCase cr s env (eh_CaseID h) hint h snapshot db = Inr committed"
      "verifyRegisteredEnvelope cr raw h snapshot UsageAdvice (ap_clock env 2) = Inr (key, verified)"
      "en_Schema verified = Family_Advice" "kr_PrincipalID key \<noteq> []" "advice_authorized snapshot w h key committed"
      "Option.bind (unmarshal (en_Body verified)) adviceBody_of = Some bound" "bound = cm_commitment committed"
      "EnvelopeCommitment cr raw (ap_clock env 3) = Inr commitment"
    by blast
  obtain found ckey where found: "found \<in> set (authority_cases db)" "cr_TenantID found = sv_tenant s" "cr_CaseID found = eh_CaseID h"
    "cr_Commitment found = cm_commitment committed" "cr_Domain found = cm_domain committed"
    "registered_signature cr snapshot UsageEdge (ap_clock env 4) (cr_Raw found) ckey"
    using ok(3) by (rule findCommittedCase_Inr)
  have h: "h = header_of verified"
    using assms verifyRegisteredEnvelope_Inr(2) [OF ok(4)] by (simp add: ReadHeader_Inr)
  have may: "kr_PrincipalID key = wl_PrincipalID w"
      "\<And>req. car_CaseID req = en_CaseID verified \<Longrightarrow> car_CaseCommitment req = cm_commitment committed
        \<Longrightarrow> car_RoutingEpoch req = en_RoutingEpoch verified \<Longrightarrow> dispatcher_admitted cr s env db snapshot w req"
    using ok(7) found by (auto simp: advice_authorized_def dispatcher_admitted_def h header_of_def split: option.splits)
  show thesis
    by (rule admitted [OF verifyRegisteredEnvelope_Inr(1) [OF ok(4)] may(1)])
      (simp_all add: submitAdvice_def ok may(2))
next
  case False
  then have "\<exists>e. submitAdvice cr s env w raw h snapshot db = (Inl e, db)"
    by (auto simp: submitAdvice_def split: option.splits sum.splits)
  then show thesis using refused by blast
qed

text \<open>
  C3. Admission is authenticated.  Submitting bytes as a case or advice either fails and leaves the authority
  untouched, or is the commit of exactly these bytes after all of the following held: the registry they name is
  committed, verifies from the pinned root and is in force; they carry a valid signature of a key that
  this registry gives to the authenticated sender for the purpose and that is usable now; and the sender
  is the registered issuing edge at its current generation on a route that authorises it, or the
  dispatcher of the domain of a committed case that itself carries a registered signature.
\<close>

theorem admission_authenticated:
  "(\<exists>e. Submit cr s env w raw db = (Inl e, db))
   \<or> (\<exists>h snapshot key req. ReadHeader raw = Inr h \<and> committed_registry cr s env h db snapshot
        \<and> registered_signature cr snapshot UsageEdge (ap_clock env 2) raw key \<and> kr_PrincipalID key = wl_PrincipalID w
        \<and> issuer_admitted snapshot w req \<and> ccr_Raw req = raw
        \<and> EnvelopeCommitment cr raw (ap_clock env 3) = Inr (ccr_Commitment req)
        \<and> Submit cr s env w raw db = commit_answer (CommitCase (sv_authority s) (ap_commit env) req db))
   \<or> (\<exists>h snapshot key req. ReadHeader raw = Inr h \<and> committed_registry cr s env h db snapshot
        \<and> registered_signature cr snapshot UsageAdvice (ap_clock env 2) raw key \<and> kr_PrincipalID key = wl_PrincipalID w
        \<and> dispatcher_admitted cr s env db snapshot w req \<and> car_Raw req = raw
        \<and> EnvelopeCommitment cr raw (ap_clock env 3) = Inr (car_Commitment req)
        \<and> Submit cr s env w raw db = commit_answer (CommitAdvice (sv_authority s) (ap_commit env) req db))"
proof (cases "\<exists>h snapshot. ReadHeader raw = Inr h \<and> (eh_Schema h = Family_Case \<or> eh_Schema h = Family_Advice)
    \<and> api_resolveRegistry cr s env h db = Inr snapshot")
  case True
  then obtain h snapshot where h: "ReadHeader raw = Inr h" "eh_Schema h = Family_Case \<or> eh_Schema h = Family_Advice"
    and r: "api_resolveRegistry cr s env h db = Inr snapshot" by blast
  have reg: "committed_registry cr s env h db snapshot" by (rule api_resolveRegistry_Inr [OF r])
  show ?thesis
  proof (cases "eh_Schema h = Family_Case")
    case True
    then have eq: "Submit cr s env w raw db = submitCase cr s env w raw h snapshot db"
      by (simp add: Submit_def h(1) r)
    show ?thesis unfolding eq using h(1) reg by (cases rule: submitCase_cases [of cr s env w raw h snapshot db]) blast+
  next
    case False
    then have eq: "Submit cr s env w raw db = submitAdvice cr s env w raw h snapshot db"
      using h(2) by (simp add: Submit_def h(1) r)
    show ?thesis unfolding eq using h(1) reg by (cases rule: submitAdvice_cases [OF h(1), of cr s env w snapshot db]) blast+
  qed
next
  case False
  then have "\<exists>e. Submit cr s env w raw db = (Inl e, db)"
    by (auto simp: Submit_def split: sum.splits)
  then show ?thesis by blast
qed

end
