(* ===== verification/Carrier_Roundtrip.thy ===== *)
theory Carrier_Roundtrip
  imports Delivery_Run Edge_Consumer
begin

text \<open>
  The way of a delivery through the broker: what the delivery worker writes into a message, the addressed
  edge reads back.
\<close>

lemma ParseUint_Format: "n < 2 ^ 64 \<Longrightarrow> ParseUint (FormatUint n) = Some n"
  by (simp add: FormatUint_def ParseUint_itoa)

lemma uint64_int64: "0 \<le> x \<Longrightarrow> x \<le> max_int64 \<Longrightarrow> int (uint64 x) = x"
  by (simp add: uint64_def max_int64_def)

section \<open>The message\<close>

text \<open>A message as the broker hands it to a pull consumer, with the coordinates it gave it in the stream.\<close>

definition received :: "nats_Msg \<Rightarrow> js_metadata \<Rightarrow> js_message" where
  "received m md =
    \<lparr>jsm_Metadata = Inr (Some md), jsm_Subject = msg_Subject m, jsm_Data = msg_Data m,
     jsm_Header = (\<lambda>name. map snd (filter (\<lambda>h. fst h = name) (msg_Header m))), jsm_DoubleAck = None, jsm_Nak = None\<rparr>"

lemma edge_request:
  assumes "publishRequest item = Inr request" and "it_DestinationKind item = ''edge_delivery''"
  shows "request = (base_request item)\<lparr>pr_Destination := DestinationEdge, pr_EdgeID := it_EdgeID item,
      pr_EdgeGeneration := uint64 (it_EdgeGeneration item), pr_DeliverySequence := uint64 (it_DeliverySequence item)\<rparr>"
    and "it_ID item \<noteq> []" "it_TenantID item \<noteq> []" "it_EdgeID item \<noteq> []" "0 < it_EdgeGeneration item"
    "0 < it_DeliverySequence item" "0 < it_AuthorityRevision item" "it_Raw item \<noteq> []" "length (it_Raw item) \<le> MaxEnvelopeBytes"
  using assms
  by (auto simp: publishRequest_def route_request_def validateCommonItem_def SubjectFor_def validatePublishRequest_def
      base_request_def split: option.splits sum.splits if_splits)

text \<open>
  C12. The addressed edge reads back what the worker published.  When a claimed outbox item for an edge turns
  into a message, the edge incarnation of the item's tenant, edge and generation accepts that message and
  reads from its subject and headers exactly the item's delivery sequence and generation, with the item's
  bytes as data.  The hypotheses say that the item's numbers are 64-bit integers and that the broker
  delivers the message from the stream with a positive stream sequence.
\<close>

theorem published_message_read_back:
  assumes "publishRequest item = Inr request" and "SubjectFor request = Inr subject"
    and "it_DestinationKind item = ''edge_delivery''" and "item_int64 item"
    and "jmd_Stream md = StreamName" and "0 < jmd_StreamSequence md"
  shows "jetStream_Metadata
      \<lparr>id_TenantID = it_TenantID item, id_EdgeID = it_EdgeID item, id_Generation = it_EdgeGeneration item\<rparr>
      (received (publish_message subject request) md)
    = Inr \<lparr>jm_Stream = StreamName, jm_Sequence = jmd_StreamSequence md, jm_DeliverySeq = it_DeliverySequence item,
           jm_TenantID = it_TenantID item, jm_EdgeID = it_EdgeID item, jm_EdgeGeneration = it_EdgeGeneration item\<rparr>
    \<and> jsm_Data (received (publish_message subject request) md) = it_Raw item"
proof -
  note item = edge_request [OF assms(1,3)]
  have range: "int (uint64 (it_EdgeGeneration item)) = it_EdgeGeneration item"
      "int (uint64 (it_DeliverySequence item)) = it_DeliverySequence item"
      "int (uint64 (it_AuthorityRevision item)) = it_AuthorityRevision item"
    using item(5-7) assms(4) by (simp_all add: uint64_int64 item_int64_def)
  have subject: "subject = edgeDeliverySubject
      \<lparr>id_TenantID = it_TenantID item, id_EdgeID = it_EdgeID item, id_Generation = it_EdgeGeneration item\<rparr>"
    using assms(2) item(3-6) range
    by (auto simp: item(1) SubjectFor_def destinationSubject_def base_request_def edgeDeliverySubject_def
        EdgeIdentity_validate_def Let_def split: option.splits if_splits)
  have fact: "positiveUintHeader (jsm_Header (received (publish_message subject request) md)) ''Snagline-Fact-Sequence''
      = Inr (uint64 (it_AuthorityRevision item))"
    using item(7) range(3) assms(4)
    by (simp add: positiveUintHeader_def received_def publish_message_def item(1) base_request_def ParseUint_Format uint64_def)
  have int_header: "positiveIntHeader (jsm_Header (received (publish_message subject request) md)) name = Inr v"
    if "(name, v) \<in> {(''Snagline-Delivery-Sequence'', it_DeliverySequence item), (''Snagline-Edge-Generation'', it_EdgeGeneration item)}"
    for name v
    using that item(5,6) range(1,2) assms(4)
    by (auto simp: positiveIntHeader_def received_def publish_message_def item(1) base_request_def FormatUint_def
        ParseInt_itoa item_int64_def max_int64_def)
  show ?thesis
    using item(2,8,9) assms(5,6) fact int_header subject
    by (simp add: jetStream_Metadata_def) (simp add: received_def publish_message_def item(1) base_request_def)
qed

definition ex_edge_item :: Item where
  "ex_edge_item = \<lparr>it_ID = ''o'', it_LeaseToken = ''token'', it_TenantID = ''t'', it_EventKind = ''case'',
     it_EntityID = ''c'', it_DestinationKind = ''edge_delivery'', it_DestinationKey = ''e@7'', it_Raw = ''case'',
     it_AuthorityRevision = 2, it_DomainID = [], it_EdgeID = ''e'', it_EdgeGeneration = 7, it_DeliverySequence = 12\<rparr>"

theorem published_message_read_back_witness:
  "\<exists>request subject. publishRequest ex_edge_item = Inr request \<and> SubjectFor request = Inr subject
    \<and> map_sum id jm_DeliverySeq (jetStream_Metadata \<lparr>id_TenantID = ''t'', id_EdgeID = ''e'', id_Generation = 7\<rparr>
        (received (publish_message subject request) \<lparr>jmd_Stream = StreamName, jmd_StreamSequence = 5\<rparr>)) = Inr 12"
proof -
  have key: "''e@7'' = ''e'' @ ''@'' @ itoa 7" by code_simp
  obtain request where r: "publishRequest ex_edge_item = Inr request"
    by (simp add: publishRequest_def validateCommonItem_def route_request_def base_request_def SubjectFor_def ex_edge_item_def
        validatePublishRequest_def destinationSubject_def Let_def uint64_def MaxEnvelopeBytes_def key [simplified])
  then obtain subject where subject: "SubjectFor request = Inr subject"
    by (auto simp: publishRequest_def split: option.splits sum.splits)
  have "it_DestinationKind ex_edge_item = ''edge_delivery''" "item_int64 ex_edge_item"
    by (simp_all add: ex_edge_item_def item_int64_def max_int64_def)
  from published_message_read_back [OF r subject this, of "\<lparr>jmd_Stream = StreamName, jmd_StreamSequence = 5\<rparr>"] r subject
  show ?thesis by (intro exI conjI) (assumption, assumption, simp add: ex_edge_item_def)
qed

end
