(* ===== verification/Edge_Replica.thy ===== *)
theory Edge_Replica
  imports Edge_Log Edge_Consumer "HOL-Library.Sublist"
begin

text \<open>
  What a journal consumer relies on in its verifier, as an interface: a verdict that is not transient is
  only given on a delivery that the source really holds under that sequence.  From this alone, whatever the
  broker delivers and whatever pages are fetched, the consumer's log stays a copy of the beginning of the
  source, and authoritative reconciliation ends.  A verifier that is authentic byte for byte gives this interface.
\<close>

section \<open>Logs\<close>

text \<open>The log of an incarnation: the sequence of each recorded delivery and the hash of its bytes.\<close>

definition edge_log :: "EdgeIdentity \<Rightarrow> edge_db \<Rightarrow> (int \<times> string) list" where
  "edge_log i db = map (\<lambda>r. (dl_delivery_seq r, dl_raw_sha256 r)) (log_of (identity_key i) db)"

definition numbered :: "(int \<times> string) list \<Rightarrow> bool" where
  "numbered log \<longleftrightarrow> map fst log = [1..int (length log)]"

lemma edge_log_numbers: "log_inv db \<Longrightarrow> map fst (edge_log i db) = [1..last_seq (identity_key i) db]"
  using log_invD(1) [of db "identity_key i"] by (simp add: edge_log_def comp_def)

lemma length_edge_log: "log_inv db \<Longrightarrow> int (length (edge_log i db)) = last_seq (identity_key i) db"
  using arg_cong [OF edge_log_numbers [of db i], of length] last_seq_nonneg [of db "identity_key i"] by simp

lemma edge_log_same: "(\<And>key. log_of key b = log_of key a) \<Longrightarrow> edge_log i b = edge_log i a"
  by (simp add: edge_log_def)

lemma numbered_nth:
  assumes "numbered log" "(int n + 1, h) \<in> set log"
  shows "n < length log" "log ! n = (int n + 1, h)"
proof -
  obtain k where k: "k < length log" "log ! k = (int n + 1, h)" using assms(2) by (auto simp: in_set_conv_nth)
  have "map fst log ! k = int k + 1" using assms(1) k(1) by (simp add: numbered_def)
  then have "k = n" using k by simp
  with k show "n < length log" "log ! n = (int n + 1, h)" by simp_all
qed

text \<open>The next entry of a numbered log extends a prefix of it.\<close>

lemma prefix_next:
  assumes "numbered log" "prefix xs log" "(int (length xs) + 1, h) \<in> set log"
  shows "prefix (xs @ [(int (length xs) + 1, h)]) log"
proof -
  obtain ys where log: "log = xs @ ys" using assms(2) by (auto elim: prefixE)
  from numbered_nth [OF assms(1,3)] log have "ys \<noteq> []" "hd ys = (int (length xs) + 1, h)"
    by (cases ys; simp)+
  then have "log = (xs @ [(int (length xs) + 1, h)]) @ tl ys" by (cases ys) (simp_all add: log)
  then show ?thesis by (metis prefixI)
qed

section \<open>Applying a delivery\<close>

text \<open>What the store requires of a delivery besides its verdict.\<close>

definition deliverable :: "JournalDelivery \<Rightarrow> bool" where
  "deliverable dl \<longleftrightarrow> jd_EdgeID dl \<noteq> [] \<and> 0 < jd_EdgeGeneration dl \<and> 0 < jd_DeliverySeq dl \<and> jd_Raw dl \<noteq> []"

lemma applyVerified_entry:
  assumes inv: "log_inv db" and run: "applyVerified d env dl v rsn p now allow db = (res, db')"
  shows "(\<forall>key. log_of key db' = log_of key db)
    \<or> (deliverable dl \<and> jd_DeliverySeq dl = last_seq (identity_key (delivery_identity dl)) db + 1
       \<and> (\<exists>row. dl_delivery_seq row = jd_DeliverySeq dl \<and> dl_raw_sha256 row = hash (jd_Raw dl)
            \<and> (\<forall>k. log_of k db' = log_of k db @ (if k = identity_key (delivery_identity dl) then [row] else []))))"
proof (cases "db' = db")
  case False
  then have valid: "validateDelivery dl v rsn p now = None"
    and tx: "edge_transaction d env (applyVerified_work d env dl v rsn p now allow) db = (res, db')"
    using run by (auto simp: applyVerified_def split: option.splits if_splits)
  have seq: "deliverable dl"
    using valid by (auto simp: validateDelivery_def deliverable_def split: if_splits)
  then have positive: "0 < jd_DeliverySeq dl" by (simp add: deliverable_def)
  obtain outcome where work: "applyVerified_work d env dl v rsn p now allow db = Inr (outcome, db')"
    using tx False by (auto simp: edge_transaction_def split: option.splits sum.splits if_splits)
  show ?thesis
    using inv positive work
  proof (cases rule: applyVerified_work_cases)
    case (halt reason)
    have "gs_LastContiguousSeq (state_at (delivery_identity dl) db)
        = last_seq (identity_key (gs_Identity (state_at (delivery_identity dl) db))) db"
      by (simp add: state_at_simps)
    then show ?thesis by (simp add: halt(2) require_log)
  next
    case (recorded v' rsn' db1)
    show ?thesis
      using seq recorded(1) recorded_log(1) [OF settle_tables [OF recorded(3)] recorded(5)]
      by (intro disjI2 conjI exI [of _ "delivery_row_of dl p v' rsn' now"]) auto
  qed (use False in simp)
qed simp

text \<open>A verdict the consumer acts on: anything but a transient or unknown failure.\<close>

fun settled :: "verify_error + VerifiedProjection option \<Rightarrow> bool" where
  "settled (Inl (VerificationError reason permanent err)) = permanent"
| "settled (Inl (OtherError err)) = False"
| "settled (Inr p) = True"

lemma apply_delivery_cases:
  obtains (unsettled) e where "apply_delivery d env verify c dl now reconciling db = (Inl e, db)"
  | (applied) v rsn p where "settled (verify dl)"
      "apply_delivery d env verify c dl now reconciling db = applyVerified d env dl v rsn p now reconciling db"
proof (cases "verify dl" rule: settled.cases)
  case (1 reason permanent err)
  then show thesis
    by (cases permanent; cases reconciling)
      (auto simp: apply_delivery_def Let_def applyReconciled_def ApplyVerified_def intro: applied unsettled)
next
  case (2 err)
  then show thesis by (auto simp: apply_delivery_def intro: unsettled)
next
  case (3 p)
  then show thesis
    by (cases "routeMatches (jd_Subject dl) (jc_identity c) p"; cases reconciling)
      (auto simp: apply_delivery_def Let_def applyReconciled_def ApplyVerified_def intro: applied)
qed

section \<open>The consumer over an exact verifier\<close>

text \<open>The store's log of an incarnation is well formed and the beginning of the source.\<close>

definition copies :: "(int \<times> string) list \<Rightarrow> EdgeIdentity \<Rightarrow> edge_db \<Rightarrow> bool" where
  "copies source i db \<longleftrightarrow> log_inv db \<and> prefix (edge_log i db) source"

lemma copies_log: "copies source i db \<Longrightarrow> log_inv db"
  by (simp add: copies_def)

lemma copies_last: "copies source i db \<Longrightarrow> last_seq (identity_key i) db \<le> int (length source)"
  using length_edge_log [of db i] by (auto simp: copies_def dest: prefix_length_le)

lemma copies_grow: "copies source i db \<Longrightarrow> prefix source source' \<Longrightarrow> copies source' i db"
  by (auto simp: copies_def intro: prefix_order.trans)

lemma copies_same: "copies source i a \<Longrightarrow> log_inv b \<Longrightarrow> (\<And>key. log_of key b = log_of key a) \<Longrightarrow> copies source i b"
  using edge_log_same [of b a i] by (simp add: copies_def)

lemma require_same_log:
  assumes "log_inv db"
  shows "log_of key (snd (RequireReconciliation d env i observed reason now db)) = log_of key db"
proof -
  have st: "gs_LastContiguousSeq (fst (deliveryStateTx i x)) = last_seq (identity_key (gs_Identity (fst (deliveryStateTx i x)))) x" for x
    by (simp add: deliveryStateTx_simps)
  show ?thesis
    by (auto simp: RequireReconciliation_def edge_transaction_def require_log [OF st] split: option.splits)
qed

lemma copies_require: "copies source i db \<Longrightarrow> copies source i (snd (RequireReconciliation d env j observed reason now db))"
  using require_same_log [OF copies_log] require_step_log [OF copies_log] by (blast intro: copies_same)

lemma complete_same_log: "log_of key (snd (CompleteReconciliation d env j through high now db)) = log_of key db"
proof -
  obtain res db' where c: "CompleteReconciliation d env j through high now db = (res, db')" by fastforce
  have "ssp_edge_deliveries db' = ssp_edge_deliveries db" using complete_effect [OF c] by auto
  then show ?thesis by (simp add: c log_of_def)
qed

lemma copies_complete: "copies source i db \<Longrightarrow> copies source i (snd (CompleteReconciliation d env j through high now db))"
  using complete_step_log [OF copies_log] complete_same_log by (blast intro: copies_same)

lemma DeliveryState_last: "DeliveryState d env i db = Inr st \<Longrightarrow> gs_LastContiguousSeq st = last_seq (identity_key i) db"
  by (auto simp: DeliveryState_def zero_state_def state_of_row_def last_seq_def split: option.splits if_splits)

lemma names_identity_key: "names_identity i dl \<longleftrightarrow> delivery_identity dl = i"
  by (cases i) (auto simp: names_identity_def delivery_identity_def)

lemma consumer_outcome_identity: "consumer_outcome out c = (r, c') \<Longrightarrow> jc_identity c' = jc_identity c"
  by (auto simp: consumer_outcome_def split: if_splits)

lemma Handle_identity: "Handle d env verify msg now c db = (res, c', db') \<Longrightarrow> jc_identity c' = jc_identity c"
  by (auto simp: Handle_def Let_def split: if_splits sum.splits prod.splits dest: consumer_outcome_identity)

text \<open>What handling a message can do to the store: nothing, a halt, or the application of its delivery.\<close>

lemma Handle_db:
  assumes "Handle d env verify msg now c db = (res, c', db')"
  obtains (nothing) "db' = db"
  | (require) observed reason where "db' = snd (RequireReconciliation d env (jc_identity c) observed reason now db)"
  | (apply_it) dl r where "names_identity (jc_identity c) dl" "apply_delivery d env verify c dl now False db = (r, db')"
proof (cases "jc_halted c \<or> (\<exists>e. msg_Metadata msg = Inl e)")
  case True
  then have "db' = db" using assms by (auto simp: Handle_def split: if_splits)
  then show thesis by (rule nothing)
next
  case False
  then obtain meta where meta: "msg_Metadata msg = Inr meta" by (cases "msg_Metadata msg") auto
  let ?dl = "message_delivery meta msg"
  show thesis
  proof (cases "jd_DeliverySeq ?dl \<le> 0")
    case True
    then have "db' = db" using assms False by (simp add: Handle_def Let_def meta)
    then show thesis by (rule nothing)
  next
    case positive: False
    show thesis
    proof (cases "names_identity (jc_identity c) ?dl")
      case True
      obtain r db1 where a: "apply_delivery d env verify c ?dl now False db = (r, db1)" by fastforce
      have "db' = db1" using assms False positive True
        by (cases r) (simp_all add: Handle_def Let_def meta a split: prod.splits)
      with a have "apply_delivery d env verify c ?dl now False db = (r, db')" by simp
      with True show thesis by (rule apply_it)
    next
      case other: False
      obtain r db1 where a: "RequireReconciliation d env (jc_identity c) 0 ''delivery_identity_mismatch'' now db = (r, db1)" by fastforce
      have "db' = db1" using assms False positive other
        by (cases r) (simp_all add: Handle_def Let_def meta a)
      with a have "db' = snd (RequireReconciliation d env (jc_identity c) 0 ''delivery_identity_mismatch'' now db)" by simp
      then show thesis by (rule require)
    qed
  qed
qed

lemma batch_contiguous_names: "batch_contiguous i expected dls \<Longrightarrow> dl \<in> set dls \<Longrightarrow> names_identity i dl"
  by (induction i expected dls rule: batch_contiguous.induct) (auto split: if_splits)

text \<open>
  What the end of a pass can do: leave the store and the consumer, or complete the reconciliation, and it
  resumes only at the source's high watermark.
\<close>

lemma finish_reconcile_effect:
  assumes "finish_reconcile d read_env env batch now result c db = ((result', err), c', db')" "\<not> rs_Resumed result"
  shows "jc_identity c' = jc_identity c" "if rs_Resumed result' then \<not> jc_halted c' else c' = c"
    and "db' = db \<or> db' = snd (CompleteReconciliation d env (jc_identity c) (rb_CompleteThrough batch) (rb_HighWatermark batch) now db)"
    and "rs_Resumed result' \<Longrightarrow> last_seq (identity_key (jc_identity c)) db = rb_HighWatermark batch"
    and "err = None \<Longrightarrow> \<not> rs_Resumed result' \<Longrightarrow> db' = db \<and> last_seq (identity_key (jc_identity c)) db = rb_CompleteThrough batch
      \<and> rb_CompleteThrough batch \<noteq> rb_HighWatermark batch"
  using assms DeliveryState_last [of d read_env "jc_identity c" db]
  by (auto simp: finish_reconcile_def split: sum.splits if_splits prod.splits)

text \<open>What a pass can do: nothing, or apply a contiguous batch of the fetched deliveries and end.\<close>

lemma Reconcile_pass:
  assumes run: "Reconcile d envs verify r now c db = ((result, err), c', db')"
  obtains (nothing) "db' = db" "c' = c" "\<not> rs_Resumed result" "err \<noteq> None"
  | (halted) batch :: ReconcileBatch and res where "\<forall>dl \<in> set (rb_Deliveries batch). names_identity (jc_identity c) dl"
      "reconcile_deliveries d envs verify c now 3 (rb_Deliveries batch) db = (res, db')" "c' = c" "\<not> rs_Resumed result" "err \<noteq> None"
  | (finished) fetchAfter batch res db1 result0 where "r = Some fetchAfter"
      "fetchAfter (jc_identity c) (last_seq (identity_key (jc_identity c)) db) = Inr batch"
      "\<forall>dl \<in> set (rb_Deliveries batch). names_identity (jc_identity c) dl"
      "reconcile_deliveries d envs verify c now 3 (rb_Deliveries batch) db = (res, db1)"
      "finish_reconcile d (envs 1) (envs 2) batch now result0 c db1 = ((result, err), c', db')" "\<not> rs_Resumed result0"
      "last_seq (identity_key (jc_identity c)) db \<le> rb_CompleteThrough batch"
proof (cases "db' = db \<and> c' = c \<and> \<not> rs_Resumed result \<and> err \<noteq> None")
  case True
  then show thesis by (elim conjE) (rule nothing)
next
  case False
  let ?i = "jc_identity c"
  have zero: "\<not> rs_Resumed zero_result" by (simp add: zero_result_def)
  obtain fetchAfter where r: "r = Some fetchAfter" using run False zero
    by (cases r) (auto simp: Reconcile_def split: if_splits)
  obtain state where st: "DeliveryState d (envs 0) ?i db = Inr state" using run False zero
    by (cases "DeliveryState d (envs 0) ?i db") (auto simp: Reconcile_def r split: if_splits)
  obtain batch where batch: "fetchAfter ?i (gs_LastContiguousSeq state) = Inr batch" using run False zero
    by (cases "fetchAfter ?i (gs_LastContiguousSeq state)") (auto simp: Reconcile_def r st split: if_splits)
  obtain e applied db1 where rd: "reconcile_deliveries d envs verify c now 3 (rb_Deliveries batch) db = ((e, applied), db1)"
    by (metis surj_pair)
  have cont: "batch_contiguous ?i (wrap64 (gs_LastContiguousSeq state + 1)) (rb_Deliveries batch)"
    using run False zero by (auto simp: Reconcile_def r st batch Let_def split: if_splits)
  then have names: "\<forall>dl \<in> set (rb_Deliveries batch). names_identity ?i dl" using batch_contiguous_names by blast
  have through: "last_seq (identity_key ?i) db \<le> rb_CompleteThrough batch"
    unfolding DeliveryState_last [OF st, symmetric] using run False zero
    by (auto simp: Reconcile_def r st batch Let_def split: if_splits)
  have fetched: "fetchAfter ?i (last_seq (identity_key ?i) db) = Inr batch"
    using batch DeliveryState_last [OF st] by simp
  show thesis
  proof (cases e)
    case None
    let ?result0 = "zero_result\<lparr>rs_HighWatermark := rb_HighWatermark batch, rs_CompleteThrough := rb_CompleteThrough batch,
      rs_Applied := applied\<rparr>"
    have "finish_reconcile d (envs 1) (envs 2) batch now ?result0 c db1 = ((result, err), c', db')"
      using run False zero cont None by (auto simp: Reconcile_def r st batch Let_def rd split: if_splits)
    from finished [OF r fetched names rd this _ through] show thesis using zero by simp
  next
    case (Some x)
    have "db1 = db' \<and> c' = c \<and> \<not> rs_Resumed result \<and> err \<noteq> None"
      using run False zero cont Some by (auto simp: Reconcile_def r st batch Let_def rd split: if_splits)
    then show thesis using rd by (intro halted [OF names]) auto
  qed
qed

text \<open>A pass that ends without an error and without resuming stands at the boundary of its batch.\<close>

lemma Reconcile_boundary:
  assumes run: "Reconcile d envs verify (Some fetchAfter) now c db = ((result, None), c', db')" and "\<not> rs_Resumed result"
  shows "c' = c \<and> (\<exists>batch. fetchAfter (jc_identity c) (last_seq (identity_key (jc_identity c)) db) = Inr batch
      \<and> last_seq (identity_key (jc_identity c)) db \<le> rb_CompleteThrough batch
      \<and> last_seq (identity_key (jc_identity c)) db' = rb_CompleteThrough batch \<and> rb_CompleteThrough batch \<noteq> rb_HighWatermark batch)"
  using run
proof (cases rule: Reconcile_pass)
  case (finished fetch batch res db1 result0)
  note finish = finish_reconcile_effect [OF finished(5,6)]
  show ?thesis using finish(2) finish(5) [OF refl assms(2)] assms(2) finished(1,2,7) by auto
qed simp_all

locale exact_deliveries =
  fixes i :: EdgeIdentity and verify :: verifier and source :: "(int \<times> string) list"
  assumes exact: "names_identity i dl \<Longrightarrow> deliverable dl \<Longrightarrow> settled (verify dl)
    \<Longrightarrow> (jd_DeliverySeq dl, hash (jd_Raw dl)) \<in> set source"
begin

lemma apply_copies:
  assumes num: "numbered source" and copy: "copies source i db" and names: "names_identity i dl"
    and run: "apply_delivery d env verify c dl now reconciling db = (res, db')"
  shows "copies source i db'"
proof (cases rule: apply_delivery_cases [of d env verify c dl now reconciling db])
  case (unsettled e)
  then show ?thesis using run copy by simp
next
  case (applied v rsn p)
  have key: "identity_key (delivery_identity dl) = identity_key i" using names by (simp add: names_identity_key)
  have av: "applyVerified d env dl v rsn p now reconciling db = (res, db')" using applied(2) run by simp
  have inv: "log_inv db'" using applyVerified_log [OF copies_log [OF copy], of d env dl v rsn p now reconciling] av by simp
  from applyVerified_entry [OF copies_log [OF copy] av] show ?thesis
  proof (elim disjE conjE exE)
    assume "\<forall>key. log_of key db' = log_of key db"
    then show ?thesis using copies_same [OF copy inv] by blast
  next
    fix row
    assume seq: "deliverable dl" "jd_DeliverySeq dl = last_seq (identity_key (delivery_identity dl)) db + 1"
      and row: "dl_delivery_seq row = jd_DeliverySeq dl" "dl_raw_sha256 row = hash (jd_Raw dl)"
      and log: "\<forall>k. log_of k db' = log_of k db @ (if k = identity_key (delivery_identity dl) then [row] else [])"
    have next_seq: "jd_DeliverySeq dl = int (length (edge_log i db)) + 1"
      using seq(2) length_edge_log [OF copies_log [OF copy]] by (simp add: key)
    have "log_of (identity_key i) db' = log_of (identity_key i) db @ [row]"
      using log [rule_format, of "identity_key i"] by (simp add: key)
    then have "edge_log i db' = edge_log i db @ [(jd_DeliverySeq dl, hash (jd_Raw dl))]"
      using row by (simp add: edge_log_def)
    moreover have "(jd_DeliverySeq dl, hash (jd_Raw dl)) \<in> set source" by (rule exact [OF names seq(1) applied(1)])
    ultimately show ?thesis using prefix_next [OF num] copy inv next_seq by (simp add: copies_def)
  qed
qed

lemma handle_copies:
  assumes num: "numbered source" and copy: "copies source i db" and i: "jc_identity c = i"
    and run: "Handle d env verify msg now c db = (res, c', db')"
  shows "copies source i db'"
  using run
proof (cases rule: Handle_db)
  case (apply_it dl r)
  then show ?thesis using apply_copies [OF num copy] i by blast
qed (use copy copies_require [OF copy] in auto)

lemma handleNext_copies:
  assumes num: "numbered source" and copy: "copies source i db" and i: "jc_identity c = i"
    and run: "HandleNext d env verify pull fetch now c db = (res, c', db')"
  shows "copies source i db' \<and> jc_identity c' = i"
proof (cases "db' = db \<and> c' = c")
  case False
  then obtain m where m: "fetch = Fetched m" "\<not> jc_halted c"
    using run by (auto simp: HandleNext_def split: if_splits fetch_result.splits option.splits)
  obtain r c1 db1 where h: "Handle d env verify (jetStreamJournalMessage (jp_identity pull) m) now c db = (r, c1, db1)"
    by (metis surj_pair)
  have "c1 = c'" "db1 = db'" using run m h by (auto simp: HandleNext_def split: sum.splits)
  with h show ?thesis using handle_copies [OF num copy i] Handle_identity i by metis
qed (use copy i in simp)

lemma reconcile_deliveries_copies:
  assumes num: "numbered source"
  shows "copies source i db \<Longrightarrow> \<forall>dl \<in> set dls. names_identity i dl
    \<Longrightarrow> reconcile_deliveries d envs verify c now n dls db = (res, db') \<Longrightarrow> copies source i db'"
proof (induction dls arbitrary: n db res)
  case (Cons dl dls)
  obtain r db1 where a: "apply_delivery d (envs n) verify c dl now True db = (r, db1)" by fastforce
  have one: "copies source i db1" using apply_copies [OF num Cons.prems(1) _ a] Cons.prems(2) by simp
  show ?case
  proof (cases "db' = db1")
    case False
    then obtain res' where "reconcile_deliveries d envs verify c now (Suc n) dls db1 = (res', db')"
      using Cons.prems(3) a by (auto split: sum.splits prod.splits if_splits)
    then show ?thesis using Cons.IH one Cons.prems(2) by simp
  qed (simp add: one)
qed simp

lemma reconcile_copies:
  assumes num: "numbered source" and copy: "copies source i db" and i: "jc_identity c = i"
    and run: "Reconcile d envs verify r now c db = ((result, err), c', db')"
  shows "copies source i db' \<and> jc_identity c' = i \<and> (if rs_Resumed result then \<not> jc_halted c' else c' = c)
    \<and> (rs_Resumed result \<longrightarrow> (\<exists>fetchAfter batch. r = Some fetchAfter
         \<and> fetchAfter i (last_seq (identity_key i) db) = Inr batch
         \<and> int (length (edge_log i db')) = rb_HighWatermark batch))"
  using run
proof (cases rule: Reconcile_pass)
  case nothing
  then show ?thesis using copy i by simp
next
  case (halted batch res)
  then show ?thesis using reconcile_deliveries_copies [OF num copy] i by simp
next
  case (finished fetchAfter batch res db1 result0)
  have copy1: "copies source i db1" using reconcile_deliveries_copies [OF num copy _ finished(4)] finished(3) i by simp
  note finish = finish_reconcile_effect [OF finished(5,6)]
  have copy': "copies source i db'" using finish(3) copy1 copies_complete [OF copy1] by auto
  have "edge_log i db' = edge_log i db1" using finish(3) edge_log_same [OF complete_same_log] by auto
  then have "rs_Resumed result \<Longrightarrow> int (length (edge_log i db')) = rb_HighWatermark batch"
    using finish(4) length_edge_log [OF copies_log [OF copy1], of i] i by simp
  then show ?thesis using finished(1,2) finish(1,2) copy' i by auto
qed

end

text \<open>
  A verifier that is authentic for a log of deliveries, byte for byte, is exact for the log of their hashes,
  which is what the edge records of them.
\<close>

definition hashed :: "(int \<times> bytes) list \<Rightarrow> (int \<times> string) list" where
  "hashed deliveries = map (\<lambda>(n, raw). (n, hash raw)) deliveries"

locale authentic_deliveries =
  fixes i :: EdgeIdentity and verify :: verifier and deliveries :: "(int \<times> bytes) list"
  assumes authentic: "names_identity i dl \<Longrightarrow> deliverable dl \<Longrightarrow> settled (verify dl)
    \<Longrightarrow> (jd_DeliverySeq dl, jd_Raw dl) \<in> set deliveries"

sublocale authentic_deliveries \<subseteq> exact_deliveries i verify "hashed deliveries"
  by unfold_locales (force simp: hashed_def dest: authentic)

section \<open>Authoritative reconciliation ends\<close>

text \<open>Each round without an error takes the log further, and the log is never longer than the source.\<close>

lemma reconcile_loop_ends:
  assumes num: "numbered source" and exact: "\<And>n. exact_deliveries i (ro_verify (rounds n)) source"
  shows "copies source i db \<Longrightarrow> jc_identity c = i \<Longrightarrow> jc_halted c
    \<Longrightarrow> int (length source) - last_seq (identity_key i) db < int fuel
    \<Longrightarrow> \<exists>err db'. reconcile_loop fuel d rounds n now c db = Some (err, db') \<and> copies source i db'
          \<and> (err = None \<longrightarrow> (\<exists>m after batch. ro_fetch (rounds m) i after = Inr batch
                \<and> int (length (edge_log i db')) = rb_HighWatermark batch))"
proof (induction fuel arbitrary: n c db)
  case 0
  then show ?case using copies_last by fastforce
next
  case (Suc fuel)
  let ?loop = "reconcile_loop (Suc fuel) d rounds n now c db"
  obtain result err c' db' where rec: "Reconcile d (ro_pass (rounds n)) (ro_verify (rounds n)) (Some (ro_fetch (rounds n))) now c db
      = ((result, err), c', db')" by (metis surj_pair)
  note pass = exact_deliveries.reconcile_copies [OF exact num Suc.prems(1,2) rec]
  show ?case
  proof (cases "DeliveryState d (ro_before (rounds n)) i db")
    case (Inl e)
    then have "?loop = Some (Some e, db)" using Suc.prems(2,3) by (simp add: reconcile_loop.simps)
    then show ?thesis using Suc.prems(1) by simp
  next
    case (Inr before)
    have step: "?loop = (case err of Some e \<Rightarrow> Some (Some e, db') | None \<Rightarrow>
        if rs_Resumed result then Some (None, db')
        else case DeliveryState d (ro_after (rounds n)) i db' of Inl e \<Rightarrow> Some (Some e, db') | Inr after \<Rightarrow>
          if gs_LastContiguousSeq after \<le> gs_LastContiguousSeq before
            then Some (Some (EdgeErr ''authority reconciliation made no durable progress''), db')
          else reconcile_loop fuel d rounds (Suc n) now c' db')"
      using Suc.prems(2,3) Inr rec by (subst reconcile_loop.simps) (simp split: option.splits)
    show ?thesis
    proof (cases "\<exists>r. ?loop = Some (r, db') \<and> (r = None \<longrightarrow> rs_Resumed result)")
      case True
      then obtain r where "?loop = Some (r, db')" "r = None \<longrightarrow> rs_Resumed result" by blast
      with pass show ?thesis by (intro exI [of _ r] exI [of _ db']) blast
    next
      case False
      then obtain after where after: "DeliveryState d (ro_after (rounds n)) i db' = Inr after"
        and progress: "gs_LastContiguousSeq before < gs_LastContiguousSeq after" and "\<not> rs_Resumed result"
        and next_round: "?loop = reconcile_loop fuel d rounds (Suc n) now c' db'"
        unfolding step by (auto split: option.splits if_splits sum.splits)
      have "int (length source) - last_seq (identity_key i) db' < int fuel"
        using Suc.prems(4) progress DeliveryState_last [OF Inr] DeliveryState_last [OF after] by simp
      then show ?thesis unfolding next_round using pass Suc.prems(2,3) \<open>\<not> rs_Resumed result\<close> by (intro Suc.IH) auto
    qed
  qed
qed

text \<open>
  The repair of a halted consumer has no guard on progress, but ends as well, since a page that does not
  take the log further is at the high watermark.
\<close>

definition advances :: "EdgeIdentity \<Rightarrow> (EdgeIdentity \<Rightarrow> int \<Rightarrow> edge_error + ReconcileBatch) \<Rightarrow> bool" where
  "advances i fetch \<longleftrightarrow> (\<forall>after batch. fetch i after = Inr batch \<longrightarrow> rb_CompleteThrough batch = after
     \<longrightarrow> rb_HighWatermark batch = after)"

lemma advancesD:
  "advances i fetch \<Longrightarrow> fetch i after = Inr batch \<Longrightarrow> rb_CompleteThrough batch \<noteq> rb_HighWatermark batch
    \<Longrightarrow> after \<le> rb_CompleteThrough batch \<Longrightarrow> after < rb_CompleteThrough batch"
  unfolding advances_def by fastforce

lemma reconcileEdge_ends:
  assumes num: "numbered source" and exact: "\<And>n. exact_deliveries i (ro_verify (rounds n)) source"
    and adv: "\<And>n. advances i (ro_fetch (rounds n))"
  shows "copies source i db \<Longrightarrow> jc_identity c = i
    \<Longrightarrow> \<not> jc_halted c \<or> int (length source) - last_seq (identity_key i) db < int fuel
    \<Longrightarrow> \<exists>err c' db'. reconcileEdge fuel d rounds now n c db = Some (err, c', db') \<and> copies source i db' \<and> jc_identity c' = i"
proof (induction fuel arbitrary: n c db)
  case 0
  then show ?case using copies_last [of source i db] by (auto simp: reconcileEdge.simps)
next
  case (Suc fuel)
  show ?case
  proof (cases "jc_halted c")
    case False
    then show ?thesis using Suc.prems by (auto simp: reconcileEdge.simps)
  next
    case True
    obtain result err c' db' where rec: "Reconcile d (ro_pass (rounds n)) (ro_verify (rounds n)) (Some (ro_fetch (rounds n))) (now n) c db
        = ((result, err), c', db')" by (metis surj_pair)
    note pass = exact_deliveries.reconcile_copies [OF exact num Suc.prems(1,2) rec]
    have step: "reconcileEdge (Suc fuel) d rounds now n c db = (case err of Some e \<Rightarrow> Some (Some e, c', db')
        | None \<Rightarrow> reconcileEdge fuel d rounds now (Suc n) c' db')"
      using True rec by (subst reconcileEdge.simps) (simp split: option.splits)
    show ?thesis
    proof (cases err)
      case (Some e)
      then show ?thesis using step pass by auto
    next
      case None
      have "\<not> jc_halted c' \<or> int (length source) - last_seq (identity_key i) db' < int fuel"
      proof (cases "rs_Resumed result")
        case False
        from Reconcile_boundary [OF rec [unfolded None] False] Suc.prems(2,3) True show ?thesis
          using advancesD [OF adv] by fastforce
      qed (use pass in simp)
      then show ?thesis unfolding step None using Suc.IH [of db' c' "Suc n"] pass by simp
    qed
  qed
qed

lemma require_halts:
  assumes "RequireReconciliation d env i observed reason now db = (Inr u, db')" and "NewJournalConsumer (Some d) env' v i db' = Inr c"
  shows "jc_identity c = i \<and> jc_halted c"
proof -
  have "db' = requireReconciliationTx (fst (deliveryStateTx i db)) observed reason now db"
    using assms(1) by (auto simp: RequireReconciliation_def edge_transaction_def split: option.splits if_splits)
  then have "halted_key (identity_key i) db'"
    using require_log(3) [of "fst (deliveryStateTx i db)" db "identity_key i"] by (simp add: deliveryStateTx_simps)
  then have "DeliveryState d env' i db' = Inr st \<Longrightarrow> gs_Mode st = DeliveryModeReconciliationRequired" for st
    by (auto simp: DeliveryState_def halted_key_def state_of_row_def split: option.splits if_splits)
  then show ?thesis using assms(2) by (auto simp: NewJournalConsumer_def split: if_splits sum.splits)
qed

lemma reconcileAuthoritativeEdge_ends:
  assumes num: "numbered source" and exact: "\<And>n. exact_deliveries i (ro_verify (rounds n)) source"
    and copy: "copies source i db" and fuel: "length source < fuel"
  shows "\<exists>err db'. reconcileAuthoritativeEdge fuel d read_env require_env new_env rounds i now db = Some (err, db')
      \<and> copies source i db'
      \<and> (err = None \<longrightarrow> (\<exists>m after batch. ro_fetch (rounds m) i after = Inr batch
            \<and> int (length (edge_log i db')) = rb_HighWatermark batch))"
proof (cases "now = zero_time \<or> (\<exists>e. DeliveryState d read_env i db = Inl e)")
  case True
  then show ?thesis using copy by (auto simp: reconcileAuthoritativeEdge_def split: sum.splits)
next
  case False
  then obtain state where st: "now \<noteq> zero_time" "DeliveryState d read_env i db = Inr state"
    by (cases "DeliveryState d read_env i db") auto
  obtain res db1 where req: "RequireReconciliation d require_env i (gs_HighWatermark state) ''authoritative_reconciliation'' now db
      = (res, db1)" by fastforce
  have copy1: "copies source i db1" using copies_require [OF copy] req by (metis snd_conv)
  have small: "int (length source) - last_seq (identity_key i) db1 < int fuel"
    using fuel last_seq_nonneg [OF copies_log [OF copy1], of "identity_key i"] by simp
  show ?thesis
  proof (cases "\<exists>c u. NewJournalConsumer (Some d) new_env (Some (ro_verify (rounds 0))) i db1 = Inr c \<and> res = Inr u")
    case True
    then obtain c u where c: "NewJournalConsumer (Some d) new_env (Some (ro_verify (rounds 0))) i db1 = Inr c" and u: "res = Inr u"
      by blast
    have "jc_identity c = i" "jc_halted c" using require_halts [OF req [unfolded u] c] by simp_all
    from reconcile_loop_ends [OF num exact copy1 this small] show ?thesis
      using st req u c by (simp add: reconcileAuthoritativeEdge_def)
  next
    case False
    then have "\<exists>e. reconcileAuthoritativeEdge fuel d read_env require_env new_env rounds i now db = Some (Some e, db1)"
      using st req by (cases res; cases "NewJournalConsumer (Some d) new_env (Some (ro_verify (rounds 0))) i db1")
        (auto simp: reconcileAuthoritativeEdge_def)
    then show ?thesis using copy1 by auto
  qed
qed

section \<open>More fuel changes nothing\<close>

lemma reconcile_loop_more: "reconcile_loop fuel d rounds n now c db = Some x \<Longrightarrow> reconcile_loop (fuel + k) d rounds n now c db = Some x"
proof (induction fuel arbitrary: n c db)
  case 0
  then show ?case by (subst reconcile_loop.simps, subst (asm) reconcile_loop.simps) (simp split: if_splits)
next
  case (Suc fuel)
  from Suc.prems show ?case
    by (subst reconcile_loop.simps, subst (asm) reconcile_loop.simps)
      (auto split: if_splits sum.splits option.splits prod.splits dest: Suc.IH)
qed

lemma reconcileEdge_more: "reconcileEdge fuel d rounds now n c db = Some x \<Longrightarrow> reconcileEdge (fuel + k) d rounds now n c db = Some x"
proof (induction fuel arbitrary: n c db)
  case 0
  then show ?case by (subst reconcileEdge.simps, subst (asm) reconcileEdge.simps) (simp split: if_splits)
next
  case (Suc fuel)
  from Suc.prems show ?case
    by (subst reconcileEdge.simps, subst (asm) reconcileEdge.simps)
      (auto split: if_splits sum.splits option.splits prod.splits dest: Suc.IH)
qed

lemma reconcileAuthoritativeEdge_more:
  "reconcileAuthoritativeEdge fuel d read_env require_env new_env rounds i now db = Some x
    \<Longrightarrow> reconcileAuthoritativeEdge (fuel + k) d read_env require_env new_env rounds i now db = Some x"
  by (auto simp: reconcileAuthoritativeEdge_def reconcile_loop_more split: if_splits sum.splits prod.splits)

section \<open>The consumer runs on the store's steps\<close>

text \<open>Whatever the verifier and the pages say, the consumer changes the store only by its transactions.\<close>

lemma apply_delivery_run: "edge_run d db (snd (apply_delivery d env verify c dl now reconciling db))"
  by (cases rule: apply_delivery_cases [of d env verify c dl now reconciling db])
    (auto intro: run_refl edge_run_step1 edge_step.apply_delivery)

lemma Handle_run:
  assumes "Handle d env verify msg now c db = (res, c', db')"
  shows "edge_run d db db'"
  using assms
proof (cases rule: Handle_db)
  case (apply_it dl r)
  then show ?thesis using apply_delivery_run [of d db env verify c dl now False] by simp
qed (auto intro: run_refl edge_run_step1 edge_step.require)

lemma HandleNext_run:
  assumes "HandleNext d env verify pull fetch now c db = (res, c', db')"
  shows "edge_run d db db'"
proof (cases "db' = db")
  case False
  then obtain m where m: "fetch = Fetched m" "\<not> jc_halted c"
    using assms by (auto simp: HandleNext_def split: if_splits fetch_result.splits option.splits)
  obtain r c1 db1 where h: "Handle d env verify (jetStreamJournalMessage (jp_identity pull) m) now c db = (r, c1, db1)"
    by (metis surj_pair)
  have "db1 = db'" using assms m h by (auto simp: HandleNext_def split: sum.splits)
  with h show ?thesis using Handle_run by blast
qed (simp add: run_refl)

lemma reconcile_deliveries_run: "edge_run d db (snd (reconcile_deliveries d envs verify c now n dls db))"
proof (induction dls arbitrary: n db)
  case (Cons dl dls)
  obtain r db1 where a: "apply_delivery d (envs n) verify c dl now True db = (r, db1)" by fastforce
  have one: "edge_run d db db1" using apply_delivery_run [of d db "envs n" verify c dl now True] a by simp
  have "edge_run d db (snd (reconcile_deliveries d envs verify c now (Suc n) dls db1))"
    by (rule edge_run_trans [OF Cons.IH one])
  with one show ?case
    by (cases "reconcile_deliveries d envs verify c now (Suc n) dls db1") (auto simp: a split: sum.splits)
qed (simp add: run_refl)

lemma Reconcile_run:
  assumes "Reconcile d envs verify r now c db = ((result, err), c', db')"
  shows "edge_run d db db'"
  using assms
proof (cases rule: Reconcile_pass)
  case nothing
  then show ?thesis by (simp add: run_refl)
next
  case (halted batch res)
  then show ?thesis using reconcile_deliveries_run by (metis snd_conv)
next
  case (finished fetchAfter batch res db1 result0)
  have "edge_run d db db1" using finished(4) reconcile_deliveries_run by (metis snd_conv)
  then show ?thesis using finish_reconcile_effect(3) [OF finished(5,6)]
    by (auto intro: edge_run.run_step edge_step.complete)
qed

lemma reconcile_loop_run: "reconcile_loop fuel d rounds n now c db = Some (err, db') \<Longrightarrow> edge_run d db db'"
proof (induction fuel arbitrary: n c db)
  case 0
  then show ?case by (auto simp: reconcile_loop.simps run_refl split: if_splits)
next
  case (Suc fuel)
  obtain result e c1 db1 where rec: "Reconcile d (ro_pass (rounds n)) (ro_verify (rounds n)) (Some (ro_fetch (rounds n))) now c db
      = ((result, e), c1, db1)" by (metis surj_pair)
  have "db' = db \<or> db' = db1 \<or> reconcile_loop fuel d rounds (Suc n) now c1 db1 = Some (err, db')"
    using Suc.prems rec by (subst (asm) reconcile_loop.simps) (auto split: if_splits sum.splits option.splits)
  then show ?case using Suc.IH edge_run_trans Reconcile_run [OF rec] run_refl by blast
qed

lemma reconcileEdge_run: "reconcileEdge fuel d rounds now n c db = Some (err, c', db') \<Longrightarrow> edge_run d db db'"
proof (induction fuel arbitrary: n c db)
  case 0
  then show ?case by (auto simp: reconcileEdge.simps run_refl split: if_splits)
next
  case (Suc fuel)
  obtain result e c1 db1 where rec: "Reconcile d (ro_pass (rounds n)) (ro_verify (rounds n)) (Some (ro_fetch (rounds n))) (now n) c db
      = ((result, e), c1, db1)" by (metis surj_pair)
  have "db' = db \<or> db' = db1 \<or> reconcileEdge fuel d rounds now (Suc n) c1 db1 = Some (err, c', db')"
    using Suc.prems rec by (subst (asm) reconcileEdge.simps) (auto split: if_splits sum.splits option.splits)
  then show ?case using Suc.IH edge_run_trans Reconcile_run [OF rec] run_refl by blast
qed

lemma reconcileAuthoritativeEdge_run:
  assumes "reconcileAuthoritativeEdge fuel d read_env require_env new_env rounds i now db = Some (err, db')"
  shows "edge_run d db db'"
proof (cases "db' = db")
  case False
  then obtain state where st: "now \<noteq> zero_time" "DeliveryState d read_env i db = Inr state"
    using assms by (auto simp: reconcileAuthoritativeEdge_def split: if_splits sum.splits)
  obtain r db1 where req: "RequireReconciliation d require_env i (gs_HighWatermark state) ''authoritative_reconciliation'' now db = (r, db1)"
    by fastforce
  have tail: "db' = db1 \<or> (\<exists>c. reconcile_loop fuel d rounds 0 now c db1 = Some (err, db'))"
    using assms st req by (cases r; cases "NewJournalConsumer (Some d) new_env (Some (ro_verify (rounds 0))) i db1")
      (auto simp: reconcileAuthoritativeEdge_def)
  have "edge_run d db db1" using req edge_step.require edge_run_step1 by (metis snd_conv)
  then show ?thesis using tail reconcile_loop_run edge_run_trans by blast
qed (simp add: run_refl)

end
