(* ===== verification/Authority_Verifier.thy ===== *)
theory Authority_Verifier
  imports Registry Edge_Consumer
begin

text \<open>
  \<^verbatim>\<open>internal/sspedge/authority_verifier.go\<close>: how an edge rebuilds a projection from the authority's facts and
  the pinned registry root.  The authority is read through three functions, which fail with the
  authority's errors or those of the way to it.
\<close>

record ProjectionAuthority =
  pa_ListEdgeDeliveries :: "EdgeDeliveryQuery \<Rightarrow> edge_error + EdgeDeliveryPage"
  pa_ResolveCase :: "string \<Rightarrow> string \<Rightarrow> edge_error + CaseRecord"
  pa_ResolveRegistry :: "string \<Rightarrow> int \<Rightarrow> string \<Rightarrow> edge_error + RegistryRecord"

record AuthorityVerifier =
  vv_tenant :: string
  vv_authority :: ProjectionAuthority
  vv_trust :: Trust

definition NewAuthorityVerifier ::
    "string \<Rightarrow> ProjectionAuthority option \<Rightarrow> Trust \<Rightarrow> edge_error + AuthorityVerifier" where
  "NewAuthorityVerifier tenant authority trust =
    (case authority of
       None \<Rightarrow> Inl (EdgeErr ''sspedge: tenant and projection authority are required'')
     | Some authority \<Rightarrow>
         if blank tenant then Inl (EdgeErr ''sspedge: tenant and projection authority are required'')
         else if NewVerifier trust \<noteq> None then Inl (EdgeErr ''sspedge: registry trust'')
         else Inr \<lparr>vv_tenant = tenant, vv_authority = authority, vv_trust = trust\<rparr>)"

record verifiedCaseBody =
  cb_Domain :: string
  cb_IssuerEdgeID :: string
  cb_IssuerEdgeGeneration :: int
  cb_Summary :: string
  cb_PublicSummary :: string
  cb_ContextManifest :: string

record verifiedAdviceBody =
  ab_CaseCommitment :: string
  ab_Text :: string
  ab_PublicSummary :: string

definition case_body_of :: "json \<Rightarrow> verifiedCaseBody option" where
  "case_body_of v =
    Option.bind (struct_members v) (\<lambda>ms. Option.bind (string_field ''domain'' ms) (\<lambda>domain.
    Option.bind (string_field ''issuer_edge_id'' ms) (\<lambda>edgeID.
    Option.bind (int_field ''issuer_edge_generation'' ms) (\<lambda>generation.
    Option.bind (string_field ''summary'' ms) (\<lambda>summary.
    Option.bind (string_field ''public_summary'' ms) (\<lambda>publicSummary.
    Option.bind (string_field ''context_manifest'' ms) (\<lambda>manifest.
      Some \<lparr>cb_Domain = domain, cb_IssuerEdgeID = edgeID, cb_IssuerEdgeGeneration = generation, cb_Summary = summary,
            cb_PublicSummary = publicSummary, cb_ContextManifest = manifest\<rparr>)))))))"

definition advice_body_of :: "json \<Rightarrow> verifiedAdviceBody option" where
  "advice_body_of v =
    Option.bind (struct_members v) (\<lambda>ms. Option.bind (string_field ''case_commitment'' ms) (\<lambda>commitment.
    Option.bind (string_field ''text'' ms) (\<lambda>adviceText. Option.bind (string_field ''public_summary'' ms) (\<lambda>publicSummary.
      Some \<lparr>ab_CaseCommitment = commitment, ab_Text = adviceText, ab_PublicSummary = publicSummary\<rparr>))))"

abbreviation permanent :: "string \<Rightarrow> verify_error + 'a" where
  "permanent reason \<equiv> Inl (Permanent reason (EdgeErr reason))"

section \<open>The exact delivery\<close>

definition resolveExactDelivery :: "AuthorityVerifier \<Rightarrow> JournalDelivery \<Rightarrow> verify_error + EdgeDelivery" where
  "resolveExactDelivery v delivery =
    (case pa_ListEdgeDeliveries (vv_authority v)
        \<lparr>edq_TenantID = vv_tenant v, edq_EdgeID = jd_EdgeID delivery, edq_PrincipalID = [],
         edq_EdgeGeneration = jd_EdgeGeneration delivery,
         edq_AfterSequence = wrap64 (jd_DeliverySeq delivery - 1), edq_Limit = 1\<rparr> of
       Inl e \<Rightarrow> Inl (Transient e)
     | Inr page \<Rightarrow>
         (case edp_Deliveries page of
            [found] \<Rightarrow>
              if ed_Sequence found \<noteq> jd_DeliverySeq delivery \<or> ed_Raw found \<noteq> jd_Raw delivery
                then Inl (Transient (EdgeErr ''sspedge: carrier delivery is not the exact PostgreSQL delivery''))
              else Inr found
          | _ \<Rightarrow> Inl (Transient (EdgeErr ''sspedge: carrier delivery is not the exact PostgreSQL delivery''))))"

section \<open>Registry evidence\<close>

definition verifyRegistryRecord ::
    "ssp_crypto \<Rightarrow> AuthorityVerifier \<Rightarrow> RegistryRecord \<Rightarrow> int \<Rightarrow> string \<Rightarrow> int \<Rightarrow> time \<Rightarrow> verify_error + Registry" where
  "verifyRegistryRecord cr v r revision commitment routingEpoch at =
    (if rr_TenantID r \<noteq> vv_tenant v \<or> rr_Revision r \<noteq> revision \<or> rr_Commitment r \<noteq> commitment
        \<or> rr_RoutingEpoch r \<noteq> routingEpoch \<or> rr_EnvelopeID r = [] \<or> length (rr_Raw r) = 0 \<or> rr_AuthorityRevision r \<le> 0
       then permanent ''registry_authority_mismatch''
     else if NewVerifier (vv_trust v) \<noteq> None
       then Inl (Transient (EdgeErr ''sspedge: construct registry verifier''))
     else (case Verifier_Verify cr (vv_trust v) at (rr_Raw r) of
         Inl e \<Rightarrow> permanent ''invalid_registry_proof''
       | Inr verified \<Rightarrow>
           (case Verified_Commitment verified of
              Inl e \<Rightarrow> permanent ''invalid_registry_proof''
            | Inr actual \<Rightarrow>
                (case ReadHeader (rr_Raw r) of
                   Inl e \<Rightarrow> permanent ''registry_authority_mismatch''
                 | Inr h \<Rightarrow>
                     (let snapshot = vf_snapshot verified in
                      if eh_Schema h \<noteq> Family_Registry \<or> eh_ID h \<noteq> rr_EnvelopeID r \<or> eh_RegistryRevision h \<noteq> rr_Revision r
                         \<or> eh_RoutingEpoch h \<noteq> rr_RoutingEpoch r \<or> actual \<noteq> rr_Commitment r
                         \<or> rv_revision snapshot \<noteq> rr_Revision r \<or> rv_routingEpoch snapshot \<noteq> rr_RoutingEpoch r
                         \<or> Expired snapshot at \<or> CheckBinding snapshot revision commitment \<noteq> None
                        then permanent ''registry_authority_mismatch''
                      else Inr snapshot)))))"

definition resolve_registry ::
    "ssp_crypto \<Rightarrow> AuthorityVerifier \<Rightarrow> EnvelopeHeader \<Rightarrow> time \<Rightarrow> verify_error + RegistryRecord \<times> Registry" where
  "resolve_registry cr v h at =
    (case pa_ResolveRegistry (vv_authority v) (vv_tenant v) (eh_RegistryRevision h) (eh_RegistryHash h) of
       Inl e \<Rightarrow> if e = ErrAuthority ErrRegistryNotFound then Inl (Permanent ''registry_not_found'' e) else Inl (Transient e)
     | Inr r \<Rightarrow>
         (case verifyRegistryRecord cr v r (eh_RegistryRevision h) (eh_RegistryHash h) (eh_RoutingEpoch h) at of
            Inl e \<Rightarrow> Inl e
          | Inr snapshot \<Rightarrow> Inr (r, snapshot)))"

section \<open>Signatures and authorisation\<close>

definition edge_verifyRegisteredEnvelope ::
    "ssp_crypto \<Rightarrow> bytes \<Rightarrow> EnvelopeHeader \<Rightarrow> Registry \<Rightarrow> string \<Rightarrow> time \<Rightarrow> verify_error + KeyRecord \<times> Envelope" where
  "edge_verifyRegisteredEnvelope cr raw h snapshot usage emittedAt =
    (case Key snapshot (eh_AuthorKeyID h) of None \<Rightarrow> permanent ''unauthorized_signing_key'' | Some key \<Rightarrow>
     if kr_Usage key \<noteq> usage \<or> \<not> Usable key emittedAt then permanent ''unauthorized_signing_key''
     else if length (kr_PublicKey key) \<noteq> 32 then permanent ''invalid_signing_key''
     else (case Verify cr raw [eh_AuthorKeyID h \<mapsto> kr_PublicKey key] emittedAt of
         Inl e \<Rightarrow> permanent ''invalid_signature''
       | Inr envelope \<Rightarrow>
           (case ParseTimestamp (en_EmittedAt envelope) of
              Inl e \<Rightarrow> permanent ''unauthorized_signing_key''
            | Inr actual \<Rightarrow>
                if actual \<noteq> emittedAt \<or> \<not> Usable key actual then permanent ''unauthorized_signing_key''
                else Inr (key, envelope))))"

definition authorizeCase ::
    "Registry \<Rightarrow> EnvelopeHeader \<Rightarrow> KeyRecord \<Rightarrow> Envelope \<Rightarrow> verify_error + verifiedCaseBody" where
  "authorizeCase snapshot h key envelope =
    (case Option.bind (unmarshal (en_Body envelope)) case_body_of of
       None \<Rightarrow> permanent ''invalid_case_body''
     | Some body \<Rightarrow>
         (case Edge snapshot (cb_IssuerEdgeID body) of None \<Rightarrow> permanent ''unauthorized_case'' | Some registered \<Rightarrow>
         (case Principal snapshot (eb_PrincipalID registered) of None \<Rightarrow> permanent ''unauthorized_case'' | Some owner \<Rightarrow>
         (case Domain snapshot (cb_Domain body) of None \<Rightarrow> permanent ''unauthorized_case'' | Some route \<Rightarrow>
          if eb_Generation registered \<noteq> cb_IssuerEdgeGeneration body \<or> kr_PrincipalID key \<noteq> eb_PrincipalID registered
             \<or> eh_AuthorKeyID h \<notin> set (pb_SSPKeyIDs owner) \<or> cb_IssuerEdgeID body \<notin> set (pb_EdgeIDs owner)
             \<or> \<not> AuthorizesCaseIssuerGeneration snapshot (cb_Domain body) (cb_IssuerEdgeID body) (cb_IssuerEdgeGeneration body)
             \<or> Family_Case \<notin> set (db_Families route)
             \<or> \<not> MachineAcceptableEpoch snapshot (cb_Domain body) (en_RoutingEpoch envelope)
            then permanent ''unauthorized_case''
          else Inr body))))"

definition validateAuthorityCaseRecord ::
    "CaseRecord \<Rightarrow> string \<Rightarrow> Envelope \<Rightarrow> verifiedCaseBody \<Rightarrow> string \<Rightarrow> bytes \<Rightarrow> time \<Rightarrow> verify_error option" where
  "validateAuthorityCaseRecord r tenant envelope body commitment raw expiresAt =
    (if cr_TenantID r \<noteq> tenant \<or> cr_CaseID r \<noteq> en_CaseID envelope \<or> cr_EnvelopeID r \<noteq> en_ID envelope
        \<or> cr_Commitment r \<noteq> commitment \<or> cr_Raw r \<noteq> raw \<or> cr_Domain r \<noteq> cb_Domain body
        \<or> cr_IssuerEdgeID r \<noteq> cb_IssuerEdgeID body \<or> cr_IssuerEdgeGeneration r \<noteq> cb_IssuerEdgeGeneration body
        \<or> cr_RoutingEpoch r \<noteq> en_RoutingEpoch envelope \<or> cr_RegistryRevision r \<noteq> en_RegistryRevision envelope
        \<or> cr_RegistryHash r \<noteq> en_RegistryHash envelope \<or> cr_ExpiresAt r \<noteq> expiresAt \<or> cr_AuthorityRevision r \<le> 0
     then Some (Permanent ''case_authority_mismatch'' (EdgeErr ''case_authority_mismatch'')) else None)"

section \<open>Deliveries\<close>

definition resolve_case :: "AuthorityVerifier \<Rightarrow> string \<Rightarrow> string \<Rightarrow> verify_error + CaseRecord" where
  "resolve_case v caseID commitment =
    (case pa_ResolveCase (vv_authority v) caseID commitment of
       Inl e \<Rightarrow> if e = ErrAuthority ErrCaseNotFound then Inl (Permanent ''case_not_found'' e) else Inl (Transient e)
     | Inr r \<Rightarrow> Inr r)"

definition verifyCaseDelivery ::
    "ssp_crypto \<Rightarrow> AuthorityVerifier \<Rightarrow> JournalDelivery \<Rightarrow> EnvelopeHeader \<Rightarrow> string \<Rightarrow> Registry \<Rightarrow> time
       \<Rightarrow> verify_error + VerifiedProjection" where
  "verifyCaseDelivery cr v delivery h commitment snapshot emittedAt =
    (case edge_verifyRegisteredEnvelope cr (jd_Raw delivery) h snapshot UsageEdge emittedAt of Inl e \<Rightarrow> Inl e | Inr (key, envelope) \<Rightarrow>
    (case authorizeCase snapshot h key envelope of Inl e \<Rightarrow> Inl e | Inr body \<Rightarrow>
     if en_Schema envelope \<noteq> Family_Case \<or> cb_IssuerEdgeID body \<noteq> jd_EdgeID delivery
        \<or> cb_IssuerEdgeGeneration body \<noteq> jd_EdgeGeneration delivery
       then permanent ''delivery_identity_mismatch''
     else (case resolve_case v (en_CaseID envelope) commitment of Inl e \<Rightarrow> Inl e | Inr r \<Rightarrow>
     (case ParseTimestamp (en_ExpiresAt envelope) of Inl e \<Rightarrow> permanent ''invalid_case_expiry'' | Inr expiresAt \<Rightarrow>
     (case validateAuthorityCaseRecord r (vv_tenant v) envelope body commitment (jd_Raw delivery) expiresAt of
        Some e \<Rightarrow> Inl e
      | None \<Rightarrow>
          Inr \<lparr>vp_EnvelopeID = en_ID envelope, vp_Commitment = commitment, vp_Family = FamilyCase,
               vp_Case = Some
                 \<lparr>ca_CaseID = en_CaseID envelope, ca_IssuerEdgeID = cb_IssuerEdgeID body, ca_Domain = cb_Domain body,
                  ca_Summary = cb_Summary body, ca_ContextManifest = cb_ContextManifest body,
                  ca_IssuerEdgeGeneration = cb_IssuerEdgeGeneration body, ca_RouteKind = ''domain'',
                  ca_RouteToken = RoutingToken (cb_Domain body),
                  ca_SourceToken = EdgeRoutingToken (cb_IssuerEdgeID body) (cb_IssuerEdgeGeneration body),
                  ca_RoutingEpoch = en_RoutingEpoch envelope, ca_RegistryRevision = en_RegistryRevision envelope,
                  ca_RegistryHash = en_RegistryHash envelope, ca_ExpiresAt = expiresAt\<rparr>,
               vp_Advice = None\<rparr>)))))"

definition verifyCommittedCase ::
    "ssp_crypto \<Rightarrow> AuthorityVerifier \<Rightarrow> CaseRecord \<Rightarrow> RegistryRecord \<Rightarrow> verify_error + Envelope \<times> verifiedCaseBody" where
  "verifyCommittedCase cr v r registryRecord =
    (case ReadHeader (cr_Raw r) of Inl e \<Rightarrow> permanent ''invalid_committed_case'' | Inr h \<Rightarrow>
     if eh_Schema h \<noteq> Family_Case then permanent ''invalid_committed_case''
     else (case ParseTimestamp (eh_EmittedAt h) of Inl e \<Rightarrow> permanent ''invalid_committed_case'' | Inr emittedAt \<Rightarrow>
     (case verifyRegistryRecord cr v registryRecord (eh_RegistryRevision h) (eh_RegistryHash h) (eh_RoutingEpoch h) emittedAt of
        Inl e \<Rightarrow> Inl e
      | Inr snapshot \<Rightarrow>
     (case edge_verifyRegisteredEnvelope cr (cr_Raw r) h snapshot UsageEdge emittedAt of Inl e \<Rightarrow> Inl e | Inr (key, envelope) \<Rightarrow>
     (case authorizeCase snapshot h key envelope of Inl e \<Rightarrow> Inl e | Inr body \<Rightarrow>
     (case EnvelopeCommitment cr (cr_Raw r) emittedAt of Inl e \<Rightarrow> permanent ''invalid_committed_case'' | Inr actual \<Rightarrow>
     (case ParseTimestamp (en_ExpiresAt envelope) of Inl e \<Rightarrow> permanent ''invalid_committed_case'' | Inr expiresAt \<Rightarrow>
     (case validateAuthorityCaseRecord r (vv_tenant v) envelope body actual (cr_Raw r) expiresAt of
        Some e \<Rightarrow> Inl e
      | None \<Rightarrow> Inr (envelope, body)))))))))"

definition verifyAdviceDelivery ::
    "ssp_crypto \<Rightarrow> AuthorityVerifier \<Rightarrow> JournalDelivery \<Rightarrow> EnvelopeHeader \<Rightarrow> string \<Rightarrow> RegistryRecord \<Rightarrow> Registry \<Rightarrow> time
       \<Rightarrow> verify_error + VerifiedProjection" where
  "verifyAdviceDelivery cr v delivery h commitment registryRecord snapshot emittedAt =
    (case edge_verifyRegisteredEnvelope cr (jd_Raw delivery) h snapshot UsageAdvice emittedAt of Inl e \<Rightarrow> Inl e | Inr (key, envelope) \<Rightarrow>
     if en_Schema envelope \<noteq> Family_Advice then permanent ''unsupported_family''
     else (case Option.bind (unmarshal (en_Body envelope)) advice_body_of of None \<Rightarrow> permanent ''invalid_advice_body'' | Some body \<Rightarrow>
     (case resolve_case v (en_CaseID envelope) (ab_CaseCommitment body) of Inl e \<Rightarrow> Inl e | Inr r \<Rightarrow>
     (case verifyCommittedCase cr v r registryRecord of Inl e \<Rightarrow> Inl e | Inr (caseEnvelope, caseBody) \<Rightarrow>
     (case Domain snapshot (cb_Domain caseBody) of None \<Rightarrow> permanent ''unauthorized_advice'' | Some route \<Rightarrow>
     (case Principal snapshot (db_DispatcherPrincipalID route) of None \<Rightarrow> permanent ''unauthorized_advice'' | Some owner \<Rightarrow>
      if kr_PrincipalID key \<noteq> db_DispatcherPrincipalID route \<or> eh_AuthorKeyID h \<notin> set (pb_SSPKeyIDs owner)
         \<or> Family_Advice \<notin> set (db_Families route)
         \<or> \<not> MachineAcceptableEpoch snapshot (cb_Domain caseBody) (en_RoutingEpoch envelope)
        then permanent ''unauthorized_advice''
      else if ab_CaseCommitment body \<noteq> cr_Commitment r \<or> en_CaseID envelope \<noteq> cr_CaseID r
              \<or> en_RoutingEpoch envelope \<noteq> cr_RoutingEpoch r \<or> en_RegistryRevision envelope \<noteq> cr_RegistryRevision r
              \<or> en_RegistryHash envelope \<noteq> cr_RegistryHash r \<or> en_CaseID caseEnvelope \<noteq> en_CaseID envelope
              \<or> cr_IssuerEdgeID r \<noteq> jd_EdgeID delivery \<or> cr_IssuerEdgeGeneration r \<noteq> jd_EdgeGeneration delivery
        then permanent ''advice_case_binding_mismatch''
      else (case ParseTimestamp (en_ExpiresAt envelope) of
          Inl e \<Rightarrow> permanent ''invalid_advice_expiry''
        | Inr expiresAt \<Rightarrow>
            Inr \<lparr>vp_EnvelopeID = en_ID envelope, vp_Commitment = commitment, vp_Family = FamilyAdvice, vp_Case = None,
                 vp_Advice = Some
                   \<lparr>av_AdviceID = en_ID envelope, av_CaseID = en_CaseID envelope, av_CaseCommitment = cr_Commitment r,
                    av_Text = ab_Text body, av_IssuerEdgeID = cr_IssuerEdgeID r, av_RouteKind = ''edge'',
                    av_RouteToken = EdgeRoutingToken (cr_IssuerEdgeID r) (cr_IssuerEdgeGeneration r),
                    av_IssuerEdgeGeneration = cr_IssuerEdgeGeneration r, av_RoutingEpoch = cr_RoutingEpoch r,
                    av_RegistryRevision = cr_RegistryRevision r, av_RegistryHash = cr_RegistryHash r,
                    av_ExpiresAt = expiresAt\<rparr>\<rparr>)))))))"

definition AuthorityVerifier_Verify ::
    "ssp_crypto \<Rightarrow> AuthorityVerifier \<Rightarrow> JournalDelivery \<Rightarrow> verify_error + VerifiedProjection option" where
  "AuthorityVerifier_Verify cr v delivery =
    (if jd_TenantID delivery \<noteq> vv_tenant v \<or> jd_EdgeID delivery = [] \<or> jd_EdgeGeneration delivery \<le> 0
        \<or> jd_DeliverySeq delivery \<le> 0 \<or> length (jd_Raw delivery) = 0
       then permanent ''delivery_identity_mismatch''
     else (case resolveExactDelivery v delivery of Inl e \<Rightarrow> Inl e | Inr found \<Rightarrow>
     (case ReadHeader (jd_Raw delivery) of Inl e \<Rightarrow> permanent ''malformed_envelope'' | Inr h \<Rightarrow>
      if eh_Schema h \<noteq> Family_Case \<and> eh_Schema h \<noteq> Family_Advice then permanent ''unsupported_family''
      else (case ParseTimestamp (eh_EmittedAt h) of Inl e \<Rightarrow> permanent ''invalid_emission_time'' | Inr emittedAt \<Rightarrow>
      (case EnvelopeCommitment cr (jd_Raw delivery) emittedAt of Inl e \<Rightarrow> permanent ''invalid_envelope'' | Inr commitment \<Rightarrow>
       if ed_Kind found \<noteq> (if eh_Schema h = Family_Advice then ''advice'' else ''case'') \<or> ed_CaseID found \<noteq> eh_CaseID h
          \<or> ed_EnvelopeID found \<noteq> eh_ID h \<or> ed_Commitment found \<noteq> commitment \<or> ed_AuthorityRevision found \<le> 0
         then permanent ''authority_delivery_mismatch''
       else (case resolve_registry cr v h emittedAt of Inl e \<Rightarrow> Inl e | Inr (registryRecord, snapshot) \<Rightarrow>
         (case (if eh_Schema h = Family_Case
                then verifyCaseDelivery cr v delivery h commitment snapshot emittedAt
                else verifyAdviceDelivery cr v delivery h commitment registryRecord snapshot emittedAt) of
            Inl e \<Rightarrow> Inl e
          | Inr p \<Rightarrow> Inr (Some p))))))))"

end
