(* ===== verification/Authority_Http.thy ===== *)
theory Authority_Http
  imports Control_Properties Authority_Verifier Authority_Reads
begin

text \<open>
  Reading the authority over HTTP: a page of an edge's delivery log that the client accepts is the page of
  the authority behind the server, and what the verifier accepts as an exact delivery is a row of that log.
\<close>

section \<open>The connection\<close>

definition request_of ::
    "ConnectionState option \<Rightarrow> string \<Rightarrow> string \<Rightarrow> (string \<times> string) list \<Rightarrow> bytes option \<Rightarrow> http_request" where
  "request_of tls meth path query body =
    \<lparr>rq_method = meth, rq_path = path, rq_query = (\<lambda>k. case map_of query k of Some v \<Rightarrow> v | None \<Rightarrow> []),
     rq_body = Some (case body of None \<Rightarrow> [] | Some b \<Rightarrow> b), rq_TLS = tls\<rparr>"

text \<open>
  Every exchange fails on the way or carries the server's answer on one of the states the authority is in
  meanwhile.
\<close>

definition serves :: "ssp_crypto \<Rightarrow> Server \<Rightarrow> authority_db set \<Rightarrow> exchange \<Rightarrow> bool" where
  "serves cr srv states exch \<longleftrightarrow>
     (\<forall>meth path query body response. exch meth path query body = Inr response \<longrightarrow>
        (\<exists>env tls. \<exists>adb \<in> states. response = fst (ServeHTTP cr srv env (request_of tls meth path query body) adb)))"

text \<open>A connection over which each request either fails or is answered on the state \<open>adb\<close>.\<close>

definition connection ::
    "ssp_crypto \<Rightarrow> Server \<Rightarrow> (string \<Rightarrow> edge_error option) \<Rightarrow> api_env \<Rightarrow> ConnectionState option \<Rightarrow> authority_db \<Rightarrow> exchange" where
  "connection cr srv fault env tls adb meth path query body =
    (case fault path of
       Some e \<Rightarrow> Inl e
     | None \<Rightarrow> Inr (fst (ServeHTTP cr srv env (request_of tls meth path query body) adb)))"

lemma connection_serves: "adb \<in> states \<Longrightarrow> serves cr srv states (connection cr srv fault env tls adb)"
  unfolding serves_def connection_def by (metis option.case_eq_if old.sum.inject(2) sum.distinct(1))

section \<open>Paths\<close>

lemma length_split_slash: "length (split_slash acc s) = Suc (length (filter (\<lambda>c. c = CHR ''/'') s))"
  by (induction acc s rule: split_slash.induct) auto

lemma split_slash_segment:
  "CHR ''/'' \<notin> set a \<Longrightarrow> split_slash acc (a @ CHR ''/'' # rest) = (acc @ a) # split_slash [] rest"
  by (induction a arbitrary: acc) auto

lemma split_slash_last: "CHR ''/'' \<notin> set a \<Longrightarrow> split_slash acc a = [acc @ a]"
  by (induction a arbitrary: acc) auto

lemma digits10_no_slash: "CHR ''/'' \<notin> set (digits10 n)"
  using digits10_digits [of "CHR ''/''" n] by (auto simp: is_digit_def)

lemma itoa_no_slash: "CHR ''/'' \<notin> set (itoa n)"
  by (simp add: itoa_def digits10_no_slash)

lemma has_prefix_append [simp]: "has_prefix p (p @ s)"
  by (simp add: has_prefix_def)

lemma trim_prefix_append [simp]: "trim_prefix p (p @ s) = s"
  by (simp add: trim_prefix_def)

text \<open>An edge identifier with a slash in it makes another path, which the server does not know.\<close>

lemma edge_path_segments:
  "split_slash [] (e @ ''/generations/'' @ itoa g @ ''/deliveries'') =
     (if CHR ''/'' \<in> set e then split_slash [] (e @ ''/generations/'' @ itoa g @ ''/deliveries'')
      else [e, ''generations'', itoa g, ''deliveries''])"
proof -
  have "split_slash [] (''generations'' @ CHR ''/'' # itoa g @ CHR ''/'' # ''deliveries'')
      = [''generations'', itoa g, ''deliveries'']"
    by (subst split_slash_segment, simp, subst split_slash_segment, rule itoa_no_slash, subst split_slash_last) simp_all
  then show ?thesis using split_slash_segment [of e "[]"] by simp
qed

lemma edge_path_slash:
  "length (split_slash [] (e @ ''/generations/'' @ itoa g @ ''/deliveries'')) = 4 \<longleftrightarrow> CHR ''/'' \<notin> set e"
  using itoa_no_slash [of g] by (auto simp: length_split_slash filter_empty_conv)

section \<open>Pages\<close>

lemma error_no_page [simp]:
  "writeError st code \<noteq> (status, PageBody page)" "writeStoreError x \<noteq> (status, PageBody page)"
  by (simp_all add: writeError_def writeStoreError_def writeTypedControlOutcome_def split: option.split)

lemma ServeHTTP_edges:
  assumes "fst (ServeHTTP cr srv env (request_of tls ''GET'' (''/v1/edges/'' @ x) query body) adb) = (status, PageBody page)"
  obtains w where "server_reconcile srv env (request_of tls ''GET'' (''/v1/edges/'' @ x) query body) w adb = (status, PageBody page)"
proof -
  let ?rq = "request_of tls ''GET'' (''/v1/edges/'' @ x) query body"
  have route: "rq_method ?rq = ''GET''" "rq_path ?rq = ''/v1/edges/'' @ x" "rq_TLS ?rq = tls"
    by (simp_all add: request_of_def)
  show thesis
  proof (cases "workload srv tls")
    case None
    then show thesis using assms unfolding ServeHTTP_def route by simp
  next
    case (Some w)
    then have "ServeHTTP cr srv env ?rq adb = (server_reconcile srv env ?rq w adb, adb)"
      unfolding ServeHTTP_def route by (simp add: has_prefix_def)
    with assms that show thesis by simp
  qed
qed

lemma server_reconcile_page:
  assumes "server_reconcile srv env (request_of tls ''GET'' (''/v1/edges/'' @ e @ ''/generations/'' @ itoa g @ ''/deliveries'')
      [(''after_sequence'', itoa after), (''limit'', itoa limit)] body) w adb = (status, PageBody page)"
    and "0 \<le> g" "0 \<le> after" "0 \<le> limit"
  obtains fault principalID where "ListEdgeDeliveries (hs_authority srv) fault
      \<lparr>edq_TenantID = hs_tenant srv, edq_EdgeID = e, edq_PrincipalID = principalID, edq_EdgeGeneration = g,
       edq_AfterSequence = after, edq_Limit = limit\<rparr> adb = Inr page"
proof -
  let ?path = "e @ ''/generations/'' @ itoa g @ ''/deliveries''"
  have path: "rq_path (request_of tls ''GET'' (''/v1/edges/'' @ x) query b) = ''/v1/edges/'' @ x" for x query b
    by (simp add: request_of_def)
  have "length (split_slash [] ?path) = 4"
    using assms(1) unfolding server_reconcile_def path trim_prefix_append by (simp split: list.splits)
  then have segments: "split_slash [] ?path = [e, ''generations'', itoa g, ''deliveries'']"
    using edge_path_segments [of e g] edge_path_slash [of e g] by simp
  have page: "edgePage (rq_query (request_of tls ''GET'' p [(''after_sequence'', itoa after), (''limit'', itoa limit)] body))
      = (if after < 2 ^ 63 \<and> 1 \<le> limit \<and> limit \<le> 1000 then Some (after, limit) else None)" for p
    using assms(3,4) by (simp add: edgePage_def request_of_def ParseInt_itoa_range)
  show thesis
    using assms(1) that unfolding server_reconcile_def path trim_prefix_append segments page
    by (auto simp: ParseInt_itoa_range [OF assms(2)] split: if_splits sum.splits)
qed

text \<open>
  What a client behind such a connection accepts as a page is the page of the authority's log.
\<close>

lemma client_page:
  assumes "client_ListEdgeDeliveries c q = Inr page" and "serves cr srv states (cl_http c)"
  obtains adb where "adb \<in> states" "page = edge_page (edge_rows (hs_tenant srv) (edq_EdgeID q) (edq_EdgeGeneration q) adb) (edq_AfterSequence q) (edq_Limit q)"
proof -
  let ?path = "''/v1/edges/'' @ edq_EdgeID q @ ''/generations/'' @ itoa (edq_EdgeGeneration q) @ ''/deliveries''"
  let ?query = "[(''after_sequence'', itoa (edq_AfterSequence q)), (''limit'', itoa (edq_Limit q))]"
  have valid: "EdgeDeliveryQuery_Validate (q\<lparr>edq_PrincipalID := ew_PrincipalID (cl_workload c)\<rparr>) = None"
    and reply: "call c ''GET'' ?path ?query None = Inr (PageBody page)"
    using assms(1) by (auto simp: client_ListEdgeDeliveries_def split: if_splits sum.splits http_body.splits)
  have range: "0 \<le> edq_EdgeGeneration q" "0 \<le> edq_AfterSequence q" "0 \<le> edq_Limit q"
    using valid by (auto simp: EdgeDeliveryQuery_Validate_def split: if_splits)
  obtain status where exch: "cl_http c ''GET'' ?path ?query None = Inr (status, PageBody page)"
    using reply by (auto simp: call_def split: sum.splits if_splits)
  then obtain env tls adb where state: "adb \<in> states"
    and served: "(status, PageBody page) = fst (ServeHTTP cr srv env (request_of tls ''GET'' ?path ?query None) adb)"
    using assms(2) unfolding serves_def by blast
  obtain w where "server_reconcile srv env (request_of tls ''GET'' ?path ?query None) w adb = (status, PageBody page)"
    using served [symmetric] by (rule ServeHTTP_edges)
  then obtain fault principalID where "ListEdgeDeliveries (hs_authority srv) fault
      \<lparr>edq_TenantID = hs_tenant srv, edq_EdgeID = edq_EdgeID q, edq_PrincipalID = principalID,
       edq_EdgeGeneration = edq_EdgeGeneration q, edq_AfterSequence = edq_AfterSequence q, edq_Limit = edq_Limit q\<rparr> adb = Inr page"
    using server_reconcile_page range by metis
  from ListEdgeDeliveries_Inr(1) [OF this] show thesis using that [OF state] by simp
qed

end
