(* ===== verification/Edge_System.thy ===== *)
theory Edge_System
  imports Edge_Replica Authority_Http
begin

text \<open>
  The running edge of \<^verbatim>\<open>cmd/snagline-edge/runtime.go\<close> against the authority: its verifier and its reconciler
  read the authority over HTTP, while the authority goes on committing.  The verifier is an instance of the
  interface \<open>authentic_deliveries\<close>, so the edge's log is a copy of the beginning of the authority's log, every
  turn of the consumer loop ends, and a completed reconciliation leaves nothing out.
\<close>

section \<open>The edge's process\<close>

definition buildEdgeVerifier ::
    "string \<Rightarrow> string \<Rightarrow> edge_error + bytes \<Rightarrow> ProjectionAuthority option \<Rightarrow> edge_error + AuthorityVerifier" where
  "buildEdgeVerifier tenant rootKeyID public authority =
    (case public of Inl e \<Rightarrow> Inl (EdgeErr ''pinned registry root unavailable'') | Inr key \<Rightarrow>
    (case NewTrust rootKeyID key of Inl e \<Rightarrow> Inl (EdgeErr ''pinned registry root unavailable'') | Inr trust \<Rightarrow>
    (case NewAuthorityVerifier tenant authority trust of
       Inl e \<Rightarrow> Inl (EdgeErr ''pinned registry verifier unavailable'')
     | Inr v \<Rightarrow> Inr v)))"

text \<open>
  What one turn of the consumer loop meets: whether the periodic reconciliation is due, the transactions
  and rounds of the reconciliations, and the transaction, verifier, fetch and time of a delivery.
\<close>

record consumer_turn =
  tu_due :: bool
  tu_read :: edge_tx
  tu_require :: edge_tx
  tu_new :: edge_tx
  tu_rounds :: "nat \<Rightarrow> reconcile_round"
  tu_times :: "nat \<Rightarrow> time"
  tu_env :: edge_tx
  tu_verify :: verifier
  tu_fetch :: fetch_result
  tu_now :: time

text \<open>
  One turn of \<^verbatim>\<open>runEdgeConsumer\<close>: errors are logged and the loop goes on.  \<^const>\<open>None\<close> is a reconciliation
  still running after \<open>fuel\<close> rounds.
\<close>

definition runEdgeConsumer_turn ::
    "nat \<Rightarrow> EdgeDB \<Rightarrow> JetStreamPullConsumer \<Rightarrow> consumer_turn \<Rightarrow> JournalConsumer \<times> edge_db \<Rightarrow> (JournalConsumer \<times> edge_db) option" where
  "runEdgeConsumer_turn fuel d pull t = (\<lambda>(c, db).
    if jc_halted c then map_option snd (reconcileEdge fuel d (tu_rounds t) (tu_times t) 0 c db)
    else if tu_due t then
      map_option (\<lambda>(e, db'). (c, db'))
        (reconcileAuthoritativeEdge fuel d (tu_read t) (tu_require t) (tu_new t) (tu_rounds t) (jc_identity c) (tu_now t) db)
    else Some (snd (HandleNext d (tu_env t) (tu_verify t) pull (tu_fetch t) (tu_now t) c db)))"

text \<open>The loop until the context is cancelled, which is after the given turns.\<close>

fun runEdgeConsumer ::
    "nat \<Rightarrow> EdgeDB \<Rightarrow> JetStreamPullConsumer \<Rightarrow> consumer_turn list \<Rightarrow> JournalConsumer \<times> edge_db \<Rightarrow> (JournalConsumer \<times> edge_db) option" where
  "runEdgeConsumer fuel d pull [] s = Some s"
| "runEdgeConsumer fuel d pull (t # ts) s = Option.bind (runEdgeConsumer_turn fuel d pull t s) (runEdgeConsumer fuel d pull ts)"

text \<open>What \<^verbatim>\<open>runEdge\<close> does to the store before it serves: the reconciliation at start, then the consumer.\<close>

definition start_edge ::
    "nat \<Rightarrow> EdgeDB \<Rightarrow> consumer_turn \<Rightarrow> EdgeIdentity \<Rightarrow> edge_db \<Rightarrow> ((edge_error + JournalConsumer) \<times> edge_db) option" where
  "start_edge fuel d t i db =
    (case reconcileAuthoritativeEdge fuel d (tu_read t) (tu_require t) (tu_new t) (tu_rounds t) i (tu_now t) db of
       None \<Rightarrow> None
     | Some (Some e, db') \<Rightarrow> Some (Inl (EdgeErr ''startup authority reconciliation unavailable''), db')
     | Some (None, db') \<Rightarrow>
         Some (case NewJournalConsumer (Some d) (tu_env t) (Some (tu_verify t)) i db' of
                 Inl e \<Rightarrow> Inl (EdgeErr ''journal consumer unavailable'')
               | Inr c \<Rightarrow> Inr c, db'))"

section \<open>Reading the authority\<close>

text \<open>An edge is configured with the tenant of the server it talks to.\<close>

definition edge_identity :: "Server \<Rightarrow> edge_WorkloadIdentity \<Rightarrow> EdgeIdentity" where
  "edge_identity srv w = \<lparr>id_TenantID = hs_tenant srv, id_EdgeID = ew_EdgeID w, id_Generation = ew_EdgeGeneration w\<rparr>"

definition edge_authority :: "Server \<Rightarrow> edge_WorkloadIdentity \<Rightarrow> exchange \<Rightarrow> ProjectionAuthority" where
  "edge_authority srv w exch =
    (let p = \<lparr>pc_client = Some \<lparr>cl_http = exch, cl_workload = w\<rparr>, pc_tenant = hs_tenant srv\<rparr> in
     \<lparr>pa_ListEdgeDeliveries = projection_ListEdgeDeliveries p, pa_ResolveCase = projection_ResolveCase p,
      pa_ResolveRegistry = projection_ResolveRegistry p\<rparr>)"

text \<open>The verifier's answer, each delivery over its own exchanges; the reconciler, as \<^verbatim>\<open>runEdge\<close> makes it.\<close>

definition edge_verify ::
    "ssp_crypto \<Rightarrow> Server \<Rightarrow> Trust \<Rightarrow> edge_WorkloadIdentity \<Rightarrow> (JournalDelivery \<Rightarrow> exchange) \<Rightarrow> verifier" where
  "edge_verify cr srv trust w exchs dl =
    AuthorityVerifier_Verify cr
      \<lparr>vv_tenant = hs_tenant srv, vv_authority = edge_authority srv w (exchs dl), vv_trust = trust\<rparr> dl"

definition edge_fetch :: "edge_WorkloadIdentity \<Rightarrow> exchange \<Rightarrow> EdgeIdentity \<Rightarrow> int \<Rightarrow> edge_error + ReconcileBatch" where
  "edge_fetch w exch = FetchAfter \<lparr>ar_source = Some (client_ListEdgeDeliveries \<lparr>cl_http = exch, cl_workload = w\<rparr>), ar_limit = 100\<rparr>"

text \<open>The authority's log of an incarnation: its deliveries, and what the edge would record of them.\<close>

definition authority_deliveries :: "EdgeIdentity \<Rightarrow> authority_db \<Rightarrow> (int \<times> bytes) list" where
  "authority_deliveries i adb =
    map (\<lambda>e. (ed_Sequence e, ed_Raw e)) (edge_rows (id_TenantID i) (id_EdgeID i) (id_Generation i) adb)"

definition authority_log :: "EdgeIdentity \<Rightarrow> authority_db \<Rightarrow> (int \<times> string) list" where
  "authority_log i adb =
    map (\<lambda>e. (ed_Sequence e, hash (ed_Raw e))) (edge_rows (id_TenantID i) (id_EdgeID i) (id_Generation i) adb)"

lemma authority_log_hashed: "authority_log i adb = hashed (authority_deliveries i adb)"
  by (simp add: authority_log_def authority_deliveries_def hashed_def)

lemma authority_log_numbered: "authority_inv adb \<Longrightarrow> numbered (authority_log i adb)"
  using edge_log_contiguous by (simp add: numbered_def authority_log_def comp_def)

lemma authority_log_grows: "(authority_step s)\<^sup>*\<^sup>* adb adb' \<Longrightarrow> prefix (authority_log i adb) (authority_log i adb')"
  using authority_steps_evolve [of s adb adb']
  by (auto simp: evolves_def history_extends_def authority_log_def edge_rows_def intro!: map_mono_prefix filter_mono_prefix)

lemma authority_deliveries_grow:
  "(authority_step s)\<^sup>*\<^sup>* adb adb' \<Longrightarrow> prefix (authority_deliveries i adb) (authority_deliveries i adb')"
  using authority_steps_evolve [of s adb adb']
  by (auto simp: evolves_def history_extends_def authority_deliveries_def edge_rows_def
      intro!: map_mono_prefix filter_mono_prefix)

lemma edge_page_rows: "d \<in> set (edp_Deliveries (edge_page rows after limit)) \<Longrightarrow> d \<in> set rows"
  by (auto simp: edge_page_def Let_def dest: in_set_takeD)

text \<open>What the verifier settles is a delivery that the authority held when it was asked.\<close>

lemma edge_verify_row:
  assumes "serves cr srv states (exchs dl)" and names: "names_identity (edge_identity srv w) dl" and "deliverable dl"
    and "settled (edge_verify cr srv trust w exchs dl)"
  obtains adb where "adb \<in> states" "(jd_DeliverySeq dl, jd_Raw dl) \<in> set (authority_deliveries (edge_identity srv w) adb)"
proof -
  let ?v = "\<lparr>vv_tenant = hs_tenant srv, vv_authority = edge_authority srv w (exchs dl), vv_trust = trust\<rparr>"
  let ?c = "\<lparr>cl_http = exchs dl, cl_workload = w\<rparr>"
  have i: "jd_TenantID dl = hs_tenant srv" "jd_EdgeID dl = ew_EdgeID w" "jd_EdgeGeneration dl = ew_EdgeGeneration w"
    using names by (simp_all add: names_identity_def edge_identity_def)
  have "\<exists>found. resolveExactDelivery ?v dl = Inr found"
  proof (cases "resolveExactDelivery ?v dl")
    case (Inl e)
    then have "\<exists>x. e = Transient x"
      by (auto simp: resolveExactDelivery_def split: sum.splits list.splits if_splits)
    then have "\<not> settled (edge_verify cr srv trust w exchs dl)"
      using Inl i assms(3) by (auto simp: edge_verify_def AuthorityVerifier_Verify_def Transient_def deliverable_def)
    with assms(4) show ?thesis by simp
  qed simp
  then obtain found q page where page: "client_ListEdgeDeliveries ?c q = Inr page" "edp_Deliveries page = [found]"
      "edq_EdgeID q = ew_EdgeID w" "edq_EdgeGeneration q = ew_EdgeGeneration w"
    and found: "ed_Sequence found = jd_DeliverySeq dl" "ed_Raw found = jd_Raw dl"
    by (auto simp: resolveExactDelivery_def edge_authority_def Let_def projection_ListEdgeDeliveries_def i
        split: sum.splits list.splits if_splits)
  have served: "serves cr srv states (cl_http ?c)" using assms(1) by simp
  obtain adb where adb: "adb \<in> states" "page = edge_page (edge_rows (hs_tenant srv) (edq_EdgeID q) (edq_EdgeGeneration q) adb)
      (edq_AfterSequence q) (edq_Limit q)"
    using client_page [OF page(1) served] by blast
  then have "found \<in> set (edge_rows (hs_tenant srv) (ew_EdgeID w) (ew_EdgeGeneration w) adb)"
    using page(2-4) edge_page_rows by (metis list.set_intros(1))
  then show thesis using adb(1) found that by (force simp: authority_deliveries_def edge_identity_def)
qed

lemma edge_verify_authentic:
  assumes "\<And>dl. serves cr srv states (exchs dl)"
    and "\<And>adb. adb \<in> states \<Longrightarrow> prefix (authority_deliveries (edge_identity srv w) adb) deliveries"
  shows "authentic_deliveries (edge_identity srv w) (edge_verify cr srv trust w exchs) deliveries"
proof
  fix dl
  assume dl: "names_identity (edge_identity srv w) dl" "deliverable dl" "settled (edge_verify cr srv trust w exchs dl)"
  obtain adb where "adb \<in> states" "(jd_DeliverySeq dl, jd_Raw dl) \<in> set (authority_deliveries (edge_identity srv w) adb)"
    by (rule edge_verify_row [OF assms(1) [of dl] dl])
  then show "(jd_DeliverySeq dl, jd_Raw dl) \<in> set deliveries" using set_mono_prefix [OF assms(2)] by blast
qed

lemma authentic_exact:
  "authentic_deliveries j verify (authority_deliveries i adb) \<Longrightarrow> exact_deliveries j verify (authority_log i adb)"
  by (force simp: authentic_deliveries_def exact_deliveries_def authority_log_hashed hashed_def)

text \<open>While the authority stands still, the verifier over a connection to it is authentic for its deliveries.\<close>

interpretation http: authentic_deliveries "edge_identity srv w"
    "edge_verify cr srv trust w (\<lambda>dl. connection cr srv (fault dl) (env dl) (tls dl) adb)"
    "authority_deliveries (edge_identity srv w) adb"
  for cr srv trust w fault env tls adb
  by (rule edge_verify_authentic [where states = "{adb}"]) (auto intro: connection_serves)

section \<open>Pages for the reconciler\<close>

lemma edge_fetch_page:
  assumes fetch: "edge_fetch w exch (edge_identity srv w) after = Inr batch" and "serves cr srv states exch"
  obtains adb page where "adb \<in> states"
    "page = edge_page (edge_rows (hs_tenant srv) (ew_EdgeID w) (ew_EdgeGeneration w) adb) after 100"
    "rb_HighWatermark batch = edp_HighWatermark page" "rb_CompleteThrough batch = edp_CompleteThrough page"
    "0 \<le> after" "after \<le> edp_HighWatermark page"
    "int (length (edp_Deliveries page)) = wrap64 (edp_CompleteThrough page - after)"
proof -
  let ?q = "\<lparr>edq_TenantID = hs_tenant srv, edq_EdgeID = ew_EdgeID w, edq_PrincipalID = [],
    edq_EdgeGeneration = ew_EdgeGeneration w, edq_AfterSequence = after, edq_Limit = 100\<rparr>"
  obtain page where page: "client_ListEdgeDeliveries \<lparr>cl_http = exch, cl_workload = w\<rparr> ?q = Inr page"
    and bounds: "rb_HighWatermark batch = edp_HighWatermark page" "rb_CompleteThrough batch = edp_CompleteThrough page"
    "0 \<le> after" "after \<le> edp_HighWatermark page"
    "int (length (edp_Deliveries page)) = wrap64 (edp_CompleteThrough page - after)"
    using fetch by (auto simp: edge_fetch_def FetchAfter_def edge_identity_def split: option.splits if_splits sum.splits)
  have "serves cr srv states (cl_http \<lparr>cl_http = exch, cl_workload = w\<rparr>)" using assms(2) by simp
  from client_page [OF page this] obtain adb where "adb \<in> states"
    "page = edge_page (edge_rows (hs_tenant srv) (ew_EdgeID w) (ew_EdgeGeneration w) adb) after 100" by auto
  then show thesis using bounds by (rule that)
qed

lemma edge_fetch_advances:
  assumes "serves cr srv states exch"
  shows "advances (edge_identity srv w) (edge_fetch w exch)"
  unfolding advances_def
proof (intro allI impI)
  fix after batch
  assume fetch: "edge_fetch w exch (edge_identity srv w) after = Inr batch" and through: "rb_CompleteThrough batch = after"
  from fetch assms show "rb_HighWatermark batch = after"
  proof (rule edge_fetch_page)
    fix adb page
    assume page: "page = edge_page (edge_rows (hs_tenant srv) (ew_EdgeID w) (ew_EdgeGeneration w) adb) after 100"
      and batch: "rb_HighWatermark batch = edp_HighWatermark page" "rb_CompleteThrough batch = edp_CompleteThrough page"
        "after \<le> edp_HighWatermark page" "int (length (edp_Deliveries page)) = wrap64 (edp_CompleteThrough page - after)"
    have "edp_Deliveries page = []" using batch(2,4) through by (simp add: wrap64_def)
    then show "rb_HighWatermark batch = after"
      using batch(1-3) through by (auto simp: page edge_page_def Let_def split: if_splits)
  qed
qed

lemma edge_fetch_high:
  assumes fetch: "edge_fetch w exch (edge_identity srv w) after = Inr batch" and "serves cr srv states exch"
    and inv: "\<And>adb. adb \<in> states \<Longrightarrow> authority_inv adb"
  obtains adb where "adb \<in> states" "rb_HighWatermark batch = int (length (authority_log (edge_identity srv w) adb))"
  using fetch assms(2)
proof (rule edge_fetch_page)
  fix adb page
  assume adb: "adb \<in> states" "page = edge_page (edge_rows (hs_tenant srv) (ew_EdgeID w) (ew_EdgeGeneration w) adb) after 100"
    and "rb_HighWatermark batch = edp_HighWatermark page" "0 \<le> after"
  then have "rb_HighWatermark batch = int (length (authority_log (edge_identity srv w) adb))"
    using edge_page_contiguous [OF edge_log_contiguous [OF inv [OF adb(1)]]]
    by (simp add: log_page_def authority_log_def edge_identity_def)
  with adb(1) show thesis by (rule that)
qed

section \<open>The system\<close>

text \<open>Rounds and turns whose reads are answered on some of the given states of the authority.\<close>

definition round_over :: "ssp_crypto \<Rightarrow> Server \<Rightarrow> Trust \<Rightarrow> edge_WorkloadIdentity \<Rightarrow> authority_db set \<Rightarrow> reconcile_round \<Rightarrow> bool" where
  "round_over cr srv trust w states r \<longleftrightarrow>
    (\<exists>exchs exch. (\<forall>dl. serves cr srv states (exchs dl)) \<and> serves cr srv states exch
       \<and> ro_verify r = edge_verify cr srv trust w exchs \<and> ro_fetch r = edge_fetch w exch)"

definition turn_over :: "ssp_crypto \<Rightarrow> Server \<Rightarrow> Trust \<Rightarrow> edge_WorkloadIdentity \<Rightarrow> authority_db set \<Rightarrow> consumer_turn \<Rightarrow> bool" where
  "turn_over cr srv trust w states t \<longleftrightarrow>
    (\<forall>n. round_over cr srv trust w states (tu_rounds t n))
    \<and> (\<exists>exchs. (\<forall>dl. serves cr srv states (exchs dl)) \<and> tu_verify t = edge_verify cr srv trust w exchs)"

definition during :: "Store \<Rightarrow> authority_db \<Rightarrow> authority_db \<Rightarrow> authority_db set" where
  "during s adb adb' = {m. (authority_step s)\<^sup>*\<^sup>* adb m \<and> (authority_step s)\<^sup>*\<^sup>* m adb'}"

record edge_system =
  sy_authority :: authority_db
  sy_consumer :: "JournalConsumer option"
  sy_edge :: edge_db

definition system_init :: edge_system where
  "system_init = \<lparr>sy_authority = empty_db, sy_consumer = None, sy_edge = edge_init\<rparr>"

text \<open>
  The authority commits on its own.  The edge starts, and takes turns of its loop, while the authority may
  take any steps; it stops at any time; and its other users of the store leave the delivery log alone.
\<close>

inductive system_step ::
    "ssp_crypto \<Rightarrow> Server \<Rightarrow> Trust \<Rightarrow> edge_WorkloadIdentity \<Rightarrow> EdgeDB \<Rightarrow> edge_system \<Rightarrow> edge_system \<Rightarrow> bool"
  for cr srv trust w d where
  commit: "authority_step (hs_authority srv) (sy_authority s) adb' \<Longrightarrow>
    system_step cr srv trust w d s (s\<lparr>sy_authority := adb'\<rparr>)"
| start: "(authority_step (hs_authority srv))\<^sup>*\<^sup>* (sy_authority s) adb' \<Longrightarrow>
    turn_over cr srv trust w (during (hs_authority srv) (sy_authority s) adb') t \<Longrightarrow>
    start_edge fuel d t (edge_identity srv w) (sy_edge s) = Some (r, db') \<Longrightarrow>
    system_step cr srv trust w d s
      \<lparr>sy_authority = adb', sy_consumer = (case r of Inl e \<Rightarrow> None | Inr c \<Rightarrow> Some c), sy_edge = db'\<rparr>"
| turn: "(authority_step (hs_authority srv))\<^sup>*\<^sup>* (sy_authority s) adb' \<Longrightarrow>
    turn_over cr srv trust w (during (hs_authority srv) (sy_authority s) adb') t \<Longrightarrow> sy_consumer s = Some c \<Longrightarrow>
    runEdgeConsumer_turn fuel d pull t (c, sy_edge s) = Some (c', db') \<Longrightarrow>
    system_step cr srv trust w d s \<lparr>sy_authority = adb', sy_consumer = Some c', sy_edge = db'\<rparr>"
| stop: "system_step cr srv trust w d s (s\<lparr>sy_consumer := None\<rparr>)"
| other: "edge_step d (sy_edge s) db' \<Longrightarrow> same_delivery_tables (sy_edge s) db' \<Longrightarrow>
    system_step cr srv trust w d s (s\<lparr>sy_edge := db'\<rparr>)"

definition system_reachable :: "ssp_crypto \<Rightarrow> Server \<Rightarrow> Trust \<Rightarrow> edge_WorkloadIdentity \<Rightarrow> EdgeDB \<Rightarrow> edge_system \<Rightarrow> bool" where
  "system_reachable cr srv trust w d = (system_step cr srv trust w d)\<^sup>*\<^sup>* system_init"

definition system_inv :: "EdgeIdentity \<Rightarrow> EdgeDB \<Rightarrow> edge_system \<Rightarrow> bool" where
  "system_inv i d s \<longleftrightarrow> authority_inv (sy_authority s) \<and> edge_reachable d (sy_edge s)
    \<and> copies (authority_log i (sy_authority s)) i (sy_edge s)
    \<and> (\<forall>c. sy_consumer s = Some c \<longrightarrow> jc_identity c = i)"

lemma during_log: "m \<in> during s adb adb' \<Longrightarrow> prefix (authority_log i m) (authority_log i adb')"
  unfolding during_def using authority_log_grows by blast

lemma during_deliveries:
  "m \<in> during s adb adb' \<Longrightarrow> prefix (authority_deliveries i m) (authority_deliveries i adb')"
  unfolding during_def using authority_deliveries_grow by blast

lemma during_inv: "authority_inv adb \<Longrightarrow> m \<in> during s adb adb' \<Longrightarrow> authority_inv m"
  unfolding during_def using authority_steps_inv by blast

lemma round_over_exact:
  assumes "round_over cr srv trust w (during s adb adb') r"
  shows "exact_deliveries (edge_identity srv w) (ro_verify r) (authority_log (edge_identity srv w) adb')"
    and "advances (edge_identity srv w) (ro_fetch r)"
proof -
  obtain exchs exch where served: "\<And>dl. serves cr srv (during s adb adb') (exchs dl)" "serves cr srv (during s adb adb') exch"
    and r: "ro_verify r = edge_verify cr srv trust w exchs" "ro_fetch r = edge_fetch w exch"
    using assms unfolding round_over_def by blast
  show "exact_deliveries (edge_identity srv w) (ro_verify r) (authority_log (edge_identity srv w) adb')"
    unfolding r(1) by (rule authentic_exact [OF edge_verify_authentic [OF served(1) during_deliveries]])
  show "advances (edge_identity srv w) (ro_fetch r)" unfolding r(2) by (rule edge_fetch_advances [OF served(2)])
qed

lemma turn_over_exact:
  assumes "turn_over cr srv trust w (during s adb adb') t"
  shows "exact_deliveries (edge_identity srv w) (ro_verify (tu_rounds t n)) (authority_log (edge_identity srv w) adb')"
    and "advances (edge_identity srv w) (ro_fetch (tu_rounds t n))"
    and "exact_deliveries (edge_identity srv w) (tu_verify t) (authority_log (edge_identity srv w) adb')"
proof -
  have "round_over cr srv trust w (during s adb adb') (tu_rounds t n)" using assms unfolding turn_over_def by blast
  from round_over_exact [OF this]
  show "exact_deliveries (edge_identity srv w) (ro_verify (tu_rounds t n)) (authority_log (edge_identity srv w) adb')"
    and "advances (edge_identity srv w) (ro_fetch (tu_rounds t n))" .
  obtain exchs where served: "\<And>dl. serves cr srv (during s adb adb') (exchs dl)" and v: "tu_verify t = edge_verify cr srv trust w exchs"
    using assms unfolding turn_over_def by blast
  show "exact_deliveries (edge_identity srv w) (tu_verify t) (authority_log (edge_identity srv w) adb')"
    unfolding v by (rule authentic_exact [OF edge_verify_authentic [OF served during_deliveries]])
qed

text \<open>A turn ends within as many rounds as the authority's log is long, and keeps the copy and the identity.\<close>

lemma turn_ends:
  assumes num: "numbered (authority_log (edge_identity srv w) adb')"
    and over: "turn_over cr srv trust w (during s adb adb') t"
    and copy: "copies (authority_log (edge_identity srv w) adb') (edge_identity srv w) db"
    and i: "jc_identity c = edge_identity srv w" and fuel: "length (authority_log (edge_identity srv w) adb') < fuel"
  shows "\<exists>c' db'. runEdgeConsumer_turn fuel d pull t (c, db) = Some (c', db')
    \<and> copies (authority_log (edge_identity srv w) adb') (edge_identity srv w) db' \<and> jc_identity c' = edge_identity srv w"
proof -
  let ?i = "edge_identity srv w" and ?log = "authority_log (edge_identity srv w) adb'"
  note exact = turn_over_exact [OF over]
  have small: "int (length ?log) - last_seq (identity_key ?i) db < int fuel"
    using fuel last_seq_nonneg [OF copies_log [OF copy], of "identity_key ?i"] by simp
  obtain r c' db' where h: "HandleNext d (tu_env t) (tu_verify t) pull (tu_fetch t) (tu_now t) c db = (r, c', db')"
    by (metis surj_pair)
  obtain e1 c1 db1 where repair: "reconcileEdge fuel d (tu_rounds t) (tu_times t) 0 c db = Some (e1, c1, db1)"
    "copies ?log ?i db1" "jc_identity c1 = ?i"
    using reconcileEdge_ends [where rounds = "tu_rounds t" and now = "tu_times t" and n = 0 and d = d and fuel = fuel,
        OF num exact(1,2) copy i] small by blast
  obtain e2 db2 where periodic: "reconcileAuthoritativeEdge fuel d (tu_read t) (tu_require t) (tu_new t) (tu_rounds t) ?i (tu_now t) db
      = Some (e2, db2)" "copies ?log ?i db2"
    using reconcileAuthoritativeEdge_ends [where rounds = "tu_rounds t" and now = "tu_now t" and d = d
        and read_env = "tu_read t" and require_env = "tu_require t" and new_env = "tu_new t", OF num exact(1) copy fuel] by blast
  show ?thesis
    using exact_deliveries.handleNext_copies [OF exact(3) num copy i h]
    by (simp add: runEdgeConsumer_turn_def i repair periodic h)
qed

lemma turn_more:
  "runEdgeConsumer_turn fuel d pull t x = Some y \<Longrightarrow> runEdgeConsumer_turn (fuel + k) d pull t x = Some y"
  by (auto simp: runEdgeConsumer_turn_def reconcileEdge_more reconcileAuthoritativeEdge_more split: prod.splits if_splits)

lemma turn_run:
  "runEdgeConsumer_turn fuel d pull t (c, db) = Some (c', db') \<Longrightarrow> edge_run d db db'"
  by (auto simp: runEdgeConsumer_turn_def split: if_splits prod.splits
      intro: reconcileEdge_run reconcileAuthoritativeEdge_run HandleNext_run)
    (metis HandleNext_run prod.exhaust_sel snd_conv)

lemma NewJournalConsumer_identity: "NewJournalConsumer d env v i db = Inr c \<Longrightarrow> jc_identity c = i"
  by (auto simp: NewJournalConsumer_def split: option.splits if_splits sum.splits)

lemma start_edge_result:
  assumes "reconcileAuthoritativeEdge fuel d (tu_read t) (tu_require t) (tu_new t) (tu_rounds t) i (tu_now t) db = Some (err, db')"
  obtains r where "start_edge fuel d t i db = Some (r, db')" "\<forall>c. r = Inr c \<longrightarrow> jc_identity c = i \<and> err = None"
proof (cases err)
  case None
  then show thesis using assms
    by (intro that [of "case NewJournalConsumer (Some d) (tu_env t) (Some (tu_verify t)) i db' of
          Inl e \<Rightarrow> Inl (EdgeErr ''journal consumer unavailable'') | Inr c \<Rightarrow> Inr c"])
      (auto simp: start_edge_def NewJournalConsumer_identity split: sum.splits)
next
  case (Some e)
  then show thesis using assms
    by (intro that [of "Inl (EdgeErr ''startup authority reconciliation unavailable'')"]) (simp_all add: start_edge_def)
qed

lemma prefix_same_length: "prefix xs zs \<Longrightarrow> prefix ys zs \<Longrightarrow> length xs = length ys \<Longrightarrow> xs = ys"
  by (auto elim!: prefixE simp: append_eq_append_conv)

text \<open>A log that reaches the high watermark of a page is the authority's log of the moment the page was read.\<close>

lemma caught_up:
  assumes inv: "authority_inv adb" and over: "turn_over cr srv trust w (during s adb adb') t"
    and copy: "copies (authority_log (edge_identity srv w) adb') (edge_identity srv w) db"
    and fetch: "ro_fetch (tu_rounds t n) (edge_identity srv w) after = Inr batch"
    and len: "int (length (edge_log (edge_identity srv w) db)) = rb_HighWatermark batch"
  shows "\<exists>m \<in> during s adb adb'. edge_log (edge_identity srv w) db = authority_log (edge_identity srv w) m"
proof -
  obtain exch where exch: "serves cr srv (during s adb adb') exch" "ro_fetch (tu_rounds t n) = edge_fetch w exch"
    using over unfolding turn_over_def round_over_def by blast
  obtain m where m: "m \<in> during s adb adb'" "rb_HighWatermark batch = int (length (authority_log (edge_identity srv w) m))"
    by (rule edge_fetch_high [OF fetch [unfolded exch(2)] exch(1) during_inv [OF inv]])
  have "prefix (edge_log (edge_identity srv w) db) (authority_log (edge_identity srv w) adb')"
    using copy by (simp add: copies_def)
  moreover have "length (edge_log (edge_identity srv w) db) = length (authority_log (edge_identity srv w) m)" using len m(2) by simp
  ultimately have "edge_log (edge_identity srv w) db = authority_log (edge_identity srv w) m"
    using prefix_same_length [OF _ during_log [OF m(1)]] by blast
  then show ?thesis using m(1) by (rule bexI)
qed

text \<open>A start that succeeds leaves the edge with all the authority had committed at some moment of it.\<close>

lemma start_ends:
  assumes inv: "authority_inv adb'" "authority_inv adb"
    and over: "turn_over cr srv trust w (during s adb adb') t"
    and copy: "copies (authority_log (edge_identity srv w) adb') (edge_identity srv w) db"
    and fuel: "length (authority_log (edge_identity srv w) adb') < fuel"
  shows "\<exists>r db'. start_edge fuel d t (edge_identity srv w) db = Some (r, db')
    \<and> copies (authority_log (edge_identity srv w) adb') (edge_identity srv w) db' \<and> edge_run d db db'
    \<and> (\<forall>c. r = Inr c \<longrightarrow> jc_identity c = edge_identity srv w
         \<and> (\<exists>m \<in> during s adb adb'. edge_log (edge_identity srv w) db' = authority_log (edge_identity srv w) m))"
proof -
  let ?i = "edge_identity srv w" and ?log = "authority_log (edge_identity srv w) adb'"
  from reconcileAuthoritativeEdge_ends [where rounds = "tu_rounds t" and now = "tu_now t" and d = d
      and read_env = "tu_read t" and require_env = "tu_require t" and new_env = "tu_new t",
      OF authority_log_numbered [OF inv(1)] turn_over_exact(1) [OF over] copy fuel]
  obtain err db' where rec: "reconcileAuthoritativeEdge fuel d (tu_read t) (tu_require t) (tu_new t) (tu_rounds t) ?i (tu_now t) db = Some (err, db')"
    and copy': "copies ?log ?i db'"
    and complete: "err = None \<longrightarrow> (\<exists>n after batch. ro_fetch (tu_rounds t n) ?i after = Inr batch
      \<and> int (length (edge_log ?i db')) = rb_HighWatermark batch)" by blast
  obtain r where r: "start_edge fuel d t ?i db = Some (r, db')" "\<forall>c. r = Inr c \<longrightarrow> jc_identity c = ?i \<and> err = None"
    by (rule start_edge_result [OF rec])
  show ?thesis
  proof (intro exI conjI allI impI)
    show "start_edge fuel d t ?i db = Some (r, db')" by (rule r(1))
    show "copies ?log ?i db'" by (rule copy')
    show "edge_run d db db'" by (rule reconcileAuthoritativeEdge_run [OF rec])
    fix c
    assume "r = Inr c"
    with r(2) have "jc_identity c = ?i" "err = None" by blast+
    then show "jc_identity c = ?i" "\<exists>m \<in> during s adb adb'. edge_log ?i db' = authority_log ?i m"
      using complete caught_up [OF inv(2) over copy'] by blast+
  qed
qed

lemma start_more: "start_edge fuel d t i db = Some x \<Longrightarrow> start_edge (fuel + k) d t i db = Some x"
  by (auto simp: start_edge_def split: option.splits dest: reconcileAuthoritativeEdge_more [where k = k])

section \<open>Refinement\<close>

text \<open>
  What the system promises about one incarnation, abstractly: a log that grows at its end, and a copy that
  takes the next entry of the log.
\<close>

type_synonym replica = "(int \<times> string) list \<times> (int \<times> string) list"

inductive replica_step :: "replica \<Rightarrow> replica \<Rightarrow> bool" where
  committed: "replica_step (log, copy) (log @ [entry], copy)"
| copied: "length copy < length log \<Longrightarrow> replica_step (log, copy) (log, copy @ [log ! length copy])"

lemma replica_commits: "replica_step\<^sup>*\<^sup>* (log, copy) (log @ news, copy)"
proof (induction news rule: rev_induct)
  case (snoc x news)
  then show ?case using replica_step.committed [of "log @ news" copy x] by (simp add: rtranclp.rtrancl_into_rtrancl)
qed simp

lemma replica_copies: "replica_step\<^sup>*\<^sup>* (copy @ news @ rest, copy) (copy @ news @ rest, copy @ news)"
proof (induction news arbitrary: copy)
  case (Cons x news)
  have "replica_step (copy @ (x # news) @ rest, copy) (copy @ (x # news) @ rest, copy @ [x])"
    using replica_step.copied [of copy "copy @ (x # news) @ rest"] by simp
  then show ?case using Cons.IH [of "copy @ [x]"] by (simp add: converse_rtranclp_into_rtranclp)
qed simp

lemma replica_steps:
  assumes "prefix log log'" "prefix copy copy'" "prefix copy' log'"
  shows "replica_step\<^sup>*\<^sup>* (log, copy) (log', copy')"
proof -
  obtain a b c where log: "log' = log @ a" and copy: "copy' = copy @ b" "log' = copy' @ c"
    using assms unfolding prefix_def by blast
  have "replica_step\<^sup>*\<^sup>* (log, copy) (log', copy)" unfolding log by (rule replica_commits)
  also have "replica_step\<^sup>*\<^sup>* (log', copy) (log', copy')" using replica_copies [of copy b c] by (simp add: copy)
  finally show ?thesis .
qed

definition replica_of :: "EdgeIdentity \<Rightarrow> edge_system \<Rightarrow> replica" where
  "replica_of i s = (authority_log i (sy_authority s), edge_log i (sy_edge s))"

lemma edge_run_extends:
  assumes "edge_run d db db'" "log_inv db"
  shows "prefix (edge_log i db) (edge_log i db')"
proof -
  obtain rows where "log_of (identity_key i) db' = log_of (identity_key i) db @ rows"
    using edge_run_log [OF assms] unfolding log_extends_def by blast
  then show ?thesis by (simp add: edge_log_def)
qed

lemma system_inv_init: "system_inv i d system_init"
  by (simp add: system_inv_def system_init_def authority_inv_empty run_refl copies_def log_inv_init)
    (simp add: edge_log_def log_of_def edge_init_def)

text \<open>Where the edge's part of a step leads, from what the step does to its store.\<close>

lemma system_move:
  assumes inv: "system_inv i d s" and steps: "(authority_step st)\<^sup>*\<^sup>* (sy_authority s) (sy_authority s')"
    and run: "edge_run d (sy_edge s) (sy_edge s')" and copy: "copies (authority_log i (sy_authority s')) i (sy_edge s')"
    and c: "\<And>c. sy_consumer s' = Some c \<Longrightarrow> jc_identity c = i"
  shows "system_inv i d s' \<and> replica_step\<^sup>*\<^sup>* (replica_of i s) (replica_of i s')"
proof -
  have old: "authority_inv (sy_authority s)" "edge_reachable d (sy_edge s)" "copies (authority_log i (sy_authority s)) i (sy_edge s)"
    using inv unfolding system_inv_def by blast+
  have "system_inv i d s'"
    using authority_steps_inv [OF steps old(1)] edge_run_trans [OF run old(2)] copy c by (simp add: system_inv_def)
  moreover have "prefix (edge_log i (sy_edge s')) (authority_log i (sy_authority s'))" using copy by (simp add: copies_def)
  ultimately show ?thesis
    using replica_steps [OF authority_log_grows [OF steps] edge_run_extends [OF run copies_log [OF old(3)]]]
    by (simp add: replica_of_def)
qed

lemma start_copies:
  assumes "authority_inv adb" "(authority_step st)\<^sup>*\<^sup>* adb adb'" "turn_over cr srv trust w (during st adb adb') t"
    and "copies (authority_log (edge_identity srv w) adb') (edge_identity srv w) db"
    and "start_edge fuel d t (edge_identity srv w) db = Some (r, db')"
  shows "copies (authority_log (edge_identity srv w) adb') (edge_identity srv w) db'" "edge_run d db db'"
    and "r = Inr c \<Longrightarrow> jc_identity c = edge_identity srv w"
proof -
  let ?fuel = "fuel + Suc (length (authority_log (edge_identity srv w) adb'))"
  have "start_edge ?fuel d t (edge_identity srv w) db = Some (r, db')" by (rule start_more [OF assms(5)])
  with start_ends [OF authority_steps_inv [OF assms(2,1)] assms(1,3,4), of ?fuel d]
  show "copies (authority_log (edge_identity srv w) adb') (edge_identity srv w) db'" "edge_run d db db'"
    and "r = Inr c \<Longrightarrow> jc_identity c = edge_identity srv w" by simp_all
qed

lemma turn_copies:
  assumes "authority_inv adb" "(authority_step st)\<^sup>*\<^sup>* adb adb'" "turn_over cr srv trust w (during st adb adb') t"
    and "copies (authority_log (edge_identity srv w) adb') (edge_identity srv w) db" "jc_identity c = edge_identity srv w"
    and "runEdgeConsumer_turn fuel d pull t (c, db) = Some (c', db')"
  shows "copies (authority_log (edge_identity srv w) adb') (edge_identity srv w) db'" "jc_identity c' = edge_identity srv w"
proof -
  let ?fuel = "fuel + Suc (length (authority_log (edge_identity srv w) adb'))"
  have "runEdgeConsumer_turn ?fuel d pull t (c, db) = Some (c', db')" by (rule turn_more [OF assms(6)])
  with turn_ends [OF authority_log_numbered [OF authority_steps_inv [OF assms(2,1)]] assms(3-5), of ?fuel d pull]
  show "copies (authority_log (edge_identity srv w) adb') (edge_identity srv w) db'" "jc_identity c' = edge_identity srv w"
    by simp_all
qed

lemma system_step_simulates:
  assumes "system_step cr srv trust w d s s'" and inv: "system_inv (edge_identity srv w) d s"
  shows "system_inv (edge_identity srv w) d s' \<and> replica_step\<^sup>*\<^sup>* (replica_of (edge_identity srv w) s) (replica_of (edge_identity srv w) s')"
proof -
  let ?i = "edge_identity srv w"
  have old: "authority_inv (sy_authority s)" "edge_reachable d (sy_edge s)" "copies (authority_log ?i (sy_authority s)) ?i (sy_edge s)"
    and id: "sy_consumer s = Some c \<Longrightarrow> jc_identity c = ?i" for c
    using inv unfolding system_inv_def by blast+
  have grown: "copies (authority_log ?i adb') ?i (sy_edge s)" if "(authority_step (hs_authority srv))\<^sup>*\<^sup>* (sy_authority s) adb'" for adb'
    using copies_grow [OF old(3) authority_log_grows [OF that]] .
  note move = system_move [OF inv, of "hs_authority srv" s']
  from assms(1) show ?thesis
  proof cases
    case (commit adb')
    then have steps: "(authority_step (hs_authority srv))\<^sup>*\<^sup>* (sy_authority s) adb'" by simp
    show ?thesis using commit(1) steps grown [OF steps] id by (intro move) (simp_all add: run_refl)
  next
    case (start adb' t fuel r db')
    note sc = start_copies [OF old(1) start(2,3) grown [OF start(2)] start(4)]
    show ?thesis using sc start(1,2) by (intro move) (auto split: sum.splits)
  next
    case (turn adb' t c fuel pull c' db')
    note tc = turn_copies [OF old(1) turn(2,3) grown [OF turn(2)] id [OF turn(4)] turn(5)]
    show ?thesis using tc turn_run [OF turn(5)] turn(1,2) by (intro move) auto
  next
    case stop
    then show ?thesis using old(3) by (intro move) (simp_all add: run_refl)
  next
    case (other db')
    have "copies (authority_log ?i (sy_authority s)) ?i db'"
      using copies_same [OF old(3) log_inv_cong [OF other(3) copies_log [OF old(3)]]] log_of_cong [OF other(3)] by blast
    then show ?thesis using other(1,2) id by (intro move) (simp_all add: edge_run_step1)
  qed
qed

lemma system_reachable_inv:
  assumes "system_reachable cr srv trust w d s"
  shows "system_inv (edge_identity srv w) d s \<and> replica_step\<^sup>*\<^sup>* (replica_of (edge_identity srv w) system_init) (replica_of (edge_identity srv w) s)"
  using assms unfolding system_reachable_def
proof (induction rule: rtranclp_induct)
  case (step s s')
  from step.IH system_step_simulates [OF step.hyps(2)] show ?case by (elim conjE) (simp add: rtranclp_trans)
qed (simp add: system_inv_init)

lemma system_commits:
  "(authority_step (hs_authority srv))\<^sup>*\<^sup>* (sy_authority s) adb' \<Longrightarrow> (system_step cr srv trust w d)\<^sup>*\<^sup>* s (s\<lparr>sy_authority := adb'\<rparr>)"
proof (induction rule: rtranclp_induct)
  case (step adb adb')
  have "system_step cr srv trust w d (s\<lparr>sy_authority := adb\<rparr>) (s\<lparr>sy_authority := adb, sy_authority := adb'\<rparr>)"
    using step.hyps(2) by (intro system_step.commit) simp
  then show ?case using step.IH by (simp add: rtranclp.rtrancl_into_rtrancl)
qed simp

lemma loop_ends:
  assumes num: "numbered (authority_log (edge_identity srv w) adb')"
    and fuel: "length (authority_log (edge_identity srv w) adb') < fuel"
  shows "\<forall>t \<in> set ts. turn_over cr srv trust w (during s adb adb') t
    \<Longrightarrow> copies (authority_log (edge_identity srv w) adb') (edge_identity srv w) db \<Longrightarrow> jc_identity c = edge_identity srv w
    \<Longrightarrow> \<exists>c' db'. runEdgeConsumer fuel d pull ts (c, db) = Some (c', db')"
proof (induction ts arbitrary: c db)
  case (Cons t ts)
  have "turn_over cr srv trust w (during s adb adb') t" using Cons.prems(1) by simp
  from turn_ends [OF num this Cons.prems(2,3) fuel, of d pull]
  obtain c1 db1 where "runEdgeConsumer_turn fuel d pull t (c, db) = Some (c1, db1)"
    "copies (authority_log (edge_identity srv w) adb') (edge_identity srv w) db1" "jc_identity c1 = edge_identity srv w" by blast
  then show ?case using Cons.IH [of db1 c1] Cons.prems(1) by simp
qed simp

end
