(* ===== verification/Edge_System_Properties.thy ===== *)
theory Edge_System_Properties
  imports Edge_System Authority_Example Edge_Example
begin

text \<open>
  The properties of the running edge, and a run they apply to: an edge that starts against an authority
  holding one delivery whose bytes are no envelope, and records its rejection.
\<close>

section \<open>A run\<close>

definition ex_workload :: edge_WorkloadIdentity where
  "ex_workload = \<lparr>ew_PrincipalID = ''p'', ew_EdgeID = ''e'', ew_EdgeGeneration = 1\<rparr>"

definition ex_trust :: Trust where
  "ex_trust = \<lparr>tr_authorKeyID = ''root'', tr_publicKey = replicate 32 CHR ''k''\<rparr>"

definition ex_crypto :: ssp_crypto where
  "ex_crypto = \<lparr>cr_jcs = Inr, cr_verify = (\<lambda>k m s. s = m), cr_sign = (\<lambda>k m. m)\<rparr>"

definition ex_server :: Server where
  "ex_server =
    \<lparr>hs_tenant = ''t'',
     hs_admission = \<lparr>sv_tenant = ''t'', sv_authority = ex_store, sv_registryTrust = ex_trust, sv_registryPublisherPrincipalID = ''root''\<rparr>,
     hs_authority = ex_store,
     hs_identities = [''dns:e'' \<mapsto> \<lparr>wl_PrincipalID = ''p'', wl_EdgeID = ''e'', wl_EdgeGeneration = 1\<rparr>],
     hs_maxBodyBytes = 65536, hs_timeout = 10000000000\<rparr>"

definition ex_peer :: ConnectionState where
  "ex_peer = (let leaf = \<lparr>ct_DNSNames = [''e''], ct_EmailAddresses = [], ct_IPAddresses = [], ct_URIs = []\<rparr> in
     \<lparr>tls_PeerCertificates = [leaf], tls_VerifiedChains = [[leaf]]\<rparr>)"

definition ex_api :: api_env where
  "ex_api = \<lparr>ap_clock = (\<lambda>n. 7000), ap_fault = (\<lambda>n. None), ap_commit = (\<lambda>n. quiet 7000)\<rparr>"

definition ex_exchange :: "authority_db \<Rightarrow> exchange" where
  "ex_exchange = connection ex_crypto ex_server (\<lambda>path. None) ex_api (Some ex_peer)"

abbreviation ex_identity :: EdgeIdentity where
  "ex_identity \<equiv> edge_identity ex_server ex_workload"

definition ex_verify :: "authority_db \<Rightarrow> verifier" where
  "ex_verify adb = edge_verify ex_crypto ex_server ex_trust ex_workload (\<lambda>dl. ex_exchange adb)"

definition ex_turn :: "authority_db \<Rightarrow> consumer_turn" where
  "ex_turn adb =
    \<lparr>tu_due = False, tu_read = ex_tx, tu_require = ex_tx, tu_new = ex_tx,
     tu_rounds = (\<lambda>n. \<lparr>ro_before = ex_tx, ro_after = ex_tx, ro_pass = (\<lambda>k. ex_tx), ro_verify = ex_verify adb,
       ro_fetch = edge_fetch ex_workload (ex_exchange adb)\<rparr>),
     tu_times = (\<lambda>n. 1), tu_env = ex_tx, tu_verify = ex_verify adb, tu_fetch = FetchTimeout, tu_now = 1\<rparr>"

lemma ex_turn_over: "adb \<in> states \<Longrightarrow> turn_over ex_crypto ex_server ex_trust ex_workload states (ex_turn adb)"
  by (auto simp: turn_over_def round_over_def ex_turn_def ex_verify_def ex_exchange_def intro!: exI connection_serves)

definition ex_entry :: EdgeDelivery where
  "ex_entry = hd (edge_rows ''t'' ''e'' 1 ex_db2)"

lemma ex_rows: "edge_rows ''t'' ''e'' 1 ex_db2 = [ex_entry]"
  "ed_Sequence ex_entry = 1" "ed_Raw ex_entry = ''case''" "ed_Kind ex_entry = ''case''" "ed_CaseID ex_entry = ''c''"
  "ed_EnvelopeID ex_entry = ''x''" "ed_Commitment ex_entry = ex_hash CHR ''b''" "ed_AuthorityRevision ex_entry = 2"
  by (simp_all add: ex_entry_def edge_rows_def ex_db2_def ex_defs)

definition ex_page :: EdgeDeliveryPage where
  "ex_page = \<lparr>edp_Deliveries = [ex_entry], edp_HighWatermark = 1, edp_CompleteThrough = 1\<rparr>"

lemma ex_list:
  assumes "limit \<in> {1, 100}"
  shows "ListEdgeDeliveries ex_store None
     \<lparr>edq_TenantID = ''t'', edq_EdgeID = ''e'', edq_PrincipalID = ''p'', edq_EdgeGeneration = 1, edq_AfterSequence = 0, edq_Limit = limit\<rparr> ex_db2
   = Inr ex_page"
proof -
  have "edge_page [ex_entry] 0 limit = ex_page"
    using assms by (auto simp: edge_page_def Let_def max_or_zero_def ex_rows ex_page_def)
  moreover have "\<exists>h x. authority_registry_heads ex_db2 ''t'' = Some h \<and> authority_edge_generation_high_water ex_db2 (''t'', ''e'') = Some x
      \<and> \<not> rh_Halted h \<and> hw_principal_id x = ''p'' \<and> hw_highest_generation x = 1 \<and> hw_last_seen_registry_revision x = rh_Revision h"
    by (simp add: ex_db2_def ex_defs high_water_update_def high_water_of_def)
  moreover have "store_pool ex_store \<noteq> None" by (simp add: ex_store_def)
  ultimately show ?thesis using assms
    by (auto simp: ListEdgeDeliveries_def EdgeDeliveryQuery_Validate_def validText_def ex_rows(1))
qed

lemma ex_digits [simp]: "itoa 0 = ''0''" "itoa 100 = ''100''"
  by (simp_all add: itoa_def digits10.simps digit_char_def char_of_def bit_0)

lemma ex_parse [simp]: "ParseInt ''0'' = Some 0" "ParseInt ''1'' = Some 1" "ParseInt ''100'' = Some 100"
  using ParseInt_itoa [of 0] ParseInt_itoa [of 1] ParseInt_itoa [of 100] by simp_all

lemma ex_served:
  assumes "limit \<in> {1, 100}"
  shows "ex_exchange ex_db2 ''GET'' ''/v1/edges/e/generations/1/deliveries'' [(''after_sequence'', ''0''), (''limit'', itoa limit)] None
    = Inr (200, PageBody ex_page)"
proof -
  let ?rq = "request_of (Some ex_peer) ''GET'' ''/v1/edges/e/generations/1/deliveries'' [(''after_sequence'', ''0''), (''limit'', itoa limit)] None"
  let ?w = "\<lparr>wl_PrincipalID = ''p'', wl_EdgeID = ''e'', wl_EdgeGeneration = 1\<rparr>"
  have w: "workload ex_server (Some ex_peer) = Some ?w"
    by (simp add: workload_def ex_peer_def Let_def ex_server_def certificateSANs_def ascii_lower_def)
  have "server_reconcile ex_server ex_api ?rq ?w ex_db2 = (200, PageBody ex_page)"
    using assms ex_list [OF assms]
    by (auto simp: server_reconcile_def request_of_def trim_prefix_def has_prefix_def edgePage_def ex_api_def ex_server_def)
  moreover have "ServeHTTP ex_crypto ex_server ex_api ?rq ex_db2 = (server_reconcile ex_server ex_api ?rq ?w ex_db2, ex_db2)"
    using w by (simp add: ServeHTTP_def request_of_def has_prefix_def)
  ultimately show ?thesis by (simp add: ex_exchange_def connection_def)
qed

lemma ex_client:
  assumes "limit \<in> {1, 100}"
  shows "client_ListEdgeDeliveries \<lparr>cl_http = ex_exchange ex_db2, cl_workload = ex_workload\<rparr>
      \<lparr>edq_TenantID = ''t'', edq_EdgeID = ''e'', edq_PrincipalID = [], edq_EdgeGeneration = 1, edq_AfterSequence = 0, edq_Limit = limit\<rparr>
    = Inr ex_page"
  using assms ex_served [OF assms]
  by (auto simp: client_ListEdgeDeliveries_def call_def ex_workload_def EdgeDeliveryQuery_Validate_def validText_def
      ex_page_def ex_rows wrap64_def)

lemma ex_fetch: "edge_fetch ex_workload (ex_exchange ex_db2) ex_identity 0
  = Inr \<lparr>rb_Deliveries = [page_delivery ex_identity ex_entry], rb_HighWatermark = 1, rb_CompleteThrough = 1\<rparr>"
  using ex_client [of 100]
  by (simp add: edge_fetch_def FetchAfter_def edge_identity_def EdgeIdentity_validate_def ex_server_def ex_workload_def
      ex_page_def wrap64_def ex_rows MaxEnvelopeBytes_def)

lemma ex_no_envelope: "\<exists>e. ReadHeader ''case'' = Inl e"
proof -
  have "skip_ws ''case'' = ''case''" by code_simp
  then have "rawGuard ''case'' \<noteq> None" by (simp add: rawGuard_def split: option.split)
  then show ?thesis by (auto simp: ReadHeader_def decodeStrictEnvelope_def)
qed

lemma ex_settles: "ex_verify ex_db2 (page_delivery ex_identity ex_entry) = permanent ''malformed_envelope''"
  using ex_client [of 1] ex_no_envelope
  by (auto simp: ex_verify_def edge_verify_def AuthorityVerifier_Verify_def resolveExactDelivery_def edge_authority_def Let_def
      projection_ListEdgeDeliveries_def page_delivery_def edge_identity_def ex_server_def ex_workload_def ex_page_def ex_rows
      wrap64_def)

definition ex_state_row :: "int \<Rightarrow> string \<Rightarrow> string \<Rightarrow> state_row" where
  "ex_state_row n mode reason = \<lparr>st_last_contiguous_seq = n, st_high_watermark = n, st_mode = mode, st_reason = reason, st_updated_at = sqlTime 1\<rparr>"

definition ex_rejected_row :: edge_delivery_row where
  "ex_rejected_row = delivery_row_of (page_delivery ex_identity ex_entry) None VerdictRejected ''malformed_envelope'' 1"

definition ex_s1 :: edge_db where
  "ex_s1 = edge_init\<lparr>ssp_edge_delivery_state := [ex_key \<mapsto> ex_state_row 0 ''reconciliation_required'' ''authoritative_reconciliation'']\<rparr>"

definition ex_s2 :: edge_db where
  "ex_s2 = edge_init\<lparr>ssp_edge_delivery_state := [ex_key \<mapsto> ex_state_row 1 ''reconciliation_required'' ''authoritative_reconciliation''],
     ssp_edge_deliveries := [ex_rejected_row]\<rparr>"

definition ex_s3 :: edge_db where
  "ex_s3 = ex_s2\<lparr>ssp_edge_delivery_state := [ex_key \<mapsto> ex_state_row 1 ''active'' []]\<rparr>"

lemma ex_identity_simps [simp]: "identity_key ex_identity = ex_key" "EdgeIdentity_validate ex_identity = None"
  "id_TenantID ex_identity = ''t''" "id_EdgeID ex_identity = ''e''" "id_Generation ex_identity = 1"
  by (simp_all add: identity_key_def EdgeIdentity_validate_def edge_identity_def ex_server_def ex_workload_def)

lemma ex_delivery_state: "ssp_edge_delivery_state db ex_key = Some r \<Longrightarrow> DeliveryState ex_edge ex_tx ex_identity db = Inr (state_of_row ex_identity r)"
  "ssp_edge_delivery_state db ex_key = None \<Longrightarrow> DeliveryState ex_edge ex_tx ex_identity db = Inr ((zero_state ex_identity)\<lparr>gs_Mode := DeliveryModeActive\<rparr>)"
  by (simp_all add: DeliveryState_def)

lemma ex_require: "RequireReconciliation ex_edge ex_tx ex_identity 0 ''authoritative_reconciliation'' 1 edge_init = (Inr (), ex_s1)"
  by (simp add: RequireReconciliation_def edge_transaction_def requireReconciliationTx_def deliveryStateTx_def zero_state_def
      ex_s1_def ex_state_row_def edge_init_def zero_time_def Let_def)

lemma ex_complete: "CompleteReconciliation ex_edge ex_tx ex_identity 1 1 1 ex_s2 = (Inr (), ex_s3)"
  by (simp add: CompleteReconciliation_def edge_transaction_def ex_s2_def ex_s3_def ex_state_row_def edge_init_def zero_time_def Let_def
      deliveryStateTx_def state_of_row_def)

lemma ex_dl [simp]:
  "jd_TenantID (page_delivery ex_identity ex_entry) = ''t''" "jd_DeliverySeq (page_delivery ex_identity ex_entry) = 1"
  "identity_key (delivery_identity (page_delivery ex_identity ex_entry)) = ex_key"
  "jd_Raw (page_delivery ex_identity ex_entry) = ''case''" "jd_Sequence (page_delivery ex_identity ex_entry) = 0"
  by (simp_all add: page_delivery_def identity_key_def delivery_identity_def ex_rows)

lemma ex_valid_dl: "validateDelivery (page_delivery ex_identity ex_entry) VerdictRejected ''malformed_envelope'' None 1 = None"
  by (simp add: validateDelivery_def page_delivery_def ex_rows zero_time_def edgeDeliverySubject_def)

lemma ex_rejects: "applyReconciled ex_edge ex_tx (page_delivery ex_identity ex_entry) VerdictRejected ''malformed_envelope'' None 1 ex_s1
    = (Inr ApplyRejected, ex_s2)"
  unfolding applyReconciled_def
  by (rule applyVerified_valid)
    (simp_all add: ex_valid_dl ex_work ex_s1_def ex_s2_def ex_state_row_def ex_rejected_row_def edge_init_def state_of_row_def
      delivery_row_of_def)

lemma ex_pass:
  "Reconcile ex_edge (\<lambda>k. ex_tx) (ex_verify ex_db2) (Some (edge_fetch ex_workload (ex_exchange ex_db2))) 1
      \<lparr>jc_identity = ex_identity, jc_halted = True\<rparr> ex_s1
    = ((\<lparr>rs_Applied = 1, rs_HighWatermark = 1, rs_CompleteThrough = 1, rs_Resumed = True\<rparr>, None),
       \<lparr>jc_identity = ex_identity, jc_halted = False\<rparr>, ex_s3)"
proof -
  let ?c = "\<lparr>jc_identity = ex_identity, jc_halted = True\<rparr>"
  have st: "DeliveryState ex_edge ex_tx ex_identity ex_s1 = Inr (state_of_row ex_identity (ex_state_row 0 ''reconciliation_required'' ''authoritative_reconciliation''))"
    "DeliveryState ex_edge ex_tx ex_identity ex_s2 = Inr (state_of_row ex_identity (ex_state_row 1 ''reconciliation_required'' ''authoritative_reconciliation''))"
    by (simp_all add: ex_delivery_state ex_s1_def ex_s2_def)
  have applied: "apply_delivery ex_edge ex_tx (ex_verify ex_db2) ?c (page_delivery ex_identity ex_entry) 1 True ex_s1 = (Inr ApplyRejected, ex_s2)"
    by (simp add: apply_delivery_def ex_settles Permanent_def ex_rejects)
  have "names_identity ex_identity (page_delivery ex_identity ex_entry)" by (simp add: names_identity_def page_delivery_def)
  then show ?thesis
    by (simp add: Reconcile_def st ex_fetch state_of_row_def ex_state_row_def zero_result_def wrap64_def applied Let_def
        finish_reconcile_def ex_complete)
qed

lemma ex_start: "start_edge 2 ex_edge (ex_turn ex_db2) ex_identity edge_init = Some (Inr \<lparr>jc_identity = ex_identity, jc_halted = False\<rparr>, ex_s3)"
proof -
  have st: "DeliveryState ex_edge ex_tx ex_identity edge_init = Inr ((zero_state ex_identity)\<lparr>gs_Mode := DeliveryModeActive\<rparr>)"
    "DeliveryState ex_edge ex_tx ex_identity ex_s1 = Inr (state_of_row ex_identity (ex_state_row 0 ''reconciliation_required'' ''authoritative_reconciliation''))"
    "DeliveryState ex_edge ex_tx ex_identity ex_s3 = Inr (state_of_row ex_identity (ex_state_row 1 ''active'' []))"
    by (simp_all add: ex_delivery_state ex_s1_def ex_s3_def edge_init_def)
  have "NewJournalConsumer (Some ex_edge) ex_tx (Some v) ex_identity ex_s1 = Inr \<lparr>jc_identity = ex_identity, jc_halted = True\<rparr>"
    "NewJournalConsumer (Some ex_edge) ex_tx (Some v) ex_identity ex_s3 = Inr \<lparr>jc_identity = ex_identity, jc_halted = False\<rparr>" for v
    by (simp_all add: NewJournalConsumer_def st state_of_row_def ex_state_row_def)
  then show ?thesis
    by (simp add: start_edge_def reconcileAuthoritativeEdge_def ex_turn_def st zero_state_def ex_require zero_time_def
        reconcile_loop.simps ex_pass)
qed

definition ex_pull :: JetStreamPullConsumer where
  "ex_pull = \<lparr>jp_identity = ex_identity, jp_spec = \<lparr>cs_Stream = StreamName, cs_Durable = ''edge'', cs_FilterSubject = edgeDeliverySubject ex_identity\<rparr>,
     jp_fetchWait = defaultJetStreamFetchWait\<rparr>"

abbreviation ex_waiting :: edge_system where
  "ex_waiting \<equiv> \<lparr>sy_authority = ex_db2, sy_consumer = None, sy_edge = edge_init\<rparr>"

abbreviation ex_running :: edge_system where
  "ex_running \<equiv> \<lparr>sy_authority = ex_db2, sy_consumer = Some \<lparr>jc_identity = ex_identity, jc_halted = False\<rparr>, sy_edge = ex_s3\<rparr>"

lemma ex_during: "ex_db2 \<in> during st ex_db2 ex_db2"
  by (simp add: during_def)

lemma ex_server_store: "hs_authority ex_server = ex_store"
  by (simp add: ex_server_def)

lemma ex_waiting_reachable: "system_reachable ex_crypto ex_server ex_trust ex_workload ex_edge ex_waiting"
  using ex_reachable(2) system_commits [of ex_server system_init ex_db2]
  by (simp add: system_reachable_def system_init_def authority_reachable_def ex_server_store)

lemma ex_system_step: "system_step ex_crypto ex_server ex_trust ex_workload ex_edge ex_waiting ex_running"
proof -
  have start: "start_edge 2 ex_edge (ex_turn ex_db2) ex_identity (sy_edge ex_waiting)
      = Some (Inr \<lparr>jc_identity = ex_identity, jc_halted = False\<rparr>, ex_s3)" by (simp add: ex_start)
  have over: "turn_over ex_crypto ex_server ex_trust ex_workload (during (hs_authority ex_server) (sy_authority ex_waiting) ex_db2) (ex_turn ex_db2)"
    by (rule ex_turn_over) (simp add: during_def)
  show ?thesis using system_step.start [OF _ over start] by simp
qed

lemma ex_running_reachable: "system_reachable ex_crypto ex_server ex_trust ex_workload ex_edge ex_running"
  using ex_waiting_reachable ex_system_step unfolding system_reachable_def by (rule rtranclp.rtrancl_into_rtrancl)

lemma ex_copy: "edge_log ex_identity ex_s3 = [(1, hash ''case'')]"
  by (simp add: edge_log_def log_of_def ex_s3_def ex_s2_def ex_rejected_row_def delivery_row_of_def)

lemma ex_log: "authority_log ex_identity ex_db2 = [(1, hash ''case'')]"
  by (simp add: authority_log_def ex_rows)

section \<open>Properties\<close>

text \<open>
  C1. The edge is a replica of the authority.  Seen as the authority's log of the edge's incarnation and the
  edge's own log of it, each by sequence and content hash, every step of the running system, whatever the
  broker delivers, whatever fails on the way and however the authority's commits fall between the edge's reads, is a
  sequence of steps of the specification: the log grows at its end, or the copy takes the next entry of
  the log.  So the edge's log is at any time the beginning of the authority's.
\<close>

theorem edge_refines_replica:
  assumes "system_reachable cr srv trust w d s" and "system_step cr srv trust w d s s'"
  shows "replica_step\<^sup>*\<^sup>* ([], []) (replica_of (edge_identity srv w) s)
    \<and> replica_step\<^sup>*\<^sup>* (replica_of (edge_identity srv w) s) (replica_of (edge_identity srv w) s')
    \<and> prefix (edge_log (edge_identity srv w) (sy_edge s')) (authority_log (edge_identity srv w) (sy_authority s'))"
proof -
  have "replica_of (edge_identity srv w) system_init = ([], [])"
    by (simp add: replica_of_def system_init_def authority_log_def edge_rows_def empty_db_def edge_log_def log_of_def edge_init_def)
  moreover have "system_reachable cr srv trust w d s'"
    using assms unfolding system_reachable_def by (rule rtranclp.rtrancl_into_rtrancl)
  ultimately show ?thesis
    using system_reachable_inv [OF assms(1)] system_reachable_inv [of cr srv trust w d s'] system_step_simulates [OF assms(2)]
    by (simp add: system_inv_def copies_def)
qed

theorem edge_refines_replica_witness:
  "replica_step\<^sup>*\<^sup>* ([], []) (replica_of ex_identity ex_waiting)
    \<and> replica_step\<^sup>*\<^sup>* (replica_of ex_identity ex_waiting) (replica_of ex_identity ex_running)
    \<and> replica_of ex_identity ex_waiting = ([(1, hash ''case'')], [])
    \<and> replica_of ex_identity ex_running = ([(1, hash ''case'')], [(1, hash ''case'')])"
  using edge_refines_replica [OF ex_waiting_reachable ex_system_step]
  by (simp add: replica_of_def ex_copy ex_log) (simp add: edge_log_def log_of_def edge_init_def)

text \<open>
  C5. The consumer loop never hangs in a reconciliation.  However the authority advances meanwhile, each turn of
  the loop of a running edge, a delivery, a repair after a halt or the periodic reconciliation, ends within at
  most one round more than there are deliveries in the authority's log.
\<close>

theorem consumer_loop_terminates:
  assumes "system_reachable cr srv trust w d s" and "sy_consumer s = Some c"
    and "(authority_step (hs_authority srv))\<^sup>*\<^sup>* (sy_authority s) adb'"
    and "\<forall>t \<in> set ts. turn_over cr srv trust w (during (hs_authority srv) (sy_authority s) adb') t"
    and "length (authority_log (edge_identity srv w) adb') < fuel"
  shows "\<exists>c' db'. runEdgeConsumer fuel d pull ts (c, sy_edge s) = Some (c', db')"
proof -
  have inv: "system_inv (edge_identity srv w) d s" using system_reachable_inv [OF assms(1)] by (rule conjunct1)
  then have old: "authority_inv (sy_authority s)" "copies (authority_log (edge_identity srv w) (sy_authority s)) (edge_identity srv w) (sy_edge s)"
    "jc_identity c = edge_identity srv w" using assms(2) by (auto simp: system_inv_def)
  show ?thesis
    using loop_ends [OF authority_log_numbered [OF authority_steps_inv [OF assms(3) old(1)]] assms(5,4)
        copies_grow [OF old(2) authority_log_grows [OF assms(3)]] old(3)] .
qed

theorem consumer_loop_terminates_witness:
  "length (authority_log ex_identity ex_db2) = 1
    \<and> (\<exists>c' db'. runEdgeConsumer 2 ex_edge ex_pull
         [ex_turn ex_db2, (ex_turn ex_db2)\<lparr>tu_due := True\<rparr>] (\<lparr>jc_identity = ex_identity, jc_halted = False\<rparr>, ex_s3) = Some (c', db'))"
proof -
  have "turn_over ex_crypto ex_server ex_trust ex_workload states (t\<lparr>tu_due := True\<rparr>)"
    if "turn_over ex_crypto ex_server ex_trust ex_workload states t" for states t
    using that by (simp add: turn_over_def)
  then have "\<forall>t \<in> set [ex_turn ex_db2, (ex_turn ex_db2)\<lparr>tu_due := True\<rparr>].
      turn_over ex_crypto ex_server ex_trust ex_workload (during ex_store ex_db2 ex_db2) t"
    using ex_turn_over [OF ex_during] by simp
  then show ?thesis
    using consumer_loop_terminates [OF ex_running_reachable, of "\<lparr>jc_identity = ex_identity, jc_halted = False\<rparr>" ex_db2
        "[ex_turn ex_db2, (ex_turn ex_db2)\<lparr>tu_due := True\<rparr>]" 2 ex_pull]
    by (simp add: ex_log ex_server_store)
qed

text \<open>
  C6. A started edge has caught up.  Starting an edge against the authority always ends, within at most one round
  more than there are deliveries in the authority's log, and when it succeeds the edge's log is exactly the authority's log of some moment during the start.
\<close>

theorem started_edge_caught_up:
  assumes "system_reachable cr srv trust w d s"
    and "(authority_step (hs_authority srv))\<^sup>*\<^sup>* (sy_authority s) adb'"
    and "turn_over cr srv trust w (during (hs_authority srv) (sy_authority s) adb') t"
    and "length (authority_log (edge_identity srv w) adb') < fuel"
  shows "\<exists>r db'. start_edge fuel d t (edge_identity srv w) (sy_edge s) = Some (r, db')
    \<and> (\<forall>c. r = Inr c \<longrightarrow> (\<exists>m \<in> during (hs_authority srv) (sy_authority s) adb'.
          edge_log (edge_identity srv w) db' = authority_log (edge_identity srv w) m))"
proof -
  have inv: "system_inv (edge_identity srv w) d s" using system_reachable_inv [OF assms(1)] by (rule conjunct1)
  then have old: "authority_inv (sy_authority s)" "copies (authority_log (edge_identity srv w) (sy_authority s)) (edge_identity srv w) (sy_edge s)"
    by (auto simp: system_inv_def)
  show ?thesis
    using start_ends [OF authority_steps_inv [OF assms(2) old(1)] old(1) assms(3)
        copies_grow [OF old(2) authority_log_grows [OF assms(2)]] assms(4), of d] by blast
qed

theorem started_edge_caught_up_witness:
  "start_edge 2 ex_edge (ex_turn ex_db2) ex_identity edge_init = Some (Inr \<lparr>jc_identity = ex_identity, jc_halted = False\<rparr>, ex_s3)
    \<and> (\<exists>m \<in> during ex_store ex_db2 ex_db2. edge_log ex_identity ex_s3 = authority_log ex_identity m)"
  using started_edge_caught_up [OF ex_waiting_reachable, of ex_db2 "ex_turn ex_db2" 2] ex_turn_over [OF ex_during]
  by (simp add: ex_start ex_log ex_server_store)

text \<open>
  C4. Nothing is settled that the authority does not hold.  When an edge's verifier gives a verdict it will act on,
  an acceptance or a permanent rejection, on a well-formed delivery for the edge, the authority it read holds exactly
  these bytes under this sequence in the edge's log; anything else is only ever a transient failure.
\<close>

theorem settled_delivery_committed:
  assumes "names_identity (edge_identity srv w) dl" and "deliverable dl"
    and "settled (edge_verify cr srv trust w (\<lambda>dl. connection cr srv (fault dl) (env dl) (tls dl) adb) dl)"
  shows "(jd_DeliverySeq dl, jd_Raw dl) \<in> set (authority_deliveries (edge_identity srv w) adb)"
  using assms by (rule http.authentic)

theorem settled_delivery_committed_witness:
  "ex_verify ex_db2 (page_delivery ex_identity ex_entry) = permanent ''malformed_envelope''
    \<and> (1, ''case'') \<in> set (authority_deliveries ex_identity ex_db2)"
  using settled_delivery_committed [of ex_server ex_workload "page_delivery ex_identity ex_entry" ex_crypto ex_trust
      "\<lambda>dl path. None" "\<lambda>dl. ex_api" "\<lambda>dl. Some ex_peer" ex_db2] ex_settles
  by (simp add: ex_verify_def ex_exchange_def Permanent_def names_identity_def deliverable_def page_delivery_def ex_rows)

end
