(* ===== verification/Spec2Isabelle.thy ===== *)
theory Spec2Isabelle
  imports Authority_Reads Delivery_Run Turn_Properties Ssp_Properties Registry_Properties Control_Properties
    Carrier_Roundtrip Edge_System_Properties
begin

text \<open>
  \<^bold>\<open>The program.\<close>  Snagline carries signed support cases from edges to one semantic authority and the
  advice on them back.  Its parts under \<^verbatim>\<open>src/\<close> and how they interact:

  \<^item> An edge (\<^verbatim>\<open>internal/edge\<close>, \<^verbatim>\<open>internal/sspedge\<close>, \<^verbatim>\<open>cmd/snagline-edge\<close>) signs a case, keeps the
    signed wire in an encrypted spool and submits it over mutual TLS.
  \<^item> The control plane (\<^verbatim>\<open>internal/controlhttp\<close>, \<^verbatim>\<open>internal/controlapi\<close>) checks the workload identity, the
    envelope (\<^verbatim>\<open>internal/ssp\<close>) and the registry it names (\<^verbatim>\<open>internal/registry\<close>, \<^verbatim>\<open>internal/registrygraph\<close>)
    and admits it to the authority.
  \<^item> The authority (\<^verbatim>\<open>internal/authority\<close>, \<^verbatim>\<open>internal/authority/postgres\<close>) commits registries, cases and advice
    in serializable transactions, each with its audit row, its row in the delivery log of an edge and
    its outbox rows.
  \<^item> A delivery worker (\<^verbatim>\<open>internal/delivery/outbox\<close>, \<^verbatim>\<open>internal/deliverystream\<close>) leases outbox rows and
    publishes them to JetStream.
  \<^item> The edge consumes the stream, verifies every delivery against the authority, appends it to its own log
    and projection, and repairs gaps by reading the log from the authority in pages.  Local fronts lease the
    advice of the projection; a dispatcher guards its turns against replay in the same store.

  \<^bold>\<open>Theories and sources.\<close>  Every theory keeps the names of the code; records and datatypes are its structs
  and enumerations, and an operation is a function from its arguments, its environment and the state to its
  result and the state.

  \<^item> \<^verbatim>\<open>Snag_Prelude\<close>: Go strings and bytes, 64-bit wrap-around, UTF-8, row updates, the interface
    \<^verbatim>\<open>write_once\<close>.  \<^verbatim>\<open>Sha256\<close>, \<^verbatim>\<open>Sha256_Vectors\<close>: SHA-256 on 32-bit words.  \<^verbatim>\<open>Go_Json\<close>, \<^verbatim>\<open>Go_Json_Read\<close>: what the
    code uses of \<^verbatim>\<open>encoding/json\<close>.  \<^verbatim>\<open>Go_Time\<close>: \<^verbatim>\<open>sqlTime\<close> and \<^verbatim>\<open>parseSQLTime\<close> of \<^verbatim>\<open>sspedge/store.go\<close>.
  \<^item> \<^verbatim>\<open>Authority\<close> is \<^verbatim>\<open>authority.go\<close>; \<^verbatim>\<open>Authority_Db\<close> the tables, constraints and statements of
    \<^verbatim>\<open>0001_authority.up.sql\<close>; \<^verbatim>\<open>Authority_Store\<close> is \<^verbatim>\<open>postgres/store.go\<close> (\<^verbatim>\<open>CommitCase\<close>, \<^verbatim>\<open>CommitAdvice\<close>,
    \<^verbatim>\<open>CommitRegistry\<close>, \<^verbatim>\<open>transaction\<close> and the reads); \<^verbatim>\<open>Outbox\<close> is \<^verbatim>\<open>postgres/outbox.go\<close> (\<^verbatim>\<open>Claim\<close>, \<^verbatim>\<open>MarkPublished\<close>,
    \<^verbatim>\<open>Release\<close>).
  \<^item> \<^verbatim>\<open>Delivery_Stream\<close> is \<^verbatim>\<open>deliverystream/stream.go\<close>; \<^verbatim>\<open>Delivery_Worker\<close> is \<^verbatim>\<open>delivery/outbox/worker.go\<close>.
  \<^item> \<^verbatim>\<open>Ssp_Envelope\<close>, \<^verbatim>\<open>Ssp_Family\<close>, \<^verbatim>\<open>Ssp_Verify\<close>: the envelopes, bodies, signatures and commitments of
    \<^verbatim>\<open>internal/ssp\<close>.  \<^verbatim>\<open>Registry\<close>: \<^verbatim>\<open>registrygraph/validate.go\<close> and \<^verbatim>\<open>internal/registry\<close>.
  \<^item> \<^verbatim>\<open>Control_Api\<close> is \<^verbatim>\<open>controlapi/service.go\<close>; \<^verbatim>\<open>Control_Http\<close> is \<^verbatim>\<open>controlhttp/server.go\<close> with the calls of
    \<^verbatim>\<open>controlclient/client.go\<close>.
  \<^item> \<^verbatim>\<open>Edge_Tables\<close>, \<^verbatim>\<open>Edge_Store\<close>, \<^verbatim>\<open>Edge_Front\<close>: the tables of \<^verbatim>\<open>sspedge/store.go\<close>, the delivery log with its
    projection, and the front outbox.  \<^verbatim>\<open>Edge_Spool\<close> is \<^verbatim>\<open>edge_case_store.go\<close> and \<^verbatim>\<open>edge_advice_spool.go\<close>;
    \<^verbatim>\<open>Dispatcher_Turns\<close> is \<^verbatim>\<open>dispatcher_turn_store.go\<close>; \<^verbatim>\<open>Edge_Service\<close> is \<^verbatim>\<open>edge/service.go\<close>.
  \<^item> \<^verbatim>\<open>Edge_Consumer\<close> is \<^verbatim>\<open>consumer.go\<close>, \<^verbatim>\<open>authority_reconciler.go\<close> and \<^verbatim>\<open>jetstream_consumer.go\<close>;
    \<^verbatim>\<open>Authority_Verifier\<close> is \<^verbatim>\<open>authority_verifier.go\<close>; \<^verbatim>\<open>Edge_System\<close> is the process of
    \<^verbatim>\<open>cmd/snagline-edge/runtime.go\<close> (start, consumer loop, periodic reconciliation) together with the authority
    it reads.

  \<^bold>\<open>State and interleaving.\<close>  The authority's state is the record \<^verbatim>\<open>authority_db\<close>.  A step
  (\<^verbatim>\<open>authority_step\<close>) is one attempt of a commit transaction or one outbox operation; what other clients
  commit in between, statement failures, lost insert races, failed rollbacks and commits whose outcome is
  unknown are arguments of the attempt.  The edge's state is \<^verbatim>\<open>edge_db\<close>; \<^verbatim>\<open>edge_step\<close> is any writer of the
  store, \<^verbatim>\<open>edge_run\<close> a sequence of them.  \<^verbatim>\<open>system_step\<close> puts a running edge beside an authority that goes on
  committing while the edge reads it.  Failures are values: every error, panic and early return of the
  modelled code is a branch of the model.

  \<^bold>\<open>What is proved.\<close>

  \<^item> \<^verbatim>\<open>Authority_Outcomes\<close>, \<^verbatim>\<open>Authority_Invariant\<close>, \<^verbatim>\<open>Authority_System\<close> give each transaction its possible outcomes, the
    invariant of the database in every reachable state and the monotone evolution of committed rows.
    \<^verbatim>\<open>Authority_Records\<close>, \<^verbatim>\<open>Authority_Properties\<close> and \<^verbatim>\<open>Authority_Reads\<close> draw from them: history is immutable,
    a fact is committed with all its rows or not at all, delivery logs are contiguous, a case and its final
    advice are written once and keep their receipt, a registry fork halts the tenant, a halt freezes what
    is committed for it, and a page of the log is exact.
  \<^item> \<^verbatim>\<open>Outbox_Properties\<close> and \<^verbatim>\<open>Delivery_Run\<close>: a claim leases exactly what it selects, a live lease is fenced by its
    token, a closed row is final, every claimed item is published as its committed fact says, a row is
    closed as published only after an acknowledgement, and an undisturbed pass publishes all it claimed.
    \<^verbatim>\<open>Carrier_Roundtrip\<close>: the edge reads back from a message what the worker wrote.
  \<^item> \<^verbatim>\<open>Ssp_Properties\<close>, \<^verbatim>\<open>Registry_Properties\<close>, \<^verbatim>\<open>Control_Properties\<close>: the scan of received bytes ends with a verdict,
    canonical base64 is unique, the registry graph check decides what it means, and nothing is admitted
    without a signature of a key that a committed, root-verified registry gives to the sender.
  \<^item> \<^verbatim>\<open>Edge_Log\<close>, \<^verbatim>\<open>Edge_Projection\<close>, \<^verbatim>\<open>Edge_Properties\<close>: the edge's log is contiguous, redelivery is a duplicate or a
    conflict that halts, a halted incarnation resumes only by a completed reconciliation, quarantined
    content stays hidden, and fronts see only bound advice.  \<^verbatim>\<open>Edge_Spool_Properties\<close>, \<^verbatim>\<open>Turn_Properties\<close>: the spool
    keeps wires and acceptances exactly; a claimed turn is exclusive and a completed one is replayed.
  \<^item> \<^verbatim>\<open>Edge_Replica\<close>, \<^verbatim>\<open>Authority_Http\<close>, \<^verbatim>\<open>Edge_System\<close>, \<^verbatim>\<open>Edge_System_Properties\<close>: the running edge refines a replica that
    takes the entries of the authority's log one by one; a settled verdict concerns bytes the authority holds;
    the consumer loop and the start of an edge end, and a started edge has caught up.

  \<^bold>\<open>Interfaces.\<close>  \<^verbatim>\<open>write_once\<close> (a slot is filled once and keeps its value) is interpreted by the committed
  cases, the committed advice and the case spool.  \<^verbatim>\<open>delivery_pass\<close> (what the worker relies on in its source
  and publisher) is interpreted by the PostgreSQL outbox with JetStream.  \<^verbatim>\<open>exact_deliveries\<close> and
  \<^verbatim>\<open>authentic_deliveries\<close> (what a consumer relies on in its verifier, by hash and by bytes) are interpreted by the
  edge's verifier over HTTP.  The theories \<^verbatim>\<open>Authority_Example\<close> and \<^verbatim>\<open>Edge_Example\<close> hold concrete runs, to which the
  properties are applied.

  \<^bold>\<open>Bounds and fuel.\<close>  The retry loop has the three attempts of the code.  JSON reading and the scan of received
  bytes take twice the length of the text and two more as fuel; \<^verbatim>\<open>Go_Json_Read\<close> shows that more changes nothing
  and \<^verbatim>\<open>Ssp_Properties\<close> that the scan never runs out.  The reconciliation loops of the edge return
  \<^verbatim>\<open>None\<close> when their fuel is used up; one round more than the length of the authority's log is always enough.
  Integers are unbounded with \<^verbatim>\<open>wrap64\<close> where the code can overflow; SHA-256 uses 32-bit words.

  \<^bold>\<open>Parameters.\<close>  Ed25519, the canonical JSON of the signed bytes, the AEAD cipher with its nonces and random
  bytes, UUIDs, clocks, the NATS client, the HTTP exchange and the answers of the database to \<^verbatim>\<open>BEGIN\<close> and
  \<^verbatim>\<open>COMMIT\<close> are arguments.  Where a property relies on one of them, its statement says so: the cipher opens
  what it sealed under a nonce of its own length.

  \<^bold>\<open>Not modelled.\<close>  Process entry points, flags and environment, key files, certificates and TLS handshakes, NATS and
  database connections, the local HTTP API of the edge with its client, the dispatcher's servers, the chat
  projection, the fronts' presentation and provisioning: they are input and output around the modelled
  operations.  PostgreSQL and SQLite are the tables with their constraints; a statement that a text column
  refuses for its encoding is one of the failures an attempt may meet.  Of the HTTP client, the check of its
  configuration, the decoding of responses and their limit of one mebibyte are left out: the exchange
  returns the response as a value.
\<close>

end
